(* ===== verification/Prelude.thy ===== *)
theory Prelude
  imports Main "HOL-Library.Word" "HOL-Library.Sublist" "HOL-Library.Char_ord" "HOL-Library.List_Lexorder"
begin

text \<open>
  Shared vocabulary of the development: results and panics, the parts of the Rust string
  API the program uses (on UTF-8 bytes), association-list maps, the keyed-store interface
  with its two providers, and the fact collections the component theories add to.

  A \<^typ>\<open>string\<close> is the UTF-8 encoding of a Rust \<open>str\<close>, one \<^typ>\<open>char\<close> per byte.
\<close>

named_theorems literal_defs "definitions of the string constants of the program"
named_theorems frame_simps "fields and operations an update leaves unchanged"
named_theorems inv_intros "an operation keeps the invariant of its component"

section \<open>Results and panics\<close>

text \<open>
  \<open>Result<T, E>\<close> is \<open>'e + 'a\<close>. A computation that can also panic has
  \<open>'e fault + 'a\<close>: \<open>Fail e\<close> is a returned \<open>Err(e)\<close>, \<open>Panicked\<close> an unwinding
  panic (for instance indexing a JSON string as an object).
\<close>

datatype 'e fault = Fail 'e | Panicked

fun and_then :: "'e + 'a \<Rightarrow> ('a \<Rightarrow> 'e + 'b) \<Rightarrow> 'e + 'b" where
  "and_then (Inl e) f = Inl e"
| "and_then (Inr x) f = f x"

fun map_err :: "('e \<Rightarrow> 'f) \<Rightarrow> 'e + 'a \<Rightarrow> 'f + 'a" where
  "map_err f (Inl e) = Inl (f e)"
| "map_err f (Inr x) = Inr x"

fun map_fault :: "('e \<Rightarrow> 'f) \<Rightarrow> 'e fault \<Rightarrow> 'f fault" where
  "map_fault f (Fail e) = Fail (f e)"
| "map_fault f Panicked = Panicked"

definition ok_or :: "'e \<Rightarrow> 'a option \<Rightarrow> 'e + 'a" where
  "ok_or e x = (case x of None \<Rightarrow> Inl e | Some y \<Rightarrow> Inr y)"

definition ensure :: "bool \<Rightarrow> 'e \<Rightarrow> 'e + unit" where
  "ensure c e = (if c then Inr () else Inl e)"

definition is_ok :: "'e + 'a \<Rightarrow> bool" where
  "is_ok r = (case r of Inl _ \<Rightarrow> False | Inr _ \<Rightarrow> True)"

lemma is_ok_simps [simp]: "\<not> is_ok (Inl e)" "is_ok (Inr x)"
  by (simp_all add: is_ok_def)

lemma is_ok_iff: "is_ok r \<longleftrightarrow> (\<exists>x. r = Inr x)"
  by (cases r) simp_all

lemma and_then_Inr_iff [simp]:
  "and_then r f = Inr y \<longleftrightarrow> (\<exists>x. r = Inr x \<and> f x = Inr y)"
  by (cases r) simp_all

lemma and_then_Inl_iff:
  "and_then r f = Inl e \<longleftrightarrow> r = Inl e \<or> (\<exists>x. r = Inr x \<and> f x = Inl e)"
  by (cases r) auto

lemma map_err_Inr_iff [simp]: "map_err f r = Inr x \<longleftrightarrow> r = Inr x"
  by (cases r) simp_all

lemma map_err_Inl_iff: "map_err f r = Inl e \<longleftrightarrow> (\<exists>e'. r = Inl e' \<and> e = f e')"
  by (cases r) auto

lemma ok_or_Inr_iff [simp]: "ok_or e x = Inr y \<longleftrightarrow> x = Some y"
  by (simp add: ok_or_def split: option.splits)

lemma ok_or_Some [simp]: "ok_or e (Some y) = Inr y"
  by (simp add: ok_or_def)

lemma ok_or_None [simp]: "ok_or e None = Inl e"
  by (simp add: ok_or_def)

lemma ensure_Inr_iff [simp]: "ensure c e = Inr u \<longleftrightarrow> c"
  by (simp add: ensure_def)

lemma ensure_True [simp]: "ensure True e = Inr ()"
  by (simp add: ensure_def)

lemma ensure_False [simp]: "ensure False e = Inl e"
  by (simp add: ensure_def)

text \<open>The \<open>for x in xs { f(x)?; }\<close> loop: stops at the first error.\<close>

fun try_all :: "('a \<Rightarrow> 'e + unit) \<Rightarrow> 'a list \<Rightarrow> 'e + unit" where
  "try_all f [] = Inr ()"
| "try_all f (x # xs) = and_then (f x) (\<lambda>_. try_all f xs)"

lemma try_all_Inr_iff [simp]: "try_all f xs = Inr u \<longleftrightarrow> (\<forall>x\<in>set xs. f x = Inr ())"
  by (induction xs) auto

section \<open>Byte strings\<close>

definition ascii_lower_char :: "char \<Rightarrow> char" where
  "ascii_lower_char c =
     (let n = of_char c :: nat in if 65 \<le> n \<and> n \<le> 90 then char_of (n + 32) else c)"

definition ascii_upper_char :: "char \<Rightarrow> char" where
  "ascii_upper_char c =
     (let n = of_char c :: nat in if 97 \<le> n \<and> n \<le> 122 then char_of (n - 32) else c)"

definition to_ascii_lowercase :: "string \<Rightarrow> string" where
  "to_ascii_lowercase s = List.map ascii_lower_char s"

definition to_ascii_uppercase :: "string \<Rightarrow> string" where
  "to_ascii_uppercase s = List.map ascii_upper_char s"

definition eq_ignore_ascii_case :: "string \<Rightarrow> string \<Rightarrow> bool" where
  "eq_ignore_ascii_case a b = (to_ascii_lowercase a = to_ascii_lowercase b)"

definition starts_with :: "string \<Rightarrow> string \<Rightarrow> bool" where
  "starts_with s p = prefix p s"

definition contains_str :: "string \<Rightarrow> string \<Rightarrow> bool" where
  "contains_str s t = sublist t s"

text \<open>The UTF-8 encodings of the characters with the Unicode property \<open>White_Space\<close>,
  which is what \<open>str::trim\<close> removes at both ends.\<close>

definition white_space :: "string list" where
  "white_space = List.map (List.map char_of)
     ([[9], [10], [11], [12], [13], [32], [194, 133], [194, 160], [225, 154, 128],
       [226, 128, 128], [226, 128, 129], [226, 128, 130], [226, 128, 131], [226, 128, 132],
       [226, 128, 133], [226, 128, 134], [226, 128, 135], [226, 128, 136], [226, 128, 137],
       [226, 128, 138], [226, 128, 168], [226, 128, 169], [226, 128, 175], [226, 129, 159],
       [227, 128, 128]] :: nat list list)"

definition strip_one :: "string list \<Rightarrow> string \<Rightarrow> string option" where
  "strip_one ws s =
     (case List.find (\<lambda>w. w \<noteq> [] \<and> prefix w s) ws of
        None \<Rightarrow> None | Some w \<Rightarrow> Some (drop (length w) s))"

lemma strip_one_shorter: "strip_one ws s = Some t \<Longrightarrow> length t < length s"
  by (auto simp: strip_one_def find_Some_iff prefix_def split: option.splits)

function trim_start_by :: "string list \<Rightarrow> string \<Rightarrow> string" where
  "trim_start_by ws s = (case strip_one ws s of None \<Rightarrow> s | Some t \<Rightarrow> trim_start_by ws t)"
  by pat_completeness auto
termination
  by (relation "measure (\<lambda>(ws, s). length s)") (auto dest: strip_one_shorter)

declare trim_start_by.simps [simp del]

definition trim_start :: "string \<Rightarrow> string" where
  "trim_start s = trim_start_by white_space s"

definition trim_end :: "string \<Rightarrow> string" where
  "trim_end s = rev (trim_start_by (List.map rev white_space) (rev s))"

definition trim :: "string \<Rightarrow> string" where
  "trim s = trim_end (trim_start s)"

definition newline :: string where
  "newline = [CHR 0x0A]"

definition hyphen :: char where
  "hyphen = CHR 0x2D"

definition is_ascii_digit :: "char \<Rightarrow> bool" where
  "is_ascii_digit c = (let n = of_char c :: nat in 48 \<le> n \<and> n \<le> 57)"

definition digit_value :: "char \<Rightarrow> nat" where
  "digit_value c = of_char c - 48"

text \<open>
  Decimal numerals: \<open>show_nat\<close> is \<open>Display\<close> of an unsigned integer, \<open>parse_digits\<close> the
  digit loop of \<open>from_str\<close> without its overflow check.
\<close>

fun show_nat :: "nat \<Rightarrow> string" where
  "show_nat n = (if n < 10 then [char_of (48 + n)] else show_nat (n div 10) @ [char_of (48 + n mod 10)])"

declare show_nat.simps [simp del]

definition digits_value :: "string \<Rightarrow> nat" where
  "digits_value s = foldl (\<lambda>acc c. 10 * acc + digit_value c) 0 s"

text \<open>\<open>str::parse::<u32>\<close>: one optional leading \<open>+\<close>, at least one digit, no overflow.\<close>

definition parse_u32 :: "string \<Rightarrow> nat option" where
  "parse_u32 s =
     (let ds = (case s of c # cs \<Rightarrow> if c = CHR 0x2B then cs else s | [] \<Rightarrow> [])
      in if ds \<noteq> [] \<and> list_all is_ascii_digit ds \<and> digits_value ds < 2 ^ 32
         then Some (digits_value ds) else None)"

text \<open>\<open>str::rsplit_once(c)\<close>: the parts before and after the last \<open>c\<close>.\<close>

definition rsplit_once :: "char \<Rightarrow> string \<Rightarrow> (string \<times> string) option" where
  "rsplit_once c s =
     (if c \<in> set s
      then (let r = rev s; after = takeWhile (\<lambda>x. x \<noteq> c) r
            in Some (rev (drop (Suc (length after)) r), rev after))
      else None)"

text \<open>\<open>Debug\<close> of a string and of an optional string: quoted, with the escapes of
  \<open>str::escape_debug\<close> for the bytes below 128 (bytes of longer characters are kept).\<close>

definition hex_digit :: "nat \<Rightarrow> char" where
  "hex_digit n = (if n < 10 then char_of (48 + n) else char_of (87 + n))"

definition escape_char :: "char \<Rightarrow> string" where
  "escape_char c =
     (let n = of_char c :: nat; bs = CHR 0x5C in
      if n = 9 then [bs, CHR ''t'']
      else if n = 10 then [bs, CHR ''n'']
      else if n = 13 then [bs, CHR ''r'']
      else if n = 0 then [bs, CHR ''0'']
      else if n = 34 then [bs, CHR 0x22]
      else if n = 92 then [bs, bs]
      else if n < 16 then [bs] @ ''u{'' @ [hex_digit n] @ ''}''
      else if n < 32 \<or> n = 127 then [bs] @ ''u{'' @ [hex_digit (n div 16), hex_digit (n mod 16)] @ ''}''
      else [c])"

definition debug_str :: "string \<Rightarrow> string" where
  "debug_str s = [CHR 0x22] @ concat (List.map escape_char s) @ [CHR 0x22]"

definition debug_opt_str :: "string option \<Rightarrow> string" where
  "debug_opt_str x = (case x of None \<Rightarrow> ''None'' | Some s \<Rightarrow> ''Some('' @ debug_str s @ '')'')"

lemma ascii_upper_char_idem [simp]: "ascii_upper_char (ascii_upper_char c) = ascii_upper_char c"
proof (cases "97 \<le> (of_char c :: nat) \<and> (of_char c :: nat) \<le> 122")
  case True
  then have "(of_char c - 32 :: nat) < 256" by auto
  with True show ?thesis by (auto simp: ascii_upper_char_def Let_def)
next
  case False
  then show ?thesis by (auto simp: ascii_upper_char_def Let_def)
qed

lemma to_ascii_uppercase_idem [simp]:
  "to_ascii_uppercase (to_ascii_uppercase s) = to_ascii_uppercase s"
  by (simp add: to_ascii_uppercase_def)

lemma to_ascii_uppercase_append [simp]:
  "to_ascii_uppercase (s @ t) = to_ascii_uppercase s @ to_ascii_uppercase t"
  by (simp add: to_ascii_uppercase_def)

lemma eq_ignore_ascii_case_refl [simp]: "eq_ignore_ascii_case s s"
  by (simp add: eq_ignore_ascii_case_def)

lemma eq_ignore_ascii_case_sym: "eq_ignore_ascii_case s t = eq_ignore_ascii_case t s"
  by (auto simp: eq_ignore_ascii_case_def)

lemma contains_str_append: "contains_str (a @ t @ b) t"
  by (auto simp: contains_str_def sublist_def)

text \<open>Trimming keeps a string that begins and ends with visible ASCII characters.\<close>

definition plain :: "char \<Rightarrow> bool" where
  "plain c = (32 < (of_char c :: nat) \<and> (of_char c :: nat) < 128)"

lemma white_space_bytes: "list_all (\<lambda>w. w \<noteq> [] \<and> \<not> plain (hd w) \<and> \<not> plain (last w)) white_space"
  by (simp add: white_space_def plain_def)

lemma strip_one_plain:
  assumes "\<forall>w\<in>set ws. w \<noteq> [] \<longrightarrow> \<not> plain (hd w)" and "s \<noteq> []" and "plain (hd s)"
  shows "strip_one ws s = None"
proof -
  have "List.find (\<lambda>w. w \<noteq> [] \<and> prefix w s) ws = None"
    unfolding find_None_iff using assms by (auto simp: prefix_def neq_Nil_conv)
  then show ?thesis by (simp add: strip_one_def)
qed

lemma trim_plain:
  assumes "s \<noteq> []" and "plain (hd s)" and "plain (last s)"
  shows "trim s = s"
proof -
  have w: "\<forall>w\<in>set white_space. w \<noteq> [] \<longrightarrow> \<not> plain (hd w)"
    "\<forall>w\<in>set (map rev white_space). w \<noteq> [] \<longrightarrow> \<not> plain (hd w)"
    using white_space_bytes by (auto simp: list_all_iff hd_rev)
  have "trim_start s = s"
    by (simp add: trim_start_def trim_start_by.simps [of white_space] strip_one_plain [OF w(1) assms(1,2)])
  moreover have "trim_start_by (map rev white_space) (rev s) = rev s"
    using assms by (simp add: trim_start_by.simps [of "map rev white_space"] strip_one_plain [OF w(2)] hd_rev)
  ultimately show ?thesis by (simp add: trim_def trim_end_def)
qed

text \<open>\<open>saturating_add(1)\<close> on an unsigned integer.\<close>

definition saturating_succ :: "'a::len word \<Rightarrow> 'a word" where
  "saturating_succ n = (if n = - 1 then n else n + 1)"

lemma saturating_succ_greater: "n \<noteq> - 1 \<Longrightarrow> n < saturating_succ n"
proof -
  assume n: "n \<noteq> - 1"
  then have "1 + n \<noteq> 0" by (metis add.commute add_eq_0_iff)
  then have "unat (1 + n) = Suc (unat n)" by (rule unatSuc)
  with n show ?thesis by (simp add: saturating_succ_def word_less_nat_alt add.commute)
qed

end
