(* ===== verification/Maps.thy ===== *)
theory Maps
  imports Prelude
begin

text \<open>
  Maps. The interface a client of a map relies on is the locale \<open>keyed_store\<close>; it has two
  providers, both association lists with distinct keys so that iteration and equality
  compute: \<open>hm_*\<close> for \<open>HashMap\<close> (a new key goes to the end, the model's iteration order)
  and \<open>bt_*\<close> for \<open>BTreeMap\<close> (keys ascending). Statements about a \<open>HashMap\<close> never depend on
  the order, which Rust leaves unspecified.
\<close>

section \<open>The interface\<close>

locale keyed_store =
  fixes put :: "'k \<Rightarrow> 'v \<Rightarrow> 'm \<Rightarrow> 'm"
    and get :: "'m \<Rightarrow> 'k \<Rightarrow> 'v option"
    and keys :: "'m \<Rightarrow> 'k list"
    and wf :: "'m \<Rightarrow> bool"
  assumes get_put: "get (put k v m) = (get m)(k \<mapsto> v)"
    and set_keys: "set (keys m) = dom (get m)"
    and wf_distinct: "wf m \<Longrightarrow> distinct (keys m)"
    and wf_put: "wf m \<Longrightarrow> wf (put k v m)"
begin

text \<open>Inserting the entries of a list one by one, as the merge loops do.\<close>

lemma get_fold_put:
  "get (fold (\<lambda>(k, v) a. put k v a) es m) = get m ++ map_of (rev es)"
proof (induction es arbitrary: m)
  case (Cons e es)
  obtain k v where e: "e = (k, v)" by (cases e)
  show ?case by (simp add: Cons e get_put map_add_def fun_eq_iff split: option.splits)
qed simp

lemma wf_fold_put: "wf m \<Longrightarrow> wf (fold (\<lambda>(k, v) a. put k v a) es m)"
  by (induction es arbitrary: m) (auto simp: wf_put split: prod.splits)

lemma length_keys_put_old:
  assumes "wf m" and "get m k \<noteq> None"
  shows "length (keys (put k v m)) = length (keys m)"
proof -
  have "length (keys (put k v m)) = card (set (keys (put k v m)))"
    using wf_distinct [OF wf_put [OF assms(1)]] by (simp add: distinct_card)
  also have "set (keys (put k v m)) = set (keys m)"
    using assms(2) by (auto simp: set_keys get_put)
  also have "card (set (keys m)) = length (keys m)"
    using wf_distinct [OF assms(1)] by (simp add: distinct_card)
  finally show ?thesis .
qed

end

section \<open>HashMap\<close>

type_synonym ('k, 'v) hmap = "('k \<times> 'v) list"

abbreviation hm_get :: "('k, 'v) hmap \<Rightarrow> 'k \<Rightarrow> 'v option" where
  "hm_get \<equiv> map_of"

fun hm_insert :: "'k \<Rightarrow> 'v \<Rightarrow> ('k, 'v) hmap \<Rightarrow> ('k, 'v) hmap" where
  "hm_insert k v [] = [(k, v)]"
| "hm_insert k v ((k', v') # m) =
     (if k = k' then (k, v) # m else (k', v') # hm_insert k v m)"

definition hm_remove :: "'k \<Rightarrow> ('k, 'v) hmap \<Rightarrow> ('k, 'v) hmap" where
  "hm_remove k m = filter (\<lambda>e. fst e \<noteq> k) m"

definition hm_keys :: "('k, 'v) hmap \<Rightarrow> 'k list" where
  "hm_keys m = map fst m"

definition hm_values :: "('k, 'v) hmap \<Rightarrow> 'v list" where
  "hm_values m = map snd m"

text \<open>\<open>get_mut\<close> followed by an in-place update; nothing happens when the key is absent.\<close>

definition hm_modify :: "'k \<Rightarrow> ('v \<Rightarrow> 'v) \<Rightarrow> ('k, 'v) hmap \<Rightarrow> ('k, 'v) hmap" where
  "hm_modify k f m = map (\<lambda>(k', v). (k', if k' = k then f v else v)) m"

definition hm_map_values :: "('v \<Rightarrow> 'w) \<Rightarrow> ('k, 'v) hmap \<Rightarrow> ('k, 'w) hmap" where
  "hm_map_values f m = map (\<lambda>(k, v). (k, f v)) m"

definition hm_wf :: "('k, 'v) hmap \<Rightarrow> bool" where
  "hm_wf m = distinct (map fst m)"

lemma hm_get_insert: "hm_get (hm_insert k v m) = (hm_get m)(k \<mapsto> v)"
  by (induction k v m rule: hm_insert.induct) auto

lemma hm_keys_insert: "set (map fst (hm_insert k v m)) = insert k (fst ` set m)"
  by (induction k v m rule: hm_insert.induct) auto

lemma hm_wf_insert [inv_intros]: "hm_wf m \<Longrightarrow> hm_wf (hm_insert k v m)"
  unfolding hm_wf_def
proof (induction k v m rule: hm_insert.induct)
  case (2 k v k' v' m)
  then show ?case using hm_keys_insert [of k v m] by auto
qed simp

lemma hm_wf_Nil [simp]: "hm_wf []"
  by (simp add: hm_wf_def)

interpretation hm: keyed_store hm_insert hm_get hm_keys hm_wf
  by unfold_locales
    (auto simp: hm_get_insert hm_keys_def hm_wf_def dom_map_of_conv_image_fst
      intro: hm_wf_insert [unfolded hm_wf_def])

lemma hm_get_modify: "hm_get (hm_modify k f m) k' = (if k' = k then map_option f (hm_get m k) else hm_get m k')"
  by (induction m) (auto simp: hm_modify_def)

lemma hm_keys_modify [simp]: "map fst (hm_modify k f m) = map fst m"
  by (simp add: hm_modify_def comp_def case_prod_beta)

lemma hm_wf_modify [simp]: "hm_wf (hm_modify k f m) = hm_wf m"
  by (simp add: hm_wf_def)

lemma hm_get_map_values: "hm_get (hm_map_values f m) k = map_option f (hm_get m k)"
  by (induction m) (auto simp: hm_map_values_def)

lemma hm_wf_map_values [simp]: "hm_wf (hm_map_values f m) = hm_wf m"
  by (simp add: hm_wf_def hm_map_values_def comp_def case_prod_beta)

lemma hm_keys_map_values [simp]: "map fst (hm_map_values f m) = map fst m"
  by (simp add: hm_map_values_def comp_def case_prod_beta)

lemma hm_get_remove: "hm_get (hm_remove k m) = (hm_get m)(k := None)"
  by (induction m) (auto simp: hm_remove_def)

lemma hm_wf_remove: "hm_wf m \<Longrightarrow> hm_wf (hm_remove k m)"
  by (simp add: hm_wf_def hm_remove_def distinct_map_filter)

lemma hm_values_iff: "hm_wf m \<Longrightarrow> v \<in> set (hm_values m) \<longleftrightarrow> (\<exists>k. hm_get m k = Some v)"
  by (force simp: hm_values_def hm_wf_def image_iff)

text \<open>Values all satisfying a predicate, through the operations.\<close>

definition hm_all :: "('k \<Rightarrow> 'v \<Rightarrow> bool) \<Rightarrow> ('k, 'v) hmap \<Rightarrow> bool" where
  "hm_all P m = (\<forall>(k, v)\<in>set m. P k v)"

lemma hm_all_Nil [simp]: "hm_all P []"
  by (simp add: hm_all_def)

lemma hm_all_insert: "hm_all P m \<Longrightarrow> P k v \<Longrightarrow> hm_all P (hm_insert k v m)"
  by (induction k v m rule: hm_insert.induct) (auto simp: hm_all_def)

lemma hm_all_modify:
  "hm_all P m \<Longrightarrow> (\<And>v. P k v \<Longrightarrow> P k (f v)) \<Longrightarrow> hm_all P (hm_modify k f m)"
  by (fastforce simp: hm_all_def hm_modify_def)

lemma hm_all_get: "hm_all P m \<Longrightarrow> hm_get m k = Some v \<Longrightarrow> P k v"
  by (auto simp: hm_all_def dest: map_of_SomeD)

text \<open>A well-formed map whose entries all satisfy a predicate.\<close>

definition map_ok :: "('k \<Rightarrow> 'v \<Rightarrow> bool) \<Rightarrow> ('k, 'v) hmap \<Rightarrow> bool" where
  "map_ok P m = (hm_wf m \<and> (\<forall>k v. hm_get m k = Some v \<longrightarrow> P k v))"

lemma map_ok_Nil [simp]: "map_ok P []"
  by (simp add: map_ok_def)

lemma map_ok_insert: "map_ok P m \<Longrightarrow> P k v \<Longrightarrow> map_ok P (hm_insert k v m)"
  by (simp add: map_ok_def hm_get_insert hm_wf_insert)

lemma map_ok_modify: "map_ok P m \<Longrightarrow> (\<And>v. P k v \<Longrightarrow> P k (f v)) \<Longrightarrow> map_ok P (hm_modify k f m)"
  by (auto simp: map_ok_def hm_get_modify)

lemma map_ok_map_values: "map_ok P m \<Longrightarrow> (\<And>k v. P k v \<Longrightarrow> P k (f v)) \<Longrightarrow> map_ok P (hm_map_values f m)"
  by (auto simp: map_ok_def hm_get_map_values)

lemma map_ok_get: "map_ok P m \<Longrightarrow> hm_get m k = Some v \<Longrightarrow> P k v"
  by (simp add: map_ok_def)

section \<open>BTreeMap\<close>

type_synonym ('k, 'v) btmap = "('k \<times> 'v) list"

fun bt_insert :: "'k::linorder \<Rightarrow> 'v \<Rightarrow> ('k, 'v) btmap \<Rightarrow> ('k, 'v) btmap" where
  "bt_insert k v [] = [(k, v)]"
| "bt_insert k v ((k', v') # m) =
     (if k = k' then (k, v) # m
      else if k < k' then (k, v) # (k', v') # m
      else (k', v') # bt_insert k v m)"

definition bt_wf :: "('k::linorder, 'v) btmap \<Rightarrow> bool" where
  "bt_wf m = (sorted (map fst m) \<and> distinct (map fst m))"

lemma bt_get_insert: "map_of (bt_insert k v m) = (map_of m)(k \<mapsto> v)"
  by (induction k v m rule: bt_insert.induct) (auto simp: fun_eq_iff)

lemma bt_keys_insert: "set (map fst (bt_insert k v m)) = insert k (fst ` set m)"
  by (induction k v m rule: bt_insert.induct) auto

lemma bt_wf_insert [inv_intros]: "bt_wf m \<Longrightarrow> bt_wf (bt_insert k v m)"
  unfolding bt_wf_def
proof (induction k v m rule: bt_insert.induct)
  case (2 k v k' v' m)
  then show ?case using bt_keys_insert [of k v m] by (auto simp: image_iff)
qed simp

lemma bt_wf_Nil [simp]: "bt_wf []"
  by (simp add: bt_wf_def)

interpretation bt: keyed_store bt_insert map_of hm_keys bt_wf
  by unfold_locales
    (auto simp: bt_get_insert hm_keys_def bt_wf_def dom_map_of_conv_image_fst
      intro: bt_wf_insert [unfolded bt_wf_def, THEN conjunct1]
        bt_wf_insert [unfolded bt_wf_def, THEN conjunct2])

text \<open>Two ordered maps with the same lookups are the same list: equality of
  \<open>BTreeMap\<close>s is equality of the lists.\<close>

lemma bt_ext:
  assumes "bt_wf m" and "bt_wf m'" and "map_of m = map_of m'"
  shows "m = m'"
proof -
  have d: "distinct (map fst m)" "distinct (map fst m')"
    and s: "sorted (map fst m)" "sorted (map fst m')"
    using assms(1,2) by (auto simp: bt_wf_def)
  have "dom (map_of m) = dom (map_of m')" using assms(3) by simp
  then have "set (map fst m) = set (map fst m')" by (simp add: dom_map_of_conv_image_fst)
  then have fsts: "map fst m = map fst m'"
    using d s by (metis sorted_distinct_set_unique)
  have "map snd m = map (\<lambda>k. the (map_of m k)) (map fst m)"
    using d by (auto simp: map_of_eq_Some_iff)
  also have "\<dots> = map (\<lambda>k. the (map_of m' k)) (map fst m')" using assms(3) fsts by simp
  also have "\<dots> = map snd m'" using d by (auto simp: map_of_eq_Some_iff)
  finally show ?thesis using fsts by (metis zip_map_fst_snd)
qed

end
