(* ===== verification/Json.thy ===== *)
theory Json
  imports Maps
begin

text \<open>
  JSON values as the program uses them through \<open>serde_json::Value\<close>: constructors,
  accessors, the panicking index assignment and the object merge of the projections.
  Objects are \<open>BTreeMap\<close>s (the crate is built without \<open>preserve_order\<close>), so a well-formed
  value has ascending keys and equality of values is equality of terms. A double is kept
  as its bit pattern.
\<close>

datatype json_number = PosInt "64 word" | NegInt "64 word" | Float "64 word"

datatype json =
    JNull
  | JBool bool
  | JNumber json_number
  | JString string
  | JArray "json list"
  | JObject "(string \<times> json) list"

type_synonym json_map = "(string, json) btmap"

fun json_wf :: "json \<Rightarrow> bool" where
  "json_wf (JArray vs) = (\<forall>v\<in>set vs. json_wf v)"
| "json_wf (JObject m) = (bt_wf m \<and> (\<forall>e\<in>set m. json_wf (snd e)))"
| "json_wf _ = True"

fun as_object :: "json \<Rightarrow> json_map option" where
  "as_object (JObject m) = Some m"
| "as_object _ = None"

fun as_str :: "json \<Rightarrow> string option" where
  "as_str (JString s) = Some s"
| "as_str _ = None"

fun as_bool :: "json \<Rightarrow> bool option" where
  "as_bool (JBool b) = Some b"
| "as_bool _ = None"

fun as_u64 :: "json \<Rightarrow> 64 word option" where
  "as_u64 (JNumber (PosInt n)) = Some n"
| "as_u64 _ = None"

definition is_string :: "json \<Rightarrow> bool" where
  "is_string v = (as_str v \<noteq> None)"

fun is_number :: "json \<Rightarrow> bool" where
  "is_number (JNumber _) = True"
| "is_number _ = False"

definition is_object :: "json \<Rightarrow> bool" where
  "is_object v = (as_object v \<noteq> None)"

text \<open>\<open>Map::get\<close>, and \<open>Value::get\<close> which is \<open>None\<close> on anything but an object.\<close>

abbreviation map_get :: "json_map \<Rightarrow> string \<Rightarrow> json option" where
  "map_get \<equiv> map_of"

definition value_get :: "json \<Rightarrow> string \<Rightarrow> json option" where
  "value_get v k = (case v of JObject m \<Rightarrow> map_get m k | _ \<Rightarrow> None)"

text \<open>\<open>.get(k).and_then(Value::as_str)\<close>, on a map and on a value.\<close>

definition map_str :: "json_map \<Rightarrow> string \<Rightarrow> string option" where
  "map_str m k = Option.bind (map_get m k) as_str"

definition value_str :: "json \<Rightarrow> string \<Rightarrow> string option" where
  "value_str v k = Option.bind (value_get v k) as_str"

definition has_string :: "json_map \<Rightarrow> string \<Rightarrow> bool" where
  "has_string m k = (case map_get m k of None \<Rightarrow> False | Some v \<Rightarrow> is_string v)"

text \<open>\<open>value[key] = v\<close>: \<open>null\<close> becomes an object first, any other non-object panics.\<close>

fun index_assign :: "string \<Rightarrow> json \<Rightarrow> json \<Rightarrow> json option" where
  "index_assign k v (JObject m) = Some (JObject (bt_insert k v m))"
| "index_assign k v JNull = Some (JObject [(k, v)])"
| "index_assign k v _ = None"

text \<open>The merge loop \<open>for (key, value) in patch { target.insert(key, value) }\<close>.\<close>

definition merge_entries :: "json_map \<Rightarrow> json_map \<Rightarrow> json_map" where
  "merge_entries patch target = fold (\<lambda>(k, v) a. bt_insert k v a) patch target"

text \<open>\<open>.get(k).and_then(Value::as_str).unwrap_or(d)\<close>, and the object a \<open>json!\<close> literal builds.\<close>

definition str_or :: "json \<Rightarrow> string \<Rightarrow> string \<Rightarrow> string" where
  "str_or payload key d = (case value_str payload key of None \<Rightarrow> d | Some s \<Rightarrow> s)"

definition json_object :: "(string \<times> json) list \<Rightarrow> json" where
  "json_object fields = JObject (fold (\<lambda>(k, v) a. bt_insert k v a) fields [])"

definition json_nat :: "nat \<Rightarrow> json" where
  "json_nat n = JNumber (PosInt (of_nat n))"

definition index_assign_or_panic :: "string \<Rightarrow> json \<Rightarrow> json \<Rightarrow> 'e fault + json" where
  "index_assign_or_panic k v j = ok_or Panicked (index_assign k v j)"

section \<open>Facts\<close>

lemma value_get_JObject [simp]: "value_get (JObject m) k = map_get m k"
  by (simp add: value_get_def)

lemma value_str_JObject: "value_str (JObject m) k = map_str m k"
  by (simp add: value_str_def map_str_def)

lemma is_object_iff: "is_object v \<longleftrightarrow> (\<exists>m. v = JObject m)"
  by (cases v) (auto simp: is_object_def)

lemma as_object_Some [simp]: "as_object v = Some m \<longleftrightarrow> v = JObject m"
  by (cases v) auto

lemma as_object_None: "as_object v = None \<longleftrightarrow> \<not> is_object v"
  by (cases v) (auto simp: is_object_def)

lemma is_object_JObject [simp]: "is_object (JObject m)"
  by (simp add: is_object_iff)

lemma as_str_Some [simp]: "as_str v = Some s \<longleftrightarrow> v = JString s"
  by (cases v) auto

lemma has_string_iff: "has_string m k \<longleftrightarrow> (\<exists>s. map_str m k = Some s)"
  by (auto simp: has_string_def map_str_def is_string_def split: option.splits)

lemma index_assign_object: "index_assign k v j = Some j' \<Longrightarrow> is_object j'"
  by (cases j) auto

lemma index_assign_get: "index_assign k v j = Some j' \<Longrightarrow> value_get j' k = Some v"
  by (cases j) (auto simp: bt_get_insert)

lemma index_assign_other:
  "index_assign k v j = Some j' \<Longrightarrow> k' \<noteq> k \<Longrightarrow> value_get j' k' = value_get j k'"
  by (cases j) (auto simp: bt_get_insert value_get_def)

lemma index_assign_str_other:
  "index_assign k v j = Some j' \<Longrightarrow> k' \<noteq> k \<Longrightarrow> value_str j' k' = value_str j k'"
  by (simp add: value_str_def index_assign_other)

lemma index_assign_wf: "index_assign k v j = Some j' \<Longrightarrow> json_wf j \<Longrightarrow> json_wf v \<Longrightarrow> json_wf j'"
proof (cases j)
  case (JObject m)
  assume a: "index_assign k v j = Some j'" "json_wf j" "json_wf v"
  have "set (bt_insert k v m) \<subseteq> insert (k, v) (set m)"
    by (induction k v m rule: bt_insert.induct) auto
  moreover have "bt_wf (bt_insert k v m)" using a JObject by (simp add: bt_wf_insert)
  ultimately show ?thesis using a JObject by fastforce
qed (auto simp: bt_wf_def)

lemma index_assign_None_iff: "index_assign k v j = None \<longleftrightarrow> \<not> is_object j \<and> j \<noteq> JNull"
  by (cases j) (auto simp: is_object_iff)

lemma index_assign_isObject: "is_object j \<Longrightarrow> \<exists>j'. index_assign k v j = Some j'"
  by (auto simp: is_object_iff)

lemma get_merge_entries:
  "distinct (map fst patch) \<Longrightarrow> map_get (merge_entries patch m) = map_get m ++ map_get patch"
proof -
  assume d: "distinct (map fst patch)"
  then have "map_of (rev patch) = map_of patch"
    by (subst map_of_inject_set) (simp_all add: rev_map [symmetric])
  then show ?thesis unfolding merge_entries_def bt.get_fold_put by simp
qed

lemma merge_entries_wf: "bt_wf m \<Longrightarrow> bt_wf (merge_entries patch m)"
  unfolding merge_entries_def by (rule bt.wf_fold_put)

text \<open>Merging the same patch twice changes nothing more.\<close>

lemma merge_entries_idem:
  assumes "bt_wf m" and "bt_wf p"
  shows "merge_entries p (merge_entries p m) = merge_entries p m"
proof (rule bt_ext)
  have d: "distinct (map fst p)" using assms(2) by (simp add: bt_wf_def)
  show "map_get (merge_entries p (merge_entries p m)) = map_get (merge_entries p m)"
    unfolding get_merge_entries [OF d] by (auto simp: map_add_def split: option.splits)
qed (simp_all add: merge_entries_wf assms)

lemma index_assign_or_panic_iff [simp]:
  "index_assign_or_panic k v j = Inr j' \<longleftrightarrow> index_assign k v j = Some j'"
  by (simp add: index_assign_or_panic_def)

lemma index_assign_or_panic_Inl:
  "index_assign_or_panic k v j = Inl err \<longleftrightarrow> err = Panicked \<and> \<not> is_object j \<and> j \<noteq> JNull"
  using index_assign_None_iff [of k v j] by (cases "index_assign k v j") (auto simp: index_assign_or_panic_def)

end
