(* ===== verification/World.thy ===== *)
theory World
  imports Json
begin

text \<open>
  The outside world of the program: identifiers, instants, and the sources of fresh ones.
  \<open>Uuid\<close> is its 128-bit value; \<open>DateTime<Utc>\<close> is an instant in nanoseconds since the Unix
  epoch. \<open>Uuid::new_v4\<close> and \<open>Utc::now\<close> read a \<open>world\<close>: two unknown streams and the
  positions reached in them, so a theorem about every \<open>world\<close> is a theorem about every
  outcome of the two calls.
\<close>

type_synonym uuid = "128 word"
type_synonym datetime = int

record world =
  uuid_source :: "nat \<Rightarrow> uuid"
  uuid_pos :: nat
  clock_source :: "nat \<Rightarrow> datetime"
  clock_pos :: nat

definition new_v4 :: "world \<Rightarrow> uuid \<times> world" where
  "new_v4 w = (uuid_source w (uuid_pos w), w\<lparr>uuid_pos := Suc (uuid_pos w)\<rparr>)"

definition utc_now :: "world \<Rightarrow> datetime \<times> world" where
  "utc_now w = (clock_source w (clock_pos w), w\<lparr>clock_pos := Suc (clock_pos w)\<rparr>)"

lemma new_v4_source [frame_simps]: "uuid_source (snd (new_v4 w)) = uuid_source w"
  by (simp add: new_v4_def)

lemma new_v4_pos [frame_simps]: "uuid_pos (snd (new_v4 w)) = Suc (uuid_pos w)"
  by (simp add: new_v4_def)

lemma utc_now_frame [frame_simps]:
  "uuid_source (snd (utc_now w)) = uuid_source w" "uuid_pos (snd (utc_now w)) = uuid_pos w"
  by (simp_all add: utc_now_def)

text \<open>A concrete world for evaluations: identifiers count up from \<open>n\<close>, the clock from \<open>t\<close>.\<close>

definition counting_world :: "nat \<Rightarrow> datetime \<Rightarrow> world" where
  "counting_world n t = \<lparr>uuid_source = (\<lambda>i. of_nat (n + i)), uuid_pos = 0,
     clock_source = (\<lambda>i. t + int i), clock_pos = 0\<rparr>"

text \<open>A later world has the same sources, some of their values used up.\<close>

definition world_later :: "world \<Rightarrow> world \<Rightarrow> bool" where
  "world_later w w' = (uuid_source w' = uuid_source w \<and> uuid_pos w \<le> uuid_pos w')"

lemma world_later_refl [simp]: "world_later w w"
  by (simp add: world_later_def)

lemma world_later_trans: "world_later w w' \<Longrightarrow> world_later w' w'' \<Longrightarrow> world_later w w''"
  by (auto simp: world_later_def)

text \<open>The identifiers drawn between two worlds; they are fresh for \<open>U\<close> when they are distinct
  and none is in \<open>U\<close>, which is what random version 4 identifiers are relied on for.\<close>

definition draws :: "world \<Rightarrow> world \<Rightarrow> uuid list" where
  "draws w w' = map (uuid_source w) [uuid_pos w..<uuid_pos w']"

definition fresh_draws :: "uuid set \<Rightarrow> world \<Rightarrow> world \<Rightarrow> bool" where
  "fresh_draws U w w' = (distinct (draws w w') \<and> set (draws w w') \<inter> U = {})"

lemma draws_one: "uuid_pos w' = Suc (uuid_pos w) \<Longrightarrow> draws w w' = [uuid_source w (uuid_pos w)]"
  by (simp add: draws_def)

lemma draws_none [simp]: "draws w w = []"
  by (simp add: draws_def)

lemma draws_append:
  assumes "world_later w v" and "world_later v u"
  shows "draws w u = draws w v @ draws v u"
proof -
  have "[uuid_pos w..<uuid_pos u] = [uuid_pos w..<uuid_pos v] @ [uuid_pos v..<uuid_pos u]"
    using assms upt_add_eq_append [of "uuid_pos w" "uuid_pos v" "uuid_pos u - uuid_pos v"]
    by (simp add: world_later_def)
  with assms show ?thesis by (simp add: draws_def world_later_def)
qed

lemma fresh_draws_split:
  assumes "world_later w v" and "world_later v u"
  shows "fresh_draws U w u \<longleftrightarrow> fresh_draws U w v \<and> fresh_draws (U \<union> set (draws w v)) v u"
  by (auto simp: fresh_draws_def draws_append [OF assms])

lemma fresh_draws_mono: "fresh_draws V w u \<Longrightarrow> U \<subseteq> V \<Longrightarrow> fresh_draws U w u"
  by (auto simp: fresh_draws_def)

lemma fresh_draws_later:
  assumes "fresh_draws U w u" and "world_later w v" and "world_later v u"
  shows "fresh_draws U v u"
  using assms(1) unfolding fresh_draws_split [OF assms(2,3)] by (auto intro: fresh_draws_mono)

lemma fresh_draws_earlier:
  assumes "fresh_draws U w u" and "world_later w v" and "world_later v u"
  shows "fresh_draws U w v"
  using assms(1) unfolding fresh_draws_split [OF assms(2,3)] by blast

end
