(* ===== verification/Plugin_Sdk.thy ===== *)
theory Plugin_Sdk
  imports World
begin

text \<open>
  The plugin SDK (\<open>ham-core/src/plugin_sdk.rs\<close>): the names of proposals and official
  events, plugin capabilities with their wire names, the plugin manifest and the proposal
  envelope.
\<close>

section \<open>Names of proposals and official events\<close>

definition PROPOSAL_QSO_CREATE :: string where [literal_defs]:
  "PROPOSAL_QSO_CREATE = ''proposal.qso.create''"

definition PROPOSAL_QSO_CORRECT :: string where [literal_defs]:
  "PROPOSAL_QSO_CORRECT = ''proposal.qso.correct''"

definition PROPOSAL_QSO_DELETE :: string where [literal_defs]:
  "PROPOSAL_QSO_DELETE = ''proposal.qso.delete''"

definition PROPOSAL_QSO_RESTORE :: string where [literal_defs]:
  "PROPOSAL_QSO_RESTORE = ''proposal.qso.restore''"

definition PROPOSAL_QSO_NOTE_ADD :: string where [literal_defs]:
  "PROPOSAL_QSO_NOTE_ADD = ''proposal.qso.note.add''"

definition PROPOSAL_ACTIVATION_CREATE :: string where [literal_defs]:
  "PROPOSAL_ACTIVATION_CREATE = ''proposal.activation.create''"

definition PROPOSAL_ACTIVATION_UPDATE :: string where [literal_defs]:
  "PROPOSAL_ACTIVATION_UPDATE = ''proposal.activation.update''"

definition PROPOSAL_ACTIVATION_START :: string where [literal_defs]:
  "PROPOSAL_ACTIVATION_START = ''proposal.activation.start''"

definition PROPOSAL_ACTIVATION_END :: string where [literal_defs]:
  "PROPOSAL_ACTIVATION_END = ''proposal.activation.end''"

definition PROPOSAL_ACTIVATION_CANCEL :: string where [literal_defs]:
  "PROPOSAL_ACTIVATION_CANCEL = ''proposal.activation.cancel''"

definition PROPOSAL_ACTIVATION_NOTE_ADD :: string where [literal_defs]:
  "PROPOSAL_ACTIVATION_NOTE_ADD = ''proposal.activation.note.add''"

definition PROPOSAL_QSO_ACTIVATION_LINK :: string where [literal_defs]:
  "PROPOSAL_QSO_ACTIVATION_LINK = ''proposal.qso.activation.link''"

definition PROPOSAL_QSO_ACTIVATION_UNLINK :: string where [literal_defs]:
  "PROPOSAL_QSO_ACTIVATION_UNLINK = ''proposal.qso.activation.unlink''"

definition PROPOSAL_NET_TEMPLATE_CREATE :: string where [literal_defs]:
  "PROPOSAL_NET_TEMPLATE_CREATE = ''proposal.net.template.create''"

definition PROPOSAL_NET_TEMPLATE_UPDATE :: string where [literal_defs]:
  "PROPOSAL_NET_TEMPLATE_UPDATE = ''proposal.net.template.update''"

definition PROPOSAL_NET_SESSION_START :: string where [literal_defs]:
  "PROPOSAL_NET_SESSION_START = ''proposal.net.session.start''"

definition PROPOSAL_NET_SESSION_END :: string where [literal_defs]:
  "PROPOSAL_NET_SESSION_END = ''proposal.net.session.end''"

definition PROPOSAL_NET_SESSION_CANCEL :: string where [literal_defs]:
  "PROPOSAL_NET_SESSION_CANCEL = ''proposal.net.session.cancel''"

definition PROPOSAL_NET_CHECKIN_CREATE :: string where [literal_defs]:
  "PROPOSAL_NET_CHECKIN_CREATE = ''proposal.net.checkin.create''"

definition PROPOSAL_NET_CHECKIN_UPDATE :: string where [literal_defs]:
  "PROPOSAL_NET_CHECKIN_UPDATE = ''proposal.net.checkin.update''"

definition PROPOSAL_NET_CHECKIN_DELETE :: string where [literal_defs]:
  "PROPOSAL_NET_CHECKIN_DELETE = ''proposal.net.checkin.delete''"

definition PROPOSAL_NET_TRAFFIC_CREATE :: string where [literal_defs]:
  "PROPOSAL_NET_TRAFFIC_CREATE = ''proposal.net.traffic.create''"

definition PROPOSAL_NET_TRAFFIC_UPDATE :: string where [literal_defs]:
  "PROPOSAL_NET_TRAFFIC_UPDATE = ''proposal.net.traffic.update''"

definition PROPOSAL_NET_REPORT_EXPORT :: string where [literal_defs]:
  "PROPOSAL_NET_REPORT_EXPORT = ''proposal.net.report.export''"

definition PROPOSAL_EMCOMM_INCIDENT_OPEN :: string where [literal_defs]:
  "PROPOSAL_EMCOMM_INCIDENT_OPEN = ''proposal.emcomm.incident.open''"

definition PROPOSAL_EMCOMM_INCIDENT_UPDATE :: string where [literal_defs]:
  "PROPOSAL_EMCOMM_INCIDENT_UPDATE = ''proposal.emcomm.incident.update''"

definition PROPOSAL_EMCOMM_INCIDENT_CLOSE :: string where [literal_defs]:
  "PROPOSAL_EMCOMM_INCIDENT_CLOSE = ''proposal.emcomm.incident.close''"

definition PROPOSAL_EMCOMM_PERIOD_OPEN :: string where [literal_defs]:
  "PROPOSAL_EMCOMM_PERIOD_OPEN = ''proposal.emcomm.period.open''"

definition PROPOSAL_EMCOMM_PERIOD_CLOSE :: string where [literal_defs]:
  "PROPOSAL_EMCOMM_PERIOD_CLOSE = ''proposal.emcomm.period.close''"

definition PROPOSAL_EMCOMM_PERSON_CHECK_IN :: string where [literal_defs]:
  "PROPOSAL_EMCOMM_PERSON_CHECK_IN = ''proposal.emcomm.person.check_in''"

definition PROPOSAL_EMCOMM_PERSON_UPDATE :: string where [literal_defs]:
  "PROPOSAL_EMCOMM_PERSON_UPDATE = ''proposal.emcomm.person.update''"

definition PROPOSAL_EMCOMM_PERSON_CHECK_OUT :: string where [literal_defs]:
  "PROPOSAL_EMCOMM_PERSON_CHECK_OUT = ''proposal.emcomm.person.check_out''"

definition PROPOSAL_EMCOMM_ASSIGNMENT_CREATE :: string where [literal_defs]:
  "PROPOSAL_EMCOMM_ASSIGNMENT_CREATE = ''proposal.emcomm.assignment.create''"

definition PROPOSAL_EMCOMM_ASSIGNMENT_UPDATE :: string where [literal_defs]:
  "PROPOSAL_EMCOMM_ASSIGNMENT_UPDATE = ''proposal.emcomm.assignment.update''"

definition PROPOSAL_EMCOMM_ASSIGNMENT_RELEASE :: string where [literal_defs]:
  "PROPOSAL_EMCOMM_ASSIGNMENT_RELEASE = ''proposal.emcomm.assignment.release''"

definition PROPOSAL_EMCOMM_MESSAGE_CREATE :: string where [literal_defs]:
  "PROPOSAL_EMCOMM_MESSAGE_CREATE = ''proposal.emcomm.message.create''"

definition PROPOSAL_EMCOMM_MESSAGE_UPDATE :: string where [literal_defs]:
  "PROPOSAL_EMCOMM_MESSAGE_UPDATE = ''proposal.emcomm.message.update''"

definition PROPOSAL_EMCOMM_MESSAGE_TRANSMIT :: string where [literal_defs]:
  "PROPOSAL_EMCOMM_MESSAGE_TRANSMIT = ''proposal.emcomm.message.transmit''"

definition PROPOSAL_EMCOMM_MESSAGE_RECEIVE :: string where [literal_defs]:
  "PROPOSAL_EMCOMM_MESSAGE_RECEIVE = ''proposal.emcomm.message.receive''"

definition PROPOSAL_EMCOMM_MESSAGE_ACKNOWLEDGE :: string where [literal_defs]:
  "PROPOSAL_EMCOMM_MESSAGE_ACKNOWLEDGE = ''proposal.emcomm.message.acknowledge''"

definition PROPOSAL_EMCOMM_MESSAGE_CANCEL :: string where [literal_defs]:
  "PROPOSAL_EMCOMM_MESSAGE_CANCEL = ''proposal.emcomm.message.cancel''"

definition PROPOSAL_EMCOMM_ACTIVITY_LOG :: string where [literal_defs]:
  "PROPOSAL_EMCOMM_ACTIVITY_LOG = ''proposal.emcomm.activity.log''"

definition OFFICIAL_LOG_QSO_CREATED :: string where [literal_defs]:
  "OFFICIAL_LOG_QSO_CREATED = ''official.log.qso.created''"

definition OFFICIAL_LOG_QSO_CORRECTED :: string where [literal_defs]:
  "OFFICIAL_LOG_QSO_CORRECTED = ''official.log.qso.corrected''"

definition OFFICIAL_LOG_QSO_DELETED :: string where [literal_defs]:
  "OFFICIAL_LOG_QSO_DELETED = ''official.log.qso.deleted''"

definition OFFICIAL_LOG_QSO_RESTORED :: string where [literal_defs]:
  "OFFICIAL_LOG_QSO_RESTORED = ''official.log.qso.restored''"

definition OFFICIAL_LOG_QSO_NOTE_ADDED :: string where [literal_defs]:
  "OFFICIAL_LOG_QSO_NOTE_ADDED = ''official.log.qso.note_added''"

definition OFFICIAL_LOG_ACTIVATION_CREATED :: string where [literal_defs]:
  "OFFICIAL_LOG_ACTIVATION_CREATED = ''official.log.activation.created''"

definition OFFICIAL_LOG_ACTIVATION_UPDATED :: string where [literal_defs]:
  "OFFICIAL_LOG_ACTIVATION_UPDATED = ''official.log.activation.updated''"

definition OFFICIAL_LOG_ACTIVATION_STARTED :: string where [literal_defs]:
  "OFFICIAL_LOG_ACTIVATION_STARTED = ''official.log.activation.started''"

definition OFFICIAL_LOG_ACTIVATION_ENDED :: string where [literal_defs]:
  "OFFICIAL_LOG_ACTIVATION_ENDED = ''official.log.activation.ended''"

definition OFFICIAL_LOG_ACTIVATION_CANCELLED :: string where [literal_defs]:
  "OFFICIAL_LOG_ACTIVATION_CANCELLED = ''official.log.activation.cancelled''"

definition OFFICIAL_LOG_ACTIVATION_NOTE_ADDED :: string where [literal_defs]:
  "OFFICIAL_LOG_ACTIVATION_NOTE_ADDED = ''official.log.activation.note_added''"

definition OFFICIAL_LOG_QSO_ACTIVATION_LINKED :: string where [literal_defs]:
  "OFFICIAL_LOG_QSO_ACTIVATION_LINKED = ''official.log.qso.activation_linked''"

definition OFFICIAL_LOG_QSO_ACTIVATION_UNLINKED :: string where [literal_defs]:
  "OFFICIAL_LOG_QSO_ACTIVATION_UNLINKED = ''official.log.qso.activation_unlinked''"

definition OFFICIAL_LOG_UPLOAD_QUEUED :: string where [literal_defs]:
  "OFFICIAL_LOG_UPLOAD_QUEUED = ''official.log.upload.queued''"

definition OFFICIAL_LOG_UPLOAD_COMPLETED :: string where [literal_defs]:
  "OFFICIAL_LOG_UPLOAD_COMPLETED = ''official.log.upload.completed''"

definition OFFICIAL_LOG_UPLOAD_FAILED :: string where [literal_defs]:
  "OFFICIAL_LOG_UPLOAD_FAILED = ''official.log.upload.failed''"

definition OFFICIAL_LOG_NET_TEMPLATE_CREATED :: string where [literal_defs]:
  "OFFICIAL_LOG_NET_TEMPLATE_CREATED = ''official.log.net.template.created''"

definition OFFICIAL_LOG_NET_TEMPLATE_UPDATED :: string where [literal_defs]:
  "OFFICIAL_LOG_NET_TEMPLATE_UPDATED = ''official.log.net.template.updated''"

definition OFFICIAL_LOG_NET_SESSION_STARTED :: string where [literal_defs]:
  "OFFICIAL_LOG_NET_SESSION_STARTED = ''official.log.net.session.started''"

definition OFFICIAL_LOG_NET_SESSION_ENDED :: string where [literal_defs]:
  "OFFICIAL_LOG_NET_SESSION_ENDED = ''official.log.net.session.ended''"

definition OFFICIAL_LOG_NET_SESSION_CANCELLED :: string where [literal_defs]:
  "OFFICIAL_LOG_NET_SESSION_CANCELLED = ''official.log.net.session.cancelled''"

definition OFFICIAL_LOG_NET_CHECKIN_CREATED :: string where [literal_defs]:
  "OFFICIAL_LOG_NET_CHECKIN_CREATED = ''official.log.net.checkin.created''"

definition OFFICIAL_LOG_NET_CHECKIN_UPDATED :: string where [literal_defs]:
  "OFFICIAL_LOG_NET_CHECKIN_UPDATED = ''official.log.net.checkin.updated''"

definition OFFICIAL_LOG_NET_CHECKIN_DELETED :: string where [literal_defs]:
  "OFFICIAL_LOG_NET_CHECKIN_DELETED = ''official.log.net.checkin.deleted''"

definition OFFICIAL_LOG_NET_TRAFFIC_CREATED :: string where [literal_defs]:
  "OFFICIAL_LOG_NET_TRAFFIC_CREATED = ''official.log.net.traffic.created''"

definition OFFICIAL_LOG_NET_TRAFFIC_UPDATED :: string where [literal_defs]:
  "OFFICIAL_LOG_NET_TRAFFIC_UPDATED = ''official.log.net.traffic.updated''"

definition OFFICIAL_LOG_NET_REPORT_EXPORTED :: string where [literal_defs]:
  "OFFICIAL_LOG_NET_REPORT_EXPORTED = ''official.log.net.report.exported''"

definition OFFICIAL_LOG_EMCOMM_INCIDENT_OPENED :: string where [literal_defs]:
  "OFFICIAL_LOG_EMCOMM_INCIDENT_OPENED = ''official.log.emcomm.incident.opened''"

definition OFFICIAL_LOG_EMCOMM_INCIDENT_UPDATED :: string where [literal_defs]:
  "OFFICIAL_LOG_EMCOMM_INCIDENT_UPDATED = ''official.log.emcomm.incident.updated''"

definition OFFICIAL_LOG_EMCOMM_INCIDENT_CLOSED :: string where [literal_defs]:
  "OFFICIAL_LOG_EMCOMM_INCIDENT_CLOSED = ''official.log.emcomm.incident.closed''"

definition OFFICIAL_LOG_EMCOMM_PERIOD_OPENED :: string where [literal_defs]:
  "OFFICIAL_LOG_EMCOMM_PERIOD_OPENED = ''official.log.emcomm.period.opened''"

definition OFFICIAL_LOG_EMCOMM_PERIOD_CLOSED :: string where [literal_defs]:
  "OFFICIAL_LOG_EMCOMM_PERIOD_CLOSED = ''official.log.emcomm.period.closed''"

definition OFFICIAL_LOG_EMCOMM_PERSON_CHECKED_IN :: string where [literal_defs]:
  "OFFICIAL_LOG_EMCOMM_PERSON_CHECKED_IN = ''official.log.emcomm.person.checked_in''"

definition OFFICIAL_LOG_EMCOMM_PERSON_UPDATED :: string where [literal_defs]:
  "OFFICIAL_LOG_EMCOMM_PERSON_UPDATED = ''official.log.emcomm.person.updated''"

definition OFFICIAL_LOG_EMCOMM_PERSON_CHECKED_OUT :: string where [literal_defs]:
  "OFFICIAL_LOG_EMCOMM_PERSON_CHECKED_OUT = ''official.log.emcomm.person.checked_out''"

definition OFFICIAL_LOG_EMCOMM_ASSIGNMENT_CREATED :: string where [literal_defs]:
  "OFFICIAL_LOG_EMCOMM_ASSIGNMENT_CREATED = ''official.log.emcomm.assignment.created''"

definition OFFICIAL_LOG_EMCOMM_ASSIGNMENT_UPDATED :: string where [literal_defs]:
  "OFFICIAL_LOG_EMCOMM_ASSIGNMENT_UPDATED = ''official.log.emcomm.assignment.updated''"

definition OFFICIAL_LOG_EMCOMM_ASSIGNMENT_RELEASED :: string where [literal_defs]:
  "OFFICIAL_LOG_EMCOMM_ASSIGNMENT_RELEASED = ''official.log.emcomm.assignment.released''"

definition OFFICIAL_LOG_EMCOMM_MESSAGE_CREATED :: string where [literal_defs]:
  "OFFICIAL_LOG_EMCOMM_MESSAGE_CREATED = ''official.log.emcomm.message.created''"

definition OFFICIAL_LOG_EMCOMM_MESSAGE_UPDATED :: string where [literal_defs]:
  "OFFICIAL_LOG_EMCOMM_MESSAGE_UPDATED = ''official.log.emcomm.message.updated''"

definition OFFICIAL_LOG_EMCOMM_MESSAGE_TRANSMITTED :: string where [literal_defs]:
  "OFFICIAL_LOG_EMCOMM_MESSAGE_TRANSMITTED = ''official.log.emcomm.message.transmitted''"

definition OFFICIAL_LOG_EMCOMM_MESSAGE_RECEIVED :: string where [literal_defs]:
  "OFFICIAL_LOG_EMCOMM_MESSAGE_RECEIVED = ''official.log.emcomm.message.received''"

definition OFFICIAL_LOG_EMCOMM_MESSAGE_ACKNOWLEDGED :: string where [literal_defs]:
  "OFFICIAL_LOG_EMCOMM_MESSAGE_ACKNOWLEDGED = ''official.log.emcomm.message.acknowledged''"

definition OFFICIAL_LOG_EMCOMM_MESSAGE_CANCELLED :: string where [literal_defs]:
  "OFFICIAL_LOG_EMCOMM_MESSAGE_CANCELLED = ''official.log.emcomm.message.cancelled''"

definition OFFICIAL_LOG_EMCOMM_ACTIVITY_LOGGED :: string where [literal_defs]:
  "OFFICIAL_LOG_EMCOMM_ACTIVITY_LOGGED = ''official.log.emcomm.activity.logged''"

text \<open>The two name spaces as lists; their members are pairwise distinct, which
  makes the inequality of any two names a simplification rule.\<close>

definition proposal_types :: "string list" where
  "proposal_types =
    [PROPOSAL_QSO_CREATE, PROPOSAL_QSO_CORRECT, PROPOSAL_QSO_DELETE, PROPOSAL_QSO_RESTORE,
      PROPOSAL_QSO_NOTE_ADD, PROPOSAL_ACTIVATION_CREATE, PROPOSAL_ACTIVATION_UPDATE,
      PROPOSAL_ACTIVATION_START, PROPOSAL_ACTIVATION_END, PROPOSAL_ACTIVATION_CANCEL,
      PROPOSAL_ACTIVATION_NOTE_ADD, PROPOSAL_QSO_ACTIVATION_LINK,
      PROPOSAL_QSO_ACTIVATION_UNLINK, PROPOSAL_NET_TEMPLATE_CREATE,
      PROPOSAL_NET_TEMPLATE_UPDATE, PROPOSAL_NET_SESSION_START, PROPOSAL_NET_SESSION_END,
      PROPOSAL_NET_SESSION_CANCEL, PROPOSAL_NET_CHECKIN_CREATE, PROPOSAL_NET_CHECKIN_UPDATE,
      PROPOSAL_NET_CHECKIN_DELETE, PROPOSAL_NET_TRAFFIC_CREATE, PROPOSAL_NET_TRAFFIC_UPDATE,
      PROPOSAL_NET_REPORT_EXPORT, PROPOSAL_EMCOMM_INCIDENT_OPEN,
      PROPOSAL_EMCOMM_INCIDENT_UPDATE, PROPOSAL_EMCOMM_INCIDENT_CLOSE,
      PROPOSAL_EMCOMM_PERIOD_OPEN, PROPOSAL_EMCOMM_PERIOD_CLOSE,
      PROPOSAL_EMCOMM_PERSON_CHECK_IN, PROPOSAL_EMCOMM_PERSON_UPDATE,
      PROPOSAL_EMCOMM_PERSON_CHECK_OUT, PROPOSAL_EMCOMM_ASSIGNMENT_CREATE,
      PROPOSAL_EMCOMM_ASSIGNMENT_UPDATE, PROPOSAL_EMCOMM_ASSIGNMENT_RELEASE,
      PROPOSAL_EMCOMM_MESSAGE_CREATE, PROPOSAL_EMCOMM_MESSAGE_UPDATE,
      PROPOSAL_EMCOMM_MESSAGE_TRANSMIT, PROPOSAL_EMCOMM_MESSAGE_RECEIVE,
      PROPOSAL_EMCOMM_MESSAGE_ACKNOWLEDGE, PROPOSAL_EMCOMM_MESSAGE_CANCEL,
      PROPOSAL_EMCOMM_ACTIVITY_LOG]"

definition official_types :: "string list" where
  "official_types =
    [OFFICIAL_LOG_QSO_CREATED, OFFICIAL_LOG_QSO_CORRECTED, OFFICIAL_LOG_QSO_DELETED,
      OFFICIAL_LOG_QSO_RESTORED, OFFICIAL_LOG_QSO_NOTE_ADDED, OFFICIAL_LOG_ACTIVATION_CREATED,
      OFFICIAL_LOG_ACTIVATION_UPDATED, OFFICIAL_LOG_ACTIVATION_STARTED,
      OFFICIAL_LOG_ACTIVATION_ENDED, OFFICIAL_LOG_ACTIVATION_CANCELLED,
      OFFICIAL_LOG_ACTIVATION_NOTE_ADDED, OFFICIAL_LOG_QSO_ACTIVATION_LINKED,
      OFFICIAL_LOG_QSO_ACTIVATION_UNLINKED, OFFICIAL_LOG_UPLOAD_QUEUED,
      OFFICIAL_LOG_UPLOAD_COMPLETED, OFFICIAL_LOG_UPLOAD_FAILED,
      OFFICIAL_LOG_NET_TEMPLATE_CREATED, OFFICIAL_LOG_NET_TEMPLATE_UPDATED,
      OFFICIAL_LOG_NET_SESSION_STARTED, OFFICIAL_LOG_NET_SESSION_ENDED,
      OFFICIAL_LOG_NET_SESSION_CANCELLED, OFFICIAL_LOG_NET_CHECKIN_CREATED,
      OFFICIAL_LOG_NET_CHECKIN_UPDATED, OFFICIAL_LOG_NET_CHECKIN_DELETED,
      OFFICIAL_LOG_NET_TRAFFIC_CREATED, OFFICIAL_LOG_NET_TRAFFIC_UPDATED,
      OFFICIAL_LOG_NET_REPORT_EXPORTED, OFFICIAL_LOG_EMCOMM_INCIDENT_OPENED,
      OFFICIAL_LOG_EMCOMM_INCIDENT_UPDATED, OFFICIAL_LOG_EMCOMM_INCIDENT_CLOSED,
      OFFICIAL_LOG_EMCOMM_PERIOD_OPENED, OFFICIAL_LOG_EMCOMM_PERIOD_CLOSED,
      OFFICIAL_LOG_EMCOMM_PERSON_CHECKED_IN, OFFICIAL_LOG_EMCOMM_PERSON_UPDATED,
      OFFICIAL_LOG_EMCOMM_PERSON_CHECKED_OUT, OFFICIAL_LOG_EMCOMM_ASSIGNMENT_CREATED,
      OFFICIAL_LOG_EMCOMM_ASSIGNMENT_UPDATED, OFFICIAL_LOG_EMCOMM_ASSIGNMENT_RELEASED,
      OFFICIAL_LOG_EMCOMM_MESSAGE_CREATED, OFFICIAL_LOG_EMCOMM_MESSAGE_UPDATED,
      OFFICIAL_LOG_EMCOMM_MESSAGE_TRANSMITTED, OFFICIAL_LOG_EMCOMM_MESSAGE_RECEIVED,
      OFFICIAL_LOG_EMCOMM_MESSAGE_ACKNOWLEDGED, OFFICIAL_LOG_EMCOMM_MESSAGE_CANCELLED,
      OFFICIAL_LOG_EMCOMM_ACTIVITY_LOGGED]"

lemma distinct_proposal_types: "distinct proposal_types"
  by code_simp

lemma distinct_official_types: "distinct official_types"
  by code_simp

lemmas proposal_types_neq [simp] =
  distinct_proposal_types [unfolded proposal_types_def distinct.simps list.set insert_iff empty_iff simp_thms de_Morgan_disj]
lemmas proposal_types_neq_sym [simp] =
  distinct_rev [of proposal_types, THEN iffD2, OF distinct_proposal_types,
    unfolded proposal_types_def rev.simps append.simps distinct.simps list.set insert_iff empty_iff simp_thms de_Morgan_disj]
lemmas official_types_neq [simp] =
  distinct_official_types [unfolded official_types_def distinct.simps list.set insert_iff empty_iff simp_thms de_Morgan_disj]
lemmas official_types_neq_sym [simp] =
  distinct_rev [of official_types, THEN iffD2, OF distinct_official_types,
    unfolded official_types_def rev.simps append.simps distinct.simps list.set insert_iff empty_iff simp_thms de_Morgan_disj]

section \<open>Capabilities\<close>

datatype (plugins only: ) plugin_capability =
    QsoView | QsoCreate | QsoCorrect | QsoDelete | QsoRestore | QsoNoteAdd
   | QsoViewDeleted | ActivationCreate | ActivationUpdate | ActivationEnd
   | ActivationCancel | ActivationView | AdifImport | AdifExport | SyncLanDiscovery
   | SyncLanPull | SyncLanPush | SyncCloudConnect | SyncCloudPull | SyncCloudPush
   | LookupCallsign | LookupEntity | LookupGrid | LookupCacheRead | LookupCacheWrite
   | NetworkExternalLookup | QsoSuggestFields | RigView | RigControlFrequency
   | RigControlMode | RigControlPtt | RigControlSplit | RigReadState | RigConfigure
   | DiagnosticsViewLogs | DiagnosticsExport | DiagnosticsUpload
   | ServiceProviderRegister | ServiceProviderConfigure | ServiceProviderEnable
   | ServiceProviderDisable | ServiceCacheRead | ServiceCacheWrite
   | ServiceCacheClear | UploadLog | UploadConfirmationPull | UploadQueueManage
   | UploadStatusView | NetworkExternalUpload | SpottingView | SpottingConfigure
   | NetworkExternalSpotting | MapView | MapConfigure | NetworkExternalMap
   | WeatherView | NetworkExternalWeather | PropagationView
   | NetworkExternalPropagation | AutomationManage | NotificationView
   | StationProfileView | StationProfileManage | StationEquipmentView
   | StationEquipmentManage | StationProfileUse | CredentialViewMetadata
   | CredentialCreate | CredentialUpdate | CredentialDelete | CredentialUse
   | CredentialTest | NetView | NetTemplateCreate | NetTemplateUpdate
   | NetSessionStart | NetSessionEnd | NetCheckinCreate | NetCheckinUpdate
   | NetCheckinDelete | NetTrafficManage | NetReportExport | EmCommView
   | EmCommIncidentManage | EmCommPeriodManage | EmCommPersonManage
   | EmCommAssignmentManage | EmCommMessageManage | EmCommActivityLog
   | UiPanelRegister | UiCommandRegister | SettingsRead | SettingsWrite
  | CapOther string

primrec capability_as_str :: "plugin_capability \<Rightarrow> string" where
  "capability_as_str QsoView = ''log.qso.view''"
| "capability_as_str QsoCreate = ''log.qso.create''"
| "capability_as_str QsoCorrect = ''log.qso.correct''"
| "capability_as_str QsoDelete = ''log.qso.delete''"
| "capability_as_str QsoRestore = ''log.qso.restore''"
| "capability_as_str QsoNoteAdd = ''log.qso.note.add''"
| "capability_as_str QsoViewDeleted = ''log.qso.view_deleted''"
| "capability_as_str ActivationCreate = ''activation.create''"
| "capability_as_str ActivationUpdate = ''activation.update''"
| "capability_as_str ActivationEnd = ''activation.end''"
| "capability_as_str ActivationCancel = ''activation.cancel''"
| "capability_as_str ActivationView = ''activation.view''"
| "capability_as_str AdifImport = ''adif.import''"
| "capability_as_str AdifExport = ''adif.export''"
| "capability_as_str SyncLanDiscovery = ''sync.lan.discovery''"
| "capability_as_str SyncLanPull = ''sync.lan.pull''"
| "capability_as_str SyncLanPush = ''sync.lan.push''"
| "capability_as_str SyncCloudConnect = ''sync.cloud.connect''"
| "capability_as_str SyncCloudPull = ''sync.cloud.pull''"
| "capability_as_str SyncCloudPush = ''sync.cloud.push''"
| "capability_as_str LookupCallsign = ''lookup.callsign''"
| "capability_as_str LookupEntity = ''lookup.entity''"
| "capability_as_str LookupGrid = ''lookup.grid''"
| "capability_as_str LookupCacheRead = ''cache.lookup.read''"
| "capability_as_str LookupCacheWrite = ''cache.lookup.write''"
| "capability_as_str NetworkExternalLookup = ''network.external.lookup''"
| "capability_as_str QsoSuggestFields = ''log.qso.suggest_fields''"
| "capability_as_str RigView = ''rig.view''"
| "capability_as_str RigControlFrequency = ''rig.control.frequency''"
| "capability_as_str RigControlMode = ''rig.control.mode''"
| "capability_as_str RigControlPtt = ''rig.control.ptt''"
| "capability_as_str RigControlSplit = ''rig.control.split''"
| "capability_as_str RigReadState = ''rig.read.state''"
| "capability_as_str RigConfigure = ''rig.configure''"
| "capability_as_str DiagnosticsViewLogs = ''diagnostics.view_logs''"
| "capability_as_str DiagnosticsExport = ''diagnostics.export''"
| "capability_as_str DiagnosticsUpload = ''diagnostics.upload''"
| "capability_as_str ServiceProviderRegister = ''service.provider.register''"
| "capability_as_str ServiceProviderConfigure = ''service.provider.configure''"
| "capability_as_str ServiceProviderEnable = ''service.provider.enable''"
| "capability_as_str ServiceProviderDisable = ''service.provider.disable''"
| "capability_as_str ServiceCacheRead = ''service.cache.read''"
| "capability_as_str ServiceCacheWrite = ''service.cache.write''"
| "capability_as_str ServiceCacheClear = ''service.cache.clear''"
| "capability_as_str UploadLog = ''upload.log''"
| "capability_as_str UploadConfirmationPull = ''upload.confirmation_pull''"
| "capability_as_str UploadQueueManage = ''upload.queue.manage''"
| "capability_as_str UploadStatusView = ''upload.status.view''"
| "capability_as_str NetworkExternalUpload = ''network.external.upload''"
| "capability_as_str SpottingView = ''spotting.view''"
| "capability_as_str SpottingConfigure = ''spotting.configure''"
| "capability_as_str NetworkExternalSpotting = ''network.external.spotting''"
| "capability_as_str MapView = ''map.view''"
| "capability_as_str MapConfigure = ''map.configure''"
| "capability_as_str NetworkExternalMap = ''network.external.map''"
| "capability_as_str WeatherView = ''weather.view''"
| "capability_as_str NetworkExternalWeather = ''network.external.weather''"
| "capability_as_str PropagationView = ''propagation.view''"
| "capability_as_str NetworkExternalPropagation = ''network.external.propagation''"
| "capability_as_str AutomationManage = ''automation.manage''"
| "capability_as_str NotificationView = ''notification.view''"
| "capability_as_str StationProfileView = ''station.profile.view''"
| "capability_as_str StationProfileManage = ''station.profile.manage''"
| "capability_as_str StationEquipmentView = ''station.equipment.view''"
| "capability_as_str StationEquipmentManage = ''station.equipment.manage''"
| "capability_as_str StationProfileUse = ''station.profile.use''"
| "capability_as_str CredentialViewMetadata = ''credential.view_metadata''"
| "capability_as_str CredentialCreate = ''credential.create''"
| "capability_as_str CredentialUpdate = ''credential.update''"
| "capability_as_str CredentialDelete = ''credential.delete''"
| "capability_as_str CredentialUse = ''credential.use''"
| "capability_as_str CredentialTest = ''credential.test''"
| "capability_as_str NetView = ''net.view''"
| "capability_as_str NetTemplateCreate = ''net.template.create''"
| "capability_as_str NetTemplateUpdate = ''net.template.update''"
| "capability_as_str NetSessionStart = ''net.session.start''"
| "capability_as_str NetSessionEnd = ''net.session.end''"
| "capability_as_str NetCheckinCreate = ''net.checkin.create''"
| "capability_as_str NetCheckinUpdate = ''net.checkin.update''"
| "capability_as_str NetCheckinDelete = ''net.checkin.delete''"
| "capability_as_str NetTrafficManage = ''net.traffic.manage''"
| "capability_as_str NetReportExport = ''net.report.export''"
| "capability_as_str EmCommView = ''emcomm.view''"
| "capability_as_str EmCommIncidentManage = ''emcomm.incident.manage''"
| "capability_as_str EmCommPeriodManage = ''emcomm.period.manage''"
| "capability_as_str EmCommPersonManage = ''emcomm.person.manage''"
| "capability_as_str EmCommAssignmentManage = ''emcomm.assignment.manage''"
| "capability_as_str EmCommMessageManage = ''emcomm.message.manage''"
| "capability_as_str EmCommActivityLog = ''emcomm.activity.log''"
| "capability_as_str UiPanelRegister = ''ui.panel.register''"
| "capability_as_str UiCommandRegister = ''ui.command.register''"
| "capability_as_str SettingsRead = ''settings.read''"
| "capability_as_str SettingsWrite = ''settings.write''"
| "capability_as_str (CapOther value) = value"

text \<open>The arms of the deserialiser, legacy spellings included.\<close>

definition capability_table :: "(string \<times> plugin_capability) list" where
  "capability_table = [
     (''log.qso.view'', QsoView),
     (''qso:create'', QsoCreate),
     (''log.qso.create'', QsoCreate),
     (''qso:correct'', QsoCorrect),
     (''log.qso.correct'', QsoCorrect),
     (''qso:delete'', QsoDelete),
     (''log.qso.delete'', QsoDelete),
     (''qso:restore'', QsoRestore),
     (''log.qso.restore'', QsoRestore),
     (''qso:note:add'', QsoNoteAdd),
     (''log.qso.note.add'', QsoNoteAdd),
     (''qso:view-deleted'', QsoViewDeleted),
     (''log.qso.view_deleted'', QsoViewDeleted),
     (''activation.create'', ActivationCreate),
     (''activation.update'', ActivationUpdate),
     (''activation.end'', ActivationEnd),
     (''activation.cancel'', ActivationCancel),
     (''activation.view'', ActivationView),
     (''adif.import'', AdifImport),
     (''adif.export'', AdifExport),
     (''sync.lan.discovery'', SyncLanDiscovery),
     (''sync.lan.pull'', SyncLanPull),
     (''sync.lan.push'', SyncLanPush),
     (''sync.cloud.connect'', SyncCloudConnect),
     (''sync.cloud.pull'', SyncCloudPull),
     (''sync.cloud.push'', SyncCloudPush),
     (''lookup.callsign'', LookupCallsign),
     (''lookup.entity'', LookupEntity),
     (''lookup.grid'', LookupGrid),
     (''cache.lookup.read'', LookupCacheRead),
     (''cache.lookup.write'', LookupCacheWrite),
     (''network.external.lookup'', NetworkExternalLookup),
     (''log.qso.suggest_fields'', QsoSuggestFields),
     (''rig.view'', RigView),
     (''rig.control.frequency'', RigControlFrequency),
     (''rig.control.mode'', RigControlMode),
     (''rig.control.ptt'', RigControlPtt),
     (''rig.control.split'', RigControlSplit),
     (''rig.read.state'', RigReadState),
     (''rig.configure'', RigConfigure),
     (''diagnostics.view_logs'', DiagnosticsViewLogs),
     (''diagnostics.export'', DiagnosticsExport),
     (''diagnostics.upload'', DiagnosticsUpload),
     (''service.provider.register'', ServiceProviderRegister),
     (''service.provider.configure'', ServiceProviderConfigure),
     (''service.provider.enable'', ServiceProviderEnable),
     (''service.provider.disable'', ServiceProviderDisable),
     (''service.cache.read'', ServiceCacheRead),
     (''service.cache.write'', ServiceCacheWrite),
     (''service.cache.clear'', ServiceCacheClear),
     (''upload.log'', UploadLog),
     (''upload.confirmation_pull'', UploadConfirmationPull),
     (''upload.queue.manage'', UploadQueueManage),
     (''upload.status.view'', UploadStatusView),
     (''network.external.upload'', NetworkExternalUpload),
     (''spotting.view'', SpottingView),
     (''spotting.configure'', SpottingConfigure),
     (''network.external.spotting'', NetworkExternalSpotting),
     (''map.view'', MapView),
     (''map.configure'', MapConfigure),
     (''network.external.map'', NetworkExternalMap),
     (''weather.view'', WeatherView),
     (''network.external.weather'', NetworkExternalWeather),
     (''propagation.view'', PropagationView),
     (''network.external.propagation'', NetworkExternalPropagation),
     (''automation.manage'', AutomationManage),
     (''notification.view'', NotificationView),
     (''station.profile.view'', StationProfileView),
     (''station.profile.manage'', StationProfileManage),
     (''station.equipment.view'', StationEquipmentView),
     (''station.equipment.manage'', StationEquipmentManage),
     (''station.profile.use'', StationProfileUse),
     (''credential.view_metadata'', CredentialViewMetadata),
     (''credential.create'', CredentialCreate),
     (''credential.update'', CredentialUpdate),
     (''credential.delete'', CredentialDelete),
     (''credential.use'', CredentialUse),
     (''credential.test'', CredentialTest),
     (''net.view'', NetView),
     (''net.template.create'', NetTemplateCreate),
     (''net.template.update'', NetTemplateUpdate),
     (''net.session.start'', NetSessionStart),
     (''net.session.end'', NetSessionEnd),
     (''net.checkin.create'', NetCheckinCreate),
     (''net.checkin.update'', NetCheckinUpdate),
     (''net.checkin.delete'', NetCheckinDelete),
     (''net.traffic.manage'', NetTrafficManage),
     (''net.report.export'', NetReportExport),
     (''emcomm.view'', EmCommView),
     (''emcomm.incident.manage'', EmCommIncidentManage),
     (''emcomm.period.manage'', EmCommPeriodManage),
     (''emcomm.person.manage'', EmCommPersonManage),
     (''emcomm.assignment.manage'', EmCommAssignmentManage),
     (''emcomm.message.manage'', EmCommMessageManage),
     (''emcomm.activity.log'', EmCommActivityLog),
     (''ui.panel.register'', UiPanelRegister),
     (''ui.command.register'', UiCommandRegister),
     (''settings.read'', SettingsRead),
     (''settings.write'', SettingsWrite)]"

definition capability_of_str :: "string \<Rightarrow> plugin_capability" where
  "capability_of_str value =
     (case map_of capability_table value of Some c \<Rightarrow> c | None \<Rightarrow> CapOther value)"

section \<open>Manifests\<close>

datatype service_type =
    CallsignLookup | EntityLookup | GridLookup | LogUpload | Spotting | MapTiles | Geocoding
  | Weather | Propagation | AwardData | AiTool | Authentication | Storage | Notification

primrec service_type_as_str :: "service_type \<Rightarrow> string" where
  "service_type_as_str CallsignLookup = ''callsign_lookup''"
| "service_type_as_str EntityLookup = ''entity_lookup''"
| "service_type_as_str GridLookup = ''grid_lookup''"
| "service_type_as_str LogUpload = ''log_upload''"
| "service_type_as_str Spotting = ''spotting''"
| "service_type_as_str MapTiles = ''map_tiles''"
| "service_type_as_str Geocoding = ''geocoding''"
| "service_type_as_str Weather = ''weather''"
| "service_type_as_str Propagation = ''propagation''"
| "service_type_as_str AwardData = ''award_data''"
| "service_type_as_str AiTool = ''ai_tool''"
| "service_type_as_str Authentication = ''authentication''"
| "service_type_as_str Storage = ''storage''"
| "service_type_as_str Notification = ''notification''"

record plugin_manifest =
  pm_plugin_id :: string
  pm_name :: string
  pm_version :: string
  pm_author :: string
  pm_description :: string
  pm_requested_permissions :: "plugin_capability list"
  pm_optional_permissions :: "plugin_capability list"
  pm_contributed_panels :: "string list"
  pm_contributed_commands :: "string list"
  pm_contributed_services :: "service_type list"
  pm_plugin_type :: string
  pm_minimum_core_version :: string
  pm_capabilities :: "plugin_capability list"

text \<open>\<open>normalize_permissions\<close>: first occurrences, in order.\<close>

definition normalize_permissions :: "plugin_capability list \<Rightarrow> plugin_capability list" where
  "normalize_permissions cs = foldl (\<lambda>n c. if c \<in> set n then n else n @ [c]) [] cs"

definition manifest_new ::
    "string \<Rightarrow> string \<Rightarrow> string \<Rightarrow> plugin_capability list \<Rightarrow> plugin_manifest" where
  "manifest_new plugin_id name version cs =
     (let capabilities = normalize_permissions cs in
      \<lparr>pm_plugin_id = plugin_id, pm_name = name, pm_version = version, pm_author = [],
       pm_description = [], pm_requested_permissions = capabilities,
       pm_optional_permissions = [], pm_contributed_panels = [], pm_contributed_commands = [],
       pm_contributed_services = [], pm_plugin_type = ''builtin'',
       pm_minimum_core_version = ''0.1.0'', pm_capabilities = capabilities\<rparr>)"

definition has_capability :: "plugin_manifest \<Rightarrow> plugin_capability \<Rightarrow> bool" where
  "has_capability m c =
     (c \<in> set (pm_capabilities m) \<or> c \<in> set (pm_requested_permissions m))"

definition requested_or_capabilities :: "plugin_manifest \<Rightarrow> plugin_capability list" where
  "requested_or_capabilities m =
     (if pm_requested_permissions m = [] then pm_capabilities m else pm_requested_permissions m)"

section \<open>Proposals\<close>

record proposal_envelope =
  pr_proposal_id :: uuid
  pr_proposal_type :: string
  pr_logbook_id :: uuid
  pr_entity_id :: "uuid option"
  pr_timestamp :: datetime
  pr_author_operator_id :: "uuid option"
  pr_author_device_id :: uuid
  pr_source_plugin_id :: string
  pr_schema_version :: "32 word"
  pr_payload :: json

definition proposal_new ::
    "string \<Rightarrow> uuid \<Rightarrow> uuid option \<Rightarrow> uuid option \<Rightarrow> uuid \<Rightarrow> string \<Rightarrow> 32 word \<Rightarrow> json \<Rightarrow>
     world \<Rightarrow> proposal_envelope \<times> world" where
  "proposal_new proposal_type logbook_id entity_id author_operator_id author_device_id
       source_plugin_id schema_version payload w =
     (let (pid, w) = new_v4 w; (t, w) = utc_now w in
      (\<lparr>pr_proposal_id = pid, pr_proposal_type = proposal_type, pr_logbook_id = logbook_id,
        pr_entity_id = entity_id, pr_timestamp = t, pr_author_operator_id = author_operator_id,
        pr_author_device_id = author_device_id, pr_source_plugin_id = source_plugin_id,
        pr_schema_version = schema_version, pr_payload = payload\<rparr>, w))"

section \<open>Facts\<close>

text \<open>The keys of the deserialiser are distinct, and every capability but \<open>Other\<close> is
  listed under its own name.\<close>

definition named_capabilities :: "plugin_capability list" where
  "named_capabilities =
    [QsoView, QsoCreate, QsoCorrect, QsoDelete, QsoRestore, QsoNoteAdd, QsoViewDeleted,
      ActivationCreate, ActivationUpdate, ActivationEnd, ActivationCancel, ActivationView,
      AdifImport, AdifExport, SyncLanDiscovery, SyncLanPull, SyncLanPush, SyncCloudConnect,
      SyncCloudPull, SyncCloudPush, LookupCallsign, LookupEntity, LookupGrid, LookupCacheRead,
      LookupCacheWrite, NetworkExternalLookup, QsoSuggestFields, RigView, RigControlFrequency,
      RigControlMode, RigControlPtt, RigControlSplit, RigReadState, RigConfigure,
      DiagnosticsViewLogs, DiagnosticsExport, DiagnosticsUpload, ServiceProviderRegister,
      ServiceProviderConfigure, ServiceProviderEnable, ServiceProviderDisable,
      ServiceCacheRead, ServiceCacheWrite, ServiceCacheClear, UploadLog,
      UploadConfirmationPull, UploadQueueManage, UploadStatusView, NetworkExternalUpload,
      SpottingView, SpottingConfigure, NetworkExternalSpotting, MapView, MapConfigure,
      NetworkExternalMap, WeatherView, NetworkExternalWeather, PropagationView,
      NetworkExternalPropagation, AutomationManage, NotificationView, StationProfileView,
      StationProfileManage, StationEquipmentView, StationEquipmentManage, StationProfileUse,
      CredentialViewMetadata, CredentialCreate, CredentialUpdate, CredentialDelete,
      CredentialUse, CredentialTest, NetView, NetTemplateCreate, NetTemplateUpdate,
      NetSessionStart, NetSessionEnd, NetCheckinCreate, NetCheckinUpdate, NetCheckinDelete,
      NetTrafficManage, NetReportExport, EmCommView, EmCommIncidentManage, EmCommPeriodManage,
      EmCommPersonManage, EmCommAssignmentManage, EmCommMessageManage, EmCommActivityLog,
      UiPanelRegister, UiCommandRegister, SettingsRead, SettingsWrite]"

lemma distinct_capability_keys: "distinct (map fst capability_table)"
  unfolding capability_table_def list.map fst_conv by code_simp

lemma capability_table_own:
  "map snd (filter (\<lambda>(k, c). capability_as_str c = k) capability_table) = named_capabilities"
  by (simp add: capability_table_def named_capabilities_def)

lemma named_capabilities_all: "(\<forall>s. c \<noteq> CapOther s) \<Longrightarrow> c \<in> set named_capabilities"
  by (cases c) (simp_all add: named_capabilities_def)

lemma capability_of_str_as_str:
  assumes "\<forall>s. c \<noteq> CapOther s"
  shows "capability_of_str (capability_as_str c) = c"
proof -
  have "(capability_as_str c, c) \<in> set capability_table"
    using named_capabilities_all [OF assms] unfolding capability_table_own [symmetric] by auto
  then show ?thesis
    using map_of_is_SomeI [OF distinct_capability_keys] by (simp add: capability_of_str_def)
qed

lemma set_normalize_aux:
  "set (foldl (\<lambda>n c. if c \<in> set n then n else n @ [c]) acc cs) = set acc \<union> set cs"
  by (induction cs arbitrary: acc) auto

lemma set_normalize_permissions [simp]: "set (normalize_permissions cs) = set cs"
  by (simp add: normalize_permissions_def set_normalize_aux)

lemma distinct_normalize_aux:
  "distinct acc \<Longrightarrow> distinct (foldl (\<lambda>n c. if c \<in> set n then n else n @ [c]) acc cs)"
  by (induction cs arbitrary: acc) auto

lemma distinct_normalize_permissions [simp]: "distinct (normalize_permissions cs)"
  by (simp add: normalize_permissions_def distinct_normalize_aux)

lemma manifest_new_fields [simp]:
  "pm_plugin_id (manifest_new i n v cs) = i"
  "has_capability (manifest_new i n v cs) c \<longleftrightarrow> c \<in> set cs"
  by (auto simp: manifest_new_def has_capability_def Let_def)

end
