(* ===== verification/Event.thy ===== *)
theory Event
  imports Plugin_Sdk
begin

text \<open>
  Official logbook events (\<open>ham-core/src/event.rs\<close>) and the third-party functions the
  model takes as parameters.
\<close>

record canonical_event =
  ce_event_id :: uuid
  ce_event_type :: string
  ce_logbook_id :: uuid
  ce_entity_id :: "uuid option"
  ce_previous_hash :: "string option"
  ce_timestamp :: datetime
  ce_author_operator_id :: "uuid option"
  ce_station_callsign :: string
  ce_operator_callsign :: "string option"
  ce_author_device_id :: uuid
  ce_source_device_id :: uuid
  ce_correlation_id :: uuid
  ce_source_plugin_id :: "string option"
  ce_schema_version :: "32 word"
  ce_payload :: json

record core_event =
  ev_event_id :: uuid
  ev_event_type :: string
  ev_logbook_id :: uuid
  ev_entity_id :: "uuid option"
  ev_previous_hash :: "string option"
  ev_event_hash :: string
  ev_timestamp :: datetime
  ev_author_operator_id :: "uuid option"
  ev_station_callsign :: string
  ev_operator_callsign :: "string option"
  ev_author_device_id :: uuid
  ev_source_device_id :: uuid
  ev_correlation_id :: uuid
  ev_source_plugin_id :: "string option"
  ev_schema_version :: "32 word"
  ev_payload :: json

record new_event =
  ne_event_type :: string
  ne_logbook_id :: uuid
  ne_entity_id :: "uuid option"
  ne_author_operator_id :: "uuid option"
  ne_station_callsign :: string
  ne_operator_callsign :: "string option"
  ne_author_device_id :: uuid
  ne_source_device_id :: uuid
  ne_correlation_id :: uuid
  ne_source_plugin_id :: "string option"
  ne_schema_version :: "32 word"
  ne_payload :: json

text \<open>
  The crates whose code is not part of the repository, as functions:
  \<^item> \<open>lib_digest\<close>: SHA-256 of the \<open>serde_json\<close> bytes of a canonical event, in lower-case hex;
  \<^item> \<open>lib_show_uuid\<close>, \<open>lib_parse_uuid\<close>: \<open>Uuid\<close>'s \<open>Display\<close> and \<open>Uuid::parse_str\<close>;
  \<^item> \<open>lib_parse_rfc3339\<close>: \<open>chrono\<close>'s RFC 3339 parser, converted to UTC;
  \<^item> \<open>lib_print_event\<close>, \<open>lib_parse_event\<close>: the JSON line of an event and its reader.
\<close>

record libs =
  lib_digest :: "canonical_event \<Rightarrow> string"
  lib_show_uuid :: "uuid \<Rightarrow> string"
  lib_parse_uuid :: "string \<Rightarrow> uuid option"
  lib_parse_rfc3339 :: "string \<Rightarrow> datetime option"
  lib_print_event :: "core_event \<Rightarrow> string"
  lib_parse_event :: "string \<Rightarrow> core_event option"

definition json_uuid :: "libs \<Rightarrow> uuid \<Rightarrow> json" where
  "json_uuid L u = JString (lib_show_uuid L u)"

definition canonical_of :: "core_event \<Rightarrow> canonical_event" where
  "canonical_of e =
     \<lparr>ce_event_id = ev_event_id e, ce_event_type = ev_event_type e,
      ce_logbook_id = ev_logbook_id e, ce_entity_id = ev_entity_id e,
      ce_previous_hash = ev_previous_hash e, ce_timestamp = ev_timestamp e,
      ce_author_operator_id = ev_author_operator_id e,
      ce_station_callsign = ev_station_callsign e,
      ce_operator_callsign = ev_operator_callsign e,
      ce_author_device_id = ev_author_device_id e,
      ce_source_device_id = ev_source_device_id e,
      ce_correlation_id = ev_correlation_id e,
      ce_source_plugin_id = ev_source_plugin_id e,
      ce_schema_version = ev_schema_version e, ce_payload = ev_payload e\<rparr>"

definition calculate_hash :: "libs \<Rightarrow> core_event \<Rightarrow> string" where
  "calculate_hash L e = lib_digest L (canonical_of e)"

definition hash_is_valid :: "libs \<Rightarrow> core_event \<Rightarrow> bool" where
  "hash_is_valid L e = (ev_event_hash e = calculate_hash L e)"

definition from_new :: "libs \<Rightarrow> new_event \<Rightarrow> string option \<Rightarrow> world \<Rightarrow> core_event \<times> world" where
  "from_new L n prev w =
     (let (eid, w) = new_v4 w; (t, w) = utc_now w;
          event = \<lparr>ev_event_id = eid, ev_event_type = ne_event_type n,
            ev_logbook_id = ne_logbook_id n, ev_entity_id = ne_entity_id n,
            ev_previous_hash = prev, ev_event_hash = [], ev_timestamp = t,
            ev_author_operator_id = ne_author_operator_id n,
            ev_station_callsign = ne_station_callsign n,
            ev_operator_callsign = ne_operator_callsign n,
            ev_author_device_id = ne_author_device_id n,
            ev_source_device_id = ne_source_device_id n,
            ev_correlation_id = ne_correlation_id n,
            ev_source_plugin_id = ne_source_plugin_id n,
            ev_schema_version = ne_schema_version n, ev_payload = ne_payload n\<rparr>
      in (event\<lparr>ev_event_hash := calculate_hash L event\<rparr>, w))"

section \<open>Facts\<close>

lemma canonical_of_hash [simp]: "canonical_of (e\<lparr>ev_event_hash := h\<rparr>) = canonical_of e"
  by (simp add: canonical_of_def)

lemma calculate_hash_update [simp]: "calculate_hash L (e\<lparr>ev_event_hash := h\<rparr>) = calculate_hash L e"
  by (simp add: calculate_hash_def)

lemma from_new_fields:
  assumes "from_new L n prev w = (e, w')"
  shows "ev_event_id e = uuid_source w (uuid_pos w)" "ev_event_type e = ne_event_type n"
    "ev_logbook_id e = ne_logbook_id n" "ev_entity_id e = ne_entity_id n"
    "ev_previous_hash e = prev" "ev_payload e = ne_payload n"
    "ev_schema_version e = ne_schema_version n" "hash_is_valid L e"
    "uuid_source w' = uuid_source w" "uuid_pos w' = Suc (uuid_pos w)"
    "ev_source_plugin_id e = ne_source_plugin_id n" "ev_correlation_id e = ne_correlation_id n"
    "ev_station_callsign e = ne_station_callsign n"
  using assms by (auto simp: from_new_def new_v4_def utc_now_def hash_is_valid_def
      calculate_hash_def canonical_of_def Let_def)

text \<open>The canonical form and the hash together are the whole event.\<close>

lemma event_eqI: "canonical_of e = canonical_of e' \<Longrightarrow> ev_event_hash e = ev_event_hash e' \<Longrightarrow> e = e'"
  by (cases e, cases e') (simp add: canonical_of_def)

end
