(* ===== verification/Projection.thy ===== *)
theory Projection
  imports Event
begin

text \<open>
  The rebuildable projections (\<open>ham-core/src/projection.rs\<close>): the trait \<open>Projection\<close> as a
  locale, the current state of QSOs and the activations with their statistics. A failing
  \<open>apply\<close> is the value \<open>Inl\<close>; its partly updated state is dropped, as every caller does.
\<close>

section \<open>The trait\<close>

text \<open>The provided method \<open>rebuild\<close>: clear, then apply every event, stopping at an error.\<close>

fun replay :: "('e \<Rightarrow> 'p \<Rightarrow> 'f + 'p) \<Rightarrow> 'e list \<Rightarrow> 'p \<Rightarrow> 'f + 'p" where
  "replay app [] p = Inr p"
| "replay app (e # es) p = and_then (app e p) (replay app es)"

definition rebuild :: "('e \<Rightarrow> 'p \<Rightarrow> 'f + 'p) \<Rightarrow> ('p \<Rightarrow> 'p) \<Rightarrow> 'p \<Rightarrow> 'e list \<Rightarrow> 'f + 'p" where
  "rebuild app clr p es = replay app es (clr p)"

locale projection =
  fixes app :: "'e \<Rightarrow> 'p \<Rightarrow> 'f + 'p"
    and clr :: "'p \<Rightarrow> 'p"
    and inv :: "'p \<Rightarrow> bool"
    and good :: "'e \<Rightarrow> bool"
  assumes clr_const: "clr p = clr q"
    and inv_clr: "inv (clr p)"
    and inv_app: "inv p \<Longrightarrow> app e p = Inr p' \<Longrightarrow> inv p'"
    and app_total: "inv p \<Longrightarrow> good e \<Longrightarrow> \<exists>p'. app e p = Inr p'"
begin

lemma replay_append: "replay app (xs @ ys) p = and_then (replay app xs p) (replay app ys)"
proof (induction xs arbitrary: p)
  case (Cons x xs)
  then show ?case by (cases "app x p") simp_all
qed simp

lemma replay_inv: "inv p \<Longrightarrow> replay app es p = Inr p' \<Longrightarrow> inv p'"
  by (induction es arbitrary: p) (auto dest: inv_app)

lemma rebuild_inv: "rebuild app clr p es = Inr p' \<Longrightarrow> inv p'"
  unfolding rebuild_def using inv_clr by (rule replay_inv)

lemma rebuild_old_state: "rebuild app clr p es = rebuild app clr q es"
  unfolding rebuild_def by (simp add: clr_const [of p q])

text \<open>Incremental maintenance: rebuilding from a longer log is rebuilding from its prefix
  and applying the rest.\<close>

lemma rebuild_append:
  "rebuild app clr p (xs @ ys) = and_then (rebuild app clr p xs) (replay app ys)"
  unfolding rebuild_def by (rule replay_append)

lemma replay_total: "inv p \<Longrightarrow> \<forall>e\<in>set es. good e \<Longrightarrow> \<exists>p'. replay app es p = Inr p'"
proof (induction es arbitrary: p)
  case (Cons e es)
  from Cons.prems have "good e" by simp
  then obtain p' where p': "app e p = Inr p'" using app_total [OF Cons.prems(1)] by blast
  then have "inv p'" by (rule inv_app [OF Cons.prems(1)])
  then have "\<exists>q. replay app es p' = Inr q" using Cons.prems(2) by (intro Cons.IH) simp_all
  with p' show ?case by simp
qed simp

lemma rebuild_total: "\<forall>e\<in>set es. good e \<Longrightarrow> \<exists>p'. rebuild app clr p es = Inr p'"
  unfolding rebuild_def using inv_clr by (rule replay_total)

end

section \<open>Merging a correction into a payload\<close>

datatype projection_error = CorrectionPayloadMustBeObject

definition merge_json_object :: "json \<Rightarrow> json \<Rightarrow> projection_error + json" where
  "merge_json_object target patch =
     (case as_object patch of
        None \<Rightarrow> Inl CorrectionPayloadMustBeObject
      | Some p \<Rightarrow>
          Inr (JObject (merge_entries p
            (case as_object target of None \<Rightarrow> [] | Some t \<Rightarrow> t))))"

lemma merge_json_object_ok_iff [simp]:
  "(\<exists>j. merge_json_object t p = Inr j) \<longleftrightarrow> is_object p"
  by (auto simp: merge_json_object_def is_object_def split: option.splits)

lemma merge_json_object_object: "merge_json_object t p = Inr j \<Longrightarrow> is_object j"
  by (auto simp: merge_json_object_def split: option.splits)

lemma merge_json_object_Inl:
  "merge_json_object t p = Inl e \<longleftrightarrow> e = CorrectionPayloadMustBeObject \<and> \<not> is_object p"
  by (auto simp: merge_json_object_def is_object_def split: option.splits)

section \<open>Current state of QSOs\<close>

record qso_record =
  qr_qso_id :: uuid
  qr_payload :: json
  qr_note_history :: "json list"
  qr_deleted :: bool
  qr_last_event_hash :: string

record qso_projection =
  qp_records :: "(uuid, qso_record) hmap"
  qp_tombstones :: "uuid set"

definition qso_projection_new :: qso_projection where
  "qso_projection_new = \<lparr>qp_records = [], qp_tombstones = {}\<rparr>"

definition qso_get :: "qso_projection \<Rightarrow> uuid \<Rightarrow> qso_record option" where
  "qso_get p q =
     (case hm_get (qp_records p) q of
        None \<Rightarrow> None
      | Some r \<Rightarrow> if \<not> qr_deleted r then Some r else None)"

definition qso_get_including_deleted :: "qso_projection \<Rightarrow> uuid \<Rightarrow> qso_record option" where
  "qso_get_including_deleted p q = hm_get (qp_records p) q"

definition qso_list :: "qso_projection \<Rightarrow> bool \<Rightarrow> qso_record list" where
  "qso_list p include_deleted =
     filter (\<lambda>r. include_deleted \<or> \<not> qr_deleted r) (hm_values (qp_records p))"

definition current_qsos :: "qso_projection \<Rightarrow> qso_record list" where
  "current_qsos p = qso_list p False"

definition upsert_record :: "qso_record \<Rightarrow> qso_projection \<Rightarrow> qso_projection" where
  "upsert_record r p =
     (let p = (if qr_deleted r then p\<lparr>qp_tombstones := insert (qr_qso_id r) (qp_tombstones p)\<rparr>
               else p\<lparr>qp_tombstones := qp_tombstones p - {qr_qso_id r}\<rparr>)
      in p\<lparr>qp_records := hm_insert (qr_qso_id r) r (qp_records p)\<rparr>)"

definition is_tombstoned :: "qso_projection \<Rightarrow> uuid \<Rightarrow> bool" where
  "is_tombstoned p q = (q \<in> qp_tombstones p)"

definition qso_clear :: "qso_projection \<Rightarrow> qso_projection" where
  "qso_clear p = p\<lparr>qp_records := [], qp_tombstones := {}\<rparr>"

definition qso_apply ::
    "libs \<Rightarrow> core_event \<Rightarrow> qso_projection \<Rightarrow> projection_error fault + qso_projection" where
  "qso_apply L e p =
     (case ev_entity_id e of
        None \<Rightarrow> Inr p
      | Some q \<Rightarrow>
          if ev_event_type e = OFFICIAL_LOG_QSO_CREATED then
            (case index_assign ''qso_id'' (json_uuid L q) (ev_payload e) of
               None \<Rightarrow> Inl Panicked
             | Some payload \<Rightarrow>
                 Inr (p\<lparr>qp_records := hm_insert q
                   \<lparr>qr_qso_id = q, qr_payload = payload, qr_note_history = [],
                    qr_deleted = False, qr_last_event_hash = ev_event_hash e\<rparr> (qp_records p)\<rparr>))
          else if ev_event_type e = OFFICIAL_LOG_QSO_CORRECTED then
            (case hm_get (qp_records p) q of
               None \<Rightarrow> Inr p
             | Some r \<Rightarrow>
                 (case merge_json_object (qr_payload r) (ev_payload e) of
                    Inl err \<Rightarrow> Inl (Fail err)
                  | Inr payload \<Rightarrow>
                      Inr (p\<lparr>qp_records := hm_insert q
                        (r\<lparr>qr_payload := payload, qr_last_event_hash := ev_event_hash e\<rparr>)
                        (qp_records p)\<rparr>)))
          else if ev_event_type e = OFFICIAL_LOG_QSO_DELETED then
            (let p = (case hm_get (qp_records p) q of
                        None \<Rightarrow> p
                      | Some r \<Rightarrow> p\<lparr>qp_records := hm_insert q
                          (r\<lparr>qr_deleted := True, qr_last_event_hash := ev_event_hash e\<rparr>)
                          (qp_records p)\<rparr>)
             in Inr (p\<lparr>qp_tombstones := insert q (qp_tombstones p)\<rparr>))
          else if ev_event_type e = OFFICIAL_LOG_QSO_RESTORED then
            (let p = (case hm_get (qp_records p) q of
                        None \<Rightarrow> p
                      | Some r \<Rightarrow> p\<lparr>qp_records := hm_insert q
                          (r\<lparr>qr_deleted := False, qr_last_event_hash := ev_event_hash e\<rparr>)
                          (qp_records p)\<rparr>)
             in Inr (p\<lparr>qp_tombstones := qp_tombstones p - {q}\<rparr>))
          else if ev_event_type e = OFFICIAL_LOG_QSO_NOTE_ADDED then
            (case hm_get (qp_records p) q of
               None \<Rightarrow> Inr p
             | Some r \<Rightarrow> Inr (p\<lparr>qp_records := hm_insert q
                 (r\<lparr>qr_note_history := qr_note_history r @ [ev_payload e],
                    qr_last_event_hash := ev_event_hash e\<rparr>) (qp_records p)\<rparr>))
          else Inr p)"

abbreviation qso_rebuild ::
    "libs \<Rightarrow> qso_projection \<Rightarrow> core_event list \<Rightarrow> projection_error fault + qso_projection" where
  "qso_rebuild L \<equiv> rebuild (qso_apply L) qso_clear"

section \<open>Activations\<close>

text \<open>\<open>linked_qsos\<close> is a list without repetitions: the set the code iterates over.\<close>

record activation_record =
  ar_activation_id :: uuid
  ar_payload :: json
  ar_status :: string
  ar_note_history :: "json list"
  ar_linked_qsos :: "uuid list"
  ar_qso_count :: nat
  ar_unique_callsign_count :: nat
  ar_band_summary :: "(string, nat) hmap"
  ar_mode_summary :: "(string, nat) hmap"
  ar_last_event_hash :: string

record activation_projection =
  ap_records :: "(uuid, activation_record) hmap"
  ap_qsos :: qso_projection

definition activation_projection_new :: activation_projection where
  "activation_projection_new = \<lparr>ap_records = [], ap_qsos = qso_projection_new\<rparr>"

definition activation_get :: "activation_projection \<Rightarrow> uuid \<Rightarrow> activation_record option" where
  "activation_get p a = hm_get (ap_records p) a"

definition activation_list :: "activation_projection \<Rightarrow> bool \<Rightarrow> activation_record list" where
  "activation_list p include_ended_cancelled =
     filter (\<lambda>r. include_ended_cancelled \<or>
         \<not> (ar_status r = ''ended'' \<or> ar_status r = ''cancelled''))
       (hm_values (ap_records p))"

definition str_field_matches :: "json \<Rightarrow> string \<Rightarrow> string \<Rightarrow> bool" where
  "str_field_matches payload key wanted =
     (case value_str payload key of
        None \<Rightarrow> False | Some v \<Rightarrow> eq_ignore_ascii_case v wanted)"

definition active_for_station_operator ::
    "activation_projection \<Rightarrow> string \<Rightarrow> string \<Rightarrow> activation_record option" where
  "active_for_station_operator p station operator =
     List.find (\<lambda>r. ar_status r = ''active'' \<and>
         str_field_matches (ar_payload r) ''station_callsign'' station \<and>
         str_field_matches (ar_payload r) ''operator_callsign'' operator)
       (hm_values (ap_records p))"

text \<open>\<open>*summary.entry(key).or_insert(0) += 1\<close>.\<close>

definition bump :: "string \<Rightarrow> (string, nat) hmap \<Rightarrow> (string, nat) hmap" where
  "bump k m = hm_insert k ((case hm_get m k of None \<Rightarrow> 0 | Some n \<Rightarrow> n) + 1) m"

definition bump_field :: "json \<Rightarrow> string \<Rightarrow> (string, nat) hmap \<Rightarrow> (string, nat) hmap" where
  "bump_field payload key m = (case value_str payload key of None \<Rightarrow> m | Some v \<Rightarrow> bump v m)"

record activation_stats =
  as_count :: nat
  as_callsigns :: "string set"
  as_bands :: "(string, nat) hmap"
  as_modes :: "(string, nat) hmap"

fun stats_loop :: "qso_projection \<Rightarrow> uuid list \<Rightarrow> activation_stats \<Rightarrow> activation_stats" where
  "stats_loop qp [] s = s"
| "stats_loop qp (q # qs) s =
     (case qso_get qp q of
        None \<Rightarrow> stats_loop qp qs s
      | Some r \<Rightarrow> stats_loop qp qs
          \<lparr>as_count = as_count s + 1,
           as_callsigns =
             (case value_str (qr_payload r) ''contacted_callsign'' of
                None \<Rightarrow> as_callsigns s
              | Some c \<Rightarrow> insert (to_ascii_uppercase c) (as_callsigns s)),
           as_bands = bump_field (qr_payload r) ''band'' (as_bands s),
           as_modes = bump_field (qr_payload r) ''mode'' (as_modes s)\<rparr>)"

definition no_stats :: activation_stats where
  "no_stats = \<lparr>as_count = 0, as_callsigns = {}, as_bands = [], as_modes = []\<rparr>"

definition with_stats :: "qso_projection \<Rightarrow> activation_record \<Rightarrow> activation_record" where
  "with_stats qp r =
     (let s = stats_loop qp (ar_linked_qsos r) no_stats
      in r\<lparr>ar_qso_count := as_count s, ar_unique_callsign_count := card (as_callsigns s),
           ar_band_summary := as_bands s, ar_mode_summary := as_modes s\<rparr>)"

definition recompute_stats :: "activation_projection \<Rightarrow> activation_projection" where
  "recompute_stats p = p\<lparr>ap_records := hm_map_values (with_stats (ap_qsos p)) (ap_records p)\<rparr>"

definition linked_activation :: "libs \<Rightarrow> json \<Rightarrow> uuid option" where
  "linked_activation L payload =
     Option.bind (value_str payload ''activation_id'') (lib_parse_uuid L)"

text \<open>The \<open>match\<close> of \<open>ActivationProjection::apply\<close>, on the map of records.\<close>

definition activation_step ::
    "libs \<Rightarrow> core_event \<Rightarrow> uuid \<Rightarrow> (uuid, activation_record) hmap \<Rightarrow>
     projection_error fault + (uuid, activation_record) hmap" where
  "activation_step L e a rs =
     (if ev_event_type e = OFFICIAL_LOG_ACTIVATION_CREATED \<or>
         ev_event_type e = OFFICIAL_LOG_ACTIVATION_STARTED then
        (case index_assign ''activation_id'' (json_uuid L a) (ev_payload e) of
           None \<Rightarrow> Inl Panicked
         | Some payload \<Rightarrow>
             (let status = (if ev_event_type e = OFFICIAL_LOG_ACTIVATION_STARTED then ''active''
                else (case value_str payload ''status'' of None \<Rightarrow> ''planned'' | Some s \<Rightarrow> s))
              in Inr (hm_insert a
                   \<lparr>ar_activation_id = a, ar_payload = payload, ar_status = status,
                    ar_note_history = [], ar_linked_qsos = [], ar_qso_count = 0,
                    ar_unique_callsign_count = 0, ar_band_summary = [], ar_mode_summary = [],
                    ar_last_event_hash = ev_event_hash e\<rparr> rs)))
      else if ev_event_type e = OFFICIAL_LOG_ACTIVATION_UPDATED then
        (case hm_get rs a of
           None \<Rightarrow> Inr rs
         | Some r \<Rightarrow>
             (case merge_json_object (ar_payload r) (ev_payload e) of
                Inl err \<Rightarrow> Inl (Fail err)
              | Inr payload \<Rightarrow> Inr (hm_insert a
                  (r\<lparr>ar_payload := payload,
                     ar_status := (case value_str (ev_payload e) ''status'' of
                        None \<Rightarrow> ar_status r | Some s \<Rightarrow> s),
                     ar_last_event_hash := ev_event_hash e\<rparr>) rs)))
      else if ev_event_type e = OFFICIAL_LOG_ACTIVATION_ENDED then
        (case hm_get rs a of
           None \<Rightarrow> Inr rs
         | Some r \<Rightarrow>
             (case merge_json_object (ar_payload r) (ev_payload e) of
                Inl err \<Rightarrow> Inl (Fail err)
              | Inr payload \<Rightarrow> Inr (hm_insert a
                  (r\<lparr>ar_payload := payload, ar_status := ''ended'',
                     ar_last_event_hash := ev_event_hash e\<rparr>) rs)))
      else if ev_event_type e = OFFICIAL_LOG_ACTIVATION_CANCELLED then
        Inr (hm_modify a (\<lambda>r. r\<lparr>ar_status := ''cancelled'',
          ar_last_event_hash := ev_event_hash e\<rparr>) rs)
      else if ev_event_type e = OFFICIAL_LOG_ACTIVATION_NOTE_ADDED then
        Inr (hm_modify a (\<lambda>r. r\<lparr>ar_note_history := ar_note_history r @ [ev_payload e],
          ar_last_event_hash := ev_event_hash e\<rparr>) rs)
      else if ev_event_type e = OFFICIAL_LOG_QSO_ACTIVATION_LINKED then
        Inr (case linked_activation L (ev_payload e) of
           None \<Rightarrow> rs
         | Some act \<Rightarrow> hm_modify act (\<lambda>r. r\<lparr>ar_linked_qsos := List.insert a (ar_linked_qsos r),
             ar_last_event_hash := ev_event_hash e\<rparr>) rs)
      else if ev_event_type e = OFFICIAL_LOG_QSO_ACTIVATION_UNLINKED then
        Inr (case linked_activation L (ev_payload e) of
           None \<Rightarrow> rs
         | Some act \<Rightarrow> hm_modify act (\<lambda>r. r\<lparr>ar_linked_qsos := removeAll a (ar_linked_qsos r),
             ar_last_event_hash := ev_event_hash e\<rparr>) rs)
      else Inr rs)"

definition activation_apply ::
    "libs \<Rightarrow> core_event \<Rightarrow> activation_projection \<Rightarrow>
     projection_error fault + activation_projection" where
  "activation_apply L e p =
     and_then (qso_apply L e (ap_qsos p)) (\<lambda>qp.
       let p = p\<lparr>ap_qsos := qp\<rparr> in
       case ev_entity_id e of
         None \<Rightarrow> Inr (recompute_stats p)
       | Some a \<Rightarrow> and_then (activation_step L e a (ap_records p)) (\<lambda>rs.
           Inr (recompute_stats (p\<lparr>ap_records := rs\<rparr>))))"

definition activation_clear :: "activation_projection \<Rightarrow> activation_projection" where
  "activation_clear p = p\<lparr>ap_records := [], ap_qsos := qso_clear (ap_qsos p)\<rparr>"

abbreviation activation_rebuild ::
    "libs \<Rightarrow> activation_projection \<Rightarrow> core_event list \<Rightarrow>
     projection_error fault + activation_projection" where
  "activation_rebuild L \<equiv> rebuild (activation_apply L) activation_clear"

section \<open>Facts about QSOs\<close>

text \<open>What the current state knows of one QSO.\<close>

definition qso_view :: "qso_projection \<Rightarrow> uuid \<Rightarrow> qso_record option \<times> bool" where
  "qso_view p q = (hm_get (qp_records p) q, q \<in> qp_tombstones p)"

definition qso_event_ok :: "core_event \<Rightarrow> bool" where
  "qso_event_ok e =
     (case ev_entity_id e of None \<Rightarrow> True
      | Some _ \<Rightarrow>
         (ev_event_type e = OFFICIAL_LOG_QSO_CREATED \<longrightarrow>
            is_object (ev_payload e) \<or> ev_payload e = JNull) \<and>
         (ev_event_type e = OFFICIAL_LOG_QSO_CORRECTED \<longrightarrow> is_object (ev_payload e)))"

definition qso_record_ok :: "uuid set \<Rightarrow> uuid \<Rightarrow> qso_record \<Rightarrow> bool" where
  "qso_record_ok T q r =
     (qr_qso_id r = q \<and> is_object (qr_payload r) \<and> (qr_deleted r \<longrightarrow> q \<in> T))"

definition qso_ok :: "qso_projection \<Rightarrow> bool" where
  "qso_ok p = (hm_wf (qp_records p) \<and>
     (\<forall>q r. hm_get (qp_records p) q = Some r \<longrightarrow> qso_record_ok (qp_tombstones p) q r))"

lemma qso_event_types [case_names created corrected deleted restored noted other]:
  obtains "ev_event_type e = OFFICIAL_LOG_QSO_CREATED"
    | "ev_event_type e = OFFICIAL_LOG_QSO_CORRECTED"
    | "ev_event_type e = OFFICIAL_LOG_QSO_DELETED"
    | "ev_event_type e = OFFICIAL_LOG_QSO_RESTORED"
    | "ev_event_type e = OFFICIAL_LOG_QSO_NOTE_ADDED"
    | "ev_event_type e \<noteq> OFFICIAL_LOG_QSO_CREATED"
      "ev_event_type e \<noteq> OFFICIAL_LOG_QSO_CORRECTED"
      "ev_event_type e \<noteq> OFFICIAL_LOG_QSO_DELETED"
      "ev_event_type e \<noteq> OFFICIAL_LOG_QSO_RESTORED"
      "ev_event_type e \<noteq> OFFICIAL_LOG_QSO_NOTE_ADDED"
  by blast

lemma qso_apply_created:
  "ev_entity_id e = Some q \<Longrightarrow> ev_event_type e = OFFICIAL_LOG_QSO_CREATED \<Longrightarrow>
   qso_apply L e p = (case index_assign ''qso_id'' (json_uuid L q) (ev_payload e) of
      None \<Rightarrow> Inl Panicked
    | Some payload \<Rightarrow> Inr (p\<lparr>qp_records := hm_insert q
        \<lparr>qr_qso_id = q, qr_payload = payload, qr_note_history = [], qr_deleted = False,
         qr_last_event_hash = ev_event_hash e\<rparr> (qp_records p)\<rparr>))"
  by (simp add: qso_apply_def)

lemma qso_apply_corrected:
  "ev_entity_id e = Some q \<Longrightarrow> ev_event_type e = OFFICIAL_LOG_QSO_CORRECTED \<Longrightarrow>
   qso_apply L e p = (case hm_get (qp_records p) q of
      None \<Rightarrow> Inr p
    | Some r \<Rightarrow> (case merge_json_object (qr_payload r) (ev_payload e) of
        Inl err \<Rightarrow> Inl (Fail err)
      | Inr payload \<Rightarrow> Inr (p\<lparr>qp_records := hm_insert q
          (r\<lparr>qr_payload := payload, qr_last_event_hash := ev_event_hash e\<rparr>) (qp_records p)\<rparr>)))"
  by (simp add: qso_apply_def)

lemma qso_apply_deletion:
  "ev_entity_id e = Some q \<Longrightarrow> ev_event_type e = OFFICIAL_LOG_QSO_DELETED \<Longrightarrow>
   qso_apply L e p = Inr (p\<lparr>qp_records := (case hm_get (qp_records p) q of
        None \<Rightarrow> qp_records p
      | Some r \<Rightarrow> hm_insert q (r\<lparr>qr_deleted := True, qr_last_event_hash := ev_event_hash e\<rparr>)
          (qp_records p)),
      qp_tombstones := insert q (qp_tombstones p)\<rparr>)"
  by (simp add: qso_apply_def split: option.split)

lemma qso_apply_restored:
  "ev_entity_id e = Some q \<Longrightarrow> ev_event_type e = OFFICIAL_LOG_QSO_RESTORED \<Longrightarrow>
   qso_apply L e p = Inr (p\<lparr>qp_records := (case hm_get (qp_records p) q of
        None \<Rightarrow> qp_records p
      | Some r \<Rightarrow> hm_insert q (r\<lparr>qr_deleted := False, qr_last_event_hash := ev_event_hash e\<rparr>)
          (qp_records p)),
      qp_tombstones := qp_tombstones p - {q}\<rparr>)"
  by (simp add: qso_apply_def split: option.split)

lemma qso_apply_noted:
  "ev_entity_id e = Some q \<Longrightarrow> ev_event_type e = OFFICIAL_LOG_QSO_NOTE_ADDED \<Longrightarrow>
   qso_apply L e p = (case hm_get (qp_records p) q of
      None \<Rightarrow> Inr p
    | Some r \<Rightarrow> Inr (p\<lparr>qp_records := hm_insert q
        (r\<lparr>qr_note_history := qr_note_history r @ [ev_payload e],
           qr_last_event_hash := ev_event_hash e\<rparr>) (qp_records p)\<rparr>))"
  by (simp add: qso_apply_def)

lemma qso_apply_ignored:
  "ev_event_type e \<noteq> OFFICIAL_LOG_QSO_CREATED \<Longrightarrow> ev_event_type e \<noteq> OFFICIAL_LOG_QSO_CORRECTED \<Longrightarrow>
   ev_event_type e \<noteq> OFFICIAL_LOG_QSO_DELETED \<Longrightarrow> ev_event_type e \<noteq> OFFICIAL_LOG_QSO_RESTORED \<Longrightarrow>
   ev_event_type e \<noteq> OFFICIAL_LOG_QSO_NOTE_ADDED \<Longrightarrow> qso_apply L e p = Inr p"
  by (simp add: qso_apply_def split: option.split)

lemmas qso_apply_simps = qso_apply_created qso_apply_corrected qso_apply_deletion
  qso_apply_restored qso_apply_noted qso_apply_ignored

lemma qso_apply_none: "ev_entity_id e = None \<Longrightarrow> qso_apply L e p = Inr p"
  by (simp add: qso_apply_def)

lemma qso_apply_other:
  assumes "qso_apply L e p = Inr p'" and "ev_entity_id e \<noteq> Some q"
  shows "qso_view p' q = qso_view p q"
proof (cases "ev_entity_id e")
  case None
  with assms show ?thesis by (simp add: qso_apply_none)
next
  case (Some x)
  with assms show ?thesis
    by (cases rule: qso_event_types [of e])
      (auto simp: qso_apply_simps qso_view_def hm_get_insert split: option.splits sum.splits)
qed

text \<open>The effect on a QSO depends on nothing but what is known of it.\<close>

lemma qso_apply_local:
  assumes "ev_entity_id e = Some q" and "qso_view p1 q = qso_view p2 q"
  shows "rel_sum (=) (\<lambda>a b. qso_view a q = qso_view b q) (qso_apply L e p1) (qso_apply L e p2)"
  using assms
  by (cases rule: qso_event_types [of e])
    (auto simp: qso_apply_simps qso_view_def hm_get_insert split: option.split sum.split)

lemma qso_ok_put:
  assumes "qso_ok p" and "qso_record_ok T q r" and "qp_tombstones p - {q} \<subseteq> T"
  shows "qso_ok (p\<lparr>qp_records := hm_insert q r (qp_records p), qp_tombstones := T\<rparr>)"
  using assms by (auto simp: qso_ok_def qso_record_ok_def hm_get_insert hm_wf_insert)

lemma qso_ok_put_record:
  assumes "qso_ok p" and "qso_record_ok (qp_tombstones p) q r"
  shows "qso_ok (p\<lparr>qp_records := hm_insert q r (qp_records p)\<rparr>)"
  using assms by (auto simp: qso_ok_def qso_record_ok_def hm_get_insert hm_wf_insert)

lemma qso_ok_tombstones:
  assumes "qso_ok p" and "hm_get (qp_records p) q = None" and "qp_tombstones p - {q} \<subseteq> T"
  shows "qso_ok (p\<lparr>qp_tombstones := T\<rparr>)"
  unfolding qso_ok_def
proof (intro conjI allI impI)
  show "hm_wf (qp_records (p\<lparr>qp_tombstones := T\<rparr>))" using assms(1) by (simp add: qso_ok_def)
  fix x r assume "hm_get (qp_records (p\<lparr>qp_tombstones := T\<rparr>)) x = Some r"
  then have "x \<noteq> q" and "qso_record_ok (qp_tombstones p) x r"
    using assms(1,2) by (auto simp: qso_ok_def)
  then show "qso_record_ok (qp_tombstones (p\<lparr>qp_tombstones := T\<rparr>)) x r"
    using assms(3) by (auto simp: qso_record_ok_def)
qed

lemma qso_ok_get: "qso_ok p \<Longrightarrow> hm_get (qp_records p) q = Some r \<Longrightarrow> qso_record_ok (qp_tombstones p) q r"
  by (simp add: qso_ok_def)

lemma qso_apply_ok:
  assumes "qso_ok p" and "qso_apply L e p = Inr p'"
  shows "qso_ok p'"
proof (cases "ev_entity_id e")
  case None
  with assms show ?thesis by (simp add: qso_apply_none)
next
  case (Some q)
  show ?thesis
  proof (cases rule: qso_event_types [of e])
    case created
    with assms Some show ?thesis
      by (auto simp: qso_apply_simps qso_record_ok_def intro!: qso_ok_put_record
        dest: index_assign_object split: option.splits)
  next
    case corrected
    with assms Some qso_ok_get [OF assms(1), of q] show ?thesis
      by (auto simp: qso_apply_simps qso_record_ok_def intro!: qso_ok_put_record
        dest: merge_json_object_object split: option.splits sum.splits)
  next
    case deleted
    with assms Some qso_ok_get [OF assms(1), of q] show ?thesis
      by (cases "hm_get (qp_records p) q")
        (auto simp: qso_apply_simps qso_record_ok_def intro: qso_ok_put qso_ok_tombstones)
  next
    case restored
    with assms Some qso_ok_get [OF assms(1), of q] show ?thesis
      by (cases "hm_get (qp_records p) q")
        (auto simp: qso_apply_simps qso_record_ok_def intro: qso_ok_put qso_ok_tombstones)
  next
    case noted
    with assms Some qso_ok_get [OF assms(1), of q] show ?thesis
      by (auto simp: qso_apply_simps qso_record_ok_def intro!: qso_ok_put_record
        split: option.splits)
  next
    case other
    with assms Some show ?thesis by (simp add: qso_apply_simps)
  qed
qed

lemma qso_apply_total:
  assumes "qso_event_ok e"
  shows "\<exists>p'. qso_apply L e p = Inr p'"
proof (cases "ev_entity_id e")
  case (Some q)
  with assms show ?thesis
    by (cases rule: qso_event_types [of e])
      (auto simp: qso_apply_simps qso_event_ok_def index_assign_None_iff merge_json_object_Inl
        split: option.split sum.split)
qed (simp add: qso_apply_none)

interpretation qso: projection "qso_apply L" qso_clear qso_ok qso_event_ok for L
proof unfold_locales
  show "qso_ok (qso_clear p)" for p by (simp add: qso_clear_def qso_ok_def)
qed (auto simp: qso_clear_def intro: qso_apply_ok qso_apply_total)

lemma qso_replay_local:
  assumes "qso_view p1 q = qso_view p2 q" and "replay (qso_apply L) es p1 = Inr p1'"
  shows "\<exists>p2'. replay (qso_apply L) (filter (\<lambda>e. ev_entity_id e = Some q) es) p2 = Inr p2' \<and>
    qso_view p1' q = qso_view p2' q"
  using assms
proof (induction es arbitrary: p1 p2)
  case (Cons e es)
  from Cons.prems obtain a where a: "qso_apply L e p1 = Inr a" "replay (qso_apply L) es a = Inr p1'"
    by auto
  show ?case
  proof (cases "ev_entity_id e = Some q")
    case True
    from qso_apply_local [OF True Cons.prems(1), of L] a(1)
    obtain b where "qso_apply L e p2 = Inr b" "qso_view a q = qso_view b q"
      by (cases "qso_apply L e p2") auto
    with True a(2) Cons.IH [of a b] show ?thesis by auto
  next
    case False
    with qso_apply_other [OF a(1) False] a(2) Cons.IH [of a p2] Cons.prems(1) show ?thesis by auto
  qed
qed auto

text \<open>A record, once there, stays (possibly marked deleted).\<close>

lemma qso_apply_keeps:
  assumes "qso_apply L e p = Inr p'" and "hm_get (qp_records p) q \<noteq> None"
  shows "hm_get (qp_records p') q \<noteq> None"
proof (cases "ev_entity_id e")
  case (Some x)
  with assms show ?thesis
    by (cases rule: qso_event_types [of e])
      (auto simp: qso_apply_simps hm_get_insert split: option.splits sum.splits if_splits)
qed (use assms in \<open>simp add: qso_apply_none\<close>)

lemma qso_replay_keeps:
  "replay (qso_apply L) es p = Inr p' \<Longrightarrow> hm_get (qp_records p) q \<noteq> None \<Longrightarrow>
   hm_get (qp_records p') q \<noteq> None"
proof (induction es arbitrary: p)
  case (Cons e es)
  then show ?case using qso_apply_keeps [of L e p] by auto
qed simp

text \<open>The events that can make a deleted QSO visible again.\<close>

definition revives :: "uuid \<Rightarrow> core_event \<Rightarrow> bool" where
  "revives q e = (ev_entity_id e = Some q \<and>
     (ev_event_type e = OFFICIAL_LOG_QSO_CREATED \<or> ev_event_type e = OFFICIAL_LOG_QSO_RESTORED))"

lemma qso_apply_deleted:
  assumes "qso_apply L e p = Inr p'" and "qso_get p q = None" and "\<not> revives q e"
  shows "qso_get p' q = None"
proof (cases "ev_entity_id e")
  case (Some x)
  with assms show ?thesis
    by (cases rule: qso_event_types [of e])
      (auto simp: qso_apply_simps qso_get_def revives_def hm_get_insert
        split: option.splits sum.splits if_splits)
qed (use assms in \<open>simp add: qso_apply_none\<close>)

lemma qso_replay_deleted:
  "replay (qso_apply L) es p = Inr p' \<Longrightarrow> qso_get p q = None \<Longrightarrow>
   \<forall>e\<in>set es. \<not> revives q e \<Longrightarrow> qso_get p' q = None"
proof (induction es arbitrary: p)
  case (Cons e es)
  then show ?case using qso_apply_deleted [of L e p] by auto
qed simp

section \<open>Facts about activations\<close>

text \<open>What the counters of an activation should be, from its linked QSOs.\<close>

definition live_qsos :: "qso_projection \<Rightarrow> uuid list \<Rightarrow> uuid list" where
  "live_qsos qp qs = filter (\<lambda>q. qso_get qp q \<noteq> None) qs"

definition field_values :: "qso_projection \<Rightarrow> uuid list \<Rightarrow> string \<Rightarrow> string list" where
  "field_values qp qs key =
     List.map_filter (\<lambda>q. Option.bind (qso_get qp q) (\<lambda>r. value_str (qr_payload r) key)) qs"

definition tally :: "string list \<Rightarrow> string \<Rightarrow> nat option" where
  "tally vs v = (if v \<in> set vs then Some (count_list vs v) else None)"

definition add_tally :: "nat option \<Rightarrow> nat option \<Rightarrow> nat option" where
  "add_tally x y = (case x of None \<Rightarrow> y | Some m \<Rightarrow> Some (m + (case y of None \<Rightarrow> 0 | Some n \<Rightarrow> n)))"

lemma field_values_simps [simp]:
  "field_values qp [] key = []"
  "field_values qp (q # qs) key =
     (case Option.bind (qso_get qp q) (\<lambda>r. value_str (qr_payload r) key) of
        None \<Rightarrow> field_values qp qs key | Some v \<Rightarrow> v # field_values qp qs key)"
  unfolding field_values_def List.map_filter_simps by (auto split: option.split)

lemma tally_Nil [simp]: "tally [] v = None"
  by (simp add: tally_def)

lemma add_tally_None [simp]: "add_tally x None = x"
  by (simp add: add_tally_def split: option.split)

lemma tally_bump:
  "add_tally (hm_get (bump w m) v) (tally vs v) = add_tally (hm_get m v) (tally (w # vs) v)"
  by (auto simp: bump_def hm_get_insert add_tally_def tally_def split: option.split)

lemma stats_loop_count: "as_count (stats_loop qp qs s) = as_count s + length (live_qsos qp qs)"
  by (induction qs arbitrary: s) (auto simp: live_qsos_def split: option.split)

lemma stats_loop_callsigns: "as_callsigns (stats_loop qp qs s) =
    as_callsigns s \<union> to_ascii_uppercase ` set (field_values qp qs ''contacted_callsign'')"
  by (induction qs arbitrary: s) (auto split: option.split)

lemma stats_loop_bands: "hm_get (as_bands (stats_loop qp qs s)) v =
    add_tally (hm_get (as_bands s) v) (tally (field_values qp qs ''band'') v)"
  by (induction qs arbitrary: s) (auto simp: bump_field_def tally_bump split: option.split)

lemma stats_loop_modes: "hm_get (as_modes (stats_loop qp qs s)) v =
    add_tally (hm_get (as_modes s) v) (tally (field_values qp qs ''mode'') v)"
  by (induction qs arbitrary: s) (auto simp: bump_field_def tally_bump split: option.split)

lemmas stats_loop_spec = stats_loop_count stats_loop_callsigns stats_loop_bands stats_loop_modes

lemma with_stats_frame [frame_simps]:
  "ar_activation_id (with_stats qp r) = ar_activation_id r" "ar_payload (with_stats qp r) = ar_payload r"
  "ar_status (with_stats qp r) = ar_status r" "ar_note_history (with_stats qp r) = ar_note_history r"
  "ar_linked_qsos (with_stats qp r) = ar_linked_qsos r"
  "ar_last_event_hash (with_stats qp r) = ar_last_event_hash r"
  by (simp_all add: with_stats_def Let_def)

lemma with_stats_idem [simp]: "with_stats qp (with_stats qp r) = with_stats qp r"
  by (simp add: with_stats_def Let_def)

lemma with_stats_spec:
  "ar_qso_count (with_stats qp r) = length (live_qsos qp (ar_linked_qsos r))"
  "ar_unique_callsign_count (with_stats qp r) =
     card (to_ascii_uppercase ` set (field_values qp (ar_linked_qsos r) ''contacted_callsign''))"
  "hm_get (ar_band_summary (with_stats qp r)) v = tally (field_values qp (ar_linked_qsos r) ''band'') v"
  "hm_get (ar_mode_summary (with_stats qp r)) v = tally (field_values qp (ar_linked_qsos r) ''mode'') v"
  by (simp_all add: with_stats_def Let_def stats_loop_spec no_stats_def add_tally_def)

definition activation_record_ok :: "uuid \<Rightarrow> activation_record \<Rightarrow> bool" where
  "activation_record_ok a r =
     (ar_activation_id r = a \<and> is_object (ar_payload r) \<and> distinct (ar_linked_qsos r))"

definition activation_records_ok :: "(uuid, activation_record) hmap \<Rightarrow> bool" where
  "activation_records_ok rs = (hm_wf rs \<and>
     (\<forall>a r. hm_get rs a = Some r \<longrightarrow> activation_record_ok a r))"

definition activation_ok :: "activation_projection \<Rightarrow> bool" where
  "activation_ok p = (qso_ok (ap_qsos p) \<and> activation_records_ok (ap_records p) \<and>
     (\<forall>a r. hm_get (ap_records p) a = Some r \<longrightarrow> with_stats (ap_qsos p) r = r))"

definition activation_event_ok :: "core_event \<Rightarrow> bool" where
  "activation_event_ok e = (qso_event_ok e \<and>
     (case ev_entity_id e of None \<Rightarrow> True
      | Some _ \<Rightarrow>
         (ev_event_type e = OFFICIAL_LOG_ACTIVATION_CREATED \<or>
          ev_event_type e = OFFICIAL_LOG_ACTIVATION_STARTED \<longrightarrow>
            is_object (ev_payload e) \<or> ev_payload e = JNull) \<and>
         (ev_event_type e = OFFICIAL_LOG_ACTIVATION_UPDATED \<or>
          ev_event_type e = OFFICIAL_LOG_ACTIVATION_ENDED \<longrightarrow> is_object (ev_payload e))))"

lemma activation_event_types [case_names created updated ended cancelled noted linked unlinked other]:
  obtains "ev_event_type e = OFFICIAL_LOG_ACTIVATION_CREATED \<or>
      ev_event_type e = OFFICIAL_LOG_ACTIVATION_STARTED"
    | "ev_event_type e = OFFICIAL_LOG_ACTIVATION_UPDATED"
    | "ev_event_type e = OFFICIAL_LOG_ACTIVATION_ENDED"
    | "ev_event_type e = OFFICIAL_LOG_ACTIVATION_CANCELLED"
    | "ev_event_type e = OFFICIAL_LOG_ACTIVATION_NOTE_ADDED"
    | "ev_event_type e = OFFICIAL_LOG_QSO_ACTIVATION_LINKED"
    | "ev_event_type e = OFFICIAL_LOG_QSO_ACTIVATION_UNLINKED"
    | "\<forall>L a rs. activation_step L e a rs = Inr rs"
proof -
  have "ev_event_type e \<notin> {OFFICIAL_LOG_ACTIVATION_CREATED, OFFICIAL_LOG_ACTIVATION_STARTED,
      OFFICIAL_LOG_ACTIVATION_UPDATED, OFFICIAL_LOG_ACTIVATION_ENDED,
      OFFICIAL_LOG_ACTIVATION_CANCELLED, OFFICIAL_LOG_ACTIVATION_NOTE_ADDED,
      OFFICIAL_LOG_QSO_ACTIVATION_LINKED, OFFICIAL_LOG_QSO_ACTIVATION_UNLINKED} \<Longrightarrow>
    \<forall>L a rs. activation_step L e a rs = Inr rs"
    by (simp add: activation_step_def)
  with that show ?thesis by blast
qed

lemma activation_records_put:
  "activation_records_ok rs \<Longrightarrow> activation_record_ok a r \<Longrightarrow> activation_records_ok (hm_insert a r rs)"
  by (simp add: activation_records_ok_def hm_get_insert hm_wf_insert)

lemma activation_records_modify:
  "activation_records_ok rs \<Longrightarrow> (\<And>r. activation_record_ok a r \<Longrightarrow> activation_record_ok a (f r)) \<Longrightarrow>
   activation_records_ok (hm_modify a f rs)"
  by (auto simp: activation_records_ok_def hm_get_modify)

lemma activation_records_get:
  "activation_records_ok rs \<Longrightarrow> hm_get rs a = Some r \<Longrightarrow> activation_record_ok a r"
  by (simp add: activation_records_ok_def)

lemma activation_step_ok:
  assumes "activation_records_ok rs" and "activation_step L e a rs = Inr rs'"
  shows "activation_records_ok rs'"
proof (cases rule: activation_event_types [of e])
  case created
  with assms show ?thesis
    by (auto simp: activation_step_def activation_record_ok_def Let_def split: option.splits
      intro!: activation_records_put dest: index_assign_object)
next
  case updated
  with assms activation_records_get [OF assms(1), of a] show ?thesis
    by (auto simp: activation_step_def activation_record_ok_def split: option.splits sum.splits
      intro!: activation_records_put dest: merge_json_object_object)
next
  case ended
  with assms activation_records_get [OF assms(1), of a] show ?thesis
    by (auto simp: activation_step_def activation_record_ok_def split: option.splits sum.splits
      intro!: activation_records_put dest: merge_json_object_object)
qed (use assms in \<open>auto simp: activation_step_def activation_record_ok_def distinct_removeAll
    intro!: activation_records_modify split: option.splits\<close>)

lemma recompute_stats_ok:
  "qso_ok (ap_qsos p) \<Longrightarrow> activation_records_ok (ap_records p) \<Longrightarrow> activation_ok (recompute_stats p)"
  by (auto simp: activation_ok_def recompute_stats_def activation_records_ok_def hm_get_map_values
    activation_record_ok_def frame_simps)

lemma activation_apply_ok:
  assumes "activation_ok p" and "activation_apply L e p = Inr p'"
  shows "activation_ok p'"
proof -
  from assms(2) obtain qp where qp: "qso_apply L e (ap_qsos p) = Inr qp"
    by (auto simp: activation_apply_def)
  have q: "qso_ok qp" using assms(1) qp by (auto simp: activation_ok_def intro: qso_apply_ok)
  have r: "activation_records_ok (ap_records p)" using assms(1) by (simp add: activation_ok_def)
  show ?thesis
  proof (cases "ev_entity_id e")
    case None
    with assms(2) qp q r show ?thesis by (auto simp: activation_apply_def intro!: recompute_stats_ok)
  next
    case (Some a)
    with assms(2) qp obtain rs where "activation_step L e a (ap_records p) = Inr rs"
      and p': "p' = recompute_stats (p\<lparr>ap_qsos := qp, ap_records := rs\<rparr>)"
      by (auto simp: activation_apply_def)
    with r have "activation_records_ok rs" by (blast intro: activation_step_ok)
    then show ?thesis unfolding p' by (intro recompute_stats_ok) (simp_all add: q)
  qed
qed

lemma activation_step_total:
  assumes "activation_event_ok e" and "ev_entity_id e = Some a"
  shows "\<exists>rs'. activation_step L e a rs = Inr rs'"
  using assms by (cases rule: activation_event_types [of e])
    (auto simp: activation_step_def activation_event_ok_def index_assign_None_iff
      merge_json_object_Inl Let_def split: option.split sum.split)

lemma activation_apply_total:
  assumes "activation_event_ok e"
  shows "\<exists>p'. activation_apply L e p = Inr p'"
proof -
  from assms have "qso_event_ok e" by (simp add: activation_event_ok_def)
  then obtain qp where qp: "qso_apply L e (ap_qsos p) = Inr qp" using qso_apply_total by blast
  show ?thesis
  proof (cases "ev_entity_id e")
    case (Some a)
    with activation_step_total [OF assms Some, of L "ap_records p"] qp show ?thesis
      by (auto simp: activation_apply_def)
  qed (simp add: activation_apply_def qp)
qed

interpretation activation: projection "activation_apply L" activation_clear activation_ok
  activation_event_ok for L
proof unfold_locales
  show "activation_ok (activation_clear p)" for p
    by (simp add: activation_clear_def activation_ok_def activation_records_ok_def qso_clear_def qso_ok_def)
qed (auto simp: activation_clear_def qso_clear_def intro: activation_apply_ok activation_apply_total)

end
