(* ===== verification/Store.thy ===== *)
theory Store
  imports Projection
begin

text \<open>
  The official event stores (\<open>ham-core/src/store.rs\<close>): the trait \<open>LogbookEventStore\<close> as a
  record of operations on an explicit state, its in-memory and its JSON-lines implementation,
  and the checks of a remote event. The laws a client relies on are the locale
  \<open>event_store\<close>, interpreted on both implementations.
\<close>

section \<open>Errors\<close>

datatype chain_error =
    InvalidHash uuid
  | PreviousHashMismatch uuid "string option" "string option"
  | HeadMismatch "string option" "string option"

datatype store_error =
    EventNotFound uuid
  | ChainVerification chain_error
  | ProjectionFailed string
  | StoreIo string
  | StoreSerde string
  | InvalidRemoteHash uuid
  | UnsupportedSchemaVersion uuid "32 word"
  | UnsupportedEventType uuid string
  | RemotePreviousHashMismatch uuid "string option" "string option"
  | DuplicateEventConflict uuid

section \<open>The trait\<close>

record 's store_ops =
  op_append_event :: "new_event \<Rightarrow> 's \<Rightarrow> world \<Rightarrow> (store_error + core_event) \<times> 's \<times> world"
  op_append_verified_remote_event :: "core_event \<Rightarrow> 's \<Rightarrow> (store_error + core_event) \<times> 's"
  op_get_event :: "'s \<Rightarrow> uuid \<Rightarrow> store_error + core_event option"
  op_get_head :: "'s \<Rightarrow> uuid \<Rightarrow> store_error + string option"
  op_list_events :: "'s \<Rightarrow> uuid \<Rightarrow> store_error + core_event list"
  op_list_events_after :: "'s \<Rightarrow> uuid \<Rightarrow> string option \<Rightarrow> store_error + core_event list"
  op_verify_chain :: "'s \<Rightarrow> uuid \<Rightarrow> store_error + unit"
  op_rebuild_projections :: "'s \<Rightarrow> uuid \<Rightarrow> store_error fault + qso_projection"
  op_rebuild_activation_projections :: "'s \<Rightarrow> uuid \<Rightarrow> store_error fault + activation_projection"

text \<open>The provided method \<open>load_since\<close>.\<close>

definition load_since :: "'s store_ops \<Rightarrow> 's \<Rightarrow> uuid \<Rightarrow> string option \<Rightarrow> store_error + core_event list" where
  "load_since ops s lb after_hash = op_list_events_after ops s lb after_hash"

section \<open>Checks of a remote event\<close>

definition supported_remote_types :: "string list" where
  "supported_remote_types =
     [OFFICIAL_LOG_QSO_CREATED, OFFICIAL_LOG_QSO_CORRECTED, OFFICIAL_LOG_QSO_DELETED,
      OFFICIAL_LOG_QSO_RESTORED, OFFICIAL_LOG_QSO_NOTE_ADDED, OFFICIAL_LOG_ACTIVATION_CREATED,
      OFFICIAL_LOG_ACTIVATION_UPDATED, OFFICIAL_LOG_ACTIVATION_STARTED,
      OFFICIAL_LOG_ACTIVATION_ENDED, OFFICIAL_LOG_ACTIVATION_CANCELLED,
      OFFICIAL_LOG_ACTIVATION_NOTE_ADDED, OFFICIAL_LOG_QSO_ACTIVATION_LINKED,
      OFFICIAL_LOG_QSO_ACTIVATION_UNLINKED, OFFICIAL_LOG_UPLOAD_QUEUED,
      OFFICIAL_LOG_UPLOAD_COMPLETED, OFFICIAL_LOG_UPLOAD_FAILED,
      OFFICIAL_LOG_NET_TEMPLATE_CREATED, OFFICIAL_LOG_NET_TEMPLATE_UPDATED,
      OFFICIAL_LOG_NET_SESSION_STARTED, OFFICIAL_LOG_NET_SESSION_ENDED,
      OFFICIAL_LOG_NET_SESSION_CANCELLED, OFFICIAL_LOG_NET_CHECKIN_CREATED,
      OFFICIAL_LOG_NET_CHECKIN_UPDATED, OFFICIAL_LOG_NET_CHECKIN_DELETED,
      OFFICIAL_LOG_NET_TRAFFIC_CREATED, OFFICIAL_LOG_NET_TRAFFIC_UPDATED,
      OFFICIAL_LOG_NET_REPORT_EXPORTED]"

definition validate_supported_remote_event :: "libs \<Rightarrow> core_event \<Rightarrow> store_error + unit" where
  "validate_supported_remote_event L e =
     (if \<not> hash_is_valid L e then Inl (InvalidRemoteHash (ev_event_id e))
      else if ev_schema_version e \<noteq> 1 then
        Inl (UnsupportedSchemaVersion (ev_event_id e) (ev_schema_version e))
      else if ev_event_type e \<notin> set supported_remote_types then
        Inl (UnsupportedEventType (ev_event_id e) (ev_event_type e))
      else Inr ())"

section \<open>The in-memory store\<close>

record mem_store =
  ms_events_by_id :: "(uuid, core_event) hmap"
  ms_events_by_logbook :: "(uuid, uuid list) hmap"
  ms_heads :: "(uuid, string) hmap"

definition mem_empty :: mem_store where
  "mem_empty = \<lparr>ms_events_by_id = [], ms_events_by_logbook = [], ms_heads = []\<rparr>"

text \<open>The three insertions by which an event enters the maps (\<open>append_event\<close>,
  \<open>append_verified_remote_event\<close> and \<open>load_inner_from_disk\<close> all make them).\<close>

definition mem_insert :: "core_event \<Rightarrow> mem_store \<Rightarrow> mem_store" where
  "mem_insert e s =
     (let ids = (case hm_get (ms_events_by_logbook s) (ev_logbook_id e) of None \<Rightarrow> [] | Some l \<Rightarrow> l)
      in s\<lparr>ms_events_by_logbook :=
             hm_insert (ev_logbook_id e) (ids @ [ev_event_id e]) (ms_events_by_logbook s),
           ms_heads := hm_insert (ev_logbook_id e) (ev_event_hash e) (ms_heads s),
           ms_events_by_id := hm_insert (ev_event_id e) e (ms_events_by_id s)\<rparr>)"

definition mem_append_event ::
    "libs \<Rightarrow> new_event \<Rightarrow> mem_store \<Rightarrow> world \<Rightarrow> (store_error + core_event) \<times> mem_store \<times> world" where
  "mem_append_event L n s w =
     (let previous_hash = hm_get (ms_heads s) (ne_logbook_id n);
          (e, w) = from_new L n previous_hash w
      in (Inr e, mem_insert e s, w))"

definition mem_append_verified_remote_event ::
    "libs \<Rightarrow> core_event \<Rightarrow> mem_store \<Rightarrow> (store_error + core_event) \<times> mem_store" where
  "mem_append_verified_remote_event L e s =
     (case validate_supported_remote_event L e of
        Inl err \<Rightarrow> (Inl err, s)
      | Inr _ \<Rightarrow>
          (case hm_get (ms_events_by_id s) (ev_event_id e) of
             Some existing \<Rightarrow>
               if existing = e then (Inr existing, s)
               else (Inl (DuplicateEventConflict (ev_event_id e)), s)
           | None \<Rightarrow>
               let expected = hm_get (ms_heads s) (ev_logbook_id e) in
               if ev_previous_hash e \<noteq> expected
               then (Inl (RemotePreviousHashMismatch (ev_event_id e) expected (ev_previous_hash e)), s)
               else (Inr e, mem_insert e s)))"

definition mem_get_event :: "mem_store \<Rightarrow> uuid \<Rightarrow> store_error + core_event option" where
  "mem_get_event s i = Inr (hm_get (ms_events_by_id s) i)"

definition mem_get_head :: "mem_store \<Rightarrow> uuid \<Rightarrow> store_error + string option" where
  "mem_get_head s lb = Inr (hm_get (ms_heads s) lb)"

text \<open>\<open>iter().position(p)\<close>.\<close>

fun position :: "('a \<Rightarrow> bool) \<Rightarrow> 'a list \<Rightarrow> nat option" where
  "position p [] = None"
| "position p (x # xs) = (if p x then Some 0 else map_option Suc (position p xs))"

definition has_hash :: "mem_store \<Rightarrow> string \<Rightarrow> uuid \<Rightarrow> bool" where
  "has_hash s h i =
     (case hm_get (ms_events_by_id s) i of None \<Rightarrow> False | Some e \<Rightarrow> ev_event_hash e = h)"

definition mem_list_events_after ::
    "mem_store \<Rightarrow> uuid \<Rightarrow> string option \<Rightarrow> store_error + core_event list" where
  "mem_list_events_after s lb after_hash =
     (case hm_get (ms_events_by_logbook s) lb of
        None \<Rightarrow> Inr []
      | Some ids \<Rightarrow>
          let start = (case after_hash of
                 Some h \<Rightarrow> (case position (has_hash s h) ids of None \<Rightarrow> 0 | Some i \<Rightarrow> i + 1)
               | None \<Rightarrow> 0)
          in Inr (List.map_filter (hm_get (ms_events_by_id s)) (drop start ids)))"

definition mem_list_events :: "mem_store \<Rightarrow> uuid \<Rightarrow> store_error + core_event list" where
  "mem_list_events s lb = mem_list_events_after s lb None"

text \<open>The loop of \<open>verify_chain\<close>: \<open>expected\<close> is \<open>expected_previous_hash\<close>, the result the
  final \<open>actual_head\<close>.\<close>

fun verify_loop :: "libs \<Rightarrow> mem_store \<Rightarrow> uuid list \<Rightarrow> string option \<Rightarrow> string option \<Rightarrow>
    store_error + string option" where
  "verify_loop L s [] expected actual_head = Inr actual_head"
| "verify_loop L s (i # is) expected actual_head =
     (case hm_get (ms_events_by_id s) i of
        None \<Rightarrow> Inl (EventNotFound i)
      | Some e \<Rightarrow>
          if \<not> hash_is_valid L e then Inl (ChainVerification (InvalidHash (ev_event_id e)))
          else if ev_previous_hash e \<noteq> expected then
            Inl (ChainVerification
              (PreviousHashMismatch (ev_event_id e) expected (ev_previous_hash e)))
          else verify_loop L s is (Some (ev_event_hash e)) (Some (ev_event_hash e)))"

definition mem_verify_chain :: "libs \<Rightarrow> mem_store \<Rightarrow> uuid \<Rightarrow> store_error + unit" where
  "mem_verify_chain L s lb =
     (case hm_get (ms_events_by_logbook s) lb of
        None \<Rightarrow> Inr ()
      | Some ids \<Rightarrow> and_then (verify_loop L s ids None None) (\<lambda>actual_head.
          let stored_head = hm_get (ms_heads s) lb in
          if stored_head \<noteq> actual_head
          then Inl (ChainVerification (HeadMismatch stored_head actual_head))
          else Inr ()))"

fun projection_message :: "projection_error \<Rightarrow> string" where
  "projection_message CorrectionPayloadMustBeObject = ''qso correction payload must be a JSON object''"

fun projection_fault :: "projection_error fault \<Rightarrow> store_error fault" where
  "projection_fault (Fail e) = Fail (ProjectionFailed (projection_message e))"
| "projection_fault Panicked = Panicked"

definition mem_rebuild_projections ::
    "libs \<Rightarrow> mem_store \<Rightarrow> uuid \<Rightarrow> store_error fault + qso_projection" where
  "mem_rebuild_projections L s lb =
     and_then (map_err Fail (mem_list_events s lb)) (\<lambda>events.
       map_err projection_fault (qso_rebuild L qso_projection_new events))"

definition mem_rebuild_activation_projections ::
    "libs \<Rightarrow> mem_store \<Rightarrow> uuid \<Rightarrow> store_error fault + activation_projection" where
  "mem_rebuild_activation_projections L s lb =
     and_then (map_err Fail (mem_list_events s lb)) (\<lambda>events.
       map_err projection_fault (activation_rebuild L activation_projection_new events))"

definition mem_ops :: "libs \<Rightarrow> mem_store store_ops" where
  "mem_ops L = \<lparr>op_append_event = mem_append_event L,
     op_append_verified_remote_event = mem_append_verified_remote_event L,
     op_get_event = mem_get_event, op_get_head = mem_get_head,
     op_list_events = mem_list_events, op_list_events_after = mem_list_events_after,
     op_verify_chain = mem_verify_chain L, op_rebuild_projections = mem_rebuild_projections L,
     op_rebuild_activation_projections = mem_rebuild_activation_projections L\<rparr>"

text \<open>The test helper that rewrites a stored event in place.\<close>

definition replace_event_for_testing :: "core_event \<Rightarrow> mem_store \<Rightarrow> mem_store" where
  "replace_event_for_testing e s =
     s\<lparr>ms_events_by_id := hm_insert (ev_event_id e) e (ms_events_by_id s)\<rparr>"

section \<open>The JSON-lines store\<close>

text \<open>
  The file system as the store meets it: the contents of the log file (\<open>None\<close> before the
  first write) and what the coming writes will do. A write of a line either completes or
  fails after some of its bytes reached the file.
\<close>

datatype disk_outcome = WriteOk | WriteFails nat string

record jsonl_store =
  js_memory :: mem_store
  js_file :: "string option"
  js_disk :: "disk_outcome list"

definition append_bytes :: "string \<Rightarrow> string option \<Rightarrow> string option" where
  "append_bytes bs file = Some ((case file of None \<Rightarrow> [] | Some c \<Rightarrow> c) @ bs)"

definition persist_event :: "libs \<Rightarrow> core_event \<Rightarrow> jsonl_store \<Rightarrow> (store_error + unit) \<times> jsonl_store" where
  "persist_event L e s =
     (let line = lib_print_event L e @ newline in
      case js_disk s of
        [] \<Rightarrow> (Inr (), s\<lparr>js_file := append_bytes line (js_file s)\<rparr>)
      | WriteOk # ds \<Rightarrow> (Inr (), s\<lparr>js_file := append_bytes line (js_file s), js_disk := ds\<rparr>)
      | WriteFails n err # ds \<Rightarrow>
          (Inl (StoreIo err), s\<lparr>js_file := append_bytes (take n line) (js_file s), js_disk := ds\<rparr>))"

text \<open>\<open>BufRead::lines\<close>: without the line ends \<open>\n\<close> and \<open>\r\n\<close>; no line after a final \<open>\n\<close>.\<close>

definition strip_cr :: "string \<Rightarrow> string" where
  "strip_cr l = (if l \<noteq> [] \<and> last l = CHR 0x0D then butlast l else l)"

fun read_lines :: "string \<Rightarrow> string \<Rightarrow> string list" where
  "read_lines [] cur = (if cur = [] then [] else [cur])"
| "read_lines (c # cs) cur =
     (if c = CHR 0x0A then strip_cr cur # read_lines cs [] else read_lines cs (cur @ [c]))"

fun load_lines :: "libs \<Rightarrow> string list \<Rightarrow> mem_store \<Rightarrow> store_error + mem_store" where
  "load_lines L [] s = Inr s"
| "load_lines L (l # ls) s =
     (if trim l = [] then load_lines L ls s
      else (case lib_parse_event L l of
              None \<Rightarrow> Inl (StoreSerde l)
            | Some e \<Rightarrow> load_lines L ls (mem_insert e s)))"

definition load_inner_from_disk :: "libs \<Rightarrow> string option \<Rightarrow> store_error + mem_store" where
  "load_inner_from_disk L file =
     (case file of None \<Rightarrow> Inr mem_empty
      | Some contents \<Rightarrow> load_lines L (read_lines contents []) mem_empty)"

definition jsonl_open :: "libs \<Rightarrow> string option \<Rightarrow> disk_outcome list \<Rightarrow> store_error + jsonl_store" where
  "jsonl_open L file disk =
     and_then (load_inner_from_disk L file) (\<lambda>inner.
       Inr \<lparr>js_memory = inner, js_file = file, js_disk = disk\<rparr>)"

definition jsonl_append_event ::
    "libs \<Rightarrow> new_event \<Rightarrow> jsonl_store \<Rightarrow> world \<Rightarrow> (store_error + core_event) \<times> jsonl_store \<times> world" where
  "jsonl_append_event L n s w =
     (let (r, m, w) = mem_append_event L n (js_memory s) w; s = s\<lparr>js_memory := m\<rparr> in
      case r of
        Inl err \<Rightarrow> (Inl err, s, w)
      | Inr e \<Rightarrow> (case persist_event L e s of
            (Inl err, s) \<Rightarrow> (Inl err, s, w)
          | (Inr _, s) \<Rightarrow> (Inr e, s, w)))"

definition jsonl_append_verified_remote_event ::
    "libs \<Rightarrow> core_event \<Rightarrow> jsonl_store \<Rightarrow> (store_error + core_event) \<times> jsonl_store" where
  "jsonl_append_verified_remote_event L e s =
     (if hm_get (ms_events_by_id (js_memory s)) (ev_event_id e) = Some e then (Inr e, s)
      else
        let (r, m) = mem_append_verified_remote_event L e (js_memory s); s = s\<lparr>js_memory := m\<rparr> in
        case r of
          Inl err \<Rightarrow> (Inl err, s)
        | Inr e \<Rightarrow> (case persist_event L e s of
              (Inl err, s) \<Rightarrow> (Inl err, s)
            | (Inr _, s) \<Rightarrow> (Inr e, s)))"

definition jsonl_ops :: "libs \<Rightarrow> jsonl_store store_ops" where
  "jsonl_ops L = \<lparr>op_append_event = jsonl_append_event L,
     op_append_verified_remote_event = jsonl_append_verified_remote_event L,
     op_get_event = (\<lambda>s. mem_get_event (js_memory s)), op_get_head = (\<lambda>s. mem_get_head (js_memory s)),
     op_list_events = (\<lambda>s. mem_list_events (js_memory s)),
     op_list_events_after = (\<lambda>s. mem_list_events_after (js_memory s)),
     op_verify_chain = (\<lambda>s. mem_verify_chain L (js_memory s)),
     op_rebuild_projections = (\<lambda>s. mem_rebuild_projections L (js_memory s)),
     op_rebuild_activation_projections = (\<lambda>s. mem_rebuild_activation_projections L (js_memory s))\<rparr>"

section \<open>Hash chains\<close>

text \<open>The history of a logbook: every event carries a valid hash and the hash of its
  predecessor. \<open>end_hash\<close> is the head a chain leads to.\<close>

fun chain :: "libs \<Rightarrow> string option \<Rightarrow> core_event list \<Rightarrow> bool" where
  "chain L prev [] = True"
| "chain L prev (e # es) =
     (hash_is_valid L e \<and> ev_previous_hash e = prev \<and> chain L (Some (ev_event_hash e)) es)"

fun end_hash :: "string option \<Rightarrow> core_event list \<Rightarrow> string option" where
  "end_hash prev [] = prev"
| "end_hash prev (e # es) = end_hash (Some (ev_event_hash e)) es"

lemma end_hash_append [simp]: "end_hash prev (xs @ ys) = end_hash (end_hash prev xs) ys"
  by (induction xs arbitrary: prev) simp_all

lemma chain_append [simp]: "chain L prev (xs @ ys) \<longleftrightarrow> chain L prev xs \<and> chain L (end_hash prev xs) ys"
  by (induction xs arbitrary: prev) auto

lemma end_hash_None_iff: "end_hash None es = None \<longleftrightarrow> es = []"
proof -
  have "end_hash (Some h) xs \<noteq> None" for h xs by (induction xs arbitrary: h) simp_all
  then show ?thesis by (cases es) auto
qed

lemma same_digest_same_event:
  assumes "inj_on (lib_digest L) (canonical_of ` S)" and "e \<in> S" "e' \<in> S"
    and "hash_is_valid L e" "hash_is_valid L e'" "ev_event_hash e = ev_event_hash e'"
  shows "e = e'"
proof (rule event_eqI)
  have "lib_digest L (canonical_of e) = lib_digest L (canonical_of e')"
    using assms(4,5,6) by (simp add: hash_is_valid_def calculate_hash_def)
  then show "canonical_of e = canonical_of e'" using assms(1,2,3) by (auto dest: inj_onD)
qed (rule assms(6))

text \<open>The head determines the history, unless the digest collides on events of the two.\<close>

lemma chain_head_unique:
  assumes "chain L None xs" and "chain L None ys" and "end_hash None xs = end_hash None ys"
    and "inj_on (lib_digest L) (canonical_of ` (set xs \<union> set ys))"
  shows "xs = ys"
  using assms
proof (induction xs arbitrary: ys rule: rev_induct)
  case Nil
  then have "end_hash None ys = None" by simp
  then show ?case by (simp add: end_hash_None_iff)
next
  case (snoc x xs)
  from snoc.prems(3) have "ys \<noteq> []" by auto
  then obtain y zs where ys: "ys = zs @ [y]" by (cases ys rule: rev_cases) auto
  have "x = y"
    by (rule same_digest_same_event [OF snoc.prems(4)]) (use snoc.prems ys in auto)
  moreover have "xs = zs"
  proof (rule snoc.IH)
    show "inj_on (lib_digest L) (canonical_of ` (set xs \<union> set zs))"
      by (rule inj_on_subset [OF snoc.prems(4)]) (auto simp: ys)
  qed (use snoc.prems ys \<open>x = y\<close> in auto)
  ultimately show ?case by (simp add: ys)
qed

section \<open>The in-memory store, abstractly\<close>

definition mem_log :: "mem_store \<Rightarrow> uuid \<Rightarrow> core_event list" where
  "mem_log s lb =
     (case hm_get (ms_events_by_logbook s) lb of None \<Rightarrow> []
      | Some ids \<Rightarrow> List.map_filter (hm_get (ms_events_by_id s)) ids)"

definition mem_known :: "mem_store \<Rightarrow> uuid \<Rightarrow> core_event option" where
  "mem_known s i = hm_get (ms_events_by_id s) i"

definition logbook_ids_ok :: "mem_store \<Rightarrow> uuid \<Rightarrow> uuid list \<Rightarrow> bool" where
  "logbook_ids_ok s lb ids = (distinct ids \<and>
     (\<forall>i\<in>set ids. \<exists>e. mem_known s i = Some e \<and> ev_event_id e = i \<and> ev_logbook_id e = lb))"

definition mem_ok :: "libs \<Rightarrow> mem_store \<Rightarrow> bool" where
  "mem_ok L s =
     ((\<forall>lb ids. hm_get (ms_events_by_logbook s) lb = Some ids \<longrightarrow> logbook_ids_ok s lb ids) \<and>
      (\<forall>i e. mem_known s i = Some e \<longrightarrow> ev_event_id e = i \<and> e \<in> set (mem_log s (ev_logbook_id e))) \<and>
      (\<forall>lb. chain L None (mem_log s lb)) \<and>
      (\<forall>lb. hm_get (ms_heads s) lb = end_hash None (mem_log s lb)))"

lemma mem_okD:
  assumes "mem_ok L s"
  shows "hm_get (ms_events_by_logbook s) lb = Some ids \<Longrightarrow> logbook_ids_ok s lb ids"
    and "mem_known s i = Some e \<Longrightarrow> ev_event_id e = i"
    and "mem_known s i = Some e \<Longrightarrow> e \<in> set (mem_log s (ev_logbook_id e))"
    and "chain L None (mem_log s lb)"
    and "hm_get (ms_heads s) lb = end_hash None (mem_log s lb)"
  using assms by (simp_all add: mem_ok_def)

lemma logbook_ids_new: "logbook_ids_ok s lb ids \<Longrightarrow> mem_known s i = None \<Longrightarrow> i \<notin> set ids"
  by (auto simp: logbook_ids_ok_def)

lemma mem_empty_simps [simp]: "mem_log mem_empty lb = []" "mem_known mem_empty i = None"
  by (simp_all add: mem_log_def mem_known_def mem_empty_def)

lemma mem_empty_ok [simp]: "mem_ok L mem_empty"
  by (simp add: mem_ok_def) (simp add: mem_empty_def)

lemma mem_list_events_log: "mem_list_events s lb = Inr (mem_log s lb)"
  by (simp add: mem_list_events_def mem_list_events_after_def mem_log_def split: option.split)

lemma mem_rebuild_log:
  "mem_rebuild_projections L s lb = map_err projection_fault (qso_rebuild L qso_projection_new (mem_log s lb))"
  "mem_rebuild_activation_projections L s lb =
     map_err projection_fault (activation_rebuild L activation_projection_new (mem_log s lb))"
  by (simp_all add: mem_rebuild_projections_def mem_rebuild_activation_projections_def mem_list_events_log)

lemma map_filter_cong: "(\<And>x. x \<in> set xs \<Longrightarrow> f x = g x) \<Longrightarrow> List.map_filter f xs = List.map_filter g xs"
  by (induction xs) (auto simp: List.map_filter_simps split: option.split)

lemma in_map_filter: "y \<in> set (List.map_filter f xs) \<longleftrightarrow> (\<exists>x\<in>set xs. f x = Some y)"
  by (induction xs) (auto simp: List.map_filter_simps split: option.split)

lemma map_filter_append: "List.map_filter f (xs @ ys) = List.map_filter f xs @ List.map_filter f ys"
  by (simp add: List.map_filter_def)

lemma mem_known_insert [simp]: "mem_known (mem_insert e s) = (mem_known s)(ev_event_id e \<mapsto> e)"
  by (simp add: mem_known_def mem_insert_def Let_def hm_get_insert fun_eq_iff)

lemma mem_insert_ids:
  "hm_get (ms_events_by_logbook (mem_insert e s)) =
     (hm_get (ms_events_by_logbook s))(ev_logbook_id e \<mapsto>
        (case hm_get (ms_events_by_logbook s) (ev_logbook_id e) of None \<Rightarrow> [] | Some l \<Rightarrow> l) @ [ev_event_id e])"
  by (simp add: mem_insert_def Let_def hm_get_insert)

lemma mem_insert_heads [simp]:
  "hm_get (ms_heads (mem_insert e s)) = (hm_get (ms_heads s))(ev_logbook_id e \<mapsto> ev_event_hash e)"
  by (simp add: mem_insert_def Let_def hm_get_insert)

lemma mem_insert_log:
  assumes "mem_ok L s" and "mem_known s (ev_event_id e) = None"
  shows "mem_log (mem_insert e s) lb =
    (if lb = ev_logbook_id e then mem_log s lb @ [e] else mem_log s lb)"
proof -
  have old: "List.map_filter (mem_known (mem_insert e s)) ids = List.map_filter (mem_known s) ids"
    if "hm_get (ms_events_by_logbook s) x = Some ids" for x ids
  proof (rule map_filter_cong)
    fix i assume "i \<in> set ids"
    with logbook_ids_new [OF mem_okD(1) [OF assms(1) that] assms(2)] have "i \<noteq> ev_event_id e" by blast
    then show "mem_known (mem_insert e s) i = mem_known s i" by simp
  qed
  have get: "hm_get (ms_events_by_id t) = mem_known t" for t by (simp add: mem_known_def fun_eq_iff)
  have one: "List.map_filter (mem_known (mem_insert e s)) [ev_event_id e] = [e]"
    by (simp add: List.map_filter_simps)
  show ?thesis
  proof (cases "hm_get (ms_events_by_logbook s) lb")
    case None
    then show ?thesis unfolding mem_log_def get mem_insert_ids by (auto simp: List.map_filter_simps)
  next
    case (Some ids)
    have old': "List.map_filter (mem_known (mem_insert e s)) ids = List.map_filter (mem_known s) ids"
      by (rule old [OF Some])
    show ?thesis
    proof (cases "lb = ev_logbook_id e")
      case True
      with Some old' one show ?thesis unfolding mem_log_def get mem_insert_ids
        by (auto simp: map_filter_append simp del: mem_known_insert)
    next
      case False
      with Some old' show ?thesis unfolding mem_log_def get mem_insert_ids
        by (simp del: mem_known_insert)
    qed
  qed
qed

lemma mem_insert_ok:
  assumes ok: "mem_ok L s" and new: "mem_known s (ev_event_id e) = None"
    and valid: "hash_is_valid L e" and prev: "ev_previous_hash e = end_hash None (mem_log s (ev_logbook_id e))"
  shows "mem_ok L (mem_insert e s)"
  unfolding mem_ok_def mem_insert_log [OF ok new]
proof (intro conjI allI impI)
  fix lb ids assume ids: "hm_get (ms_events_by_logbook (mem_insert e s)) lb = Some ids"
  have old: "logbook_ids_ok (mem_insert e s) lb is" if "hm_get (ms_events_by_logbook s) lb = Some is" for "is"
  proof -
    from mem_okD(1) [OF ok that] new show ?thesis unfolding logbook_ids_ok_def by fastforce
  qed
  show "logbook_ids_ok (mem_insert e s) lb ids"
  proof (cases "lb = ev_logbook_id e")
    case False
    with ids old show ?thesis by (simp add: mem_insert_ids)
  next
    case True
    show ?thesis
    proof (cases "hm_get (ms_events_by_logbook s) lb")
      case None
      with ids True show ?thesis by (auto simp: mem_insert_ids logbook_ids_ok_def)
    next
      case (Some js)
      moreover have "ev_event_id e \<notin> set js"
        by (rule logbook_ids_new [OF mem_okD(1) [OF ok Some] new])
      moreover have "ids = js @ [ev_event_id e]" using ids True Some by (auto simp: mem_insert_ids)
      moreover have "mem_known (mem_insert e s) (ev_event_id e) = Some e" by simp
      ultimately show ?thesis using True old [OF Some]
        by (auto simp: logbook_ids_ok_def simp del: mem_known_insert)
    qed
  qed
next
  fix i x assume k: "mem_known (mem_insert e s) i = Some x"
  then show "ev_event_id x = i" using mem_okD(2) [OF ok] by (auto split: if_splits)
  from k show "x \<in> set (if ev_logbook_id x = ev_logbook_id e then mem_log s (ev_logbook_id x) @ [e]
      else mem_log s (ev_logbook_id x))"
    using mem_okD(3) [OF ok, of i x] by (auto split: if_splits)
next
  fix lb
  show "chain L None (if lb = ev_logbook_id e then mem_log s lb @ [e] else mem_log s lb)"
    using mem_okD(4) [OF ok] valid prev by simp
  show "hm_get (ms_heads (mem_insert e s)) lb =
      end_hash None (if lb = ev_logbook_id e then mem_log s lb @ [e] else mem_log s lb)"
    using mem_okD(5) [OF ok] by simp
qed

subsection \<open>Listing\<close>

text \<open>The part of a log after the first event with a given hash; all of it when there is none.\<close>

definition log_after :: "string option \<Rightarrow> core_event list \<Rightarrow> core_event list" where
  "log_after h es =
     (case h of None \<Rightarrow> es
      | Some h \<Rightarrow> (case dropWhile (\<lambda>e. ev_event_hash e \<noteq> h) es of [] \<Rightarrow> es | _ # rest \<Rightarrow> rest))"

lemma log_after_split:
  "\<forall>x\<in>set xs. ev_event_hash x \<noteq> ev_event_hash e \<Longrightarrow> log_after (Some (ev_event_hash e)) (xs @ e # ys) = ys"
  by (simp add: log_after_def dropWhile_append3)

lemma log_after_none:
  assumes "\<forall>e\<in>set es. ev_event_hash e \<noteq> h"
  shows "log_after (Some h) es = es"
proof -
  have "dropWhile (\<lambda>e. ev_event_hash e \<noteq> h) es = []"
    by (rule dropWhile_eq_Nil_conv [THEN iffD2, OF assms])
  then show ?thesis unfolding log_after_def option.case by (simp only: list.case)
qed

lemma log_after_unknown: "h \<notin> ev_event_hash ` set es \<Longrightarrow> log_after (Some h) es = es"
  by (rule log_after_none) auto

lemma position_map_filter:
  assumes "\<forall>i\<in>set ids. \<exists>e. mem_known s i = Some e"
  shows "(case position (has_hash s h) ids of
      None \<Rightarrow> \<forall>e\<in>set (List.map_filter (mem_known s) ids). ev_event_hash e \<noteq> h
    | Some k \<Rightarrow> \<exists>e. dropWhile (\<lambda>e. ev_event_hash e \<noteq> h) (List.map_filter (mem_known s) ids) =
        e # List.map_filter (mem_known s) (drop (Suc k) ids))"
  using assms
proof (induction ids)
  case (Cons i ids)
  from Cons.prems obtain e where e: "mem_known s i = Some e" by auto
  then have hh: "has_hash s h i \<longleftrightarrow> ev_event_hash e = h" by (simp add: has_hash_def mem_known_def)
  show ?case
  proof (cases "ev_event_hash e = h")
    case True
    then show ?thesis using e hh by (simp add: List.map_filter_simps)
  next
    case False
    then show ?thesis using Cons e hh
      by (simp add: List.map_filter_simps split: option.splits)
  qed
qed (simp add: List.map_filter_simps)

lemma mem_list_events_after_log:
  assumes "mem_ok L s"
  shows "mem_list_events_after s lb h = Inr (log_after h (mem_log s lb))"
proof (cases "hm_get (ms_events_by_logbook s) lb")
  case None
  then show ?thesis
    by (simp add: mem_list_events_after_def mem_log_def log_after_def split: option.split)
next
  case (Some ids)
  have get: "hm_get (ms_events_by_id s) = mem_known s" by (simp add: mem_known_def fun_eq_iff)
  have "\<forall>i\<in>set ids. \<exists>e. mem_known s i = Some e"
    using mem_okD(1) [OF assms Some] by (auto simp: logbook_ids_ok_def)
  then have pos: "log_after (Some k) (List.map_filter (mem_known s) ids) =
      List.map_filter (mem_known s) (drop (case position (has_hash s k) ids of None \<Rightarrow> 0 | Some i \<Rightarrow> i + 1) ids)"
    for k
    using position_map_filter [of ids s k]
    by (cases "position (has_hash s k) ids") (auto simp: log_after_none, simp add: log_after_def)
  show ?thesis
  proof (cases h)
    case None
    with Some show ?thesis by (simp add: mem_list_events_after_def mem_log_def log_after_def)
  next
    case (Some k)
    with \<open>hm_get (ms_events_by_logbook s) lb = Some ids\<close> pos [of k] show ?thesis
      by (simp add: mem_list_events_after_def mem_log_def get)
  qed
qed

subsection \<open>Verification\<close>

lemma verify_loop_iff:
  "verify_loop L s ids prev prev = Inr h \<longleftrightarrow>
     (\<forall>i\<in>set ids. mem_known s i \<noteq> None) \<and> chain L prev (List.map_filter (mem_known s) ids) \<and>
     h = end_hash prev (List.map_filter (mem_known s) ids)"
  by (induction ids arbitrary: prev)
    (auto simp: mem_known_def List.map_filter_simps split: option.split)

lemma mem_verify_chain_iff:
  assumes "hm_get (ms_events_by_logbook s) lb = Some ids"
  shows "mem_verify_chain L s lb = Inr () \<longleftrightarrow>
    (\<forall>i\<in>set ids. mem_known s i \<noteq> None) \<and> chain L None (mem_log s lb) \<and>
    hm_get (ms_heads s) lb = end_hash None (mem_log s lb)"
proof -
  have get: "hm_get (ms_events_by_id s) = mem_known s" by (simp add: mem_known_def fun_eq_iff)
  have log: "mem_log s lb = List.map_filter (mem_known s) ids"
    using assms by (simp add: mem_log_def get)
  show ?thesis unfolding mem_verify_chain_def log using assms
    by (auto simp: verify_loop_iff Let_def split: if_splits)
qed

lemma mem_ok_verifies:
  assumes "mem_ok L s"
  shows "mem_verify_chain L s lb = Inr ()"
proof (cases "hm_get (ms_events_by_logbook s) lb")
  case (Some ids)
  from mem_okD(1) [OF assms Some] have "\<forall>i\<in>set ids. mem_known s i \<noteq> None"
    by (auto simp: logbook_ids_ok_def)
  then show ?thesis by (simp add: mem_verify_chain_iff [OF Some] mem_okD(4,5) [OF assms])
qed (simp add: mem_verify_chain_def)

lemma mem_verified_heads_agree:
  assumes "mem_verify_chain L s lb = Inr ()" "mem_verify_chain L t lb = Inr ()"
    and "hm_get (ms_events_by_logbook s) lb \<noteq> None" "hm_get (ms_events_by_logbook t) lb \<noteq> None"
    and "hm_get (ms_heads s) lb = hm_get (ms_heads t) lb"
    and "inj_on (lib_digest L) (canonical_of ` (set (mem_log s lb) \<union> set (mem_log t lb)))"
  shows "mem_log s lb = mem_log t lb"
  using assms by (intro chain_head_unique [of L]) (auto simp: mem_verify_chain_iff)

text \<open>A stored event replaced by any other event with its identifier is detected.\<close>

lemma mem_tampering_detected:
  assumes ok: "mem_ok L s" and e: "e \<in> set (mem_log s lb)"
    and e': "ev_event_id e' = ev_event_id e" "e' \<noteq> e"
    and inj: "inj_on (lib_digest L) (canonical_of ` insert e' (set (mem_log s lb)))"
  shows "mem_verify_chain L (replace_event_for_testing e' s) lb \<noteq> Inr ()"
proof
  let ?t = "replace_event_for_testing e' s"
  assume v: "mem_verify_chain L ?t lb = Inr ()"
  from e obtain ids where ids: "hm_get (ms_events_by_logbook s) lb = Some ids"
    by (cases "hm_get (ms_events_by_logbook s) lb") (auto simp: mem_log_def)
  have get: "hm_get (ms_events_by_id x) = mem_known x" for x by (simp add: mem_known_def fun_eq_iff)
  have log: "mem_log x lb = List.map_filter (mem_known x) ids"
    if "ms_events_by_logbook x = ms_events_by_logbook s" for x
    using ids that by (simp add: mem_log_def get)
  have t: "ms_events_by_logbook ?t = ms_events_by_logbook s" "ms_heads ?t = ms_heads s"
    "mem_known ?t = (mem_known s)(ev_event_id e' \<mapsto> e')"
    by (simp_all add: replace_event_for_testing_def mem_known_def hm_get_insert fun_eq_iff)
  have sub: "set (mem_log ?t lb) \<subseteq> insert e' (set (mem_log s lb))"
    unfolding log [OF t(1)] log [OF refl] t(3)
    by (auto simp: in_map_filter split: if_splits)
  have "mem_log s lb = mem_log ?t lb"
  proof (rule mem_verified_heads_agree [OF mem_ok_verifies [OF ok] v])
    show "inj_on (lib_digest L) (canonical_of ` (set (mem_log s lb) \<union> set (mem_log ?t lb)))"
      by (rule inj_on_subset [OF inj]) (use sub in auto)
  qed (simp_all add: ids t)
  moreover from e have "ev_event_id e \<in> set ids" "mem_known s (ev_event_id e) = Some e"
    using mem_okD(1) [OF ok ids] by (auto simp: log [OF refl] in_map_filter logbook_ids_ok_def)
  then have "e' \<in> set (mem_log ?t lb)"
    unfolding log [OF t(1)] t(3) using e'(1) by (force simp: in_map_filter)
  ultimately have "e' \<in> set (mem_log s lb)" by simp
  then have "mem_known s (ev_event_id e') = Some e'"
    using mem_okD(1) [OF ok ids] by (auto simp: log [OF refl] in_map_filter logbook_ids_ok_def)
  with e' \<open>mem_known s (ev_event_id e) = Some e\<close> show False by simp
qed

section \<open>The interface\<close>

text \<open>A sequence of calls on a store.\<close>

datatype store_call = LocalAppend new_event | RemoteAppend core_event

fun store_run :: "'s store_ops \<Rightarrow> store_call list \<Rightarrow> 's \<Rightarrow> world \<Rightarrow>
    (store_error + core_event) list \<times> 's \<times> world" where
  "store_run ops [] s w = ([], s, w)"
| "store_run ops (LocalAppend n # cs) s w =
     (let (r, s, w) = op_append_event ops n s w; (rs, s, w) = store_run ops cs s w in (r # rs, s, w))"
| "store_run ops (RemoteAppend e # cs) s w =
     (let (r, s) = op_append_verified_remote_event ops e s; (rs, s, w) = store_run ops cs s w
      in (r # rs, s, w))"

text \<open>The identifiers of the remote events of a sequence.\<close>

fun call_ids :: "store_call list \<Rightarrow> uuid set" where
  "call_ids [] = {}"
| "call_ids (LocalAppend n # cs) = call_ids cs"
| "call_ids (RemoteAppend e # cs) = insert (ev_event_id e) (call_ids cs)"

text \<open>
  What a client of a store relies on, over the log of each logbook and the events known by
  identifier: appending extends one log by one event that continues its chain, a refused
  event changes nothing, and a stored event is accepted again without effect.
\<close>

locale event_store =
  fixes ops :: "'s store_ops"
    and L :: libs
    and inv :: "'s \<Rightarrow> bool"
    and log :: "'s \<Rightarrow> uuid \<Rightarrow> core_event list"
    and known :: "'s \<Rightarrow> uuid \<Rightarrow> core_event option"
  assumes get_event: "op_get_event ops s i = Inr (known s i)"
    and get_head: "inv s \<Longrightarrow> op_get_head ops s lb = Inr (end_hash None (log s lb))"
    and list_events: "inv s \<Longrightarrow> op_list_events ops s lb = Inr (log s lb)"
    and list_events_after: "inv s \<Longrightarrow> op_list_events_after ops s lb h = Inr (log_after h (log s lb))"
    and verify_chain: "inv s \<Longrightarrow> op_verify_chain ops s lb = Inr ()"
    and rebuild_projections: "inv s \<Longrightarrow> op_rebuild_projections ops s lb =
      map_err projection_fault (qso_rebuild L qso_projection_new (log s lb))"
    and rebuild_activation_projections: "inv s \<Longrightarrow> op_rebuild_activation_projections ops s lb =
      map_err projection_fault (activation_rebuild L activation_projection_new (log s lb))"
    and log_chain: "inv s \<Longrightarrow> chain L None (log s lb)"
    and log_known: "inv s \<Longrightarrow> e \<in> set (log s lb) \<Longrightarrow> known s (ev_event_id e) = Some e \<and> ev_logbook_id e = lb"
    and known_log: "inv s \<Longrightarrow> known s i = Some e \<Longrightarrow> ev_event_id e = i \<and> e \<in> set (log s (ev_logbook_id e))"
    and append_world: "op_append_event ops n s w = (r, s', w') \<Longrightarrow>
      uuid_source w' = uuid_source w \<and> uuid_pos w' = Suc (uuid_pos w)"
    and append: "inv s \<Longrightarrow> known s (uuid_source w (uuid_pos w)) = None \<Longrightarrow>
      op_append_event ops n s w = (r, s', w') \<Longrightarrow>
      \<exists>e. from_new L n (end_hash None (log s (ne_logbook_id n))) w = (e, w') \<and> r = Inr e \<and> inv s' \<and>
        log s' = (log s)(ne_logbook_id n := log s (ne_logbook_id n) @ [e]) \<and>
        known s' = (known s)(ev_event_id e \<mapsto> e)"
    and remote_accepted: "inv s \<Longrightarrow> op_append_verified_remote_event ops e s = (Inr x, s') \<Longrightarrow>
      x = e \<and> inv s' \<and>
      (if known s (ev_event_id e) = Some e then log s' = log s \<and> known s' = known s
       else known s (ev_event_id e) = None \<and> validate_supported_remote_event L e = Inr () \<and>
         ev_previous_hash e = end_hash None (log s (ev_logbook_id e)) \<and>
         log s' = (log s)(ev_logbook_id e := log s (ev_logbook_id e) @ [e]) \<and>
         known s' = (known s)(ev_event_id e \<mapsto> e))"
    and remote_refused: "inv s \<Longrightarrow> op_append_verified_remote_event ops e s = (Inl err, s') \<Longrightarrow>
      inv s' \<and> log s' = log s \<and> known s' = known s"
    and remote_accepts: "inv s \<Longrightarrow> validate_supported_remote_event L e = Inr () \<Longrightarrow>
      known s (ev_event_id e) = Some e \<or> known s (ev_event_id e) = None \<and>
        ev_previous_hash e = end_hash None (log s (ev_logbook_id e)) \<Longrightarrow>
      \<exists>s'. op_append_verified_remote_event ops e s = (Inr e, s')"
begin

text \<open>An event occurs once in a log on which the digest does not collide.\<close>

lemma once_in_log:
  assumes "inv s" and "log s lb = xs @ e # ys"
    and "inj_on (lib_digest L) (canonical_of ` set (log s lb))"
  shows "e \<notin> set xs"
proof
  assume "e \<in> set xs"
  then obtain as bs where xs: "xs = as @ e # bs" by (meson split_list)
  have c: "chain L None (as @ e # bs @ e # ys)" using log_chain [OF assms(1), of lb]
    unfolding assms(2) xs by (simp only: append_assoc append_Cons)
  have inj: "inj_on (lib_digest L) (canonical_of ` set (as @ e # bs @ e # ys))"
    using assms(2,3) xs by simp
  have "as = as @ e # bs"
  proof (rule chain_head_unique [of L])
    show "chain L None as" "chain L None (as @ e # bs)" using c by simp_all
    from c have p: "ev_previous_hash e = end_hash None as \<and>
        ev_previous_hash e = end_hash (Some (ev_event_hash e)) bs"
      unfolding chain_append chain.simps end_hash_append end_hash.simps by blast
    show "end_hash None as = end_hash None (as @ e # bs)"
      unfolding end_hash_append end_hash.simps using p by (metis (no_types))
    show "inj_on (lib_digest L) (canonical_of ` (set as \<union> set (as @ e # bs)))"
      by (rule inj_on_subset [OF inj]) auto
  qed
  then show False by simp
qed

text \<open>Histories only grow, whatever the calls and their results.\<close>

lemma append_later: "op_append_event ops n s w = (r, s', w') \<Longrightarrow> world_later w w'"
  using append_world by (force simp: world_later_def)

lemma append_new:
  assumes "fresh_draws U w w'" and "op_append_event ops n s w = (r, s', w')"
  shows "uuid_source w (uuid_pos w) \<notin> U" "draws w w' = [uuid_source w (uuid_pos w)]"
  using assms(1) append_world [OF assms(2)] by (auto simp: fresh_draws_def draws_one)

lemma append_step:
  assumes "inv s" and "fresh_draws (dom (known s)) w w'" and "op_append_event ops n s w = (r, s', w')"
  shows "inv s' \<and> dom (known s') = dom (known s) \<union> set (draws w w') \<and> (\<forall>lb. prefix (log s lb) (log s' lb))"
proof -
  note new = append_new [OF assms(2,3)]
  from append [OF assms(1) _ assms(3)] new(1) obtain e where
    e: "from_new L n (end_hash None (log s (ne_logbook_id n))) w = (e, w')" "inv s'"
      "log s' = (log s)(ne_logbook_id n := log s (ne_logbook_id n) @ [e])"
      "known s' = (known s)(ev_event_id e \<mapsto> e)" by blast
  then show ?thesis using from_new_fields(1) [OF e(1)] new(2) by auto
qed

lemma remote_step:
  assumes "inv s" and "op_append_verified_remote_event ops e s = (r, s')"
  shows "inv s' \<and> dom (known s') \<subseteq> insert (ev_event_id e) (dom (known s)) \<and> (\<forall>lb. prefix (log s lb) (log s' lb))"
proof (cases r)
  case (Inl err)
  from remote_refused [OF assms(1) assms(2) [unfolded Inl]] show ?thesis by auto
next
  case (Inr x)
  from remote_accepted [OF assms(1) assms(2) [unfolded Inr]] show ?thesis by (auto split: if_splits)
qed

lemma run_later: "store_run ops cs s w = (rs, s', w') \<Longrightarrow> world_later w w'"
proof (induction cs arbitrary: s w rs)
  case (Cons c cs)
  then show ?case
    by (cases c) (auto simp: Let_def split: prod.splits intro: world_later_trans append_later)
qed simp

lemma run_grows:
  "inv s \<Longrightarrow> store_run ops cs s w = (rs, s', w') \<Longrightarrow> fresh_draws (dom (known s) \<union> call_ids cs) w w' \<Longrightarrow>
   inv s' \<and> (\<forall>lb. prefix (log s lb) (log s' lb))"
proof (induction cs arbitrary: s w rs)
  case (Cons c cs)
  show ?case
  proof (cases c)
    case (LocalAppend n)
    obtain r t v where a: "op_append_event ops n s w = (r, t, v)" by (metis prod_cases3)
    obtain qs u x where "store_run ops cs t v = (qs, u, x)" by (metis prod_cases3)
    with Cons.prems(2) a have b: "store_run ops cs t v = (qs, s', w')" by (simp add: LocalAppend)
    note split = fresh_draws_split [OF append_later [OF a] run_later [OF b]]
    from Cons.prems(3) have f: "fresh_draws (dom (known s)) w v"
      "fresh_draws (dom (known s) \<union> set (draws w v) \<union> call_ids cs) v w'"
      by (auto simp: LocalAppend split Un_ac intro: fresh_draws_mono)
    from append_step [OF Cons.prems(1) f(1) a] have t: "inv t" "dom (known t) = dom (known s) \<union> set (draws w v)"
      "\<forall>lb. prefix (log s lb) (log t lb)" by auto
    from Cons.IH [OF t(1) b f(2) [folded t(2)]] t(3) show ?thesis by (meson prefix_order.trans)
  next
    case (RemoteAppend e)
    obtain r t where a: "op_append_verified_remote_event ops e s = (r, t)" by fastforce
    obtain qs u x where "store_run ops cs t w = (qs, u, x)" by (metis prod_cases3)
    with Cons.prems(2) a have b: "store_run ops cs t w = (qs, s', w')" by (simp add: RemoteAppend)
    from remote_step [OF Cons.prems(1) a] have t: "inv t" "dom (known t) \<subseteq> insert (ev_event_id e) (dom (known s))"
      "\<forall>lb. prefix (log s lb) (log t lb)" by auto
    have "fresh_draws (dom (known t) \<union> call_ids cs) w w'"
      by (rule fresh_draws_mono [OF Cons.prems(3)]) (use t(2) in \<open>auto simp: RemoteAppend\<close>)
    from Cons.IH [OF t(1) b this] t(3) show ?thesis by (meson prefix_order.trans)
  qed
qed auto

end

section \<open>The two implementations provide it\<close>

lemma mem_append_world:
  "mem_append_event L n s w = (r, s', w') \<Longrightarrow>
   uuid_source w' = uuid_source w \<and> uuid_pos w' = Suc (uuid_pos w)"
  by (auto simp: mem_append_event_def Let_def split: prod.splits dest: from_new_fields(9,10))

lemma from_new_chain:
  assumes "mem_ok L s" and "from_new L n (hm_get (ms_heads s) (ne_logbook_id n)) w = (e, w')"
    and "mem_known s (uuid_source w (uuid_pos w)) = None"
  shows "mem_ok L (mem_insert e s)" "ev_logbook_id e = ne_logbook_id n" "mem_known s (ev_event_id e) = None"
  using assms from_new_fields [OF assms(2)] by (auto intro: mem_insert_ok simp: mem_okD(5))

lemma mem_remote_accepted:
  assumes "mem_ok L s" and "mem_append_verified_remote_event L e s = (Inr x, s')"
  shows "x = e \<and> validate_supported_remote_event L e = Inr () \<and>
    (s' = s \<and> mem_known s (ev_event_id e) = Some e \<or>
     s' = mem_insert e s \<and> mem_known s (ev_event_id e) = None \<and>
     ev_previous_hash e = end_hash None (mem_log s (ev_logbook_id e)))"
  using assms mem_okD(5) [OF assms(1), of "ev_logbook_id e"]
  by (auto simp: mem_append_verified_remote_event_def mem_known_def Let_def
    split: sum.splits option.splits if_splits)

lemma mem_remote_refused: "mem_append_verified_remote_event L e s = (Inl err, s') \<Longrightarrow> s' = s"
  by (auto simp: mem_append_verified_remote_event_def Let_def split: sum.splits option.splits if_splits)

lemma mem_remote_accepts:
  assumes "mem_ok L s" and "validate_supported_remote_event L e = Inr ()"
    and "mem_known s (ev_event_id e) = Some e \<or> mem_known s (ev_event_id e) = None \<and>
      ev_previous_hash e = end_hash None (mem_log s (ev_logbook_id e))"
  shows "\<exists>s'. mem_append_verified_remote_event L e s = (Inr e, s')"
  using assms mem_okD(5) [OF assms(1), of "ev_logbook_id e"]
  by (auto simp: mem_append_verified_remote_event_def mem_known_def)

lemma validated_hash: "validate_supported_remote_event L e = Inr () \<Longrightarrow> hash_is_valid L e"
  by (auto simp: validate_supported_remote_event_def split: if_splits)

lemma mem_remote_insert:
  assumes "mem_ok L s" and "validate_supported_remote_event L e = Inr ()"
    and "mem_known s (ev_event_id e) = None"
    and "ev_previous_hash e = end_hash None (mem_log s (ev_logbook_id e))"
  shows "mem_ok L (mem_insert e s)"
    and "mem_log (mem_insert e s) = (mem_log s)(ev_logbook_id e := mem_log s (ev_logbook_id e) @ [e])"
  using mem_insert_ok [OF assms(1,3) validated_hash [OF assms(2)] assms(4)]
  by (auto simp: mem_insert_log [OF assms(1,3)] fun_eq_iff)

lemma mem_log_known:
  assumes "mem_ok L s" and "e \<in> set (mem_log s lb)"
  shows "mem_known s (ev_event_id e) = Some e \<and> ev_logbook_id e = lb"
proof -
  have get: "hm_get (ms_events_by_id s) = mem_known s" by (simp add: mem_known_def fun_eq_iff)
  from assms(2) obtain ids where ids: "hm_get (ms_events_by_logbook s) lb = Some ids"
    and i: "e \<in> set (List.map_filter (mem_known s) ids)"
    by (cases "hm_get (ms_events_by_logbook s) lb") (auto simp: mem_log_def get)
  with mem_okD(1) [OF assms(1) ids] show ?thesis by (auto simp: in_map_filter logbook_ids_ok_def)
qed

interpretation mem: event_store "mem_ops L" L "mem_ok L" mem_log mem_known for L
proof
  fix s w n r s' w'
  assume ok: "mem_ok L s" and new: "mem_known s (uuid_source w (uuid_pos w)) = None"
    and app: "op_append_event (mem_ops L) n s w = (r, s', w')"
  obtain e v where e: "from_new L n (end_hash None (mem_log s (ne_logbook_id n))) w = (e, v)"
    by (cases "from_new L n (end_hash None (mem_log s (ne_logbook_id n))) w")
  then have e': "from_new L n (hm_get (ms_heads s) (ne_logbook_id n)) w = (e, v)"
    by (simp add: mem_okD(5) [OF ok])
  from app e' have "r = Inr e" "s' = mem_insert e s" "w' = v"
    by (simp_all add: mem_ops_def mem_append_event_def)
  with e from_new_chain [OF ok e' new] mem_insert_log [OF ok, of e]
  show "\<exists>e. from_new L n (end_hash None (mem_log s (ne_logbook_id n))) w = (e, w') \<and> r = Inr e \<and>
      mem_ok L s' \<and> mem_log s' = (mem_log s)(ne_logbook_id n := mem_log s (ne_logbook_id n) @ [e]) \<and>
      mem_known s' = (mem_known s)(ev_event_id e \<mapsto> e)"
    by (auto simp: fun_eq_iff)
next
  fix s e x s'
  assume ok: "mem_ok L s" and app: "op_append_verified_remote_event (mem_ops L) e s = (Inr x, s')"
  show "x = e \<and> mem_ok L s' \<and>
      (if mem_known s (ev_event_id e) = Some e then mem_log s' = mem_log s \<and> mem_known s' = mem_known s
       else mem_known s (ev_event_id e) = None \<and> validate_supported_remote_event L e = Inr () \<and>
         ev_previous_hash e = end_hash None (mem_log s (ev_logbook_id e)) \<and>
         mem_log s' = (mem_log s)(ev_logbook_id e := mem_log s (ev_logbook_id e) @ [e]) \<and>
         mem_known s' = (mem_known s)(ev_event_id e \<mapsto> e))"
    using ok app mem_remote_accepted [OF ok, of e x s'] mem_remote_insert [OF ok, of e]
    by (auto simp: mem_ops_def)
qed (auto simp: mem_ops_def mem_get_event_def mem_known_def [symmetric] mem_get_head_def mem_okD
    mem_list_events_log mem_list_events_after_log mem_ok_verifies mem_log_known mem_rebuild_log
  dest: mem_remote_refused mem_remote_accepts mem_append_world)

subsection \<open>On disk\<close>

definition jsonl_healthy :: "jsonl_store \<Rightarrow> bool" where
  "jsonl_healthy s = list_all (\<lambda>d. d = WriteOk) (js_disk s)"

definition jsonl_ok :: "libs \<Rightarrow> jsonl_store \<Rightarrow> bool" where
  "jsonl_ok L s = (mem_ok L (js_memory s) \<and> jsonl_healthy s)"

lemma persist_healthy:
  assumes "jsonl_healthy s"
  shows "persist_event L e s = (Inr (), s\<lparr>js_file := append_bytes (lib_print_event L e @ newline) (js_file s),
      js_disk := tl (js_disk s)\<rparr>)"
  using assms by (cases s; cases "js_disk s") (auto simp: persist_event_def jsonl_healthy_def)

lemma jsonl_append_healthy:
  assumes "jsonl_healthy s" and "mem_append_event L n (js_memory s) w = (Inr e, m, w')"
  shows "jsonl_append_event L n s w = (Inr e, s\<lparr>js_memory := m,
      js_file := append_bytes (lib_print_event L e @ newline) (js_file s), js_disk := tl (js_disk s)\<rparr>, w')"
  using assms persist_healthy [of "s\<lparr>js_memory := m\<rparr>" L e]
  by (simp add: jsonl_append_event_def jsonl_healthy_def)

lemma jsonl_healthy_tl: "jsonl_healthy s \<Longrightarrow> jsonl_healthy (s\<lparr>js_memory := m, js_file := f, js_disk := tl (js_disk s)\<rparr>)"
  by (cases "js_disk s") (auto simp: jsonl_healthy_def)

lemma jsonl_remote_healthy:
  assumes "jsonl_healthy s"
  shows "jsonl_append_verified_remote_event L e s =
    (if mem_known (js_memory s) (ev_event_id e) = Some e then (Inr e, s)
     else case mem_append_verified_remote_event L e (js_memory s) of
        (Inl err, m) \<Rightarrow> (Inl err, s\<lparr>js_memory := m\<rparr>)
      | (Inr e, m) \<Rightarrow> (Inr e, s\<lparr>js_memory := m,
          js_file := append_bytes (lib_print_event L e @ newline) (js_file s), js_disk := tl (js_disk s)\<rparr>))"
  using assms persist_healthy [of "s\<lparr>js_memory := m\<rparr>" L x for m x]
  by (auto simp: jsonl_append_verified_remote_event_def mem_known_def jsonl_healthy_def Let_def
    split: prod.split sum.split)

lemma jsonl_append_world:
  "jsonl_append_event L n s w = (r, s', w') \<Longrightarrow>
   uuid_source w' = uuid_source w \<and> uuid_pos w' = Suc (uuid_pos w)"
  by (auto simp: jsonl_append_event_def Let_def split: prod.splits sum.splits dest: mem_append_world)

lemma mem_append_event_Inr: "mem_append_event L n s w =
    (case from_new L n (hm_get (ms_heads s) (ne_logbook_id n)) w of (e, w') \<Rightarrow> (Inr e, mem_insert e s, w'))"
  by (simp add: mem_append_event_def)

interpretation jsonl: event_store "jsonl_ops L" L "jsonl_ok L" "\<lambda>s. mem_log (js_memory s)"
  "\<lambda>s. mem_known (js_memory s)" for L
proof
  fix s w n r s' w'
  assume ok: "jsonl_ok L s" and new: "mem_known (js_memory s) (uuid_source w (uuid_pos w)) = None"
    and app: "op_append_event (jsonl_ops L) n s w = (r, s', w')"
  then have m: "mem_ok L (js_memory s)" and h: "jsonl_healthy s" by (simp_all add: jsonl_ok_def)
  obtain e v where e: "mem_append_event L n (js_memory s) w = (Inr e, mem_insert e (js_memory s), v)"
    by (cases "from_new L n (hm_get (ms_heads (js_memory s)) (ne_logbook_id n)) w")
      (simp add: mem_append_event_Inr)
  from mem.append [OF m new, of n] e obtain
    "from_new L n (end_hash None (mem_log (js_memory s) (ne_logbook_id n))) w = (e, v)"
    "mem_ok L (mem_insert e (js_memory s))"
    "mem_log (mem_insert e (js_memory s)) =
      (mem_log (js_memory s))(ne_logbook_id n := mem_log (js_memory s) (ne_logbook_id n) @ [e])"
    by (auto simp: mem_ops_def)
  then show "\<exists>e. from_new L n (end_hash None (mem_log (js_memory s) (ne_logbook_id n))) w = (e, w') \<and>
      r = Inr e \<and> jsonl_ok L s' \<and>
      mem_log (js_memory s') = (mem_log (js_memory s))
        (ne_logbook_id n := mem_log (js_memory s) (ne_logbook_id n) @ [e]) \<and>
      mem_known (js_memory s') = (mem_known (js_memory s))(ev_event_id e \<mapsto> e)"
    using app jsonl_append_healthy [OF h e] jsonl_healthy_tl [OF h]
    by (auto simp: jsonl_ops_def jsonl_ok_def)
next
  fix s e x s'
  assume ok: "jsonl_ok L s" and app: "op_append_verified_remote_event (jsonl_ops L) e s = (Inr x, s')"
  then have m: "mem_ok L (js_memory s)" and h: "jsonl_healthy s" by (simp_all add: jsonl_ok_def)
  show "x = e \<and> jsonl_ok L s' \<and>
      (if mem_known (js_memory s) (ev_event_id e) = Some e
       then mem_log (js_memory s') = mem_log (js_memory s) \<and> mem_known (js_memory s') = mem_known (js_memory s)
       else mem_known (js_memory s) (ev_event_id e) = None \<and> validate_supported_remote_event L e = Inr () \<and>
         ev_previous_hash e = end_hash None (mem_log (js_memory s) (ev_logbook_id e)) \<and>
         mem_log (js_memory s') = (mem_log (js_memory s))
           (ev_logbook_id e := mem_log (js_memory s) (ev_logbook_id e) @ [e]) \<and>
         mem_known (js_memory s') = (mem_known (js_memory s))(ev_event_id e \<mapsto> e))"
  proof (cases "mem_known (js_memory s) (ev_event_id e) = Some e")
    case True
    with app ok show ?thesis by (simp add: jsonl_ops_def jsonl_remote_healthy [OF h])
  next
    case False
    with app h obtain m' where a: "mem_append_verified_remote_event L e (js_memory s) = (Inr x, m')"
      and s': "js_memory s' = m'" "jsonl_healthy s'"
      by (auto simp: jsonl_ops_def jsonl_remote_healthy [OF h] jsonl_healthy_tl
        split: prod.splits sum.splits)
    from mem.remote_accepted [OF m, of e x m'] a False show ?thesis
      by (simp add: mem_ops_def s' jsonl_ok_def)
  qed
next
  fix s e err s'
  assume ok: "jsonl_ok L s" and app: "op_append_verified_remote_event (jsonl_ops L) e s = (Inl err, s')"
  then have h: "jsonl_healthy s" by (simp add: jsonl_ok_def)
  with app ok show "jsonl_ok L s' \<and> mem_log (js_memory s') = mem_log (js_memory s) \<and>
      mem_known (js_memory s') = mem_known (js_memory s)"
    by (auto simp: jsonl_ops_def jsonl_remote_healthy [OF h] jsonl_ok_def jsonl_healthy_def
      split: prod.splits sum.splits if_splits dest!: mem_remote_refused)
next
  fix s e
  assume "jsonl_ok L s" and v: "validate_supported_remote_event L e = Inr ()"
    and k: "mem_known (js_memory s) (ev_event_id e) = Some e \<or> mem_known (js_memory s) (ev_event_id e) = None \<and>
      ev_previous_hash e = end_hash None (mem_log (js_memory s) (ev_logbook_id e))"
  then have m: "mem_ok L (js_memory s)" and h: "jsonl_healthy s" by (simp_all add: jsonl_ok_def)
  from mem_remote_accepts [OF m v k] show "\<exists>s'. op_append_verified_remote_event (jsonl_ops L) e s = (Inr e, s')"
    by (auto simp: jsonl_ops_def jsonl_remote_healthy [OF h])
qed (auto simp: jsonl_ops_def jsonl_ok_def mem_get_event_def mem_known_def [symmetric] mem_get_head_def
    mem_okD mem_list_events_log mem_list_events_after_log mem_ok_verifies mem_log_known mem_rebuild_log
  dest: jsonl_append_world)

subsection \<open>Durability\<close>

text \<open>A line the JSON library prints for an event is read back as that event.\<close>

definition line_ok :: "libs \<Rightarrow> core_event \<Rightarrow> bool" where
  "line_ok L e =
     (let l = lib_print_event L e in
      lib_parse_event L l = Some e \<and> CHR 0x0A \<notin> set l \<and> trim l \<noteq> [] \<and> last l \<noteq> CHR 0x0D)"

text \<open>The file holds complete lines, and reading it gives the memory.\<close>

definition complete_lines :: "string option \<Rightarrow> bool" where
  "complete_lines file = (case file of None \<Rightarrow> True | Some c \<Rightarrow> c = [] \<or> last c = CHR 0x0A)"

definition synced :: "libs \<Rightarrow> jsonl_store \<Rightarrow> bool" where
  "synced L s = (complete_lines (js_file s) \<and> load_inner_from_disk L (js_file s) = Inr (js_memory s))"

lemma read_lines_line: "CHR 0x0A \<notin> set l \<Longrightarrow> read_lines (l @ CHR 0x0A # cs) cur = strip_cr (cur @ l) # read_lines cs []"
  by (induction l arbitrary: cur) auto

lemma read_lines_append:
  "read_lines (c @ [CHR 0x0A] @ d) cur = read_lines (c @ [CHR 0x0A]) cur @ read_lines d []"
  by (induction c arbitrary: cur) auto

lemma read_lines_complete:
  assumes "c = [] \<or> last c = CHR 0x0A"
  shows "read_lines (c @ d) [] = read_lines c [] @ read_lines d []"
proof (cases "c = []")
  case False
  with assms obtain b where "c = b @ [CHR 0x0A]" using append_butlast_last_id by metis
  then show ?thesis using read_lines_append [of b d "[]"] by simp
qed simp

lemma load_lines_append: "load_lines L (xs @ ys) s = and_then (load_lines L xs s) (load_lines L ys)"
  by (induction xs arbitrary: s) (auto split: option.split)

lemma load_append_line:
  assumes "complete_lines file" and "load_inner_from_disk L file = Inr m" and "line_ok L e"
  shows "load_inner_from_disk L (append_bytes (lib_print_event L e @ newline) file) = Inr (mem_insert e m)"
    and "complete_lines (append_bytes (lib_print_event L e @ newline) file)"
proof -
  let ?l = "lib_print_event L e"
  define c where "c = (case file of None \<Rightarrow> [] | Some c \<Rightarrow> c)"
  have l: "CHR 0x0A \<notin> set ?l" "lib_parse_event L ?l = Some e" "trim ?l \<noteq> []" "last ?l \<noteq> CHR 0x0D"
    using assms(3) by (auto simp: line_ok_def Let_def)
  have c: "c = [] \<or> last c = CHR 0x0A" using assms(1) by (auto simp: c_def complete_lines_def split: option.splits)
  have "load_lines L (read_lines c []) mem_empty = Inr m"
    using assms(2) by (auto simp: c_def load_inner_from_disk_def split: option.splits)
  moreover have "read_lines (?l @ newline) [] = [?l]"
    using read_lines_line [OF l(1), of "[]" "[]"] l(4) by (simp add: newline_def strip_cr_def)
  ultimately have "load_lines L (read_lines (c @ ?l @ newline) []) mem_empty = Inr (mem_insert e m)"
    by (simp add: read_lines_complete [OF c] load_lines_append l)
  then show "load_inner_from_disk L (append_bytes (?l @ newline) file) = Inr (mem_insert e m)"
    by (simp add: load_inner_from_disk_def append_bytes_def c_def)
  show "complete_lines (append_bytes (?l @ newline) file)"
    by (simp add: complete_lines_def append_bytes_def newline_def)
qed

lemma synced_append:
  assumes "jsonl_healthy s" "synced L s" "jsonl_append_event L n s w = (r, s', w')" "\<forall>e. r = Inr e \<longrightarrow> line_ok L e"
  shows "jsonl_healthy s' \<and> synced L s'"
proof -
  obtain e v where e: "mem_append_event L n (js_memory s) w = (Inr e, mem_insert e (js_memory s), v)"
    by (cases "from_new L n (hm_get (ms_heads (js_memory s)) (ne_logbook_id n)) w")
      (simp add: mem_append_event_Inr)
  with assms jsonl_append_healthy [OF assms(1) e] jsonl_healthy_tl [OF assms(1)] show ?thesis
    by (auto simp: synced_def load_append_line)
qed

lemma mem_remote_Inr:
  "mem_append_verified_remote_event L e s = (Inr x, s') \<Longrightarrow> mem_known s (ev_event_id e) \<noteq> Some e \<Longrightarrow>
   x = e \<and> s' = mem_insert e s"
  by (auto simp: mem_append_verified_remote_event_def mem_known_def Let_def
    split: sum.splits option.splits if_splits)

lemma synced_remote:
  assumes "jsonl_healthy s" "synced L s" "jsonl_append_verified_remote_event L e s = (r, s')"
    and "\<forall>e. r = Inr e \<longrightarrow> line_ok L e"
  shows "jsonl_healthy s' \<and> synced L s'"
proof (cases "mem_known (js_memory s) (ev_event_id e) = Some e")
  case True
  with assms show ?thesis by (simp add: jsonl_remote_healthy)
next
  case False
  obtain q m where q: "mem_append_verified_remote_event L e (js_memory s) = (q, m)" by fastforce
  show ?thesis
  proof (cases q)
    case (Inl err)
    with q False assms show ?thesis
      by (auto simp: jsonl_remote_healthy jsonl_healthy_def dest!: mem_remote_refused)
  next
    case (Inr x)
    with q False have "x = e" "m = mem_insert e (js_memory s)" by (auto dest: mem_remote_Inr)
    with Inr q False assms jsonl_healthy_tl [OF assms(1)] show ?thesis
      by (auto simp: jsonl_remote_healthy synced_def load_append_line)
  qed
qed

lemma synced_run:
  "jsonl_healthy s \<Longrightarrow> synced L s \<Longrightarrow> store_run (jsonl_ops L) cs s w = (rs, s', w') \<Longrightarrow>
   \<forall>e. Inr e \<in> set rs \<longrightarrow> line_ok L e \<Longrightarrow> jsonl_healthy s' \<and> synced L s'"
proof (induction cs arbitrary: s w rs)
  case (Cons c cs)
  show ?case
  proof (cases c)
    case (LocalAppend n)
    obtain r t v where a: "jsonl_append_event L n s w = (r, t, v)" by (metis prod_cases3)
    obtain qs u x where b: "store_run (jsonl_ops L) cs t v = (qs, u, x)" by (metis prod_cases3)
    from Cons.prems(3) LocalAppend a b have "rs = r # qs" "s' = u" "w' = x" by (auto simp: jsonl_ops_def)
    with Cons.prems Cons.IH [of t v qs] a b synced_append [OF Cons.prems(1,2) a] show ?thesis by auto
  next
    case (RemoteAppend e)
    obtain r t where a: "jsonl_append_verified_remote_event L e s = (r, t)" by fastforce
    obtain qs u x where b: "store_run (jsonl_ops L) cs t w = (qs, u, x)" by (metis prod_cases3)
    from Cons.prems(3) RemoteAppend a b have "rs = r # qs" "s' = u" "w' = x" by (auto simp: jsonl_ops_def)
    with Cons.prems Cons.IH [of t w qs] a b synced_remote [OF Cons.prems(1,2) a] show ?thesis by auto
  qed
qed simp

lemma jsonl_open_synced:
  "jsonl_open L file disk = Inr s \<Longrightarrow> complete_lines file \<Longrightarrow> synced L s"
  by (auto simp: jsonl_open_def synced_def)

text \<open>A write that fails leaves the event in memory but not in the file; the next append
  then chains on an event the file does not have.\<close>

lemma lost_write_breaks_file:
  assumes ok: "mem_ok L (js_memory s)" and sync: "synced L s"
    and disk: "js_disk s = WriteFails 0 err # WriteOk # ds"
    and lost: "from_new L n1 (end_hash None (mem_log (js_memory s) (ne_logbook_id n1))) w = (e1, w1)"
      "Some (ev_event_hash e1) \<noteq> end_hash None (mem_log (js_memory s) (ne_logbook_id n1))"
    and first: "jsonl_append_event L n1 s w = (r1, s1, v1)"
    and second: "jsonl_append_event L n2 s1 v1 = (Inr e2, s2, v2)" "ne_logbook_id n2 = ne_logbook_id n1"
    and line: "line_ok L e2" and new: "mem_known (js_memory s) (ev_event_id e2) = None"
  shows "r1 = Inl (StoreIo err) \<and> (\<exists>m. load_inner_from_disk L (js_file s2) = Inr m \<and>
    mem_verify_chain L m (ne_logbook_id n1) \<noteq> Inr ())"
proof -
  let ?lb = "ne_logbook_id n1"
  have head: "hm_get (ms_heads (js_memory s)) ?lb = end_hash None (mem_log (js_memory s) ?lb)"
    by (rule mem_okD(5) [OF ok])
  have lb1: "ev_logbook_id e1 = ?lb" using from_new_fields [OF lost(1)] by simp
  have s1: "r1 = Inl (StoreIo err)" "js_memory s1 = mem_insert e1 (js_memory s)" "v1 = w1"
    "js_file s1 = append_bytes [] (js_file s)" "js_disk s1 = WriteOk # ds"
    using first lost(1) disk head
    by (auto simp: jsonl_append_event_def mem_append_event_Inr persist_event_def Let_def)
  have "hm_get (ms_heads (js_memory s1)) (ne_logbook_id n2) = Some (ev_event_hash e1)"
    using lb1 second(2) by (simp add: s1)
  then obtain w3 where e2: "from_new L n2 (Some (ev_event_hash e1)) w1 = (e2, w3)"
    and s2: "js_file s2 = append_bytes (lib_print_event L e2 @ newline) (js_file s1)"
    using second(1) s1 by (auto simp: jsonl_append_event_def mem_append_event_Inr persist_event_def
      Let_def split: prod.splits)
  have "load_inner_from_disk L (js_file s1) = Inr (js_memory s)" "complete_lines (js_file s1)"
    using sync by (auto simp: synced_def s1 append_bytes_def load_inner_from_disk_def complete_lines_def
      split: option.splits)
  then have load: "load_inner_from_disk L (js_file s2) = Inr (mem_insert e2 (js_memory s))"
    using load_append_line line by (simp add: s2)
  have f2: "ev_logbook_id e2 = ?lb" "ev_previous_hash e2 = Some (ev_event_hash e1)"
    using from_new_fields [OF e2] second(2) by simp_all
  have "\<not> chain L None (mem_log (mem_insert e2 (js_memory s)) ?lb)"
    using lost(2) f2 by (auto simp: mem_insert_log [OF ok new])
  moreover have "hm_get (ms_events_by_logbook (mem_insert e2 (js_memory s))) ?lb \<noteq> None"
    by (simp add: mem_insert_ids f2)
  ultimately have "mem_verify_chain L (mem_insert e2 (js_memory s)) ?lb \<noteq> Inr ()"
    by (auto simp: mem_verify_chain_iff)
  with load s1(1) show ?thesis by blast
qed

end
