(* ===== verification/Bus.thy ===== *)
theory Bus
  imports Event
begin

text \<open>
  The event bus (\<open>ham-core/src/bus.rs\<close>): runtime events and their redaction, filters, and
  the in-memory bus with its bounded replay buffer. The \<open>tokio\<close> broadcast channel is the
  number of its receivers and the events it accepted: \<open>send\<close> fails exactly when there is
  no receiver.
\<close>

datatype runtime_severity = SevTrace | SevDebug | SevInfo | SevWarn | SevError

record runtime_event =
  re_event_id :: uuid
  re_timestamp :: datetime
  re_event_type :: string
  re_severity :: runtime_severity
  re_source :: string
  re_source_plugin_id :: "string option"
  re_correlation_id :: uuid
  re_session_id :: uuid
  re_device_id :: uuid
  re_workspace_id :: "string option"
  re_payload_summary :: string
  re_redacted_payload :: "json option"
  re_error :: "string option"

datatype bus_event = OfficialLogbookEvent core_event | Runtime runtime_event

section \<open>Redaction\<close>

definition secret_needles :: "string list" where
  "secret_needles = [''password'', ''passwd'', ''token'', ''secret'', ''api_key'', ''apikey'',
     ''authorization'', ''auth'', ''private_key'']"

definition is_secret_like_key :: "string \<Rightarrow> bool" where
  "is_secret_like_key key = list_ex (contains_str (to_ascii_lowercase key)) secret_needles"

definition redacted_marker :: json where
  "redacted_marker = JString ''[REDACTED]''"

lemma json_entry_size: "(k, v) \<in> set m \<Longrightarrow> size v < size (JObject m)"
  by (induction m) auto

lemma json_element_size: "v \<in> set vs \<Longrightarrow> size v < size (JArray vs)"
  by (induction vs) auto

function redact_payload :: "json \<Rightarrow> json" where
  "redact_payload (JObject m) =
     JObject (map (\<lambda>(k, v). (k, if is_secret_like_key k then redacted_marker else redact_payload v)) m)"
| "redact_payload (JArray vs) = JArray (map redact_payload vs)"
| "redact_payload JNull = JNull"
| "redact_payload (JBool b) = JBool b"
| "redact_payload (JNumber n) = JNumber n"
| "redact_payload (JString s) = JString s"
  by pat_completeness auto
termination
  by (relation "measure size") (simp, auto dest: json_entry_size json_element_size)

definition runtime_event_new ::
    "string \<Rightarrow> runtime_severity \<Rightarrow> string \<Rightarrow> string option \<Rightarrow> uuid \<Rightarrow> uuid \<Rightarrow> uuid \<Rightarrow> string option \<Rightarrow>
     string \<Rightarrow> json option \<Rightarrow> string option \<Rightarrow> world \<Rightarrow> runtime_event \<times> world" where
  "runtime_event_new event_type severity source plugin correlation session device workspace
       summary payload err w =
     (let (eid, w) = new_v4 w; (t, w) = utc_now w
      in (\<lparr>re_event_id = eid, re_timestamp = t, re_event_type = event_type, re_severity = severity,
           re_source = source, re_source_plugin_id = plugin, re_correlation_id = correlation,
           re_session_id = session, re_device_id = device, re_workspace_id = workspace,
           re_payload_summary = summary, re_redacted_payload = map_option redact_payload payload,
           re_error = err\<rparr>, w))"

definition category :: "runtime_event \<Rightarrow> string" where
  "category e = takeWhile (\<lambda>c. c \<noteq> CHR 0x2E) (re_event_type e)"

section \<open>Filters\<close>

record runtime_filter =
  rf_severity :: "runtime_severity option"
  rf_category :: "string option"
  rf_source :: "string option"
  rf_text :: "string option"

definition filter_matches :: "runtime_filter \<Rightarrow> runtime_event \<Rightarrow> bool" where
  "filter_matches f e =
     ((case rf_severity f of None \<Rightarrow> True | Some s \<Rightarrow> re_severity e = s) \<and>
      (case rf_category f of None \<Rightarrow> True
       | Some c \<Rightarrow> re_event_type e = c \<or> starts_with (re_event_type e) (c @ ''.'')) \<and>
      (case rf_source f of None \<Rightarrow> True
       | Some s \<Rightarrow>
           let s = to_ascii_lowercase s in
           contains_str (to_ascii_lowercase (re_source e)) s \<or>
           (case re_source_plugin_id e of None \<Rightarrow> False
            | Some plugin \<Rightarrow> contains_str (to_ascii_lowercase plugin) s)) \<and>
      (case rf_text f of None \<Rightarrow> True
       | Some t \<Rightarrow>
           let haystack = to_ascii_lowercase (re_event_type e @ '' '' @ re_source e @ '' '' @
                 re_payload_summary e @ '' '' @ (case re_error e of None \<Rightarrow> [] | Some err \<Rightarrow> err))
           in contains_str haystack (to_ascii_lowercase t)))"

section \<open>The bus\<close>

record event_bus =
  eb_recent :: "runtime_event list"
  eb_capacity :: nat
  eb_receivers :: nat
  eb_accepted :: "bus_event list"

text \<open>\<open>broadcast::channel(0)\<close> panics.\<close>

definition bus_new :: "nat \<Rightarrow> event_bus option" where
  "bus_new capacity =
     (if capacity = 0 then None
      else Some \<lparr>eb_recent = [], eb_capacity = capacity, eb_receivers = 0, eb_accepted = []\<rparr>)"

definition remember :: "nat \<Rightarrow> runtime_event \<Rightarrow> runtime_event list \<Rightarrow> runtime_event list" where
  "remember capacity e recent =
     (if capacity \<le> length recent then drop 1 recent else recent) @ [e]"

text \<open>\<open>publish\<close> never fails: the result is the number of receivers.\<close>

definition publish :: "bus_event \<Rightarrow> event_bus \<Rightarrow> nat \<times> event_bus" where
  "publish e b =
     (let b = (case e of
            Runtime r \<Rightarrow> b\<lparr>eb_recent := remember (eb_capacity b) r (eb_recent b)\<rparr>
          | OfficialLogbookEvent _ \<Rightarrow> b)
      in if eb_receivers b = 0 then (0, b)
         else (eb_receivers b, b\<lparr>eb_accepted := eb_accepted b @ [e]\<rparr>))"

definition publish_runtime :: "runtime_event \<Rightarrow> event_bus \<Rightarrow> nat \<times> event_bus" where
  "publish_runtime e b = publish (Runtime e) b"

definition subscribe :: "event_bus \<Rightarrow> event_bus" where
  "subscribe b = b\<lparr>eb_receivers := Suc (eb_receivers b)\<rparr>"

definition replay_runtime_events :: "event_bus \<Rightarrow> runtime_filter \<Rightarrow> nat \<Rightarrow> runtime_event list" where
  "replay_runtime_events b f limit = take limit (filter (filter_matches f) (rev (eb_recent b)))"

section \<open>Facts\<close>

text \<open>A value in which every secret-like key has been replaced.\<close>

inductive redacted :: "json \<Rightarrow> bool" where
  redacted_object: "(\<And>k v. (k, v) \<in> set m \<Longrightarrow> if is_secret_like_key k then v = redacted_marker else redacted v)
    \<Longrightarrow> redacted (JObject m)"
| redacted_array: "(\<And>v. v \<in> set vs \<Longrightarrow> redacted v) \<Longrightarrow> redacted (JArray vs)"
| redacted_null: "redacted JNull"
| redacted_bool: "redacted (JBool b)"
| redacted_number: "redacted (JNumber n)"
| redacted_string: "redacted (JString s)"

inductive_simps redacted_simps [simp]:
  "redacted (JObject m)" "redacted (JArray vs)" "redacted JNull" "redacted (JBool b)"
  "redacted (JNumber n)" "redacted (JString s)"

lemma redact_payload_redacted: "redacted (redact_payload j)"
  by (induction j rule: redact_payload.induct) auto

lemma redact_payload_fixed: "redacted j \<Longrightarrow> redact_payload j = j"
proof (induction j rule: redact_payload.induct)
  case (1 m)
  have "map (\<lambda>(k, v). (k, if is_secret_like_key k then redacted_marker else redact_payload v)) m = map (\<lambda>e. e) m"
  proof (intro map_cong refl)
    fix e assume e: "e \<in> set m"
    obtain k v where kv: "e = (k, v)" by (cases e)
    from 1(2) e kv have "if is_secret_like_key k then v = redacted_marker else redacted v" by simp
    with 1(1) e kv show "(case e of (k, v) \<Rightarrow> (k, if is_secret_like_key k then redacted_marker
        else redact_payload v)) = e"
      by (auto split: if_splits)
  qed
  then show ?case by simp
next
  case (2 vs)
  then have "map redact_payload vs = map (\<lambda>v. v) vs" by (intro map_cong) auto
  then show ?case by simp
qed simp_all

lemma redact_payload_idem: "redact_payload (redact_payload j) = redact_payload j"
  by (rule redact_payload_fixed [OF redact_payload_redacted])

lemma runtime_event_new_redacted:
  "runtime_event_new t s src pl c se d wsp sm payload err w = (e, w') \<Longrightarrow>
   re_redacted_payload e = Some p \<Longrightarrow> redacted p"
  by (auto simp: runtime_event_new_def new_v4_def utc_now_def redact_payload_redacted)

fun runtime_of :: "bus_event \<Rightarrow> runtime_event option" where
  "runtime_of (Runtime r) = Some r"
| "runtime_of (OfficialLogbookEvent e) = None"

definition publish_all :: "bus_event list \<Rightarrow> event_bus \<Rightarrow> event_bus" where
  "publish_all es b = fold (\<lambda>e b. snd (publish e b)) es b"

text \<open>The last \<open>n\<close> elements of a list.\<close>

definition last_n :: "nat \<Rightarrow> 'a list \<Rightarrow> 'a list" where
  "last_n n xs = drop (length xs - n) xs"

lemma last_n_snoc: "0 < n \<Longrightarrow> remember n x (last_n n xs) = last_n n (xs @ [x])"
  by (auto simp: remember_def last_n_def Suc_diff_le)

lemma publish_recent:
  "eb_recent (snd (publish e b)) =
     (case runtime_of e of None \<Rightarrow> eb_recent b | Some r \<Rightarrow> remember (eb_capacity b) r (eb_recent b))"
  "eb_capacity (snd (publish e b)) = eb_capacity b"
  by (cases e; simp add: publish_def Let_def)+

lemma publish_all_recent:
  assumes "0 < eb_capacity b" and "eb_recent b = last_n (eb_capacity b) past"
  shows "eb_recent (publish_all es b) = last_n (eb_capacity b) (past @ List.map_filter runtime_of es)"
  using assms
proof (induction es arbitrary: b past)
  case (Cons e es)
  define r where "r = (case runtime_of e of None \<Rightarrow> [] | Some r \<Rightarrow> [r])"
  have "eb_recent (snd (publish e b)) = last_n (eb_capacity (snd (publish e b))) (past @ r)"
    using Cons.prems by (auto simp: publish_recent r_def last_n_snoc split: option.split)
  from Cons.IH [OF _ this] Cons.prems(1)
  have "eb_recent (publish_all es (snd (publish e b))) =
      last_n (eb_capacity b) ((past @ r) @ List.map_filter runtime_of es)"
    by (simp add: publish_recent)
  moreover have "publish_all (e # es) b = publish_all es (snd (publish e b))"
    by (simp add: publish_all_def)
  moreover have "List.map_filter runtime_of (e # es) = r @ List.map_filter runtime_of es"
    by (simp add: r_def List.map_filter_simps split: option.split)
  ultimately show ?case by simp
qed (simp add: publish_all_def List.map_filter_simps)

end
