(* ===== verification/Permissions.thy ===== *)
theory Permissions
  imports Plugin_Sdk
begin

text \<open>
  Plugin permissions (\<open>ham-core/src/permissions.rs\<close>): grants and their set, the registry of
  known permissions with its default contents, manifest validation, the check before an
  operation and the grants built-in plugins start with.
\<close>

datatype risk_level = RiskLow | RiskMedium | RiskHigh | RiskCritical

record permission_metadata =
  md_permission_id :: plugin_capability
  md_category :: string
  md_display_name :: string
  md_description :: string
  md_risk_level :: risk_level
  md_default_allowed_for_builtin_plugins :: bool
  md_requires_admin_approval :: bool
  md_user_visible_reason :: string

datatype permission_grant_status = GrantGranted | GrantDenied | GrantPending | GrantRevoked

record permission_grant =
  gt_plugin_id :: string
  gt_permission_id :: plugin_capability
  gt_status :: permission_grant_status
  gt_granted_by_operator_id :: "uuid option"
  gt_granted_at :: "datetime option"
  gt_reason :: "string option"
  gt_scope :: "string option"
  gt_expires_at :: "datetime option"

definition grant_granted ::
    "string \<Rightarrow> plugin_capability \<Rightarrow> world \<Rightarrow> permission_grant \<times> world" where
  "grant_granted plugin permission w =
     (let (t, w) = utc_now w in
      (\<lparr>gt_plugin_id = plugin, gt_permission_id = permission, gt_status = GrantGranted,
        gt_granted_by_operator_id = None, gt_granted_at = Some t,
        gt_reason = Some ''MVP local admin approval'', gt_scope = Some ''all logbooks'',
        gt_expires_at = None\<rparr>, w))"

definition grant_pending :: "string \<Rightarrow> plugin_capability \<Rightarrow> permission_grant" where
  "grant_pending plugin permission =
     \<lparr>gt_plugin_id = plugin, gt_permission_id = permission, gt_status = GrantPending,
      gt_granted_by_operator_id = None, gt_granted_at = None,
      gt_reason = Some ''Plugin requested permission'', gt_scope = None, gt_expires_at = None\<rparr>"

section \<open>Sets of grants\<close>

text \<open>\<open>PermissionGrantSet\<close> is its vector of grants.\<close>

type_synonym grant_set = "permission_grant list"

definition same_grant :: "string \<Rightarrow> plugin_capability \<Rightarrow> permission_grant \<Rightarrow> bool" where
  "same_grant plugin permission g = (gt_plugin_id g = plugin \<and> gt_permission_id g = permission)"

definition grant_status :: "grant_set \<Rightarrow> string \<Rightarrow> plugin_capability \<Rightarrow> permission_grant_status option" where
  "grant_status gs plugin permission =
     map_option gt_status (List.find (same_grant plugin permission) gs)"

definition is_granted :: "grant_set \<Rightarrow> string \<Rightarrow> plugin_capability \<Rightarrow> bool" where
  "is_granted gs plugin permission = (grant_status gs plugin permission = Some GrantGranted)"

fun upsert_grant :: "permission_grant \<Rightarrow> grant_set \<Rightarrow> grant_set" where
  "upsert_grant g [] = [g]"
| "upsert_grant g (x # xs) =
     (if same_grant (gt_plugin_id g) (gt_permission_id g) x then g # xs else x # upsert_grant g xs)"

fun grants_for :: "string \<Rightarrow> plugin_capability list \<Rightarrow> world \<Rightarrow> grant_set \<times> world" where
  "grants_for plugin [] w = ([], w)"
| "grants_for plugin (c # cs) w =
     (let (g, w) = grant_granted plugin c w; (gs, w) = grants_for plugin cs w in (g # gs, w))"

definition grants_for_manifest :: "plugin_manifest \<Rightarrow> world \<Rightarrow> grant_set \<times> world" where
  "grants_for_manifest m w = grants_for (pm_plugin_id m) (requested_or_capabilities m) w"

definition set_grant_status ::
    "string \<Rightarrow> plugin_capability \<Rightarrow> permission_grant_status \<Rightarrow> string option \<Rightarrow> grant_set \<Rightarrow> world \<Rightarrow>
     permission_grant \<times> grant_set \<times> world" where
  "set_grant_status plugin permission status reason gs w =
     (let (granted_at, w) = (if status = GrantGranted
            then (let (t, w) = utc_now w in (Some t, w)) else (None, w));
          g = \<lparr>gt_plugin_id = plugin, gt_permission_id = permission, gt_status = status,
            gt_granted_by_operator_id = None, gt_granted_at = granted_at, gt_reason = reason,
            gt_scope = Some ''all logbooks'', gt_expires_at = None\<rparr>
      in (g, upsert_grant g gs, w))"

section \<open>The registry\<close>

type_synonym registry_row =
  "plugin_capability \<times> string \<times> string \<times> risk_level \<times> bool \<times> bool \<times> string"

type_synonym permission_registry = "(plugin_capability, permission_metadata) hmap"

definition registry_insert :: "registry_row \<Rightarrow> permission_registry \<Rightarrow> permission_registry" where
  "registry_insert row r =
     (case row of (permission, category, display, risk, default_builtin, admin, reason) \<Rightarrow>
        hm_insert permission
          \<lparr>md_permission_id = permission, md_category = category, md_display_name = display,
           md_description = reason, md_risk_level = risk,
           md_default_allowed_for_builtin_plugins = default_builtin,
           md_requires_admin_approval = admin, md_user_visible_reason = reason\<rparr> r)"

definition registry_rows_1 :: "registry_row list" where
  "registry_rows_1 =
    [(QsoView, ''Logbook'', ''View QSOs'', RiskLow, True, False,
      ''Read visible QSO projections.''),
     (QsoCreate, ''Logbook'', ''Create QSOs'', RiskMedium, True, False,
      ''Submit QSO create proposals.''),
     (QsoCorrect, ''Logbook'', ''Correct QSOs'', RiskMedium, True, False,
      ''Submit QSO correction proposals.''),
     (QsoDelete, ''Logbook'', ''Delete QSOs'', RiskHigh, False, True,
      ''Create tombstone delete events.''),
     (QsoRestore, ''Logbook'', ''Restore QSOs'', RiskHigh, False, True,
      ''Restore tombstoned QSOs.''),
     (QsoNoteAdd, ''Logbook'', ''Add QSO Notes'', RiskMedium, True, False,
      ''Append QSO note history.''),
     (QsoViewDeleted, ''Logbook'', ''View Deleted QSOs'', RiskHigh, False, True,
      ''View tombstoned QSO projections.''),
     (ActivationView, ''Activation'', ''View Activations'', RiskLow, True, False,
      ''Read activation projections.''),
     (ActivationCreate, ''Activation'', ''Create Activations'', RiskMedium, True, False,
      ''Create/start portable activations.''),
     (ActivationUpdate, ''Activation'', ''Update Activations'', RiskMedium, True, False,
      ''Update activation details.''),
     (ActivationEnd, ''Activation'', ''End Activations'', RiskMedium, True, False,
      ''End active activations.''),
     (ActivationCancel, ''Activation'', ''Cancel Activations'', RiskHigh, False, True,
      ''Cancel activation records.''),
     (AdifImport, ''ADIF'', ''Import ADIF'', RiskHigh, False, True,
      ''Import external QSO records.''),
     (AdifExport, ''ADIF'', ''Export ADIF'', RiskHigh, False, True,
      ''Export visible QSO records.''),
     (SyncLanDiscovery, ''Sync'', ''LAN Discovery'', RiskLow, True, False,
      ''Advertise/discover local peers.''),
     (SyncLanPull, ''Sync'', ''LAN Pull'', RiskHigh, False, True,
      ''Pull official events from LAN peers.'')]"

definition registry_rows_2 :: "registry_row list" where
  "registry_rows_2 =
    [(SyncLanPush, ''Sync'', ''LAN Push'', RiskHigh, False, True,
      ''Push official events to LAN peers.''),
     (SyncCloudConnect, ''Sync'', ''Cloud Connect'', RiskHigh, False, True,
      ''Authenticate with cloud sync.''),
     (SyncCloudPull, ''Sync'', ''Cloud Pull'', RiskHigh, False, True,
      ''Pull official events from cloud.''),
     (SyncCloudPush, ''Sync'', ''Cloud Push'', RiskHigh, False, True,
      ''Push official events to cloud.''),
     (LookupCallsign, ''Lookup'', ''Lookup Callsigns'', RiskLow, True, False,
      ''Lookup advisory callsign data.''),
     (LookupEntity, ''Lookup'', ''Infer Entity'', RiskLow, True, False,
      ''Infer entity from prefixes.''),
     (LookupGrid, ''Lookup'', ''Use Grid Tools'', RiskLow, True, False,
      ''Validate grids and estimate position.''),
     (LookupCacheRead, ''Lookup'', ''Read Lookup Cache'', RiskLow, True, False,
      ''Read local lookup cache.''),
     (LookupCacheWrite, ''Lookup'', ''Write Lookup Cache'', RiskMedium, True, False,
      ''Write local lookup cache.''),
     (NetworkExternalLookup, ''Network'', ''External Lookup Network'', RiskHigh, False, True,
      ''Contact external lookup services.''),
     (RigView, ''Rig'', ''View Rig'', RiskLow, True, False,
      ''Show configured rig devices.''),
     (RigReadState, ''Rig'', ''Read Rig State'', RiskLow, True, False,
      ''Read frequency/mode state.''),
     (RigControlFrequency, ''Rig'', ''Set Frequency'', RiskCritical, False, True,
      ''Change rig frequency.''),
     (RigControlMode, ''Rig'', ''Set Mode'', RiskHigh, False, True,
      ''Change rig mode.''),
     (RigControlPtt, ''Rig'', ''Control PTT'', RiskCritical, False, True,
      ''Key transmitter PTT.''),
     (RigControlSplit, ''Rig'', ''Control Split'', RiskHigh, False, True,
      ''Change split operation.'')]"

definition registry_rows_3 :: "registry_row list" where
  "registry_rows_3 =
    [(RigConfigure, ''Rig'', ''Configure Rig'', RiskHigh, False, True,
      ''Change rig connection settings.''),
     (DiagnosticsViewLogs, ''Diagnostics'', ''View Logs'', RiskMedium, True, False,
      ''View diagnostic runtime logs.''),
     (DiagnosticsExport, ''Diagnostics'', ''Export Diagnostics'', RiskHigh, False, True,
      ''Export diagnostic bundles.''),
     (DiagnosticsUpload, ''Diagnostics'', ''Upload Diagnostics'', RiskHigh, False, True,
      ''Upload diagnostic bundles.''),
     (ServiceProviderRegister, ''Services'', ''Register Service Providers'', RiskMedium, True, False,
      ''Register provider metadata for shared services.''),
     (ServiceProviderConfigure, ''Services'', ''Configure Service Providers'', RiskHigh, False, True,
      ''Change provider configuration and credential references.''),
     (ServiceProviderEnable, ''Services'', ''Enable Service Providers'', RiskMedium, True, False,
      ''Enable configured service providers.''),
     (ServiceProviderDisable, ''Services'', ''Disable Service Providers'', RiskMedium, True, False,
      ''Disable service providers.''),
     (ServiceCacheRead, ''Services'', ''Read Service Cache'', RiskLow, True, False,
      ''Read non-official provider cache entries.''),
     (ServiceCacheWrite, ''Services'', ''Write Service Cache'', RiskMedium, True, False,
      ''Write non-official provider cache entries.''),
     (ServiceCacheClear, ''Services'', ''Clear Service Cache'', RiskMedium, False, True,
      ''Clear non-official provider cache entries.''),
     (UploadLog, ''Uploads'', ''Upload Logs'', RiskHigh, False, True,
      ''Upload exported log data to external logbook services.''),
     (UploadConfirmationPull, ''Uploads'', ''Pull Upload Confirmations'', RiskHigh, False, True,
      ''Fetch upload confirmations from external services.''),
     (UploadQueueManage, ''Uploads'', ''Manage Upload Queue'', RiskMedium, False, True,
      ''Queue projected QSOs for provider-backed log upload.''),
     (UploadStatusView, ''Uploads'', ''View Upload Status'', RiskLow, True, False,
      ''View upload queue and status information.''),
     (NetworkExternalUpload, ''Network'', ''External Upload Network'', RiskHigh, False, True,
      ''Contact external logbook upload services.'')]"

definition registry_rows_4 :: "registry_row list" where
  "registry_rows_4 =
    [(SpottingView, ''Spotting'', ''View Spots'', RiskLow, True, False,
      ''View advisory spotting provider data.''),
     (SpottingConfigure, ''Spotting'', ''Configure Spotting'', RiskHigh, False, True,
      ''Configure external spotting providers.''),
     (NetworkExternalSpotting, ''Network'', ''External Spotting Network'', RiskHigh, False, True,
      ''Contact external spotting services.''),
     (MapView, ''Maps'', ''View Maps'', RiskLow, True, False,
      ''View map panels and map tile providers.''),
     (MapConfigure, ''Maps'', ''Configure Maps'', RiskHigh, False, True,
      ''Configure map providers and tile sources.''),
     (NetworkExternalMap, ''Network'', ''External Map Network'', RiskMedium, False, True,
      ''Contact external map tile, geocoding, or reverse geocoding services.''),
     (WeatherView, ''Weather'', ''View Weather'', RiskLow, True, False,
      ''View advisory weather provider data.''),
     (NetworkExternalWeather, ''Network'', ''External Weather Network'', RiskMedium, False, True,
      ''Contact external weather providers.''),
     (PropagationView, ''Propagation'', ''View Propagation'', RiskLow, True, False,
      ''View advisory propagation provider data.''),
     (NetworkExternalPropagation, ''Network'', ''External Propagation Network'', RiskMedium, False, True,
      ''Contact external propagation and space weather providers.''),
     (AutomationManage, ''Automation'', ''Manage Online Automation'', RiskHigh, False, True,
      ''Configure scheduled online service tasks.''),
     (NotificationView, ''Notifications'', ''View Notifications'', RiskLow, True, False,
      ''View generated online service notifications.''),
     (StationProfileView, ''Station'', ''View Station Profiles'', RiskLow, True, False,
      ''View station profile defaults used by logger forms.''),
     (StationProfileManage, ''Station'', ''Manage Station Profiles'', RiskMedium, False, True,
      ''Create and edit station profiles.''),
     (StationEquipmentView, ''Station'', ''View Equipment'', RiskLow, True, False,
      ''View configured station equipment.''),
     (StationEquipmentManage, ''Station'', ''Manage Equipment'', RiskMedium, False, True,
      ''Create and edit station equipment.'')]"

definition registry_rows_5 :: "registry_row list" where
  "registry_rows_5 =
    [(StationProfileUse, ''Station'', ''Use Station Profile'', RiskLow, True, False,
      ''Apply active station profile defaults to logger proposals.''),
     (CredentialViewMetadata, ''Credentials'', ''View Credential Metadata'', RiskMedium, True, False,
      ''List credential labels and status without exposing secrets.''),
     (CredentialCreate, ''Credentials'', ''Create Credentials'', RiskHigh, False, True,
      ''Store provider secrets in the configured credential backend.''),
     (CredentialUpdate, ''Credentials'', ''Update Credentials'', RiskHigh, False, True,
      ''Update stored provider credential secrets and safe metadata.''),
     (CredentialDelete, ''Credentials'', ''Delete Credentials'', RiskHigh, False, True,
      ''Revoke or remove provider credentials.''),
     (CredentialUse, ''Credentials'', ''Use Credentials'', RiskHigh, False, True,
      ''Allow a provider to retrieve a secret by credential id.''),
     (CredentialTest, ''Credentials'', ''Test Credentials'', RiskHigh, False, True,
      ''Test whether a stored credential is available without revealing it.''),
     (NetView, ''Net Control'', ''View Nets'', RiskLow, True, False,
      ''View net templates, sessions, rosters, and reports.''),
     (NetTemplateCreate, ''Net Control'', ''Create Net Templates'', RiskMedium, True, False,
      ''Create recurring net templates.''),
     (NetTemplateUpdate, ''Net Control'', ''Update Net Templates'', RiskMedium, True, False,
      ''Update recurring net templates.''),
     (NetSessionStart, ''Net Control'', ''Start Net Sessions'', RiskMedium, True, False,
      ''Start directed net sessions.''),
     (NetSessionEnd, ''Net Control'', ''End Net Sessions'', RiskMedium, True, False,
      ''End or cancel directed net sessions.''),
     (NetCheckinCreate, ''Net Control'', ''Create Net Check-ins'', RiskMedium, True, False,
      ''Add check-ins to active net sessions.''),
     (NetCheckinUpdate, ''Net Control'', ''Update Net Check-ins'', RiskMedium, True, False,
      ''Edit check-in status, traffic flags, and notes.''),
     (NetCheckinDelete, ''Net Control'', ''Delete Net Check-ins'', RiskHigh, False, True,
      ''Create tombstone events for net check-ins.''),
     (NetTrafficManage, ''Net Control'', ''Manage Net Traffic'', RiskMedium, True, False,
      ''Create and update traffic items for a net.'')]"

definition registry_rows_6 :: "registry_row list" where
  "registry_rows_6 =
    [(NetReportExport, ''Net Control'', ''Export Net Reports'', RiskHigh, False, True,
      ''Export net session summaries and rosters.''),
     (EmCommView, ''EmComm'', ''View Incidents'', RiskLow, True, False,
      ''Read incidents, operational periods, rosters, assignments, and messages.''),
     (EmCommIncidentManage, ''EmComm'', ''Manage Incidents'', RiskMedium, True, False,
      ''Open, correct, and close incidents.''),
     (EmCommPeriodManage, ''EmComm'', ''Manage Operational Periods'', RiskMedium, True, False,
      ''Open and close operational periods for an incident.''),
     (EmCommPersonManage, ''EmComm'', ''Manage Incident Personnel'', RiskMedium, True, False,
      ''Check people in and out and correct ICS 211 check-in records.''),
     (EmCommAssignmentManage, ''EmComm'', ''Manage Assignments'', RiskMedium, True, False,
      ''Create, correct, and release incident assignments.''),
     (EmCommMessageManage, ''EmComm'', ''Manage Incident Messages'', RiskHigh, False, True,
      ''Draft, correct, transmit, receive, acknowledge, and cancel ICS 213 and 213RR messages.''),
     (EmCommActivityLog, ''EmComm'', ''Record Activity Log Entries'', RiskMedium, True, False,
      ''Append ICS 214 activity and communications log entries.''),
     (UiPanelRegister, ''UI'', ''Register Panels'', RiskLow, True, False,
      ''Contribute GUI panels.''),
     (UiCommandRegister, ''UI'', ''Register Commands'', RiskLow, True, False,
      ''Contribute command palette actions.''),
     (SettingsRead, ''Settings'', ''Read Settings'', RiskMedium, True, False,
      ''Read local settings.''),
     (SettingsWrite, ''Settings'', ''Write Settings'', RiskHigh, False, True,
      ''Modify local settings.'')]"

definition registry_rows :: "registry_row list" where
  "registry_rows = registry_rows_1 @ registry_rows_2 @ registry_rows_3 @ registry_rows_4 @
     registry_rows_5 @ registry_rows_6"

definition mvp_default :: permission_registry where
  "mvp_default = fold registry_insert registry_rows []"

definition registry_get :: "permission_registry \<Rightarrow> plugin_capability \<Rightarrow> permission_metadata option" where
  "registry_get r permission = hm_get r permission"

definition registry_all :: "permission_registry \<Rightarrow> permission_metadata list" where
  "registry_all r = sort_key (\<lambda>m. capability_as_str (md_permission_id m)) (hm_values r)"

datatype permission_error = UnknownPermission string | NotGranted string string | PermIo string | PermSerde string

definition is_other :: "plugin_capability \<Rightarrow> bool" where
  "is_other c = (case c of CapOther _ \<Rightarrow> True | _ \<Rightarrow> False)"

fun validate_permissions ::
    "permission_registry \<Rightarrow> plugin_capability list \<Rightarrow> permission_error + unit" where
  "validate_permissions r [] = Inr ()"
| "validate_permissions r (c # cs) =
     (if is_other c \<or> registry_get r c = None then Inl (UnknownPermission (capability_as_str c))
      else validate_permissions r cs)"

definition validate_manifest :: "permission_registry \<Rightarrow> plugin_manifest \<Rightarrow> permission_error + unit" where
  "validate_manifest r m =
     validate_permissions r (requested_or_capabilities m @ pm_optional_permissions m)"

definition check_plugin_permission ::
    "plugin_manifest \<Rightarrow> grant_set \<Rightarrow> plugin_capability \<Rightarrow> permission_error + unit" where
  "check_plugin_permission m gs permission =
     (if \<not> has_capability m permission
      then Inl (NotGranted (pm_plugin_id m) (capability_as_str permission))
      else if is_granted gs (pm_plugin_id m) permission then Inr ()
      else Inl (NotGranted (pm_plugin_id m) (capability_as_str permission)))"

section \<open>Grants of built-in plugins\<close>

record permission_settings =
  ps_auto_grant_builtin_low_risk_permissions :: bool
  ps_require_confirmation_for_high_risk_permissions :: bool
  ps_allow_external_network_plugins :: bool
  ps_permission_audit_logging :: bool

definition permission_settings_default :: permission_settings where
  "permission_settings_default =
     \<lparr>ps_auto_grant_builtin_low_risk_permissions = True,
      ps_require_confirmation_for_high_risk_permissions = True,
      ps_allow_external_network_plugins = False, ps_permission_audit_logging = True\<rparr>"

definition is_builtin :: "plugin_manifest \<Rightarrow> bool" where
  "is_builtin m = (pm_plugin_type m = ''builtin'' \<or> starts_with (pm_plugin_id m) ''core.'')"

definition auto_grantable ::
    "permission_settings \<Rightarrow> plugin_manifest \<Rightarrow> permission_metadata \<Rightarrow> permission_grant_status option \<Rightarrow> bool" where
  "auto_grantable settings m metadata existing =
     (ps_auto_grant_builtin_low_risk_permissions settings \<and> is_builtin m \<and>
      md_default_allowed_for_builtin_plugins metadata \<and>
      (md_risk_level metadata = RiskLow \<or> md_risk_level metadata = RiskMedium) \<and>
      \<not> (existing = Some GrantDenied \<or> existing = Some GrantRevoked))"

fun grant_permissions ::
    "permission_registry \<Rightarrow> permission_settings \<Rightarrow> plugin_manifest \<Rightarrow> plugin_capability list \<Rightarrow>
     grant_set \<Rightarrow> world \<Rightarrow> grant_set \<times> world" where
  "grant_permissions r settings m [] gs w = (gs, w)"
| "grant_permissions r settings m (c # cs) gs w =
     (let existing = grant_status gs (pm_plugin_id m) c in
      case registry_get r c of
        None \<Rightarrow> grant_permissions r settings m cs gs w
      | Some metadata \<Rightarrow>
          if auto_grantable settings m metadata existing then
            (let (g, w) = grant_granted (pm_plugin_id m) c w
             in grant_permissions r settings m cs (upsert_grant g gs) w)
          else if existing = None then
            grant_permissions r settings m cs (upsert_grant (grant_pending (pm_plugin_id m) c) gs) w
          else grant_permissions r settings m cs gs w)"

fun grant_builtin_defaults ::
    "plugin_manifest list \<Rightarrow> permission_registry \<Rightarrow> permission_settings \<Rightarrow> grant_set \<Rightarrow> world \<Rightarrow>
     grant_set \<times> world" where
  "grant_builtin_defaults [] r settings gs w = (gs, w)"
| "grant_builtin_defaults (m # ms) r settings gs w =
     (let (gs, w) = grant_permissions r settings m (requested_or_capabilities m) gs w
      in grant_builtin_defaults ms r settings gs w)"

section \<open>Facts\<close>

lemma grant_status_upsert:
  "grant_status (upsert_grant g gs) p c =
     (if p = gt_plugin_id g \<and> c = gt_permission_id g then Some (gt_status g) else grant_status gs p c)"
  by (induction g gs rule: upsert_grant.induct) (auto simp: grant_status_def same_grant_def)

text \<open>At most one grant for a plugin and a permission.\<close>

definition grants_unique :: "grant_set \<Rightarrow> bool" where
  "grants_unique gs = distinct (map (\<lambda>g. (gt_plugin_id g, gt_permission_id g)) gs)"

lemma upsert_grant_keys:
  "set (map (\<lambda>g. (gt_plugin_id g, gt_permission_id g)) (upsert_grant g gs)) =
     insert (gt_plugin_id g, gt_permission_id g) (set (map (\<lambda>g. (gt_plugin_id g, gt_permission_id g)) gs))"
  by (induction g gs rule: upsert_grant.induct) (auto simp: same_grant_def)

lemma upsert_grant_unique: "grants_unique gs \<Longrightarrow> grants_unique (upsert_grant g gs)"
  unfolding grants_unique_def
proof (induction g gs rule: upsert_grant.induct)
  case (2 g x xs)
  then show ?case using upsert_grant_keys [of g xs] by (auto simp: same_grant_def)
qed simp

lemma validate_permissions_iff:
  "validate_permissions r cs = Inr () \<longleftrightarrow> (\<forall>c\<in>set cs. \<not> is_other c \<and> registry_get r c \<noteq> None)"
  by (induction cs) auto

lemma check_plugin_permission_iff:
  "check_plugin_permission m gs c = Inr () \<longleftrightarrow> has_capability m c \<and> is_granted gs (pm_plugin_id m) c"
  by (simp add: check_plugin_permission_def)

text \<open>What the defaults may change: a status only appears or becomes granted, never where it
  was denied or revoked, and only for permissions the registry lets built-in plugins have.\<close>

definition default_allowed :: "permission_registry \<Rightarrow> plugin_capability \<Rightarrow> bool" where
  "default_allowed r c =
     (case registry_get r c of None \<Rightarrow> False
      | Some md \<Rightarrow> md_default_allowed_for_builtin_plugins md \<and>
          (md_risk_level md = RiskLow \<or> md_risk_level md = RiskMedium))"

definition default_change ::
    "permission_registry \<Rightarrow> plugin_capability \<Rightarrow> permission_grant_status option \<Rightarrow> permission_grant_status option \<Rightarrow> bool" where
  "default_change r c old new =
     (new = old \<or> old = None \<and> new = Some GrantPending \<or>
      new = Some GrantGranted \<and> old \<notin> {Some GrantDenied, Some GrantRevoked} \<and> default_allowed r c)"

lemma default_change_trans:
  "default_change r c x y \<Longrightarrow> default_change r c y z \<Longrightarrow> default_change r c x z"
  by (auto simp: default_change_def)

lemma grant_granted_status:
  "grant_granted p c w = (g, w') \<Longrightarrow>
     gt_plugin_id g = p \<and> gt_permission_id g = c \<and> gt_status g = GrantGranted"
  by (auto simp: grant_granted_def utc_now_def)

lemma grant_permissions_change:
  "grant_permissions r st m cs gs w = (gs', w') \<Longrightarrow>
     default_change r c (grant_status gs p c) (grant_status gs' p c)"
proof (induction r st m cs gs w rule: grant_permissions.induct)
  case (1 r st m gs w)
  then show ?case by (simp add: default_change_def)
next
  case (2 r st m x cs gs w)
  let ?old = "grant_status gs (pm_plugin_id m) x"
  show ?case
  proof (cases "registry_get r x")
    case None
    with 2 show ?thesis by simp
  next
    case (Some md)
    show ?thesis
    proof (cases "auto_grantable st m md ?old")
      case True
      obtain g v where g: "grant_granted (pm_plugin_id m) x w = (g, v)" by fastforce
      from grant_granted_status [OF g] True Some
      have "default_change r c (grant_status gs p c) (grant_status (upsert_grant g gs) p c)"
        by (auto simp: grant_status_upsert default_change_def auto_grantable_def default_allowed_def)
      with 2 Some True g show ?thesis by (auto intro: default_change_trans)
    next
      case False
      have "?old = None \<Longrightarrow> default_change r c (grant_status gs p c)
          (grant_status (upsert_grant (grant_pending (pm_plugin_id m) x) gs) p c)"
        by (auto simp: grant_status_upsert default_change_def grant_pending_def)
      with 2 Some False show ?thesis by (auto intro: default_change_trans split: if_splits)
    qed
  qed
qed

lemma grant_builtin_defaults_change:
  "grant_builtin_defaults ms r st gs w = (gs', w') \<Longrightarrow>
     default_change r c (grant_status gs p c) (grant_status gs' p c)"
proof (induction ms arbitrary: gs w)
  case Nil
  then show ?case by (simp add: default_change_def)
next
  case (Cons m ms)
  obtain g v where g: "grant_permissions r st m (requested_or_capabilities m) gs w = (g, v)" by fastforce
  with Cons show ?case by (auto intro: default_change_trans grant_permissions_change)
qed

subsection \<open>The default registry\<close>

lemmas registry_row_defs = registry_rows_def registry_rows_1_def registry_rows_2_def
  registry_rows_3_def registry_rows_4_def registry_rows_5_def registry_rows_6_def

definition registered_capabilities :: "plugin_capability list" where
  "registered_capabilities = map fst registry_rows"

lemma distinct_registered: "distinct registered_capabilities"
  by (simp add: registered_capabilities_def registry_row_defs)

lemma registered_iff: "c \<in> set registered_capabilities \<longleftrightarrow> (\<forall>s. c \<noteq> CapOther s) \<and> c \<noteq> QsoSuggestFields"
  by (cases c) (simp_all add: registered_capabilities_def registry_row_defs)

definition row_metadata :: "registry_row \<Rightarrow> permission_metadata" where
  "row_metadata row =
     (case row of (permission, category, display, risk, default_builtin, admin, reason) \<Rightarrow>
        \<lparr>md_permission_id = permission, md_category = category, md_display_name = display,
         md_description = reason, md_risk_level = risk,
         md_default_allowed_for_builtin_plugins = default_builtin,
         md_requires_admin_approval = admin, md_user_visible_reason = reason\<rparr>)"

lemma registry_insert_row: "registry_insert row r = hm_insert (fst row) (row_metadata row) r"
  by (simp add: registry_insert_def row_metadata_def split: prod.split)

lemma registry_get_default:
  "registry_get mvp_default c = map_of (map (\<lambda>row. (fst row, row_metadata row)) registry_rows) c"
proof -
  have "fold registry_insert rows m = fold (\<lambda>(k, v) a. hm_insert k v a) (map (\<lambda>row. (fst row, row_metadata row)) rows) m"
    for rows m by (induction rows arbitrary: m) (simp_all add: registry_insert_row)
  then have "registry_get mvp_default = map_of (rev (map (\<lambda>row. (fst row, row_metadata row)) registry_rows))"
    by (simp add: registry_get_def mvp_default_def hm.get_fold_put fun_eq_iff)
  also have "\<dots> = map_of (map (\<lambda>row. (fst row, row_metadata row)) registry_rows)"
    using distinct_registered
    by (subst map_of_inject_set) (simp_all add: rev_map [symmetric] registered_capabilities_def comp_def)
  finally show ?thesis by simp
qed

lemma registry_known_iff: "registry_get mvp_default c \<noteq> None \<longleftrightarrow> c \<in> set registered_capabilities"
  by (force simp: registry_get_default map_of_eq_None_iff registered_capabilities_def image_iff)

text \<open>Every row of the table: an administrator has to approve exactly what a built-in plugin
  does not get by default, and nothing of high or critical risk is given by default.\<close>

definition row_ok :: "registry_row \<Rightarrow> bool" where
  "row_ok row = (case row of (permission, category, display, risk, default_builtin, admin, reason) \<Rightarrow>
     admin = (\<not> default_builtin) \<and> (default_builtin \<longrightarrow> risk = RiskLow \<or> risk = RiskMedium))"

lemma registry_rows_ok: "list_all row_ok registry_rows"
  by (simp add: registry_row_defs row_ok_def)

lemma registry_get_row_ok:
  assumes "registry_get mvp_default c = Some md"
  shows "md_permission_id md = c" "md_requires_admin_approval md = (\<not> md_default_allowed_for_builtin_plugins md)"
    "md_default_allowed_for_builtin_plugins md \<Longrightarrow> md_risk_level md = RiskLow \<or> md_risk_level md = RiskMedium"
proof -
  obtain row where row: "row \<in> set registry_rows" "md = row_metadata row" "fst row = c"
    using assms by (auto simp: registry_get_default dest!: map_of_SomeD)
  then have "row_ok row" using registry_rows_ok by (simp add: list_all_iff)
  with row show "md_permission_id md = c"
    "md_requires_admin_approval md = (\<not> md_default_allowed_for_builtin_plugins md)"
    "md_default_allowed_for_builtin_plugins md \<Longrightarrow> md_risk_level md = RiskLow \<or> md_risk_level md = RiskMedium"
    by (auto simp: row_ok_def row_metadata_def split: prod.splits)
qed

end
