(* ===== verification/Net.thy ===== *)
theory Net
  imports Projection "HOL-Library.Option_ord" "HOL-Library.Multiset"
begin

text \<open>
  Net control (\<open>ham-core/src/net.rs\<close>): the projection of net sessions, check-ins and
  traffic from official events, its queries, the per-session statistics and the report.
\<close>

datatype net_session_status = NetPlanned | NetActive | NetEnded | NetCancelled

datatype net_checkin_status =
  CheckedIn | CheckInLate | CheckInExcused | CheckInLeft | CheckInDuplicate | CheckInDeleted

datatype net_traffic_level = TrafficNone | TrafficListed | TrafficPriority | TrafficEmergency

datatype net_traffic_precedence = PrecRoutine | PrecPriority | PrecEmergency

datatype net_traffic_status = TrafficStListed | TrafficStPassed | TrafficStCancelled

record net_session_record =
  ns_net_session_id :: uuid
  ns_payload :: json
  ns_status :: net_session_status
  ns_checkin_ids :: "uuid set"
  ns_traffic_ids :: "uuid set"
  ns_checkin_count :: nat
  ns_late_checkin_count :: nat
  ns_traffic_count :: nat
  ns_emergency_traffic_count :: nat
  ns_duplicate_warnings :: "string list"
  ns_last_event_hash :: string

record net_checkin_record =
  nc_checkin_id :: uuid
  nc_net_session_id :: uuid
  nc_payload :: json
  nc_status :: net_checkin_status
  nc_traffic :: net_traffic_level
  nc_deleted :: bool
  nc_last_event_hash :: string

record net_traffic_record =
  nt_traffic_id :: uuid
  nt_net_session_id :: uuid
  nt_payload :: json
  nt_precedence :: net_traffic_precedence
  nt_status :: net_traffic_status
  nt_last_event_hash :: string

record net_projection =
  np_templates :: "(uuid, json) hmap"
  np_sessions :: "(uuid, net_session_record) hmap"
  np_checkins :: "(uuid, net_checkin_record) hmap"
  np_traffic :: "(uuid, net_traffic_record) hmap"
  np_exported_reports :: "json list"

definition net_projection_new :: net_projection where
  "net_projection_new = \<lparr>np_templates = [], np_sessions = [], np_checkins = [],
     np_traffic = [], np_exported_reports = []\<rparr>"

section \<open>Queries\<close>

definition net_templates :: "net_projection \<Rightarrow> json list" where
  "net_templates p = hm_values (np_templates p)"

definition net_sessions :: "net_projection \<Rightarrow> bool \<Rightarrow> net_session_record list" where
  "net_sessions p include_ended_cancelled =
     filter (\<lambda>s. include_ended_cancelled \<or> ns_status s = NetPlanned \<or> ns_status s = NetActive)
       (hm_values (np_sessions p))"

definition net_get_session :: "net_projection \<Rightarrow> uuid \<Rightarrow> net_session_record option" where
  "net_get_session p s = hm_get (np_sessions p) s"

definition net_active_session :: "net_projection \<Rightarrow> net_session_record option" where
  "net_active_session p = List.find (\<lambda>s. ns_status s = NetActive) (hm_values (np_sessions p))"

definition checkins_for_session :: "net_projection \<Rightarrow> uuid \<Rightarrow> bool \<Rightarrow> net_checkin_record list" where
  "checkins_for_session p sid include_deleted =
     sort_key (\<lambda>c. value_str (nc_payload c) ''checkin_time'')
       (filter (\<lambda>c. nc_net_session_id c = sid \<and> (include_deleted \<or> \<not> nc_deleted c))
         (hm_values (np_checkins p)))"

definition traffic_for_session :: "net_projection \<Rightarrow> uuid \<Rightarrow> net_traffic_record list" where
  "traffic_for_session p sid =
     filter (\<lambda>t. nt_net_session_id t = sid) (hm_values (np_traffic p))"

definition checkin_exists_in_session :: "net_projection \<Rightarrow> uuid \<Rightarrow> string \<Rightarrow> bool" where
  "checkin_exists_in_session p sid callsign =
     list_ex (\<lambda>c. nc_net_session_id c = sid \<and> \<not> nc_deleted c \<and>
         str_field_matches (nc_payload c) ''callsign'' callsign)
       (hm_values (np_checkins p))"

section \<open>Statistics\<close>

text \<open>The two inner loops of \<open>recompute_stats\<close>, on the session and the set of callsigns seen.\<close>

fun checkin_loop ::
    "net_checkin_record list \<Rightarrow> string set \<Rightarrow> net_session_record \<Rightarrow> net_session_record" where
  "checkin_loop [] seen s = s"
| "checkin_loop (c # cs) seen s =
     (if nc_net_session_id c \<noteq> ns_net_session_id s \<or> nc_deleted c then checkin_loop cs seen s
      else
        let s = s\<lparr>ns_checkin_ids := insert (nc_checkin_id c) (ns_checkin_ids s),
                  ns_checkin_count := ns_checkin_count s + 1\<rparr>;
            s = (if nc_status c = CheckInLate
                 then s\<lparr>ns_late_checkin_count := ns_late_checkin_count s + 1\<rparr> else s)
        in (case value_str (nc_payload c) ''callsign'' of
              None \<Rightarrow> checkin_loop cs seen s
            | Some callsign \<Rightarrow>
                let normalized = to_ascii_uppercase callsign in
                if normalized \<in> seen
                then checkin_loop cs seen (s\<lparr>ns_duplicate_warnings :=
                       ns_duplicate_warnings s @ [''Duplicate check-in: '' @ normalized]\<rparr>)
                else checkin_loop cs (insert normalized seen) s))"

fun traffic_loop :: "net_traffic_record list \<Rightarrow> net_session_record \<Rightarrow> net_session_record" where
  "traffic_loop [] s = s"
| "traffic_loop (t # ts) s =
     (if nt_net_session_id t \<noteq> ns_net_session_id s then traffic_loop ts s
      else
        let s = s\<lparr>ns_traffic_ids := insert (nt_traffic_id t) (ns_traffic_ids s),
                  ns_traffic_count := ns_traffic_count s + 1\<rparr>
        in traffic_loop ts (if nt_precedence t = PrecEmergency
             then s\<lparr>ns_emergency_traffic_count := ns_emergency_traffic_count s + 1\<rparr> else s))"

definition net_session_stats ::
    "net_projection \<Rightarrow> net_session_record \<Rightarrow> net_session_record" where
  "net_session_stats p s =
     traffic_loop (hm_values (np_traffic p))
       (checkin_loop (hm_values (np_checkins p)) {}
         (s\<lparr>ns_checkin_ids := {}, ns_traffic_ids := {}, ns_checkin_count := 0,
            ns_late_checkin_count := 0, ns_traffic_count := 0,
            ns_emergency_traffic_count := 0, ns_duplicate_warnings := []\<rparr>))"

definition net_recompute_stats :: "net_projection \<Rightarrow> net_projection" where
  "net_recompute_stats p = p\<lparr>np_sessions := hm_map_values (net_session_stats p) (np_sessions p)\<rparr>"

section \<open>Applying events\<close>

datatype net_error = NetPayloadMustBeObject | NetInvalidUuid string

definition net_merge_json_object :: "json \<Rightarrow> json \<Rightarrow> net_error + json" where
  "net_merge_json_object target patch =
     (case as_object patch of
        None \<Rightarrow> Inl NetPayloadMustBeObject
      | Some p \<Rightarrow> Inr (JObject (merge_entries p
          (case as_object target of None \<Rightarrow> [] | Some t \<Rightarrow> t))))"

definition net_uuid_from_payload :: "libs \<Rightarrow> json \<Rightarrow> string \<Rightarrow> net_error + uuid" where
  "net_uuid_from_payload L payload key =
     ok_or (NetInvalidUuid key) (Option.bind (value_str payload key) (lib_parse_uuid L))"

definition checkin_status_from_payload :: "json \<Rightarrow> net_checkin_status" where
  "checkin_status_from_payload payload =
     (let s = str_or payload ''status'' ''checked_in'' in
      if s = ''late'' then CheckInLate
      else if s = ''excused'' then CheckInExcused
      else if s = ''left'' then CheckInLeft
      else if s = ''duplicate'' then CheckInDuplicate
      else CheckedIn)"

definition traffic_level_from_payload :: "json \<Rightarrow> net_traffic_level" where
  "traffic_level_from_payload payload =
     (let s = str_or payload ''traffic'' ''none'' in
      if s = ''listed'' then TrafficListed
      else if s = ''priority'' then TrafficPriority
      else if s = ''emergency'' then TrafficEmergency
      else TrafficNone)"

definition traffic_precedence_from_payload :: "json \<Rightarrow> net_traffic_precedence" where
  "traffic_precedence_from_payload payload =
     (let s = str_or payload ''precedence'' ''routine'' in
      if s = ''priority'' then PrecPriority
      else if s = ''emergency'' then PrecEmergency
      else PrecRoutine)"

definition traffic_status_from_payload :: "json \<Rightarrow> net_traffic_status" where
  "traffic_status_from_payload payload =
     (let s = str_or payload ''status'' ''listed'' in
      if s = ''passed'' then TrafficStPassed
      else if s = ''cancelled'' then TrafficStCancelled
      else TrafficStListed)"

text \<open>The \<open>match\<close> of \<open>NetControlProjection::apply\<close>.\<close>

definition net_step ::
    "libs \<Rightarrow> core_event \<Rightarrow> uuid \<Rightarrow> net_projection \<Rightarrow> net_error fault + net_projection" where
  "net_step L e i p =
     (if ev_event_type e = OFFICIAL_LOG_NET_TEMPLATE_CREATED then
        and_then (index_assign_or_panic ''net_template_id'' (json_uuid L i) (ev_payload e)) (\<lambda>payload.
          Inr (p\<lparr>np_templates := hm_insert i payload (np_templates p)\<rparr>))
      else if ev_event_type e = OFFICIAL_LOG_NET_TEMPLATE_UPDATED then
        (case hm_get (np_templates p) i of
           None \<Rightarrow> Inr p
         | Some t \<Rightarrow> and_then (map_err Fail (net_merge_json_object t (ev_payload e))) (\<lambda>t.
             Inr (p\<lparr>np_templates := hm_insert i t (np_templates p)\<rparr>)))
      else if ev_event_type e = OFFICIAL_LOG_NET_SESSION_STARTED then
        and_then (index_assign_or_panic ''net_session_id'' (json_uuid L i) (ev_payload e)) (\<lambda>payload.
          Inr (p\<lparr>np_sessions := hm_insert i
            \<lparr>ns_net_session_id = i, ns_payload = payload, ns_status = NetActive,
             ns_checkin_ids = {}, ns_traffic_ids = {}, ns_checkin_count = 0,
             ns_late_checkin_count = 0, ns_traffic_count = 0, ns_emergency_traffic_count = 0,
             ns_duplicate_warnings = [], ns_last_event_hash = ev_event_hash e\<rparr> (np_sessions p)\<rparr>))
      else if ev_event_type e = OFFICIAL_LOG_NET_SESSION_ENDED then
        (case hm_get (np_sessions p) i of
           None \<Rightarrow> Inr p
         | Some s \<Rightarrow> and_then (map_err Fail (net_merge_json_object (ns_payload s) (ev_payload e)))
             (\<lambda>payload. Inr (p\<lparr>np_sessions := hm_insert i
               (s\<lparr>ns_payload := payload, ns_status := NetEnded,
                  ns_last_event_hash := ev_event_hash e\<rparr>) (np_sessions p)\<rparr>)))
      else if ev_event_type e = OFFICIAL_LOG_NET_SESSION_CANCELLED then
        (case hm_get (np_sessions p) i of
           None \<Rightarrow> Inr p
         | Some s \<Rightarrow> and_then (map_err Fail (net_merge_json_object (ns_payload s) (ev_payload e)))
             (\<lambda>payload. Inr (p\<lparr>np_sessions := hm_insert i
               (s\<lparr>ns_payload := payload, ns_status := NetCancelled,
                  ns_last_event_hash := ev_event_hash e\<rparr>) (np_sessions p)\<rparr>)))
      else if ev_event_type e = OFFICIAL_LOG_NET_CHECKIN_CREATED then
        and_then (map_err Fail (net_uuid_from_payload L (ev_payload e) ''net_session_id'')) (\<lambda>sid.
        and_then (index_assign_or_panic ''checkin_id'' (json_uuid L i) (ev_payload e)) (\<lambda>payload.
          Inr (p\<lparr>np_checkins := hm_insert i
            \<lparr>nc_checkin_id = i, nc_net_session_id = sid, nc_payload = payload,
             nc_status = checkin_status_from_payload (ev_payload e),
             nc_traffic = traffic_level_from_payload (ev_payload e), nc_deleted = False,
             nc_last_event_hash = ev_event_hash e\<rparr> (np_checkins p)\<rparr>)))
      else if ev_event_type e = OFFICIAL_LOG_NET_CHECKIN_UPDATED then
        (case hm_get (np_checkins p) i of
           None \<Rightarrow> Inr p
         | Some c \<Rightarrow> and_then (map_err Fail (net_merge_json_object (nc_payload c) (ev_payload e)))
             (\<lambda>payload. Inr (p\<lparr>np_checkins := hm_insert i
               (c\<lparr>nc_payload := payload, nc_status := checkin_status_from_payload payload,
                  nc_traffic := traffic_level_from_payload payload,
                  nc_last_event_hash := ev_event_hash e\<rparr>) (np_checkins p)\<rparr>)))
      else if ev_event_type e = OFFICIAL_LOG_NET_CHECKIN_DELETED then
        Inr (p\<lparr>np_checkins := hm_modify i (\<lambda>c. c\<lparr>nc_deleted := True, nc_status := CheckInDeleted,
          nc_last_event_hash := ev_event_hash e\<rparr>) (np_checkins p)\<rparr>)
      else if ev_event_type e = OFFICIAL_LOG_NET_TRAFFIC_CREATED then
        and_then (map_err Fail (net_uuid_from_payload L (ev_payload e) ''net_session_id'')) (\<lambda>sid.
        and_then (index_assign_or_panic ''traffic_id'' (json_uuid L i) (ev_payload e)) (\<lambda>payload.
          Inr (p\<lparr>np_traffic := hm_insert i
            \<lparr>nt_traffic_id = i, nt_net_session_id = sid, nt_payload = payload,
             nt_precedence = traffic_precedence_from_payload (ev_payload e),
             nt_status = traffic_status_from_payload (ev_payload e),
             nt_last_event_hash = ev_event_hash e\<rparr> (np_traffic p)\<rparr>)))
      else if ev_event_type e = OFFICIAL_LOG_NET_TRAFFIC_UPDATED then
        (case hm_get (np_traffic p) i of
           None \<Rightarrow> Inr p
         | Some t \<Rightarrow> and_then (map_err Fail (net_merge_json_object (nt_payload t) (ev_payload e)))
             (\<lambda>payload. Inr (p\<lparr>np_traffic := hm_insert i
               (t\<lparr>nt_payload := payload, nt_precedence := traffic_precedence_from_payload payload,
                  nt_status := traffic_status_from_payload payload,
                  nt_last_event_hash := ev_event_hash e\<rparr>) (np_traffic p)\<rparr>)))
      else if ev_event_type e = OFFICIAL_LOG_NET_REPORT_EXPORTED then
        Inr (p\<lparr>np_exported_reports := np_exported_reports p @ [ev_payload e]\<rparr>)
      else Inr p)"

definition net_apply :: "libs \<Rightarrow> core_event \<Rightarrow> net_projection \<Rightarrow> net_error fault + net_projection" where
  "net_apply L e p =
     (case ev_entity_id e of
        None \<Rightarrow> Inr p
      | Some i \<Rightarrow> and_then (net_step L e i p) (\<lambda>p. Inr (net_recompute_stats p)))"

definition net_clear :: "net_projection \<Rightarrow> net_projection" where
  "net_clear p = p\<lparr>np_templates := [], np_sessions := [], np_checkins := [], np_traffic := [],
     np_exported_reports := []\<rparr>"

section \<open>The report\<close>

fun debug_session_status :: "net_session_status \<Rightarrow> string" where
  "debug_session_status NetPlanned = ''Planned''"
| "debug_session_status NetActive = ''Active''"
| "debug_session_status NetEnded = ''Ended''"
| "debug_session_status NetCancelled = ''Cancelled''"

fun debug_checkin_status :: "net_checkin_status \<Rightarrow> string" where
  "debug_checkin_status CheckedIn = ''CheckedIn''"
| "debug_checkin_status CheckInLate = ''Late''"
| "debug_checkin_status CheckInExcused = ''Excused''"
| "debug_checkin_status CheckInLeft = ''Left''"
| "debug_checkin_status CheckInDuplicate = ''Duplicate''"
| "debug_checkin_status CheckInDeleted = ''Deleted''"

fun debug_traffic_level :: "net_traffic_level \<Rightarrow> string" where
  "debug_traffic_level TrafficNone = ''None''"
| "debug_traffic_level TrafficListed = ''Listed''"
| "debug_traffic_level TrafficPriority = ''Priority''"
| "debug_traffic_level TrafficEmergency = ''Emergency''"

definition report_line :: "net_checkin_record \<Rightarrow> string" where
  "report_line c =
     ''- '' @ str_or (nc_payload c) ''callsign'' ''(tactical only)'' @ '' '' @
     str_or (nc_payload c) ''tactical_callsign'' [] @ '' - '' @
     debug_checkin_status (nc_status c) @ '' / '' @ debug_traffic_level (nc_traffic c) @ newline"

definition export_net_report_markdown :: "net_projection \<Rightarrow> uuid \<Rightarrow> net_error + string" where
  "export_net_report_markdown p sid =
     (case net_get_session p sid of
        None \<Rightarrow> Inl (NetInvalidUuid ''net_session_id'')
      | Some s \<Rightarrow> Inr (
          ''# '' @ str_or (ns_payload s) ''net_name'' ''Net Session'' @ newline @ newline @
          ''Status: '' @ debug_session_status (ns_status s) @ newline @
          ''Check-ins: '' @ show_nat (ns_checkin_count s) @ newline @
          ''Late: '' @ show_nat (ns_late_checkin_count s) @ newline @
          ''Traffic: '' @ show_nat (ns_traffic_count s) @ newline @
          ''Emergency traffic: '' @ show_nat (ns_emergency_traffic_count s) @ newline @ newline @
          ''## Check-ins'' @ newline @ newline @
          concat (map report_line (checkins_for_session p sid False))))"

section \<open>Facts\<close>

subsection \<open>The statistics\<close>

text \<open>The check-ins and the traffic of a session, and the callsigns that checked in.\<close>

definition session_checkins :: "uuid \<Rightarrow> net_checkin_record list \<Rightarrow> net_checkin_record list" where
  "session_checkins sid cs = filter (\<lambda>c. nc_net_session_id c = sid \<and> \<not> nc_deleted c) cs"

definition session_traffic :: "uuid \<Rightarrow> net_traffic_record list \<Rightarrow> net_traffic_record list" where
  "session_traffic sid ts = filter (\<lambda>t. nt_net_session_id t = sid) ts"

definition session_callsigns :: "uuid \<Rightarrow> net_checkin_record list \<Rightarrow> string list" where
  "session_callsigns sid cs =
     map to_ascii_uppercase
       (List.map_filter (\<lambda>c. value_str (nc_payload c) ''callsign'') (session_checkins sid cs))"

definition duplicate_warning :: "string \<Rightarrow> string" where
  "duplicate_warning callsign = ''Duplicate check-in: '' @ callsign"

text \<open>The warnings for a list of callsigns: one for each that was seen before.\<close>

fun warnings_from :: "string list \<Rightarrow> string set \<Rightarrow> string list" where
  "warnings_from [] seen = []"
| "warnings_from (c # cs) seen =
     (if c \<in> seen then duplicate_warning c # warnings_from cs seen
      else warnings_from cs (insert c seen))"

lemma session_checkins_Nil [simp]: "session_checkins sid [] = []"
  by (simp add: session_checkins_def)

lemma session_checkins_Cons [simp]: "session_checkins sid (c # cs) =
    (if nc_net_session_id c \<noteq> sid \<or> nc_deleted c then session_checkins sid cs
     else c # session_checkins sid cs)"
  by (simp add: session_checkins_def)

lemma session_callsigns_Nil [simp]: "session_callsigns sid [] = []"
  by (simp add: session_callsigns_def List.map_filter_simps)

lemma session_callsigns_Cons [simp]: "session_callsigns sid (c # cs) =
    (if nc_net_session_id c \<noteq> sid \<or> nc_deleted c then session_callsigns sid cs
     else case value_str (nc_payload c) ''callsign'' of
        None \<Rightarrow> session_callsigns sid cs
      | Some v \<Rightarrow> to_ascii_uppercase v # session_callsigns sid cs)"
  by (auto simp: session_callsigns_def List.map_filter_simps split: option.split)

lemma session_traffic_Nil [simp]: "session_traffic sid [] = []"
  by (simp add: session_traffic_def)

lemma session_traffic_Cons [simp]: "session_traffic sid (t # ts) =
    (if nt_net_session_id t \<noteq> sid then session_traffic sid ts else t # session_traffic sid ts)"
  by (simp add: session_traffic_def)

lemma checkin_loop_spec:
  "checkin_loop cs seen s =
     s\<lparr>ns_checkin_ids := ns_checkin_ids s \<union>
         nc_checkin_id ` set (session_checkins (ns_net_session_id s) cs),
       ns_checkin_count := ns_checkin_count s + length (session_checkins (ns_net_session_id s) cs),
       ns_late_checkin_count := ns_late_checkin_count s +
         length (filter (\<lambda>c. nc_status c = CheckInLate) (session_checkins (ns_net_session_id s) cs)),
       ns_duplicate_warnings := ns_duplicate_warnings s @
         warnings_from (session_callsigns (ns_net_session_id s) cs) seen\<rparr>"
  by (induction cs arbitrary: seen s) (auto simp: Let_def duplicate_warning_def split: option.split)

lemma traffic_loop_spec:
  "traffic_loop ts s =
     s\<lparr>ns_traffic_ids := ns_traffic_ids s \<union>
         nt_traffic_id ` set (session_traffic (ns_net_session_id s) ts),
       ns_traffic_count := ns_traffic_count s + length (session_traffic (ns_net_session_id s) ts),
       ns_emergency_traffic_count := ns_emergency_traffic_count s +
         length (filter (\<lambda>t. nt_precedence t = PrecEmergency)
           (session_traffic (ns_net_session_id s) ts))\<rparr>"
  by (induction ts arbitrary: s) (auto simp: Let_def)

lemma warnings_from_length:
  "finite seen \<Longrightarrow> length (warnings_from cs seen) + card (seen \<union> set cs) = length cs + card seen"
proof (induction cs arbitrary: seen)
  case (Cons c cs)
  have "c \<in> seen \<Longrightarrow> seen \<union> set (c # cs) = seen \<union> set cs"
    and "insert c seen \<union> set cs = seen \<union> set (c # cs)" by auto
  then show ?case using Cons.IH [of seen] Cons.IH [of "insert c seen"] Cons.prems
    by (cases "c \<in> seen") auto
qed simp

lemma warnings_from_set:
  "set (warnings_from cs seen) =
     duplicate_warning ` {c. c \<in> set cs \<and> (c \<in> seen \<or> 2 \<le> count_list cs c)}"
proof (induction cs arbitrary: seen)
  case (Cons c cs)
  have "2 \<le> Suc (count_list cs c) \<longleftrightarrow> c \<in> set cs" by (simp add: Suc_le_eq count_list_0_iff neq0_conv [symmetric] numeral_2_eq_2)
  then show ?case by (cases "c \<in> seen") (auto simp: Cons.IH)
qed simp

lemma net_session_stats_spec:
  fixes p s
  defines "cs \<equiv> session_checkins (ns_net_session_id s) (hm_values (np_checkins p))"
    and "ts \<equiv> session_traffic (ns_net_session_id s) (hm_values (np_traffic p))"
    and "names \<equiv> session_callsigns (ns_net_session_id s) (hm_values (np_checkins p))"
  shows "ns_checkin_ids (net_session_stats p s) = nc_checkin_id ` set cs"
    "ns_checkin_count (net_session_stats p s) = length cs"
    "ns_late_checkin_count (net_session_stats p s) = length (filter (\<lambda>c. nc_status c = CheckInLate) cs)"
    "ns_duplicate_warnings (net_session_stats p s) = warnings_from names {}"
    "ns_traffic_ids (net_session_stats p s) = nt_traffic_id ` set ts"
    "ns_traffic_count (net_session_stats p s) = length ts"
    "ns_emergency_traffic_count (net_session_stats p s) =
       length (filter (\<lambda>t. nt_precedence t = PrecEmergency) ts)"
  by (simp_all add: net_session_stats_def checkin_loop_spec traffic_loop_spec cs_def ts_def names_def)

lemma net_session_stats_frame [frame_simps]:
  "ns_net_session_id (net_session_stats p s) = ns_net_session_id s"
  "ns_payload (net_session_stats p s) = ns_payload s"
  "ns_status (net_session_stats p s) = ns_status s"
  "ns_last_event_hash (net_session_stats p s) = ns_last_event_hash s"
  by (simp_all add: net_session_stats_def checkin_loop_spec traffic_loop_spec)

lemma net_session_stats_idem [simp]:
  "net_session_stats p (net_session_stats p s) = net_session_stats p s"
  by (simp add: net_session_stats_def checkin_loop_spec traffic_loop_spec)

lemma net_session_stats_cong:
  "np_checkins p = np_checkins p' \<Longrightarrow> np_traffic p = np_traffic p' \<Longrightarrow>
   net_session_stats p s = net_session_stats p' s"
  by (simp add: net_session_stats_def)

subsection \<open>The invariant\<close>

definition net_checkin_ok :: "uuid \<Rightarrow> net_checkin_record \<Rightarrow> bool" where
  "net_checkin_ok i c = (nc_checkin_id c = i \<and> is_object (nc_payload c))"

definition net_traffic_ok :: "uuid \<Rightarrow> net_traffic_record \<Rightarrow> bool" where
  "net_traffic_ok i t = (nt_traffic_id t = i \<and> is_object (nt_payload t))"

definition net_session_ok :: "uuid \<Rightarrow> net_session_record \<Rightarrow> bool" where
  "net_session_ok i s = (ns_net_session_id s = i \<and> is_object (ns_payload s))"

definition net_records_ok :: "net_projection \<Rightarrow> bool" where
  "net_records_ok p = (map_ok (\<lambda>_. is_object) (np_templates p) \<and>
     map_ok net_session_ok (np_sessions p) \<and> map_ok net_checkin_ok (np_checkins p) \<and>
     map_ok net_traffic_ok (np_traffic p))"

definition net_ok :: "net_projection \<Rightarrow> bool" where
  "net_ok p = (net_records_ok p \<and>
     (\<forall>i s. hm_get (np_sessions p) i = Some s \<longrightarrow> net_session_stats p s = s))"

lemma net_merge_object: "net_merge_json_object t patch = Inr j \<Longrightarrow> is_object j"
  by (auto simp: net_merge_json_object_def split: option.splits)

lemma net_merge_Inl:
  "net_merge_json_object t patch = Inl err \<longleftrightarrow> err = NetPayloadMustBeObject \<and> \<not> is_object patch"
  by (auto simp: net_merge_json_object_def is_object_def split: option.splits)

lemma net_merge_total: "is_object patch \<Longrightarrow> \<exists>j. net_merge_json_object t patch = Inr j"
  using net_merge_Inl by (metis sum.exhaust_sel sum.collapse(1) sum.collapse(2))

lemma net_step_ok:
  assumes "net_records_ok p" and "net_step L e i p = Inr p'"
  shows "net_records_ok p'"
proof -
  have get: "hm_get (np_sessions p) i = Some s \<Longrightarrow> ns_net_session_id s = i"
    "hm_get (np_checkins p) i = Some c \<Longrightarrow> nc_checkin_id c = i"
    "hm_get (np_traffic p) i = Some t \<Longrightarrow> nt_traffic_id t = i" for s c t
    using assms(1) by (auto simp: net_records_ok_def map_ok_def net_session_ok_def net_checkin_ok_def
      net_traffic_ok_def)
  note obj = index_assign_object net_merge_object
  show ?thesis using assms unfolding net_step_def
    by (simp split: if_split_asm option.split_asm)
      (auto simp: net_records_ok_def net_session_ok_def net_checkin_ok_def net_traffic_ok_def get
        intro!: map_ok_insert map_ok_modify dest!: obj)
qed

lemma net_session_stats_recompute [simp]:
  "net_session_stats (net_recompute_stats p) s = net_session_stats p s"
  by (rule net_session_stats_cong) (simp_all add: net_recompute_stats_def)

lemma net_recompute_ok: "net_records_ok p \<Longrightarrow> net_ok (net_recompute_stats p)"
  unfolding net_ok_def net_session_stats_recompute
  by (auto simp: net_records_ok_def net_recompute_stats_def hm_get_map_values
    net_session_ok_def frame_simps intro!: map_ok_map_values)

lemma net_apply_ok: "net_ok p \<Longrightarrow> net_apply L e p = Inr p' \<Longrightarrow> net_ok p'"
  using net_step_ok [of p L e _ ] net_recompute_ok
  by (auto simp: net_apply_def net_ok_def split: option.splits)

definition net_event_ok :: "libs \<Rightarrow> core_event \<Rightarrow> bool" where
  "net_event_ok L e =
     (case ev_entity_id e of None \<Rightarrow> True
      | Some _ \<Rightarrow>
         (ev_event_type e \<in> {OFFICIAL_LOG_NET_TEMPLATE_CREATED, OFFICIAL_LOG_NET_SESSION_STARTED} \<longrightarrow>
            is_object (ev_payload e) \<or> ev_payload e = JNull) \<and>
         (ev_event_type e \<in> {OFFICIAL_LOG_NET_TEMPLATE_UPDATED, OFFICIAL_LOG_NET_SESSION_ENDED,
            OFFICIAL_LOG_NET_SESSION_CANCELLED, OFFICIAL_LOG_NET_CHECKIN_UPDATED,
            OFFICIAL_LOG_NET_TRAFFIC_UPDATED} \<longrightarrow> is_object (ev_payload e)) \<and>
         (ev_event_type e \<in> {OFFICIAL_LOG_NET_CHECKIN_CREATED, OFFICIAL_LOG_NET_TRAFFIC_CREATED} \<longrightarrow>
            is_ok (net_uuid_from_payload L (ev_payload e) ''net_session_id'')))"

lemma net_uuid_object: "net_uuid_from_payload L payload k = Inr u \<Longrightarrow> is_object payload"
  by (cases payload) (auto simp: net_uuid_from_payload_def value_str_def value_get_def)

lemma net_step_error:
  assumes "net_step L e i p = Inl err" and "ev_entity_id e = Some i"
  shows "\<not> net_event_ok L e"
  using assms unfolding net_step_def
  by (simp split: if_split_asm option.split_asm)
    (auto simp: net_event_ok_def and_then_Inl_iff map_err_Inl_iff net_merge_Inl is_ok_iff
      index_assign_or_panic_Inl dest: net_uuid_object)

lemma net_apply_total: "net_event_ok L e \<Longrightarrow> \<exists>p'. net_apply L e p = Inr p'"
proof (cases "ev_entity_id e")
  case (Some i)
  assume "net_event_ok L e"
  with Some obtain q where "net_step L e i p = Inr q"
    using net_step_error [of L e i p] by (cases "net_step L e i p") auto
  with Some show ?thesis by (simp add: net_apply_def)
qed (simp add: net_apply_def)

interpretation net: projection "net_apply L" net_clear net_ok "net_event_ok L" for L
proof unfold_locales
  show "net_ok (net_clear p)" for p by (simp add: net_clear_def net_ok_def net_records_ok_def)
qed (auto simp: net_clear_def intro: net_apply_ok net_apply_total)

subsection \<open>The queries\<close>

lemma checkins_for_session_sorted:
  "sorted (map (\<lambda>c. value_str (nc_payload c) ''checkin_time'') (checkins_for_session p sid b))"
  by (simp add: checkins_for_session_def)

lemma checkins_for_session_visible:
  "mset (checkins_for_session p sid False) = mset (session_checkins sid (hm_values (np_checkins p)))"
  by (simp add: checkins_for_session_def session_checkins_def)

end
