(* ===== verification/Decimal.thy ===== *)
theory Decimal
  imports Prelude
begin

text \<open>Decimal numerals: what \<open>Display\<close> prints for an integer, \<open>parse\<close> reads back.\<close>

lemma of_char_digit [simp]: "k < 10 \<Longrightarrow> (of_char (char_of (48 + k) :: char) :: nat) = 48 + k"
  by simp

lemma is_ascii_digit_char [simp]: "k < 10 \<Longrightarrow> is_ascii_digit (char_of (48 + k :: nat))"
  by (simp add: is_ascii_digit_def)

lemma digit_value_char [simp]: "k < 10 \<Longrightarrow> digit_value (char_of (48 + k :: nat)) = k"
  by (simp add: digit_value_def)

lemma digits_value_append:
  "digits_value (s @ [c]) = 10 * digits_value s + digit_value c"
  by (simp add: digits_value_def)

lemma show_nat_digits: "list_all is_ascii_digit (show_nat n)"
proof (induction n rule: show_nat.induct)
  case (1 n)
  show ?case by (subst show_nat.simps) (simp add: 1)
qed

lemma show_nat_value: "digits_value (show_nat n) = n"
proof (induction n rule: show_nat.induct)
  case (1 n)
  show ?case
    by (subst show_nat.simps) (auto simp: 1 digits_value_append, simp add: digits_value_def)
qed

lemma show_nat_nonempty [simp]: "show_nat n \<noteq> []"
  by (subst show_nat.simps) simp

lemma show_nat_inject: "show_nat m = show_nat n \<longleftrightarrow> m = n"
  by (metis show_nat_value)

text \<open>Leading zeros do not change the value.\<close>

lemma digits_value_zeros: "digits_value (replicate k (CHR ''0'') @ s) = digits_value s"
proof -
  have "foldl (\<lambda>acc c. 10 * acc + digit_value c) 0 (replicate k (CHR ''0'')) = (0 :: nat)"
    by (induction k) (simp_all add: digit_value_def)
  then show ?thesis by (simp add: digits_value_def)
qed

lemma digits_no_char: "list_all is_ascii_digit s \<Longrightarrow> \<not> is_ascii_digit c \<Longrightarrow> c \<notin> set s"
  by (auto simp: list_all_iff)

lemma parse_u32_digits:
  assumes "list_all is_ascii_digit s" and "s \<noteq> []" and "digits_value s < 2 ^ 32"
  shows "parse_u32 s = Some (digits_value s)"
proof (cases s)
  case (Cons c cs)
  have "\<not> is_ascii_digit (CHR 0x2B)" by code_simp
  with assms(1) Cons have "c \<noteq> CHR 0x2B" by auto
  with Cons assms show ?thesis by (simp add: parse_u32_def)
qed (use assms in simp)

text \<open>\<open>rsplit_once\<close> splits where a part without the separator is appended.\<close>

lemma rsplit_once_append:
  assumes "c \<notin> set t"
  shows "rsplit_once c (s @ [c] @ t) = Some (s, t)"
proof -
  have "takeWhile (\<lambda>x. x \<noteq> c) (rev t @ c # rev s) = rev t"
    by (subst takeWhile_append2) (use assms in auto)
  then show ?thesis by (simp add: rsplit_once_def)
qed

end
