(* ===== verification/Emcomm.thy ===== *)
theory Emcomm
  imports Net Decimal "HOL-Library.Product_Lexorder"
begin

text \<open>
  Emergency communications (\<open>ham-core/src/emcomm.rs\<close>): message numbers, the audited records
  and their projection from official events. The interface of an audited collection is the
  locale \<open>audited\<close>; its five interpretations are the collections of the projection.
\<close>

section \<open>Data\<close>

definition EMCOMM_SCHEMA_VERSION :: "32 word" where
  "EMCOMM_SCHEMA_VERSION = 1"

datatype ics_form = Ics211 | Ics213 | Ics213Rr | Ics214

fun ics_form_as_str :: "ics_form \<Rightarrow> string" where
  "ics_form_as_str Ics211 = ''ICS-211''"
| "ics_form_as_str Ics213 = ''ICS-213''"
| "ics_form_as_str Ics213Rr = ''ICS-213RR''"
| "ics_form_as_str Ics214 = ''ICS-214''"

datatype emcomm_error =
    EmPayloadNotObject
  | EmMissingField string
  | EmInvalidUuid string
  | EmInvalidMessageNumber string

datatype incident_status = IncidentOpen | IncidentClosed
datatype period_status = PeriodOpen | PeriodClosed
datatype person_status = PersonCheckedIn | PersonCheckedOut
datatype assignment_status = AssignmentActive | AssignmentReleased
datatype message_status =
  MessageDraft | MessageTransmitted | MessageReceived | MessageAcknowledged | MessageCancelled

datatype message_precedence = MpEmergency | MpPriority | MpImmediate | MpRoutine

text \<open>The derived order: the constructors in their order.\<close>

fun precedence_rank :: "message_precedence \<Rightarrow> nat" where
  "precedence_rank MpEmergency = 0"
| "precedence_rank MpPriority = 1"
| "precedence_rank MpImmediate = 2"
| "precedence_rank MpRoutine = 3"

lemma precedence_rank_inject: "precedence_rank x = precedence_rank y \<Longrightarrow> x = y"
  by (cases x; cases y) simp_all

instantiation message_precedence :: linorder
begin

definition less_eq_message_precedence :: "message_precedence \<Rightarrow> message_precedence \<Rightarrow> bool" where
  "less_eq_message_precedence x y = (precedence_rank x \<le> precedence_rank y)"

definition less_message_precedence :: "message_precedence \<Rightarrow> message_precedence \<Rightarrow> bool" where
  "less_message_precedence x y = (precedence_rank x < precedence_rank y)"

instance
  by standard (auto simp: less_eq_message_precedence_def less_message_precedence_def
    intro: precedence_rank_inject)

end

definition map_str_or_empty :: "json_map \<Rightarrow> string \<Rightarrow> string" where
  "map_str_or_empty m k = (case map_str m k of None \<Rightarrow> [] | Some s \<Rightarrow> s)"

definition precedence_from_payload :: "json_map \<Rightarrow> message_precedence" where
  "precedence_from_payload payload =
     (let s = to_ascii_lowercase (map_str_or_empty payload ''precedence'') in
      if s = ''emergency'' then MpEmergency
      else if s = ''priority'' then MpPriority
      else if s = ''immediate'' then MpImmediate
      else MpRoutine)"

definition form_from_payload :: "json_map \<Rightarrow> ics_form" where
  "form_from_payload payload =
     (let s = to_ascii_uppercase (map_str_or_empty payload ''form'') in
      if s \<in> {''ICS-213RR'', ''ICS213RR'', ''213RR''} then Ics213Rr
      else if s \<in> {''ICS-211'', ''ICS211'', ''211''} then Ics211
      else if s \<in> {''ICS-214'', ''ICS214'', ''214''} then Ics214
      else Ics213)"

section \<open>Message numbers\<close>

record message_number =
  mn_station_prefix :: string
  mn_sequence :: "32 word"

definition message_number_new :: "string \<Rightarrow> 32 word \<Rightarrow> message_number" where
  "message_number_new station_prefix sequence =
     \<lparr>mn_station_prefix =
        filter (\<lambda>c. c \<noteq> hyphen) (to_ascii_uppercase (trim station_prefix)),
      mn_sequence = sequence\<rparr>"

definition message_number_parse :: "string \<Rightarrow> emcomm_error + message_number" where
  "message_number_parse value =
     (case rsplit_once hyphen value of
        None \<Rightarrow> Inl (EmInvalidMessageNumber value)
      | Some (pre, sequence) \<Rightarrow>
          if trim pre = [] then Inl (EmInvalidMessageNumber value)
          else (case parse_u32 sequence of
             None \<Rightarrow> Inl (EmInvalidMessageNumber value)
           | Some n \<Rightarrow>
               if n = 0 then Inl (EmInvalidMessageNumber value)
               else Inr \<lparr>mn_station_prefix = to_ascii_uppercase pre, mn_sequence = of_nat n\<rparr>))"

text \<open>\<open>{:04}\<close>: zero-padded on the left to four characters.\<close>

definition pad4 :: "string \<Rightarrow> string" where
  "pad4 s = replicate (4 - length s) (CHR ''0'') @ s"

definition message_number_display :: "message_number \<Rightarrow> string" where
  "message_number_display n =
     mn_station_prefix n @ [hyphen] @ pad4 (show_nat (unat (mn_sequence n)))"

section \<open>Audited records\<close>

record record_change =
  rc_event_type :: string
  rc_event_hash :: string
  rc_recorded_at :: datetime
  rc_payload :: json

definition change_from :: "core_event \<Rightarrow> record_change" where
  "change_from e = \<lparr>rc_event_type = ev_event_type e, rc_event_hash = ev_event_hash e,
     rc_recorded_at = ev_timestamp e, rc_payload = ev_payload e\<rparr>"

record 's emcomm_record =
  er_payload :: json
  er_status :: 's
  er_history :: "record_change list"
  er_last_event_hash :: string

definition emcomm_record_new :: "'s \<Rightarrow> core_event \<Rightarrow> json \<Rightarrow> 's emcomm_record" where
  "emcomm_record_new status e payload =
     \<lparr>er_payload = payload, er_status = status, er_history = [change_from e],
      er_last_event_hash = ev_event_hash e\<rparr>"

definition merge_payload :: "json \<Rightarrow> json \<Rightarrow> emcomm_error + json" where
  "merge_payload target patch =
     and_then (ok_or EmPayloadNotObject (as_object patch)) (\<lambda>p.
     and_then (ok_or EmPayloadNotObject (as_object target)) (\<lambda>t.
       Inr (JObject (merge_entries p t))))"

definition emcomm_append ::
    "core_event \<Rightarrow> 's \<Rightarrow> 's emcomm_record \<Rightarrow> emcomm_error + 's emcomm_record" where
  "emcomm_append e status r =
     and_then (merge_payload (er_payload r) (ev_payload e)) (\<lambda>payload.
       Inr (r\<lparr>er_payload := payload, er_history := er_history r @ [change_from e],
              er_status := status, er_last_event_hash := ev_event_hash e\<rparr>))"

record incident_record =
  ir_incident_id :: uuid
  ir_record :: "incident_status emcomm_record"

record period_record =
  dr_period_id :: uuid
  dr_incident_id :: uuid
  dr_record :: "period_status emcomm_record"

record person_record =
  sr_person_id :: uuid
  sr_incident_id :: uuid
  sr_period_id :: "uuid option"
  sr_record :: "person_status emcomm_record"

record assignment_record =
  gr_assignment_id :: uuid
  gr_incident_id :: uuid
  gr_person_id :: uuid
  gr_record :: "assignment_status emcomm_record"

record message_record =
  mr_message_id :: uuid
  mr_incident_id :: uuid
  mr_message_number :: message_number
  mr_precedence :: message_precedence
  mr_form :: ics_form
  mr_record :: "message_status emcomm_record"

record activity_entry =
  al_activity_id :: uuid
  al_incident_id :: uuid
  al_period_id :: "uuid option"
  al_occurred_at :: "datetime option"
  al_payload :: json
  al_event_hash :: string

record emcomm_projection =
  ep_incidents :: "(uuid, incident_record) hmap"
  ep_periods :: "(uuid, period_record) hmap"
  ep_people :: "(uuid, person_record) hmap"
  ep_assignments :: "(uuid, assignment_record) hmap"
  ep_messages :: "(uuid, message_record) hmap"
  ep_activity :: "activity_entry list"

definition emcomm_projection_new :: emcomm_projection where
  "emcomm_projection_new = \<lparr>ep_incidents = [], ep_periods = [], ep_people = [],
     ep_assignments = [], ep_messages = [], ep_activity = []\<rparr>"

section \<open>Queries\<close>

definition emcomm_incidents :: "emcomm_projection \<Rightarrow> bool \<Rightarrow> incident_record list" where
  "emcomm_incidents p include_closed =
     sort_key ir_incident_id
       (filter (\<lambda>r. include_closed \<or> er_status (ir_record r) = IncidentOpen)
         (hm_values (ep_incidents p)))"

definition periods_for_incident :: "emcomm_projection \<Rightarrow> uuid \<Rightarrow> period_record list" where
  "periods_for_incident p i =
     sort_key dr_period_id (filter (\<lambda>r. dr_incident_id r = i) (hm_values (ep_periods p)))"

definition open_period :: "emcomm_projection \<Rightarrow> uuid \<Rightarrow> period_record option" where
  "open_period p i =
     List.find (\<lambda>r. dr_incident_id r = i \<and> er_status (dr_record r) = PeriodOpen)
       (hm_values (ep_periods p))"

definition people_for_incident :: "emcomm_projection \<Rightarrow> uuid \<Rightarrow> bool \<Rightarrow> person_record list" where
  "people_for_incident p i include_checked_out =
     sort_key sr_person_id
       (filter (\<lambda>r. sr_incident_id r = i \<and>
           (include_checked_out \<or> er_status (sr_record r) = PersonCheckedIn))
         (hm_values (ep_people p)))"

definition assignments_for_person :: "emcomm_projection \<Rightarrow> uuid \<Rightarrow> assignment_record list" where
  "assignments_for_person p i =
     sort_key gr_assignment_id
       (filter (\<lambda>r. gr_person_id r = i) (hm_values (ep_assignments p)))"

definition message_key :: "message_record \<Rightarrow> message_precedence \<times> string \<times> 32 word" where
  "message_key m = (mr_precedence m, mn_station_prefix (mr_message_number m),
     mn_sequence (mr_message_number m))"

definition messages_for_incident :: "emcomm_projection \<Rightarrow> uuid \<Rightarrow> message_record list" where
  "messages_for_incident p i =
     sort_key message_key (filter (\<lambda>r. mr_incident_id r = i) (hm_values (ep_messages p)))"

definition unacknowledged_messages :: "emcomm_projection \<Rightarrow> uuid \<Rightarrow> message_record list" where
  "unacknowledged_messages p i =
     filter (\<lambda>r. er_status (mr_record r) = MessageTransmitted) (messages_for_incident p i)"

definition activity_for_incident :: "emcomm_projection \<Rightarrow> uuid \<Rightarrow> activity_entry list" where
  "activity_for_incident p i = filter (\<lambda>a. al_incident_id a = i) (ep_activity p)"

definition activity_for_period :: "emcomm_projection \<Rightarrow> uuid \<Rightarrow> activity_entry list" where
  "activity_for_period p i = filter (\<lambda>a. al_period_id a = Some i) (ep_activity p)"

text \<open>\<open>max().unwrap_or(0)\<close> is the fold of \<open>max\<close> from 0, the least \<open>u32\<close>.\<close>

definition station_sequences :: "emcomm_projection \<Rightarrow> uuid \<Rightarrow> string \<Rightarrow> 32 word list" where
  "station_sequences p i pre =
     map (\<lambda>m. mn_sequence (mr_message_number m))
       (filter (\<lambda>m. mr_incident_id m = i \<and> mn_station_prefix (mr_message_number m) = pre)
         (hm_values (ep_messages p)))"

definition next_message_number :: "emcomm_projection \<Rightarrow> uuid \<Rightarrow> string \<Rightarrow> message_number" where
  "next_message_number p i station_prefix =
     (let pre = mn_station_prefix (message_number_new station_prefix 1);
          highest = fold max (station_sequences p i pre) 0
      in \<lparr>mn_station_prefix = pre, mn_sequence = saturating_succ highest\<rparr>)"

fun message_status_key :: "message_status \<Rightarrow> string" where
  "message_status_key MessageDraft = ''draft''"
| "message_status_key MessageTransmitted = ''transmitted''"
| "message_status_key MessageReceived = ''received''"
| "message_status_key MessageAcknowledged = ''acknowledged''"
| "message_status_key MessageCancelled = ''cancelled''"

definition count_status :: "message_record list \<Rightarrow> (string, nat) btmap" where
  "count_status ms =
     fold (\<lambda>m acc. let key = message_status_key (er_status (mr_record m))
             in bt_insert key ((case map_of acc key of None \<Rightarrow> 0 | Some n \<Rightarrow> n) + 1) acc) ms []"

definition emcomm_summary :: "libs \<Rightarrow> emcomm_projection \<Rightarrow> uuid \<Rightarrow> json" where
  "emcomm_summary L p i =
     (let messages = messages_for_incident p i in
      json_object
        [(''incident_id'', json_uuid L i),
         (''operational_periods'', json_nat (length (periods_for_incident p i))),
         (''checked_in'', json_nat (length (people_for_incident p i False))),
         (''roster'', json_nat (length (people_for_incident p i True))),
         (''messages'', json_nat (length messages)),
         (''messages_by_status'', JObject (map (\<lambda>(k, n). (k, json_nat n)) (count_status messages))),
         (''activity_entries'', json_nat (length (activity_for_incident p i)))])"

section \<open>Applying events\<close>

definition required_uuid :: "libs \<Rightarrow> json_map \<Rightarrow> string \<Rightarrow> emcomm_error + uuid" where
  "required_uuid L payload field =
     and_then (ok_or (EmMissingField field) (map_str payload field)) (\<lambda>raw.
       ok_or (EmInvalidUuid field) (lib_parse_uuid L raw))"

definition optional_uuid :: "libs \<Rightarrow> json_map \<Rightarrow> string \<Rightarrow> emcomm_error + uuid option" where
  "optional_uuid L payload field =
     (case map_get payload field of
        None \<Rightarrow> Inr None
      | Some value \<Rightarrow>
          if value = JNull then Inr None
          else and_then (ok_or (EmInvalidUuid field) (as_str value)) (\<lambda>raw.
            and_then (ok_or (EmInvalidUuid field) (lib_parse_uuid L raw)) (\<lambda>u. Inr (Some u))))"

text \<open>\<open>get_mut\<close> on a collection, then an update that can fail; an absent key is no error.\<close>

definition hm_try_modify ::
    "'k \<Rightarrow> ('v \<Rightarrow> 'e + 'v) \<Rightarrow> ('k, 'v) hmap \<Rightarrow> 'e + ('k, 'v) hmap" where
  "hm_try_modify k f m =
     (case hm_get m k of None \<Rightarrow> Inr m
      | Some v \<Rightarrow> and_then (f v) (\<lambda>v'. Inr (hm_insert k v' m)))"

definition stored :: "libs \<Rightarrow> string \<Rightarrow> uuid \<Rightarrow> json_map \<Rightarrow> json" where
  "stored L key i payload = JObject (bt_insert key (json_uuid L i) payload)"

definition emcomm_prefix :: string where
  "emcomm_prefix = ''official.log.emcomm.''"

text \<open>The updates of one record, one per event type.\<close>

definition incident_append ::
    "core_event \<Rightarrow> (incident_status \<Rightarrow> incident_status) \<Rightarrow> incident_record \<Rightarrow>
     emcomm_error + incident_record" where
  "incident_append e st r =
     and_then (emcomm_append e (st (er_status (ir_record r))) (ir_record r)) (\<lambda>rec.
       Inr (r\<lparr>ir_record := rec\<rparr>))"

definition period_append ::
    "core_event \<Rightarrow> period_status \<Rightarrow> period_record \<Rightarrow> emcomm_error + period_record" where
  "period_append e st r =
     and_then (emcomm_append e st (dr_record r)) (\<lambda>rec. Inr (r\<lparr>dr_record := rec\<rparr>))"

definition person_append ::
    "core_event \<Rightarrow> (person_status \<Rightarrow> person_status) \<Rightarrow> person_record \<Rightarrow>
     emcomm_error + person_record" where
  "person_append e st r =
     and_then (emcomm_append e (st (er_status (sr_record r))) (sr_record r)) (\<lambda>rec.
       Inr (r\<lparr>sr_record := rec\<rparr>))"

definition assignment_append ::
    "core_event \<Rightarrow> (assignment_status \<Rightarrow> assignment_status) \<Rightarrow> assignment_record \<Rightarrow>
     emcomm_error + assignment_record" where
  "assignment_append e st r =
     and_then (emcomm_append e (st (er_status (gr_record r))) (gr_record r)) (\<lambda>rec.
       Inr (r\<lparr>gr_record := rec\<rparr>))"

definition message_append ::
    "core_event \<Rightarrow> (message_status \<Rightarrow> message_status) \<Rightarrow> message_record \<Rightarrow>
     emcomm_error + message_record" where
  "message_append e st r =
     and_then (emcomm_append e (st (er_status (mr_record r))) (mr_record r)) (\<lambda>rec.
       Inr (r\<lparr>mr_record := rec\<rparr>))"

definition person_update ::
    "libs \<Rightarrow> core_event \<Rightarrow> json_map \<Rightarrow> person_record \<Rightarrow> emcomm_error + person_record" where
  "person_update L e payload r =
     and_then (person_append e (\<lambda>st. st) r) (\<lambda>r.
     and_then (optional_uuid L payload ''period_id'') (\<lambda>period.
       Inr (case period of None \<Rightarrow> r | Some u \<Rightarrow> r\<lparr>sr_period_id := Some u\<rparr>)))"

definition message_update ::
    "core_event \<Rightarrow> json_map \<Rightarrow> message_record \<Rightarrow> emcomm_error + message_record" where
  "message_update e payload r =
     and_then (message_append e (\<lambda>st. st) r) (\<lambda>r.
       Inr (if map_get payload ''precedence'' \<noteq> None
            then r\<lparr>mr_precedence := precedence_from_payload payload\<rparr> else r))"

definition advance_message ::
    "uuid \<Rightarrow> core_event \<Rightarrow> message_status \<Rightarrow> emcomm_projection \<Rightarrow>
     emcomm_error + emcomm_projection" where
  "advance_message i e st p =
     and_then (hm_try_modify i (message_append e (\<lambda>_. st)) (ep_messages p)) (\<lambda>ms.
       Inr (p\<lparr>ep_messages := ms\<rparr>))"

text \<open>The \<open>match\<close> of \<open>EmCommProjection::apply\<close>; \<open>payload\<close> is the event's payload, an object.\<close>

definition emcomm_step ::
    "libs \<Rightarrow> core_event \<Rightarrow> uuid \<Rightarrow> json_map \<Rightarrow> emcomm_projection \<Rightarrow>
     emcomm_error + emcomm_projection" where
  "emcomm_step L e i payload p =
     (if ev_event_type e = OFFICIAL_LOG_EMCOMM_INCIDENT_OPENED then
        Inr (p\<lparr>ep_incidents := hm_insert i
          \<lparr>ir_incident_id = i,
           ir_record = emcomm_record_new IncidentOpen e (stored L ''incident_id'' i payload)\<rparr>
          (ep_incidents p)\<rparr>)
      else if ev_event_type e = OFFICIAL_LOG_EMCOMM_INCIDENT_UPDATED then
        and_then (hm_try_modify i (incident_append e (\<lambda>st. st)) (ep_incidents p)) (\<lambda>m.
          Inr (p\<lparr>ep_incidents := m\<rparr>))
      else if ev_event_type e = OFFICIAL_LOG_EMCOMM_INCIDENT_CLOSED then
        and_then (hm_try_modify i (incident_append e (\<lambda>_. IncidentClosed)) (ep_incidents p)) (\<lambda>m.
          Inr (p\<lparr>ep_incidents := m\<rparr>))
      else if ev_event_type e = OFFICIAL_LOG_EMCOMM_PERIOD_OPENED then
        and_then (required_uuid L payload ''incident_id'') (\<lambda>incident.
          Inr (p\<lparr>ep_periods := hm_insert i
            \<lparr>dr_period_id = i, dr_incident_id = incident,
             dr_record = emcomm_record_new PeriodOpen e (stored L ''period_id'' i payload)\<rparr>
            (ep_periods p)\<rparr>))
      else if ev_event_type e = OFFICIAL_LOG_EMCOMM_PERIOD_CLOSED then
        and_then (hm_try_modify i (period_append e PeriodClosed) (ep_periods p)) (\<lambda>m.
          Inr (p\<lparr>ep_periods := m\<rparr>))
      else if ev_event_type e = OFFICIAL_LOG_EMCOMM_PERSON_CHECKED_IN then
        and_then (required_uuid L payload ''incident_id'') (\<lambda>incident.
        and_then (optional_uuid L payload ''period_id'') (\<lambda>period.
          Inr (p\<lparr>ep_people := hm_insert i
            \<lparr>sr_person_id = i, sr_incident_id = incident, sr_period_id = period,
             sr_record = emcomm_record_new PersonCheckedIn e (stored L ''person_id'' i payload)\<rparr>
            (ep_people p)\<rparr>)))
      else if ev_event_type e = OFFICIAL_LOG_EMCOMM_PERSON_UPDATED then
        and_then (hm_try_modify i (person_update L e payload) (ep_people p)) (\<lambda>m. Inr (p\<lparr>ep_people := m\<rparr>))
      else if ev_event_type e = OFFICIAL_LOG_EMCOMM_PERSON_CHECKED_OUT then
        and_then (hm_try_modify i (person_append e (\<lambda>_. PersonCheckedOut)) (ep_people p)) (\<lambda>m.
          Inr (p\<lparr>ep_people := m\<rparr>))
      else if ev_event_type e = OFFICIAL_LOG_EMCOMM_ASSIGNMENT_CREATED then
        and_then (required_uuid L payload ''incident_id'') (\<lambda>incident.
        and_then (required_uuid L payload ''person_id'') (\<lambda>person.
          Inr (p\<lparr>ep_assignments := hm_insert i
            \<lparr>gr_assignment_id = i, gr_incident_id = incident, gr_person_id = person,
             gr_record = emcomm_record_new AssignmentActive e (stored L ''assignment_id'' i payload)\<rparr>
            (ep_assignments p)\<rparr>)))
      else if ev_event_type e = OFFICIAL_LOG_EMCOMM_ASSIGNMENT_UPDATED then
        and_then (hm_try_modify i (assignment_append e (\<lambda>st. st)) (ep_assignments p)) (\<lambda>m.
          Inr (p\<lparr>ep_assignments := m\<rparr>))
      else if ev_event_type e = OFFICIAL_LOG_EMCOMM_ASSIGNMENT_RELEASED then
        and_then (hm_try_modify i (assignment_append e (\<lambda>_. AssignmentReleased)) (ep_assignments p))
          (\<lambda>m. Inr (p\<lparr>ep_assignments := m\<rparr>))
      else if ev_event_type e = OFFICIAL_LOG_EMCOMM_MESSAGE_CREATED then
        and_then (required_uuid L payload ''incident_id'') (\<lambda>incident.
        and_then (ok_or (EmMissingField ''message_number'') (map_str payload ''message_number'')) (\<lambda>raw.
        and_then (message_number_parse raw) (\<lambda>number.
          Inr (p\<lparr>ep_messages := hm_insert i
            \<lparr>mr_message_id = i, mr_incident_id = incident, mr_message_number = number,
             mr_precedence = precedence_from_payload payload, mr_form = form_from_payload payload,
             mr_record = emcomm_record_new MessageDraft e (stored L ''message_id'' i payload)\<rparr>
            (ep_messages p)\<rparr>))))
      else if ev_event_type e = OFFICIAL_LOG_EMCOMM_MESSAGE_UPDATED then
        and_then (hm_try_modify i (message_update e payload) (ep_messages p)) (\<lambda>m. Inr (p\<lparr>ep_messages := m\<rparr>))
      else if ev_event_type e = OFFICIAL_LOG_EMCOMM_MESSAGE_TRANSMITTED then
        advance_message i e MessageTransmitted p
      else if ev_event_type e = OFFICIAL_LOG_EMCOMM_MESSAGE_RECEIVED then
        advance_message i e MessageReceived p
      else if ev_event_type e = OFFICIAL_LOG_EMCOMM_MESSAGE_ACKNOWLEDGED then
        advance_message i e MessageAcknowledged p
      else if ev_event_type e = OFFICIAL_LOG_EMCOMM_MESSAGE_CANCELLED then
        advance_message i e MessageCancelled p
      else if ev_event_type e = OFFICIAL_LOG_EMCOMM_ACTIVITY_LOGGED then
        and_then (required_uuid L payload ''incident_id'') (\<lambda>incident.
        and_then (optional_uuid L payload ''period_id'') (\<lambda>period.
          Inr (p\<lparr>ep_activity := ep_activity p @
            [\<lparr>al_activity_id = i, al_incident_id = incident, al_period_id = period,
              al_occurred_at = Option.bind (map_str payload ''occurred_at'') (lib_parse_rfc3339 L),
              al_payload = stored L ''activity_id'' i payload,
              al_event_hash = ev_event_hash e\<rparr>]\<rparr>)))
      else Inr p)"

definition emcomm_apply ::
    "libs \<Rightarrow> core_event \<Rightarrow> emcomm_projection \<Rightarrow> emcomm_error + emcomm_projection" where
  "emcomm_apply L e p =
     (case ev_entity_id e of
        None \<Rightarrow> Inr p
      | Some i \<Rightarrow>
          if \<not> starts_with (ev_event_type e) emcomm_prefix then Inr p
          else and_then (ok_or EmPayloadNotObject (as_object (ev_payload e))) (\<lambda>payload.
            emcomm_step L e i payload p))"

definition emcomm_clear :: "emcomm_projection \<Rightarrow> emcomm_projection" where
  "emcomm_clear p = emcomm_projection_new"

section \<open>Audited collections\<close>

text \<open>
  The contract of a collection of audited records: an event that creates a record starts its
  trail, an event that changes it appends itself, and no other event alters the trail. The
  trail after any replay is then a function of the log.
\<close>

fun audit_trail :: "(core_event \<Rightarrow> bool) \<Rightarrow> (core_event \<Rightarrow> bool) \<Rightarrow> core_event list \<Rightarrow>
    record_change list option \<Rightarrow> record_change list option" where
  "audit_trail created changed [] h = h"
| "audit_trail created changed (e # es) h =
     audit_trail created changed es
       (if created e then Some [change_from e]
        else if changed e then map_option (\<lambda>h. h @ [change_from e]) h else h)"

lemma audit_trail_append:
  "audit_trail c d (xs @ ys) h = audit_trail c d ys (audit_trail c d xs h)"
  by (induction xs arbitrary: h) simp_all

lemma audit_trail_no_creation:
  "\<forall>e\<in>set es. \<not> c e \<Longrightarrow> audit_trail c d es h = map_option (\<lambda>h. h @ map change_from (filter d es)) h"
  by (induction es arbitrary: h) (auto simp: option.map_comp comp_def option.map_ident)

locale audited =
  fixes app :: "core_event \<Rightarrow> 'p \<Rightarrow> 'f + 'p"
    and trail :: "'p \<Rightarrow> uuid \<Rightarrow> record_change list option"
    and created :: "uuid \<Rightarrow> core_event \<Rightarrow> bool"
    and changed :: "uuid \<Rightarrow> core_event \<Rightarrow> bool"
  assumes app_trail: "app e p = Inr p' \<Longrightarrow>
    trail p' i = audit_trail (created i) (changed i) [e] (trail p i)"
begin

lemma replay_trail:
  "replay app es p = Inr p' \<Longrightarrow> trail p' i = audit_trail (created i) (changed i) es (trail p i)"
proof (induction es arbitrary: p)
  case (Cons e es)
  then obtain q where "app e p = Inr q" "replay app es q = Inr p'" by auto
  with Cons.IH app_trail [of e p q i] show ?case by simp
qed simp

text \<open>The trail is the creating event and every later change, in the order of the log.\<close>

lemma trail_complete:
  assumes "replay app (before @ c # later) p = Inr p'" and "created i c"
    and "\<forall>e\<in>set later. \<not> created i e"
  shows "trail p' i = Some (map change_from (c # filter (changed i) later))"
  using replay_trail [OF assms(1), of i] assms(2,3)
  by (simp add: audit_trail_append audit_trail_no_creation)

text \<open>Nothing recorded is lost while the record is not created anew.\<close>

lemma trail_grows:
  assumes "replay app es p = Inr p'" and "trail p i = Some h" and "\<forall>e\<in>set es. \<not> created i e"
  shows "trail p' i = Some (h @ map change_from (filter (changed i) es))"
  using replay_trail [OF assms(1), of i] assms(2,3) by (simp add: audit_trail_no_creation)

end

definition touches :: "string list \<Rightarrow> uuid \<Rightarrow> core_event \<Rightarrow> bool" where
  "touches types i e = (ev_entity_id e = Some i \<and> ev_event_type e \<in> set types)"

definition incident_trail :: "emcomm_projection \<Rightarrow> uuid \<Rightarrow> record_change list option" where
  "incident_trail p i = map_option (\<lambda>r. er_history (ir_record r)) (hm_get (ep_incidents p) i)"

definition period_trail :: "emcomm_projection \<Rightarrow> uuid \<Rightarrow> record_change list option" where
  "period_trail p i = map_option (\<lambda>r. er_history (dr_record r)) (hm_get (ep_periods p) i)"

definition person_trail :: "emcomm_projection \<Rightarrow> uuid \<Rightarrow> record_change list option" where
  "person_trail p i = map_option (\<lambda>r. er_history (sr_record r)) (hm_get (ep_people p) i)"

definition assignment_trail :: "emcomm_projection \<Rightarrow> uuid \<Rightarrow> record_change list option" where
  "assignment_trail p i = map_option (\<lambda>r. er_history (gr_record r)) (hm_get (ep_assignments p) i)"

definition message_trail :: "emcomm_projection \<Rightarrow> uuid \<Rightarrow> record_change list option" where
  "message_trail p i = map_option (\<lambda>r. er_history (mr_record r)) (hm_get (ep_messages p) i)"

definition message_changes :: "string list" where
  "message_changes = [OFFICIAL_LOG_EMCOMM_MESSAGE_UPDATED, OFFICIAL_LOG_EMCOMM_MESSAGE_TRANSMITTED,
     OFFICIAL_LOG_EMCOMM_MESSAGE_RECEIVED, OFFICIAL_LOG_EMCOMM_MESSAGE_ACKNOWLEDGED,
     OFFICIAL_LOG_EMCOMM_MESSAGE_CANCELLED]"

lemma emcomm_append_history:
  "emcomm_append e st r = Inr r' \<Longrightarrow> er_history r' = er_history r @ [change_from e]"
  by (auto simp: emcomm_append_def)

lemma append_histories [simp]:
  "incident_append e f1 r1 = Inr s1 \<Longrightarrow> er_history (ir_record s1) = er_history (ir_record r1) @ [change_from e]"
  "period_append e f2 r2 = Inr s2 \<Longrightarrow> er_history (dr_record s2) = er_history (dr_record r2) @ [change_from e]"
  "person_append e f3 r3 = Inr s3 \<Longrightarrow> er_history (sr_record s3) = er_history (sr_record r3) @ [change_from e]"
  "assignment_append e f4 r4 = Inr s4 \<Longrightarrow>
     er_history (gr_record s4) = er_history (gr_record r4) @ [change_from e]"
  "message_append e f5 r5 = Inr s5 \<Longrightarrow> er_history (mr_record s5) = er_history (mr_record r5) @ [change_from e]"
  by (auto simp: incident_append_def period_append_def person_append_def assignment_append_def
    message_append_def dest: emcomm_append_history)

lemma update_histories [simp]:
  "person_update L e payload r3 = Inr s3 \<Longrightarrow>
     er_history (sr_record s3) = er_history (sr_record r3) @ [change_from e]"
  "message_update e payload r5 = Inr s5 \<Longrightarrow>
     er_history (mr_record s5) = er_history (mr_record r5) @ [change_from e]"
  by (auto simp: person_update_def message_update_def split: option.splits)

lemma hm_try_modify_map:
  assumes "hm_try_modify k f m = Inr m'" and "\<And>v v'. f v = Inr v' \<Longrightarrow> g v' = h (g v)"
  shows "map_option g (hm_get m' x) =
    (if x = k then map_option h (map_option g (hm_get m x)) else map_option g (hm_get m x))"
  using assms by (auto simp: hm_try_modify_def hm_get_insert split: option.splits)

lemma emcomm_types_prefix: "list_all (\<lambda>t. starts_with t emcomm_prefix)
    [OFFICIAL_LOG_EMCOMM_INCIDENT_OPENED, OFFICIAL_LOG_EMCOMM_INCIDENT_UPDATED,
     OFFICIAL_LOG_EMCOMM_INCIDENT_CLOSED, OFFICIAL_LOG_EMCOMM_PERIOD_OPENED,
     OFFICIAL_LOG_EMCOMM_PERIOD_CLOSED, OFFICIAL_LOG_EMCOMM_PERSON_CHECKED_IN,
     OFFICIAL_LOG_EMCOMM_PERSON_UPDATED, OFFICIAL_LOG_EMCOMM_PERSON_CHECKED_OUT,
     OFFICIAL_LOG_EMCOMM_ASSIGNMENT_CREATED, OFFICIAL_LOG_EMCOMM_ASSIGNMENT_UPDATED,
     OFFICIAL_LOG_EMCOMM_ASSIGNMENT_RELEASED, OFFICIAL_LOG_EMCOMM_MESSAGE_CREATED,
     OFFICIAL_LOG_EMCOMM_MESSAGE_UPDATED, OFFICIAL_LOG_EMCOMM_MESSAGE_TRANSMITTED,
     OFFICIAL_LOG_EMCOMM_MESSAGE_RECEIVED, OFFICIAL_LOG_EMCOMM_MESSAGE_ACKNOWLEDGED,
     OFFICIAL_LOG_EMCOMM_MESSAGE_CANCELLED, OFFICIAL_LOG_EMCOMM_ACTIVITY_LOGGED]"
  by code_simp

lemmas emcomm_types_prefixed [simp] = emcomm_types_prefix [unfolded list.pred_inject simp_thms]

text \<open>The effect of an event on each collection, whatever its type.\<close>

lemma emcomm_apply_cases:
  assumes "emcomm_apply L e p = Inr p'"
  obtains (ignored) "p' = p" "ev_entity_id e = None \<or> \<not> starts_with (ev_event_type e) emcomm_prefix"
    | (step) i payload where "ev_entity_id e = Some i" "ev_payload e = JObject payload"
        "emcomm_step L e i payload p = Inr p'"
  using assms by (auto simp: emcomm_apply_def split: option.splits if_splits)

definition incident_changes :: "string list" where
  "incident_changes = [OFFICIAL_LOG_EMCOMM_INCIDENT_UPDATED, OFFICIAL_LOG_EMCOMM_INCIDENT_CLOSED]"

definition period_changes :: "string list" where
  "period_changes = [OFFICIAL_LOG_EMCOMM_PERIOD_CLOSED]"

definition person_changes :: "string list" where
  "person_changes = [OFFICIAL_LOG_EMCOMM_PERSON_UPDATED, OFFICIAL_LOG_EMCOMM_PERSON_CHECKED_OUT]"

definition assignment_changes :: "string list" where
  "assignment_changes = [OFFICIAL_LOG_EMCOMM_ASSIGNMENT_UPDATED, OFFICIAL_LOG_EMCOMM_ASSIGNMENT_RELEASED]"

lemma emcomm_step_incident_trail:
  assumes "emcomm_step L e i payload p = Inr p'" and "ev_entity_id e = Some i"
  shows "incident_trail p' x =
    audit_trail (touches [OFFICIAL_LOG_EMCOMM_INCIDENT_OPENED] x) (touches incident_changes x) [e] (incident_trail p x)"
  using assms unfolding emcomm_step_def advance_message_def
  by (simp split: if_split_asm)
    (auto simp: touches_def incident_trail_def incident_changes_def hm_get_insert emcomm_record_new_def
      hm_try_modify_map [where g = "\<lambda>r. er_history (ir_record r)" and h = "\<lambda>h. h @ [change_from e]"])

lemma emcomm_step_period_trail:
  assumes "emcomm_step L e i payload p = Inr p'" and "ev_entity_id e = Some i"
  shows "period_trail p' x =
    audit_trail (touches [OFFICIAL_LOG_EMCOMM_PERIOD_OPENED] x) (touches period_changes x) [e] (period_trail p x)"
  using assms unfolding emcomm_step_def advance_message_def
  by (simp split: if_split_asm)
    (auto simp: touches_def period_trail_def period_changes_def hm_get_insert emcomm_record_new_def
      hm_try_modify_map [where g = "\<lambda>r. er_history (dr_record r)" and h = "\<lambda>h. h @ [change_from e]"])

lemma emcomm_step_person_trail:
  assumes "emcomm_step L e i payload p = Inr p'" and "ev_entity_id e = Some i"
  shows "person_trail p' x =
    audit_trail (touches [OFFICIAL_LOG_EMCOMM_PERSON_CHECKED_IN] x) (touches person_changes x) [e] (person_trail p x)"
  using assms unfolding emcomm_step_def advance_message_def
  by (simp split: if_split_asm)
    (auto simp: touches_def person_trail_def person_changes_def hm_get_insert emcomm_record_new_def
      hm_try_modify_map [where g = "\<lambda>r. er_history (sr_record r)" and h = "\<lambda>h. h @ [change_from e]"])

lemma emcomm_step_assignment_trail:
  assumes "emcomm_step L e i payload p = Inr p'" and "ev_entity_id e = Some i"
  shows "assignment_trail p' x =
    audit_trail (touches [OFFICIAL_LOG_EMCOMM_ASSIGNMENT_CREATED] x) (touches assignment_changes x) [e] (assignment_trail p x)"
  using assms unfolding emcomm_step_def advance_message_def
  by (simp split: if_split_asm)
    (auto simp: touches_def assignment_trail_def assignment_changes_def hm_get_insert emcomm_record_new_def
      hm_try_modify_map [where g = "\<lambda>r. er_history (gr_record r)" and h = "\<lambda>h. h @ [change_from e]"])

lemma emcomm_step_message_trail:
  assumes "emcomm_step L e i payload p = Inr p'" and "ev_entity_id e = Some i"
  shows "message_trail p' x =
    audit_trail (touches [OFFICIAL_LOG_EMCOMM_MESSAGE_CREATED] x) (touches message_changes x) [e] (message_trail p x)"
  using assms unfolding emcomm_step_def advance_message_def
  by (simp split: if_split_asm)
    (auto simp: touches_def message_trail_def message_changes_def hm_get_insert emcomm_record_new_def
      hm_try_modify_map [where g = "\<lambda>r. er_history (mr_record r)" and h = "\<lambda>h. h @ [change_from e]"])

lemma touches_ignored:
  assumes "ev_entity_id e = None \<or> \<not> starts_with (ev_event_type e) emcomm_prefix"
    and "\<forall>t\<in>set types. starts_with t emcomm_prefix"
  shows "\<not> touches types x e"
  using assms by (auto simp: touches_def)

interpretation incident_log: audited "emcomm_apply L" incident_trail
  "touches [OFFICIAL_LOG_EMCOMM_INCIDENT_OPENED]" "touches incident_changes" for L
proof
  fix e p p' i assume "emcomm_apply L e p = Inr p'"
  then show "incident_trail p' i = audit_trail (touches [OFFICIAL_LOG_EMCOMM_INCIDENT_OPENED] i)
      (touches incident_changes i) [e] (incident_trail p i)"
    by (cases rule: emcomm_apply_cases)
      (simp_all add: touches_ignored incident_changes_def emcomm_step_incident_trail [unfolded incident_changes_def])
qed

interpretation period_log: audited "emcomm_apply L" period_trail
  "touches [OFFICIAL_LOG_EMCOMM_PERIOD_OPENED]" "touches period_changes" for L
proof
  fix e p p' i assume "emcomm_apply L e p = Inr p'"
  then show "period_trail p' i = audit_trail (touches [OFFICIAL_LOG_EMCOMM_PERIOD_OPENED] i)
      (touches period_changes i) [e] (period_trail p i)"
    by (cases rule: emcomm_apply_cases)
      (simp_all add: touches_ignored period_changes_def emcomm_step_period_trail [unfolded period_changes_def])
qed

interpretation person_log: audited "emcomm_apply L" person_trail
  "touches [OFFICIAL_LOG_EMCOMM_PERSON_CHECKED_IN]" "touches person_changes" for L
proof
  fix e p p' i assume "emcomm_apply L e p = Inr p'"
  then show "person_trail p' i = audit_trail (touches [OFFICIAL_LOG_EMCOMM_PERSON_CHECKED_IN] i)
      (touches person_changes i) [e] (person_trail p i)"
    by (cases rule: emcomm_apply_cases)
      (simp_all add: touches_ignored person_changes_def emcomm_step_person_trail [unfolded person_changes_def])
qed

interpretation assignment_log: audited "emcomm_apply L" assignment_trail
  "touches [OFFICIAL_LOG_EMCOMM_ASSIGNMENT_CREATED]" "touches assignment_changes" for L
proof
  fix e p p' i assume "emcomm_apply L e p = Inr p'"
  then show "assignment_trail p' i = audit_trail (touches [OFFICIAL_LOG_EMCOMM_ASSIGNMENT_CREATED] i)
      (touches assignment_changes i) [e] (assignment_trail p i)"
    by (cases rule: emcomm_apply_cases)
      (simp_all add: touches_ignored assignment_changes_def emcomm_step_assignment_trail [unfolded assignment_changes_def])
qed

interpretation message_log: audited "emcomm_apply L" message_trail
  "touches [OFFICIAL_LOG_EMCOMM_MESSAGE_CREATED]" "touches message_changes" for L
proof
  fix e p p' i assume "emcomm_apply L e p = Inr p'"
  then show "message_trail p' i = audit_trail (touches [OFFICIAL_LOG_EMCOMM_MESSAGE_CREATED] i)
      (touches message_changes i) [e] (message_trail p i)"
    by (cases rule: emcomm_apply_cases)
      (simp_all add: touches_ignored message_changes_def emcomm_step_message_trail [unfolded message_changes_def])
qed

section \<open>The invariant\<close>

definition incident_ok :: "uuid \<Rightarrow> incident_record \<Rightarrow> bool" where
  "incident_ok i r = (ir_incident_id r = i \<and> is_object (er_payload (ir_record r)))"

definition period_ok :: "uuid \<Rightarrow> period_record \<Rightarrow> bool" where
  "period_ok i r = (dr_period_id r = i \<and> is_object (er_payload (dr_record r)))"

definition person_ok :: "uuid \<Rightarrow> person_record \<Rightarrow> bool" where
  "person_ok i r = (sr_person_id r = i \<and> is_object (er_payload (sr_record r)))"

definition assignment_ok :: "uuid \<Rightarrow> assignment_record \<Rightarrow> bool" where
  "assignment_ok i r = (gr_assignment_id r = i \<and> is_object (er_payload (gr_record r)))"

definition message_ok :: "uuid \<Rightarrow> message_record \<Rightarrow> bool" where
  "message_ok i r = (mr_message_id r = i \<and> is_object (er_payload (mr_record r)))"

definition emcomm_ok :: "emcomm_projection \<Rightarrow> bool" where
  "emcomm_ok p = (map_ok incident_ok (ep_incidents p) \<and> map_ok period_ok (ep_periods p) \<and> map_ok person_ok (ep_people p) \<and>
     map_ok assignment_ok (ep_assignments p) \<and> map_ok message_ok (ep_messages p))"

lemmas emcomm_oks = incident_ok_def period_ok_def person_ok_def assignment_ok_def message_ok_def

text \<open>The payloads \<open>apply\<close> accepts.\<close>

definition emcomm_payload_ok :: "libs \<Rightarrow> string \<Rightarrow> json_map \<Rightarrow> bool" where
  "emcomm_payload_ok L t m =
     ((t \<in> {OFFICIAL_LOG_EMCOMM_PERIOD_OPENED, OFFICIAL_LOG_EMCOMM_PERSON_CHECKED_IN,
         OFFICIAL_LOG_EMCOMM_ASSIGNMENT_CREATED, OFFICIAL_LOG_EMCOMM_MESSAGE_CREATED,
         OFFICIAL_LOG_EMCOMM_ACTIVITY_LOGGED} \<longrightarrow> is_ok (required_uuid L m ''incident_id'')) \<and>
      (t \<in> {OFFICIAL_LOG_EMCOMM_PERSON_CHECKED_IN, OFFICIAL_LOG_EMCOMM_PERSON_UPDATED,
         OFFICIAL_LOG_EMCOMM_ACTIVITY_LOGGED} \<longrightarrow> is_ok (optional_uuid L m ''period_id'')) \<and>
      (t = OFFICIAL_LOG_EMCOMM_ASSIGNMENT_CREATED \<longrightarrow> is_ok (required_uuid L m ''person_id'')) \<and>
      (t = OFFICIAL_LOG_EMCOMM_MESSAGE_CREATED \<longrightarrow>
         (case map_str m ''message_number'' of None \<Rightarrow> False | Some s \<Rightarrow> is_ok (message_number_parse s))))"

definition emcomm_event_ok :: "libs \<Rightarrow> core_event \<Rightarrow> bool" where
  "emcomm_event_ok L e =
     (ev_entity_id e = None \<or> \<not> starts_with (ev_event_type e) emcomm_prefix \<or>
      (case as_object (ev_payload e) of None \<Rightarrow> False
       | Some m \<Rightarrow> emcomm_payload_ok L (ev_event_type e) m))"

lemma map_ok_try_modify:
  "map_ok P m \<Longrightarrow> hm_try_modify k f m = Inr m' \<Longrightarrow>
   (\<And>v v'. P k v \<Longrightarrow> f v = Inr v' \<Longrightarrow> P k v') \<Longrightarrow> map_ok P m'"
  by (auto simp: hm_try_modify_def intro!: map_ok_insert dest: map_ok_get split: option.splits)

lemma merge_payload_Inr: "merge_payload t q = Inr j \<Longrightarrow> is_object j"
  by (auto simp: merge_payload_def)

lemma merge_payload_Inl_iff:
  "merge_payload t q = Inl err \<longleftrightarrow> err = EmPayloadNotObject \<and> \<not> (is_object t \<and> is_object q)"
  by (auto simp: merge_payload_def and_then_Inl_iff ok_or_def is_object_def split: option.splits)

lemma emcomm_append_ok: "emcomm_append e st r = Inr r' \<Longrightarrow> is_object (er_payload r')"
  by (auto simp: emcomm_append_def dest: merge_payload_Inr)

lemma emcomm_appends_ok:
  "incident_append e f1 r1 = Inr s1 \<Longrightarrow> incident_ok i r1 \<Longrightarrow> incident_ok i s1"
  "period_append e f2 r2 = Inr s2 \<Longrightarrow> period_ok i r2 \<Longrightarrow> period_ok i s2"
  "person_append e f3 r3 = Inr s3 \<Longrightarrow> person_ok i r3 \<Longrightarrow> person_ok i s3"
  "assignment_append e f4 r4 = Inr s4 \<Longrightarrow> assignment_ok i r4 \<Longrightarrow> assignment_ok i s4"
  "message_append e f5 r5 = Inr s5 \<Longrightarrow> message_ok i r5 \<Longrightarrow> message_ok i s5"
  by (auto simp: incident_append_def period_append_def person_append_def assignment_append_def
    message_append_def emcomm_oks dest: emcomm_append_ok)

lemma person_update_ok:
  assumes "person_update L e payload r = Inr s" and "person_ok i r"
  shows "person_ok i s"
proof -
  from assms(1) obtain r' where "person_append e (\<lambda>st. st) r = Inr r'"
    and s: "sr_record s = sr_record r'" "sr_person_id s = sr_person_id r'"
    by (auto simp: person_update_def split: option.splits)
  then have "person_ok i r'" using assms(2) by (blast intro: emcomm_appends_ok)
  with s show ?thesis by (simp add: person_ok_def)
qed

lemma message_update_ok:
  assumes "message_update e payload r = Inr s" and "message_ok i r"
  shows "message_ok i s"
proof -
  from assms(1) obtain r' where "message_append e (\<lambda>st. st) r = Inr r'"
    and s: "mr_record s = mr_record r'" "mr_message_id s = mr_message_id r'"
    by (auto simp: message_update_def)
  then have "message_ok i r'" using assms(2) by (blast intro: emcomm_appends_ok)
  with s show ?thesis by (simp add: message_ok_def)
qed

lemma emcomm_new_ok [simp]:
  "is_object (er_payload (emcomm_record_new st e (stored L k i payload)))"
  by (simp add: emcomm_record_new_def stored_def)

lemma emcomm_ok_put:
  "emcomm_ok p \<Longrightarrow> incident_ok i r0 \<Longrightarrow> emcomm_ok (p\<lparr>ep_incidents := hm_insert i r0 (ep_incidents p)\<rparr>)"
  "emcomm_ok p \<Longrightarrow> period_ok i r1 \<Longrightarrow> emcomm_ok (p\<lparr>ep_periods := hm_insert i r1 (ep_periods p)\<rparr>)"
  "emcomm_ok p \<Longrightarrow> person_ok i r2 \<Longrightarrow> emcomm_ok (p\<lparr>ep_people := hm_insert i r2 (ep_people p)\<rparr>)"
  "emcomm_ok p \<Longrightarrow> assignment_ok i r3 \<Longrightarrow> emcomm_ok (p\<lparr>ep_assignments := hm_insert i r3 (ep_assignments p)\<rparr>)"
  "emcomm_ok p \<Longrightarrow> message_ok i r4 \<Longrightarrow> emcomm_ok (p\<lparr>ep_messages := hm_insert i r4 (ep_messages p)\<rparr>)"
  by (simp_all add: emcomm_ok_def map_ok_insert)

lemma emcomm_ok_modify:
  "emcomm_ok p \<Longrightarrow> hm_try_modify i f0 (ep_incidents p) = Inr m0 \<Longrightarrow>
    (\<And>r s. f0 r = Inr s \<Longrightarrow> incident_ok i r \<Longrightarrow> incident_ok i s) \<Longrightarrow> emcomm_ok (p\<lparr>ep_incidents := m0\<rparr>)"
  "emcomm_ok p \<Longrightarrow> hm_try_modify i f1 (ep_periods p) = Inr m1 \<Longrightarrow>
    (\<And>r s. f1 r = Inr s \<Longrightarrow> period_ok i r \<Longrightarrow> period_ok i s) \<Longrightarrow> emcomm_ok (p\<lparr>ep_periods := m1\<rparr>)"
  "emcomm_ok p \<Longrightarrow> hm_try_modify i f2 (ep_people p) = Inr m2 \<Longrightarrow>
    (\<And>r s. f2 r = Inr s \<Longrightarrow> person_ok i r \<Longrightarrow> person_ok i s) \<Longrightarrow> emcomm_ok (p\<lparr>ep_people := m2\<rparr>)"
  "emcomm_ok p \<Longrightarrow> hm_try_modify i f3 (ep_assignments p) = Inr m3 \<Longrightarrow>
    (\<And>r s. f3 r = Inr s \<Longrightarrow> assignment_ok i r \<Longrightarrow> assignment_ok i s) \<Longrightarrow> emcomm_ok (p\<lparr>ep_assignments := m3\<rparr>)"
  "emcomm_ok p \<Longrightarrow> hm_try_modify i f4 (ep_messages p) = Inr m4 \<Longrightarrow>
    (\<And>r s. f4 r = Inr s \<Longrightarrow> message_ok i r \<Longrightarrow> message_ok i s) \<Longrightarrow> emcomm_ok (p\<lparr>ep_messages := m4\<rparr>)"
  unfolding emcomm_ok_def by (auto elim: map_ok_try_modify)

lemma emcomm_ok_activity: "emcomm_ok (p\<lparr>ep_activity := a\<rparr>) = emcomm_ok p"
  by (simp add: emcomm_ok_def)

lemma emcomm_step_ok:
  assumes "emcomm_ok p" and "emcomm_step L e i payload p = Inr p'"
  shows "emcomm_ok p'"
  using assms unfolding emcomm_step_def advance_message_def
  by (simp split: if_split_asm)
    (auto simp: emcomm_ok_activity emcomm_oks intro!: emcomm_ok_put
      intro: emcomm_ok_modify(1) [OF _ _ emcomm_appends_ok(1)] emcomm_ok_modify(2) [OF _ _ emcomm_appends_ok(2)]
        emcomm_ok_modify(3) [OF _ _ emcomm_appends_ok(3)] emcomm_ok_modify(4) [OF _ _ emcomm_appends_ok(4)]
        emcomm_ok_modify(5) [OF _ _ emcomm_appends_ok(5)] emcomm_ok_modify(3) [OF _ _ person_update_ok]
        emcomm_ok_modify(5) [OF _ _ message_update_ok])

lemma emcomm_apply_ok: "emcomm_ok p \<Longrightarrow> emcomm_apply L e p = Inr p' \<Longrightarrow> emcomm_ok p'"
  by (auto elim!: emcomm_apply_cases intro: emcomm_step_ok)

lemma hm_try_modify_Inl:
  "hm_try_modify k f m = Inl err \<Longrightarrow> \<exists>v. hm_get m k = Some v \<and> f v = Inl err"
  by (auto simp: hm_try_modify_def and_then_Inl_iff split: option.splits)

lemma emcomm_append_Inl:
  "emcomm_append e st r = Inl err \<Longrightarrow> \<not> (is_object (er_payload r) \<and> is_object (ev_payload e))"
  by (auto simp: emcomm_append_def and_then_Inl_iff merge_payload_Inl_iff)

lemma emcomm_appends_Inl:
  "incident_append e f1 r1 = Inl err \<Longrightarrow> incident_ok i r1 \<Longrightarrow> \<not> is_object (ev_payload e)"
  "period_append e f2 r2 = Inl err \<Longrightarrow> period_ok i r2 \<Longrightarrow> \<not> is_object (ev_payload e)"
  "person_append e f3 r3 = Inl err \<Longrightarrow> person_ok i r3 \<Longrightarrow> \<not> is_object (ev_payload e)"
  "assignment_append e f4 r4 = Inl err \<Longrightarrow> assignment_ok i r4 \<Longrightarrow> \<not> is_object (ev_payload e)"
  "message_append e f5 r5 = Inl err \<Longrightarrow> message_ok i r5 \<Longrightarrow> \<not> is_object (ev_payload e)"
  "message_update e payload r5 = Inl err \<Longrightarrow> message_ok i r5 \<Longrightarrow> \<not> is_object (ev_payload e)"
  by (auto simp: incident_append_def period_append_def person_append_def assignment_append_def
    message_append_def message_update_def emcomm_oks and_then_Inl_iff dest: emcomm_append_Inl)

lemma person_update_Inl:
  "person_update L e payload r = Inl err \<Longrightarrow> person_ok i r \<Longrightarrow>
   \<not> is_object (ev_payload e) \<or> \<not> is_ok (optional_uuid L payload ''period_id'')"
  by (auto simp: person_update_def and_then_Inl_iff dest: emcomm_appends_Inl)

lemma emcomm_ok_gets:
  "emcomm_ok p \<Longrightarrow> hm_get (ep_incidents p) i = Some r1 \<Longrightarrow> incident_ok i r1"
  "emcomm_ok p \<Longrightarrow> hm_get (ep_periods p) i = Some r2 \<Longrightarrow> period_ok i r2"
  "emcomm_ok p \<Longrightarrow> hm_get (ep_people p) i = Some r3 \<Longrightarrow> person_ok i r3"
  "emcomm_ok p \<Longrightarrow> hm_get (ep_assignments p) i = Some r4 \<Longrightarrow> assignment_ok i r4"
  "emcomm_ok p \<Longrightarrow> hm_get (ep_messages p) i = Some r5 \<Longrightarrow> message_ok i r5"
  by (auto simp: emcomm_ok_def map_ok_def)

lemma emcomm_step_error:
  assumes "emcomm_ok p" and "emcomm_step L e i payload p = Inl err" and "ev_payload e = JObject payload"
  shows "\<not> emcomm_payload_ok L (ev_event_type e) payload"
  using assms unfolding emcomm_step_def advance_message_def
  by (simp split: if_split_asm)
    (auto simp: emcomm_payload_ok_def and_then_Inl_iff ok_or_def split: option.split_asm
      dest!: hm_try_modify_Inl dest: emcomm_ok_gets person_update_Inl emcomm_appends_Inl)

lemma emcomm_apply_total:
  assumes "emcomm_ok p" and "emcomm_event_ok L e"
  shows "\<exists>p'. emcomm_apply L e p = Inr p'"
proof (cases "emcomm_apply L e p")
  case (Inl err)
  with assms show ?thesis
    by (auto simp: emcomm_apply_def emcomm_event_ok_def and_then_Inl_iff ok_or_def
      split: option.splits if_splits dest: emcomm_step_error)
qed simp

interpretation emcomm: projection "emcomm_apply L" emcomm_clear emcomm_ok "emcomm_event_ok L" for L
proof
  show "emcomm_ok (emcomm_clear p)" for p
    by (simp add: emcomm_clear_def emcomm_projection_new_def emcomm_ok_def)
qed (auto simp: emcomm_clear_def intro: emcomm_apply_ok emcomm_apply_total)

section \<open>Facts about message numbers\<close>

lemma filter_uppercase: "to_ascii_uppercase (filter P (to_ascii_uppercase s)) = filter P (to_ascii_uppercase s)"
  by (induction s) (simp_all add: to_ascii_uppercase_def)

lemma message_number_new_uppercase:
  "to_ascii_uppercase (mn_station_prefix (message_number_new s n)) = mn_station_prefix (message_number_new s n)"
  by (simp add: message_number_new_def filter_uppercase)

lemma pad4_show: "list_all is_ascii_digit (pad4 (show_nat n))" "digits_value (pad4 (show_nat n)) = n"
    "pad4 (show_nat n) \<noteq> []" "hyphen \<notin> set (pad4 (show_nat n))"
proof -
  have z: "is_ascii_digit (CHR ''0'')" and h: "\<not> is_ascii_digit hyphen" by code_simp+
  then show d: "list_all is_ascii_digit (pad4 (show_nat n))"
    by (simp add: pad4_def show_nat_digits list_all_append) (simp add: list_all_iff)
  show "digits_value (pad4 (show_nat n)) = n" by (simp add: pad4_def digits_value_zeros show_nat_value)
  show "pad4 (show_nat n) \<noteq> []" by (simp add: pad4_def)
  show "hyphen \<notin> set (pad4 (show_nat n))" by (rule digits_no_char [OF d h])
qed

lemma parse_display:
  assumes "trim (mn_station_prefix n) \<noteq> []" and "mn_sequence n \<noteq> 0"
    and "to_ascii_uppercase (mn_station_prefix n) = mn_station_prefix n"
  shows "message_number_parse (message_number_display n) = Inr n"
proof -
  have "unat (mn_sequence n) < 2 ^ 32" using unsigned_less [of "mn_sequence n"] by simp
  then have "parse_u32 (pad4 (show_nat (unat (mn_sequence n)))) = Some (unat (mn_sequence n))"
    by (simp add: parse_u32_digits pad4_show)
  moreover have "unat (mn_sequence n) \<noteq> 0" using assms(2) by (simp add: unsigned_eq_0_iff)
  ultimately show ?thesis using assms(1,3)
    by (simp add: message_number_parse_def message_number_display_def rsplit_once_append
      [where t = "pad4 _", simplified] pad4_show)
qed

lemma parse_sequence_nonzero:
  assumes "message_number_parse s = Inr n"
  shows "mn_sequence n \<noteq> 0"
proof -
  from assms obtain k where "k \<noteq> 0" "k < 2 ^ 32" "mn_sequence n = of_nat k"
    by (auto simp: message_number_parse_def parse_u32_def Let_def split: option.splits if_splits prod.splits)
  then have "unat (mn_sequence n) = k" by (simp add: unsigned_of_nat take_bit_nat_eq_self)
  with \<open>k \<noteq> 0\<close> show ?thesis by auto
qed

lemma fold_max_ge: "a \<le> fold max xs a \<and> (\<forall>x\<in>set xs. x \<le> fold max xs a)" for a :: "'a::linorder"
proof (induction xs arbitrary: a)
  case (Cons x xs)
  from Cons [of "max x a"] show ?case by auto
qed simp

lemma fold_max_in: "fold max xs a \<in> insert a (set xs)" for a :: "'a::linorder"
  by (induction xs arbitrary: a) (auto simp: max_def split: if_splits)

lemma next_message_number_fresh:
  assumes "m \<in> set (messages_for_incident p i)"
    and "- 1 \<notin> set (station_sequences p i (mn_station_prefix (message_number_new s 1)))"
  shows "mr_message_number m \<noteq> next_message_number p i s"
proof
  assume eq: "mr_message_number m = next_message_number p i s"
  let ?seqs = "station_sequences p i (mn_station_prefix (message_number_new s 1))"
  have "mn_sequence (mr_message_number m) \<in> set ?seqs"
    using assms(1) eq by (auto simp: station_sequences_def messages_for_incident_def
      next_message_number_def Let_def image_iff)
  then have "mn_sequence (mr_message_number m) \<le> fold max ?seqs 0" using fold_max_ge by blast
  moreover have "fold max ?seqs 0 \<noteq> - 1"
    using fold_max_in [of ?seqs 0] assms(2) by auto
  ultimately have "mn_sequence (mr_message_number m) < saturating_succ (fold max ?seqs 0)"
    using saturating_succ_greater by (meson le_less_trans)
  then show False unfolding eq by (simp add: next_message_number_def Let_def)
qed

lemma next_message_number_own_station:
  "mn_station_prefix (next_message_number p i s) = mn_station_prefix (message_number_new s n)"
  by (simp add: next_message_number_def message_number_new_def Let_def)

lemma messages_for_incident_sorted: "sorted (map message_key (messages_for_incident p i))"
  by (simp add: messages_for_incident_def)

end
