(* ===== verification/Proposal.thy ===== *)
theory Proposal
  imports Store Bus Permissions Emcomm
begin

text \<open>
  Proposals (\<open>ham-core/src/proposal.rs\<close>): who may submit what, the schema checks against the
  current projections, the translation into an official event and \<open>submit_proposal\<close> with
  the runtime events it publishes. The store is any \<open>store_ops\<close>; the bus is the in-memory
  bus, whose \<open>publish\<close> never fails.
\<close>

section \<open>Roles and capabilities\<close>

datatype operator_role = ReadOnly | LoggerRole | Admin

definition admin_proposals :: "string list" where
  "admin_proposals =
    [PROPOSAL_QSO_CREATE, PROPOSAL_QSO_CORRECT, PROPOSAL_QSO_DELETE, PROPOSAL_QSO_RESTORE,
     PROPOSAL_QSO_NOTE_ADD, PROPOSAL_ACTIVATION_CREATE, PROPOSAL_ACTIVATION_UPDATE,
     PROPOSAL_ACTIVATION_START, PROPOSAL_ACTIVATION_END, PROPOSAL_ACTIVATION_CANCEL,
     PROPOSAL_ACTIVATION_NOTE_ADD, PROPOSAL_QSO_ACTIVATION_LINK,
     PROPOSAL_QSO_ACTIVATION_UNLINK, PROPOSAL_NET_TEMPLATE_CREATE,
     PROPOSAL_NET_TEMPLATE_UPDATE, PROPOSAL_NET_SESSION_START, PROPOSAL_NET_SESSION_END,
     PROPOSAL_NET_SESSION_CANCEL, PROPOSAL_NET_CHECKIN_CREATE, PROPOSAL_NET_CHECKIN_UPDATE,
     PROPOSAL_NET_CHECKIN_DELETE, PROPOSAL_NET_TRAFFIC_CREATE, PROPOSAL_NET_TRAFFIC_UPDATE,
     PROPOSAL_NET_REPORT_EXPORT, PROPOSAL_EMCOMM_INCIDENT_OPEN,
     PROPOSAL_EMCOMM_INCIDENT_UPDATE, PROPOSAL_EMCOMM_INCIDENT_CLOSE,
     PROPOSAL_EMCOMM_PERIOD_OPEN, PROPOSAL_EMCOMM_PERIOD_CLOSE,
     PROPOSAL_EMCOMM_PERSON_CHECK_IN, PROPOSAL_EMCOMM_PERSON_UPDATE,
     PROPOSAL_EMCOMM_PERSON_CHECK_OUT, PROPOSAL_EMCOMM_ASSIGNMENT_CREATE,
     PROPOSAL_EMCOMM_ASSIGNMENT_UPDATE, PROPOSAL_EMCOMM_ASSIGNMENT_RELEASE,
     PROPOSAL_EMCOMM_MESSAGE_CREATE, PROPOSAL_EMCOMM_MESSAGE_UPDATE,
     PROPOSAL_EMCOMM_MESSAGE_TRANSMIT, PROPOSAL_EMCOMM_MESSAGE_RECEIVE,
     PROPOSAL_EMCOMM_MESSAGE_ACKNOWLEDGE, PROPOSAL_EMCOMM_MESSAGE_CANCEL,
     PROPOSAL_EMCOMM_ACTIVITY_LOG]"

definition can_submit :: "operator_role \<Rightarrow> string \<Rightarrow> bool" where
  "can_submit role t =
     (case role of
        ReadOnly \<Rightarrow> False
      | LoggerRole \<Rightarrow> t = PROPOSAL_QSO_CREATE \<or> t = PROPOSAL_QSO_CORRECT
      | Admin \<Rightarrow> t \<in> set admin_proposals)"

record proposal_context =
  pc_plugin_manifest :: plugin_manifest
  pc_operator_role :: operator_role
  pc_permission_grants :: grant_set

definition local_admin :: "plugin_manifest \<Rightarrow> operator_role \<Rightarrow> world \<Rightarrow> proposal_context \<times> world" where
  "local_admin m role w =
     (let (gs, w) = grants_for_manifest m w
      in (\<lparr>pc_plugin_manifest = m, pc_operator_role = role, pc_permission_grants = gs\<rparr>, w))"

definition capability_requirements :: "(string \<times> plugin_capability) list" where
  "capability_requirements =
    [(PROPOSAL_QSO_CREATE, QsoCreate),
     (PROPOSAL_QSO_CORRECT, QsoCorrect),
     (PROPOSAL_QSO_DELETE, QsoDelete),
     (PROPOSAL_QSO_RESTORE, QsoRestore),
     (PROPOSAL_QSO_NOTE_ADD, QsoNoteAdd),
     (PROPOSAL_ACTIVATION_CREATE, ActivationCreate),
     (PROPOSAL_ACTIVATION_START, ActivationCreate),
     (PROPOSAL_ACTIVATION_UPDATE, ActivationUpdate),
     (PROPOSAL_ACTIVATION_NOTE_ADD, ActivationUpdate),
     (PROPOSAL_ACTIVATION_END, ActivationEnd),
     (PROPOSAL_ACTIVATION_CANCEL, ActivationCancel),
     (PROPOSAL_QSO_ACTIVATION_LINK, QsoCorrect),
     (PROPOSAL_QSO_ACTIVATION_UNLINK, QsoCorrect),
     (PROPOSAL_NET_TEMPLATE_CREATE, NetTemplateCreate),
     (PROPOSAL_NET_TEMPLATE_UPDATE, NetTemplateUpdate),
     (PROPOSAL_NET_SESSION_START, NetSessionStart),
     (PROPOSAL_NET_SESSION_END, NetSessionEnd),
     (PROPOSAL_NET_SESSION_CANCEL, NetSessionEnd),
     (PROPOSAL_NET_CHECKIN_CREATE, NetCheckinCreate),
     (PROPOSAL_NET_CHECKIN_UPDATE, NetCheckinUpdate),
     (PROPOSAL_NET_CHECKIN_DELETE, NetCheckinDelete),
     (PROPOSAL_NET_TRAFFIC_CREATE, NetTrafficManage),
     (PROPOSAL_NET_TRAFFIC_UPDATE, NetTrafficManage),
     (PROPOSAL_NET_REPORT_EXPORT, NetReportExport),
     (PROPOSAL_EMCOMM_INCIDENT_OPEN, EmCommIncidentManage),
     (PROPOSAL_EMCOMM_INCIDENT_UPDATE, EmCommIncidentManage),
     (PROPOSAL_EMCOMM_INCIDENT_CLOSE, EmCommIncidentManage),
     (PROPOSAL_EMCOMM_PERIOD_OPEN, EmCommPeriodManage),
     (PROPOSAL_EMCOMM_PERIOD_CLOSE, EmCommPeriodManage),
     (PROPOSAL_EMCOMM_PERSON_CHECK_IN, EmCommPersonManage),
     (PROPOSAL_EMCOMM_PERSON_UPDATE, EmCommPersonManage),
     (PROPOSAL_EMCOMM_PERSON_CHECK_OUT, EmCommPersonManage),
     (PROPOSAL_EMCOMM_ASSIGNMENT_CREATE, EmCommAssignmentManage),
     (PROPOSAL_EMCOMM_ASSIGNMENT_UPDATE, EmCommAssignmentManage),
     (PROPOSAL_EMCOMM_ASSIGNMENT_RELEASE, EmCommAssignmentManage),
     (PROPOSAL_EMCOMM_MESSAGE_CREATE, EmCommMessageManage),
     (PROPOSAL_EMCOMM_MESSAGE_UPDATE, EmCommMessageManage),
     (PROPOSAL_EMCOMM_MESSAGE_TRANSMIT, EmCommMessageManage),
     (PROPOSAL_EMCOMM_MESSAGE_RECEIVE, EmCommMessageManage),
     (PROPOSAL_EMCOMM_MESSAGE_ACKNOWLEDGE, EmCommMessageManage),
     (PROPOSAL_EMCOMM_MESSAGE_CANCEL, EmCommMessageManage),
     (PROPOSAL_EMCOMM_ACTIVITY_LOG, EmCommActivityLog)]"

section \<open>Errors and their messages\<close>

datatype proposal_error =
    PluginMismatch string string
  | MissingPluginCapability plugin_capability
  | PluginPermissionDenied string
  | PermissionDenied operator_role string
  | UnsupportedProposalType string
  | InvalidSchema string
  | PrStore store_error

definition required_capability :: "string \<Rightarrow> proposal_error + plugin_capability" where
  "required_capability t =
     (case map_of capability_requirements t of
        Some c \<Rightarrow> Inr c
      | None \<Rightarrow> Inl (UnsupportedProposalType t))"

text \<open>\<open>Debug\<close> of a capability is the name of its constructor.\<close>

primrec capability_debug :: "plugin_capability \<Rightarrow> string" where
  "capability_debug QsoView = ''QsoView''"
| "capability_debug QsoCreate = ''QsoCreate''"
| "capability_debug QsoCorrect = ''QsoCorrect''"
| "capability_debug QsoDelete = ''QsoDelete''"
| "capability_debug QsoRestore = ''QsoRestore''"
| "capability_debug QsoNoteAdd = ''QsoNoteAdd''"
| "capability_debug QsoViewDeleted = ''QsoViewDeleted''"
| "capability_debug ActivationCreate = ''ActivationCreate''"
| "capability_debug ActivationUpdate = ''ActivationUpdate''"
| "capability_debug ActivationEnd = ''ActivationEnd''"
| "capability_debug ActivationCancel = ''ActivationCancel''"
| "capability_debug ActivationView = ''ActivationView''"
| "capability_debug AdifImport = ''AdifImport''"
| "capability_debug AdifExport = ''AdifExport''"
| "capability_debug SyncLanDiscovery = ''SyncLanDiscovery''"
| "capability_debug SyncLanPull = ''SyncLanPull''"
| "capability_debug SyncLanPush = ''SyncLanPush''"
| "capability_debug SyncCloudConnect = ''SyncCloudConnect''"
| "capability_debug SyncCloudPull = ''SyncCloudPull''"
| "capability_debug SyncCloudPush = ''SyncCloudPush''"
| "capability_debug LookupCallsign = ''LookupCallsign''"
| "capability_debug LookupEntity = ''LookupEntity''"
| "capability_debug LookupGrid = ''LookupGrid''"
| "capability_debug LookupCacheRead = ''LookupCacheRead''"
| "capability_debug LookupCacheWrite = ''LookupCacheWrite''"
| "capability_debug NetworkExternalLookup = ''NetworkExternalLookup''"
| "capability_debug QsoSuggestFields = ''QsoSuggestFields''"
| "capability_debug RigView = ''RigView''"
| "capability_debug RigControlFrequency = ''RigControlFrequency''"
| "capability_debug RigControlMode = ''RigControlMode''"
| "capability_debug RigControlPtt = ''RigControlPtt''"
| "capability_debug RigControlSplit = ''RigControlSplit''"
| "capability_debug RigReadState = ''RigReadState''"
| "capability_debug RigConfigure = ''RigConfigure''"
| "capability_debug DiagnosticsViewLogs = ''DiagnosticsViewLogs''"
| "capability_debug DiagnosticsExport = ''DiagnosticsExport''"
| "capability_debug DiagnosticsUpload = ''DiagnosticsUpload''"
| "capability_debug ServiceProviderRegister = ''ServiceProviderRegister''"
| "capability_debug ServiceProviderConfigure = ''ServiceProviderConfigure''"
| "capability_debug ServiceProviderEnable = ''ServiceProviderEnable''"
| "capability_debug ServiceProviderDisable = ''ServiceProviderDisable''"
| "capability_debug ServiceCacheRead = ''ServiceCacheRead''"
| "capability_debug ServiceCacheWrite = ''ServiceCacheWrite''"
| "capability_debug ServiceCacheClear = ''ServiceCacheClear''"
| "capability_debug UploadLog = ''UploadLog''"
| "capability_debug UploadConfirmationPull = ''UploadConfirmationPull''"
| "capability_debug UploadQueueManage = ''UploadQueueManage''"
| "capability_debug UploadStatusView = ''UploadStatusView''"
| "capability_debug NetworkExternalUpload = ''NetworkExternalUpload''"
| "capability_debug SpottingView = ''SpottingView''"
| "capability_debug SpottingConfigure = ''SpottingConfigure''"
| "capability_debug NetworkExternalSpotting = ''NetworkExternalSpotting''"
| "capability_debug MapView = ''MapView''"
| "capability_debug MapConfigure = ''MapConfigure''"
| "capability_debug NetworkExternalMap = ''NetworkExternalMap''"
| "capability_debug WeatherView = ''WeatherView''"
| "capability_debug NetworkExternalWeather = ''NetworkExternalWeather''"
| "capability_debug PropagationView = ''PropagationView''"
| "capability_debug NetworkExternalPropagation = ''NetworkExternalPropagation''"
| "capability_debug AutomationManage = ''AutomationManage''"
| "capability_debug NotificationView = ''NotificationView''"
| "capability_debug StationProfileView = ''StationProfileView''"
| "capability_debug StationProfileManage = ''StationProfileManage''"
| "capability_debug StationEquipmentView = ''StationEquipmentView''"
| "capability_debug StationEquipmentManage = ''StationEquipmentManage''"
| "capability_debug StationProfileUse = ''StationProfileUse''"
| "capability_debug CredentialViewMetadata = ''CredentialViewMetadata''"
| "capability_debug CredentialCreate = ''CredentialCreate''"
| "capability_debug CredentialUpdate = ''CredentialUpdate''"
| "capability_debug CredentialDelete = ''CredentialDelete''"
| "capability_debug CredentialUse = ''CredentialUse''"
| "capability_debug CredentialTest = ''CredentialTest''"
| "capability_debug NetView = ''NetView''"
| "capability_debug NetTemplateCreate = ''NetTemplateCreate''"
| "capability_debug NetTemplateUpdate = ''NetTemplateUpdate''"
| "capability_debug NetSessionStart = ''NetSessionStart''"
| "capability_debug NetSessionEnd = ''NetSessionEnd''"
| "capability_debug NetCheckinCreate = ''NetCheckinCreate''"
| "capability_debug NetCheckinUpdate = ''NetCheckinUpdate''"
| "capability_debug NetCheckinDelete = ''NetCheckinDelete''"
| "capability_debug NetTrafficManage = ''NetTrafficManage''"
| "capability_debug NetReportExport = ''NetReportExport''"
| "capability_debug EmCommView = ''EmCommView''"
| "capability_debug EmCommIncidentManage = ''EmCommIncidentManage''"
| "capability_debug EmCommPeriodManage = ''EmCommPeriodManage''"
| "capability_debug EmCommPersonManage = ''EmCommPersonManage''"
| "capability_debug EmCommAssignmentManage = ''EmCommAssignmentManage''"
| "capability_debug EmCommMessageManage = ''EmCommMessageManage''"
| "capability_debug EmCommActivityLog = ''EmCommActivityLog''"
| "capability_debug UiPanelRegister = ''UiPanelRegister''"
| "capability_debug UiCommandRegister = ''UiCommandRegister''"
| "capability_debug SettingsRead = ''SettingsRead''"
| "capability_debug SettingsWrite = ''SettingsWrite''"
| "capability_debug (CapOther s) = ''Other('' @ debug_str s @ '')''"

fun role_debug :: "operator_role \<Rightarrow> string" where
  "role_debug ReadOnly = ''ReadOnly''"
| "role_debug LoggerRole = ''Logger''"
| "role_debug Admin = ''Admin''"

fun chain_error_message :: "libs \<Rightarrow> chain_error \<Rightarrow> string" where
  "chain_error_message L (InvalidHash i) = ''event '' @ lib_show_uuid L i @ '' has an invalid hash''"
| "chain_error_message L (PreviousHashMismatch i expected actual) =
     ''event '' @ lib_show_uuid L i @ '' expected previous hash '' @ debug_opt_str expected @
     '', found '' @ debug_opt_str actual"
| "chain_error_message L (HeadMismatch h actual) =
     ''stored head '' @ debug_opt_str h @ '' does not match final event hash '' @ debug_opt_str actual"

fun store_error_message :: "libs \<Rightarrow> store_error \<Rightarrow> string" where
  "store_error_message L (EventNotFound i) = ''event not found: '' @ lib_show_uuid L i"
| "store_error_message L (ChainVerification e) =
     ''chain verification failed: '' @ chain_error_message L e"
| "store_error_message L (ProjectionFailed m) = ''projection rebuild failed: '' @ m"
| "store_error_message L (StoreIo m) = ''event store I/O error: '' @ m"
| "store_error_message L (StoreSerde m) = ''event store serialization error: '' @ m"
| "store_error_message L (InvalidRemoteHash i) =
     ''remote event '' @ lib_show_uuid L i @ '' has an invalid hash''"
| "store_error_message L (UnsupportedSchemaVersion i v) =
     ''remote event '' @ lib_show_uuid L i @ '' uses unsupported schema version '' @ show_nat (unat v)"
| "store_error_message L (UnsupportedEventType i t) =
     ''remote event '' @ lib_show_uuid L i @ '' has unsupported event type '' @ t"
| "store_error_message L (RemotePreviousHashMismatch i expected actual) =
     ''remote event '' @ lib_show_uuid L i @ '' previous hash '' @ debug_opt_str actual @
     '' does not connect to local head '' @ debug_opt_str expected"
| "store_error_message L (DuplicateEventConflict i) =
     ''remote event id '' @ lib_show_uuid L i @ '' already exists with different content''"

fun permission_error_message :: "permission_error \<Rightarrow> string" where
  "permission_error_message (UnknownPermission p) = ''unknown permission '' @ p"
| "permission_error_message (NotGranted plugin p) =
     ''permission '' @ p @ '' is not granted for plugin '' @ plugin"
| "permission_error_message (PermIo m) = ''permission storage error: '' @ m"
| "permission_error_message (PermSerde m) = ''permission serialization error: '' @ m"

fun net_error_message :: "net_error \<Rightarrow> string" where
  "net_error_message NetPayloadMustBeObject = ''net event payload must be an object''"
| "net_error_message (NetInvalidUuid f) = ''net payload field '' @ f @ '' must be a uuid string''"

fun proposal_error_message :: "libs \<Rightarrow> proposal_error \<Rightarrow> string" where
  "proposal_error_message L (PluginMismatch p m) =
     ''plugin id mismatch: proposal came from '' @ p @ '', manifest is '' @ m"
| "proposal_error_message L (MissingPluginCapability c) =
     ''plugin is missing required capability '' @ capability_debug c"
| "proposal_error_message L (PluginPermissionDenied m) = ''plugin permission denied: '' @ m"
| "proposal_error_message L (PermissionDenied role t) =
     ''operator role '' @ role_debug role @ '' cannot submit '' @ t"
| "proposal_error_message L (UnsupportedProposalType t) = ''unsupported proposal type '' @ t"
| "proposal_error_message L (InvalidSchema m) = ''invalid proposal schema: '' @ m"
| "proposal_error_message L (PrStore e) = ''event store error: '' @ store_error_message L e"

section \<open>Checks of the payload\<close>

abbreviation invalid :: "string \<Rightarrow> proposal_error fault + 'a" where
  "invalid m \<equiv> Inl (Fail (InvalidSchema m))"

type_synonym checked = "proposal_error fault + unit"

definition check_that :: "bool \<Rightarrow> string \<Rightarrow> checked" where
  "check_that c m = ensure c (Fail (InvalidSchema m))"

definition require_string :: "json_map \<Rightarrow> string \<Rightarrow> string \<Rightarrow> checked" where
  "require_string payload field label =
     check_that (has_string payload field) (label @ '' requires string field `'' @ field @ ''`'')"

definition timestamp_field :: "libs \<Rightarrow> json_map \<Rightarrow> string \<Rightarrow> datetime option" where
  "timestamp_field L payload key = Option.bind (map_str payload key) (lib_parse_rfc3339 L)"

definition validate_ended_after_started :: "libs \<Rightarrow> json_map \<Rightarrow> checked" where
  "validate_ended_after_started L payload =
     (case (timestamp_field L payload ''started_at'', timestamp_field L payload ''ended_at'') of
        (Some started_at, Some ended_at) \<Rightarrow>
          if ended_at \<le> started_at then invalid ''ended_at must be after started_at'' else Inr ()
      | _ \<Rightarrow> Inr ())"

text \<open>The offset of the parsed value is always UTC after \<open>with_timezone(&Utc)\<close>, so the last
  check of \<open>validate_started_at\<close> never refuses.\<close>

definition validate_started_at :: "libs \<Rightarrow> json_map \<Rightarrow> checked" where
  "validate_started_at L payload =
     (case map_str payload ''started_at'' of
        None \<Rightarrow> invalid ''started_at is required''
      | Some started_at \<Rightarrow>
          check_that (lib_parse_rfc3339 L started_at \<noteq> None)
            ''started_at must be a valid UTC/RFC3339 timestamp'')"

definition validate_checkin_time :: "libs \<Rightarrow> json_map \<Rightarrow> checked" where
  "validate_checkin_time L payload =
     (case map_str payload ''checkin_time'' of
        None \<Rightarrow> invalid ''checkin_time is required''
      | Some checkin_time \<Rightarrow>
          check_that (lib_parse_rfc3339 L checkin_time \<noteq> None)
            ''checkin_time must be a valid UTC/RFC3339 timestamp'')"

definition validate_frequency :: "json_map \<Rightarrow> checked" where
  "validate_frequency payload =
     (case map_get payload ''frequency_hz'' of
        None \<Rightarrow> Inr ()
      | Some v \<Rightarrow>
          (case as_u64 v of
             None \<Rightarrow> invalid ''frequency_hz must be a positive integer''
           | Some f \<Rightarrow> check_that (f \<noteq> 0) ''frequency_hz must be positive''))"

definition validate_activation_payload :: "libs \<Rightarrow> json_map \<Rightarrow> bool \<Rightarrow> checked" where
  "validate_activation_payload L payload require_started_at =
     and_then (try_all (\<lambda>field. check_that (has_string payload field)
         (''activation requires string field `'' @ field @ ''`''))
       [''activation_type'', ''station_callsign'', ''operator_callsign'']) (\<lambda>_.
     and_then (check_that (\<not> (require_started_at \<and> \<not> has_string payload ''started_at''))
         ''starting an activation requires started_at'') (\<lambda>_.
     let kind = to_ascii_lowercase (map_str_or_empty payload ''activation_type'') in
     and_then (if kind = ''pota'' \<and> \<not> has_string payload ''park_id''
         then invalid ''POTA activation requires park_id''
         else if kind = ''sota'' \<and> \<not> has_string payload ''summit_id''
         then invalid ''SOTA activation requires summit_id''
         else Inr ()) (\<lambda>_.
       validate_ended_after_started L payload)))"

definition require_non_empty_correction :: "json_map \<Rightarrow> string \<Rightarrow> checked" where
  "require_non_empty_correction payload label =
     check_that (payload \<noteq> []) (label @ '' must change at least one field'')"

definition validate_message_number :: "json_map \<Rightarrow> checked" where
  "validate_message_number payload =
     check_that (is_ok (message_number_parse (map_str_or_empty payload ''message_number'')))
       ''message_number must be a station-scoped number such as `KE8YGW-0007`''"

definition validate_message_precedence :: "json_map \<Rightarrow> checked" where
  "validate_message_precedence payload =
     (case map_get payload ''precedence'' of
        None \<Rightarrow> Inr ()
      | Some value \<Rightarrow>
          let precedence = to_ascii_lowercase (case as_str value of None \<Rightarrow> [] | Some s \<Rightarrow> s)
          in check_that (precedence \<in> {''emergency'', ''priority'', ''immediate'', ''routine''})
               ''precedence must be emergency, priority, immediate, or routine'')"

section \<open>Checks against the projections\<close>

definition require_entity_id :: "proposal_envelope \<Rightarrow> proposal_error fault + uuid" where
  "require_entity_id p =
     ok_or (Fail (InvalidSchema ''qso correction/delete requires entity_id'')) (pr_entity_id p)"

definition require_existing_qso ::
    "'s store_ops \<Rightarrow> libs \<Rightarrow> 's \<Rightarrow> proposal_envelope \<Rightarrow> proposal_error fault + uuid" where
  "require_existing_qso ops L s p =
     and_then (require_entity_id p) (\<lambda>q.
     and_then (map_err (map_fault PrStore) (op_rebuild_projections ops s (pr_logbook_id p))) (\<lambda>proj.
       if qso_get_including_deleted proj q = None
       then invalid (''qso_id '' @ lib_show_uuid L q @ '' does not exist'') else Inr q))"

definition require_existing_activation ::
    "'s store_ops \<Rightarrow> libs \<Rightarrow> 's \<Rightarrow> proposal_envelope \<Rightarrow> proposal_error fault + uuid" where
  "require_existing_activation ops L s p =
     and_then (require_entity_id p) (\<lambda>a.
     and_then (map_err (map_fault PrStore)
         (op_rebuild_activation_projections ops s (pr_logbook_id p))) (\<lambda>proj.
       if activation_get proj a = None
       then invalid (''activation_id '' @ lib_show_uuid L a @ '' does not exist'') else Inr a))"

fun net_fault :: "net_error fault \<Rightarrow> proposal_error fault" where
  "net_fault (Fail e) = Fail (InvalidSchema (net_error_message e))"
| "net_fault Panicked = Panicked"

definition rebuild_net_projection ::
    "'s store_ops \<Rightarrow> libs \<Rightarrow> 's \<Rightarrow> uuid \<Rightarrow> proposal_error fault + net_projection" where
  "rebuild_net_projection ops L s lb =
     and_then (map_err (\<lambda>e. Fail (PrStore e)) (op_list_events ops s lb)) (\<lambda>events.
       map_err net_fault (rebuild (net_apply L) net_clear net_projection_new events))"

definition require_existing_net_template ::
    "'s store_ops \<Rightarrow> libs \<Rightarrow> 's \<Rightarrow> proposal_envelope \<Rightarrow> proposal_error fault + uuid" where
  "require_existing_net_template ops L s p =
     and_then (require_entity_id p) (\<lambda>i.
     and_then (rebuild_net_projection ops L s (pr_logbook_id p)) (\<lambda>proj.
       if list_ex (\<lambda>t. value_str t ''net_template_id'' = Some (lib_show_uuid L i)) (net_templates proj)
       then Inr i else invalid (''net_template_id '' @ lib_show_uuid L i @ '' does not exist'')))"

definition no_net_session :: "libs \<Rightarrow> uuid \<Rightarrow> string" where
  "no_net_session L i = ''net_session_id '' @ lib_show_uuid L i @ '' does not exist''"

definition require_existing_net_session ::
    "'s store_ops \<Rightarrow> libs \<Rightarrow> 's \<Rightarrow> proposal_envelope \<Rightarrow> proposal_error fault + uuid" where
  "require_existing_net_session ops L s p =
     and_then (require_entity_id p) (\<lambda>i.
     and_then (rebuild_net_projection ops L s (pr_logbook_id p)) (\<lambda>proj.
       if net_get_session proj i = None then invalid (no_net_session L i) else Inr i))"

text \<open>The lookup of an active session shared by session end, check-ins and traffic.\<close>

definition require_active ::
    "libs \<Rightarrow> net_projection \<Rightarrow> uuid \<Rightarrow> string \<Rightarrow> checked" where
  "require_active L proj i message =
     (case net_get_session proj i of
        None \<Rightarrow> invalid (no_net_session L i)
      | Some session \<Rightarrow> check_that (ns_status session = NetActive) message)"

definition require_existing_active_net_session ::
    "'s store_ops \<Rightarrow> libs \<Rightarrow> 's \<Rightarrow> proposal_envelope \<Rightarrow> proposal_error fault + uuid" where
  "require_existing_active_net_session ops L s p =
     and_then (require_existing_net_session ops L s p) (\<lambda>i.
     and_then (rebuild_net_projection ops L s (pr_logbook_id p)) (\<lambda>proj.
     and_then (require_active L proj i ''active net session required'') (\<lambda>_. Inr i)))"

definition require_existing_net_checkin ::
    "'s store_ops \<Rightarrow> libs \<Rightarrow> 's \<Rightarrow> proposal_envelope \<Rightarrow> proposal_error fault + uuid" where
  "require_existing_net_checkin ops L s p =
     and_then (require_entity_id p) (\<lambda>i.
     and_then (rebuild_net_projection ops L s (pr_logbook_id p)) (\<lambda>proj.
       if list_ex (\<lambda>session. list_ex (\<lambda>c. nc_checkin_id c = i)
            (checkins_for_session proj (ns_net_session_id session) True)) (net_sessions proj True)
       then Inr i else invalid (''checkin_id '' @ lib_show_uuid L i @ '' does not exist'')))"

definition net_session_id_from_payload :: "libs \<Rightarrow> json_map \<Rightarrow> proposal_error fault + uuid" where
  "net_session_id_from_payload L payload =
     ok_or (Fail (InvalidSchema ''net proposal requires net_session_id''))
       (Option.bind (map_str payload ''net_session_id'') (lib_parse_uuid L))"

section \<open>The schema of each proposal\<close>

text \<open>The arms of the \<open>match\<close> in \<open>validate_qso_schema\<close>, by group; \<open>None\<close> when the type is
  not of the group.\<close>

definition unit_of :: "proposal_error fault + 'a \<Rightarrow> checked" where
  "unit_of r = and_then r (\<lambda>_. Inr ())"

definition validate_qso_proposal ::
    "'s store_ops \<Rightarrow> libs \<Rightarrow> 's \<Rightarrow> proposal_envelope \<Rightarrow> json_map \<Rightarrow> checked option" where
  "validate_qso_proposal ops L s p payload =
     (let t = pr_proposal_type p in
      if t = PROPOSAL_QSO_CREATE then Some (
        and_then (try_all (\<lambda>field. check_that (has_string payload field)
            (''qso create requires string field `'' @ field @ ''`''))
          [''contacted_callsign'', ''station_callsign'', ''mode'', ''started_at'']) (\<lambda>_.
        and_then (validate_started_at L payload) (\<lambda>_. validate_frequency payload)))
      else if t = PROPOSAL_QSO_CORRECT then Some (
        and_then (require_existing_qso ops L s p) (\<lambda>_.
        and_then (check_that (payload \<noteq> []) ''qso correction payload must not be empty'') (\<lambda>_.
          validate_frequency payload)))
      else if t = PROPOSAL_QSO_DELETE then Some (unit_of (require_existing_qso ops L s p))
      else if t = PROPOSAL_QSO_RESTORE then Some (unit_of (require_existing_qso ops L s p))
      else if t = PROPOSAL_QSO_NOTE_ADD then Some (
        and_then (require_existing_qso ops L s p) (\<lambda>_.
          check_that (has_string payload ''note'') ''qso note_add requires string field `note`''))
      else None)"

definition validate_activation_proposal ::
    "'s store_ops \<Rightarrow> libs \<Rightarrow> 's \<Rightarrow> proposal_envelope \<Rightarrow> json_map \<Rightarrow> checked option" where
  "validate_activation_proposal ops L s p payload =
     (let t = pr_proposal_type p in
      if t = PROPOSAL_ACTIVATION_CREATE then Some (validate_activation_payload L payload False)
      else if t = PROPOSAL_ACTIVATION_START then Some (validate_activation_payload L payload True)
      else if t = PROPOSAL_ACTIVATION_UPDATE then Some (
        and_then (require_existing_activation ops L s p) (\<lambda>_. validate_ended_after_started L payload))
      else if t = PROPOSAL_ACTIVATION_END then Some (
        and_then (require_existing_activation ops L s p) (\<lambda>_.
        and_then (check_that (has_string payload ''ended_at'')
            ''activation end requires string field `ended_at`'') (\<lambda>_.
          validate_ended_after_started L payload)))
      else if t = PROPOSAL_ACTIVATION_CANCEL then Some (unit_of (require_existing_activation ops L s p))
      else if t = PROPOSAL_ACTIVATION_NOTE_ADD then Some (
        and_then (require_existing_activation ops L s p) (\<lambda>_.
          check_that (has_string payload ''note'')
            ''activation note_add requires string field `note`''))
      else if t = PROPOSAL_QSO_ACTIVATION_LINK then Some (
        and_then (require_existing_qso ops L s p) (\<lambda>_.
        and_then (ok_or (Fail (InvalidSchema ''qso activation link requires activation_id''))
            (Option.bind (map_str payload ''activation_id'') (lib_parse_uuid L))) (\<lambda>a.
        and_then (map_err (map_fault PrStore)
            (op_rebuild_activation_projections ops s (pr_logbook_id p))) (\<lambda>proj.
          case activation_get proj a of
            None \<Rightarrow> invalid (''activation_id '' @ lib_show_uuid L a @ '' does not exist'')
          | Some activation \<Rightarrow>
              check_that (\<not> (ar_status activation = ''ended'' \<or> ar_status activation = ''cancelled''))
                ''ended/cancelled activations cannot accept new linked QSOs in MVP''))))
      else if t = PROPOSAL_QSO_ACTIVATION_UNLINK then Some (unit_of (require_existing_qso ops L s p))
      else None)"

definition validate_net_proposal ::
    "'s store_ops \<Rightarrow> libs \<Rightarrow> 's \<Rightarrow> proposal_envelope \<Rightarrow> json_map \<Rightarrow> checked option" where
  "validate_net_proposal ops L s p payload =
     (let t = pr_proposal_type p in
      if t = PROPOSAL_NET_TEMPLATE_CREATE then Some (require_string payload ''name'' ''net template create'')
      else if t = PROPOSAL_NET_TEMPLATE_UPDATE then Some (unit_of (require_existing_net_template ops L s p))
      else if t = PROPOSAL_NET_SESSION_START then Some (
        and_then (try_all (\<lambda>field. require_string payload field ''net session start'')
          [''station_callsign'', ''net_control_operator_id'', ''net_name'', ''started_at'']) (\<lambda>_.
          validate_started_at L payload))
      else if t = PROPOSAL_NET_SESSION_END then Some (
        and_then (require_existing_active_net_session ops L s p) (\<lambda>_.
        and_then (require_string payload ''ended_at'' ''net session end'') (\<lambda>_.
          validate_ended_after_started L payload)))
      else if t = PROPOSAL_NET_SESSION_CANCEL then Some (unit_of (require_existing_net_session ops L s p))
      else if t = PROPOSAL_NET_CHECKIN_CREATE then Some (
        and_then (net_session_id_from_payload L payload) (\<lambda>session_id.
        and_then (rebuild_net_projection ops L s (pr_logbook_id p)) (\<lambda>proj.
        and_then (require_active L proj session_id ''active net session required for check-ins'') (\<lambda>_.
        let tactical_only = (case Option.bind (map_get payload ''tactical_only'') as_bool of
              None \<Rightarrow> False | Some b \<Rightarrow> b) in
        and_then (check_that (tactical_only \<or> has_string payload ''callsign'')
            ''check-in requires callsign unless tactical_only is true'') (\<lambda>_.
        and_then (require_string payload ''checkin_time'' ''net checkin create'') (\<lambda>_.
          validate_checkin_time L payload))))))
      else if t = PROPOSAL_NET_CHECKIN_UPDATE \<or> t = PROPOSAL_NET_CHECKIN_DELETE then
        Some (unit_of (require_existing_net_checkin ops L s p))
      else if t = PROPOSAL_NET_TRAFFIC_CREATE then Some (
        and_then (net_session_id_from_payload L payload) (\<lambda>session_id.
        and_then (rebuild_net_projection ops L s (pr_logbook_id p)) (\<lambda>proj.
        and_then (require_active L proj session_id ''active net session required for traffic'') (\<lambda>_.
          require_string payload ''summary'' ''net traffic create''))))
      else if t = PROPOSAL_NET_TRAFFIC_UPDATE then Some (unit_of (require_entity_id p))
      else if t = PROPOSAL_NET_REPORT_EXPORT then Some (unit_of (require_existing_net_session ops L s p))
      else None)"

definition with_entity :: "proposal_envelope \<Rightarrow> checked \<Rightarrow> checked" where
  "with_entity p r = and_then (require_entity_id p) (\<lambda>_. r)"

definition validate_emcomm_proposal :: "proposal_envelope \<Rightarrow> json_map \<Rightarrow> checked option" where
  "validate_emcomm_proposal p payload =
     (let t = pr_proposal_type p in
      if t = PROPOSAL_EMCOMM_INCIDENT_OPEN then Some (
        and_then (require_string payload ''incident_name'' ''an incident'') (\<lambda>_.
          require_string payload ''opened_at'' ''an incident''))
      else if t = PROPOSAL_EMCOMM_INCIDENT_UPDATE \<or> t = PROPOSAL_EMCOMM_INCIDENT_CLOSE then
        Some (with_entity p (require_non_empty_correction payload ''an incident update''))
      else if t = PROPOSAL_EMCOMM_PERIOD_OPEN then Some (
        and_then (require_string payload ''incident_id'' ''an operational period'') (\<lambda>_.
        and_then (require_string payload ''started_at'' ''an operational period'') (\<lambda>_.
          check_that (case map_get payload ''period_number'' of None \<Rightarrow> False
              | Some v \<Rightarrow> is_number v \<or> is_string v)
            ''an operational period requires period_number'')))
      else if t = PROPOSAL_EMCOMM_PERIOD_CLOSE then
        Some (with_entity p (require_string payload ''ended_at'' ''closing an operational period''))
      else if t = PROPOSAL_EMCOMM_PERSON_CHECK_IN then
        Some (try_all (\<lambda>field. require_string payload field ''an ICS 211 check-in'')
          [''incident_id'', ''name'', ''checked_in_at''])
      else if t = PROPOSAL_EMCOMM_PERSON_UPDATE then
        Some (with_entity p (require_non_empty_correction payload ''a check-in correction''))
      else if t = PROPOSAL_EMCOMM_PERSON_CHECK_OUT then
        Some (with_entity p (require_string payload ''checked_out_at'' ''a check-out''))
      else if t = PROPOSAL_EMCOMM_ASSIGNMENT_CREATE then
        Some (try_all (\<lambda>field. require_string payload field ''an assignment'')
          [''incident_id'', ''person_id'', ''assignment''])
      else if t = PROPOSAL_EMCOMM_ASSIGNMENT_UPDATE then
        Some (with_entity p (require_non_empty_correction payload ''an assignment correction''))
      else if t = PROPOSAL_EMCOMM_ASSIGNMENT_RELEASE then
        Some (with_entity p (require_string payload ''released_at'' ''releasing an assignment''))
      else if t = PROPOSAL_EMCOMM_MESSAGE_CREATE then Some (
        and_then (try_all (\<lambda>field. require_string payload field ''an incident message'')
          [''incident_id'', ''message_number'', ''from'', ''to'', ''body'']) (\<lambda>_.
        and_then (validate_message_number payload) (\<lambda>_. validate_message_precedence payload)))
      else if t = PROPOSAL_EMCOMM_MESSAGE_UPDATE then Some (with_entity p (
        and_then (require_non_empty_correction payload ''a message correction'') (\<lambda>_.
        and_then (check_that (map_get payload ''message_number'' = None)
            ''a message number is assigned once and cannot be corrected'') (\<lambda>_.
          validate_message_precedence payload))))
      else if t = PROPOSAL_EMCOMM_MESSAGE_TRANSMIT then
        Some (with_entity p (require_string payload ''transmitted_at'' ''transmitting a message''))
      else if t = PROPOSAL_EMCOMM_MESSAGE_RECEIVE then
        Some (with_entity p (require_string payload ''received_at'' ''receiving a message''))
      else if t = PROPOSAL_EMCOMM_MESSAGE_ACKNOWLEDGE then
        Some (with_entity p (require_string payload ''acknowledged_at'' ''acknowledging a message''))
      else if t = PROPOSAL_EMCOMM_MESSAGE_CANCEL then Some (with_entity p (
        and_then (require_string payload ''cancelled_at'' ''cancelling a message'') (\<lambda>_.
          require_string payload ''reason'' ''cancelling a message'')))
      else if t = PROPOSAL_EMCOMM_ACTIVITY_LOG then
        Some (try_all (\<lambda>field. require_string payload field ''an ICS 214 activity entry'')
          [''incident_id'', ''occurred_at'', ''summary''])
      else None)"

text \<open>\<open>or_else\<close> on the groups, in the order of the code's arms.\<close>

fun first_some :: "'a option list \<Rightarrow> 'a option" where
  "first_some [] = None"
| "first_some (x # xs) = (case x of Some y \<Rightarrow> Some y | None \<Rightarrow> first_some xs)"

definition validate_qso_schema ::
    "'s store_ops \<Rightarrow> libs \<Rightarrow> 's \<Rightarrow> proposal_envelope \<Rightarrow> checked" where
  "validate_qso_schema ops L s p =
     (if pr_schema_version p = 0 then invalid ''schema_version must be greater than zero''
      else case as_object (pr_payload p) of
        None \<Rightarrow> invalid ''payload must be a JSON object''
      | Some payload \<Rightarrow>
          (case first_some
             [validate_qso_proposal ops L s p payload, validate_activation_proposal ops L s p payload,
              validate_net_proposal ops L s p payload, validate_emcomm_proposal p payload] of
             None \<Rightarrow> Inl (Fail (UnsupportedProposalType (pr_proposal_type p)))
           | Some r \<Rightarrow> r))"

section \<open>The official event\<close>

text \<open>The official type of each proposal type, and whether a missing entity identifier is
  replaced by a fresh one (creations) or refused.\<close>

definition official_types_log :: "(string \<times> string \<times> bool) list" where
  "official_types_log =
    [(PROPOSAL_QSO_CREATE, OFFICIAL_LOG_QSO_CREATED, True),
     (PROPOSAL_QSO_CORRECT, OFFICIAL_LOG_QSO_CORRECTED, False),
     (PROPOSAL_QSO_DELETE, OFFICIAL_LOG_QSO_DELETED, False),
     (PROPOSAL_QSO_RESTORE, OFFICIAL_LOG_QSO_RESTORED, False),
     (PROPOSAL_QSO_NOTE_ADD, OFFICIAL_LOG_QSO_NOTE_ADDED, False),
     (PROPOSAL_ACTIVATION_CREATE, OFFICIAL_LOG_ACTIVATION_CREATED, True),
     (PROPOSAL_ACTIVATION_START, OFFICIAL_LOG_ACTIVATION_STARTED, True),
     (PROPOSAL_ACTIVATION_UPDATE, OFFICIAL_LOG_ACTIVATION_UPDATED, False),
     (PROPOSAL_ACTIVATION_END, OFFICIAL_LOG_ACTIVATION_ENDED, False),
     (PROPOSAL_ACTIVATION_CANCEL, OFFICIAL_LOG_ACTIVATION_CANCELLED, False),
     (PROPOSAL_ACTIVATION_NOTE_ADD, OFFICIAL_LOG_ACTIVATION_NOTE_ADDED, False),
     (PROPOSAL_QSO_ACTIVATION_LINK, OFFICIAL_LOG_QSO_ACTIVATION_LINKED, False),
     (PROPOSAL_QSO_ACTIVATION_UNLINK, OFFICIAL_LOG_QSO_ACTIVATION_UNLINKED, False),
     (PROPOSAL_NET_TEMPLATE_CREATE, OFFICIAL_LOG_NET_TEMPLATE_CREATED, True),
     (PROPOSAL_NET_TEMPLATE_UPDATE, OFFICIAL_LOG_NET_TEMPLATE_UPDATED, False),
     (PROPOSAL_NET_SESSION_START, OFFICIAL_LOG_NET_SESSION_STARTED, True),
     (PROPOSAL_NET_SESSION_END, OFFICIAL_LOG_NET_SESSION_ENDED, False),
     (PROPOSAL_NET_SESSION_CANCEL, OFFICIAL_LOG_NET_SESSION_CANCELLED, False),
     (PROPOSAL_NET_CHECKIN_CREATE, OFFICIAL_LOG_NET_CHECKIN_CREATED, True),
     (PROPOSAL_NET_CHECKIN_UPDATE, OFFICIAL_LOG_NET_CHECKIN_UPDATED, False),
     (PROPOSAL_NET_CHECKIN_DELETE, OFFICIAL_LOG_NET_CHECKIN_DELETED, False),
     (PROPOSAL_NET_TRAFFIC_CREATE, OFFICIAL_LOG_NET_TRAFFIC_CREATED, True),
     (PROPOSAL_NET_TRAFFIC_UPDATE, OFFICIAL_LOG_NET_TRAFFIC_UPDATED, False),
     (PROPOSAL_NET_REPORT_EXPORT, OFFICIAL_LOG_NET_REPORT_EXPORTED, False)]"

definition official_types_emcomm :: "(string \<times> string \<times> bool) list" where
  "official_types_emcomm =
    [(PROPOSAL_EMCOMM_INCIDENT_OPEN, OFFICIAL_LOG_EMCOMM_INCIDENT_OPENED, True),
     (PROPOSAL_EMCOMM_INCIDENT_UPDATE, OFFICIAL_LOG_EMCOMM_INCIDENT_UPDATED, False),
     (PROPOSAL_EMCOMM_INCIDENT_CLOSE, OFFICIAL_LOG_EMCOMM_INCIDENT_CLOSED, False),
     (PROPOSAL_EMCOMM_PERIOD_OPEN, OFFICIAL_LOG_EMCOMM_PERIOD_OPENED, True),
     (PROPOSAL_EMCOMM_PERIOD_CLOSE, OFFICIAL_LOG_EMCOMM_PERIOD_CLOSED, False),
     (PROPOSAL_EMCOMM_PERSON_CHECK_IN, OFFICIAL_LOG_EMCOMM_PERSON_CHECKED_IN, True),
     (PROPOSAL_EMCOMM_PERSON_UPDATE, OFFICIAL_LOG_EMCOMM_PERSON_UPDATED, False),
     (PROPOSAL_EMCOMM_PERSON_CHECK_OUT, OFFICIAL_LOG_EMCOMM_PERSON_CHECKED_OUT, False),
     (PROPOSAL_EMCOMM_ASSIGNMENT_CREATE, OFFICIAL_LOG_EMCOMM_ASSIGNMENT_CREATED, True),
     (PROPOSAL_EMCOMM_ASSIGNMENT_UPDATE, OFFICIAL_LOG_EMCOMM_ASSIGNMENT_UPDATED, False),
     (PROPOSAL_EMCOMM_ASSIGNMENT_RELEASE, OFFICIAL_LOG_EMCOMM_ASSIGNMENT_RELEASED, False),
     (PROPOSAL_EMCOMM_MESSAGE_CREATE, OFFICIAL_LOG_EMCOMM_MESSAGE_CREATED, True),
     (PROPOSAL_EMCOMM_MESSAGE_UPDATE, OFFICIAL_LOG_EMCOMM_MESSAGE_UPDATED, False),
     (PROPOSAL_EMCOMM_MESSAGE_TRANSMIT, OFFICIAL_LOG_EMCOMM_MESSAGE_TRANSMITTED, False),
     (PROPOSAL_EMCOMM_MESSAGE_RECEIVE, OFFICIAL_LOG_EMCOMM_MESSAGE_RECEIVED, False),
     (PROPOSAL_EMCOMM_MESSAGE_ACKNOWLEDGE, OFFICIAL_LOG_EMCOMM_MESSAGE_ACKNOWLEDGED, False),
     (PROPOSAL_EMCOMM_MESSAGE_CANCEL, OFFICIAL_LOG_EMCOMM_MESSAGE_CANCELLED, False),
     (PROPOSAL_EMCOMM_ACTIVITY_LOG, OFFICIAL_LOG_EMCOMM_ACTIVITY_LOGGED, True)]"

definition entity_keys :: "(string \<times> string) list" where
  "entity_keys =
    [(PROPOSAL_NET_TEMPLATE_CREATE, ''net_template_id''),
     (PROPOSAL_NET_TEMPLATE_UPDATE, ''net_template_id''),
     (PROPOSAL_ACTIVATION_CREATE, ''activation_id''),
     (PROPOSAL_ACTIVATION_START, ''activation_id''),
     (PROPOSAL_ACTIVATION_UPDATE, ''activation_id''),
     (PROPOSAL_ACTIVATION_END, ''activation_id''),
     (PROPOSAL_ACTIVATION_CANCEL, ''activation_id''),
     (PROPOSAL_ACTIVATION_NOTE_ADD, ''activation_id''),
     (PROPOSAL_NET_SESSION_START, ''net_session_id''),
     (PROPOSAL_NET_SESSION_END, ''net_session_id''),
     (PROPOSAL_NET_SESSION_CANCEL, ''net_session_id''),
     (PROPOSAL_NET_CHECKIN_CREATE, ''checkin_id''),
     (PROPOSAL_NET_CHECKIN_UPDATE, ''checkin_id''),
     (PROPOSAL_NET_CHECKIN_DELETE, ''checkin_id''),
     (PROPOSAL_NET_TRAFFIC_CREATE, ''traffic_id''),
     (PROPOSAL_NET_TRAFFIC_UPDATE, ''traffic_id''),
     (PROPOSAL_EMCOMM_INCIDENT_OPEN, ''incident_id''),
     (PROPOSAL_EMCOMM_INCIDENT_UPDATE, ''incident_id''),
     (PROPOSAL_EMCOMM_INCIDENT_CLOSE, ''incident_id''),
     (PROPOSAL_EMCOMM_PERIOD_OPEN, ''period_id''),
     (PROPOSAL_EMCOMM_PERIOD_CLOSE, ''period_id''),
     (PROPOSAL_EMCOMM_PERSON_CHECK_IN, ''person_id''),
     (PROPOSAL_EMCOMM_PERSON_UPDATE, ''person_id''),
     (PROPOSAL_EMCOMM_PERSON_CHECK_OUT, ''person_id''),
     (PROPOSAL_EMCOMM_ASSIGNMENT_CREATE, ''assignment_id''),
     (PROPOSAL_EMCOMM_ASSIGNMENT_UPDATE, ''assignment_id''),
     (PROPOSAL_EMCOMM_ASSIGNMENT_RELEASE, ''assignment_id''),
     (PROPOSAL_EMCOMM_MESSAGE_CREATE, ''message_id''),
     (PROPOSAL_EMCOMM_MESSAGE_UPDATE, ''message_id''),
     (PROPOSAL_EMCOMM_MESSAGE_TRANSMIT, ''message_id''),
     (PROPOSAL_EMCOMM_MESSAGE_RECEIVE, ''message_id''),
     (PROPOSAL_EMCOMM_MESSAGE_ACKNOWLEDGE, ''message_id''),
     (PROPOSAL_EMCOMM_MESSAGE_CANCEL, ''message_id''),
     (PROPOSAL_EMCOMM_ACTIVITY_LOG, ''activity_id'')]"

definition entity_key :: "string \<Rightarrow> string" where
  "entity_key t = (case map_of entity_keys t of Some k \<Rightarrow> k | None \<Rightarrow> ''qso_id'')"

definition entity_of_proposal ::
    "proposal_envelope \<Rightarrow> bool \<Rightarrow> world \<Rightarrow> (proposal_error fault + uuid) \<times> world" where
  "entity_of_proposal p creates w =
     (if creates
      then (case pr_entity_id p of
              Some i \<Rightarrow> (Inr i, w)
            | None \<Rightarrow> (let (i, w) = new_v4 w in (Inr i, w)))
      else (require_entity_id p, w))"

definition to_official_event ::
    "libs \<Rightarrow> proposal_envelope \<Rightarrow> world \<Rightarrow> (proposal_error fault + new_event) \<times> world" where
  "to_official_event L p w =
     (case map_of (official_types_log @ official_types_emcomm) (pr_proposal_type p) of
        None \<Rightarrow> (Inl (Fail (UnsupportedProposalType (pr_proposal_type p))), w)
      | Some (event_type, creates) \<Rightarrow>
          (case entity_of_proposal p creates w of
             (Inl err, w) \<Rightarrow> (Inl err, w)
           | (Inr entity, w) \<Rightarrow>
               (case index_assign (entity_key (pr_proposal_type p)) (json_uuid L entity) (pr_payload p) of
                  None \<Rightarrow> (Inl Panicked, w)
                | Some payload \<Rightarrow>
                    (Inr \<lparr>ne_event_type = event_type, ne_logbook_id = pr_logbook_id p,
                      ne_entity_id = Some entity, ne_author_operator_id = pr_author_operator_id p,
                      ne_station_callsign = str_or payload ''station_callsign'' ''UNKNOWN'',
                      ne_operator_callsign = value_str payload ''operator_callsign'',
                      ne_author_device_id = pr_author_device_id p,
                      ne_source_device_id = pr_author_device_id p,
                      ne_correlation_id = pr_proposal_id p,
                      ne_source_plugin_id = Some (pr_source_plugin_id p),
                      ne_schema_version = pr_schema_version p, ne_payload = payload\<rparr>, w))))"

section \<open>Submission\<close>

text \<open>The arguments of \<open>RuntimeEventEnvelope::new\<close> are evaluated first: the session identifier
  is drawn before the event identifier.\<close>

definition publish_proposal_runtime_event ::
    "proposal_envelope \<Rightarrow> string \<Rightarrow> runtime_severity \<Rightarrow> string \<Rightarrow> string option \<Rightarrow>
     event_bus \<Rightarrow> world \<Rightarrow> event_bus \<times> world" where
  "publish_proposal_runtime_event p event_type severity summary err b w =
     (let (session, w) = new_v4 w;
          (e, w) = runtime_event_new event_type severity ''ham-core'' (Some (pr_source_plugin_id p))
            (pr_proposal_id p) session (pr_author_device_id p) None summary None err w
      in (snd (publish (Runtime e) b), w))"

definition publish_permission_check_event ::
    "proposal_envelope \<Rightarrow> string \<Rightarrow> runtime_severity \<Rightarrow> plugin_capability \<Rightarrow> string \<Rightarrow>
     event_bus \<Rightarrow> world \<Rightarrow> event_bus \<times> world" where
  "publish_permission_check_event p event_type severity permission summary b w =
     (let (session, w) = new_v4 w;
          (e, w) = runtime_event_new event_type severity ''ham-core'' (Some (pr_source_plugin_id p))
            (pr_proposal_id p) session (pr_author_device_id p) None summary
            (Some (json_object
               [(''plugin_id'', JString (pr_source_plugin_id p)),
                (''permission_id'', JString (capability_as_str permission)),
                (''proposal_type'', JString (pr_proposal_type p))])) None w
      in (snd (publish (Runtime e) b), w))"

type_synonym 's submitted = "(proposal_error fault + core_event) \<times> 's \<times> event_bus \<times> world"

definition accept_proposal ::
    "'s store_ops \<Rightarrow> libs \<Rightarrow> proposal_envelope \<Rightarrow> 's \<Rightarrow> event_bus \<Rightarrow> world \<Rightarrow> 's submitted" where
  "accept_proposal ops L p s b w =
     (case validate_qso_schema ops L s p of
        Inl err \<Rightarrow> (Inl err, s, b, w)
      | Inr _ \<Rightarrow>
          (case to_official_event L p w of
             (Inl err, w) \<Rightarrow> (Inl err, s, b, w)
           | (Inr n, w) \<Rightarrow>
               (case op_append_event ops n s w of
                  (Inl err, s, w) \<Rightarrow> (Inl (Fail (PrStore err)), s, b, w)
                | (Inr e, s, w) \<Rightarrow> (Inr e, s, snd (publish (OfficialLogbookEvent e) b), w))))"

definition submit_proposal_inner ::
    "'s store_ops \<Rightarrow> libs \<Rightarrow> proposal_context \<Rightarrow> proposal_envelope \<Rightarrow> 's \<Rightarrow> event_bus \<Rightarrow> world \<Rightarrow>
     's submitted" where
  "submit_proposal_inner ops L ctx p s b w =
     (let manifest = pc_plugin_manifest ctx in
      if pr_source_plugin_id p \<noteq> pm_plugin_id manifest then
        (Inl (Fail (PluginMismatch (pr_source_plugin_id p) (pm_plugin_id manifest))), s, b, w)
      else case required_capability (pr_proposal_type p) of
        Inl err \<Rightarrow> (Inl (Fail err), s, b, w)
      | Inr capability \<Rightarrow>
          if \<not> has_capability manifest capability then
            (let (b, w) = publish_permission_check_event p ''plugin.permission.check.denied'' SevWarn
                   capability ''plugin manifest does not request required permission'' b w
             in (Inl (Fail (MissingPluginCapability capability)), s, b, w))
          else case check_plugin_permission manifest (pc_permission_grants ctx) capability of
            Inl err \<Rightarrow>
              (let (b, w) = publish_permission_check_event p ''plugin.permission.check.denied'' SevWarn
                     capability ''plugin permission grant is missing or denied'' b w
               in (Inl (Fail (PluginPermissionDenied (permission_error_message err))), s, b, w))
          | Inr _ \<Rightarrow>
              (let (b, w) = publish_permission_check_event p ''plugin.permission.check.allowed'' SevDebug
                     capability ''plugin permission check allowed'' b w
               in if \<not> can_submit (pc_operator_role ctx) (pr_proposal_type p) then
                    (let (b, w) = publish_permission_check_event p ''plugin.permission.check.denied''
                           SevWarn capability ''operator role cannot submit this proposal'' b w
                     in (Inl (Fail (PermissionDenied (pc_operator_role ctx) (pr_proposal_type p))), s, b, w))
                  else accept_proposal ops L p s b w))"

definition submit_proposal ::
    "'s store_ops \<Rightarrow> libs \<Rightarrow> proposal_context \<Rightarrow> proposal_envelope \<Rightarrow> 's \<Rightarrow> event_bus \<Rightarrow> world \<Rightarrow>
     's submitted" where
  "submit_proposal ops L ctx p s b w =
     (let (b, w) = publish_proposal_runtime_event p (pr_proposal_type p @ ''.received'') SevInfo
            ''QSO proposal received'' None b w;
          (r, s, b, w) = submit_proposal_inner ops L ctx p s b w
      in case r of
        Inr e \<Rightarrow>
          (let (b, w) = publish_proposal_runtime_event p (pr_proposal_type p @ ''.accepted'') SevInfo
                 ''QSO proposal accepted'' None b w;
               (b, w) = publish_proposal_runtime_event p ''official.log.event.appended'' SevInfo
                 (''Official event appended: '' @ ev_event_type e) None b w;
               (b, w) = publish_proposal_runtime_event p ''projection.qso.updated'' SevDebug
                 ''QSO projection can be rebuilt from official events'' None b w
           in (r, s, b, w))
      | Inl (Fail err) \<Rightarrow>
          (let (b, w) = publish_proposal_runtime_event p (pr_proposal_type p @ ''.rejected'') SevWarn
                 ''QSO proposal rejected'' (Some (proposal_error_message L err)) b w
           in (r, s, b, w))
      | Inl Panicked \<Rightarrow> (r, s, b, w))"

section \<open>Facts\<close>

subsection \<open>The dispatch tables\<close>

definition official_table :: "(string \<times> string \<times> bool) list" where
  "official_table = official_types_log @ official_types_emcomm"

lemmas official_table_defs = official_table_def official_types_log_def official_types_emcomm_def

lemma tables_cover:
  "set (map fst official_table) = set proposal_types"
  "set (map fst capability_requirements) = set proposal_types"
  "set admin_proposals = set proposal_types"
proof -
  have "list_all (\<lambda>t. t \<in> set proposal_types) (map fst official_table)"
    "list_all (\<lambda>t. t \<in> set (map fst official_table)) proposal_types"
    by (simp_all add: official_table_defs proposal_types_def)
  then show "set (map fst official_table) = set proposal_types"
    unfolding list_all_iff by blast
  have "list_all (\<lambda>t. t \<in> set proposal_types) (map fst capability_requirements)"
    "list_all (\<lambda>t. t \<in> set (map fst capability_requirements)) proposal_types"
    by (simp_all add: capability_requirements_def proposal_types_def)
  then show "set (map fst capability_requirements) = set proposal_types"
    unfolding list_all_iff by blast
  have "list_all (\<lambda>t. t \<in> set proposal_types) admin_proposals"
    "list_all (\<lambda>t. t \<in> set admin_proposals) proposal_types"
    by (simp_all add: admin_proposals_def proposal_types_def)
  then show "set admin_proposals = set proposal_types"
    unfolding list_all_iff by blast
qed

lemma required_capability_iff:
  "(\<exists>c. required_capability t = Inr c) \<longleftrightarrow> t \<in> set proposal_types"
proof -
  have "map_of capability_requirements t \<noteq> None \<longleftrightarrow> t \<in> set (map fst capability_requirements)"
    by (simp add: map_of_eq_None_iff)
  then have "map_of capability_requirements t \<noteq> None \<longleftrightarrow> t \<in> set proposal_types"
    unfolding tables_cover(2) .
  then show ?thesis
    by (cases "map_of capability_requirements t") (simp_all add: required_capability_def)
qed

text \<open>Every official type a proposal can lead to, and the proposal it comes from.\<close>

lemma official_table_inv: "distinct (map (\<lambda>row. fst (snd row)) official_table)"
  by (simp add: official_table_defs)

lemma official_table_unique:
  assumes "map_of official_table t = Some (e, c)" and "map_of official_table t' = Some (e, c')"
  shows "t = t'"
proof -
  have "(t, e, c) \<in> set official_table" "(t', e, c') \<in> set official_table"
    using assms by (auto dest: map_of_SomeD)
  moreover have "inj_on (\<lambda>row. fst (snd row)) (set official_table)"
    using official_table_inv by (simp add: distinct_map)
  ultimately have "(t, e, c) = (t', e, c')" using inj_onD by fastforce
  then show ?thesis by simp
qed

lemma official_net_creations:
  "map_of official_table PROPOSAL_NET_CHECKIN_CREATE = Some (OFFICIAL_LOG_NET_CHECKIN_CREATED, True)"
  "map_of official_table PROPOSAL_NET_TRAFFIC_CREATE = Some (OFFICIAL_LOG_NET_TRAFFIC_CREATED, True)"
  by (simp_all add: official_table_defs)

lemma official_types_log_supported:
  "set (map (\<lambda>row. fst (snd row)) official_types_log) \<subseteq> set supported_remote_types"
  by (simp add: official_types_log_def supported_remote_types_def)

lemma official_types_emcomm_unsupported:
  "list_all (\<lambda>row. fst (snd row) \<notin> set supported_remote_types) official_types_emcomm"
  by (simp add: official_types_emcomm_def supported_remote_types_def)

subsection \<open>The official event of a proposal\<close>

lemma to_official_event_Inr:
  assumes "to_official_event L p w = (Inr n, w')"
  obtains event_type creates entity payload where
    "map_of official_table (pr_proposal_type p) = Some (event_type, creates)"
    "entity_of_proposal p creates w = (Inr entity, w')"
    "index_assign (entity_key (pr_proposal_type p)) (json_uuid L entity) (pr_payload p) = Some payload"
    "ne_event_type n = event_type" "ne_entity_id n = Some entity" "ne_payload n = payload"
    "ne_logbook_id n = pr_logbook_id p" "ne_schema_version n = pr_schema_version p"
    "ne_source_plugin_id n = Some (pr_source_plugin_id p)" "ne_correlation_id n = pr_proposal_id p"
  using assms unfolding to_official_event_def official_table_def [symmetric]
  by (auto split: option.splits prod.splits sum.splits)

lemma entity_of_proposal_Inr:
  "entity_of_proposal p creates w = (Inr i, w') \<Longrightarrow>
     (pr_entity_id p = Some i \<and> w' = w \<or> pr_entity_id p = None \<and> creates \<and> new_v4 w = (i, w'))"
  by (auto simp: entity_of_proposal_def require_entity_id_def ok_or_def split: if_splits option.splits prod.splits)

lemma validated_payload:
  assumes "validate_qso_schema ops L s p = Inr ()"
  obtains m where "pr_payload p = JObject m" "pr_schema_version p \<noteq> 0"
  using assms by (auto simp: validate_qso_schema_def split: if_splits option.splits)

lemma validated_net_creation:
  assumes "validate_qso_schema ops L s p = Inr ()" and "pr_payload p = JObject m"
    and "pr_proposal_type p = PROPOSAL_NET_CHECKIN_CREATE \<or> pr_proposal_type p = PROPOSAL_NET_TRAFFIC_CREATE"
  shows "\<exists>u. Option.bind (map_str m ''net_session_id'') (lib_parse_uuid L) = Some u"
proof -
  have "\<exists>u. net_session_id_from_payload L m = Inr u"
    using assms(3,1,2) by (elim disjE) (auto simp: validate_qso_schema_def validate_qso_proposal_def
      validate_activation_proposal_def validate_net_proposal_def Let_def split: if_splits)
  then show ?thesis by (simp add: net_session_id_from_payload_def)
qed

lemma entity_key_net:
  "entity_key PROPOSAL_NET_CHECKIN_CREATE = ''checkin_id''" "entity_key PROPOSAL_NET_TRAFFIC_CREATE = ''traffic_id''"
  by (simp_all add: entity_key_def entity_keys_def)

text \<open>What a validated proposal adds to the log can always be replayed.\<close>

definition replayable :: "libs \<Rightarrow> core_event \<Rightarrow> bool" where
  "replayable L e = (qso_event_ok e \<and> activation_event_ok e \<and> net_event_ok L e)"

lemma validated_replayable:
  assumes v: "validate_qso_schema ops L s p = Inr ()" and n: "to_official_event L p w = (Inr n, w')"
    and e: "ev_event_type e = ne_event_type n" "ev_entity_id e = ne_entity_id n" "ev_payload e = ne_payload n"
  shows "replayable L e"
proof -
  from v obtain m where m: "pr_payload p = JObject m" by (rule validated_payload)
  from n obtain creates entity payload where t:
    "map_of official_table (pr_proposal_type p) = Some (ev_event_type e, creates)"
    "index_assign (entity_key (pr_proposal_type p)) (json_uuid L entity) (pr_payload p) = Some payload"
    "ev_entity_id e = Some entity" "ev_payload e = payload"
    by (rule to_official_event_Inr) (use e in auto)
  have obj: "is_object (ev_payload e)" using t by (auto dest: index_assign_object)
  have uuid: "is_ok (net_uuid_from_payload L (ev_payload e) ''net_session_id'')"
    if "pr_proposal_type p = PROPOSAL_NET_CHECKIN_CREATE \<or> pr_proposal_type p = PROPOSAL_NET_TRAFFIC_CREATE"
  proof -
    from validated_net_creation [OF v m that] obtain u
      where "Option.bind (map_str m ''net_session_id'') (lib_parse_uuid L) = Some u" by blast
    moreover have "value_str (ev_payload e) ''net_session_id'' = map_str m ''net_session_id''"
      using t(2,4) that m by (auto simp: entity_key_net value_str_JObject map_str_def bt_get_insert)
    ultimately show ?thesis by (simp add: net_uuid_from_payload_def is_ok_iff)
  qed
  have "pr_proposal_type p = PROPOSAL_NET_CHECKIN_CREATE" if "ev_event_type e = OFFICIAL_LOG_NET_CHECKIN_CREATED"
    using official_table_unique [OF t(1) [unfolded that] official_net_creations(1)] .
  moreover have "pr_proposal_type p = PROPOSAL_NET_TRAFFIC_CREATE" if "ev_event_type e = OFFICIAL_LOG_NET_TRAFFIC_CREATED"
    using official_table_unique [OF t(1) [unfolded that] official_net_creations(2)] .
  ultimately show ?thesis using obj uuid
    by (auto simp: replayable_def qso_event_ok_def activation_event_ok_def net_event_ok_def t(3))
qed

subsection \<open>Who may submit\<close>

definition authorised :: "proposal_context \<Rightarrow> proposal_envelope \<Rightarrow> bool" where
  "authorised ctx p =
     (pr_source_plugin_id p = pm_plugin_id (pc_plugin_manifest ctx) \<and>
      (case required_capability (pr_proposal_type p) of Inl _ \<Rightarrow> False
       | Inr c \<Rightarrow> has_capability (pc_plugin_manifest ctx) c \<and>
           is_granted (pc_permission_grants ctx) (pm_plugin_id (pc_plugin_manifest ctx)) c) \<and>
      can_submit (pc_operator_role ctx) (pr_proposal_type p))"

lemma publish_later:
  "publish_proposal_runtime_event p t sv sm err b w = (b', w') \<Longrightarrow> world_later w w'"
  "publish_permission_check_event p t sv c sm b w = (b', w') \<Longrightarrow> world_later w w'"
  by (auto simp: publish_proposal_runtime_event_def publish_permission_check_event_def
    runtime_event_new_def new_v4_def utc_now_def world_later_def Let_def)

lemma submit_inner_authorised:
  assumes "authorised ctx p"
  shows "\<exists>b1 w1. world_later w w1 \<and>
    submit_proposal_inner ops L ctx p s b w = accept_proposal ops L p s b1 w1"
proof -
  obtain c where c: "required_capability (pr_proposal_type p) = Inr c"
      "has_capability (pc_plugin_manifest ctx) c"
      "is_granted (pc_permission_grants ctx) (pm_plugin_id (pc_plugin_manifest ctx)) c"
    using assms by (auto simp: authorised_def split: sum.splits)
  obtain b1 w1 where p: "publish_permission_check_event p ''plugin.permission.check.allowed'' SevDebug
      c ''plugin permission check allowed'' b w = (b1, w1)" by fastforce
  from assms c p have "submit_proposal_inner ops L ctx p s b w = accept_proposal ops L p s b1 w1"
    by (simp add: submit_proposal_inner_def authorised_def check_plugin_permission_def Let_def)
  with publish_later(2) [OF p] show ?thesis by blast
qed

lemma submit_inner_refused:
  assumes "\<not> authorised ctx p" and "submit_proposal_inner ops L ctx p s b w = (r, s', b', w')"
  shows "s' = s \<and> world_later w w' \<and> (\<exists>err. r = Inl (Fail err))"
  using assms by (auto simp: submit_proposal_inner_def authorised_def check_plugin_permission_def Let_def
    split: sum.splits prod.splits if_splits dest!: publish_later intro: world_later_trans)

text \<open>The runtime events around the decision change neither the store nor the result.\<close>

lemma submit_proposal_inner:
  assumes "submit_proposal ops L ctx p s b w = (r, s', b', w')"
  obtains b1 w1 b2 w2 where "world_later w w1"
    "submit_proposal_inner ops L ctx p s b1 w1 = (r, s', b2, w2)" "world_later w2 w'"
proof -
  obtain b1 w1 where p: "publish_proposal_runtime_event p (pr_proposal_type p @ ''.received'') SevInfo
      ''QSO proposal received'' None b w = (b1, w1)" by fastforce
  obtain r1 s1 b2 w2 where i: "submit_proposal_inner ops L ctx p s b1 w1 = (r1, s1, b2, w2)"
    by (metis prod_cases4)
  from assms p i have "r1 = r \<and> s1 = s' \<and> world_later w2 w'"
    by (cases r1; cases "projl r1")
      (auto simp: submit_proposal_def Let_def split: prod.splits dest!: publish_later
        intro: world_later_trans)
  with i publish_later(1) [OF p] that show ?thesis by auto
qed

subsection \<open>Submission on any store\<close>

text \<open>The event is the official event of the proposal.\<close>

definition event_of :: "libs \<Rightarrow> proposal_envelope \<Rightarrow> core_event \<Rightarrow> bool" where
  "event_of L p e = (\<exists>w n w'. to_official_event L p w = (Inr n, w') \<and>
     ev_event_type e = ne_event_type n \<and> ev_logbook_id e = pr_logbook_id p \<and>
     ev_entity_id e = ne_entity_id n \<and> ev_payload e = ne_payload n \<and>
     ev_schema_version e = pr_schema_version p \<and> ev_source_plugin_id e = Some (pr_source_plugin_id p) \<and>
     ev_correlation_id e = pr_proposal_id p \<and> hash_is_valid L e)"

lemma to_official_event_later: "to_official_event L p w = (r, w') \<Longrightarrow> world_later w w'"
  by (auto simp: to_official_event_def entity_of_proposal_def new_v4_def world_later_def
    split: option.splits prod.splits sum.splits if_splits)

lemma to_official_event_logbook: "to_official_event L p w = (Inr n, w') \<Longrightarrow> ne_logbook_id n = pr_logbook_id p"
  by (erule to_official_event_Inr)

lemma event_of_from_new:
  assumes "to_official_event L p w = (Inr n, w')" and "from_new L n prev v = (e, v')"
  shows "event_of L p e"
  unfolding event_of_def using assms from_new_fields [OF assms(2)]
  by (intro exI [of _ w] exI [of _ n] exI [of _ w'])
    (auto elim!: to_official_event_Inr)

lemma event_of_replayable:
  "validate_qso_schema ops L s p = Inr () \<Longrightarrow> event_of L p e \<Longrightarrow> replayable L e"
  by (auto simp: event_of_def intro: validated_replayable)

text \<open>A store whose log of one logbook grew by one new event.\<close>

definition log_extends ::
    "('s \<Rightarrow> uuid \<Rightarrow> core_event list) \<Rightarrow> ('s \<Rightarrow> uuid \<Rightarrow> core_event option) \<Rightarrow> 's \<Rightarrow> core_event \<Rightarrow> 's \<Rightarrow> bool" where
  "log_extends log known s e s' = (known s (ev_event_id e) = None \<and>
     log s' = (log s)(ev_logbook_id e := log s (ev_logbook_id e) @ [e]) \<and>
     known s' = (known s)(ev_event_id e \<mapsto> e))"

definition all_replayable :: "libs \<Rightarrow> (uuid \<Rightarrow> core_event list) \<Rightarrow> bool" where
  "all_replayable L log = (\<forall>lb. \<forall>e\<in>set (log lb). replayable L e)"

context event_store begin

lemma append_extends:
  assumes "inv s" and "op_append_event ops n s w = (r, s', w')" and "fresh_draws (dom (known s)) w w'"
  shows "\<exists>e prev. r = Inr e \<and> from_new L n prev w = (e, w') \<and> inv s' \<and> log_extends log known s e s'"
proof -
  have new: "known s (uuid_source w (uuid_pos w)) = None"
    using append_new(1) [OF assms(3,2)] by auto
  from append [OF assms(1) new assms(2)] obtain e where
    e: "from_new L n (end_hash None (log s (ne_logbook_id n))) w = (e, w')" "r = Inr e" "inv s'"
      "log s' = (log s)(ne_logbook_id n := log s (ne_logbook_id n) @ [e])"
      "known s' = (known s)(ev_event_id e \<mapsto> e)" by blast
  note f = from_new_fields [OF e(1)]
  have "inv s' \<and> log_extends log known s e s'" using e f new by (simp add: log_extends_def)
  with e show ?thesis by blast
qed

lemma accept_later: "accept_proposal ops L p s b w = (r, s', b', w') \<Longrightarrow> world_later w w'"
  by (auto simp: accept_proposal_def split: sum.splits prod.splits
    dest!: to_official_event_later append_later intro: world_later_trans)

lemma accept_outcome:
  assumes "inv s" and "accept_proposal ops L p s b w = (r, s', b', w')" and "fresh_draws (dom (known s)) w w'"
  shows "case r of Inl err \<Rightarrow> s' = s
    | Inr e \<Rightarrow> validate_qso_schema ops L s p = Inr () \<and> event_of L p e \<and> inv s' \<and> log_extends log known s e s'"
proof (cases "validate_qso_schema ops L s p")
  case (Inl err)
  with assms show ?thesis by (auto simp: accept_proposal_def)
next
  case (Inr u)
  obtain q w1 where n: "to_official_event L p w = (q, w1)" by fastforce
  show ?thesis
  proof (cases q)
    case (Inl err)
    with assms Inr n show ?thesis by (auto simp: accept_proposal_def)
  next
    case (Inr n')
    obtain r1 s1 w2 where a: "op_append_event ops n' s w1 = (r1, s1, w2)" by (metis prod_cases3)
    have w2: "w' = w2" using assms(2) \<open>validate_qso_schema ops L s p = Inr u\<close> n Inr a
      by (auto simp: accept_proposal_def split: sum.splits)
    have "fresh_draws (dom (known s)) w1 w2"
      by (rule fresh_draws_later [OF assms(3) to_official_event_later [OF n], unfolded w2, OF append_later [OF a]])
    from append_extends [OF assms(1) a this] obtain e prev where
      e: "r1 = Inr e" "from_new L n' prev w1 = (e, w2)" "inv s1 \<and> log_extends log known s e s1"
      by blast
    from assms(2) \<open>validate_qso_schema ops L s p = Inr u\<close> n Inr a e(1)
    have "r = Inr e" "s' = s1" by (auto simp: accept_proposal_def)
    with e \<open>validate_qso_schema ops L s p = Inr u\<close> event_of_from_new [OF _ e(2)] n Inr
    show ?thesis by auto
  qed
qed

lemma submit_inner_later:
  assumes "submit_proposal_inner ops L ctx p s b w = (r, s', b', w')"
  shows "world_later w w'"
proof (cases "authorised ctx p")
  case True
  from submit_inner_authorised [OF this, of w ops L s b] obtain b1 w1 where
    "world_later w w1" "accept_proposal ops L p s b1 w1 = (r, s', b', w')" unfolding assms by metis
  then show ?thesis by (blast intro: world_later_trans accept_later)
next
  case False
  from submit_inner_refused [OF this assms] show ?thesis by blast
qed

lemma submit_later:
  assumes "submit_proposal ops L ctx p s b w = (r, s', b', w')"
  shows "world_later w w'"
  using submit_proposal_inner [OF assms] by (metis submit_inner_later world_later_trans)

lemma submit_outcome:
  assumes "inv s" and "submit_proposal ops L ctx p s b w = (r, s', b', w')" and "fresh_draws (dom (known s)) w w'"
  shows "case r of Inl err \<Rightarrow> s' = s
    | Inr e \<Rightarrow> authorised ctx p \<and> validate_qso_schema ops L s p = Inr () \<and> event_of L p e \<and> inv s' \<and> log_extends log known s e s'"
proof -
  from submit_proposal_inner [OF assms(2)] obtain b1 w1 b2 w2 where
    w1: "world_later w w1" and i: "submit_proposal_inner ops L ctx p s b1 w1 = (r, s', b2, w2)"
    and w2: "world_later w2 w'" .
  note later = submit_inner_later [OF i]
  show ?thesis
  proof (cases "authorised ctx p")
    case True
    from submit_inner_authorised [OF this, of w1 ops L s b1] obtain b3 w3 where
      w3: "world_later w1 w3" and acc: "accept_proposal ops L p s b3 w3 = (r, s', b2, w2)"
      unfolding i by metis
    have "world_later w w3" by (rule world_later_trans [OF w1 w3])
    from fresh_draws_earlier [OF fresh_draws_later [OF assms(3) this] accept_later [OF acc] w2]
    have "fresh_draws (dom (known s)) w3 w2"
      using world_later_trans [OF accept_later [OF acc] w2] by blast
    from accept_outcome [OF assms(1) acc this] True show ?thesis by (auto split: sum.splits)
  next
    case False
    from submit_inner_refused [OF this i] show ?thesis by auto
  qed
qed

lemma submit_keeps_inv:
  assumes "inv s" and "submit_proposal ops L ctx p s b w = (r, s', b', w')" and "fresh_draws (dom (known s)) w w'"
  shows "inv s'"
  using submit_outcome [OF assms] assms(1) by (auto simp: log_extends_def split: sum.splits)

text \<open>The logbooks a client builds by submissions alone can always be rebuilt.\<close>

lemma submit_replayable:
  assumes "inv s" and "submit_proposal ops L ctx p s b w = (r, s', b', w')" and "fresh_draws (dom (known s)) w w'"
    and "all_replayable L (log s)"
  shows "all_replayable L (log s')"
  using submit_outcome [OF assms(1,2,3)] assms(4)
  by (auto simp: all_replayable_def log_extends_def event_of_replayable split: sum.splits)

lemma replayable_rebuilds:
  assumes "inv s" and "all_replayable L (log s)"
  shows "\<exists>p. op_rebuild_projections ops s lb = Inr p"
    and "\<exists>p. op_rebuild_activation_projections ops s lb = Inr p"
    and "\<exists>p. rebuild_net_projection ops L s lb = Inr p"
proof -
  have q: "\<forall>e\<in>set (log s lb). qso_event_ok e" and a: "\<forall>e\<in>set (log s lb). activation_event_ok e"
    and n: "\<forall>e\<in>set (log s lb). net_event_ok L e"
    using assms(2) by (auto simp: all_replayable_def replayable_def)
  show "\<exists>p. op_rebuild_projections ops s lb = Inr p"
    using qso.rebuild_total [OF q] by (simp add: rebuild_projections [OF assms(1)])
  show "\<exists>p. op_rebuild_activation_projections ops s lb = Inr p"
    using activation.rebuild_total [OF a] by (simp add: rebuild_activation_projections [OF assms(1)])
  show "\<exists>p. rebuild_net_projection ops L s lb = Inr p"
    using net.rebuild_total [OF n] by (simp add: rebuild_net_projection_def list_events [OF assms(1)])
qed

end

end
