(* ===== verification/Sync.thy ===== *)
theory Sync
  imports Proposal
begin

text \<open>
  Peer discovery and event replication (\<open>ham-core/src/sync/mod.rs\<close>): the registry of LAN
  peers, the targets of an on-demand scan, the comparison of heads, and the pull of a peer's
  events into a store. The facts about a pull are proved once for any \<open>event_store\<close>.
\<close>

section \<open>Peers\<close>

definition PROTOCOL_NAME :: string where "PROTOCOL_NAME = ''ke8ygw-logger-sync''"
definition PROTOCOL_VERSION :: "16 word" where "PROTOCOL_VERSION = 1"

record local_peer_identity =
  li_device_id :: uuid
  li_session_id :: uuid
  li_user_hash :: "string option"
  li_display_name :: string
  li_capabilities :: "string list"
  li_local_api_port :: "16 word option"

definition local_peer_identity_new :: "string \<Rightarrow> 16 word option \<Rightarrow> world \<Rightarrow> local_peer_identity \<times> world" where
  "local_peer_identity_new name port w =
     (let (device, w) = new_v4 w; (session, w) = new_v4 w in
      (\<lparr>li_device_id = device, li_session_id = session, li_user_hash = None,
        li_display_name = name,
        li_capabilities = [''discovery.v1'', ''handshake.v1'', ''head-compare.v1''],
        li_local_api_port = port\<rparr>, w))"

record discovery_packet =
  dp_protocol_name :: string
  dp_protocol_version :: "16 word"
  dp_device_id :: uuid
  dp_session_id :: uuid
  dp_user_hash :: "string option"
  dp_display_name :: string
  dp_capabilities :: "string list"
  dp_local_api_port :: "16 word option"
  dp_timestamp :: datetime

definition packet_from_identity :: "local_peer_identity \<Rightarrow> world \<Rightarrow> discovery_packet \<times> world" where
  "packet_from_identity i w =
     (let (t, w) = utc_now w in
      (\<lparr>dp_protocol_name = PROTOCOL_NAME, dp_protocol_version = PROTOCOL_VERSION,
        dp_device_id = li_device_id i, dp_session_id = li_session_id i,
        dp_user_hash = li_user_hash i, dp_display_name = li_display_name i,
        dp_capabilities = li_capabilities i, dp_local_api_port = li_local_api_port i,
        dp_timestamp = t\<rparr>, w))"

definition packet_peer_id :: "libs \<Rightarrow> discovery_packet \<Rightarrow> string" where
  "packet_peer_id L p = lib_show_uuid L (dp_device_id p) @ '':'' @ lib_show_uuid L (dp_session_id p)"

datatype peer_connection_state = PeerDiscovered | PeerHandshaking | PeerConnected | PeerUnreachable | PeerExpired

datatype peer_sync_state = SyncUnknown | SyncInSync | SyncDiverged | SyncLocalAhead | SyncRemoteAhead

text \<open>\<open>std::net\<close>: an address, and a socket address (with flow and scope of version 6).\<close>

datatype ip_addr = IpV4 "32 word" | IpV6 "128 word"

datatype socket_addr = SockV4 "32 word" "16 word" | SockV6 "128 word" "16 word" "32 word" "32 word"

fun socket_addr_new :: "ip_addr \<Rightarrow> 16 word \<Rightarrow> socket_addr" where
  "socket_addr_new (IpV4 a) p = SockV4 a p"
| "socket_addr_new (IpV6 a) p = SockV6 a p 0 0"

fun socket_ip :: "socket_addr \<Rightarrow> ip_addr" where
  "socket_ip (SockV4 a p) = IpV4 a"
| "socket_ip (SockV6 a p f s) = IpV6 a"

record peer_record =
  peer_id :: string
  peer_device_id :: uuid
  peer_session_id :: uuid
  peer_display_name :: string
  peer_addresses :: "socket_addr list"
  peer_protocol_version :: "16 word"
  peer_capabilities :: "string list"
  peer_first_seen :: datetime
  peer_last_seen :: datetime
  peer_connection_state :: peer_connection_state
  peer_sync_state :: peer_sync_state

type_synonym peer_registry = "(string, peer_record) hmap"

datatype peer_observation =
  ObservedDiscovered string | ObservedUpdated string | IgnoredSelf | IgnoredIncompatible

definition refresh_peer :: "discovery_packet \<Rightarrow> socket_addr \<Rightarrow> datetime \<Rightarrow> peer_record \<Rightarrow> peer_record" where
  "refresh_peer p a now peer =
     peer\<lparr>peer_addresses :=
            (if a \<in> set (peer_addresses peer) then peer_addresses peer else peer_addresses peer @ [a]),
          peer_display_name := dp_display_name p, peer_capabilities := dp_capabilities p,
          peer_last_seen := now, peer_connection_state := PeerDiscovered\<rparr>"

definition new_peer :: "string \<Rightarrow> discovery_packet \<Rightarrow> socket_addr \<Rightarrow> datetime \<Rightarrow> peer_record" where
  "new_peer pid p a now =
     \<lparr>peer_id = pid, peer_device_id = dp_device_id p, peer_session_id = dp_session_id p,
      peer_display_name = dp_display_name p, peer_addresses = [a],
      peer_protocol_version = dp_protocol_version p, peer_capabilities = dp_capabilities p,
      peer_first_seen = now, peer_last_seen = now,
      peer_connection_state = PeerDiscovered, peer_sync_state = SyncUnknown\<rparr>"

definition observe :: "libs \<Rightarrow> local_peer_identity \<Rightarrow> discovery_packet \<Rightarrow> socket_addr \<Rightarrow>
    peer_registry \<Rightarrow> world \<Rightarrow> peer_observation \<times> peer_registry \<times> world" where
  "observe L i p a peers w =
     (if dp_protocol_name p \<noteq> PROTOCOL_NAME \<or> dp_protocol_version p \<noteq> PROTOCOL_VERSION
      then (IgnoredIncompatible, peers, w)
      else if dp_device_id p = li_device_id i \<and> dp_session_id p = li_session_id i
      then (IgnoredSelf, peers, w)
      else
        let a = (case dp_local_api_port p of None \<Rightarrow> a | Some port \<Rightarrow> socket_addr_new (socket_ip a) port);
            pid = packet_peer_id L p; (now, w) = utc_now w in
        case hm_get peers pid of
          Some _ \<Rightarrow> (ObservedUpdated pid, hm_modify pid (refresh_peer p a now) peers, w)
        | None \<Rightarrow> (ObservedDiscovered pid, hm_insert pid (new_peer pid p a now) peers, w))"

text \<open>\<open>from_std\<close> is \<open>chrono::Duration::from_std\<close>, which refuses durations it cannot hold.\<close>

definition is_stale :: "datetime \<Rightarrow> int \<Rightarrow> peer_record \<Rightarrow> bool" where
  "is_stale now timeout peer =
     (now - peer_last_seen peer > timeout \<and> peer_connection_state peer \<noteq> PeerExpired)"

definition expire_peer :: "peer_record \<Rightarrow> peer_record" where
  "expire_peer peer = peer\<lparr>peer_connection_state := PeerExpired, peer_sync_state := SyncUnknown\<rparr>"

definition expire_stale :: "(nat \<Rightarrow> int option) \<Rightarrow> datetime \<Rightarrow> nat \<Rightarrow> peer_registry \<Rightarrow> string list \<times> peer_registry" where
  "expire_stale from_std now timeout peers =
     (let t = (case from_std timeout of None \<Rightarrow> 45000000000 | Some t \<Rightarrow> t) in
      (map peer_id (filter (is_stale now t) (hm_values peers)),
       hm_map_values (\<lambda>p. if is_stale now t p then expire_peer p else p) peers))"

definition peers_list :: "peer_registry \<Rightarrow> peer_record list" where
  "peers_list peers = sort_key peer_display_name (hm_values peers)"

section \<open>Scan targets\<close>

text \<open>The classes of IPv4 addresses, by their octets.\<close>

definition octet :: "nat \<Rightarrow> 32 word \<Rightarrow> nat" where
  "octet i a = unat (drop_bit (8 * (3 - i)) a) mod 256"

definition ipv4_of :: "nat \<Rightarrow> nat \<Rightarrow> nat \<Rightarrow> nat \<Rightarrow> 32 word" where
  "ipv4_of a b c d = of_nat (((a * 256 + b) * 256 + c) * 256 + d)"

definition ip_is_unspecified :: "32 word \<Rightarrow> bool" where "ip_is_unspecified a = (a = 0)"
definition ip_is_loopback :: "32 word \<Rightarrow> bool" where "ip_is_loopback a = (octet 0 a = 127)"
definition ip_is_broadcast :: "32 word \<Rightarrow> bool" where "ip_is_broadcast a = (a = - 1)"
definition ip_is_multicast :: "32 word \<Rightarrow> bool" where
  "ip_is_multicast a = (224 \<le> octet 0 a \<and> octet 0 a \<le> 239)"
definition ip_is_private :: "32 word \<Rightarrow> bool" where
  "ip_is_private a = (octet 0 a = 10 \<or> octet 0 a = 172 \<and> 16 \<le> octet 1 a \<and> octet 1 a \<le> 31 \<or>
     octet 0 a = 192 \<and> octet 1 a = 168)"
definition ip_is_link_local :: "32 word \<Rightarrow> bool" where
  "ip_is_link_local a = (octet 0 a = 169 \<and> octet 1 a = 254)"

definition is_scannable_ipv4 :: "32 word \<Rightarrow> bool" where
  "is_scannable_ipv4 a = (\<not> ip_is_unspecified a \<and> \<not> ip_is_loopback a \<and> \<not> ip_is_broadcast a \<and>
     \<not> ip_is_multicast a \<and> (ip_is_private a \<or> ip_is_link_local a))"

text \<open>The address each probe socket got from the routing table is an input: \<open>None\<close> where
  binding, connecting or reading the address failed.\<close>

definition local_scan_interface_addresses :: "32 word option list \<Rightarrow> 32 word list" where
  "local_scan_interface_addresses probes =
     foldl (\<lambda>acc p. case p of None \<Rightarrow> acc
       | Some a \<Rightarrow> if \<not> is_scannable_ipv4 a \<or> a \<in> set acc then acc else acc @ [a]) [] probes"

text \<open>\<open>sort_unstable\<close>, \<open>dedup\<close>.\<close>

definition scan_ports :: "16 word list \<Rightarrow> 16 word list" where
  "scan_ports ports = remdups_adj (sort (filter (\<lambda>p. p \<noteq> 0) ports))"

text \<open>The candidates of the three nested loops, in order, and the loop body over them: it
  returns (\<open>True\<close>) as soon as the limit is reached.\<close>

definition scan_hosts :: "nat list" where "scan_hosts = [1..<255]"

definition scan_candidates :: "32 word list \<Rightarrow> 16 word list \<Rightarrow> (32 word \<times> 16 word) list" where
  "scan_candidates locals ports =
     concat (map (\<lambda>a. concat (map (\<lambda>h.
       if h = octet 3 a then []
       else map (\<lambda>p. (ipv4_of (octet 0 a) (octet 1 a) (octet 2 a) h, p)) ports) scan_hosts)) locals)"

fun scan_loop :: "nat \<Rightarrow> (32 word \<times> 16 word) list \<Rightarrow> (32 word \<times> 16 word) list \<Rightarrow> (32 word \<times> 16 word) list" where
  "scan_loop m [] targets = targets"
| "scan_loop m (c # cs) targets =
     (if c \<in> set targets then scan_loop m cs targets
      else let targets = targets @ [c] in
        if length targets \<ge> m then targets else scan_loop m cs targets)"

definition local_scan_targets :: "32 word option list \<Rightarrow> 16 word list \<Rightarrow> nat \<Rightarrow> socket_addr list" where
  "local_scan_targets probes ports m =
     (let ports = scan_ports ports in
      if ports = [] \<or> m = 0 then []
      else map (\<lambda>(a, p). SockV4 a p)
        (scan_loop m (scan_candidates (local_scan_interface_addresses probes) ports) []))"

section \<open>Heads\<close>

record head_summary =
  hs_logbook_id :: uuid
  hs_head_hash :: "string option"
  hs_event_count :: "64 word option"

datatype head_comparison_status =
  HeadUnknown | HeadMatch | HeadLocalAhead | HeadRemoteAhead | HeadDiverged

record head_comparison =
  hc_logbook_id :: uuid
  hc_local_head_hash :: "string option"
  hc_remote_head_hash :: "string option"
  hc_local_event_count :: "64 word option"
  hc_remote_event_count :: "64 word option"
  hc_status :: head_comparison_status

record handshake_request =
  hq_protocol_version :: "16 word"
  hq_device_id :: uuid
  hq_session_id :: uuid
  hq_supported_capabilities :: "string list"
  hq_logbooks :: "head_summary list"

record handshake_response =
  hr_accepted :: bool
  hr_reason :: "string option"
  hr_peer_device_id :: uuid
  hr_protocol_version :: "16 word"
  hr_supported_capabilities :: "string list"
  hr_matching_logbooks :: "head_comparison list"

definition compare_heads :: "head_summary \<Rightarrow> head_summary \<Rightarrow> head_comparison_status" where
  "compare_heads l r =
     (case (hs_head_hash l, hs_head_hash r) of
        (None, None) \<Rightarrow> HeadMatch
      | (Some _, None) \<Rightarrow> HeadLocalAhead
      | (None, Some _) \<Rightarrow> HeadRemoteAhead
      | (Some left, Some right) \<Rightarrow>
          if left = right then HeadMatch
          else (case (hs_event_count l, hs_event_count r) of
             (Some lc, Some rc) \<Rightarrow>
               if lc > rc then HeadLocalAhead else if rc > lc then HeadRemoteAhead else HeadDiverged
           | _ \<Rightarrow> HeadUnknown))"

definition build_handshake_response ::
    "local_peer_identity \<Rightarrow> head_summary list \<Rightarrow> handshake_request \<Rightarrow> handshake_response" where
  "build_handshake_response i heads q =
     (if hq_protocol_version q \<noteq> PROTOCOL_VERSION then
        \<lparr>hr_accepted = False, hr_reason = Some ''incompatible protocol version'',
         hr_peer_device_id = li_device_id i, hr_protocol_version = PROTOCOL_VERSION,
         hr_supported_capabilities = li_capabilities i, hr_matching_logbooks = []\<rparr>
      else
        \<lparr>hr_accepted = True, hr_reason = None,
         hr_peer_device_id = li_device_id i, hr_protocol_version = PROTOCOL_VERSION,
         hr_supported_capabilities = li_capabilities i,
         hr_matching_logbooks = List.map_filter (\<lambda>l.
           case List.find (\<lambda>r. hs_logbook_id r = hs_logbook_id l) (hq_logbooks q) of
             None \<Rightarrow> None
           | Some r \<Rightarrow> Some \<lparr>hc_logbook_id = hs_logbook_id l,
               hc_local_head_hash = hs_head_hash l, hc_remote_head_hash = hs_head_hash r,
               hc_local_event_count = hs_event_count l, hc_remote_event_count = hs_event_count r,
               hc_status = compare_heads l r\<rparr>) heads\<rparr>)"

section \<open>Pulling events\<close>

record event_metadata =
  em_event_id :: uuid
  em_logbook_id :: uuid
  em_entity_id :: "uuid option"
  em_previous_hash :: "string option"
  em_event_hash :: string
  em_timestamp :: datetime
  em_event_type :: string
  em_schema_version :: "32 word"

definition metadata_for_event :: "core_event \<Rightarrow> event_metadata" where
  "metadata_for_event e =
     \<lparr>em_event_id = ev_event_id e, em_logbook_id = ev_logbook_id e, em_entity_id = ev_entity_id e,
      em_previous_hash = ev_previous_hash e, em_event_hash = ev_event_hash e,
      em_timestamp = ev_timestamp e, em_event_type = ev_event_type e,
      em_schema_version = ev_schema_version e\<rparr>"

datatype replication_status = InSync | RemoteAhead | Pulled | Diverged | Rejected

datatype replication_error =
    LogbookMismatch uuid uuid uuid
  | ReplicationPreviousHashMismatch uuid "string option" "string option"
  | ReplicationDiverged "string option"
  | ReplicationStore store_error

fun replication_error_message :: "libs \<Rightarrow> replication_error \<Rightarrow> string" where
  "replication_error_message L (LogbookMismatch i expected actual) =
     ''remote event '' @ lib_show_uuid L i @ '' is for logbook '' @ lib_show_uuid L actual @
     '', expected '' @ lib_show_uuid L expected"
| "replication_error_message L (ReplicationPreviousHashMismatch i expected actual) =
     ''remote event '' @ lib_show_uuid L i @ '' previous hash '' @ debug_opt_str actual @
     '' does not match expected '' @ debug_opt_str expected"
| "replication_error_message L (ReplicationDiverged h) =
     ''remote chain diverged from local head '' @ debug_opt_str h"
| "replication_error_message L (ReplicationStore e) = ''store error: '' @ store_error_message L e"

record preview_request =
  vq_peer_id :: string
  vq_logbook_id :: uuid
  vq_local_head_hash :: "string option"

record preview_response =
  vr_peer_id :: string
  vr_logbook_id :: uuid
  vr_status :: replication_status
  vr_local_head_hash :: "string option"
  vr_remote_head_hash :: "string option"
  vr_missing_event_count :: nat
  vr_remote_event_count :: nat
  vr_events :: "event_metadata list"
  vr_message :: string

record pull_request =
  pq_peer_id :: string
  pq_logbook_id :: uuid
  pq_local_head_hash :: "string option"

record pull_response =
  pl_peer_id :: string
  pl_logbook_id :: uuid
  pl_status :: replication_status
  pl_accepted_count :: nat
  pl_ignored_duplicate_count :: nat
  pl_rejected_count :: nat
  pl_local_head_hash :: "string option"
  pl_remote_head_hash :: "string option"
  pl_errors :: "string list"

definition events_for_logbook :: "core_event list \<Rightarrow> uuid \<Rightarrow> core_event list" where
  "events_for_logbook es lb = filter (\<lambda>e. ev_logbook_id e = lb) es"

text \<open>\<open>last().map(|e| e.event_hash.clone())\<close>.\<close>

definition last_hash :: "core_event list \<Rightarrow> string option" where
  "last_hash es = (if es = [] then None else Some (ev_event_hash (last es)))"

datatype missing_events = MissingEvents "core_event list" | MissingDiverged

definition missing_events_after :: "core_event list \<Rightarrow> string option \<Rightarrow> missing_events" where
  "missing_events_after es h =
     (case h of None \<Rightarrow> MissingEvents es
      | Some h \<Rightarrow> (case position (\<lambda>e. ev_event_hash e = h) es of
            Some i \<Rightarrow> MissingEvents (drop (i + 1) es)
          | None \<Rightarrow> MissingDiverged))"

definition remote_events_are_missing_tail :: "core_event list \<Rightarrow> string option \<Rightarrow> bool" where
  "remote_events_are_missing_tail es h =
     (case (h, es) of (Some h, e # _) \<Rightarrow> ev_previous_hash e = Some h | _ \<Rightarrow> False)"

fun verify_incoming_chain :: "libs \<Rightarrow> uuid \<Rightarrow> string option \<Rightarrow> core_event list \<Rightarrow> replication_error + unit" where
  "verify_incoming_chain L lb expected [] = Inr ()"
| "verify_incoming_chain L lb expected (e # es) =
     (if ev_logbook_id e \<noteq> lb then Inl (LogbookMismatch (ev_event_id e) lb (ev_logbook_id e))
      else and_then (map_err ReplicationStore (validate_supported_remote_event L e)) (\<lambda>_.
        if ev_previous_hash e \<noteq> expected
        then Inl (ReplicationPreviousHashMismatch (ev_event_id e) expected (ev_previous_hash e))
        else verify_incoming_chain L lb (Some (ev_event_hash e)) es))"

definition preview_pull_from_events :: "preview_request \<Rightarrow> core_event list \<Rightarrow> preview_response" where
  "preview_pull_from_events q es =
     (let es = events_for_logbook es (vq_logbook_id q);
          remote_head = last_hash es;
          response = (\<lambda>status missing message.
            \<lparr>vr_peer_id = vq_peer_id q, vr_logbook_id = vq_logbook_id q, vr_status = status,
             vr_local_head_hash = vq_local_head_hash q, vr_remote_head_hash = remote_head,
             vr_missing_event_count = length missing, vr_remote_event_count = length es,
             vr_events = map metadata_for_event missing, vr_message = message\<rparr>) in
      if vq_local_head_hash q = remote_head then response InSync [] ''Local and remote heads match''
      else (case missing_events_after es (vq_local_head_hash q) of
          MissingEvents missing \<Rightarrow>
            response RemoteAhead missing
              (show_nat (length missing) @ '' remote events are available to pull'')
        | MissingDiverged \<Rightarrow>
            response Diverged [] ''Remote chain does not contain the local head''))"

text \<open>The loop of \<open>pull_missing_events\<close> over the missing events: the counters and the errors.\<close>

fun pull_loop :: "'s store_ops \<Rightarrow> libs \<Rightarrow> core_event list \<Rightarrow> nat \<Rightarrow> nat \<Rightarrow> 's \<Rightarrow>
    nat \<times> nat \<times> string list \<times> 's" where
  "pull_loop ops L [] accepted ignored s = (accepted, ignored, [], s)"
| "pull_loop ops L (e # es) accepted ignored s =
     (case op_get_event ops s (ev_event_id e) of
        Inl err \<Rightarrow> (accepted, ignored, [store_error_message L err], s)
      | Inr (Some existing) \<Rightarrow>
          if existing = e then pull_loop ops L es accepted (ignored + 1) s
          else (accepted, ignored, [''event id '' @ lib_show_uuid L (ev_event_id e) @
            '' already exists with different content''], s)
      | Inr None \<Rightarrow>
          (case op_append_verified_remote_event ops e s of
             (Inr _, s) \<Rightarrow> pull_loop ops L es (accepted + 1) ignored s
           | (Inl err, s) \<Rightarrow> (accepted, ignored, [store_error_message L err], s)))"

definition pull_response_of :: "pull_request \<Rightarrow> replication_status \<Rightarrow> nat \<Rightarrow> nat \<Rightarrow> nat \<Rightarrow>
    string option \<Rightarrow> string option \<Rightarrow> string list \<Rightarrow> pull_response" where
  "pull_response_of q status accepted ignored rejected local_head remote_head errors =
     \<lparr>pl_peer_id = pq_peer_id q, pl_logbook_id = pq_logbook_id q, pl_status = status,
      pl_accepted_count = accepted, pl_ignored_duplicate_count = ignored,
      pl_rejected_count = rejected, pl_local_head_hash = local_head,
      pl_remote_head_hash = remote_head, pl_errors = errors\<rparr>"

definition pull_rejected :: "pull_request \<Rightarrow> string option \<Rightarrow> string option \<Rightarrow> string list \<Rightarrow> pull_response" where
  "pull_rejected q local_head remote_head errors =
     pull_response_of q Rejected 0 0 (length errors) local_head remote_head errors"

definition replication_error_status :: "replication_error \<Rightarrow> replication_status" where
  "replication_error_status err =
     (case err of ReplicationDiverged _ \<Rightarrow> Diverged
      | ReplicationPreviousHashMismatch _ _ _ \<Rightarrow> Diverged | _ \<Rightarrow> Rejected)"

definition pull_verified :: "'s store_ops \<Rightarrow> libs \<Rightarrow> pull_request \<Rightarrow> string option \<Rightarrow> string option \<Rightarrow>
    core_event list \<Rightarrow> 's \<Rightarrow> pull_response \<times> 's" where
  "pull_verified ops L q local_head remote_head missing s =
     (case verify_incoming_chain L (pq_logbook_id q) local_head missing of
        Inl err \<Rightarrow> (pull_response_of q (replication_error_status err) 0 0 (length missing)
          local_head remote_head [replication_error_message L err], s)
      | Inr _ \<Rightarrow>
          let (accepted, ignored, errors, s) = pull_loop ops L missing 0 0 s;
              final_head = (case op_get_head ops s (pq_logbook_id q) of Inr h \<Rightarrow> h | Inl _ \<Rightarrow> None);
              status = (if errors = [] then Pulled else Rejected)
          in (pull_response_of q status accepted ignored (length errors) final_head remote_head errors, s))"

definition pull_missing_events :: "'s store_ops \<Rightarrow> libs \<Rightarrow> pull_request \<Rightarrow> core_event list \<Rightarrow> 's \<Rightarrow>
    pull_response \<times> 's" where
  "pull_missing_events ops L q es s =
     (case op_get_head ops s (pq_logbook_id q) of
        Inl err \<Rightarrow> (pull_rejected q None None [store_error_message L err], s)
      | Inr local_head \<Rightarrow>
          let es = events_for_logbook es (pq_logbook_id q); remote_head = last_hash es in
          if local_head = remote_head
          then (pull_response_of q InSync 0 0 0 local_head remote_head [], s)
          else (case missing_events_after es local_head of
              MissingEvents missing \<Rightarrow> pull_verified ops L q local_head remote_head missing s
            | MissingDiverged \<Rightarrow>
                if remote_events_are_missing_tail es local_head
                then pull_verified ops L q local_head remote_head es s
                else (pull_response_of q Diverged 0 0 (length es) local_head remote_head
                  [''remote chain does not contain the local head''], s)))"

definition push_replication_status :: "string list \<Rightarrow> replication_status" where
  "push_replication_status errors =
     (if errors = [] then Pulled
      else if list_ex (\<lambda>e. contains_str e ''does not connect'' \<or> contains_str e ''previous hash'') errors
      then Diverged else Rejected)"


section \<open>Facts about peers\<close>

text \<open>Every registered peer is filed under its own identifier, speaks this protocol version, is
  not the local instance, and lists each of its addresses once.\<close>

definition peer_ok :: "libs \<Rightarrow> local_peer_identity \<Rightarrow> string \<Rightarrow> peer_record \<Rightarrow> bool" where
  "peer_ok L i k p = (peer_id p = k \<and>
     k = lib_show_uuid L (peer_device_id p) @ '':'' @ lib_show_uuid L (peer_session_id p) \<and>
     (peer_device_id p, peer_session_id p) \<noteq> (li_device_id i, li_session_id i) \<and>
     peer_protocol_version p = PROTOCOL_VERSION \<and>
     peer_addresses p \<noteq> [] \<and> distinct (peer_addresses p))"

lemma observe_ok:
  assumes "map_ok (peer_ok L i) peers" and "observe L i p a peers w = (ob, peers', w')"
  shows "map_ok (peer_ok L i) peers'"
proof (cases "ob = IgnoredIncompatible \<or> ob = IgnoredSelf")
  case True
  with assms show ?thesis by (auto simp: observe_def Let_def split: if_splits option.splits prod.splits)
next
  case False
  with assms show ?thesis
    by (auto simp: observe_def Let_def split: if_splits option.splits prod.splits
      intro!: map_ok_modify map_ok_insert)
      (auto simp: peer_ok_def refresh_peer_def new_peer_def packet_peer_id_def)
qed

lemma expire_stale_ok: "map_ok (peer_ok L i) peers \<Longrightarrow> expire_stale fs now t peers = (ids, peers') \<Longrightarrow>
    map_ok (peer_ok L i) peers'"
  by (auto simp: expire_stale_def Let_def peer_ok_def expire_peer_def intro!: map_ok_map_values)

lemma expire_peer_not_stale: "\<not> is_stale now t (if is_stale now t p then expire_peer p else p)"
  by (simp add: is_stale_def expire_peer_def)

lemma expire_stale_again:
  assumes "expire_stale fs now t peers = (ids, peers')"
  shows "expire_stale fs now t peers' = ([], peers')"
  using assms expire_peer_not_stale
  by (auto simp: expire_stale_def Let_def hm_values_def hm_map_values_def filter_empty_conv)

section \<open>Facts about scan targets\<close>

lemma octet_ipv4_of:
  assumes "a < 256" "b < 256" "c < 256" "d < 256"
  shows "octet 0 (ipv4_of a b c d) = a" "octet 1 (ipv4_of a b c d) = b"
    "octet 2 (ipv4_of a b c d) = c" "octet 3 (ipv4_of a b c d) = d"
proof -
  define n where "n = ((a * 256 + b) * 256 + c) * 256 + d"
  have "n < 2 ^ 32" using assms unfolding n_def by simp
  then have u: "unat (of_nat n :: 32 word) = n" by (simp add: unat_of_nat)
  have dv: "unat (drop_bit k (of_nat n :: 32 word)) = n div 2 ^ k" for k
    by (simp only: unat_drop_bit_eq u) (simp add: drop_bit_eq_div)
  have base: "(x * 256 + y) div 256 = x" "(x * 256 + y) mod 256 = y" if "y < 256" for x y :: nat
    using that by simp_all
  have "n div 256 = (a * 256 + b) * 256 + c" "n mod 256 = d"
    "((a * 256 + b) * 256 + c) div 256 = a * 256 + b" "((a * 256 + b) * 256 + c) mod 256 = c"
    "(a * 256 + b) div 256 = a" "(a * 256 + b) mod 256 = b" "a mod 256 = a"
    unfolding n_def using assms by (simp_all only: base mod_less)
  moreover have "n div 65536 = n div 256 div 256" "n div 16777216 = n div 256 div 256 div 256"
    by (simp_all add: div_mult2_eq [symmetric])
  ultimately have split_div: "n div 16777216 mod 256 = a" "n div 65536 mod 256 = b"
    "n div 256 mod 256 = c" "n mod 256 = d" by simp_all
  show "octet 0 (ipv4_of a b c d) = a" "octet 1 (ipv4_of a b c d) = b"
    "octet 2 (ipv4_of a b c d) = c" "octet 3 (ipv4_of a b c d) = d"
    unfolding octet_def ipv4_of_def n_def [symmetric] dv using split_div by simp_all
qed

lemma octet_bound: "octet i a < 256"
  by (simp add: octet_def)

lemma scan_loop_spec:
  assumes "length acc < m" and "distinct acc"
  shows "length (scan_loop m cs acc) \<le> m \<and> distinct (scan_loop m cs acc) \<and>
    set (scan_loop m cs acc) \<subseteq> set acc \<union> set cs \<and>
    (length (scan_loop m cs acc) < m \<longrightarrow> set (scan_loop m cs acc) = set acc \<union> set cs)"
  using assms
proof (induction cs arbitrary: acc)
  case (Cons c cs)
  show ?case
  proof (cases "c \<in> set acc")
    case True
    with Cons.IH [of acc] Cons.prems show ?thesis by auto
  next
    case False
    then show ?thesis
    proof (cases "Suc (length acc) \<ge> m")
      case True
      with False Cons.prems show ?thesis by auto
    next
      case less: False
      then have "length (acc @ [c]) < m" "distinct (acc @ [c])" using False Cons.prems by simp_all
      from Cons.IH [OF this] False less show ?thesis by auto
    qed
  qed
qed auto

lemma interface_addresses:
  "distinct (local_scan_interface_addresses probes) \<and>
   set (local_scan_interface_addresses probes) = {a. Some a \<in> set probes \<and> is_scannable_ipv4 a}"
proof (induction probes rule: rev_induct)
  case Nil
  then show ?case by (simp add: local_scan_interface_addresses_def)
next
  case (snoc p ps)
  define q where "q = local_scan_interface_addresses ps"
  have "local_scan_interface_addresses (ps @ [p]) = (case p of None \<Rightarrow> q
       | Some a \<Rightarrow> if \<not> is_scannable_ipv4 a \<or> a \<in> set q then q else q @ [a])"
    by (simp only: local_scan_interface_addresses_def q_def foldl_append foldl.simps)
  with snoc show ?case by (auto simp: q_def [symmetric] split: option.split)
qed

text \<open>A target has the network of a scannable local address, another host part, and a port
  that was asked for.\<close>

definition in_local_network :: "32 word option list \<Rightarrow> 16 word list \<Rightarrow> 32 word \<times> 16 word \<Rightarrow> bool" where
  "in_local_network probes ports t =
     (snd t \<in> set ports \<and> snd t \<noteq> 0 \<and> 1 \<le> octet 3 (fst t) \<and> octet 3 (fst t) \<le> 254 \<and>
      (\<exists>a. Some a \<in> set probes \<and> is_scannable_ipv4 a \<and> octet 3 a \<noteq> octet 3 (fst t) \<and>
        (\<forall>i<3. octet i a = octet i (fst t))))"

lemma in_scan_hosts: "h \<in> set scan_hosts \<longleftrightarrow> 1 \<le> h \<and> h \<le> 254"
  unfolding scan_hosts_def atLeastLessThan_upt [symmetric] by auto

lemma scan_candidates_iff:
  "(b, p) \<in> set (scan_candidates locals ports) \<longleftrightarrow> p \<in> set ports \<and>
     (\<exists>a h. a \<in> set locals \<and> 1 \<le> h \<and> h \<le> 254 \<and> h \<noteq> octet 3 a \<and>
       b = ipv4_of (octet 0 a) (octet 1 a) (octet 2 a) h)"
proof -
  have "(b, p) \<in> set (scan_candidates locals ports) \<longleftrightarrow>
      (\<exists>a\<in>set locals. \<exists>h\<in>set scan_hosts. h \<noteq> octet 3 a \<and> p \<in> set ports \<and>
        b = ipv4_of (octet 0 a) (octet 1 a) (octet 2 a) h)"
    by (fastforce simp: scan_candidates_def split: if_splits)
  then show ?thesis unfolding Bex_def in_scan_hosts by blast
qed

lemma scan_candidate_local:
  assumes "t \<in> set (scan_candidates (local_scan_interface_addresses probes) (scan_ports ports))"
  shows "in_local_network probes ports t"
proof -
  from assms obtain a h where a: "Some a \<in> set probes" "is_scannable_ipv4 a"
    and h: "1 \<le> h" "h \<le> 254" "h \<noteq> octet 3 a"
    and p: "snd t \<in> set ports" "snd t \<noteq> 0" and t: "fst t = ipv4_of (octet 0 a) (octet 1 a) (octet 2 a) h"
    using scan_candidates_iff [of "fst t" "snd t"] by (auto simp: interface_addresses scan_ports_def)
  from h have "h < 256" by simp
  note o = octet_ipv4_of [OF octet_bound [of 0 a] octet_bound [of 1 a] octet_bound [of 2 a] this,
      folded t]
  have "octet i a = octet i (fst t)" if "i < 3" for i
  proof -
    from that have "i = 0 \<or> i = 1 \<or> i = 2" by auto
    with o(1,2,3) show ?thesis by (elim disjE) simp_all
  qed
  with a h p o(4) show ?thesis unfolding in_local_network_def by metis
qed


section \<open>Facts about a pull\<close>

lemma end_hash_last: "end_hash prev es = (if es = [] then prev else Some (ev_event_hash (last es)))"
  by (induction es arbitrary: prev) auto

lemma last_hash_end: "last_hash es = end_hash None es"
  by (simp add: last_hash_def end_hash_last)

lemma verify_incoming_iff:
  "verify_incoming_chain L lb h es = Inr () \<longleftrightarrow>
     (\<forall>e\<in>set es. ev_logbook_id e = lb \<and> validate_supported_remote_event L e = Inr ()) \<and> chain L h es"
  by (induction es arbitrary: h) (auto simp: validated_hash)

lemma chain_distinct:
  assumes "chain L None es" and "inj_on (lib_digest L) (canonical_of ` set es)"
  shows "distinct (map ev_event_hash es)"
proof (rule ccontr)
  assume "\<not> distinct (map ev_event_hash es)"
  then obtain hs gs ks h where "map ev_event_hash es = hs @ [h] @ gs @ [h] @ ks"
    using not_distinct_decomp by blast
  then obtain xs x ys y zs where es: "es = xs @ x # ys @ y # zs" and h: "ev_event_hash x = ev_event_hash y"
    by (auto simp: map_eq_append_conv append_eq_map_conv Cons_eq_map_conv map_eq_Cons_conv)
  have c: "chain L None (xs @ [x])" "chain L None (xs @ x # ys @ [y])"
    using assms(1) by (simp_all add: es)
  have "xs @ [x] = xs @ x # ys @ [y]"
  proof (rule chain_head_unique [OF c])
    show "end_hash None (xs @ [x]) = end_hash None (xs @ x # ys @ [y])" using h by simp
    show "inj_on (lib_digest L) (canonical_of ` (set (xs @ [x]) \<union> set (xs @ x # ys @ [y])))"
      by (rule inj_on_subset [OF assms(2)]) (auto simp: es)
  qed
  then show False by simp
qed

text \<open>The events after the local head, when the peer's history continues the local one.\<close>

lemma position_append:
  "list_all (\<lambda>x. \<not> p x) xs \<Longrightarrow> p y \<Longrightarrow> position p (xs @ y # ys) = Some (length xs)"
  by (induction xs) auto

lemma position_None_iff: "position p xs = None \<longleftrightarrow> list_all (\<lambda>x. \<not> p x) xs"
  by (induction xs) auto

lemma position_SomeD:
  "position p xs = Some i \<Longrightarrow> i < length xs \<and> p (xs ! i)"
  by (induction xs arbitrary: i) (auto split: if_splits)

lemma missing_after_prefix:
  assumes "distinct (map ev_event_hash (xs @ ys))"
  shows "missing_events_after (xs @ ys) (end_hash None xs) = MissingEvents ys"
proof (cases xs rule: rev_cases)
  case (snoc zs z)
  have "position (\<lambda>e. ev_event_hash e = ev_event_hash z) (zs @ z # ys) = Some (length zs)"
    using assms snoc by (intro position_append) (auto simp: list_all_iff image_iff)
  with snoc show ?thesis by (simp add: missing_events_after_def end_hash_last)
qed (simp add: missing_events_after_def)

lemma missing_after_splits:
  assumes "missing_events_after es h = MissingEvents ms"
  obtains xs where "es = xs @ ms" "end_hash None xs = h"
proof (cases h)
  case None
  with assms that [of "[]"] show ?thesis by (simp add: missing_events_after_def)
next
  case (Some k)
  with assms obtain i where i: "position (\<lambda>e. ev_event_hash e = k) es = Some i" "ms = drop (i + 1) es"
    by (auto simp: missing_events_after_def split: option.splits)
  from position_SomeD [OF i(1)] have "i < length es" "ev_event_hash (es ! i) = k" by simp_all
  then have "es = (take i es @ [es ! i]) @ ms" "end_hash None (take i es @ [es ! i]) = h"
    using i(2) Some by (simp_all add: id_take_nth_drop [symmetric] Suc_eq_plus1 [symmetric])
  with that show ?thesis by blast
qed

context event_store begin

lemma pull_loop_spec:
  assumes "inv s" and "pull_loop ops L es a i s = (a', i', errs, s')" and "\<forall>e\<in>set es. ev_logbook_id e = lb"
  shows "\<exists>ms. inv s' \<and> log s' = (log s)(lb := log s lb @ ms) \<and> subseq ms es \<and> a' = a + length ms \<and>
    (errs = [] \<longrightarrow> set es \<subseteq> set (log s' lb)) \<and>
    (errs = [] \<longrightarrow> set es \<inter> set (log s lb) = {} \<longrightarrow> distinct es \<longrightarrow> ms = es)"
  using assms
proof (induction es arbitrary: a i s)
  case (Cons e es)
  have get: "op_get_event ops s (ev_event_id e) = Inr (known s (ev_event_id e))" by (rule get_event)
  have lb: "ev_logbook_id e = lb" using Cons.prems(3) by simp
  show ?case
  proof (cases "known s (ev_event_id e)")
    case (Some x)
    show ?thesis
    proof (cases "x = e")
      case True
      from known_log [OF Cons.prems(1) Some] True lb have e: "e \<in> set (log s lb)" by simp
      from Cons.prems(2) get Some True have "pull_loop ops L es a (i + 1) s = (a', i', errs, s')" by simp
      from Cons.IH [OF Cons.prems(1) this] Cons.prems(3) e show ?thesis by auto
    next
      case False
      with Cons.prems get Some show ?thesis by (intro exI [of _ "[]"]) auto
    qed
  next
    case None
    obtain r t where r: "op_append_verified_remote_event ops e s = (r, t)" by fastforce
    show ?thesis
    proof (cases r)
      case (Inl err)
      from remote_refused [OF Cons.prems(1)] r Inl have "inv t" "log t = log s" by auto
      with Cons.prems(2) get None r Inl show ?thesis by (intro exI [of _ "[]"]) auto
    next
      case (Inr x)
      from remote_accepted [OF Cons.prems(1)] r Inr None lb have
        t: "inv t" "log t = (log s)(lb := log s lb @ [e])" by auto
      from Cons.prems(2) get None r Inr have loop: "pull_loop ops L es (a + 1) i t = (a', i', errs, s')" by simp
      from Cons.prems(3) have lbs: "\<forall>e\<in>set es. ev_logbook_id e = lb" by simp
      from Cons.IH [OF t(1) loop lbs] obtain ms where
        ms: "inv s'" "log s' = (log t)(lb := log t lb @ ms)" "subseq ms es" "a' = a + 1 + length ms"
          "errs = [] \<longrightarrow> set es \<subseteq> set (log s' lb)"
          "errs = [] \<longrightarrow> set es \<inter> set (log t lb) = {} \<longrightarrow> distinct es \<longrightarrow> ms = es"
        by (elim exE conjE) (rule that)
      then show ?thesis using t by (intro exI [of _ "e # ms"]) auto
    qed
  qed
qed (intro exI [of _ "[]"], simp)

text \<open>Whatever a peer sends, a pull only appends events it sent to the one logbook.\<close>

lemma pull_verified_outcome:
  assumes "inv s" and "pull_verified ops L q (end_hash None (log s lb)) rh ms s = (r, s')"
    and "lb = pq_logbook_id q"
  shows "\<exists>xs. inv s' \<and> log s' = (log s)(lb := log s lb @ xs) \<and> subseq xs ms \<and>
    pl_accepted_count r = length xs \<and> pl_local_head_hash r = end_hash None (log s' lb) \<and>
    pl_remote_head_hash r = rh \<and> (pl_status r = Diverged \<longrightarrow> xs = []) \<and> pl_status r \<noteq> InSync \<and>
    (pl_status r = Pulled \<longrightarrow> verify_incoming_chain L lb (end_hash None (log s lb)) ms = Inr () \<and>
      set ms \<subseteq> set (log s' lb) \<and> (set ms \<inter> set (log s lb) = {} \<longrightarrow> distinct ms \<longrightarrow> xs = ms))"
proof (cases "verify_incoming_chain L lb (end_hash None (log s lb)) ms")
  case (Inl err)
  with assms show ?thesis
    by (intro exI [of _ "[]"]) (auto simp: pull_verified_def pull_response_of_def
      replication_error_status_def split: replication_error.splits)
next
  case (Inr u)
  then have lb: "\<forall>e\<in>set ms. ev_logbook_id e = lb" by (simp add: verify_incoming_iff)
  obtain a i errs t where l: "pull_loop ops L ms 0 0 s = (a, i, errs, t)" by (metis prod_cases4)
  from pull_loop_spec [OF assms(1) l lb, unfolded add_0] obtain xs where xs: "inv t"
    "log t = (log s)(lb := log s lb @ xs)" "subseq xs ms" "a = length xs"
    "errs = [] \<longrightarrow> set ms \<subseteq> set (log t lb)"
    "errs = [] \<longrightarrow> set ms \<inter> set (log s lb) = {} \<longrightarrow> distinct ms \<longrightarrow> xs = ms"
    by (elim exE conjE) (rule that)
  from assms(2,3) Inr l have rs: "s' = t" "pl_accepted_count r = a" "pl_remote_head_hash r = rh"
    "pl_status r = (if errs = [] then Pulled else Rejected)"
    "pl_local_head_hash r = (case op_get_head ops t lb of Inr h \<Rightarrow> h | Inl _ \<Rightarrow> None)"
    by (auto simp: pull_verified_def pull_response_of_def)
  then have "pl_local_head_hash r = end_hash None (log s' lb)" by (simp add: get_head [OF xs(1)])
  with xs rs Inr show ?thesis by (intro exI [of _ xs]) simp
qed

lemma pull_cases:
  assumes "inv s" and "lb = pq_logbook_id q" and "rs = events_for_logbook es lb"
    and "h = end_hash None (log s lb)"
  shows "pull_missing_events ops L q es s =
    (if h = last_hash rs then (pull_response_of q InSync 0 0 0 h (last_hash rs) [], s)
     else case missing_events_after rs h of
        MissingEvents ms \<Rightarrow> pull_verified ops L q h (last_hash rs) ms s
      | MissingDiverged \<Rightarrow>
          if remote_events_are_missing_tail rs h then pull_verified ops L q h (last_hash rs) rs s
          else (pull_response_of q Diverged 0 0 (length rs) h (last_hash rs)
            [''remote chain does not contain the local head''], s))"
  unfolding pull_missing_events_def assms(2,3,4) get_head [OF assms(1)] Let_def sum.case ..

lemma pull_outcome:
  assumes "inv s" and "pull_missing_events ops L q es s = (r, s')" and "lb = pq_logbook_id q"
  shows "\<exists>xs. inv s' \<and> log s' = (log s)(lb := log s lb @ xs) \<and> subseq xs (events_for_logbook es lb) \<and>
    pl_accepted_count r = length xs \<and> pl_local_head_hash r = end_hash None (log s' lb) \<and>
    (pl_status r \<in> {InSync, Diverged} \<longrightarrow> xs = [])"
proof -
  define rs where "rs = events_for_logbook es lb"
  define h where "h = end_hash None (log s lb)"
  note eq = pull_cases [OF assms(1,3) rs_def h_def]
  have verified: ?thesis if v: "pull_verified ops L q h (last_hash rs) ms s = (r, s')" and ms: "subseq ms rs" for ms
  proof -
    from pull_verified_outcome [OF assms(1) v [unfolded h_def] assms(3)] obtain xs where
      xs: "inv s'" "log s' = (log s)(lb := log s lb @ xs)" "subseq xs ms" "pl_accepted_count r = length xs"
        "pl_local_head_hash r = end_hash None (log s' lb)" "pl_status r = Diverged \<longrightarrow> xs = []"
        "pl_status r \<noteq> InSync" by metis
    have "subseq xs rs" by (rule subseq_order.trans [OF xs(3) ms])
    with xs show ?thesis unfolding rs_def by blast
  qed
  have none: ?thesis if "(pull_response_of q st 0 0 k h rh errs, s) = (r, s')" for st k rh errs
    using that assms(1) by (intro exI [of _ "[]"]) (auto simp: pull_response_of_def h_def)
  show ?thesis
  proof (cases "missing_events_after rs h")
    case (MissingEvents ms)
    then obtain xs where "rs = xs @ ms" by (rule missing_after_splits)
    then have "subseq ms rs" by (simp add: list_emb_append2)
    show ?thesis
    proof (cases "h = last_hash rs")
      case True
      with assms(2) MissingEvents
      have "(pull_response_of q InSync 0 0 0 h (last_hash rs) [], s) = (r, s')" by (simp add: eq)
      then show ?thesis by (rule none)
    next
      case False
      with assms(2) MissingEvents have "pull_verified ops L q h (last_hash rs) ms s = (r, s')" by (simp add: eq)
      then show ?thesis using \<open>subseq ms rs\<close> by (rule verified)
    qed
  next
    case MissingDiverged
    show ?thesis
    proof (cases "h \<noteq> last_hash rs \<and> remote_events_are_missing_tail rs h")
      case True
      with assms(2) MissingDiverged have "pull_verified ops L q h (last_hash rs) rs s = (r, s')" by (simp add: eq)
      then show ?thesis by (rule verified) simp
    next
      case False
      with assms(2) MissingDiverged none show ?thesis by (auto simp: eq split: if_splits)
    qed
  qed
qed

text \<open>A pull that ends in agreement with a valid history leaves exactly that history.\<close>

lemma pull_converges:
  assumes "inv s" and "pull_missing_events ops L q es s = (r, s')" and "lb = pq_logbook_id q"
    and rs: "rs = events_for_logbook es lb" "chain L None rs"
    and agree: "pl_status r \<in> {InSync, Pulled}"
    and inj: "inj_on (lib_digest L) (canonical_of ` (set (log s lb) \<union> set rs))"
  shows "log s' lb = rs"
proof -
  define h where "h = end_hash None (log s lb)"
  note eq = pull_cases [OF assms(1,3) rs(1) h_def]
  have same: "log s lb = xs" if "rs = xs @ ms" "end_hash None xs = h" for xs ms
  proof (rule chain_head_unique [of L])
    show "chain L None xs" using rs(2) that by simp
    show "inj_on (lib_digest L) (canonical_of ` (set (log s lb) \<union> set xs))"
      by (rule inj_on_subset [OF inj]) (auto simp: that)
  qed (use log_chain [OF assms(1)] that in \<open>simp_all add: h_def\<close>)
  have dist: "distinct rs"
    using chain_distinct [OF rs(2)] inj_on_subset [OF inj] by (metis Un_upper2 distinct_map image_mono)
  show ?thesis
  proof (cases "h = last_hash rs")
    case True
    with assms(2) have "s' = s" by (simp add: eq)
    with same [of rs "[]"] True show ?thesis by (simp add: last_hash_end)
  next
    case False
    show ?thesis
    proof (cases "missing_events_after rs h")
      case (MissingEvents ms)
      then obtain xs where xs: "rs = xs @ ms" "end_hash None xs = h" by (rule missing_after_splits)
      from assms(2) MissingEvents False have v: "pull_verified ops L q h (last_hash rs) ms s = (r, s')" by (simp add: eq)
      have "set ms \<inter> set (log s lb) = {}" "distinct ms" using dist same [OF xs] xs by auto
      with pull_verified_outcome [OF assms(1) v [unfolded h_def] assms(3)] agree
      have "log s' lb = log s lb @ ms" by fastforce
      with same [OF xs] xs show ?thesis by simp
    next
      case MissingDiverged
      have "h = None" if "remote_events_are_missing_tail rs h"
        using that rs(2) by (cases rs; cases h) (auto simp: remote_events_are_missing_tail_def)
      with MissingDiverged have "\<not> remote_events_are_missing_tail rs h"
        by (auto simp: missing_events_after_def)
      with assms(2) MissingDiverged False have "pl_status r = Diverged"
        by (auto simp: eq pull_response_of_def)
      with agree show ?thesis by simp
    qed
  qed
qed

text \<open>A peer that is ahead by valid events is caught up with in one pull.\<close>

lemma pull_loop_all:
  assumes "inv s" and "\<forall>e\<in>set es. validate_supported_remote_event L e = Inr () \<and> ev_logbook_id e = lb \<and>
      known s (ev_event_id e) = None"
    and "chain L (end_hash None (log s lb)) es" and "distinct (map ev_event_id es)"
  shows "\<exists>s'. pull_loop ops L es a i s = (a + length es, i, [], s')"
  using assms
proof (induction es arbitrary: a s)
  case (Cons e es)
  have e: "validate_supported_remote_event L e = Inr ()" "ev_logbook_id e = lb"
    "known s (ev_event_id e) = None" "ev_previous_hash e = end_hash None (log s lb)"
    using Cons.prems(2,3) by auto
  from remote_accepts [OF Cons.prems(1) e(1)] e obtain t where
    t: "op_append_verified_remote_event ops e s = (Inr e, t)" by blast
  have t': "inv t" "log t = (log s)(lb := log s lb @ [e])" "known t = (known s)(ev_event_id e \<mapsto> e)"
    using remote_accepted [OF Cons.prems(1) t] e(3) unfolding e(2) by simp_all
  have "known t (ev_event_id x) = None" if "x \<in> set es" for x
  proof -
    have "ev_event_id x \<in> set (map ev_event_id es)" using that by simp
    then have "ev_event_id x \<noteq> ev_event_id e" using Cons.prems(4) by fastforce
    moreover have "known s (ev_event_id x) = None" using Cons.prems(2) that by simp
    ultimately show ?thesis by (simp add: t'(3))
  qed
  then have ok: "\<forall>x\<in>set es. validate_supported_remote_event L x = Inr () \<and> ev_logbook_id x = lb \<and>
      known t (ev_event_id x) = None" using Cons.prems(2) by simp
  have "chain L (end_hash None (log t lb)) es" "distinct (map ev_event_id es)"
    using Cons.prems(3,4) by (simp_all add: t'(2))
  from Cons.IH [OF t'(1) ok this] obtain u where
    "pull_loop ops L es (a + 1) i t = (a + 1 + length es, i, [], u)" by blast
  then have "pull_loop ops L (e # es) a i s = (a + length (e # es), i, [], u)"
    by (simp add: get_event e(3) t)
  then show ?case by blast
qed simp

lemma pull_completes:
  assumes "inv s" and "pull_missing_events ops L q es s = (r, s')" and "lb = pq_logbook_id q"
    and rs: "events_for_logbook es lb = log s lb @ ms" "chain L None (log s lb @ ms)" and "ms \<noteq> []"
    and ok: "\<forall>e\<in>set ms. validate_supported_remote_event L e = Inr () \<and> known s (ev_event_id e) = None"
    and ids: "distinct (map ev_event_id ms)"
    and inj: "inj_on (lib_digest L) (canonical_of ` set (log s lb @ ms))"
  shows "pl_status r = Pulled \<and> pl_accepted_count r = length ms \<and> log s' = (log s)(lb := log s lb @ ms) \<and> inv s'"
proof -
  define h where "h = end_hash None (log s lb)"
  note eq = pull_cases [OF assms(1,3) rs(1) [symmetric] h_def]
  have dist: "distinct (map ev_event_hash (log s lb @ ms))" by (rule chain_distinct [OF rs(2) inj])
  then have miss: "missing_events_after (log s lb @ ms) h = MissingEvents ms"
    unfolding h_def by (rule missing_after_prefix)
  have ne: "h \<noteq> last_hash (log s lb @ ms)"
  proof
    assume h: "h = last_hash (log s lb @ ms)"
    have "log s lb = log s lb @ ms"
    proof (rule chain_head_unique [of L])
      show "inj_on (lib_digest L) (canonical_of ` (set (log s lb) \<union> set (log s lb @ ms)))"
        by (rule inj_on_subset [OF inj]) auto
    qed (use rs(2) h in \<open>simp_all add: h_def last_hash_end\<close>)
    with \<open>ms \<noteq> []\<close> show False by simp
  qed
  have lbs: "\<forall>e\<in>set ms. ev_logbook_id e = lb"
  proof -
    have "set ms \<subseteq> set (events_for_logbook es lb)" unfolding rs(1) by simp
    then show ?thesis by (auto simp: events_for_logbook_def)
  qed
  have c: "chain L h ms" using rs(2) by (simp add: h_def)
  from ok lbs c have v: "verify_incoming_chain L lb h ms = Inr ()" by (simp add: verify_incoming_iff)
  obtain t where l: "pull_loop ops L ms 0 0 s = (0 + length ms, 0, [], t)"
    using pull_loop_all [OF assms(1) _ c [unfolded h_def] ids] ok lbs by blast
  from assms(2) ne have p: "pull_verified ops L q h (last_hash (log s lb @ ms)) ms s = (r, s')"
    by (simp add: eq miss)
  with v l assms(3) have st: "pl_status r = Pulled" "pl_accepted_count r = length ms"
    by (auto simp: pull_verified_def pull_response_of_def)
  have "set ms \<inter> set (log s lb) = {}" "distinct ms" using dist by (auto simp: distinct_map)
  with pull_verified_outcome [OF assms(1) p [unfolded h_def] assms(3)] st
  show ?thesis by fastforce
qed

text \<open>A peer that is behind is reported as diverged.\<close>

lemma position_suffix:
  assumes "distinct (map ev_event_hash (rs @ xs))" and "xs \<noteq> []"
  shows "position (\<lambda>e. ev_event_hash e = ev_event_hash (last xs)) rs = None"
proof -
  have "ev_event_hash (last xs) \<in> set (map ev_event_hash xs)" using assms(2) by simp
  with assms(1) have "ev_event_hash (last xs) \<notin> ev_event_hash ` set rs" by auto
  then show ?thesis by (auto simp: position_None_iff list_all_iff image_iff)
qed

lemma pull_behind:
  assumes "inv s" and "pull_missing_events ops L q es s = (r, s')" and "lb = pq_logbook_id q"
    and log: "log s lb = events_for_logbook es lb @ xs" "xs \<noteq> []"
    and inj: "inj_on (lib_digest L) (canonical_of ` set (log s lb))"
  shows "pl_status r = Diverged \<and> s' = s"
proof -
  define rs where "rs = events_for_logbook es lb"
  define h where "h = end_hash None (log s lb)"
  note eq = pull_cases [OF assms(1,3) rs_def h_def]
  have c: "chain L None (rs @ xs)" using log_chain [OF assms(1), of lb] by (simp add: log rs_def)
  have dist: "distinct (map ev_event_hash (rs @ xs))"
    by (rule chain_distinct [OF c]) (use inj in \<open>simp add: log rs_def\<close>)
  have h: "h = Some (ev_event_hash (last xs))" using log(2) by (simp add: h_def log end_hash_last)
  note pos = position_suffix [OF dist log(2)]
  have "h \<noteq> last_hash rs"
    using pos by (cases "rs = []") (auto simp: h last_hash_def position_None_iff list_all_iff)
  moreover have "missing_events_after rs h = MissingDiverged"
    using pos by (simp add: h missing_events_after_def)
  moreover have "\<not> remote_events_are_missing_tail rs h"
    using c by (cases rs) (auto simp: remote_events_are_missing_tail_def h)
  ultimately show ?thesis using assms(2) by (auto simp: eq pull_response_of_def)
qed

end

end
