(* ===== verification/Samples.thy ===== *)
theory Samples
  imports Sync
begin

text \<open>
  Concrete data for the witnesses: functions for the third-party crates, a few events, and
  the stores that hold them. Identifiers are printed in unary, the digest of an event is its
  identifier and its station, and the reader of JSON lines knows the events given to it.
\<close>

section \<open>The crates\<close>

definition unary :: "char \<Rightarrow> nat \<Rightarrow> string" where
  "unary c n = replicate n c"

lemma unary_eq_iff [simp]: "unary c m = unary c n \<longleftrightarrow> m = n"
  by (metis length_replicate unary_def)

lemma unary_read [simp]: "list_all (\<lambda>x. x = c) (unary c n)" "length (unary c n) = n"
  by (simp_all add: unary_def list_all_iff)

definition sample_digest :: "canonical_event \<Rightarrow> string" where
  "sample_digest e = unary (CHR ''h'') (unat (ce_event_id e)) @ ce_station_callsign e"

definition sample_print :: "core_event \<Rightarrow> string" where
  "sample_print e = ''{'' @ unary (CHR ''1'') (unat (ev_event_id e)) @ ''}''"

definition sample_libs :: "core_event list \<Rightarrow> libs" where
  "sample_libs es =
     \<lparr>lib_digest = sample_digest,
      lib_show_uuid = (\<lambda>u. unary (CHR ''u'') (unat u)),
      lib_parse_uuid = (\<lambda>s. if list_all (\<lambda>c. c = CHR ''u'') s then Some (of_nat (length s)) else None),
      lib_parse_rfc3339 = (\<lambda>s. Some (int (length s))),
      lib_print_event = sample_print,
      lib_parse_event = (\<lambda>l. List.find (\<lambda>e. sample_print e = l) es)\<rparr>"

lemma sample_libs_simps [simp]:
  "lib_digest (sample_libs es) = sample_digest"
  "lib_print_event (sample_libs es) = sample_print"
  "lib_show_uuid (sample_libs es) u = unary (CHR ''u'') (unat u)"
  "lib_parse_event (sample_libs es) l = List.find (\<lambda>e. sample_print e = l) es"
  by (simp_all add: sample_libs_def)

section \<open>Events of logbook 7\<close>

definition sample_event :: "uuid \<Rightarrow> string \<Rightarrow> string option \<Rightarrow> uuid \<Rightarrow> json \<Rightarrow> core_event" where
  "sample_event i t prev entity payload =
     (let e = \<lparr>ev_event_id = i, ev_event_type = t, ev_logbook_id = 7, ev_entity_id = Some entity,
        ev_previous_hash = prev, ev_event_hash = [], ev_timestamp = 0, ev_author_operator_id = None,
        ev_station_callsign = ''K8'', ev_operator_callsign = None, ev_author_device_id = 5,
        ev_source_device_id = 5, ev_correlation_id = 6, ev_source_plugin_id = None,
        ev_schema_version = 1, ev_payload = payload\<rparr>
      in e\<lparr>ev_event_hash := sample_digest (canonical_of e)\<rparr>)"

lemma sample_event_simps [simp]:
  "ev_event_id (sample_event i t prev q payload) = i"
  "ev_event_type (sample_event i t prev q payload) = t"
  "ev_logbook_id (sample_event i t prev q payload) = 7"
  "ev_entity_id (sample_event i t prev q payload) = Some q"
  "ev_previous_hash (sample_event i t prev q payload) = prev"
  "ev_event_hash (sample_event i t prev q payload) = unary (CHR ''h'') (unat i) @ ''K8''"
  "ev_schema_version (sample_event i t prev q payload) = 1"
  "ev_payload (sample_event i t prev q payload) = payload"
  "ev_station_callsign (sample_event i t prev q payload) = ''K8''"
  by (simp_all add: sample_event_def sample_digest_def canonical_of_def Let_def)

lemma sample_event_valid [simp]: "hash_is_valid (sample_libs es) (sample_event i t prev q payload)"
  by (simp add: hash_is_valid_def calculate_hash_def sample_digest_def canonical_of_def)

lemma canonical_id [simp]: "ce_event_id (canonical_of e) = ev_event_id e"
  and canonical_station [simp]: "ce_station_callsign (canonical_of e) = ev_station_callsign e"
  by (simp_all add: canonical_of_def)

text \<open>A contact that is logged, then deleted.\<close>

definition logged :: core_event where
  "logged = sample_event 1 OFFICIAL_LOG_QSO_CREATED None 100
     (JObject [(''band'', JString ''20m''), (''contacted_callsign'', JString ''N0CALL'')])"

definition deleted :: core_event where
  "deleted = sample_event 2 OFFICIAL_LOG_QSO_DELETED (Some (ev_event_hash logged)) 100 (JObject [])"

definition store_1 :: mem_store where
  "store_1 = mem_insert logged mem_empty"

definition store_2 :: mem_store where
  "store_2 = mem_insert deleted store_1"

lemma sample_ids [simp]: "ev_event_id logged = 1" "ev_event_id deleted = 2"
  "ev_logbook_id logged = 7" "ev_logbook_id deleted = 7"
  "ev_previous_hash logged = None" "ev_previous_hash deleted = Some (ev_event_hash logged)"
  "hash_is_valid (sample_libs es) logged" "hash_is_valid (sample_libs es) deleted"
  by (simp_all add: logged_def deleted_def)

lemma store_1_ok [simp]: "mem_ok (sample_libs es) store_1"
  unfolding store_1_def by (rule mem_insert_ok) simp_all

lemma store_1_log [simp]: "mem_log store_1 lb = (if lb = 7 then [logged] else [])"
  unfolding store_1_def by (simp add: mem_insert_log [of "sample_libs []"])

lemma store_1_known [simp]: "mem_known store_1 = [1 \<mapsto> logged]"
  by (simp add: store_1_def fun_eq_iff)

lemma store_2_ok [simp]: "mem_ok (sample_libs es) store_2"
  unfolding store_2_def by (rule mem_insert_ok) simp_all

lemma store_2_log [simp]: "mem_log store_2 lb = (if lb = 7 then [logged, deleted] else [])"
  unfolding store_2_def by (simp add: mem_insert_log [of "sample_libs []"])

lemma store_2_known [simp]: "mem_known store_2 = [1 \<mapsto> logged, 2 \<mapsto> deleted]"
  by (simp add: store_2_def fun_eq_iff)

lemma sample_digests_differ:
  "sample_digest (canonical_of logged) \<noteq> sample_digest (canonical_of deleted)"
  by (simp add: sample_digest_def logged_def deleted_def)

lemma sample_inj [simp]: "inj_on sample_digest (canonical_of ` {logged, deleted})"
  "inj_on sample_digest (canonical_of ` {deleted, logged})"
  using sample_digests_differ by (auto simp: inj_on_def)

lemma sample_supported [simp]:
  "validate_supported_remote_event (sample_libs es) logged = Inr ()"
  "validate_supported_remote_event (sample_libs es) deleted = Inr ()"
proof -
  have t: "OFFICIAL_LOG_QSO_CREATED \<in> set supported_remote_types"
    "OFFICIAL_LOG_QSO_DELETED \<in> set supported_remote_types" by (simp_all add: supported_remote_types_def)
  show "validate_supported_remote_event (sample_libs es) logged = Inr ()"
    "validate_supported_remote_event (sample_libs es) deleted = Inr ()"
    using t by (simp_all add: validate_supported_remote_event_def logged_def deleted_def)
qed

text \<open>The same contact in a store that also holds another logbook.\<close>

definition elsewhere :: core_event where
  "elsewhere = (sample_event 3 OFFICIAL_LOG_QSO_CREATED None 101 (JObject []))\<lparr>ev_logbook_id := 8\<rparr>"

lemma elsewhere_simps [simp]: "ev_event_id elsewhere = 3" "ev_logbook_id elsewhere = 8"
  "ev_previous_hash elsewhere = None" "hash_is_valid (sample_libs es) elsewhere"
  by (simp_all add: elsewhere_def hash_is_valid_def calculate_hash_def sample_digest_def)

definition store_3 :: mem_store where
  "store_3 = mem_insert deleted (mem_insert elsewhere store_1)"

lemma store_1_elsewhere:
  "mem_ok (sample_libs es) (mem_insert elsewhere store_1)"
  "mem_log (mem_insert elsewhere store_1) lb = (if lb = 7 then [logged] else if lb = 8 then [elsewhere] else [])"
proof -
  show "mem_ok (sample_libs es) (mem_insert elsewhere store_1)" for es
    by (rule mem_insert_ok) simp_all
  show "mem_log (mem_insert elsewhere store_1) lb = (if lb = 7 then [logged] else if lb = 8 then [elsewhere] else [])"
    by (simp add: mem_insert_log [of "sample_libs []"])
qed

lemma store_3_ok [simp]: "mem_ok (sample_libs es) store_3"
  unfolding store_3_def by (rule mem_insert_ok) (simp_all add: store_1_elsewhere)

lemma store_3_log [simp]:
  "mem_log store_3 lb = (if lb = 7 then [logged, deleted] else if lb = 8 then [elsewhere] else [])"
  unfolding store_3_def by (simp add: mem_insert_log [OF store_1_elsewhere(1)] store_1_elsewhere(2))

text \<open>A world whose identifiers are fresh for the sample stores.\<close>

definition sample_world :: world where
  "sample_world = \<lparr>uuid_source = (\<lambda>i. word_of_nat i), uuid_pos = 10,
     clock_source = (\<lambda>i. int i), clock_pos = 0\<rparr>"

end
