(* ===== verification/Log_Claims.thy ===== *)
theory Log_Claims
  imports Samples
begin

text \<open>
  Properties of the official log: the hash chain and its stores, durability of the JSON-lines
  file, and the state the projections rebuild from a log.
\<close>

section \<open>The chain and the stores\<close>


definition sample_disk :: jsonl_store where
  "sample_disk = \<lparr>js_memory = mem_empty, js_file = None, js_disk = []\<rparr>"

lemma sample_disk_ok [simp]: "jsonl_ok (sample_libs es) sample_disk"
  by (simp add: sample_disk_def jsonl_ok_def jsonl_healthy_def)

definition sample_new :: new_event where
  "sample_new = \<lparr>ne_event_type = OFFICIAL_LOG_QSO_NOTE_ADDED, ne_logbook_id = 7, ne_entity_id = Some 100,
     ne_author_operator_id = None, ne_station_callsign = ''K8'', ne_operator_callsign = None,
     ne_author_device_id = 5, ne_source_device_id = 5, ne_correlation_id = 6,
     ne_source_plugin_id = None, ne_schema_version = 1, ne_payload = JObject []\<rparr>"

definition sample_calls :: "store_call list" where
  "sample_calls = [RemoteAppend logged, LocalAppend sample_new, RemoteAppend logged]"

lemma sample_calls_run:
  obtains rs s' w' where "store_run (jsonl_ops (sample_libs [])) sample_calls sample_disk sample_world = (rs, s', w')"
    "fresh_draws (dom (mem_known (js_memory sample_disk)) \<union> call_ids sample_calls) sample_world w'"
proof -
  obtain rs s' w' where run: "store_run (jsonl_ops (sample_libs [])) sample_calls sample_disk sample_world = (rs, s', w')"
    by (metis prod_cases3)
  then have "uuid_pos w' = Suc (uuid_pos sample_world)"
    by (auto simp: sample_calls_def jsonl_ops_def split: prod.splits dest: jsonl_append_world)
  then have "draws sample_world w' = [10]" by (simp add: draws_one) (simp add: sample_world_def)
  then have "fresh_draws (dom (mem_known (js_memory sample_disk)) \<union> call_ids sample_calls) sample_world w'"
    by (simp add: fresh_draws_def sample_calls_def sample_disk_def dom_def)
  with run that show thesis by blast
qed


text \<open>
  C2. Tampering is detected: replacing a stored event by any other event with its identifier,
  whatever fields or hash it has, makes the verification of its logbook's chain fail, as long
  as the digest does not collide on the events involved.
\<close>

theorem tampering_detected:
  assumes "mem_ok L s" and "e \<in> set (mem_log s lb)"
    and "ev_event_id e' = ev_event_id e" and "e' \<noteq> e"
    and "inj_on (lib_digest L) (canonical_of ` insert e' (set (mem_log s lb)))"
  shows "mem_verify_chain L (replace_event_for_testing e' s) lb \<noteq> Inr ()"
  by (rule mem_tampering_detected [OF assms])

definition forged :: core_event where
  "forged = logged\<lparr>ev_station_callsign := ''XX''\<rparr>"

lemma forged_differs: "forged \<noteq> logged" "ev_event_id forged = ev_event_id logged"
  "inj_on sample_digest (canonical_of ` {forged, logged, deleted})"
proof -
  have s: "ev_station_callsign forged = ''XX''" "ev_station_callsign logged = ''K8''"
    "ev_station_callsign deleted = ''K8''" "ev_event_id forged = 1"
    by (simp_all add: forged_def logged_def deleted_def)
  show "ev_event_id forged = ev_event_id logged" using s by simp
  show "forged \<noteq> logged" using s by auto
  show "inj_on sample_digest (canonical_of ` {forged, logged, deleted})"
    by (auto simp: inj_on_def sample_digest_def s)
qed

theorem tampering_detected_witness:
  "mem_verify_chain (sample_libs []) (replace_event_for_testing forged store_2) 7 \<noteq> Inr ()"
  by (rule tampering_detected [of _ _ logged])
    (use forged_differs in \<open>simp_all add: insert_commute\<close>)

text \<open>
  Equal heads mean equal histories: when the chains of a logbook verify in two stores and
  the two heads are the same hash, the two histories are the same list of events (the digest
  not colliding on them).
\<close>

theorem equal_heads_equal_histories:
  assumes "mem_verify_chain L s lb = Inr ()" and "mem_verify_chain L t lb = Inr ()"
    and "hm_get (ms_events_by_logbook s) lb \<noteq> None" and "hm_get (ms_events_by_logbook t) lb \<noteq> None"
    and "mem_get_head s lb = mem_get_head t lb"
    and "inj_on (lib_digest L) (canonical_of ` (set (mem_log s lb) \<union> set (mem_log t lb)))"
  shows "mem_list_events s lb = mem_list_events t lb"
  using mem_verified_heads_agree [OF assms(1-4) _ assms(6)] assms(5)
  by (simp add: mem_get_head_def mem_list_events_log)

theorem equal_heads_equal_histories_witness:
  "mem_list_events store_2 7 = mem_list_events store_3 7"
proof (rule equal_heads_equal_histories [of "sample_libs []"])
  show "hm_get (ms_events_by_logbook store_2) 7 \<noteq> None" "hm_get (ms_events_by_logbook store_3) 7 \<noteq> None"
    by (simp_all add: store_2_def store_3_def mem_insert_ids)
  show "inj_on (lib_digest (sample_libs [])) (canonical_of ` (set (mem_log store_2 7) \<union> set (mem_log store_3 7)))"
    by (rule inj_on_subset [of _ "canonical_of ` {logged, deleted}"]) (simp_all only: sample_inj sample_libs_simps, simp)
qed (simp_all add: mem_ok_verifies mem_get_head_def mem_okD(5) [OF store_2_ok] mem_okD(5) [OF store_3_ok])

text \<open>
  C3. \<open>append_verified_remote_event\<close>: an event is accepted exactly when it validates and is
  either already stored as it is, or new with the head of its logbook as its predecessor; a
  new one becomes the end of its logbook's history and nothing else changes, a stored one and
  a refused one change nothing.
\<close>

theorem remote_event_outcome:
  assumes "mem_ok L s" and "mem_append_verified_remote_event L e s = (r, s')"
  shows "(is_ok r \<longleftrightarrow> validate_supported_remote_event L e = Inr () \<and>
      (mem_known s (ev_event_id e) = Some e \<or>
       mem_known s (ev_event_id e) = None \<and> mem_get_head s (ev_logbook_id e) = Inr (ev_previous_hash e))) \<and>
    mem_ok L s' \<and>
    mem_log s' = (if is_ok r \<and> mem_known s (ev_event_id e) = None
      then (mem_log s)(ev_logbook_id e := mem_log s (ev_logbook_id e) @ [e]) else mem_log s)"
proof (cases r)
  case (Inl err)
  with assms mem_remote_accepts [OF assms(1), of e] mem_remote_refused [of L e s err s'] show ?thesis
    by (auto simp: mem_get_head_def mem_okD(5) [OF assms(1)])
next
  case (Inr x)
  with assms mem_remote_accepted [OF assms(1), of e x s'] mem_remote_insert [OF assms(1), of e] show ?thesis
    by (auto simp: mem_get_head_def mem_okD(5) [OF assms(1)])
qed

theorem remote_event_outcome_witness:
  "fst (mem_append_verified_remote_event (sample_libs []) deleted store_1) = Inr deleted \<and>
   mem_log (snd (mem_append_verified_remote_event (sample_libs []) deleted store_1)) 7 = [logged, deleted]"
proof -
  obtain r s' where a: "mem_append_verified_remote_event (sample_libs []) deleted store_1 = (r, s')" by fastforce
  have "is_ok r" "mem_log s' 7 = [logged, deleted]"
    using remote_event_outcome [OF store_1_ok a] by (simp_all add: mem_get_head_def mem_okD(5) [OF store_1_ok])
  then obtain x where r: "r = Inr x" by (auto simp: is_ok_iff)
  with mem_remote_accepted [OF store_1_ok a [unfolded r]] a \<open>mem_log s' 7 = [logged, deleted]\<close>
  show ?thesis by simp
qed

text \<open>
  \<open>list_events_after\<close> returns exactly what follows the given event in its logbook's
  history; without a hash, or with one the history does not contain, it returns all of it.
\<close>

theorem list_after_is_suffix:
  assumes "mem_ok L s"
  shows "(mem_log s lb = before @ e # after \<longrightarrow> ev_event_hash e \<notin> ev_event_hash ` set before \<longrightarrow>
      mem_list_events_after s lb (Some (ev_event_hash e)) = Inr after) \<and>
    (h \<notin> ev_event_hash ` set (mem_log s lb) \<longrightarrow> mem_list_events_after s lb (Some h) = Inr (mem_log s lb)) \<and>
    mem_list_events_after s lb None = Inr (mem_log s lb)"
proof (intro conjI impI)
  assume log: "mem_log s lb = before @ e # after" and new: "ev_event_hash e \<notin> ev_event_hash ` set before"
  from new have "\<forall>x\<in>set before. ev_event_hash x \<noteq> ev_event_hash e" by (auto simp: image_iff)
  then show "mem_list_events_after s lb (Some (ev_event_hash e)) = Inr after"
    unfolding mem_list_events_after_log [OF assms] log by (simp only: log_after_split)
qed (simp_all add: mem_list_events_after_log [OF assms] log_after_unknown, simp add: log_after_def)

theorem list_after_is_suffix_witness:
  "mem_list_events_after store_2 7 (Some (ev_event_hash logged)) = Inr [deleted]"
  using list_after_is_suffix [OF store_2_ok, of 7 "[]" logged "[deleted]"] by simp

section \<open>Durability\<close>

text \<open>
  C4. What the JSON-lines store acknowledged is there after a restart: starting from an opened
  store whose writes succeed, after any sequence of appends whose events the JSON library
  prints and reads back, reopening the file gives exactly the store in memory.
\<close>

theorem reopened_store_is_the_same:
  assumes "jsonl_open L file disk = Inr s" and "complete_lines file" and "jsonl_healthy s"
    and "store_run (jsonl_ops L) calls s w = (results, s', w')"
    and "\<forall>e. Inr e \<in> set results \<longrightarrow> line_ok L e"
  shows "jsonl_open L (js_file s') disk' = Inr (s'\<lparr>js_disk := disk'\<rparr>)"
  using synced_run [OF assms(3) jsonl_open_synced [OF assms(1,2)] assms(4,5)]
  by (auto simp: synced_def jsonl_open_def)

theorem reopened_store_is_the_same_witness:
  "\<exists>s'. store_run (jsonl_ops (sample_libs [logged])) [RemoteAppend logged] sample_disk sample_world =
      ([Inr logged], s', sample_world) \<and>
    jsonl_open (sample_libs [logged]) (js_file s') [] = Inr (s'\<lparr>js_disk := []\<rparr>)"
proof -
  let ?L = "sample_libs [logged]"
  have open0: "jsonl_open ?L None [] = Inr sample_disk"
    by (simp add: jsonl_open_def load_inner_from_disk_def sample_disk_def)
  have h: "jsonl_healthy sample_disk" using sample_disk_ok by (simp add: jsonl_ok_def)
  have "validate_supported_remote_event ?L logged = Inr ()" by simp
  then obtain s' where s': "jsonl_append_verified_remote_event ?L logged sample_disk = (Inr logged, s')"
    using jsonl.remote_accepts [of ?L sample_disk logged] by (auto simp: sample_disk_def jsonl_ops_def jsonl_ok_def jsonl_healthy_def)
  then have run: "store_run (jsonl_ops ?L) [RemoteAppend logged] sample_disk sample_world =
      ([Inr logged], s', sample_world)" by (simp add: jsonl_ops_def)
  have print: "sample_print logged = ''{1}''" by (simp add: sample_print_def unary_def)
  have "trim ''{1}'' = ''{1}''" by (rule trim_plain) (simp_all add: plain_def)
  then have line: "line_ok ?L logged" by (simp add: line_ok_def print)
  have "jsonl_open ?L (js_file s') [] = Inr (s'\<lparr>js_disk := []\<rparr>)"
    by (rule reopened_store_is_the_same [OF open0 _ h run]) (use line in \<open>simp_all add: complete_lines_def\<close>)
  with run show ?thesis by blast
qed

end
