(* ===== verification/State_Claims.thy ===== *)
theory State_Claims
  imports Samples
begin

text \<open>
  Properties of the states rebuilt from a log: contacts, activations, nets and incidents.
\<close>

section \<open>Contacts\<close>

text \<open>
  C5. What a rebuild shows of one contact (its record with payload, notes, deletion mark and
  last hash, and whether it is tombstoned) is what its own events alone rebuild: no event of
  another contact, activation or net changes it.
\<close>

theorem contact_depends_on_own_events:
  assumes "qso_rebuild L p events = Inr p'"
  shows "\<exists>own. qso_rebuild L p (filter (\<lambda>e. ev_entity_id e = Some q) events) = Inr own \<and>
    qso_view p' q = qso_view own q \<and> qso_get p' q = qso_get own q"
proof -
  from assms have "replay (qso_apply L) events (qso_clear p) = Inr p'" by (simp add: rebuild_def)
  from qso_replay_local [OF refl this, of q] obtain own where
    own: "replay (qso_apply L) (filter (\<lambda>e. ev_entity_id e = Some q) events) (qso_clear p) = Inr own"
    "qso_view p' q = qso_view own q" by blast
  then have "qso_get p' q = qso_get own q" by (simp add: qso_view_def qso_get_def)
  with own show ?thesis by (auto simp: rebuild_def)
qed

lemma sample_rebuild:
  "\<exists>p'. qso_rebuild (sample_libs []) qso_projection_new [logged, deleted] = Inr p'"
proof (rule qso.rebuild_total)
  show "\<forall>e\<in>set [logged, deleted]. qso_event_ok e"
    by (simp add: qso_event_ok_def logged_def deleted_def is_object_def)
qed

theorem contact_depends_on_own_events_witness:
  "\<exists>p' own. qso_rebuild (sample_libs []) qso_projection_new [logged, deleted] = Inr p' \<and>
     qso_rebuild (sample_libs []) qso_projection_new
       (filter (\<lambda>e. ev_entity_id e = Some 55) [logged, deleted]) = Inr own \<and> qso_get p' 55 = qso_get own 55"
proof -
  obtain p' where p': "qso_rebuild (sample_libs []) qso_projection_new [logged, deleted] = Inr p'"
    using sample_rebuild by blast
  from contact_depends_on_own_events [OF p', of 55] p' show ?thesis by blast
qed

text \<open>
  C6. A deleted contact stays hidden, and is never lost: after a log that creates and later
  deletes it, with no later event restoring or re-creating it, the contact is not shown, and
  its record is still there among the deleted ones.
\<close>

theorem deleted_contact_hidden_not_lost:
  assumes "qso_rebuild L p (before @ c # between @ d # later) = Inr p'"
    and "ev_event_type c = OFFICIAL_LOG_QSO_CREATED" and "ev_entity_id c = Some q"
    and "ev_event_type d = OFFICIAL_LOG_QSO_DELETED" and "ev_entity_id d = Some q"
    and "\<forall>e\<in>set later. \<not> revives q e"
  shows "qso_get p' q = None \<and> qso_get_including_deleted p' q \<noteq> None \<and>
    (\<forall>r\<in>set (current_qsos p'). qr_qso_id r \<noteq> q)"
proof -
  obtain p1 p2 p3 p4 where p1: "replay (qso_apply L) before (qso_clear p) = Inr p1"
    and p2: "qso_apply L c p1 = Inr p2" and p3: "replay (qso_apply L) between p2 = Inr p3"
    and p4: "qso_apply L d p3 = Inr p4" and rest: "replay (qso_apply L) later p4 = Inr p'"
    using assms(1) by (auto simp: rebuild_def qso.replay_append)
  have "hm_get (qp_records p2) q \<noteq> None"
    using p2 assms(2,3) by (auto simp: qso_apply_created hm_get_insert split: option.splits)
  then have "hm_get (qp_records p3) q \<noteq> None" by (rule qso_replay_keeps [OF p3])
  with p4 have "qso_get p4 q = None" "hm_get (qp_records p4) q \<noteq> None"
    using assms(4,5) by (auto simp: qso_apply_deletion qso_get_def hm_get_insert split: option.splits)
  with rest assms(6) have kept: "qso_get p' q = None" "hm_get (qp_records p') q \<noteq> None"
    by (auto intro: qso_replay_deleted dest: qso_replay_keeps)
  have "qso_ok p'" by (rule qso.rebuild_inv [OF assms(1)])
  then have "qr_qso_id r \<noteq> q" if "r \<in> set (current_qsos p')" for r
    using that kept(1)
    by (auto simp: current_qsos_def qso_list_def hm_values_iff qso_ok_def qso_record_ok_def qso_get_def)
  with kept show ?thesis by (simp add: qso_get_including_deleted_def)
qed

theorem deleted_contact_hidden_not_lost_witness:
  "\<exists>p'. qso_rebuild (sample_libs []) qso_projection_new [logged, deleted] = Inr p' \<and>
     qso_get p' 100 = None \<and> qso_get_including_deleted p' 100 \<noteq> None"
proof -
  obtain p' where p': "qso_rebuild (sample_libs []) qso_projection_new [logged, deleted] = Inr p'"
    using sample_rebuild by blast
  have "ev_event_type logged = OFFICIAL_LOG_QSO_CREATED" "ev_entity_id logged = Some 100"
    "ev_event_type deleted = OFFICIAL_LOG_QSO_DELETED" "ev_entity_id deleted = Some 100"
    by (simp_all add: logged_def deleted_def)
  from deleted_contact_hidden_not_lost [of "sample_libs []" qso_projection_new "[]" logged "[]" deleted "[]" p', OF _ this] p'
  show ?thesis by simp
qed

text \<open>
  Rebuilding is incremental for every projection: the state rebuilt from a longer log is
  the state rebuilt from its beginning with the rest applied, and does not depend on the state
  the projection had before.
\<close>

theorem rebuild_is_incremental:
  "qso_rebuild L p (xs @ ys) = and_then (qso_rebuild L p' xs) (replay (qso_apply L) ys) \<and>
   activation_rebuild L a (xs @ ys) = and_then (activation_rebuild L a' xs) (replay (activation_apply L) ys) \<and>
   rebuild (net_apply L) net_clear n (xs @ ys) =
     and_then (rebuild (net_apply L) net_clear n' xs) (replay (net_apply L) ys) \<and>
   rebuild (emcomm_apply L) emcomm_clear m (xs @ ys) =
     and_then (rebuild (emcomm_apply L) emcomm_clear m' xs) (replay (emcomm_apply L) ys)"
  unfolding qso.rebuild_append activation.rebuild_append net.rebuild_append emcomm.rebuild_append
    qso.rebuild_old_state [where p = p and q = p'] activation.rebuild_old_state [where p = a and q = a']
    net.rebuild_old_state [where p = n and q = n'] emcomm.rebuild_old_state [where p = m and q = m']
  by simp

section \<open>Activations\<close>

text \<open>
  C7. After any rebuild the counters of an activation are those of its linked contacts: the
  number of linked contacts that are not deleted, the number of different callsigns among
  them ignoring case, and for each band and mode how many of them have it.
\<close>

theorem activation_counters:
  assumes "activation_rebuild L p events = Inr p'" and "activation_get p' a = Some r"
  shows "ar_activation_id r = a \<and> distinct (ar_linked_qsos r) \<and>
    ar_qso_count r = length (live_qsos (ap_qsos p') (ar_linked_qsos r)) \<and>
    ar_unique_callsign_count r =
      card (to_ascii_uppercase ` set (field_values (ap_qsos p') (ar_linked_qsos r) ''contacted_callsign'')) \<and>
    hm_get (ar_band_summary r) = tally (field_values (ap_qsos p') (ar_linked_qsos r) ''band'') \<and>
    hm_get (ar_mode_summary r) = tally (field_values (ap_qsos p') (ar_linked_qsos r) ''mode'')"
proof -
  have "activation_ok p'" by (rule activation.rebuild_inv [OF assms(1)])
  then have r: "activation_record_ok a r" "with_stats (ap_qsos p') r = r"
    using assms(2) by (auto simp: activation_ok_def activation_records_ok_def activation_get_def)
  show ?thesis using r(1) with_stats_spec [of "ap_qsos p'" r, unfolded r(2)]
    by (simp add: activation_record_ok_def fun_eq_iff)
qed

definition activated :: core_event where
  "activated = sample_event 4 OFFICIAL_LOG_ACTIVATION_CREATED None 200 (JObject [])"

definition linked :: core_event where
  "linked = sample_event 5 OFFICIAL_LOG_QSO_ACTIVATION_LINKED None 100
     (JObject [(''activation_id'', JString (unary (CHR ''u'') 200))])"

lemma activation_sample:
  "\<exists>p' r. activation_rebuild (sample_libs []) activation_projection_new [logged, activated, linked] = Inr p' \<and>
     activation_get p' 200 = Some r"
proof -
  let ?L = "sample_libs []"
  have good: "\<forall>e\<in>set [logged, activated, linked]. activation_event_ok e"
    by (simp add: activation_event_ok_def qso_event_ok_def logged_def activated_def linked_def is_object_def)
  then obtain p1 where p1: "activation_rebuild ?L activation_projection_new [logged, activated] = Inr p1"
    using activation.rebuild_total [of "[logged, activated]"] by auto
  from good obtain p' where p': "activation_rebuild ?L activation_projection_new [logged, activated, linked] = Inr p'"
    using activation.rebuild_total [of "[logged, activated, linked]"] by auto
  have "activation_get p' 200 \<noteq> None"
    using p' by (auto simp: rebuild_def activation_apply_def activation_step_def logged_def activated_def linked_def
      activation_get_def recompute_stats_def hm_get_map_values hm_get_insert hm_get_modify Let_def
      split: option.splits)
  with p' show ?thesis by blast
qed

theorem activation_counters_witness:
  "\<exists>p' r. activation_rebuild (sample_libs []) activation_projection_new [logged, activated, linked] = Inr p' \<and>
     activation_get p' 200 = Some r \<and> ar_qso_count r = length (live_qsos (ap_qsos p') (ar_linked_qsos r))"
proof -
  obtain p' r where p': "activation_rebuild (sample_libs []) activation_projection_new [logged, activated, linked] = Inr p'"
    "activation_get p' 200 = Some r" using activation_sample by blast
  with activation_counters [OF p'] show ?thesis by blast
qed

section \<open>Nets\<close>

text \<open>
  C8. After any rebuild the counters of a net session are those of its check-ins and traffic:
  identifiers and number of the check-ins that are not deleted, how many of them are late, one
  duplicate warning for each repeated callsign, identifiers and number of its traffic items,
  and how many of them have emergency precedence.
\<close>

theorem net_counters:
  assumes "rebuild (net_apply L) net_clear p events = Inr p'" and "net_get_session p' i = Some s"
    and "cs = session_checkins i (hm_values (np_checkins p'))"
    and "ts = session_traffic i (hm_values (np_traffic p'))"
    and "names = session_callsigns i (hm_values (np_checkins p'))"
  shows "ns_net_session_id s = i \<and> ns_checkin_ids s = nc_checkin_id ` set cs \<and> ns_checkin_count s = length cs \<and>
    ns_late_checkin_count s = length (filter (\<lambda>c. nc_status c = CheckInLate) cs) \<and>
    length (ns_duplicate_warnings s) + card (set names) = length names \<and>
    set (ns_duplicate_warnings s) = duplicate_warning ` {c \<in> set names. 2 \<le> count_list names c} \<and>
    ns_traffic_ids s = nt_traffic_id ` set ts \<and> ns_traffic_count s = length ts \<and>
    ns_emergency_traffic_count s = length (filter (\<lambda>t. nt_precedence t = PrecEmergency) ts)"
proof -
  have "net_ok p'" by (rule net.rebuild_inv [OF assms(1)])
  then have s: "ns_net_session_id s = i" "net_session_stats p' s = s"
    using assms(2) by (auto simp: net_ok_def net_records_ok_def map_ok_def net_session_ok_def net_get_session_def)
  note spec = net_session_stats_spec [of p' s, unfolded s]
  show ?thesis
    using s(1) spec warnings_from_length [of "{}" names] warnings_from_set [of names "{}"]
    by (simp add: assms(3,4,5))
qed

definition net_started :: core_event where
  "net_started = sample_event 6 OFFICIAL_LOG_NET_SESSION_STARTED None 300 (JObject [])"

theorem net_counters_witness:
  "\<exists>p' s. rebuild (net_apply (sample_libs [])) net_clear net_projection_new [net_started] = Inr p' \<and>
     net_get_session p' 300 = Some s \<and> ns_checkin_count s = 0"
proof -
  let ?L = "sample_libs []"
  have "\<forall>e\<in>set [net_started]. net_event_ok ?L e"
    by (simp add: net_event_ok_def net_started_def is_object_def)
  from net.rebuild_total [OF this, of net_projection_new] obtain p' where
    p': "rebuild (net_apply ?L) net_clear net_projection_new [net_started] = Inr p'" by blast
  then have "net_get_session p' 300 \<noteq> None \<and> np_checkins p' = []"
    by (auto simp: rebuild_def net_apply_def net_step_def net_started_def net_get_session_def net_clear_def
      net_recompute_stats_def hm_get_map_values hm_get_insert split: option.splits)
  then obtain s where s: "net_get_session p' 300 = Some s" "np_checkins p' = []" by blast
  with net_counters [OF p' s(1) refl refl refl] p' show ?thesis by (auto simp: session_checkins_def hm_values_def)
qed

section \<open>Incidents\<close>

text \<open>
  C9. The audit trail of an incident message is complete: after a log that creates it, its
  history is the creating event followed by every later event that corrects, transmits,
  receives, acknowledges or cancels it, each once, in the order of the log and with its
  payload, type, hash and time as recorded.
\<close>

theorem message_history_complete:
  assumes "rebuild (emcomm_apply L) emcomm_clear p (before @ c # later) = Inr p'"
    and "ev_event_type c = OFFICIAL_LOG_EMCOMM_MESSAGE_CREATED" and "ev_entity_id c = Some i"
    and "\<forall>e\<in>set later. \<not> (ev_event_type e = OFFICIAL_LOG_EMCOMM_MESSAGE_CREATED \<and> ev_entity_id e = Some i)"
  shows "\<exists>r. hm_get (ep_messages p') i = Some r \<and> er_history (mr_record r) =
    map change_from (c # filter (\<lambda>e. ev_entity_id e = Some i \<and> ev_event_type e \<in> set message_changes) later)"
proof -
  have "message_trail p' i = Some (map change_from (c # filter (touches message_changes i) later))"
    by (rule message_log.trail_complete [OF assms(1) [unfolded rebuild_def]])
      (use assms(2-4) in \<open>auto simp: touches_def\<close>)
  then show ?thesis by (auto simp: message_trail_def touches_def [abs_def])
qed

definition sample_number :: message_number where
  "sample_number = \<lparr>mn_station_prefix = ''K8'', mn_sequence = 1\<rparr>"

definition traffic :: core_event where
  "traffic = sample_event 8 OFFICIAL_LOG_EMCOMM_MESSAGE_CREATED None 400
     (JObject [(''incident_id'', JString ''uu''), (''message_number'', JString (message_number_display sample_number))])"

definition sent :: core_event where
  "sent = sample_event 9 OFFICIAL_LOG_EMCOMM_MESSAGE_TRANSMITTED (Some (ev_event_hash traffic)) 400
     (JObject [(''transmitted_at'', JString ''12:00'')])"

lemma traffic_rebuild:
  "\<exists>p'. rebuild (emcomm_apply (sample_libs [])) emcomm_clear emcomm_projection_new [traffic, sent] = Inr p'"
proof (rule emcomm.rebuild_total)
  have "is_ok (message_number_parse (message_number_display sample_number))"
  proof -
    have "trim ''K8'' \<noteq> []" by (subst trim_plain) (simp_all add: plain_def)
    moreover have "to_ascii_uppercase ''K8'' = ''K8''" by code_simp
    ultimately show ?thesis by (subst parse_display) (simp_all add: sample_number_def)
  qed
  moreover have "is_ok (required_uuid (sample_libs []) [(''incident_id'', JString ''uu''), (''message_number'', JString (message_number_display sample_number))] ''incident_id'')"
    by (simp add: required_uuid_def map_str_def sample_libs_def)
  ultimately show "\<forall>e\<in>set [traffic, sent]. emcomm_event_ok (sample_libs []) e"
    by (simp add: emcomm_event_ok_def emcomm_payload_ok_def traffic_def sent_def map_str_def)
qed

theorem message_history_complete_witness:
  "\<exists>p' r. rebuild (emcomm_apply (sample_libs [])) emcomm_clear emcomm_projection_new [traffic, sent] = Inr p' \<and>
     hm_get (ep_messages p') 400 = Some r \<and> er_history (mr_record r) = [change_from traffic, change_from sent]"
proof -
  obtain p' where p': "rebuild (emcomm_apply (sample_libs [])) emcomm_clear emcomm_projection_new ([] @ traffic # [sent]) = Inr p'"
    using traffic_rebuild by auto
  have "ev_event_type traffic = OFFICIAL_LOG_EMCOMM_MESSAGE_CREATED" "ev_entity_id traffic = Some 400"
    "\<forall>e\<in>set [sent]. \<not> (ev_event_type e = OFFICIAL_LOG_EMCOMM_MESSAGE_CREATED \<and> ev_entity_id e = Some 400)"
    by (simp_all add: traffic_def sent_def)
  from message_history_complete [OF p' this] obtain r where r: "hm_get (ep_messages p') 400 = Some r"
    "er_history (mr_record r) = map change_from (traffic #
       filter (\<lambda>e. ev_entity_id e = Some 400 \<and> ev_event_type e \<in> set message_changes) [sent])" by blast
  have "ev_entity_id sent = Some 400" "ev_event_type sent \<in> set message_changes"
    by (simp_all add: sent_def message_changes_def)
  with r p' show ?thesis by simp
qed

text \<open>
  Message numbers read back: the display of a number with a non-blank upper-case station
  prefix and a positive sequence parses to the same number, whatever the prefix (hyphens in it
  included) and however large the sequence.
\<close>

theorem message_number_roundtrip:
  assumes "trim (mn_station_prefix n) \<noteq> []" and "mn_sequence n \<noteq> 0"
    and "to_ascii_uppercase (mn_station_prefix n) = mn_station_prefix n"
  shows "message_number_parse (message_number_display n) = Inr n"
  by (rule parse_display [OF assms])

theorem message_number_roundtrip_witness:
  "message_number_parse (message_number_display \<lparr>mn_station_prefix = ''W1-AW'', mn_sequence = 12345\<rparr>) =
     Inr \<lparr>mn_station_prefix = ''W1-AW'', mn_sequence = 12345\<rparr>"
proof -
  have t: "trim ''W1-AW'' \<noteq> []" by (subst trim_plain) (simp_all add: plain_def)
  have u: "to_ascii_uppercase ''W1-AW'' = ''W1-AW''" by code_simp
  show ?thesis by (rule message_number_roundtrip) (simp_all add: t u)
qed

text \<open>
  The next message number of a station is new: it belongs to the station and differs from
  the number of every message of the incident, until the 32-bit sequence is used up.
\<close>

theorem next_number_is_new:
  assumes "- 1 \<notin> set (station_sequences p i (mn_station_prefix (message_number_new station 1)))"
  shows "mn_station_prefix (next_message_number p i station) = mn_station_prefix (message_number_new station 1) \<and>
    next_message_number p i station \<notin> mr_message_number ` set (messages_for_incident p i)"
  using next_message_number_fresh [OF _ assms] next_message_number_own_station by fastforce

theorem next_number_is_new_witness:
  "next_message_number emcomm_projection_new 1 ''K8'' \<notin>
     mr_message_number ` set (messages_for_incident emcomm_projection_new 1)"
  using next_number_is_new [of emcomm_projection_new 1 "''K8''"]
  by (simp add: station_sequences_def emcomm_projection_new_def hm_values_def)

end
