(* ===== verification/Submissions.thy ===== *)
theory Submissions
  imports Sync
begin

text \<open>
  Facts about whole submissions: exactly which proposals are accepted, and what a sequence of
  submissions by any plugins and operators does to a store.
\<close>

text \<open>A schema-valid proposal that does not create its entity names it.\<close>

lemma validated_entity:
  assumes "validate_qso_schema ops L s p = Inr ()"
    and "map_of official_table (pr_proposal_type p) = Some (t, False)"
  shows "pr_entity_id p \<noteq> None"
proof
  assume none: "pr_entity_id p = None"
  then have r: "require_entity_id p = Inl (Fail (InvalidSchema ''qso correction/delete requires entity_id''))"
    by (simp add: require_entity_id_def ok_or_def)
  from assms(2) have "(pr_proposal_type p, t, False) \<in> set official_table" by (rule map_of_SomeD)
  then have "validate_qso_schema ops L s p \<noteq> Inr ()"
    unfolding official_table_defs set_append set_simps Un_iff insert_iff empty_iff prod.inject
    by (elim disjE) (simp_all add: validate_qso_schema_def validate_qso_proposal_def
      validate_activation_proposal_def validate_net_proposal_def validate_emcomm_proposal_def Let_def r
      require_existing_qso_def require_existing_activation_def require_existing_net_session_def
      require_existing_net_template_def require_existing_net_checkin_def require_existing_active_net_session_def
      with_entity_def unit_of_def split: option.split)
  with assms(1) show False by simp
qed

text \<open>The translation of an authorised, schema-valid proposal succeeds.\<close>

lemma validated_translates:
  assumes "authorised ctx p" and "validate_qso_schema ops L s p = Inr ()"
  shows "\<exists>n w'. to_official_event L p w = (Inr n, w')"
proof -
  have "pr_proposal_type p \<in> set proposal_types"
    using assms(1) required_capability_iff by (auto simp: authorised_def split: sum.splits)
  then have "map_of official_table (pr_proposal_type p) \<noteq> None"
    unfolding map_of_eq_None_iff tables_cover(1) [symmetric] by simp
  then obtain t creates where row: "map_of official_table (pr_proposal_type p) = Some (t, creates)" by auto
  from assms(2) obtain m where m: "pr_payload p = JObject m" by (rule validated_payload)
  have "pr_entity_id p \<noteq> None" if "\<not> creates" using validated_entity [OF assms(2)] row that by simp
  then obtain i v where i: "entity_of_proposal p creates w = (Inr i, v)"
    by (cases creates; cases "pr_entity_id p"; cases "new_v4 w")
      (auto simp: entity_of_proposal_def require_entity_id_def ok_or_def)
  from m obtain payload where "index_assign (entity_key (pr_proposal_type p)) (json_uuid L i) (pr_payload p) = Some payload"
    by simp
  with row i show ?thesis unfolding to_official_event_def official_table_def [symmetric] by simp
qed

text \<open>Proposals submitted one after the other, each in its own context.\<close>

fun submit_all :: "'s store_ops \<Rightarrow> libs \<Rightarrow> (proposal_context \<times> proposal_envelope) list \<Rightarrow>
    's \<Rightarrow> event_bus \<Rightarrow> world \<Rightarrow> 's \<times> event_bus \<times> world" where
  "submit_all ops L [] s b w = (s, b, w)"
| "submit_all ops L ((ctx, p) # ps) s b w =
     (case submit_proposal ops L ctx p s b w of (r, s, b, w) \<Rightarrow> submit_all ops L ps s b w)"

context event_store begin

lemma accept_accepts:
  assumes "inv s" and "authorised ctx p" and "validate_qso_schema ops L s p = Inr ()"
    and "accept_proposal ops L p s b w = (r, s', b', w')" and "fresh_draws (dom (known s)) w w'"
  shows "is_ok r"
proof -
  obtain n v where n: "to_official_event L p w = (Inr n, v)" using validated_translates [OF assms(2,3)] by blast
  obtain r1 s1 w2 where a: "op_append_event ops n s v = (r1, s1, w2)" by (metis prod_cases3)
  have w2: "w' = w2" using assms(3,4) n a by (auto simp: accept_proposal_def split: sum.splits)
  have "fresh_draws (dom (known s)) v w2"
    by (rule fresh_draws_later [OF assms(5) to_official_event_later [OF n], unfolded w2, OF append_later [OF a]])
  from append_extends [OF assms(1) a this] obtain e where "r1 = Inr e" by blast
  with assms(3,4) n a show ?thesis by (auto simp: accept_proposal_def is_ok_iff)
qed

lemma submit_accepted_iff:
  assumes "inv s" and "submit_proposal ops L ctx p s b w = (r, s', b', w')" and "fresh_draws (dom (known s)) w w'"
  shows "is_ok r \<longleftrightarrow> authorised ctx p \<and> validate_qso_schema ops L s p = Inr ()"
proof
  assume "is_ok r"
  with submit_outcome [OF assms] show "authorised ctx p \<and> validate_qso_schema ops L s p = Inr ()"
    by (auto simp: is_ok_iff)
next
  assume ok: "authorised ctx p \<and> validate_qso_schema ops L s p = Inr ()"
  from submit_proposal_inner [OF assms(2)] obtain b1 w1 b2 w2 where
    w1: "world_later w w1" and i: "submit_proposal_inner ops L ctx p s b1 w1 = (r, s', b2, w2)"
    and w2: "world_later w2 w'" .
  from submit_inner_authorised [of ctx p w1 ops L s b1] ok obtain b3 w3 where
    w3: "world_later w1 w3" and acc: "accept_proposal ops L p s b3 w3 = (r, s', b2, w2)"
    unfolding i by metis
  have later: "world_later w w3" "world_later w3 w'"
    by (rule world_later_trans [OF w1 w3], rule world_later_trans [OF accept_later [OF acc] w2])
  from fresh_draws_earlier [OF fresh_draws_later [OF assms(3) later] accept_later [OF acc] w2]
  have "fresh_draws (dom (known s)) w3 w2" .
  with accept_accepts [OF assms(1) _ _ acc] ok show "is_ok r" by blast
qed

lemma submit_all_later: "submit_all ops L ps s b w = (s', b', w') \<Longrightarrow> world_later w w'"
proof (induction ps arbitrary: s b w)
  case (Cons cp ps)
  obtain ctx p where cp: "cp = (ctx, p)" by (cases cp)
  obtain r t c v where a: "submit_proposal ops L ctx p s b w = (r, t, c, v)" by (metis prod_cases4)
  with Cons.prems have "submit_all ops L ps t c v = (s', b', w')" by (simp add: cp)
  from world_later_trans [OF submit_later [OF a] Cons.IH [OF this]] show ?case .
qed simp

text \<open>The identifier of what a submission adds is among those drawn during it.\<close>

lemma draws_middle: "world_later w v \<Longrightarrow> world_later v u \<Longrightarrow> world_later u x \<Longrightarrow> set (draws v u) \<subseteq> set (draws w x)"
  using draws_append [of w v x] draws_append [of v u x] world_later_trans [of v u x] by auto

lemma accept_known:
  assumes "inv s" and "accept_proposal ops L p s b w = (r, s', b', w')" and "fresh_draws (dom (known s)) w w'"
  shows "dom (known s') \<subseteq> dom (known s) \<union> set (draws w w')"
proof (cases r)
  case (Inl err)
  with accept_outcome [OF assms] show ?thesis by simp
next
  case (Inr e)
  with assms(2) obtain n v r1 where n: "to_official_event L p w = (Inr n, v)"
    and a: "op_append_event ops n s v = (Inr r1, s', w')"
    by (auto simp: accept_proposal_def split: sum.splits prod.splits)
  note later = to_official_event_later [OF n] append_later [OF a]
  from append_step [OF assms(1) fresh_draws_later [OF assms(3) later] a] draws_append [OF later]
  show ?thesis by auto
qed

lemma submit_known:
  assumes "inv s" and "submit_proposal ops L ctx p s b w = (r, s', b', w')" and "fresh_draws (dom (known s)) w w'"
  shows "dom (known s') \<subseteq> dom (known s) \<union> set (draws w w')"
proof (cases "authorised ctx p")
  case True
  from submit_proposal_inner [OF assms(2)] obtain b1 w1 b2 w2 where
    w1: "world_later w w1" and i: "submit_proposal_inner ops L ctx p s b1 w1 = (r, s', b2, w2)"
    and w2: "world_later w2 w'" .
  from submit_inner_authorised [OF True, of w1 ops L s b1] obtain b3 w3 where
    w3: "world_later w1 w3" and acc: "accept_proposal ops L p s b3 w3 = (r, s', b2, w2)"
    unfolding i by metis
  note later = world_later_trans [OF w1 w3] accept_later [OF acc] w2
  have "fresh_draws (dom (known s)) w3 w2"
    by (rule fresh_draws_earlier [OF fresh_draws_later [OF assms(3) later(1)] later(2,3)])
      (rule world_later_trans [OF later(2,3)])
  from accept_known [OF assms(1) acc this] draws_middle [OF later] show ?thesis by blast
next
  case False
  with submit_accepted_iff [OF assms] submit_outcome [OF assms] show ?thesis
    by (cases r) (auto simp: is_ok_iff)
qed

lemma submit_grows:
  assumes "inv s" and "submit_proposal ops L ctx p s b w = (r, s', b', w')" and "fresh_draws (dom (known s)) w w'"
  shows "prefix (log s lb) (log s' lb)"
  using submit_outcome [OF assms] by (cases r) (auto simp: log_extends_def)

lemma submit_all_ok:
  "inv s \<Longrightarrow> submit_all ops L ps s b w = (s', b', w') \<Longrightarrow> fresh_draws (dom (known s)) w w' \<Longrightarrow>
   inv s' \<and> prefix (log s lb) (log s' lb) \<and> (all_replayable L (log s) \<longrightarrow> all_replayable L (log s'))"
proof (induction ps arbitrary: s b w)
  case (Cons cp ps)
  obtain ctx p where cp: "cp = (ctx, p)" by (cases cp)
  obtain r t c v where a: "submit_proposal ops L ctx p s b w = (r, t, c, v)" by (metis prod_cases4)
  with Cons.prems(2) have rest: "submit_all ops L ps t c v = (s', b', w')" by (simp add: cp)
  note later = submit_later [OF a] submit_all_later [OF rest]
  from Cons.prems(3) have f: "fresh_draws (dom (known s)) w v"
    "fresh_draws (dom (known s) \<union> set (draws w v)) v w'" by (auto simp: fresh_draws_split [OF later])
  have t: "inv t" "prefix (log s lb) (log t lb)" "all_replayable L (log s) \<longrightarrow> all_replayable L (log t)"
    using submit_keeps_inv [OF Cons.prems(1) a f(1)] submit_grows [OF Cons.prems(1) a f(1)]
      submit_replayable [OF Cons.prems(1) a f(1)] by blast+
  have "fresh_draws (dom (known t)) v w'"
    by (rule fresh_draws_mono [OF f(2) submit_known [OF Cons.prems(1) a f(1)]])
  from Cons.IH [OF t(1) rest this] t(2,3) show ?case by (meson prefix_order.trans)
qed simp

end

end
