(* ===== verification/Policy_Claims.thy ===== *)
theory Policy_Claims
  imports Log_Claims Submissions
begin

text \<open>
  Properties of what plugins and operators may do: submission of proposals, permissions and
  their defaults, and the runtime events published about them.
\<close>

section \<open>Submission\<close>


definition sample_manifest :: plugin_manifest where
  "sample_manifest = \<lparr>pm_plugin_id = ''core.logger'', pm_name = [], pm_version = [], pm_author = [],
     pm_description = [], pm_requested_permissions = [QsoCreate], pm_optional_permissions = [],
     pm_contributed_panels = [], pm_contributed_commands = [], pm_contributed_services = [],
     pm_plugin_type = ''builtin'', pm_minimum_core_version = [], pm_capabilities = []\<rparr>"

definition sample_context :: proposal_context where
  "sample_context = fst (local_admin sample_manifest LoggerRole sample_world)"

definition sample_proposal :: proposal_envelope where
  "sample_proposal = \<lparr>pr_proposal_id = 6, pr_proposal_type = PROPOSAL_QSO_CREATE, pr_logbook_id = 7,
     pr_entity_id = None, pr_timestamp = 0, pr_author_operator_id = None, pr_author_device_id = 5,
     pr_source_plugin_id = ''core.logger'', pr_schema_version = 1,
     pr_payload = JObject [(''contacted_callsign'', JString ''N0CALL''), (''mode'', JString ''SSB''),
       (''started_at'', JString ''12:00''), (''station_callsign'', JString ''K8'')]\<rparr>"

lemma sample_authorised: "authorised sample_context sample_proposal"
  by (simp add: authorised_def sample_context_def sample_proposal_def local_admin_def grants_for_manifest_def
    sample_manifest_def requested_or_capabilities_def normalize_permissions_def required_capability_def
    capability_requirements_def has_capability_def is_granted_def grant_status_def same_grant_def
    grant_granted_def can_submit_def utc_now_def Let_def)

lemma sample_validated: "validate_qso_schema ops (sample_libs es) s sample_proposal = Inr ()"
  by (simp add: validate_qso_schema_def sample_proposal_def validate_qso_proposal_def has_string_def is_string_def
    check_that_def validate_started_at_def validate_frequency_def map_str_def sample_libs_def Let_def)

text \<open>The sample world counts its identifiers up.\<close>

lemma draws_sample:
  assumes "world_later sample_world w" and "uuid_pos w \<le> 1000"
  shows "fresh_draws U sample_world w \<longleftrightarrow> (\<forall>i\<in>{10..<uuid_pos w}. of_nat i \<notin> U)"
proof -
  have s: "uuid_source sample_world = of_nat" "uuid_pos sample_world = 10" by (simp_all add: sample_world_def)
  have "inj_on (of_nat :: nat \<Rightarrow> uuid) {10..<uuid_pos w}"
  proof (rule inj_onI)
    fix i j :: nat assume ij: "i \<in> {10..<uuid_pos w}" "j \<in> {10..<uuid_pos w}" "(of_nat i :: uuid) = of_nat j"
    then have "i < 2 ^ 128" "j < 2 ^ 128" using assms(2) by auto
    moreover have "unat (of_nat i :: uuid) = unat (of_nat j :: uuid)" using ij(3) by simp
    ultimately show "i = j" by (simp add: unat_of_nat)
  qed
  then show ?thesis by (auto simp: fresh_draws_def draws_def s distinct_map)
qed

lemma publish_draws:
  "publish_proposal_runtime_event p t sv sm err b w = (b', w') \<Longrightarrow> uuid_pos w' = uuid_pos w + 2"
  "publish_permission_check_event p t sv c sm b w = (b', w') \<Longrightarrow> uuid_pos w' = uuid_pos w + 2"
  by (auto simp: publish_proposal_runtime_event_def publish_permission_check_event_def
    runtime_event_new_def new_v4_def utc_now_def Let_def)

lemma to_official_event_draws: "to_official_event L p w = (n, w') \<Longrightarrow> uuid_pos w' \<le> uuid_pos w + 1"
  by (auto simp: to_official_event_def entity_of_proposal_def new_v4_def
    split: option.splits prod.splits sum.splits if_splits)

lemma accept_draws:
  assumes "accept_proposal (jsonl_ops L) L p s b w = (r, s', b', w')"
  shows "uuid_pos w' \<le> uuid_pos w + 2"
  using assms to_official_event_draws jsonl.append_world
  by (fastforce simp: accept_proposal_def split: sum.splits prod.splits)

lemma submit_draws:
  assumes "submit_proposal (jsonl_ops L) L ctx p s b w = (r, s', b', w')"
  shows "uuid_pos w' \<le> uuid_pos w + 14"
proof -
  have inner: "uuid_pos w2 \<le> uuid_pos w1 + 6"
    if "submit_proposal_inner (jsonl_ops L) L ctx p s b1 w1 = (r1, s1, b2, w2)" for r1 s1 b1 w1 b2 w2
    using that by (auto simp: submit_proposal_inner_def Let_def split: sum.splits prod.splits if_splits
      dest!: publish_draws accept_draws)
  from assms show ?thesis
    by (auto simp: submit_proposal_def Let_def split: sum.splits prod.splits fault.splits
      dest!: publish_draws inner)
qed




text \<open>
  C12. Which accepted events replicate: the official event of a proposal with schema version 1
  passes the checks \<open>append_verified_remote_event\<close> makes on a peer exactly when the proposal is
  not an EmComm proposal. No EmComm event is ever accepted by another instance, and an event
  with a higher schema version, which \<open>submit_proposal\<close> accepts, is not either.
\<close>

theorem emcomm_never_replicates:
  assumes "event_of L p e"
  shows "validate_supported_remote_event L e = Inr () \<longleftrightarrow>
    pr_schema_version p = 1 \<and> pr_proposal_type p \<notin> fst ` set official_types_emcomm"
proof -
  from assms obtain w n w' where n: "to_official_event L p w = (Inr n, w')" "ev_event_type e = ne_event_type n"
    "ev_schema_version e = pr_schema_version p" "hash_is_valid L e" by (auto simp: event_of_def)
  from n(1,2) obtain creates where row: "map_of official_table (pr_proposal_type p) = Some (ev_event_type e, creates)"
    by (elim to_official_event_Inr) simp
  then have mem: "(pr_proposal_type p, ev_event_type e, creates) \<in> set official_types_log \<union> set official_types_emcomm"
    unfolding official_table_def [symmetric] set_append [symmetric] by (rule map_of_SomeD)
  have d: "distinct (map fst official_table)" by (simp add: official_table_defs)
  have log: "ev_event_type e \<in> set supported_remote_types"
    if "(pr_proposal_type p, ev_event_type e, creates) \<in> set official_types_log"
    using that official_types_log_supported by force
  have em: "ev_event_type e \<notin> set supported_remote_types"
    if "(pr_proposal_type p, ev_event_type e, creates) \<in> set official_types_emcomm"
    using that official_types_emcomm_unsupported by (force simp: list_all_iff)
  have "fst ` set official_types_log \<inter> fst ` set official_types_emcomm = {}"
    using d by (simp add: official_table_def)
  with mem log em have "ev_event_type e \<in> set supported_remote_types \<longleftrightarrow>
      pr_proposal_type p \<notin> fst ` set official_types_emcomm" by (force simp: image_iff)
  with n(3,4) show ?thesis by (auto simp: validate_supported_remote_event_def)
qed

definition incident_proposal :: proposal_envelope where
  "incident_proposal = sample_proposal\<lparr>pr_proposal_type := PROPOSAL_EMCOMM_INCIDENT_OPEN\<rparr>"

theorem emcomm_never_replicates_witness:
  "\<exists>e. event_of (sample_libs []) incident_proposal e \<and>
     validate_supported_remote_event (sample_libs []) e \<noteq> Inr ()"
proof -
  let ?L = "sample_libs []"
  have "\<exists>n w'. to_official_event ?L incident_proposal sample_world = (Inr n, w')"
    by (simp add: to_official_event_def official_types_log_def official_types_emcomm_def incident_proposal_def
      sample_proposal_def entity_of_proposal_def new_v4_def)
  then obtain n w' where n: "to_official_event ?L incident_proposal sample_world = (Inr n, w')" by blast
  obtain e v where "from_new ?L n None w' = (e, v)" by fastforce
  from event_of_from_new [OF n this] have e: "event_of ?L incident_proposal e" .
  have "(PROPOSAL_EMCOMM_INCIDENT_OPEN, OFFICIAL_LOG_EMCOMM_INCIDENT_OPENED, True) \<in> set official_types_emcomm"
    by (simp add: official_types_emcomm_def)
  then have "pr_proposal_type incident_proposal \<in> fst ` set official_types_emcomm"
    unfolding incident_proposal_def by force
  with emcomm_never_replicates [OF e] e show ?thesis by blast
qed

section \<open>Permissions\<close>

text \<open>
  The defaults for built-in plugins never undo a decision and never exceed the registry:
  applied to any manifests and grants, they leave each status as it was, set a missing one to
  pending, or grant a permission that was neither denied nor revoked and that the default
  registry gives built-in plugins without an administrator, at low or medium risk.
\<close>

theorem defaults_are_safe:
  assumes "grant_builtin_defaults ms mvp_default settings gs w = (gs', w')"
  shows "grant_status gs' p c = grant_status gs p c \<or>
    grant_status gs p c = None \<and> grant_status gs' p c = Some GrantPending \<or>
    grant_status gs' p c = Some GrantGranted \<and> grant_status gs p c \<notin> {Some GrantDenied, Some GrantRevoked} \<and>
      (\<exists>md. registry_get mvp_default c = Some md \<and> \<not> md_requires_admin_approval md \<and>
        md_risk_level md \<in> {RiskLow, RiskMedium})"
proof -
  have "default_allowed mvp_default c \<Longrightarrow> \<exists>md. registry_get mvp_default c = Some md \<and>
      \<not> md_requires_admin_approval md \<and> md_risk_level md \<in> {RiskLow, RiskMedium}"
    using registry_get_row_ok(2) by (fastforce simp: default_allowed_def split: option.splits)
  with grant_builtin_defaults_change [OF assms, of c p] show ?thesis by (auto simp: default_change_def)
qed

theorem defaults_are_safe_witness:
  "\<exists>gs' w'. grant_builtin_defaults [sample_manifest] mvp_default permission_settings_default [] sample_world = (gs', w') \<and>
     (grant_status gs' ''other'' QsoDelete = Some GrantGranted \<longrightarrow> registry_get mvp_default QsoDelete \<noteq> None)"
proof -
  obtain gs' w' where "grant_builtin_defaults [sample_manifest] mvp_default permission_settings_default [] sample_world = (gs', w')"
    by fastforce
  moreover from defaults_are_safe [OF this, of "''other''" QsoDelete]
  have "grant_status gs' ''other'' QsoDelete = Some GrantGranted \<longrightarrow> registry_get mvp_default QsoDelete \<noteq> None"
    by (auto simp: grant_status_def)
  ultimately show ?thesis by blast
qed

text \<open>
  A manifest validates against the default registry exactly when everything it requests,
  optionally or not, is a known capability; the one capability the program names itself and
  yet refuses is \<open>log.qso.suggest_fields\<close>.
\<close>

theorem manifest_accepted_iff:
  "is_ok (validate_manifest mvp_default m) \<longleftrightarrow>
     (\<forall>c \<in> set (requested_or_capabilities m) \<union> set (pm_optional_permissions m).
       c \<noteq> QsoSuggestFields \<and> (\<forall>s. c \<noteq> CapOther s))"
proof -
  have "\<not> is_other c \<and> registry_get mvp_default c \<noteq> None \<longleftrightarrow> c \<noteq> QsoSuggestFields \<and> (\<forall>s. c \<noteq> CapOther s)" for c
    unfolding registry_known_iff registered_iff by (cases c) (simp_all add: is_other_def)
  then show ?thesis unfolding is_ok_iff validate_manifest_def by (auto simp: validate_permissions_iff)
qed

theorem manifest_accepted_iff_witness:
  "is_ok (validate_manifest mvp_default sample_manifest) \<and>
   \<not> is_ok (validate_manifest mvp_default (sample_manifest\<lparr>pm_optional_permissions := [QsoSuggestFields]\<rparr>))"
  using manifest_accepted_iff [of sample_manifest]
    manifest_accepted_iff [of "sample_manifest\<lparr>pm_optional_permissions := [QsoSuggestFields]\<rparr>"]
  by (simp add: sample_manifest_def requested_or_capabilities_def normalize_permissions_def)

text \<open>
  A permission check follows the last decision: after a status is set for a plugin and a
  permission, the check of that permission succeeds exactly when the manifest asks for it and
  the status set is granted; every other pair keeps its status, and no pair gets two grants.
\<close>

theorem permission_follows_decision:
  assumes "set_grant_status plugin c status reason gs w = (g, gs', w')"
  shows "(pm_plugin_id m = plugin \<longrightarrow>
      (check_plugin_permission m gs' c = Inr () \<longleftrightarrow> has_capability m c \<and> status = GrantGranted)) \<and>
    ((q, d) \<noteq> (plugin, c) \<longrightarrow> grant_status gs' q d = grant_status gs q d) \<and>
    (grants_unique gs \<longrightarrow> grants_unique gs')"
proof -
  obtain g where g: "gs' = upsert_grant g gs" "gt_plugin_id g = plugin" "gt_permission_id g = c" "gt_status g = status"
    using assms by (auto simp: set_grant_status_def Let_def split: prod.splits)
  then show ?thesis
    by (auto simp: check_plugin_permission_iff is_granted_def grant_status_upsert upsert_grant_unique)
qed

theorem permission_follows_decision_witness:
  "\<exists>g gs' w'. set_grant_status ''core.logger'' QsoCreate GrantRevoked None
       (pc_permission_grants sample_context) sample_world = (g, gs', w') \<and>
     check_plugin_permission sample_manifest gs' QsoCreate \<noteq> Inr ()"
proof -
  obtain g gs' w' where r: "set_grant_status ''core.logger'' QsoCreate GrantRevoked None
       (pc_permission_grants sample_context) sample_world = (g, gs', w')" by (metis prod_cases3)
  with permission_follows_decision [OF r, of sample_manifest] show ?thesis by (auto simp: sample_manifest_def)
qed

section \<open>Runtime events\<close>

text \<open>
  C13. No secret reaches the runtime log: in the payload of every runtime event the value of a
  key that looks like a secret, at any depth of objects and arrays, is the redaction marker,
  everything else is unchanged, and redacting again changes nothing.
\<close>

theorem runtime_payload_redacted:
  "re_redacted_payload (fst (runtime_event_new t sv src pl c se d wsp sm (Some payload) err w)) = Some (redact_payload payload) \<and>
   redacted (redact_payload payload) \<and> redact_payload (redact_payload payload) = redact_payload payload \<and>
   (redacted payload \<longrightarrow> redact_payload payload = payload)"
  using redact_payload_redacted redact_payload_idem redact_payload_fixed
  by (simp add: runtime_event_new_def new_v4_def utc_now_def)

theorem runtime_payload_redacted_witness:
  "redact_payload (JArray [JString ''K8'']) = JArray [JString ''K8'']"
  using runtime_payload_redacted [of _ _ _ _ _ _ _ _ _ "JArray [JString ''K8'']"] by (simp del: redact_payload.simps)

text \<open>
  The replay buffer holds the most recent runtime events: whatever was published on a new
  bus, a replay returns, newest first and at most \<open>limit\<close> of them, those matching the filter
  among the last \<open>capacity\<close> runtime events; official events are never replayed.
\<close>

theorem replay_is_recent:
  assumes "bus_new capacity = Some b"
  shows "replay_runtime_events (publish_all es b) f limit =
    take limit (filter (filter_matches f) (rev (last_n capacity (List.map_filter runtime_of es))))"
proof -
  have "0 < eb_capacity b" "eb_recent b = last_n (eb_capacity b) []" "eb_capacity b = capacity"
    using assms by (auto simp: bus_new_def last_n_def split: if_splits)
  with publish_all_recent [of b "[]" es] show ?thesis by (simp add: replay_runtime_events_def)
qed

theorem replay_is_recent_witness:
  "\<exists>b. bus_new 2 = Some b \<and> replay_runtime_events (publish_all [OfficialLogbookEvent logged] b)
     \<lparr>rf_severity = None, rf_category = None, rf_source = None, rf_text = None\<rparr> 5 = []"
proof -
  obtain b where b: "bus_new 2 = Some b" by (simp add: bus_new_def)
  from replay_is_recent [OF b, of "[OfficialLogbookEvent logged]"] b show ?thesis
    by (simp add: last_n_def List.map_filter_simps)
qed

end
