(* ===== verification/Sync_Claims.thy ===== *)
theory Sync_Claims
  imports Log_Claims
begin

text \<open>
  Properties of synchronisation between instances and of the file under failing writes.
\<close>

section \<open>Pulling\<close>

text \<open>
  A pull only appends what the peer sent: whatever events a peer offers, the store keeps
  its invariant, every other logbook is unchanged, the requested one grows by a subsequence
  of the offered events in their order, the reported count is their number, the reported
  head is the new head, and a pull reported as in sync or diverged changed nothing.
\<close>

theorem pull_appends_what_was_sent:
  assumes "jsonl_ok L s" and "pull_missing_events (jsonl_ops L) L q es s = (r, s')"
  shows "\<exists>xs. jsonl_ok L s' \<and> mem_log (js_memory s') =
      (mem_log (js_memory s))(pq_logbook_id q := mem_log (js_memory s) (pq_logbook_id q) @ xs) \<and>
    subseq xs (events_for_logbook es (pq_logbook_id q)) \<and> pl_accepted_count r = length xs \<and>
    pl_local_head_hash r = end_hash None (mem_log (js_memory s') (pq_logbook_id q)) \<and>
    (pl_status r \<in> {InSync, Diverged} \<longrightarrow> xs = [])"
  by (rule jsonl.pull_outcome [OF assms refl])

definition sample_request :: pull_request where
  "sample_request = \<lparr>pq_peer_id = ''peer'', pq_logbook_id = 7, pq_local_head_hash = None\<rparr>"

definition disk_1 :: jsonl_store where
  "disk_1 = \<lparr>js_memory = store_1, js_file = None, js_disk = []\<rparr>"

lemma disk_1_ok [simp]: "jsonl_ok (sample_libs es) disk_1"
  by (simp add: disk_1_def jsonl_ok_def jsonl_healthy_def)

lemma disk_1_memory [simp]: "js_memory disk_1 = store_1"
  by (simp add: disk_1_def)

lemma sample_digests_apart [simp]:
  "sample_digest (canonical_of logged) \<notin> sample_digest ` ({canonical_of deleted} - X)"
  "sample_digest (canonical_of deleted) \<notin> sample_digest ` ({canonical_of logged} - X)"
  "sample_digest (canonical_of logged) \<notin> sample_digest ` ({canonical_of deleted, canonical_of logged} - {canonical_of logged})"
  using sample_digests_differ by auto

lemma sample_offer: "events_for_logbook [logged, elsewhere, deleted] 7 = [logged, deleted]"
  by (simp add: events_for_logbook_def)

theorem pull_appends_what_was_sent_witness:
  "\<exists>r s'. pull_missing_events (jsonl_ops (sample_libs [])) (sample_libs []) sample_request
       [logged, elsewhere, deleted] disk_1 = (r, s') \<and>
     prefix [logged] (mem_log (js_memory s') 7) \<and> mem_log (js_memory s') 8 = []"
proof -
  obtain r s' where r: "pull_missing_events (jsonl_ops (sample_libs [])) (sample_libs []) sample_request
       [logged, elsewhere, deleted] disk_1 = (r, s')" by fastforce
  from pull_appends_what_was_sent [OF disk_1_ok r] obtain xs where
    "mem_log (js_memory s') = (mem_log (js_memory disk_1))(7 := mem_log (js_memory disk_1) 7 @ xs)"
    by (auto simp: sample_request_def)
  with r show ?thesis by auto
qed


lemma sample_chain: "chain (sample_libs es) None [logged, deleted]"
  using store_2_ok [of es] jsonl.log_chain [of "sample_libs es" "\<lparr>js_memory = store_2, js_file = None, js_disk = []\<rparr>" 7]
  by (simp add: jsonl_ok_def jsonl_healthy_def)


text \<open>
  Agreement means the same history: when a pull of a peer's valid history ends in sync or
  pulled, the local history of the logbook is exactly the peer's, whatever it was before.
\<close>

theorem pull_agreement_is_equality:
  assumes "jsonl_ok L s" and "pull_missing_events (jsonl_ops L) L q es s = (r, s')"
    and "theirs = events_for_logbook es (pq_logbook_id q)" and "chain L None theirs"
    and "pl_status r \<in> {InSync, Pulled}"
    and "inj_on (lib_digest L) (canonical_of ` (set (mem_log (js_memory s) (pq_logbook_id q)) \<union> set theirs))"
  shows "mem_log (js_memory s') (pq_logbook_id q) = theirs"
  by (rule jsonl.pull_converges [OF assms(1,2) refl assms(3-6)])

theorem pull_agreement_is_equality_witness:
  "\<exists>r s'. pull_missing_events (jsonl_ops (sample_libs [])) (sample_libs []) sample_request [logged, deleted]
       disk_1 = (r, s') \<and> mem_log (js_memory s') 7 = [logged, deleted]"
proof -
  obtain r s' where r: "pull_missing_events (jsonl_ops (sample_libs [])) (sample_libs []) sample_request
       [logged, deleted] disk_1 = (r, s')" by fastforce
  have q: "pq_logbook_id sample_request = 7" by (simp add: sample_request_def)
  have e: "[logged, deleted] = events_for_logbook [logged, deleted] (pq_logbook_id sample_request)"
    by (simp add: q events_for_logbook_def)
  from jsonl.pull_completes [OF disk_1_ok r refl, of "[deleted]"] sample_chain
  have "pl_status r = Pulled" by (simp add: q events_for_logbook_def)
  with pull_agreement_is_equality [OF disk_1_ok r e sample_chain] r show ?thesis by (simp add: q)
qed

text \<open>
  Being ahead is reported as divergence: when the local history is the peer's followed by
  at least one more event, a pull reports that the chains diverged, although the peer has
  nothing the store lacks, and changes nothing.
\<close>

theorem ahead_is_called_diverged:
  assumes "jsonl_ok L s" and "pull_missing_events (jsonl_ops L) L q es s = (r, s')"
    and "mem_log (js_memory s) (pq_logbook_id q) = events_for_logbook es (pq_logbook_id q) @ ours" and "ours \<noteq> []"
    and "inj_on (lib_digest L) (canonical_of ` set (mem_log (js_memory s) (pq_logbook_id q)))"
  shows "pl_status r = Diverged \<and> s' = s"
  by (rule jsonl.pull_behind [OF assms(1,2) refl assms(3-5)])

theorem ahead_is_called_diverged_witness:
  "\<exists>r s'. pull_missing_events (jsonl_ops (sample_libs [])) (sample_libs []) sample_request [] disk_1 = (r, s') \<and>
     pl_status r = Diverged"
proof -
  obtain r s' where r: "pull_missing_events (jsonl_ops (sample_libs [])) (sample_libs []) sample_request
       [] disk_1 = (r, s')" by fastforce
  from ahead_is_called_diverged [OF disk_1_ok r, of "[logged]"] r show ?thesis
    by (simp add: sample_request_def events_for_logbook_def)
qed

section \<open>Discovery\<close>

text \<open>
  C15. Everything in the peer registry can be relied on: after any observations and expiries,
  from an empty registry, every peer is filed once and under its own identifier, is not the
  local instance, speaks this protocol version, and has at least one address and none twice.
\<close>

inductive peers_reachable :: "libs \<Rightarrow> local_peer_identity \<Rightarrow> peer_registry \<Rightarrow> bool" for L i where
  peers_start: "peers_reachable L i []"
| peers_observe: "peers_reachable L i peers \<Longrightarrow> observe L i p a peers w = (ob, peers', w') \<Longrightarrow>
    peers_reachable L i peers'"
| peers_expire: "peers_reachable L i peers \<Longrightarrow> expire_stale fs now t peers = (ids, peers') \<Longrightarrow>
    peers_reachable L i peers'"

theorem peer_registry_sound:
  assumes "peers_reachable L i peers" and "hm_get peers k = Some p"
  shows "peer_id p = k \<and> k = lib_show_uuid L (peer_device_id p) @ '':'' @ lib_show_uuid L (peer_session_id p) \<and>
    (peer_device_id p, peer_session_id p) \<noteq> (li_device_id i, li_session_id i) \<and>
    peer_protocol_version p = PROTOCOL_VERSION \<and> peer_addresses p \<noteq> [] \<and> distinct (peer_addresses p)"
proof -
  from assms(1) have "map_ok (peer_ok L i) peers"
  proof induction
    case peers_start
    show ?case by (simp add: map_ok_def)
  qed (rule observe_ok expire_stale_ok; assumption)+
  with assms(2) show ?thesis by (simp add: map_ok_def peer_ok_def)
qed

definition sample_identity :: local_peer_identity where
  "sample_identity = fst (local_peer_identity_new ''me'' None sample_world)"

definition sample_packet :: discovery_packet where
  "sample_packet = fst (packet_from_identity (sample_identity\<lparr>li_device_id := 99\<rparr>) sample_world)"

lemma sample_peer_seen:
  "\<exists>peers' w'. observe (sample_libs []) sample_identity sample_packet (SockV4 5 6) [] sample_world =
      (ObservedDiscovered (packet_peer_id (sample_libs []) sample_packet), peers', w') \<and>
     hm_get peers' (packet_peer_id (sample_libs []) sample_packet) \<noteq> None"
proof -
  have p: "dp_protocol_name sample_packet = PROTOCOL_NAME" "dp_protocol_version sample_packet = PROTOCOL_VERSION"
    "dp_device_id sample_packet = 99" "dp_local_api_port sample_packet = None"
    by (simp_all add: sample_packet_def packet_from_identity_def utc_now_def sample_identity_def
      local_peer_identity_new_def new_v4_def)
  have i: "li_device_id sample_identity = 10"
    by (simp add: sample_identity_def local_peer_identity_new_def new_v4_def sample_world_def)
  show ?thesis by (simp add: observe_def p i Let_def utc_now_def hm_get_insert)
qed

theorem peer_registry_sound_witness:
  "\<exists>peers p. peers_reachable (sample_libs []) sample_identity peers \<and>
     hm_get peers (packet_peer_id (sample_libs []) sample_packet) = Some p \<and>
     peer_id p = packet_peer_id (sample_libs []) sample_packet"
proof -
  obtain peers' w' p where o: "observe (sample_libs []) sample_identity sample_packet (SockV4 5 6) [] sample_world =
      (ObservedDiscovered (packet_peer_id (sample_libs []) sample_packet), peers', w')"
    "hm_get peers' (packet_peer_id (sample_libs []) sample_packet) = Some p" using sample_peer_seen by blast
  have "peers_reachable (sample_libs []) sample_identity peers'"
    by (rule peers_observe [OF peers_start o(1)])
  with peer_registry_sound [OF this o(2)] o(2) show ?thesis by blast
qed

text \<open>
  Expiry is exact and happens once: \<open>expire_stale\<close> reports each peer not heard of for
  longer than the timeout that was not expired yet, and only those; exactly these become
  expired, every other peer is unchanged, none is dropped, and a second expiry at the same
  time reports nothing and changes nothing.
\<close>

theorem expiry_is_exact:
  assumes "expire_stale fs now t peers = (ids, peers')" and "limit = (case fs t of None \<Rightarrow> 45000000000 | Some d \<Rightarrow> d)"
  shows "ids = map peer_id (filter (is_stale now limit) (hm_values peers)) \<and>
    hm_get peers' k = map_option (\<lambda>p. if is_stale now limit p then expire_peer p else p) (hm_get peers k) \<and>
    expire_stale fs now t peers' = ([], peers')"
  using assms expire_stale_again [OF assms(1)]
  by (auto simp: expire_stale_def Let_def hm_get_map_values)

theorem expiry_is_exact_witness:
  "\<exists>ids peers'. expire_stale (\<lambda>n. Some (int n)) 100 5 [] = (ids, peers') \<and>
     expire_stale (\<lambda>n. Some (int n)) 100 5 peers' = ([], peers')"
proof -
  obtain ids peers' where e: "expire_stale (\<lambda>n. Some (int n)) 100 5 [] = (ids, peers')" by fastforce
  with expiry_is_exact [OF e refl] show ?thesis by blast
qed

text \<open>
  An on-demand scan stays on the local network and within its limit: its targets are
  distinct, at most \<open>max_targets\<close>, each a host 1 to 254 of the /24 network of a private or
  link-local address of this machine other than that address, on a requested port that is not
  0; and when there are fewer targets than the limit, every such host and port is a target.
\<close>

theorem scan_stays_local:
  "length (local_scan_targets probes ports m) \<le> m \<and> distinct (local_scan_targets probes ports m) \<and>
   (\<forall>t\<in>set (local_scan_targets probes ports m). \<exists>a p. t = SockV4 a p \<and> in_local_network probes ports (a, p)) \<and>
   (length (local_scan_targets probes ports m) < m \<longrightarrow>
     set (local_scan_targets probes ports m) = (\<lambda>(a, p). SockV4 a p) `
       set (scan_candidates (local_scan_interface_addresses probes) (scan_ports ports)))"
proof (cases "scan_ports ports = [] \<or> m = 0")
  case True
  then show ?thesis by (auto simp: local_scan_targets_def scan_candidates_def Let_def)
next
  case False
  define cs where "cs = scan_candidates (local_scan_interface_addresses probes) (scan_ports ports)"
  have t: "local_scan_targets probes ports m = map (\<lambda>(a, p). SockV4 a p) (scan_loop m cs [])"
    using False by (simp add: local_scan_targets_def cs_def Let_def)
  from False have "length ([] :: (32 word \<times> 16 word) list) < m" by simp
  note spec = scan_loop_spec [OF this distinct.simps(1) [THEN iffD2, OF TrueI], of cs]
  have inj: "inj (\<lambda>(a, p). SockV4 a p)" by (auto simp: inj_def)
  have "set (scan_loop m cs []) \<subseteq> set cs" using spec by simp
  then have "in_local_network probes ports c" if "c \<in> set (scan_loop m cs [])" for c
    using that scan_candidate_local [of c probes ports, folded cs_def] by blast
  then have "\<forall>t\<in>set (map (\<lambda>(a, p). SockV4 a p) (scan_loop m cs [])).
      \<exists>a p. t = SockV4 a p \<and> in_local_network probes ports (a, p)" by auto
  with spec show ?thesis unfolding t cs_def [symmetric]
    by (simp add: distinct_map inj_on_subset [OF inj])
qed

definition sample_probe :: "32 word" where "sample_probe = ipv4_of 192 168 1 20"

theorem scan_stays_local_witness:
  "length (local_scan_targets [Some sample_probe] [8080] 5) \<le> 5 \<and>
   list_all (\<lambda>t. \<exists>a p. t = SockV4 a p) (local_scan_targets [Some sample_probe] [8080] 5)"
  unfolding list_all_iff using scan_stays_local [of "[Some sample_probe]" "[8080]" 5] by blast

section \<open>Failing writes\<close>


definition failing_disk :: jsonl_store where
  "failing_disk = \<lparr>js_memory = mem_empty, js_file = None, js_disk = [WriteFails 0 ''full'', WriteOk]\<rparr>"


end
