(* ===== verification/Json_File.thy ===== *)
theory Json_File
  imports World
begin

text \<open>
  JSON documents in files, as the stores of \<open>ham-core/src/sync/offline.rs\<close> keep them:
  \<open>write_json_atomically\<close> with the states a failure or a crash can leave behind,
  \<open>quarantine_file\<close>, and the reading all of them share. Serialisation is a parameter; the
  locale \<open>document\<close> holds what is the same for every kind of document.
\<close>

text \<open>\<open>serde_json\<close>: the pretty-printed text of a document, and its reader.\<close>

record 'f codec =
  cd_print :: "'f \<Rightarrow> string"
  cd_parse :: "string \<Rightarrow> string + 'f"

text \<open>The documented behaviour used: a printed document is read back, also with a newline after
  it, an incomplete one is refused, and it is not blank.\<close>

definition ascii_white :: "char \<Rightarrow> bool" where
  "ascii_white c = (c \<in> {CHR '' '', CHR 0x09, CHR 0x0A, CHR 0x0C, CHR 0x0D})"

definition codec_reads :: "'f codec \<Rightarrow> 'f \<Rightarrow> bool" where
  "codec_reads c f = (cd_parse c (cd_print c f) = Inr f \<and> cd_parse c (cd_print c f @ newline) = Inr f \<and>
     \<not> list_all ascii_white (cd_print c f) \<and>
     (\<forall>n < length (cd_print c f). \<exists>m. cd_parse c (take n (cd_print c f)) = Inl m))"

section \<open>The disk\<close>

text \<open>How far a write that fails gets: not even the temporary file; the temporary file with some
  of the bytes (all of them when synchronising it or removing the old file fails); the old
  file removed but the new one not renamed.\<close>

datatype write_stop = StopBefore | StopTemp nat | StopRemoved

record json_disk =
  jd_file :: "string option"
  jd_temp :: "string option"
  jd_quarantine :: "string list"
  jd_io :: "(write_stop \<times> string) option list"

fun stopped :: "string \<Rightarrow> write_stop \<Rightarrow> json_disk \<Rightarrow> json_disk" where
  "stopped bytes StopBefore d = d"
| "stopped bytes (StopTemp n) d = d\<lparr>jd_temp := Some (take n bytes)\<rparr>"
| "stopped bytes StopRemoved d = d\<lparr>jd_temp := Some bytes, jd_file := None\<rparr>"

definition written :: "string \<Rightarrow> json_disk \<Rightarrow> json_disk" where
  "written bytes d = d\<lparr>jd_file := Some bytes, jd_temp := None\<rparr>"

definition write_json_atomically :: "'f codec \<Rightarrow> 'f \<Rightarrow> json_disk \<Rightarrow> (string + unit) \<times> json_disk" where
  "write_json_atomically c f d =
     (let bytes = cd_print c f @ newline in
      case jd_io d of
        [] \<Rightarrow> (Inr (), written bytes d)
      | None # io \<Rightarrow> (Inr (), written bytes (d\<lparr>jd_io := io\<rparr>))
      | Some (stop, err) # io \<Rightarrow> (Inl err, stopped bytes stop (d\<lparr>jd_io := io\<rparr>)))"

text \<open>The name of the quarantined copy, made of the time and if need be an identifier, is left
  out: the copies are kept in order.\<close>

definition quarantine_file :: "json_disk \<Rightarrow> json_disk" where
  "quarantine_file d =
     (case jd_file d of None \<Rightarrow> d
      | Some b \<Rightarrow> d\<lparr>jd_file := None, jd_quarantine := jd_quarantine d @ [b]\<rparr>)"

definition quarantine_temp :: "json_disk \<Rightarrow> json_disk" where
  "quarantine_temp d =
     (case jd_temp d of None \<Rightarrow> d
      | Some b \<Rightarrow> d\<lparr>jd_temp := None, jd_quarantine := jd_quarantine d @ [b]\<rparr>)"

section \<open>Loading and saving\<close>

text \<open>A kind of document: what a missing or blank file stands for, its check, and the order it
  is kept in. \<open>io\<close> and \<open>serde\<close> make the errors of the store.\<close>

record ('f, 'e) doc_kind =
  dk_default :: 'f
  dk_validate :: "'f \<Rightarrow> 'e + unit"
  dk_sorted :: "'f \<Rightarrow> 'f"
  dk_io :: "string \<Rightarrow> 'e"
  dk_serde :: "string \<Rightarrow> 'e"

definition load_doc :: "('f, 'e) doc_kind \<Rightarrow> 'f codec \<Rightarrow> json_disk \<Rightarrow> 'e + 'f" where
  "load_doc k c d =
     (case jd_file d of
        None \<Rightarrow> Inr (dk_default k)
      | Some bytes \<Rightarrow>
          if list_all ascii_white bytes then Inr (dk_default k)
          else and_then (map_err (dk_serde k) (cd_parse c bytes)) (\<lambda>f.
            and_then (dk_validate k f) (\<lambda>_. Inr (dk_sorted k f))))"

definition save_doc :: "('f, 'e) doc_kind \<Rightarrow> 'f codec \<Rightarrow> 'f \<Rightarrow> json_disk \<Rightarrow> ('e + unit) \<times> json_disk" where
  "save_doc k c f d =
     (case dk_validate k f of
        Inl err \<Rightarrow> (Inl err, d)
      | Inr _ \<Rightarrow> (case write_json_atomically c f d of (r, d) \<Rightarrow> (map_err (dk_io k) r, d)))"

text \<open>The shape of every operation: load, compute, and save unless nothing changed.\<close>

definition doc_op :: "('f, 'e) doc_kind \<Rightarrow> ('e \<Rightarrow> 'x) \<Rightarrow> 'f codec \<Rightarrow> ('f \<Rightarrow> 'x + 'a \<times> 'f option) \<Rightarrow>
    json_disk \<Rightarrow> ('x + 'a) \<times> json_disk" where
  "doc_op k lift c g d =
     (case load_doc k c d of
        Inl err \<Rightarrow> (Inl (lift err), d)
      | Inr f \<Rightarrow>
          (case g f of
             Inl err \<Rightarrow> (Inl err, d)
           | Inr (a, None) \<Rightarrow> (Inr a, d)
           | Inr (a, Some f') \<Rightarrow>
               (case save_doc k c (dk_sorted k f') d of
                  (Inl err, d) \<Rightarrow> (Inl (lift err), d)
                | (Inr _, d) \<Rightarrow> (Inr a, d))))"

text \<open>The document a disk holds.\<close>

definition doc_holds :: "('f, 'e) doc_kind \<Rightarrow> 'f codec \<Rightarrow> 'f \<Rightarrow> json_disk \<Rightarrow> bool" where
  "doc_holds k c f d = (load_doc k c d = Inr f)"

definition io_works :: "json_disk \<Rightarrow> bool" where
  "io_works d = list_all (\<lambda>x. x = None) (jd_io d)"

section \<open>What every document relies on\<close>

locale document =
  fixes k :: "('f, 'e) doc_kind"
  assumes validate_sorted: "dk_validate k (dk_sorted k f) = Inr () \<longleftrightarrow> dk_validate k f = Inr ()"
    and sorted_sorted: "dk_sorted k (dk_sorted k f) = dk_sorted k f"
    and default_valid: "dk_validate k (dk_default k) = Inr ()"
    and default_sorted: "dk_sorted k (dk_default k) = dk_default k"
begin

lemma holds_valid:
  assumes "doc_holds k c f d"
  shows "dk_validate k f = Inr ()" "dk_sorted k f = f"
  using assms validate_sorted sorted_sorted default_valid default_sorted
  by (auto simp: doc_holds_def load_doc_def split: option.splits if_splits)

lemma holds_written:
  assumes "codec_reads c f" and "dk_validate k f = Inr ()"
  shows "doc_holds k c (dk_sorted k f) (written (cd_print c f @ newline) d)"
  using assms by (auto simp: doc_holds_def load_doc_def written_def codec_reads_def)

lemma save_holds:
  assumes "codec_reads c f" and "save_doc k c f d = (Inr u, d')"
  shows "doc_holds k c (dk_sorted k f) d'" "jd_temp d' = None" "jd_io d' = tl (jd_io d)"
  using assms holds_written [OF assms(1)]
  by (auto simp: save_doc_def write_json_atomically_def Let_def written_def
    split: sum.splits prod.splits list.splits option.splits)

lemma op_success:
  assumes "doc_holds k c f d" and "doc_op k lift c g d = (Inr a, d')"
    and "\<And>a f'. g f = Inr (a, Some f') \<Longrightarrow> codec_reads c (dk_sorted k f')"
  shows "\<exists>f'. g f = Inr (a, f') \<and>
    (case f' of None \<Rightarrow> d' = d | Some f' \<Rightarrow> dk_validate k f' = Inr () \<and> doc_holds k c (dk_sorted k f') d')"
proof -
  from assms(1,2) obtain f' where g: "g f = Inr (a, f')"
    by (auto simp: doc_op_def doc_holds_def split: sum.splits prod.splits option.splits)
  show ?thesis
  proof (cases f')
    case None
    with assms(1,2) g show ?thesis by (simp add: doc_op_def doc_holds_def)
  next
    case (Some f1)
    with assms(1,2) g obtain u where s: "save_doc k c (dk_sorted k f1) d = (Inr u, d')"
      by (auto simp: doc_op_def doc_holds_def split: sum.splits prod.splits)
    have "dk_validate k f1 = Inr ()" using s validate_sorted [of f1]
      by (auto simp: save_doc_def split: sum.splits)
    with save_holds(1) [OF assms(3) s] g Some show ?thesis by (simp add: sorted_sorted)
  qed
qed

lemma op_runs:
  assumes "doc_holds k c f d" and "g f = Inr (a, Some f')" and "dk_validate k f' = Inr ()" and "io_works d"
  shows "\<exists>d'. doc_op k lift c g d = (Inr a, d') \<and> io_works d'"
  using assms validate_sorted [of f']
  by (cases "jd_io d") (auto simp: doc_op_def doc_holds_def save_doc_def write_json_atomically_def Let_def written_def io_works_def)

text \<open>A failed operation leaves the document as it was, or, when it was not a write that failed
  on the way, the disk.\<close>

lemma op_failure:
  assumes "doc_op k lift c g d = (Inl err, d')" and "doc_holds k c f d"
  shows "d' = d \<and> g f = Inl err \<or>
    (\<exists>a f' m. g f = Inr (a, Some f') \<and>
      ((\<exists>e. dk_validate k (dk_sorted k f') = Inl e \<and> err = lift e \<and> d' = d) \<or>
       (\<exists>stop io. jd_io d = Some (stop, m) # io \<and> err = lift (dk_io k m) \<and>
         d' = stopped (cd_print c (dk_sorted k f') @ newline) stop (d\<lparr>jd_io := io\<rparr>))))"
proof (cases "g f")
  case (Inl x)
  with assms show ?thesis by (simp add: doc_op_def doc_holds_def)
next
  case (Inr y)
  obtain a o' where y: "y = (a, o')" by (cases y)
  with assms Inr obtain f' where f': "o' = Some f'"
    by (cases o') (auto simp: doc_op_def doc_holds_def)
  show ?thesis
  proof (cases "dk_validate k (dk_sorted k f')")
    case (Inl e)
    with assms Inr y f' show ?thesis by (auto simp: doc_op_def doc_holds_def save_doc_def)
  next
    case valid: (Inr u)
    obtain stop m io where io: "jd_io d = Some (stop, m) # io"
      using assms Inr y f' valid
      by (auto simp: doc_op_def doc_holds_def save_doc_def write_json_atomically_def Let_def
        split: list.splits option.splits)
    with assms Inr y f' valid show ?thesis
      by (auto simp: doc_op_def doc_holds_def save_doc_def write_json_atomically_def Let_def)
  qed
qed

end

end
