(* ===== verification/Offline_Queue.thy ===== *)
theory Offline_Queue
  imports Sync Json_File
begin

text \<open>
  The durable queue of offline mutations (\<open>ham-core/src/sync/offline.rs\<close>): the mutation and
  its life cycle, the queue file and its operations, what is ready to be sent, and recovery
  after a crash with the migration of the older format.
\<close>

section \<open>Mutations\<close>

definition OFFLINE_MUTATION_SCHEMA_VERSION :: "32 word" where "OFFLINE_MUTATION_SCHEMA_VERSION = 1"
definition OFFLINE_QUEUE_FILE_VERSION :: "32 word" where "OFFLINE_QUEUE_FILE_VERSION = 1"
definition OFFLINE_QUEUE_LEGACY_V0_2_FILE_VERSION :: "32 word" where
  "OFFLINE_QUEUE_LEGACY_V0_2_FILE_VERSION = 0"
definition DEFAULT_MAX_ATTEMPTS :: "32 word" where "DEFAULT_MAX_ATTEMPTS = 8"
definition DEFAULT_BACKOFF_SECONDS :: "64 word" where "DEFAULT_BACKOFF_SECONDS = 5"
definition DEFAULT_MAX_BACKOFF_SECONDS :: "64 word" where "DEFAULT_MAX_BACKOFF_SECONDS = 15 * 60"

datatype offline_queue_error =
    OqIo string
  | OqSerde string
  | OqUnsupportedFileVersion "32 word"
  | OqUnsupportedMutationSchema uuid "32 word"
  | OqInvalidOperationType uuid
  | OqInvalidIdempotencyKey uuid
  | OqInvalidSequence uuid "64 word"
  | OqUnsupportedDependencySchema uuid "32 word"
  | OqDuplicateSequence uuid "64 word"
  | OqMutationNotFound uuid
  | OqMissingLocalOfficialEvent uuid

datatype offline_status = OmPending | OmSending | OmRetrying | OmBlocked | OmFailed | OmAccepted | OmUserActionRequired

definition om_is_terminal :: "offline_status \<Rightarrow> bool" where
  "om_is_terminal s = (s \<in> {OmBlocked, OmFailed, OmAccepted, OmUserActionRequired})"

definition om_is_draining :: "offline_status \<Rightarrow> bool" where
  "om_is_draining s = (s \<in> {OmPending, OmRetrying})"

record mutation_dependency =
  dep_operation_id :: "uuid option"
  dep_event_hash :: "string option"
  dep_minimum_schema_version :: "32 word option"

definition dep_operation :: "uuid \<Rightarrow> mutation_dependency" where
  "dep_operation i = \<lparr>dep_operation_id = Some i, dep_event_hash = None, dep_minimum_schema_version = None\<rparr>"

definition dep_hash :: "string \<Rightarrow> mutation_dependency" where
  "dep_hash h = \<lparr>dep_operation_id = None, dep_event_hash = Some h, dep_minimum_schema_version = None\<rparr>"

definition dep_schema :: "32 word \<Rightarrow> mutation_dependency" where
  "dep_schema v = \<lparr>dep_operation_id = None, dep_event_hash = None, dep_minimum_schema_version = Some v\<rparr>"

record offline_mutation =
  om_schema_version :: "32 word"
  om_operation_id :: uuid
  om_correlation_id :: uuid
  om_client_id :: uuid
  om_device_id :: uuid
  om_logbook_id :: uuid
  om_entity_id :: "uuid option"
  om_sequence :: "64 word"
  om_operation_type :: string
  om_idempotency_key :: string
  om_dependencies :: "mutation_dependency list"
  om_payload :: json
  om_status :: offline_status
  om_attempts :: "32 word"
  om_max_attempts :: "32 word"
  om_backoff_seconds :: "64 word"
  om_max_backoff_seconds :: "64 word"
  om_next_attempt_at :: "datetime option"
  om_created_at :: datetime
  om_updated_at :: datetime
  om_official_event_id :: "uuid option"
  om_local_event_hash :: "string option"
  om_accepted_at :: "datetime option"
  om_failure_reason :: "string option"
  om_last_error_code :: "string option"

record offline_input =
  oi_logbook_id :: uuid
  oi_device_id :: uuid
  oi_client_id :: uuid
  oi_operation_type :: string
  oi_payload :: json
  oi_entity_id :: "uuid option"
  oi_idempotency_key :: "string option"
  oi_operation_id :: "uuid option"
  oi_correlation_id :: "uuid option"
  oi_dependencies :: "mutation_dependency list"

definition offline_input_new :: "uuid \<Rightarrow> uuid \<Rightarrow> uuid \<Rightarrow> string \<Rightarrow> json \<Rightarrow> offline_input" where
  "offline_input_new lb device client t payload =
     \<lparr>oi_logbook_id = lb, oi_device_id = device, oi_client_id = client, oi_operation_type = t,
      oi_payload = payload, oi_entity_id = None, oi_idempotency_key = None, oi_operation_id = None,
      oi_correlation_id = None, oi_dependencies = []\<rparr>"

text \<open>\<open>fresh\<close> is what \<open>Uuid::new_v4\<close> returns when it is called.\<close>

definition mutation_new :: "libs \<Rightarrow> offline_input \<Rightarrow> 64 word \<Rightarrow> datetime \<Rightarrow> uuid \<Rightarrow> offline_mutation" where
  "mutation_new L input sequence now fresh =
     (let operation_id = (case oi_operation_id input of Some i \<Rightarrow> i | None \<Rightarrow> fresh) in
      \<lparr>om_schema_version = OFFLINE_MUTATION_SCHEMA_VERSION, om_operation_id = operation_id,
       om_correlation_id = (case oi_correlation_id input of Some i \<Rightarrow> i | None \<Rightarrow> operation_id),
       om_client_id = oi_client_id input, om_device_id = oi_device_id input,
       om_logbook_id = oi_logbook_id input, om_entity_id = oi_entity_id input,
       om_sequence = sequence, om_operation_type = oi_operation_type input,
       om_idempotency_key = (case oi_idempotency_key input of Some k \<Rightarrow> k
         | None \<Rightarrow> lib_show_uuid L (oi_logbook_id input) @ '':'' @ lib_show_uuid L (oi_device_id input) @
             '':'' @ show_nat (unat sequence) @ '':'' @ lib_show_uuid L operation_id),
       om_dependencies = oi_dependencies input, om_payload = oi_payload input,
       om_status = OmPending, om_attempts = 0, om_max_attempts = DEFAULT_MAX_ATTEMPTS,
       om_backoff_seconds = DEFAULT_BACKOFF_SECONDS,
       om_max_backoff_seconds = DEFAULT_MAX_BACKOFF_SECONDS, om_next_attempt_at = None,
       om_created_at = now, om_updated_at = now, om_official_event_id = None,
       om_local_event_hash = None, om_accepted_at = None, om_failure_reason = None,
       om_last_error_code = None\<rparr>)"

definition dependency_too_new :: "mutation_dependency \<Rightarrow> bool" where
  "dependency_too_new d = (case dep_minimum_schema_version d of None \<Rightarrow> False
     | Some v \<Rightarrow> v > OFFLINE_MUTATION_SCHEMA_VERSION)"

definition mutation_validate :: "offline_mutation \<Rightarrow> offline_queue_error + unit" where
  "mutation_validate m =
     (if om_schema_version m \<noteq> OFFLINE_MUTATION_SCHEMA_VERSION
      then Inl (OqUnsupportedMutationSchema (om_operation_id m) (om_schema_version m))
      else if trim (om_operation_type m) = [] then Inl (OqInvalidOperationType (om_operation_id m))
      else if trim (om_idempotency_key m) = [] then Inl (OqInvalidIdempotencyKey (om_operation_id m))
      else if om_sequence m = 0 then Inl (OqInvalidSequence (om_operation_id m) (om_sequence m))
      else (case List.find dependency_too_new (om_dependencies m) of
          None \<Rightarrow> Inr ()
        | Some d \<Rightarrow> Inl (OqUnsupportedDependencySchema (om_operation_id m)
            (the (dep_minimum_schema_version d)))))"

definition is_ready_at :: "datetime \<Rightarrow> offline_mutation \<Rightarrow> bool" where
  "is_ready_at now m = (om_is_draining (om_status m) \<and>
     (case om_next_attempt_at m of None \<Rightarrow> True | Some t \<Rightarrow> t \<le> now))"

definition attach_local_event :: "core_event \<Rightarrow> datetime \<Rightarrow> offline_mutation \<Rightarrow> offline_mutation" where
  "attach_local_event e now m =
     m\<lparr>om_official_event_id := Some (ev_event_id e), om_local_event_hash := Some (ev_event_hash e),
       om_entity_id := (if om_entity_id m = None then ev_entity_id e else om_entity_id m),
       om_updated_at := now, om_failure_reason := None, om_last_error_code := None,
       om_status := (if om_status m \<in> {OmBlocked, OmFailed, OmUserActionRequired} then OmPending
         else om_status m)\<rparr>"

section \<open>The queue file\<close>

record offline_file =
  oq_version :: "32 word"
  oq_next_sequence :: "(uuid, 64 word) btmap"
  oq_mutations :: "offline_mutation list"

definition offline_file_default :: offline_file where
  "offline_file_default = \<lparr>oq_version = OFFLINE_QUEUE_FILE_VERSION, oq_next_sequence = [], oq_mutations = []\<rparr>"

fun validate_mutations :: "offline_mutation list \<Rightarrow> (uuid \<times> 64 word) set \<Rightarrow> offline_queue_error + unit" where
  "validate_mutations [] seen = Inr ()"
| "validate_mutations (m # ms) seen =
     and_then (mutation_validate m) (\<lambda>_.
       if (om_logbook_id m, om_sequence m) \<in> seen
       then Inl (OqDuplicateSequence (om_logbook_id m) (om_sequence m))
       else validate_mutations ms (insert (om_logbook_id m, om_sequence m) seen))"

definition offline_file_validate :: "offline_file \<Rightarrow> offline_queue_error + unit" where
  "offline_file_validate f =
     (if oq_version f \<noteq> OFFLINE_QUEUE_FILE_VERSION then Inl (OqUnsupportedFileVersion (oq_version f))
      else validate_mutations (oq_mutations f) {})"

definition mutation_key :: "offline_mutation \<Rightarrow> uuid \<times> 64 word \<times> datetime \<times> uuid" where
  "mutation_key m = (om_logbook_id m, om_sequence m, om_created_at m, om_operation_id m)"

definition offline_file_sorted :: "offline_file \<Rightarrow> offline_file" where
  "offline_file_sorted f = f\<lparr>oq_mutations := sort_key mutation_key (oq_mutations f)\<rparr>"

fun max_of :: "'a::linorder list \<Rightarrow> 'a option" where
  "max_of [] = None"
| "max_of (x # xs) = Some (fold max xs x)"

fun option_list :: "'a option \<Rightarrow> 'a list" where
  "option_list None = []"
| "option_list (Some x) = [x]"

definition next_sequence :: "offline_file \<Rightarrow> uuid \<Rightarrow> 64 word" where
  "next_sequence f lb =
     (let stored = map_of (oq_next_sequence f) lb;
          derived = max_of (map (\<lambda>m. saturating_succ (om_sequence m))
            (filter (\<lambda>m. om_logbook_id m = lb) (oq_mutations f)))
      in case max_of (option_list stored @ option_list derived) of None \<Rightarrow> 1 | Some n \<Rightarrow> n)"

text \<open>\<open>iter_mut().find(p)\<close> and an update of what it finds.\<close>

fun modify_first :: "('a \<Rightarrow> bool) \<Rightarrow> ('a \<Rightarrow> 'a) \<Rightarrow> 'a list \<Rightarrow> 'a list" where
  "modify_first p g [] = []"
| "modify_first p g (x # xs) = (if p x then g x # xs else x # modify_first p g xs)"

definition has_operation :: "uuid \<Rightarrow> offline_mutation \<Rightarrow> bool" where
  "has_operation i m = (om_operation_id m = i)"

section \<open>Operations on the file\<close>

text \<open>Each returns the mutation and, when it saves, the file to save.\<close>

type_synonym 'a queue_change = "offline_file \<Rightarrow> offline_queue_error fault + 'a \<times> offline_file option"

definition with_new :: "offline_mutation \<Rightarrow> 64 word \<Rightarrow> offline_file \<Rightarrow> offline_file" where
  "with_new m n f = f\<lparr>oq_next_sequence := bt_insert (om_logbook_id m) n (oq_next_sequence f),
     oq_mutations := oq_mutations f @ [m]\<rparr>"

definition enqueue_input_change :: "libs \<Rightarrow> offline_input \<Rightarrow> datetime \<Rightarrow> uuid \<Rightarrow> offline_mutation queue_change" where
  "enqueue_input_change L input now fresh f =
     (case List.find (\<lambda>m. om_logbook_id m = oi_logbook_id input \<and>
         oi_operation_id input = Some (om_operation_id m)) (oq_mutations f) of
        Some existing \<Rightarrow> Inr (existing, None)
      | None \<Rightarrow>
          (case List.find (\<lambda>m. om_logbook_id m = oi_logbook_id input \<and>
              oi_idempotency_key input = Some (om_idempotency_key m)) (oq_mutations f) of
             Some existing \<Rightarrow> Inr (existing, None)
           | None \<Rightarrow>
               let m = mutation_new L input (next_sequence f (oi_logbook_id input)) now fresh in
               and_then (map_err Fail (mutation_validate m)) (\<lambda>_.
                 Inr (m, Some (with_new m (saturating_succ (om_sequence m)) f)))))"

definition enqueue_change :: "offline_mutation \<Rightarrow> offline_mutation queue_change" where
  "enqueue_change m f =
     (case List.find (has_operation (om_operation_id m)) (oq_mutations f) of
        Some existing \<Rightarrow> Inr (existing, None)
      | None \<Rightarrow>
          (case List.find (\<lambda>x. om_logbook_id x = om_logbook_id m \<and>
              om_idempotency_key x = om_idempotency_key m) (oq_mutations f) of
             Some existing \<Rightarrow> Inr (existing, None)
           | None \<Rightarrow>
               if list_ex (\<lambda>x. om_logbook_id x = om_logbook_id m \<and> om_sequence x = om_sequence m) (oq_mutations f)
               then Inl (Fail (OqDuplicateSequence (om_logbook_id m) (om_sequence m)))
               else Inr (m, Some (with_new m
                 (max (next_sequence f (om_logbook_id m)) (saturating_succ (om_sequence m))) f))))"

text \<open>\<open>mutation_mut\<close>, the update (which can panic) and the clone of the result.\<close>

definition change_mutation ::
    "uuid \<Rightarrow> (offline_mutation \<Rightarrow> offline_queue_error fault + offline_mutation) \<Rightarrow> offline_mutation queue_change" where
  "change_mutation i update f =
     (case List.find (has_operation i) (oq_mutations f) of
        None \<Rightarrow> Inl (Fail (OqMutationNotFound i))
      | Some m \<Rightarrow> and_then (update m) (\<lambda>m'.
          Inr (m', Some (f\<lparr>oq_mutations := modify_first (has_operation i) (\<lambda>_. m') (oq_mutations f)\<rparr>))))"

definition update_change :: "uuid \<Rightarrow> datetime \<Rightarrow> (offline_mutation \<Rightarrow> offline_mutation) \<Rightarrow> offline_mutation queue_change" where
  "update_change i now update =
     change_mutation i (\<lambda>m. Inr ((update m)\<lparr>om_updated_at := now\<rparr>))"

text \<open>\<open>chrono\<close>: \<open>Duration::seconds\<close>, and the sum of an instant and a duration; both panic
  (\<open>None\<close>) out of the range of the library. Durations are in nanoseconds.\<close>

record chrono =
  ch_seconds :: "int \<Rightarrow> int option"
  ch_add :: "datetime \<Rightarrow> int \<Rightarrow> datetime option"

definition retry_seconds :: "offline_mutation \<Rightarrow> nat" where
  "retry_seconds m =
     (let exponent = min (unat (om_attempts m) - 1) 16;
          product = min (unat (om_backoff_seconds m) * 2 ^ exponent) (2 ^ 64 - 1)
      in max (min product (unat (om_max_backoff_seconds m))) 1)"

text \<open>\<open>seconds as i64\<close> wraps.\<close>

definition retry_delay :: "chrono \<Rightarrow> offline_mutation \<Rightarrow> int option" where
  "retry_delay C m = ch_seconds C (sint (of_nat (retry_seconds m) :: 64 word))"

definition add_delay :: "chrono \<Rightarrow> datetime \<Rightarrow> int option \<Rightarrow> 'e fault + datetime" where
  "add_delay C now delay = ok_or Panicked (Option.bind delay (ch_add C now))"

definition transient_failure ::
    "chrono \<Rightarrow> string \<Rightarrow> string option \<Rightarrow> datetime \<Rightarrow> offline_mutation \<Rightarrow> offline_queue_error fault + offline_mutation" where
  "transient_failure C reason code now m =
     and_then
       (if om_attempts m \<ge> om_max_attempts m
        then Inr (m\<lparr>om_status := OmFailed, om_next_attempt_at := None\<rparr>)
        else and_then (add_delay C now (retry_delay C m)) (\<lambda>t.
          Inr (m\<lparr>om_status := OmRetrying, om_next_attempt_at := Some t\<rparr>))) (\<lambda>m.
     Inr (m\<lparr>om_failure_reason := Some reason, om_last_error_code := code, om_updated_at := now\<rparr>))"

definition mark_sending_update :: "offline_mutation \<Rightarrow> offline_mutation" where
  "mark_sending_update m =
     m\<lparr>om_status := OmSending, om_attempts := saturating_succ (om_attempts m),
       om_next_attempt_at := None, om_failure_reason := None, om_last_error_code := None\<rparr>"

definition accepted_update :: "datetime \<Rightarrow> offline_mutation \<Rightarrow> offline_mutation" where
  "accepted_update now m =
     m\<lparr>om_status := OmAccepted, om_accepted_at := Some now, om_next_attempt_at := None,
       om_failure_reason := None, om_last_error_code := None\<rparr>"

definition stop_update :: "offline_status \<Rightarrow> string \<Rightarrow> offline_mutation \<Rightarrow> offline_mutation" where
  "stop_update status reason m =
     m\<lparr>om_status := status, om_failure_reason := Some reason, om_next_attempt_at := None\<rparr>"

definition accepted_by_hash :: "string set \<Rightarrow> offline_mutation \<Rightarrow> bool" where
  "accepted_by_hash hashes m =
     ((case om_local_event_hash m of None \<Rightarrow> False | Some h \<Rightarrow> h \<in> hashes) \<and> om_status m \<noteq> OmAccepted)"

definition accepted_by_hashes_change :: "string set \<Rightarrow> datetime \<Rightarrow> nat queue_change" where
  "accepted_by_hashes_change hashes now f =
     Inr (length (filter (accepted_by_hash hashes) (oq_mutations f)),
       Some (f\<lparr>oq_mutations := map (\<lambda>m. if accepted_by_hash hashes m
         then (accepted_update now m)\<lparr>om_updated_at := now\<rparr> else m) (oq_mutations f)\<rparr>))"

definition recovered_mutation :: "datetime \<Rightarrow> offline_mutation \<Rightarrow> offline_mutation" where
  "recovered_mutation now m =
     (if om_status m = OmSending
      then m\<lparr>om_status := OmRetrying, om_next_attempt_at := Some now, om_updated_at := now,
        om_failure_reason := Some ''recovered interrupted send attempt''\<rparr>
      else m)"

definition recover_interrupted_writes_in_file :: "datetime \<Rightarrow> offline_file \<Rightarrow> nat \<times> offline_file" where
  "recover_interrupted_writes_in_file now f =
     (length (filter (\<lambda>m. om_status m = OmSending) (oq_mutations f)),
      f\<lparr>oq_mutations := map (recovered_mutation now) (oq_mutations f)\<rparr>)"

section \<open>The queue on disk\<close>

definition offline_kind :: "(offline_file, offline_queue_error) doc_kind" where
  "offline_kind = \<lparr>dk_default = offline_file_default, dk_validate = offline_file_validate,
     dk_sorted = offline_file_sorted, dk_io = OqIo, dk_serde = OqSerde\<rparr>"

abbreviation queue_op :: "offline_file codec \<Rightarrow> 'a queue_change \<Rightarrow> json_disk \<Rightarrow> (offline_queue_error fault + 'a) \<times> json_disk" where
  "queue_op \<equiv> doc_op offline_kind Fail"

definition enqueue_input :: "libs \<Rightarrow> offline_file codec \<Rightarrow> offline_input \<Rightarrow> datetime \<Rightarrow> uuid \<Rightarrow> json_disk \<Rightarrow>
    (offline_queue_error fault + offline_mutation) \<times> json_disk" where
  "enqueue_input L c input now fresh = queue_op c (enqueue_input_change L input now fresh)"

definition enqueue :: "offline_file codec \<Rightarrow> offline_mutation \<Rightarrow> json_disk \<Rightarrow>
    (offline_queue_error fault + offline_mutation) \<times> json_disk" where
  "enqueue c m d =
     (case mutation_validate m of
        Inl err \<Rightarrow> (Inl (Fail err), d)
      | Inr _ \<Rightarrow> queue_op c (enqueue_change m) d)"

definition record_local_event :: "offline_file codec \<Rightarrow> uuid \<Rightarrow> core_event \<Rightarrow> datetime \<Rightarrow> json_disk \<Rightarrow>
    (offline_queue_error fault + offline_mutation) \<times> json_disk" where
  "record_local_event c i e now = queue_op c (change_mutation i (\<lambda>m. Inr (attach_local_event e now m)))"

definition mark_sending :: "offline_file codec \<Rightarrow> uuid \<Rightarrow> datetime \<Rightarrow> json_disk \<Rightarrow>
    (offline_queue_error fault + offline_mutation) \<times> json_disk" where
  "mark_sending c i now = queue_op c (update_change i now mark_sending_update)"

definition record_transient_failure :: "chrono \<Rightarrow> offline_file codec \<Rightarrow> uuid \<Rightarrow> string \<Rightarrow> string option \<Rightarrow>
    datetime \<Rightarrow> json_disk \<Rightarrow> (offline_queue_error fault + offline_mutation) \<times> json_disk" where
  "record_transient_failure C c i reason code now =
     queue_op c (change_mutation i (transient_failure C reason code now))"

definition mark_blocked :: "offline_file codec \<Rightarrow> uuid \<Rightarrow> string \<Rightarrow> datetime \<Rightarrow> json_disk \<Rightarrow>
    (offline_queue_error fault + offline_mutation) \<times> json_disk" where
  "mark_blocked c i reason now = queue_op c (update_change i now (stop_update OmBlocked reason))"

definition mark_failed :: "offline_file codec \<Rightarrow> uuid \<Rightarrow> string \<Rightarrow> string option \<Rightarrow> datetime \<Rightarrow> json_disk \<Rightarrow>
    (offline_queue_error fault + offline_mutation) \<times> json_disk" where
  "mark_failed c i reason code now =
     queue_op c (update_change i now (\<lambda>m. (stop_update OmFailed reason m)\<lparr>om_last_error_code := code\<rparr>))"

definition mark_user_action_required :: "offline_file codec \<Rightarrow> uuid \<Rightarrow> string \<Rightarrow> string option \<Rightarrow> datetime \<Rightarrow>
    json_disk \<Rightarrow> (offline_queue_error fault + offline_mutation) \<times> json_disk" where
  "mark_user_action_required c i reason code now =
     queue_op c (update_change i now
       (\<lambda>m. (stop_update OmUserActionRequired reason m)\<lparr>om_last_error_code := code\<rparr>))"

definition mark_accepted :: "offline_file codec \<Rightarrow> uuid \<Rightarrow> datetime \<Rightarrow> json_disk \<Rightarrow>
    (offline_queue_error fault + offline_mutation) \<times> json_disk" where
  "mark_accepted c i now = queue_op c (update_change i now (accepted_update now))"

definition mark_accepted_by_event_hashes :: "offline_file codec \<Rightarrow> string set \<Rightarrow> datetime \<Rightarrow> json_disk \<Rightarrow>
    (offline_queue_error fault + nat) \<times> json_disk" where
  "mark_accepted_by_event_hashes c hashes now = queue_op c (accepted_by_hashes_change hashes now)"

definition recover_interrupted_writes :: "offline_file codec \<Rightarrow> datetime \<Rightarrow> json_disk \<Rightarrow>
    (offline_queue_error fault + nat) \<times> json_disk" where
  "recover_interrupted_writes c now =
     queue_op c (\<lambda>f. let (n, f) = recover_interrupted_writes_in_file now f in Inr (n, Some f))"

section \<open>What is ready to be sent\<close>

definition accepted_operations :: "offline_mutation list \<Rightarrow> uuid set" where
  "accepted_operations ms = om_operation_id ` set (filter (\<lambda>m. om_status m = OmAccepted) ms)"

definition accepted_hashes :: "offline_mutation list \<Rightarrow> string set" where
  "accepted_hashes ms =
     set (List.map_filter om_local_event_hash (filter (\<lambda>m. om_status m = OmAccepted) ms))"

definition dependency_satisfied :: "uuid set \<Rightarrow> string set \<Rightarrow> mutation_dependency \<Rightarrow> bool" where
  "dependency_satisfied operations hashes d =
     ((case dep_operation_id d of None \<Rightarrow> True | Some i \<Rightarrow> i \<in> operations) \<and>
      (case dep_event_hash d of None \<Rightarrow> True | Some h \<Rightarrow> h \<in> hashes) \<and>
      (case dep_minimum_schema_version d of None \<Rightarrow> True
       | Some v \<Rightarrow> v \<le> OFFLINE_MUTATION_SCHEMA_VERSION))"

definition dependencies_satisfied :: "uuid set \<Rightarrow> string set \<Rightarrow> offline_mutation \<Rightarrow> bool" where
  "dependencies_satisfied operations hashes m =
     list_all (dependency_satisfied operations hashes) (om_dependencies m)"

fun ready_loop :: "datetime \<Rightarrow> uuid set \<Rightarrow> string set \<Rightarrow> offline_mutation list \<Rightarrow> offline_mutation list" where
  "ready_loop now operations hashes [] = []"
| "ready_loop now operations hashes (m # ms) =
     (if om_status m = OmAccepted then ready_loop now operations hashes ms
      else if \<not> is_ready_at now m then []
      else if \<not> dependencies_satisfied operations hashes m then []
      else m # ready_loop now operations hashes ms)"

definition send_order :: "uuid \<Rightarrow> offline_mutation list \<Rightarrow> offline_mutation list" where
  "send_order lb ms =
     sort_key (\<lambda>m. (om_sequence m, om_created_at m, om_operation_id m)) (filter (\<lambda>m. om_logbook_id m = lb) ms)"

definition ready_mutations :: "offline_mutation list \<Rightarrow> uuid \<Rightarrow> datetime \<Rightarrow> offline_mutation list" where
  "ready_mutations ms lb now =
     ready_loop now (accepted_operations ms) (accepted_hashes ms) (send_order lb ms)"

definition ready_count :: "offline_mutation list \<Rightarrow> datetime \<Rightarrow> nat" where
  "ready_count ms now =
     sum_list (map (\<lambda>lb. length (ready_mutations ms lb now)) (remdups (map om_logbook_id ms)))"

definition load_queue :: "offline_file codec \<Rightarrow> json_disk \<Rightarrow> offline_queue_error + offline_file" where
  "load_queue = load_doc offline_kind"

definition ready_to_send :: "offline_file codec \<Rightarrow> uuid \<Rightarrow> datetime \<Rightarrow> json_disk \<Rightarrow>
    offline_queue_error + offline_mutation list" where
  "ready_to_send c lb now d =
     and_then (load_queue c d) (\<lambda>f. Inr (ready_mutations (oq_mutations f) lb now))"

record push_batch =
  pb_logbook_id :: uuid
  pb_operation_ids :: "uuid list"
  pb_events :: "core_event list"
  pb_missing :: "uuid list"

text \<open>The events by hash, a later event replacing an earlier one with its hash.\<close>

definition events_by_hash :: "core_event list \<Rightarrow> (string, core_event) hmap" where
  "events_by_hash es = fold (\<lambda>e. hm_insert (ev_event_hash e) e) es []"

fun batch_loop :: "(string, core_event) hmap \<Rightarrow> offline_mutation list \<Rightarrow> (uuid \<times> core_event) list \<times> uuid list" where
  "batch_loop events [] = ([], [])"
| "batch_loop events (m # ms) =
     (case Option.bind (om_local_event_hash m) (hm_get events) of
        None \<Rightarrow> ([], [om_operation_id m])
      | Some e \<Rightarrow> (let (sent, missing) = batch_loop events ms in ((om_operation_id m, e) # sent, missing)))"

definition ready_event_batch :: "offline_file codec \<Rightarrow> uuid \<Rightarrow> core_event list \<Rightarrow> datetime \<Rightarrow> json_disk \<Rightarrow>
    offline_queue_error + push_batch" where
  "ready_event_batch c lb es now d =
     and_then (load_queue c d) (\<lambda>f.
       let (sent, missing) = batch_loop (events_by_hash es) (ready_mutations (oq_mutations f) lb now)
       in Inr \<lparr>pb_logbook_id = lb, pb_operation_ids = map fst sent, pb_events = map snd sent,
            pb_missing = missing\<rparr>)"

section \<open>Snapshots\<close>

record queue_health =
  qh_total :: nat
  qh_pending :: nat
  qh_sending :: nat
  qh_retrying :: nat
  qh_blocked :: nat
  qh_failed :: nat
  qh_accepted :: nat
  qh_user_action_required :: nat
  qh_ready_to_send :: nat
  qh_oldest_pending_at :: "datetime option"
  qh_newest_update_at :: "datetime option"

record queue_snapshot =
  qs_queue_schema_version :: "32 word"
  qs_mutation_schema_version :: "32 word"
  qs_health :: queue_health
  qs_mutations :: "offline_mutation list"

fun min_of :: "'a::linorder list \<Rightarrow> 'a option" where
  "min_of [] = None"
| "min_of (x # xs) = Some (fold min xs x)"

definition status_count :: "offline_mutation list \<Rightarrow> offline_status \<Rightarrow> nat" where
  "status_count ms s = length (filter (\<lambda>m. om_status m = s) ms)"

definition snapshot_from_file :: "offline_mutation list \<Rightarrow> datetime \<Rightarrow> queue_snapshot" where
  "snapshot_from_file ms now =
     \<lparr>qs_queue_schema_version = OFFLINE_QUEUE_FILE_VERSION,
      qs_mutation_schema_version = OFFLINE_MUTATION_SCHEMA_VERSION,
      qs_health =
        \<lparr>qh_total = length ms, qh_pending = status_count ms OmPending,
         qh_sending = status_count ms OmSending, qh_retrying = status_count ms OmRetrying,
         qh_blocked = status_count ms OmBlocked, qh_failed = status_count ms OmFailed,
         qh_accepted = status_count ms OmAccepted,
         qh_user_action_required = status_count ms OmUserActionRequired,
         qh_ready_to_send = ready_count ms now,
         qh_oldest_pending_at = min_of (map om_created_at (filter (\<lambda>m. om_is_draining (om_status m)) ms)),
         qh_newest_update_at = max_of (map om_updated_at ms)\<rparr>,
      qs_mutations = ms\<rparr>"

definition load_snapshot :: "offline_file codec \<Rightarrow> datetime \<Rightarrow> json_disk \<Rightarrow> offline_queue_error + queue_snapshot" where
  "load_snapshot c now d = and_then (load_queue c d) (\<lambda>f. Inr (snapshot_from_file (oq_mutations f) now))"

section \<open>The older format\<close>

record legacy_mutation =
  lm_operation_id :: uuid
  lm_correlation_id :: "uuid option"
  lm_client_id :: "uuid option"
  lm_device_id :: uuid
  lm_logbook_id :: uuid
  lm_entity_id :: "uuid option"
  lm_sequence :: "64 word option"
  lm_operation_type :: string
  lm_idempotency_key :: "string option"
  lm_dependencies :: "mutation_dependency list"
  lm_payload :: json
  lm_created_at :: "datetime option"
  lm_official_event_id :: "uuid option"
  lm_local_event_hash :: "string option"

record legacy_file =
  lf_version :: "32 word"
  lf_pending_operations :: "legacy_mutation list"
  lf_mutations :: "legacy_mutation list"

text \<open>\<open>serde_json\<close> for this store: the queue file, any value, and the legacy file of a value.\<close>

record queue_libs =
  ql_codec :: "offline_file codec"
  ql_value :: "string \<Rightarrow> string + json"
  ql_legacy :: "json \<Rightarrow> string + legacy_file"

definition entity_fields :: "string \<Rightarrow> string list" where
  "entity_fields t =
     (if t \<in> {''qso.create'', ''qso.correct'', ''qso.delete'', ''qso.restore'', ''qso.note.add'',
         PROPOSAL_QSO_CORRECT, PROPOSAL_QSO_DELETE, PROPOSAL_QSO_RESTORE, PROPOSAL_QSO_NOTE_ADD,
         OFFICIAL_LOG_QSO_CORRECTED, OFFICIAL_LOG_QSO_DELETED, OFFICIAL_LOG_QSO_RESTORED}
      then [''entity_id'', ''qso_id'']
      else if t \<in> {''activation.start'', ''activation.end''} then [''entity_id'', ''activation_id'']
      else if t \<in> {''net.session.start'', ''net.session.end''} then [''entity_id'', ''net_session_id'']
      else if t \<in> {''net.checkin.create'', ''net.checkin.delete''} then [''entity_id'', ''checkin_id'']
      else if t = ''net.traffic.create'' then [''entity_id'', ''traffic_id'']
      else if t \<in> {''station.profile.create'', ''station.profile.select''}
      then [''entity_id'', ''station_profile_id'']
      else if t = ''station.equipment.create'' then [''entity_id'', ''equipment_id'']
      else if starts_with t ''proposal.activation.'' then [''entity_id'', ''activation_id'']
      else if starts_with t ''proposal.net.session.'' then [''entity_id'', ''net_session_id'']
      else if starts_with t ''proposal.net.checkin.'' then [''entity_id'', ''checkin_id'']
      else if starts_with t ''proposal.net.traffic.'' then [''entity_id'', ''traffic_id'']
      else if starts_with t ''station.profile.'' then [''entity_id'', ''station_profile_id'']
      else if starts_with t ''station.equipment.'' then [''entity_id'', ''equipment_id'']
      else [''entity_id''])"

definition entity_id_from_payload :: "libs \<Rightarrow> string \<Rightarrow> json \<Rightarrow> uuid option" where
  "entity_id_from_payload L t payload =
     first_some (map (\<lambda>field. Option.bind (value_str payload field) (lib_parse_uuid L)) (entity_fields t))"

definition legacy_envelope :: "libs \<Rightarrow> datetime \<Rightarrow> 64 word \<Rightarrow> legacy_mutation \<Rightarrow> offline_mutation" where
  "legacy_envelope L now sequence r =
     (let m = \<lparr>om_schema_version = OFFLINE_MUTATION_SCHEMA_VERSION, om_operation_id = lm_operation_id r,
        om_correlation_id = (case lm_correlation_id r of Some i \<Rightarrow> i | None \<Rightarrow> lm_operation_id r),
        om_client_id = (case lm_client_id r of Some i \<Rightarrow> i | None \<Rightarrow> lm_device_id r),
        om_device_id = lm_device_id r, om_logbook_id = lm_logbook_id r,
        om_entity_id = (case lm_entity_id r of Some i \<Rightarrow> Some i
          | None \<Rightarrow> entity_id_from_payload L (lm_operation_type r) (lm_payload r)),
        om_sequence = sequence, om_operation_type = lm_operation_type r,
        om_idempotency_key = (case lm_idempotency_key r of Some k \<Rightarrow> k
          | None \<Rightarrow> ''legacy-v0.2:'' @ lib_show_uuid L (lm_logbook_id r) @ '':'' @
              lib_show_uuid L (lm_device_id r) @ '':'' @ lib_show_uuid L (lm_operation_id r)),
        om_dependencies = lm_dependencies r, om_payload = lm_payload r, om_status = OmPending,
        om_attempts = 0, om_max_attempts = DEFAULT_MAX_ATTEMPTS,
        om_backoff_seconds = DEFAULT_BACKOFF_SECONDS,
        om_max_backoff_seconds = DEFAULT_MAX_BACKOFF_SECONDS, om_next_attempt_at = None,
        om_created_at = (case lm_created_at r of Some t \<Rightarrow> t | None \<Rightarrow> now), om_updated_at = now,
        om_official_event_id = lm_official_event_id r, om_local_event_hash = lm_local_event_hash r,
        om_accepted_at = None, om_failure_reason = Some ''migrated from v0.2 offline queue state'',
        om_last_error_code = None\<rparr>
      in if om_local_event_hash m \<noteq> None
         then m\<lparr>om_status := OmRetrying, om_next_attempt_at := Some now\<rparr> else m)"

fun migrate_loop :: "libs \<Rightarrow> datetime \<Rightarrow> legacy_mutation list \<Rightarrow> (uuid, 64 word) btmap \<Rightarrow> offline_mutation list \<Rightarrow>
    offline_queue_error + (uuid, 64 word) btmap \<times> offline_mutation list" where
  "migrate_loop L now [] nexts ms = Inr (nexts, ms)"
| "migrate_loop L now (r # rs) nexts ms =
     (let lb = lm_logbook_id r;
          next = (case map_of nexts lb of None \<Rightarrow> 1 | Some n \<Rightarrow> n);
          (sequence, nexts) = (case lm_sequence r of Some s \<Rightarrow> (s, nexts)
            | None \<Rightarrow> (next, bt_insert lb (saturating_succ next) nexts))
      in if sequence = 0 then Inl (OqInvalidSequence (lm_operation_id r) sequence)
         else
           let nexts = bt_insert lb (case map_of nexts lb of None \<Rightarrow> saturating_succ sequence
                 | Some n \<Rightarrow> max n (saturating_succ sequence)) nexts;
               m = legacy_envelope L now sequence r
           in and_then (mutation_validate m) (\<lambda>_. migrate_loop L now rs nexts (ms @ [m])))"

text \<open>\<open>as_u64\<close>, then \<open>as u32\<close>, which wraps.\<close>

definition is_legacy_v0_2_value :: "json \<Rightarrow> bool" where
  "is_legacy_v0_2_value v =
     (map_option ucast (Option.bind (value_get v ''version'') as_u64) = Some OFFLINE_QUEUE_LEGACY_V0_2_FILE_VERSION)"

definition migrate_legacy :: "libs \<Rightarrow> queue_libs \<Rightarrow> string \<Rightarrow> datetime \<Rightarrow>
    offline_queue_error + (offline_file \<times> nat) option" where
  "migrate_legacy L Q bytes now =
     and_then (map_err OqSerde (ql_value Q bytes)) (\<lambda>value.
       if \<not> is_legacy_v0_2_value value then Inr None
       else and_then (map_err OqSerde (ql_legacy Q value)) (\<lambda>legacy.
         if lf_version legacy \<noteq> OFFLINE_QUEUE_LEGACY_V0_2_FILE_VERSION then Inr None
         else
           let records = (if lf_pending_operations legacy = [] then lf_mutations legacy
                 else lf_pending_operations legacy)
           in and_then (migrate_loop L now records [] []) (\<lambda>(nexts, ms).
             let f = offline_file_sorted \<lparr>oq_version = OFFLINE_QUEUE_FILE_VERSION,
                   oq_next_sequence = nexts, oq_mutations = ms\<rparr>
             in and_then (offline_file_validate f) (\<lambda>_. Inr (Some (f, length (oq_mutations f)))))))"

definition is_legacy_bytes :: "queue_libs \<Rightarrow> string \<Rightarrow> bool" where
  "is_legacy_bytes Q bytes = (case ql_value Q bytes of Inl _ \<Rightarrow> False | Inr v \<Rightarrow> is_legacy_v0_2_value v)"

section \<open>Recovery\<close>

record recovery_report =
  rr_recovered_interrupted_writes :: nat
  rr_initialized_empty_queue :: bool
  rr_migrated_v0_2_absent_queue :: bool
  rr_migrated_v0_2_file :: bool
  rr_migrated_legacy_mutations :: nat
  rr_promoted_interrupted_atomic_write :: bool
  rr_removed_stale_temp_file :: bool
  rr_quarantined_corrupt_file :: bool

definition recovery_report_default :: recovery_report where
  "recovery_report_default =
     \<lparr>rr_recovered_interrupted_writes = 0, rr_initialized_empty_queue = False,
      rr_migrated_v0_2_absent_queue = False, rr_migrated_v0_2_file = False,
      rr_migrated_legacy_mutations = 0, rr_promoted_interrupted_atomic_write = False,
      rr_removed_stale_temp_file = False, rr_quarantined_corrupt_file = False\<rparr>"

definition recover_interrupted_atomic_write :: "offline_file codec \<Rightarrow> recovery_report \<Rightarrow> json_disk \<Rightarrow>
    (offline_queue_error + offline_file option) \<times> recovery_report \<times> json_disk" where
  "recover_interrupted_atomic_write c report d =
     (case jd_temp d of
        None \<Rightarrow> (Inr None, report, d)
      | Some bytes \<Rightarrow>
          let stale = (Inr None, report\<lparr>rr_removed_stale_temp_file := True\<rparr>, quarantine_temp d) in
          if jd_file d = None then
            (case cd_parse c bytes of
               Inl _ \<Rightarrow> stale
             | Inr f \<Rightarrow> (case offline_file_validate f of
                   Inl err \<Rightarrow> (Inl err, report, d)
                 | Inr _ \<Rightarrow> (Inr (Some (offline_file_sorted f)),
                     report\<lparr>rr_promoted_interrupted_atomic_write := True\<rparr>,
                     d\<lparr>jd_file := Some bytes, jd_temp := None\<rparr>)))
          else stale)"

text \<open>The end of every branch that has a file: interrupted sends are retried and it is saved.\<close>

definition finish_recovery :: "offline_file codec \<Rightarrow> datetime \<Rightarrow> recovery_report \<Rightarrow> offline_file \<Rightarrow> json_disk \<Rightarrow>
    (offline_queue_error + recovery_report) \<times> json_disk" where
  "finish_recovery c now report f d =
     (let (n, f) = recover_interrupted_writes_in_file now f;
          (r, d) = save_doc offline_kind c (offline_file_sorted f) d
      in (and_then r (\<lambda>_. Inr (report\<lparr>rr_recovered_interrupted_writes := n\<rparr>)), d))"

definition initialize_queue :: "offline_file codec \<Rightarrow> recovery_report \<Rightarrow> json_disk \<Rightarrow>
    (offline_queue_error + recovery_report) \<times> json_disk" where
  "initialize_queue c report d =
     (let (r, d) = save_doc offline_kind c offline_file_default d
      in (and_then r (\<lambda>_. Inr (report\<lparr>rr_initialized_empty_queue := True\<rparr>)), d))"

definition recover_or_initialize :: "libs \<Rightarrow> queue_libs \<Rightarrow> datetime \<Rightarrow> json_disk \<Rightarrow>
    (offline_queue_error + recovery_report) \<times> json_disk" where
  "recover_or_initialize L Q now d =
     (let c = ql_codec Q;
          absent = (\<lambda>report. initialize_queue c (report\<lparr>rr_migrated_v0_2_absent_queue := True\<rparr>));
          corrupt = (\<lambda>report d. initialize_queue c (report\<lparr>rr_quarantined_corrupt_file := True\<rparr>) (quarantine_file d))
      in case recover_interrupted_atomic_write c recovery_report_default d of
        (Inl err, report, d) \<Rightarrow> (Inl err, d)
      | (Inr (Some f), report, d) \<Rightarrow> finish_recovery c now report f d
      | (Inr None, report, d) \<Rightarrow>
          (case jd_file d of
             None \<Rightarrow> absent report d
           | Some bytes \<Rightarrow>
               if list_all ascii_white bytes then absent report d
               else
                 let current = (case cd_parse c bytes of
                       Inr f \<Rightarrow> (case offline_file_validate f of
                           Inl err \<Rightarrow> (Inl err, d)
                         | Inr _ \<Rightarrow> finish_recovery c now report f d)
                     | Inl _ \<Rightarrow> corrupt report d)
                 in (case migrate_legacy L Q bytes now of
                    Inr (Some (f, n)) \<Rightarrow>
                      finish_recovery c now (report\<lparr>rr_migrated_legacy_mutations := n, rr_migrated_v0_2_file := True\<rparr>) f d
                  | Inr None \<Rightarrow> current
                  | Inl _ \<Rightarrow> if is_legacy_bytes Q bytes then corrupt report d else current)))"

end
