(* ===== verification/Offline_Facts.thy ===== *)
theory Offline_Facts
  imports Offline_Queue
begin

text \<open>
  Facts about the offline queue: what a valid file is, sequence numbers, idempotent
  enqueueing, the order of sending, retry delays, and recovery after an interrupted write.
\<close>

section \<open>Valid files\<close>

definition sequence_key :: "offline_mutation \<Rightarrow> uuid \<times> 64 word" where
  "sequence_key m = (om_logbook_id m, om_sequence m)"

lemma validate_mutations_iff:
  "validate_mutations ms seen = Inr () \<longleftrightarrow>
     (\<forall>m\<in>set ms. mutation_validate m = Inr ()) \<and> distinct (map sequence_key ms) \<and> sequence_key ` set ms \<inter> seen = {}"
  by (induction ms arbitrary: seen) (auto simp: sequence_key_def)

lemma offline_file_validate_iff:
  "offline_file_validate f = Inr () \<longleftrightarrow> oq_version f = OFFLINE_QUEUE_FILE_VERSION \<and>
     (\<forall>m\<in>set (oq_mutations f). mutation_validate m = Inr ()) \<and> distinct (map sequence_key (oq_mutations f))"
  by (simp add: offline_file_validate_def validate_mutations_iff)

lemma distinct_map_sort: "distinct (map g (sort_key k xs)) \<longleftrightarrow> distinct (map g xs)"
  by (rule mset_eq_imp_distinct_iff) (simp only: mset_map mset_sort)

interpretation queue_file: document offline_kind
proof
  show "dk_validate offline_kind (dk_sorted offline_kind f) = Inr () \<longleftrightarrow> dk_validate offline_kind f = Inr ()" for f
    by (simp add: offline_kind_def offline_file_validate_iff offline_file_sorted_def distinct_map_sort)
  show "dk_sorted offline_kind (dk_sorted offline_kind f) = dk_sorted offline_kind f" for f
    by (simp add: offline_kind_def offline_file_sorted_def sort_key_id_if_sorted)
qed (simp_all add: offline_kind_def offline_file_validate_iff offline_file_default_def offline_file_sorted_def)

lemma load_queue_valid:
  assumes "load_queue c d = Inr f"
  shows "offline_file_validate f = Inr ()" "offline_file_sorted f = f"
  using queue_file.holds_valid [of c f d] assms
  by (simp_all add: load_queue_def doc_holds_def offline_kind_def)

section \<open>Sequence numbers\<close>

lemma max_of_ge: "x \<in> set xs \<Longrightarrow> \<exists>m. max_of xs = Some m \<and> x \<le> m"
  by (cases xs) (use fold_max_ge in fastforce)+

lemma next_sequence_ge:
  assumes "m \<in> set (oq_mutations f)" and "om_logbook_id m = lb"
  shows "saturating_succ (om_sequence m) \<le> next_sequence f lb"
proof -
  let ?ds = "map (\<lambda>m. saturating_succ (om_sequence m)) (filter (\<lambda>m. om_logbook_id m = lb) (oq_mutations f))"
  have "saturating_succ (om_sequence m) \<in> set ?ds" using assms by auto
  from max_of_ge [OF this] obtain x where x: "max_of ?ds = Some x" "saturating_succ (om_sequence m) \<le> x" by blast
  have "x \<in> set (option_list (map_of (oq_next_sequence f) lb) @ option_list (max_of ?ds))" using x by simp
  from max_of_ge [OF this] obtain n where "max_of (option_list (map_of (oq_next_sequence f) lb) @ option_list (max_of ?ds)) = Some n" "x \<le> n"
    by blast
  with x(2) show ?thesis by (simp add: next_sequence_def)
qed

text \<open>A new sequence number is above all of its logbook until the numbers are used up.\<close>

lemma next_sequence_new:
  assumes "m \<in> set (oq_mutations f)" and "om_logbook_id m = lb" and "om_sequence m \<noteq> - 1"
  shows "om_sequence m < next_sequence f lb"
  using saturating_succ_greater [OF assms(3)] next_sequence_ge [OF assms(1,2)] by simp

section \<open>Enqueueing\<close>

lemma find_SomeD: "List.find p xs = Some x \<Longrightarrow> x \<in> set xs \<and> p x"
  by (auto simp: find_Some_iff)

lemma find_unique:
  assumes "x \<in> set xs" and "p x" and "\<And>y. y \<in> set xs \<Longrightarrow> p y \<Longrightarrow> y = x"
  shows "List.find p xs = Some x"
proof (cases "List.find p xs")
  case None
  with assms(1,2) show ?thesis by (auto simp: find_None_iff)
next
  case (Some y)
  with assms(3) find_SomeD [OF Some] show ?thesis by simp
qed

lemma set_sorted_mutations: "set (oq_mutations (offline_file_sorted f)) = set (oq_mutations f)"
  by (simp add: offline_file_sorted_def)

lemma mutation_new_fields:
  "om_logbook_id (mutation_new L input s now fresh) = oi_logbook_id input"
  "om_sequence (mutation_new L input s now fresh) = s"
  "om_status (mutation_new L input s now fresh) = OmPending"
  "oi_operation_id input = Some i \<Longrightarrow> om_operation_id (mutation_new L input s now fresh) = i"
  "oi_idempotency_key input = Some k \<Longrightarrow> om_idempotency_key (mutation_new L input s now fresh) = k"
  by (simp_all add: mutation_new_def Let_def)

text \<open>An accepted input is either known, or new with the next sequence number.\<close>

lemma enqueue_input_cases:
  assumes "enqueue_input_change L input now fresh f = Inr (m, f')"
  obtains (known) "f' = None" "m \<in> set (oq_mutations f)" "om_logbook_id m = oi_logbook_id input"
      "oi_operation_id input = Some (om_operation_id m) \<or> oi_idempotency_key input = Some (om_idempotency_key m)"
  | (new) "m = mutation_new L input (next_sequence f (oi_logbook_id input)) now fresh"
      "f' = Some (with_new m (saturating_succ (om_sequence m)) f)"
      "\<forall>x\<in>set (oq_mutations f). om_logbook_id x = oi_logbook_id input \<longrightarrow>
        oi_operation_id input \<noteq> Some (om_operation_id x) \<and> oi_idempotency_key input \<noteq> Some (om_idempotency_key x)"
  using assms
  by (auto simp: enqueue_input_change_def Let_def find_None_iff split: option.splits dest!: find_SomeD)

lemma enqueue_input_again:
  assumes "enqueue_input_change L input now fresh f = Inr (m, f')"
    and "oi_operation_id input \<noteq> None \<or> oi_idempotency_key input \<noteq> None"
    and "g = (case f' of None \<Rightarrow> f | Some f' \<Rightarrow> offline_file_sorted f')"
  shows "enqueue_input_change L input now' fresh' g = Inr (m, None)"
  using assms(1)
proof (cases rule: enqueue_input_cases)
  case known
  with assms(1,3) show ?thesis
    by (auto simp: enqueue_input_change_def Let_def split: option.splits)
next
  case new
  have s: "set (oq_mutations g) = insert m (set (oq_mutations f))"
    by (simp add: assms(3) new(2) set_sorted_mutations with_new_def)
  have lb: "om_logbook_id m = oi_logbook_id input" by (simp add: new(1) mutation_new_fields)
  show ?thesis
  proof (cases "oi_operation_id input")
    case (Some i)
    then have "om_operation_id m = i" by (simp add: new(1) mutation_new_fields)
    with Some lb s new(3) have "List.find (\<lambda>m. om_logbook_id m = oi_logbook_id input \<and>
         oi_operation_id input = Some (om_operation_id m)) (oq_mutations g) = Some m"
      by (intro find_unique) auto
    then show ?thesis by (simp add: enqueue_input_change_def)
  next
    case None
    with assms(2) obtain k where k: "oi_idempotency_key input = Some k" by auto
    then have "om_idempotency_key m = k" by (simp add: new(1) mutation_new_fields)
    with k lb s new(3) have "List.find (\<lambda>m. om_logbook_id m = oi_logbook_id input \<and>
         oi_idempotency_key input = Some (om_idempotency_key m)) (oq_mutations g) = Some m"
      by (intro find_unique) auto
    moreover have "List.find (\<lambda>m. om_logbook_id m = oi_logbook_id input \<and>
         oi_operation_id input = Some (om_operation_id m)) (oq_mutations g) = None"
      by (simp add: None find_None_iff)
    ultimately show ?thesis by (simp add: enqueue_input_change_def)
  qed
qed

lemma enqueue_input_idempotent:
  assumes "load_queue c d = Inr f" and "enqueue_input L c input now fresh d = (Inr m, d')"
    and "\<And>f'. enqueue_input_change L input now fresh f = Inr (m, Some f') \<Longrightarrow> codec_reads c (offline_file_sorted f')"
    and "oi_operation_id input \<noteq> None \<or> oi_idempotency_key input \<noteq> None"
  shows "enqueue_input L c input now' fresh' d' = (Inr m, d')"
proof -
  have h: "doc_holds offline_kind c f d" using assms(1) by (simp add: doc_holds_def load_queue_def)
  have r: "codec_reads c (dk_sorted offline_kind f')" if "enqueue_input_change L input now fresh f = Inr (a, Some f')" for a f'
  proof -
    have "a = m" using that assms(2) h
      by (auto simp: enqueue_input_def doc_op_def doc_holds_def split: sum.splits prod.splits)
    with assms(3) that show ?thesis by (simp add: offline_kind_def)
  qed
  obtain f' where
    f': "enqueue_input_change L input now fresh f = Inr (m, f')"
    "case f' of None \<Rightarrow> d' = d | Some f' \<Rightarrow> dk_validate offline_kind f' = Inr () \<and>
      doc_holds offline_kind c (dk_sorted offline_kind f') d'"
    using queue_file.op_success [OF h assms(2) [unfolded enqueue_input_def]] r by blast
  define g where "g = (case f' of None \<Rightarrow> f | Some f' \<Rightarrow> offline_file_sorted f')"
  have "doc_holds offline_kind c g d'" using f'(2) h by (auto simp: g_def offline_kind_def split: option.splits)
  moreover from enqueue_input_again [OF f'(1) assms(4) g_def] have "enqueue_input_change L input now' fresh' g = Inr (m, None)" .
  ultimately show ?thesis by (simp add: enqueue_input_def doc_op_def doc_holds_def)
qed

section \<open>The order of sending\<close>

lemma send_order_set: "set (send_order lb ms) = {m \<in> set ms. om_logbook_id m = lb}"
  by (auto simp: send_order_def)

lemma send_order_strict:
  assumes "distinct (map sequence_key ms)"
  shows "sorted_wrt (\<lambda>a b. om_sequence a < om_sequence b) (send_order lb ms)"
proof -
  have s: "sorted (map (\<lambda>m. (om_sequence m, om_created_at m, om_operation_id m)) (send_order lb ms))"
    by (simp add: send_order_def)
  have "distinct (map sequence_key (filter (\<lambda>m. om_logbook_id m = lb) ms))"
    using assms by (rule distinct_map_filter)
  then have "distinct (map sequence_key (send_order lb ms))" by (simp add: send_order_def distinct_map_sort)
  moreover have "map sequence_key (send_order lb ms) = map (Pair lb) (map om_sequence (send_order lb ms))"
    using send_order_set [of lb ms] by (auto simp: sequence_key_def)
  ultimately have d: "distinct (map om_sequence (send_order lb ms))" by (metis distinct_map)
  have "sorted_wrt (\<lambda>a b. om_sequence a \<le> om_sequence b) (send_order lb ms)"
    using s unfolding sorted_map by (rule sorted_wrt_mono_rel [rotated]) (auto simp: less_eq_prod_def)
  then have "sorted (map om_sequence (send_order lb ms))" by (simp add: sorted_map)
  with d have "sorted_wrt (<) (map om_sequence (send_order lb ms))" by (simp add: strict_sorted_iff)
  then show ?thesis by (simp add: sorted_wrt_map)
qed

lemma subseq_set: "subseq xs ys \<Longrightarrow> set xs \<subseteq> set ys"
  by (induction rule: list_emb.induct) auto

lemma subseq_sorted_wrt: "subseq xs ys \<Longrightarrow> sorted_wrt r ys \<Longrightarrow> sorted_wrt r xs"
  by (induction rule: list_emb.induct) (auto dest: subseq_set)

lemma ready_loop_spec:
  assumes "sorted_wrt (\<lambda>a b. om_sequence a < om_sequence b) ms"
  shows "subseq (ready_loop now ops hs ms) ms \<and>
    (\<forall>m\<in>set (ready_loop now ops hs ms). is_ready_at now m \<and> dependencies_satisfied ops hs m \<and>
      (\<forall>x\<in>set ms. om_sequence x < om_sequence m \<longrightarrow> om_status x = OmAccepted \<or> x \<in> set (ready_loop now ops hs ms)))"
  using assms
proof (induction ms)
  case (Cons m ms)
  then have above: "\<forall>x\<in>set ms. om_sequence m < om_sequence x" by simp
  from Cons have IH: "subseq (ready_loop now ops hs ms) ms"
    "\<forall>m\<in>set (ready_loop now ops hs ms). is_ready_at now m \<and> dependencies_satisfied ops hs m \<and>
      (\<forall>x\<in>set ms. om_sequence x < om_sequence m \<longrightarrow> om_status x = OmAccepted \<or> x \<in> set (ready_loop now ops hs ms))"
    by simp_all
  have sub: "set (ready_loop now ops hs ms) \<subseteq> set ms" by (rule subseq_set [OF IH(1)])
  with IH above show ?case by (auto simp: order.asym)
qed simp

lemma ready_mutations_spec:
  assumes "distinct (map sequence_key ms)"
  shows "sorted_wrt (\<lambda>a b. om_sequence a < om_sequence b) (ready_mutations ms lb now)"
    and "\<And>m. m \<in> set (ready_mutations ms lb now) \<Longrightarrow> m \<in> set ms \<and> om_logbook_id m = lb \<and> is_ready_at now m \<and>
      dependencies_satisfied (accepted_operations ms) (accepted_hashes ms) m \<and>
      (\<forall>x\<in>set ms. om_logbook_id x = lb \<longrightarrow> om_sequence x < om_sequence m \<longrightarrow>
        om_status x = OmAccepted \<or> x \<in> set (ready_mutations ms lb now))"
proof -
  note order = send_order_strict [OF assms, of lb]
  note spec = ready_loop_spec [OF order, of now "accepted_operations ms" "accepted_hashes ms", folded ready_mutations_def]
  note sub = spec [THEN conjunct1]
  show "sorted_wrt (\<lambda>a b. om_sequence a < om_sequence b) (ready_mutations ms lb now)"
    by (rule subseq_sorted_wrt [OF sub order])
  fix m assume m: "m \<in> set (ready_mutations ms lb now)"
  have "m \<in> set (send_order lb ms)" using m subseq_set [OF sub] by blast
  then have "m \<in> set ms \<and> om_logbook_id m = lb" by (simp add: send_order_set)
  with bspec [OF spec [THEN conjunct2] m]
  show "m \<in> set ms \<and> om_logbook_id m = lb \<and> is_ready_at now m \<and>
      dependencies_satisfied (accepted_operations ms) (accepted_hashes ms) m \<and>
      (\<forall>x\<in>set ms. om_logbook_id x = lb \<longrightarrow> om_sequence x < om_sequence m \<longrightarrow>
        om_status x = OmAccepted \<or> x \<in> set (ready_mutations ms lb now))"
    by (simp add: send_order_set)
qed

text \<open>The batch: the events of a prefix of what is ready, and the operation at which it stopped.\<close>

lemma hm_get_events_by_hash:
  assumes "hm_get (events_by_hash es) h = Some e"
  shows "e \<in> set es \<and> ev_event_hash e = h"
  using assms unfolding events_by_hash_def
  by (induction es rule: rev_induct) (auto simp: hm_get_insert split: if_splits)

lemma batch_loop_spec:
  assumes "batch_loop (events_by_hash es) ms = (sent, missing)"
  shows "\<exists>done rest. ms = done @ rest \<and> map fst sent = map om_operation_id done \<and>
    list_all2 (\<lambda>m e. e \<in> set es \<and> om_local_event_hash m = Some (ev_event_hash e)) done (map snd sent) \<and>
    missing = (case rest of [] \<Rightarrow> [] | m # _ \<Rightarrow> [om_operation_id m])"
  using assms
proof (induction ms arbitrary: sent)
  case (Cons m ms)
  show ?case
  proof (cases "Option.bind (om_local_event_hash m) (hm_get (events_by_hash es))")
    case None
    with Cons.prems show ?thesis by (intro exI [of _ "[]"] exI [of _ "m # ms"]) simp
  next
    case (Some e)
    then obtain h where h: "om_local_event_hash m = Some h" "hm_get (events_by_hash es) h = Some e"
      by (cases "om_local_event_hash m") auto
    from Cons.prems Some obtain sent' where l: "batch_loop (events_by_hash es) ms = (sent', missing)"
      "sent = (om_operation_id m, e) # sent'" by (auto split: prod.splits)
    from Cons.IH [OF l(1)] obtain d r where "ms = d @ r" "map fst sent' = map om_operation_id d"
      "list_all2 (\<lambda>m e. e \<in> set es \<and> om_local_event_hash m = Some (ev_event_hash e)) d (map snd sent')"
      "missing = (case r of [] \<Rightarrow> [] | m # _ \<Rightarrow> [om_operation_id m])" by blast
    with l(2) h hm_get_events_by_hash [OF h(2)] show ?thesis
      by (intro exI [of _ "m # d"] exI [of _ r]) simp
  qed
qed simp

section \<open>Retries\<close>

text \<open>The documented range of \<open>chrono\<close>, as far as it is used: durations of up to a billion seconds,
  and sums of them with instants within 30 million years of the epoch.\<close>

definition chrono_ok :: "chrono \<Rightarrow> bool" where
  "chrono_ok C = ((\<forall>n. 0 \<le> n \<and> n \<le> 1000000000 \<longrightarrow> ch_seconds C n = Some (n * 1000000000)) \<and>
     (\<forall>t d. \<bar>t\<bar> \<le> 10 ^ 24 \<and> 0 \<le> d \<and> d \<le> 10 ^ 18 \<longrightarrow> ch_add C t d = Some (t + d)))"

lemma retry_seconds_bounds: "1 \<le> retry_seconds m \<and> retry_seconds m \<le> max 1 (unat (om_max_backoff_seconds m))"
  by (auto simp: retry_seconds_def Let_def)

lemma retry_seconds_grow:
  assumes "om_attempts m \<le> om_attempts m'" and "om_backoff_seconds m' = om_backoff_seconds m"
    and "om_max_backoff_seconds m' = om_max_backoff_seconds m"
  shows "retry_seconds m \<le> retry_seconds m'"
proof -
  have "unat (om_attempts m) \<le> unat (om_attempts m')" using assms(1) by (simp add: word_le_nat_alt)
  then have "min (unat (om_attempts m) - 1) 16 \<le> min (unat (om_attempts m') - 1) 16" by simp
  then have "(2::nat) ^ min (unat (om_attempts m) - 1) 16 \<le> 2 ^ min (unat (om_attempts m') - 1) 16"
    by (rule power_increasing) simp
  then have "unat (om_backoff_seconds m) * 2 ^ min (unat (om_attempts m) - 1) 16 \<le>
      unat (om_backoff_seconds m) * 2 ^ min (unat (om_attempts m') - 1) 16" by (rule mult_le_mono2)
  then show ?thesis unfolding retry_seconds_def Let_def assms(2,3) by (intro max.mono min.mono) simp_all
qed

lemma small_seconds:
  assumes "n \<le> 1000000000"
  shows "sint (of_nat n :: 64 word) = int n"
proof -
  have "signed_take_bit 63 (int n) = int n"
    by (rule signed_take_bit_int_eq_self) (use assms in simp_all)
  then show ?thesis by (simp add: signed_of_nat)
qed

lemma retry_at:
  assumes "chrono_ok C" and "unat (om_max_backoff_seconds m) \<le> 1000000000" and "\<bar>now\<bar> \<le> 10 ^ 24"
  shows "add_delay C now (retry_delay C m) = Inr (now + int (retry_seconds m) * 1000000000)"
proof -
  have "retry_seconds m \<le> 1000000000" using retry_seconds_bounds [of m] assms(2) by (auto simp: max_def split: if_splits)
  with assms(1,3) show ?thesis
    by (simp add: retry_delay_def small_seconds add_delay_def chrono_ok_def)
qed

text \<open>Sending and failing at each of the given instants.\<close>

fun failing :: "chrono \<Rightarrow> string \<Rightarrow> datetime list \<Rightarrow> offline_mutation \<Rightarrow> offline_queue_error fault + offline_mutation" where
  "failing C reason [] m = Inr m"
| "failing C reason (t # ts) m =
     and_then (transient_failure C reason None t (mark_sending_update m)) (failing C reason ts)"

lemma failing_append: "failing C reason (ts @ us) m = and_then (failing C reason ts m) (failing C reason us)"
proof (induction ts arbitrary: m)
  case (Cons t ts)
  then show ?case by (cases "transient_failure C reason None t (mark_sending_update m)") simp_all
qed simp

lemma transient_failure_step:
  assumes "chrono_ok C" and "unat (om_max_backoff_seconds m) \<le> 1000000000" and "\<bar>t\<bar> \<le> 10 ^ 24"
    and "om_attempts m < om_max_attempts m"
  shows "\<exists>m'. transient_failure C reason None t (mark_sending_update m) = Inr m' \<and>
    om_attempts m' = om_attempts m + 1 \<and> om_max_attempts m' = om_max_attempts m \<and>
    om_max_backoff_seconds m' = om_max_backoff_seconds m \<and>
    om_status m' = (if om_attempts m' = om_max_attempts m' then OmFailed else OmRetrying) \<and>
    (om_attempts m' \<noteq> om_max_attempts m' \<longrightarrow>
      om_next_attempt_at m' = Some (t + int (retry_seconds m') * 1000000000))"
proof -
  have "om_attempts m \<noteq> - 1" using assms(4) word_order.extremum_strict by auto
  then have a: "om_attempts (mark_sending_update m) = om_attempts m + 1"
    by (simp add: mark_sending_update_def saturating_succ_def)
  have le: "om_attempts m + 1 \<le> om_max_attempts m" using assms(4) by (rule inc_le)
  show ?thesis
  proof (cases "om_attempts m + 1 = om_max_attempts m")
    case True
    with a show ?thesis by (auto simp: transient_failure_def mark_sending_update_def)
  next
    case False
    with le have "\<not> om_max_attempts m \<le> om_attempts m + 1" by simp
    moreover have "retry_seconds (m'\<lparr>om_failure_reason := r, om_last_error_code := c, om_updated_at := u\<rparr>) = retry_seconds m'"
      "retry_seconds (m'\<lparr>om_status := x, om_next_attempt_at := n\<rparr>) = retry_seconds m'" for m' r c u x n
      by (simp_all add: retry_seconds_def)
    moreover have "om_max_attempts (mark_sending_update m) = om_max_attempts m"
      "om_max_backoff_seconds (mark_sending_update m) = om_max_backoff_seconds m"
      by (simp_all add: mark_sending_update_def)
    ultimately show ?thesis using False a assms(2)
      by (simp add: transient_failure_def retry_at [OF assms(1) _ assms(3)])
  qed
qed

lemma failing_run:
  assumes "chrono_ok C" and "unat (om_max_backoff_seconds m) \<le> 1000000000" and "\<forall>t\<in>set ts. \<bar>t\<bar> \<le> 10 ^ 24"
    and "om_attempts m = 0" and "length ts \<le> unat (om_max_attempts m)"
  shows "\<exists>m'. failing C reason ts m = Inr m' \<and> unat (om_attempts m') = length ts \<and>
    om_max_attempts m' = om_max_attempts m \<and> om_max_backoff_seconds m' = om_max_backoff_seconds m \<and>
    (ts \<noteq> [] \<longrightarrow> om_status m' = (if length ts = unat (om_max_attempts m) then OmFailed else OmRetrying) \<and>
      (length ts \<noteq> unat (om_max_attempts m) \<longrightarrow>
        om_next_attempt_at m' = Some (last ts + int (retry_seconds m') * 1000000000)))"
  using assms(3,5)
proof (induction ts rule: rev_induct)
  case Nil
  with assms(4) show ?case by simp
next
  case (snoc t ts)
  then obtain m1 where m1: "failing C reason ts m = Inr m1" "unat (om_attempts m1) = length ts"
    "om_max_attempts m1 = om_max_attempts m" "om_max_backoff_seconds m1 = om_max_backoff_seconds m" by auto
  have "om_attempts m1 < om_max_attempts m1" using snoc.prems(2) m1 by (simp add: word_less_nat_alt)
  moreover have "unat (om_max_backoff_seconds m1) \<le> 1000000000" "\<bar>t\<bar> \<le> 10 ^ 24" using assms(2) m1 snoc.prems by simp_all
  ultimately obtain m2 where m2: "transient_failure C reason None t (mark_sending_update m1) = Inr m2"
    "om_attempts m2 = om_attempts m1 + 1" "om_max_attempts m2 = om_max_attempts m1"
    "om_max_backoff_seconds m2 = om_max_backoff_seconds m1"
    "om_status m2 = (if om_attempts m2 = om_max_attempts m2 then OmFailed else OmRetrying)"
    "om_attempts m2 \<noteq> om_max_attempts m2 \<longrightarrow> om_next_attempt_at m2 = Some (t + int (retry_seconds m2) * 1000000000)"
    using transient_failure_step [OF assms(1)] by metis
  have "unat (om_attempts m2) = Suc (length ts)"
  proof -
    have "om_attempts m1 \<noteq> - 1" using \<open>om_attempts m1 < om_max_attempts m1\<close> word_order.extremum_strict by auto
    then have "1 + om_attempts m1 \<noteq> 0" by (metis add.commute add_eq_0_iff)
    from unatSuc [OF this] show ?thesis by (simp add: m2(2) m1(2) add.commute)
  qed
  moreover from this have "om_attempts m2 = om_max_attempts m2 \<longleftrightarrow> Suc (length ts) = unat (om_max_attempts m)"
    using m2(3) m1(3) by (metis word_unat_eq_iff)
  ultimately show ?case using m1 m2 by (simp add: failing_append)
qed

section \<open>Recovery\<close>

definition recovered_file :: "datetime \<Rightarrow> offline_file \<Rightarrow> offline_file" where
  "recovered_file now f = snd (recover_interrupted_writes_in_file now f)"

lemma recovered_file_ok:
  assumes "offline_file_validate f = Inr ()" and "offline_file_sorted f = f"
  shows "offline_file_validate (recovered_file now f) = Inr ()" "offline_file_sorted (recovered_file now f) = recovered_file now f"
proof -
  have k: "mutation_key (recovered_mutation now m) = mutation_key m" "sequence_key (recovered_mutation now m) = sequence_key m"
    "mutation_validate (recovered_mutation now m) = mutation_validate m" for m
    by (simp_all add: recovered_mutation_def mutation_key_def sequence_key_def mutation_validate_def split: option.split)
  with assms(1) show "offline_file_validate (recovered_file now f) = Inr ()"
    unfolding offline_file_validate_iff recovered_file_def recover_interrupted_writes_in_file_def by (simp add: k(2,3) comp_def)
  have "sort_key mutation_key (oq_mutations f) = oq_mutations f"
    using assms(2) by (metis offline_file.ext_inject offline_file.surjective offline_file.update_convs(3) offline_file_sorted_def)
  then have "sorted (map mutation_key (oq_mutations f))" by (metis sorted_sort_key)
  then have "sorted (map mutation_key (map (recovered_mutation now) (oq_mutations f)))" by (simp add: comp_def k(1))
  then show "offline_file_sorted (recovered_file now f) = recovered_file now f"
    by (simp add: offline_file_sorted_def recovered_file_def recover_interrupted_writes_in_file_def sort_key_id_if_sorted)
qed

lemma finish_recovery_ok:
  assumes "offline_file_validate f = Inr ()" and "offline_file_sorted f = f"
    and "codec_reads c (recovered_file now f)" and "io_works d"
  shows "\<exists>report' d'. finish_recovery c now report f d = (Inr report', d') \<and>
    load_queue c d' = Inr (recovered_file now f) \<and> jd_temp d' = None"
proof -
  note ok = recovered_file_ok [OF assms(1,2), of now]
  obtain r d' where s: "save_doc offline_kind c (recovered_file now f) d = (r, d')" by fastforce
  have "dk_validate offline_kind (recovered_file now f) = Inr ()" using ok by (simp add: offline_kind_def)
  then have r: "r = Inr ()" using s assms(4)
    by (cases "jd_io d") (auto simp: save_doc_def write_json_atomically_def io_works_def Let_def)
  with s ok have "finish_recovery c now report f d = (Inr (report\<lparr>rr_recovered_interrupted_writes :=
      fst (recover_interrupted_writes_in_file now f)\<rparr>), d')"
    by (cases "recover_interrupted_writes_in_file now f") (simp add: finish_recovery_def recovered_file_def)
  moreover from queue_file.save_holds [OF assms(3) s [unfolded r]] ok have
    "load_queue c d' = Inr (recovered_file now f)" "jd_temp d' = None"
    by (simp_all add: doc_holds_def load_queue_def offline_kind_def)
  ultimately show ?thesis by blast
qed

text \<open>The disk after a successful save of \<open>f\<close>, or before the first one.\<close>

definition settled :: "offline_file codec \<Rightarrow> offline_file \<Rightarrow> json_disk \<Rightarrow> bool" where
  "settled c f d = (jd_temp d = None \<and> io_works d \<and>
     (jd_file d = Some (cd_print c f @ newline) \<or> jd_file d = None \<and> f = offline_file_default))"

text \<open>A file of the current version is not one of the old format.\<close>

definition current_format :: "queue_libs \<Rightarrow> offline_file \<Rightarrow> bool" where
  "current_format Q f = (\<exists>v. ql_value Q (cd_print (ql_codec Q) f @ newline) = Inr v \<and> \<not> is_legacy_v0_2_value v)"

lemma stopped_io [simp]: "jd_io (stopped b stop d) = jd_io d"
  by (cases stop) simp_all

lemma quarantine_temp_simps [simp]:
  "jd_file (quarantine_temp d) = jd_file d" "jd_io (quarantine_temp d) = jd_io d" "jd_temp (quarantine_temp d) = None"
  by (simp_all add: quarantine_temp_def split: option.split)

lemma recovered_default: "recovered_file now offline_file_default = offline_file_default"
  by (simp add: recovered_file_def recover_interrupted_writes_in_file_def offline_file_default_def)

lemma initialize_ok:
  assumes "codec_reads c offline_file_default" and "io_works d"
  shows "\<exists>report' d'. initialize_queue c report d = (Inr report', d') \<and>
    load_queue c d' = Inr offline_file_default \<and> jd_temp d' = None"
proof -
  note default = queue_file.default_valid queue_file.default_sorted
  obtain r d' where s: "save_doc offline_kind c offline_file_default d = (r, d')" by fastforce
  have r: "r = Inr ()" using s assms(2) default(1)
    by (cases "jd_io d") (auto simp: save_doc_def write_json_atomically_def io_works_def Let_def offline_kind_def)
  from queue_file.save_holds [OF assms(1) s [unfolded r]] default(2) have
    "load_queue c d' = Inr offline_file_default" "jd_temp d' = None"
    by (simp_all add: doc_holds_def load_queue_def offline_kind_def)
  with s r show ?thesis by (simp add: initialize_queue_def)
qed

text \<open>What recovery does with a file of the current version, and without one.\<close>

lemma recover_current:
  assumes "recover_interrupted_atomic_write (ql_codec Q) recovery_report_default d = (Inr None, report, d1)"
    and "jd_file d1 = Some (cd_print (ql_codec Q) f @ newline)" and "codec_reads (ql_codec Q) f"
    and "offline_file_validate f = Inr ()" and "current_format Q f"
  shows "recover_or_initialize L Q now d = finish_recovery (ql_codec Q) now report f d1"
proof -
  have "migrate_legacy L Q (cd_print (ql_codec Q) f @ newline) now = Inr None"
    using assms(5) by (auto simp: current_format_def migrate_legacy_def)
  with assms show ?thesis by (simp add: recover_or_initialize_def Let_def codec_reads_def)
qed

lemma recover_absent:
  assumes "recover_interrupted_atomic_write (ql_codec Q) recovery_report_default d = (Inr None, report, d1)"
    and "jd_file d1 = None"
  shows "\<exists>report'. recover_or_initialize L Q now d = initialize_queue (ql_codec Q) report' d1"
  using assms by (simp add: recover_or_initialize_def Let_def) blast

lemma recover_promoted:
  assumes "jd_file d = None" and "jd_temp d = Some bytes" and "cd_parse (ql_codec Q) bytes = Inr f"
    and "offline_file_validate f = Inr ()" and "offline_file_sorted f = f"
  shows "\<exists>report'. recover_or_initialize L Q now d =
    finish_recovery (ql_codec Q) now report' f (d\<lparr>jd_file := Some bytes, jd_temp := None\<rparr>)"
  using assms by (simp add: recover_or_initialize_def recover_interrupted_atomic_write_def Let_def) blast

lemma recover_interrupted:
  assumes c: "c = ql_codec Q" and "settled c f d" and d': "d' = stopped (cd_print c g @ newline) stop d"
    and ok: "\<forall>x\<in>{f, g}. offline_file_validate x = Inr () \<and> offline_file_sorted x = x \<and> codec_reads c x \<and>
      codec_reads c (recovered_file now x) \<and> current_format Q x"
  shows "\<exists>report d''. recover_or_initialize L Q now d' = (Inr report, d'') \<and> jd_temp d'' = None \<and>
    load_queue c d'' \<in> {Inr (recovered_file now f), Inr (recovered_file now g)}"
proof -
  have io: "io_works d'" using assms(2) by (simp add: d' settled_def io_works_def)
  have finish: ?thesis if "recover_or_initialize L Q now d' = finish_recovery c now report x d1"
      "x \<in> {f, g}" "io_works d1" for report x d1
    using finish_recovery_ok [of x c now d1 report] ok that by auto
  have promoted: ?thesis if "jd_file d' = None" "jd_temp d' = Some bytes" "cd_parse c bytes = Inr g" for bytes
    using recover_promoted [of d' bytes Q g L now] that ok io finish [of _ g "d'\<lparr>jd_file := Some bytes, jd_temp := None\<rparr>"]
    by (auto simp: c io_works_def)
  have kept: ?thesis if r: "recover_interrupted_atomic_write c recovery_report_default d' = (Inr None, report, d1)"
    and d1: "jd_file d1 = jd_file d" "io_works d1" for report d1
  proof (cases "jd_file d")
    case None
    with assms(2) have f: "f = offline_file_default" by (simp add: settled_def)
    from recover_absent [of Q d' report d1 L now] r d1 None obtain report' where
      "recover_or_initialize L Q now d' = initialize_queue c report' d1" by (auto simp: c)
    moreover have "codec_reads c offline_file_default" using ok f by simp
    from initialize_ok [OF this d1(2), of report'] obtain report2 d2 where
      "initialize_queue c report' d1 = (Inr report2, d2)" "load_queue c d2 = Inr offline_file_default" "jd_temp d2 = None"
      by blast
    ultimately show ?thesis by (simp add: f recovered_default)
  next
    case (Some bytes)
    with assms(2) have "jd_file d1 = Some (cd_print c f @ newline)" using d1 by (simp add: settled_def)
    with recover_current [of Q d' report d1 f L now] r ok have
      "recover_or_initialize L Q now d' = finish_recovery c now report f d1" by (simp add: c)
    then show ?thesis by (rule finish) (use d1 in simp_all)
  qed
  have stale: ?thesis if "jd_file d' = jd_file d" "jd_temp d' = Some bytes"
      "jd_file d' \<noteq> None \<or> (\<exists>m. cd_parse c bytes = Inl m)" for bytes
    by (rule kept [of _ "quarantine_temp d'"])
      (use that io in \<open>auto simp: recover_interrupted_atomic_write_def Let_def io_works_def split: sum.split\<close>)
  show ?thesis
  proof (cases stop)
    case StopBefore
    with assms(2) io show ?thesis
      by (intro kept [of recovery_report_default d']) (simp_all add: d' settled_def recover_interrupted_atomic_write_def)
  next
    case StopRemoved
    with ok show ?thesis by (intro promoted [of "cd_print c g @ newline"]) (simp_all add: d' codec_reads_def)
  next
    case (StopTemp n)
    let ?b = "take n (cd_print c g @ newline)"
    have disk: "jd_file d' = jd_file d" "jd_temp d' = Some ?b" by (simp_all add: d' StopTemp)
    show ?thesis
    proof (cases "n < length (cd_print c g)")
      case True
      then have "\<exists>m. cd_parse c ?b = Inl m" using ok by (simp add: codec_reads_def)
      then show ?thesis using disk by (intro stale [of ?b]) simp_all
    next
      case False
      then have "?b = cd_print c g \<or> ?b = cd_print c g @ newline"
        by (cases "n - length (cd_print c g)") (simp_all add: newline_def)
      then have p: "cd_parse c ?b = Inr g" using ok by (auto simp: codec_reads_def)
      show ?thesis
      proof (cases "jd_file d")
        case None
        with disk p show ?thesis by (intro promoted [of ?b]) simp_all
      next
        case (Some x)
        with disk show ?thesis by (intro stale [of ?b]) simp_all
      qed
    qed
  qed
qed

end
