(* ===== verification/Doc_Samples.thy ===== *)
theory Doc_Samples
  imports Json_File "HOL-Library.Countable"
begin

text \<open>
  A codec for a given list of documents, for the concrete runs of the witnesses, and the steps
  of an operation on a disk without failures.
\<close>

definition sample_codec :: "'f list \<Rightarrow> 'f codec" where
  "sample_codec fs =
     \<lparr>cd_print = (\<lambda>f. replicate (length (takeWhile (\<lambda>g. g \<noteq> f) fs)) CHR ''x'' @ ''.''),
      cd_parse = (\<lambda>s. let n = length (takeWhile (\<lambda>c. c = CHR ''x'') s); rest = drop n s
        in if n < length fs \<and> (rest = ''.'' \<or> rest = ''.'' @ newline) then Inr (fs ! n) else Inl ''not a document'')\<rparr>"

lemma takeWhile_replicate_other: "takeWhile (\<lambda>c. c = x) (replicate n x @ y # ys) = replicate n x @ (if y = x then x # takeWhile (\<lambda>c. c = x) ys else [])"
  by (induction n) auto

lemma sample_codec_reads:
  assumes "f \<in> set fs"
  shows "codec_reads (sample_codec fs) f"
proof -
  define n where "n = length (takeWhile (\<lambda>g. g \<noteq> f) fs)"
  have n: "n < length fs" "fs ! n = f"
    unfolding n_def using assms by (induction fs) auto
  have print: "cd_print (sample_codec fs) f = replicate n CHR ''x'' @ ''.''" by (simp add: sample_codec_def n_def)
  have parse: "cd_parse (sample_codec fs) (replicate n CHR ''x'' @ ''.'' @ r) = Inr f" if "r = [] \<or> r = newline" for r
    using that n by (auto simp: sample_codec_def takeWhile_replicate_other)
  have "\<exists>m. cd_parse (sample_codec fs) (take k (replicate n CHR ''x'' @ ''.'')) = Inl m" if "k < length (replicate n CHR ''x'' @ ''.'')" for k
  proof -
    from that have "take k (replicate n CHR ''x'' @ ''.'') = replicate k CHR ''x''" by simp
    moreover have "takeWhile (\<lambda>c. c = CHR ''x'') (replicate k CHR ''x'') = replicate k CHR ''x''" by (induction k) auto
    ultimately show ?thesis by (simp add: sample_codec_def)
  qed
  moreover have "\<not> list_all ascii_white (replicate n CHR ''x'' @ ''.'')" by (simp add: ascii_white_def)
  ultimately show ?thesis using parse [of "[]"] parse [of newline] by (simp add: codec_reads_def print)
qed

lemma load_doc_written:
  assumes "codec_reads c f" and "dk_validate k f = Inr ()"
  shows "load_doc k c (written (cd_print c f @ newline) d) = Inr (dk_sorted k f)"
  using assms by (simp add: load_doc_def written_def codec_reads_def)

lemma load_doc_absent: "jd_file d = None \<Longrightarrow> load_doc k c d = Inr (dk_default k)"
  by (simp add: load_doc_def)

lemma doc_op_writes:
  assumes "load_doc k c d = Inr f" and "g f = Inr (a, Some f')" and "dk_validate k (dk_sorted k f') = Inr ()" and "jd_io d = []"
  shows "doc_op k lift c g d = (Inr a, written (cd_print c (dk_sorted k f') @ newline) d)"
  using assms by (simp add: doc_op_def save_doc_def write_json_atomically_def)

lemma doc_op_fails:
  assumes "load_doc k c d = Inr f" and "g f = Inl e"
  shows "doc_op k lift c g d = (Inl e, d)"
  using assms by (simp add: doc_op_def)

lemma written_io [simp]: "jd_io (written b d) = jd_io d"
  by (simp add: written_def)

definition empty_disk :: json_disk where
  "empty_disk = \<lparr>jd_file = None, jd_temp = None, jd_quarantine = [], jd_io = []\<rparr>"

lemma empty_disk_simps [simp]:
  "jd_file empty_disk = None" "jd_temp empty_disk = None" "jd_io empty_disk = []"
  by (simp_all add: empty_disk_def)

text \<open>A codec for every document of a countable type, for hypotheses about all documents.\<close>

definition total_codec :: "'f::countable codec" where
  "total_codec =
     \<lparr>cd_print = (\<lambda>f. replicate (to_nat f) CHR ''x'' @ ''.''),
      cd_parse = (\<lambda>s. let n = length (takeWhile (\<lambda>c. c = CHR ''x'') s); rest = drop n s
        in if rest = ''.'' \<or> rest = ''.'' @ newline then Inr (from_nat n) else Inl ''not a document'')\<rparr>"

lemma total_codec_reads: "codec_reads total_codec f"
proof -
  define n where "n = to_nat f"
  have print: "cd_print total_codec f = replicate n CHR ''x'' @ ''.''" by (simp add: total_codec_def n_def)
  have parse: "cd_parse total_codec (replicate n CHR ''x'' @ ''.'' @ r) = Inr f" if "r = [] \<or> r = newline" for r
    using that by (auto simp: total_codec_def takeWhile_replicate_other n_def)
  have "\<exists>m. cd_parse total_codec (take k (replicate n CHR ''x'' @ ''.'')) = Inl m" if "k < length (replicate n CHR ''x'' @ ''.'')" for k
  proof -
    from that have "take k (replicate n CHR ''x'' @ ''.'') = replicate k CHR ''x''" by simp
    moreover have "takeWhile (\<lambda>c. c = CHR ''x'') (replicate k CHR ''x'') = replicate k CHR ''x''" by (induction k) auto
    ultimately show ?thesis by (simp add: total_codec_def)
  qed
  moreover have "\<not> list_all ascii_white (replicate n CHR ''x'' @ ''.'')" by (simp add: ascii_white_def)
  ultimately show ?thesis using parse [of "[]"] parse [of newline] by (auto simp: codec_reads_def print)
qed

instance word :: (len) countable
  by (rule countable_classI [of "unat"]) (simp add: word_unat_eq_iff)

instance json_number :: countable by countable_datatype
instance json :: countable by countable_datatype
end
