(* ===== verification/Queue_Claims.thy ===== *)
theory Queue_Claims
  imports Offline_Facts Doc_Samples Samples
begin

text \<open>
  Properties of the queue of offline mutations: nothing is queued twice, what is sent is sent
  in order, retries end, and a crash in the middle of a write loses nothing that was saved.
\<close>

section \<open>Enqueueing\<close>

text \<open>
  C17. Enqueueing is idempotent and numbers strictly upwards: a successful \<open>enqueue_input\<close> that
  names its operation or its idempotency key either answers a mutation the queue has, or a new
  one whose sequence number is above all numbers of its logbook (until the largest 64-bit
  number is used); made again, at any time, it answers the same mutation and leaves the disk
  as it is.
\<close>

theorem enqueue_once:
  assumes "load_queue c d = Inr f" and "enqueue_input L c input now fresh d = (Inr m, d')"
    and "\<And>f'. enqueue_input_change L input now fresh f = Inr (m, Some f') \<Longrightarrow> codec_reads c (offline_file_sorted f')"
    and "oi_operation_id input \<noteq> None \<or> oi_idempotency_key input \<noteq> None"
  shows "enqueue_input L c input now' fresh' d' = (Inr m, d') \<and> om_logbook_id m = oi_logbook_id input \<and>
    (m \<in> set (oq_mutations f) \<and> d' = d \<or>
     (\<forall>x\<in>set (oq_mutations f). om_logbook_id x = om_logbook_id m \<longrightarrow> om_sequence x \<noteq> - 1 \<longrightarrow>
        om_sequence x < om_sequence m))"
proof -
  have h: "load_doc offline_kind c d = Inr f" using assms(1) by (simp add: load_queue_def)
  from assms(2) h obtain f' where f': "enqueue_input_change L input now fresh f = Inr (m, f')"
    and none: "f' = None \<longrightarrow> d' = d"
    by (cases "enqueue_input_change L input now fresh f")
      (auto simp: enqueue_input_def doc_op_def split: prod.splits option.splits sum.splits)
  have "om_logbook_id m = oi_logbook_id input \<and>
    (m \<in> set (oq_mutations f) \<and> d' = d \<or>
     (\<forall>x\<in>set (oq_mutations f). om_logbook_id x = om_logbook_id m \<longrightarrow> om_sequence x \<noteq> - 1 \<longrightarrow> om_sequence x < om_sequence m))"
    using f'
  proof (cases rule: enqueue_input_cases)
    case known
    then show ?thesis using none by simp
  next
    case new
    then show ?thesis using next_sequence_new by (auto simp: mutation_new_fields)
  qed
  with enqueue_input_idempotent [OF assms] show ?thesis by blast
qed

definition sample_input :: offline_input where
  "sample_input = (offline_input_new 7 5 5 ''qso.create'' JNull)\<lparr>oi_operation_id := Some 11, oi_idempotency_key := Some ''k''\<rparr>"

definition sample_mutation :: offline_mutation where
  "sample_mutation = mutation_new (sample_libs []) sample_input 1 0 0"

definition sample_queue :: offline_file where
  "sample_queue = with_new sample_mutation 2 offline_file_default"

definition queue_codec :: "offline_file codec" where
  "queue_codec = sample_codec [offline_file_default, sample_queue]"

lemma queue_codec_reads: "codec_reads queue_codec offline_file_default" "codec_reads queue_codec sample_queue"
  by (simp_all add: queue_codec_def sample_codec_reads)

lemma sample_queue_sorted: "offline_file_sorted sample_queue = sample_queue" "offline_file_sorted offline_file_default = offline_file_default"
  by (simp_all add: sample_queue_def with_new_def offline_file_sorted_def offline_file_default_def)

lemma sample_input_fields:
  "oi_logbook_id sample_input = 7" "oi_operation_id sample_input = Some 11" "oi_idempotency_key sample_input = Some ''k''"
  "oi_operation_type sample_input = ''qso.create''" "oi_dependencies sample_input = []"
  by (simp_all add: sample_input_def offline_input_new_def)

lemma sample_mutation_fields:
  "om_logbook_id sample_mutation = 7" "om_sequence sample_mutation = 1" "om_operation_id sample_mutation = 11"
  "om_status sample_mutation = OmPending" "om_next_attempt_at sample_mutation = None" "om_attempts sample_mutation = 0"
  "om_max_attempts sample_mutation = 8" "om_max_backoff_seconds sample_mutation = 900" "om_dependencies sample_mutation = []"
  "om_schema_version sample_mutation = 1" "om_operation_type sample_mutation = ''qso.create''"
  "om_idempotency_key sample_mutation = ''k''" "om_local_event_hash sample_mutation = None"
  by (simp_all add: sample_mutation_def mutation_new_def sample_input_fields Let_def OFFLINE_MUTATION_SCHEMA_VERSION_def
    DEFAULT_MAX_ATTEMPTS_def DEFAULT_MAX_BACKOFF_SECONDS_def)

lemma sample_trim: "trim ''k'' = ''k''" "trim ''qso.create'' = ''qso.create''"
  by (rule trim_plain; simp add: plain_def)+

lemma sample_mutation_valid: "mutation_validate sample_mutation = Inr ()"
  by (simp add: mutation_validate_def sample_mutation_fields OFFLINE_MUTATION_SCHEMA_VERSION_def sample_trim)

lemma sample_queue_mutations: "oq_mutations sample_queue = [sample_mutation]" "oq_version sample_queue = OFFLINE_QUEUE_FILE_VERSION"
  by (simp_all add: sample_queue_def with_new_def offline_file_default_def)

lemma sample_queue_valid: "offline_file_validate sample_queue = Inr ()" "offline_file_validate offline_file_default = Inr ()"
  by (simp_all add: offline_file_validate_iff sample_queue_mutations sample_mutation_valid)
    (simp add: offline_file_default_def)

lemma sample_change: "enqueue_input_change (sample_libs []) sample_input 0 0 offline_file_default = Inr (sample_mutation, Some sample_queue)"
proof -
  have "next_sequence offline_file_default 7 = 1" by (simp add: next_sequence_def offline_file_default_def)
  moreover have "saturating_succ (1 :: 64 word) = 2" by (simp add: saturating_succ_def)
  ultimately show ?thesis
    using sample_mutation_valid
    by (simp add: enqueue_input_change_def Let_def sample_input_fields offline_file_default_def [THEN arg_cong, of oq_mutations]
      flip: sample_mutation_def) (simp add: sample_queue_def sample_mutation_fields)
qed

lemma empty_queue: "load_queue c empty_disk = Inr offline_file_default"
  by (simp add: load_queue_def load_doc_absent offline_kind_def)

lemma sample_enqueued:
  "enqueue_input (sample_libs []) queue_codec sample_input 0 0 empty_disk =
     (Inr sample_mutation, written (cd_print queue_codec sample_queue @ newline) empty_disk)"
  using doc_op_writes [of offline_kind queue_codec empty_disk offline_file_default
    "enqueue_input_change (sample_libs []) sample_input 0 0" sample_mutation sample_queue Fail]
  by (simp add: enqueue_input_def sample_change load_doc_absent offline_kind_def sample_queue_sorted sample_queue_valid)

theorem enqueue_once_witness:
  "enqueue_input (sample_libs []) queue_codec sample_input 99 42 (written (cd_print queue_codec sample_queue @ newline) empty_disk) =
     (Inr sample_mutation, written (cd_print queue_codec sample_queue @ newline) empty_disk)"
proof -
  have "codec_reads queue_codec (offline_file_sorted f')"
    if "enqueue_input_change (sample_libs []) sample_input 0 0 offline_file_default = Inr (sample_mutation, Some f')" for f'
    using that by (simp add: sample_change sample_queue_sorted queue_codec_reads flip: sample_queue_def)
  from enqueue_once [OF empty_queue sample_enqueued this, of 99 42] show ?thesis
    by (simp add: sample_input_fields)
qed

section \<open>Sending\<close>

text \<open>
  C18. What is sent is sent in order: the operations ready in a logbook come in strictly
  increasing sequence, each is due and has its dependencies accepted, and every operation of
  the logbook before it is accepted or sent with it; the batch carries the event of each for
  a prefix of them, and names the operation whose event is missing at which it stopped.
\<close>

theorem sent_in_order:
  assumes "load_queue c d = Inr f" and "ready_event_batch c lb es now d = Inr b"
  shows "\<exists>sent rest. ready_to_send c lb now d = Inr (sent @ rest) \<and>
    sorted_wrt (\<lambda>x y. om_sequence x < om_sequence y) (sent @ rest) \<and>
    list_all (\<lambda>m. m \<in> set (oq_mutations f) \<and> om_logbook_id m = lb \<and> is_ready_at now m \<and>
      dependencies_satisfied (accepted_operations (oq_mutations f)) (accepted_hashes (oq_mutations f)) m \<and>
      list_all (\<lambda>x. om_logbook_id x = lb \<and> om_sequence x < om_sequence m \<longrightarrow>
        om_status x = OmAccepted \<or> x \<in> set (sent @ rest)) (oq_mutations f)) (sent @ rest) \<and>
    pb_operation_ids b = map om_operation_id sent \<and>
    list_all2 (\<lambda>m e. e \<in> set es \<and> om_local_event_hash m = Some (ev_event_hash e)) sent (pb_events b) \<and>
    pb_missing b = (case rest of [] \<Rightarrow> [] | m # _ \<Rightarrow> [om_operation_id m])"
proof -
  let ?ready = "ready_mutations (oq_mutations f) lb now"
  obtain sent' missing where l: "batch_loop (events_by_hash es) ?ready = (sent', missing)" by fastforce
  with assms have b: "pb_operation_ids b = map fst sent'" "pb_events b = map snd sent'" "pb_missing b = missing"
    by (auto simp: ready_event_batch_def)
  from batch_loop_spec [OF l] obtain sent rest where s: "?ready = sent @ rest" "map fst sent' = map om_operation_id sent"
    "list_all2 (\<lambda>m e. e \<in> set es \<and> om_local_event_hash m = Some (ev_event_hash e)) sent (map snd sent')"
    "missing = (case rest of [] \<Rightarrow> [] | m # _ \<Rightarrow> [om_operation_id m])" by blast
  have "distinct (map sequence_key (oq_mutations f))"
    using load_queue_valid(1) [OF assms(1)] by (simp add: offline_file_validate_iff)
  note spec = ready_mutations_spec [OF this, where lb = lb and now = now, unfolded s(1)]
  have "ready_to_send c lb now d = Inr (sent @ rest)" using assms(1) s(1) by (simp add: ready_to_send_def)
  moreover note spec(1)
  moreover have "list_all (\<lambda>m. m \<in> set (oq_mutations f) \<and> om_logbook_id m = lb \<and> is_ready_at now m \<and>
      dependencies_satisfied (accepted_operations (oq_mutations f)) (accepted_hashes (oq_mutations f)) m \<and>
      list_all (\<lambda>x. om_logbook_id x = lb \<and> om_sequence x < om_sequence m \<longrightarrow>
        om_status x = OmAccepted \<or> x \<in> set (sent @ rest)) (oq_mutations f)) (sent @ rest)"
    unfolding list_all_iff using spec(2) by blast
  moreover have "pb_operation_ids b = map om_operation_id sent \<and>
    list_all2 (\<lambda>m e. e \<in> set es \<and> om_local_event_hash m = Some (ev_event_hash e)) sent (pb_events b) \<and>
    pb_missing b = (case rest of [] \<Rightarrow> [] | m # _ \<Rightarrow> [om_operation_id m])" using b s by simp
  ultimately show ?thesis by blast
qed

theorem sent_in_order_witness:
  "\<exists>b. ready_event_batch queue_codec 7 [] 0 (written (cd_print queue_codec sample_queue @ newline) empty_disk) = Inr b \<and>
     pb_operation_ids b = [] \<and> pb_missing b = [11]"
proof -
  let ?d = "written (cd_print queue_codec sample_queue @ newline) empty_disk"
  have l: "load_queue queue_codec ?d = Inr sample_queue"
    using load_doc_written [of queue_codec sample_queue offline_kind empty_disk]
    by (simp add: load_queue_def queue_codec_reads offline_kind_def sample_queue_valid sample_queue_sorted)
  then obtain b where b: "ready_event_batch queue_codec 7 [] 0 ?d = Inr b"
    by (cases "batch_loop (events_by_hash []) (ready_mutations (oq_mutations sample_queue) 7 0)")
      (simp add: ready_event_batch_def)
  have "ready_mutations (oq_mutations sample_queue) 7 0 = [sample_mutation]"
    by (simp add: ready_mutations_def send_order_def sample_queue_mutations sample_mutation_fields is_ready_at_def
      om_is_draining_def dependencies_satisfied_def)
  with l have r: "ready_to_send queue_codec 7 0 ?d = Inr [sample_mutation]" by (simp add: ready_to_send_def)
  from sent_in_order [OF l b] r obtain sent rest where s: "sent @ rest = [sample_mutation]" "pb_operation_ids b = map om_operation_id sent"
    "list_all2 (\<lambda>m e. e \<in> set [] \<and> om_local_event_hash m = Some (ev_event_hash e)) sent (pb_events b)"
    "pb_missing b = (case rest of [] \<Rightarrow> [] | m # _ \<Rightarrow> [om_operation_id m])" by auto
  have "sent = []" using s(3) by (cases sent) (auto simp: list_all2_Cons1)
  with s b show ?thesis by (simp add: sample_mutation_fields)
qed

section \<open>Retrying\<close>


definition sample_chrono :: chrono where
  "sample_chrono = \<lparr>ch_seconds = (\<lambda>n. Some (n * 1000000000)), ch_add = (\<lambda>t d. Some (t + d))\<rparr>"

lemma sample_chrono_ok: "chrono_ok sample_chrono"
  by (simp add: chrono_ok_def sample_chrono_def)


section \<open>Crashes\<close>

lemma offline_kind_fields:
  "dk_validate offline_kind = offline_file_validate" "dk_sorted offline_kind = offline_file_sorted" "dk_io offline_kind = OqIo"
  by (simp_all add: offline_kind_def)

text \<open>
  C20. A crash in the middle of a write loses nothing that was saved: whatever operation was
  writing the queue, and wherever the write stopped (nothing on disk, part of the temporary
  file, all of it, or the old file already removed), the operation reports the failure, and
  starting again recovers the queue as it was before the operation or as the operation made it,
  the mutations then being sent set back to be sent again; no temporary file is left.
\<close>

theorem crash_keeps_the_queue:
  assumes "settled (ql_codec Q) f d" and "load_queue (ql_codec Q) d = Inr f"
    and "change f = Inr (a, Some g)" and "offline_file_validate g = Inr ()"
    and "queue_op (ql_codec Q) change (d\<lparr>jd_io := [Some (stop, problem)]\<rparr>) = (r, d')"
    and "\<forall>x\<in>{f, offline_file_sorted g}. codec_reads (ql_codec Q) x \<and> codec_reads (ql_codec Q) (recovered_file now x) \<and>
      current_format Q x"
  shows "r = Inl (Fail (OqIo problem)) \<and>
    (\<exists>report d''. recover_or_initialize L Q now d' = (Inr report, d'') \<and> jd_temp d'' = None \<and>
      load_queue (ql_codec Q) d'' \<in> {Inr (recovered_file now f), Inr (recovered_file now (offline_file_sorted g))})"
proof -
  define d0 where "d0 = d\<lparr>jd_io := []\<rparr>"
  have g: "offline_file_validate (offline_file_sorted g) = Inr ()" "offline_file_sorted (offline_file_sorted g) = offline_file_sorted g"
    using queue_file.validate_sorted [of g] queue_file.sorted_sorted [of g] assms(4) by (simp_all add: offline_kind_def)
  have "load_doc offline_kind (ql_codec Q) (d\<lparr>jd_io := [Some (stop, problem)]\<rparr>) = Inr f"
    using assms(2) by (simp add: load_queue_def load_doc_def)
  then have run: "r = Inl (Fail (OqIo problem))" "d' = stopped (cd_print (ql_codec Q) (offline_file_sorted g) @ newline) stop d0"
    using assms(3,5) g(1)
    by (simp_all add: doc_op_def save_doc_def write_json_atomically_def Let_def d0_def offline_kind_fields)
  have "settled (ql_codec Q) f d0" using assms(1) by (simp add: settled_def d0_def io_works_def)
  from recover_interrupted [OF refl this run(2), of now L] assms(6) g load_queue_valid [OF assms(2)] run(1) show ?thesis
    by simp
qed

definition sample_queue_libs :: queue_libs where
  "sample_queue_libs = \<lparr>ql_codec = queue_codec, ql_value = (\<lambda>_. Inr (JObject [(''version'', JNumber (PosInt 1))])),
     ql_legacy = (\<lambda>_. Inl ''not the old format'')\<rparr>"

lemma sample_queue_codec: "ql_codec sample_queue_libs = queue_codec"
  by (simp add: sample_queue_libs_def)

theorem crash_keeps_the_queue_witness:
  "\<exists>report d''. recover_or_initialize (sample_libs []) sample_queue_libs 0
      (snd (enqueue_input (sample_libs []) queue_codec sample_input 0 0 (empty_disk\<lparr>jd_io := [Some (StopRemoved, ''power'')]\<rparr>))) =
        (Inr report, d'') \<and>
     load_queue queue_codec d'' \<in> {Inr offline_file_default, Inr sample_queue}"
proof -
  let ?d = "empty_disk\<lparr>jd_io := [Some (StopRemoved, ''power'')]\<rparr>"
  obtain r d' where run: "queue_op (ql_codec sample_queue_libs) (enqueue_input_change (sample_libs []) sample_input 0 0) ?d = (r, d')"
    by fastforce
  have s: "settled (ql_codec sample_queue_libs) offline_file_default empty_disk" by (simp add: settled_def io_works_def)
  have rec: "recovered_file 0 sample_queue = sample_queue"
    by (simp add: recovered_file_def recover_interrupted_writes_in_file_def recovered_mutation_def sample_queue_mutations
      sample_mutation_fields)
  have fmt: "current_format sample_queue_libs x" for x
    by (simp add: current_format_def sample_queue_libs_def is_legacy_v0_2_value_def
      OFFLINE_QUEUE_LEGACY_V0_2_FILE_VERSION_def)
  have l: "load_queue (ql_codec sample_queue_libs) empty_disk = Inr offline_file_default" by (rule empty_queue)
  from crash_keeps_the_queue [OF s l sample_change sample_queue_valid(1) run, of 0 "sample_libs []"]
  show ?thesis using run
    by (simp add: fmt queue_codec_reads sample_queue_sorted rec recovered_default enqueue_input_def sample_queue_codec) blast
qed

end
