(* ===== verification/Conflict_Review.thy ===== *)
theory Conflict_Review
  imports Offline_Queue
begin

text \<open>
  Conflicts between the local queue and a remote log (\<open>ham-core/src/sync/offline.rs\<close>): the
  report made of a pull preview and the pending mutations, and the reviews an operator opens
  on a report and resolves, kept in one JSON document.
\<close>

definition CONFLICT_REVIEW_SCHEMA_VERSION :: "32 word" where "CONFLICT_REVIEW_SCHEMA_VERSION = 1"
definition CONFLICT_REVIEW_FILE_VERSION :: "32 word" where "CONFLICT_REVIEW_FILE_VERSION = 1"
definition MAX_CONFLICT_REVIEW_NOTE_BYTES :: nat where "MAX_CONFLICT_REVIEW_NOTE_BYTES = 4096"
definition SUPPORTED_OFFICIAL_EVENT_SCHEMA_VERSION :: "32 word" where
  "SUPPORTED_OFFICIAL_EVENT_SCHEMA_VERSION = 1"

section \<open>Reports\<close>

datatype conflict_kind =
    DivergentHeads
  | MissingDependency
  | UnsupportedSchema
  | ConcurrentCorrection
  | TombstoneRestore
  | RevokedDevice
  | ManualReviewRequired

record sync_conflict =
  sc_kind :: conflict_kind
  sc_message :: string
  sc_related_operation_ids :: "uuid list"
  sc_related_event_hashes :: "string list"
  sc_safe_auto_merge :: bool
  sc_requires_user_action :: bool
  sc_resolution_options :: "string list"

record conflict_report =
  cr_schema_version :: "32 word"
  cr_created_at :: datetime
  cr_logbook_id :: uuid
  cr_peer_id :: string
  cr_status :: replication_status
  cr_local_head_hash :: "string option"
  cr_remote_head_hash :: "string option"
  cr_missing_event_count :: nat
  cr_pending_operation_count :: nat
  cr_conflicts :: "sync_conflict list"
  cr_recommended_action :: string

definition mutation_entity_id :: "libs \<Rightarrow> offline_mutation \<Rightarrow> uuid option" where
  "mutation_entity_id L m = (case om_entity_id m of Some i \<Rightarrow> Some i
     | None \<Rightarrow> entity_id_from_payload L (om_operation_type m) (om_payload m))"

definition is_qso_correction_operation :: "string \<Rightarrow> bool" where
  "is_qso_correction_operation t =
     (t \<in> {''qso.correct'', PROPOSAL_QSO_CORRECT, OFFICIAL_LOG_QSO_CORRECTED})"

definition is_qso_entity_operation :: "string \<Rightarrow> bool" where
  "is_qso_entity_operation t =
     (t \<in> {''qso.correct'', ''qso.delete'', ''qso.restore'', ''qso.note.add'',
       PROPOSAL_QSO_CORRECT, PROPOSAL_QSO_DELETE, PROPOSAL_QSO_RESTORE, PROPOSAL_QSO_NOTE_ADD,
       OFFICIAL_LOG_QSO_CORRECTED, OFFICIAL_LOG_QSO_DELETED, OFFICIAL_LOG_QSO_RESTORED})"

definition schema_conflict :: "event_metadata list \<Rightarrow> sync_conflict list" where
  "schema_conflict es =
     (if es = [] then []
      else [\<lparr>sc_kind = UnsupportedSchema,
        sc_message = show_nat (length es) @
          '' remote events use unsupported schema versions; upgrade or inspect before pulling'',
        sc_related_operation_ids = [], sc_related_event_hashes = map em_event_hash es,
        sc_safe_auto_merge = False, sc_requires_user_action = True,
        sc_resolution_options =
          [''upgrade_client'', ''export_divergence_report'', ''mark_user_action_required'']\<rparr>])"

definition entity_conflict :: "conflict_kind \<Rightarrow> string \<Rightarrow> event_metadata list \<Rightarrow> uuid list \<Rightarrow> string list \<Rightarrow>
    sync_conflict list" where
  "entity_conflict kind message es operations options =
     (if es = [] \<or> operations = [] then []
      else [\<lparr>sc_kind = kind, sc_message = message, sc_related_operation_ids = operations,
        sc_related_event_hashes = map em_event_hash es, sc_safe_auto_merge = False,
        sc_requires_user_action = True, sc_resolution_options = options\<rparr>])"

text \<open>The loop both entity conflicts share: of the events with an entity, those on which a pending
  operation of a kind works, and these operations once each.\<close>

definition related_operations :: "libs \<Rightarrow> (string \<Rightarrow> bool) \<Rightarrow> offline_mutation list \<Rightarrow> uuid \<Rightarrow> uuid list" where
  "related_operations L kind pending i = map om_operation_id
     (filter (\<lambda>m. mutation_entity_id L m = Some i \<and> kind (om_operation_type m)) pending)"

definition push_new :: "uuid list \<Rightarrow> uuid list \<Rightarrow> uuid list" where
  "push_new is acc = fold (\<lambda>i acc. if i \<in> set acc then acc else acc @ [i]) is acc"

fun entity_loop :: "libs \<Rightarrow> (string \<Rightarrow> bool) \<Rightarrow> offline_mutation list \<Rightarrow> event_metadata list \<Rightarrow>
    event_metadata list \<times> uuid list \<Rightarrow> event_metadata list \<times> uuid list" where
  "entity_loop L kind pending [] acc = acc"
| "entity_loop L kind pending (e # es) (events, operations) =
     (case em_entity_id e of
        None \<Rightarrow> entity_loop L kind pending es (events, operations)
      | Some i \<Rightarrow>
          (case related_operations L kind pending i of
             [] \<Rightarrow> entity_loop L kind pending es (events, operations)
           | is \<Rightarrow> entity_loop L kind pending es (events @ [e], push_new is operations)))"

definition unresolved_dependencies :: "offline_mutation \<Rightarrow> mutation_dependency list" where
  "unresolved_dependencies m = filter (\<lambda>d. dep_operation_id d \<noteq> None \<or> dep_event_hash d \<noteq> None \<or>
     (case dep_minimum_schema_version d of None \<Rightarrow> False | Some v \<Rightarrow> v > OFFLINE_MUTATION_SCHEMA_VERSION))
     (om_dependencies m)"

definition dependency_conflict :: "libs \<Rightarrow> offline_mutation \<Rightarrow> sync_conflict list" where
  "dependency_conflict L m =
     (let missing = unresolved_dependencies m in
      if missing \<noteq> [] \<and> \<not> dependencies_satisfied {} {} m
      then [\<lparr>sc_kind = MissingDependency,
        sc_message = ''Offline mutation '' @ lib_show_uuid L (om_operation_id m) @
          '' cannot drain until its dependencies are accepted'',
        sc_related_operation_ids = List.map_filter dep_operation_id missing,
        sc_related_event_hashes = List.map_filter dep_event_hash missing,
        sc_safe_auto_merge = False, sc_requires_user_action = True,
        sc_resolution_options = [''retry_after_dependency_arrives'', ''mark_user_action_required'']\<rparr>]
      else [])"

definition review_options :: "string list" where
  "review_options = [''review_remote_events'', ''create_new_corrective_events'', ''mark_user_action_required'']"

definition pending_for :: "uuid \<Rightarrow> offline_mutation list \<Rightarrow> offline_mutation list" where
  "pending_for lb ms = filter (\<lambda>m. om_logbook_id m = lb \<and> om_status m \<noteq> OmAccepted) ms"

definition report_conflicts :: "libs \<Rightarrow> preview_response \<Rightarrow> offline_mutation list \<Rightarrow> sync_conflict list" where
  "report_conflicts L p pending =
     (if vr_status p = Diverged
      then [\<lparr>sc_kind = DivergentHeads, sc_message = vr_message p,
        sc_related_operation_ids = map om_operation_id pending,
        sc_related_event_hashes = map em_event_hash (vr_events p), sc_safe_auto_merge = False,
        sc_requires_user_action = True, sc_resolution_options =
          [''review_remote_events'', ''export_divergence_report'', ''create_new_corrective_events'']\<rparr>]
      else []) @
     schema_conflict (filter (\<lambda>e. em_schema_version e \<noteq> SUPPORTED_OFFICIAL_EVENT_SCHEMA_VERSION) (vr_events p)) @
     (case entity_loop L is_qso_correction_operation pending
        (filter (\<lambda>e. em_event_type e = OFFICIAL_LOG_QSO_CORRECTED) (vr_events p)) ([], []) of
      (es, is) \<Rightarrow> entity_conflict ConcurrentCorrection
        ''Remote and local queues both contain corrections for the same QSO; manual review is required before replay''
        es is review_options) @
     (case entity_loop L is_qso_entity_operation pending
        (filter (\<lambda>e. em_event_type e \<in> {OFFICIAL_LOG_QSO_DELETED, OFFICIAL_LOG_QSO_RESTORED}) (vr_events p)) ([], []) of
      (es, is) \<Rightarrow> entity_conflict TombstoneRestore
        ''Remote tombstone or restore events affect QSOs with local pending mutations; manual review is required before replay''
        es is review_options) @
     concat (map (dependency_conflict L) pending)"

definition conflict_report_from_preview :: "libs \<Rightarrow> preview_response \<Rightarrow> offline_mutation list \<Rightarrow> datetime \<Rightarrow>
    conflict_report" where
  "conflict_report_from_preview L p local_pending now =
     (let pending = pending_for (vr_logbook_id p) local_pending;
          conflicts = report_conflicts L p pending
      in \<lparr>cr_schema_version = 1, cr_created_at = now, cr_logbook_id = vr_logbook_id p,
          cr_peer_id = vr_peer_id p, cr_status = vr_status p,
          cr_local_head_hash = vr_local_head_hash p, cr_remote_head_hash = vr_remote_head_hash p,
          cr_missing_event_count = vr_missing_event_count p,
          cr_pending_operation_count = length pending, cr_conflicts = conflicts,
          cr_recommended_action =
            (if list_ex sc_requires_user_action conflicts
             then ''Manual review is required before merging or replaying additional events.''
             else if vr_status p = RemoteAhead
             then ''Preview can be pulled because the remote chain contains the local head.''
             else ''No sync conflict requires action.'')\<rparr>)"

section \<open>Reviews\<close>

datatype resolution_choice =
    KeepLocalHistory
  | PullRemoteAfterReview
  | CreateCorrectiveEvents
  | RetryAfterDependencyArrives
  | MarkUserActionRequired

datatype review_status = ReviewOpen | ReviewResolved

datatype conflict_review_error =
    CrIo string
  | CrSerde string
  | CrUnsupportedFileVersion "32 word"
  | CrReviewNotFound uuid
  | CrOperatorNoteTooLarge
  | CrMissingCorrectiveEvents
  | CrUnsafeResolution resolution_choice replication_status

record conflict_resolution =
  re_choice :: resolution_choice
  re_operator_note :: "string option"
  re_corrective_event_hashes :: "string list"
  re_resolved_by_device_id :: "uuid option"

definition resolution_new :: "resolution_choice \<Rightarrow> conflict_resolution" where
  "resolution_new choice = \<lparr>re_choice = choice, re_operator_note = None,
     re_corrective_event_hashes = [], re_resolved_by_device_id = None\<rparr>"

record conflict_review =
  cv_schema_version :: "32 word"
  cv_review_id :: uuid
  cv_report_fingerprint :: string
  cv_report :: conflict_report
  cv_status :: review_status
  cv_selected_resolution :: "conflict_resolution option"
  cv_created_at :: datetime
  cv_updated_at :: datetime
  cv_resolved_at :: "datetime option"

record review_file =
  cf_version :: "32 word"
  cf_reviews :: "conflict_review list"

definition review_file_default :: review_file where
  "review_file_default = \<lparr>cf_version = CONFLICT_REVIEW_FILE_VERSION, cf_reviews = []\<rparr>"

definition review_file_validate :: "review_file \<Rightarrow> conflict_review_error + unit" where
  "review_file_validate f =
     ensure (cf_version f = CONFLICT_REVIEW_FILE_VERSION) (CrUnsupportedFileVersion (cf_version f))"

definition review_key :: "conflict_review \<Rightarrow> uuid \<times> datetime \<times> uuid" where
  "review_key r = (cr_logbook_id (cv_report r), cv_created_at r, cv_review_id r)"

definition review_file_sorted :: "review_file \<Rightarrow> review_file" where
  "review_file_sorted f = f\<lparr>cf_reviews := sort_key review_key (cf_reviews f)\<rparr>"

definition review_kind :: "(review_file, conflict_review_error) doc_kind" where
  "review_kind = \<lparr>dk_default = review_file_default, dk_validate = review_file_validate,
     dk_sorted = review_file_sorted, dk_io = CrIo, dk_serde = CrSerde\<rparr>"

definition validate_resolution_for_report ::
    "conflict_report \<Rightarrow> conflict_resolution \<Rightarrow> conflict_review_error + unit" where
  "validate_resolution_for_report report r =
     (if (case re_operator_note r of None \<Rightarrow> False | Some note \<Rightarrow> length note > MAX_CONFLICT_REVIEW_NOTE_BYTES)
      then Inl CrOperatorNoteTooLarge
      else if re_choice r = CreateCorrectiveEvents \<and> list_all (\<lambda>h. trim h = []) (re_corrective_event_hashes r)
      then Inl CrMissingCorrectiveEvents
      else if re_choice r = PullRemoteAfterReview \<and>
        (cr_status report = Diverged \<or> list_ex (\<lambda>c. \<not> sc_safe_auto_merge c) (cr_conflicts report))
      then Inl (CrUnsafeResolution (re_choice r) (cr_status report))
      else if re_choice r = RetryAfterDependencyArrives \<and>
        \<not> list_ex (\<lambda>c. sc_kind c = MissingDependency) (cr_conflicts report)
      then Inl (CrUnsafeResolution (re_choice r) (cr_status report))
      else Inr ())"

text \<open>What is hashed of a report: all but the version, the time and the recommendation. The
  serialisation of these fields with their SHA-256 is a parameter.\<close>

record report_fingerprint =
  fp_logbook_id :: uuid
  fp_peer_id :: string
  fp_status :: replication_status
  fp_local_head_hash :: "string option"
  fp_remote_head_hash :: "string option"
  fp_missing_event_count :: nat
  fp_pending_operation_count :: nat
  fp_conflicts :: "sync_conflict list"

definition fingerprint_fields :: "conflict_report \<Rightarrow> report_fingerprint" where
  "fingerprint_fields r =
     \<lparr>fp_logbook_id = cr_logbook_id r, fp_peer_id = cr_peer_id r, fp_status = cr_status r,
      fp_local_head_hash = cr_local_head_hash r, fp_remote_head_hash = cr_remote_head_hash r,
      fp_missing_event_count = cr_missing_event_count r,
      fp_pending_operation_count = cr_pending_operation_count r, fp_conflicts = cr_conflicts r\<rparr>"

definition conflict_report_fingerprint :: "(report_fingerprint \<Rightarrow> string) \<Rightarrow> conflict_report \<Rightarrow> string" where
  "conflict_report_fingerprint digest r = digest (fingerprint_fields r)"

type_synonym 'a review_change = "review_file \<Rightarrow> conflict_review_error + 'a \<times> review_file option"

definition create_review_change :: "(report_fingerprint \<Rightarrow> string) \<Rightarrow> conflict_report \<Rightarrow> datetime \<Rightarrow> uuid \<Rightarrow>
    conflict_review review_change" where
  "create_review_change digest report now fresh f =
     (let fingerprint = conflict_report_fingerprint digest report in
      case List.find (\<lambda>r. cr_logbook_id (cv_report r) = cr_logbook_id report \<and>
          cv_report_fingerprint r = fingerprint \<and> cv_status r = ReviewOpen) (cf_reviews f) of
        Some r \<Rightarrow> Inr (r, None)
      | None \<Rightarrow>
          let r = \<lparr>cv_schema_version = CONFLICT_REVIEW_SCHEMA_VERSION, cv_review_id = fresh,
            cv_report_fingerprint = fingerprint, cv_report = report, cv_status = ReviewOpen,
            cv_selected_resolution = None, cv_created_at = now, cv_updated_at = now,
            cv_resolved_at = None\<rparr>
          in Inr (r, Some (f\<lparr>cf_reviews := cf_reviews f @ [r]\<rparr>)))"

definition has_review :: "uuid \<Rightarrow> conflict_review \<Rightarrow> bool" where
  "has_review i r = (cv_review_id r = i)"

definition resolve_review_change :: "uuid \<Rightarrow> conflict_resolution \<Rightarrow> datetime \<Rightarrow> conflict_review review_change" where
  "resolve_review_change i resolution now f =
     (case List.find (has_review i) (cf_reviews f) of
        None \<Rightarrow> Inl (CrReviewNotFound i)
      | Some r \<Rightarrow>
          and_then (validate_resolution_for_report (cv_report r) resolution) (\<lambda>_.
            let r' = r\<lparr>cv_status := ReviewResolved, cv_selected_resolution := Some resolution,
              cv_resolved_at := Some now, cv_updated_at := now\<rparr>
            in Inr (r', Some (f\<lparr>cf_reviews := modify_first (has_review i) (\<lambda>_. r') (cf_reviews f)\<rparr>))))"

abbreviation review_op :: "review_file codec \<Rightarrow> 'a review_change \<Rightarrow> json_disk \<Rightarrow>
    (conflict_review_error + 'a) \<times> json_disk" where
  "review_op \<equiv> doc_op review_kind (\<lambda>e. e)"

definition create_review :: "review_file codec \<Rightarrow> (report_fingerprint \<Rightarrow> string) \<Rightarrow> conflict_report \<Rightarrow> datetime \<Rightarrow> uuid \<Rightarrow>
    json_disk \<Rightarrow> (conflict_review_error + conflict_review) \<times> json_disk" where
  "create_review c digest report now fresh = review_op c (create_review_change digest report now fresh)"

definition resolve_review :: "review_file codec \<Rightarrow> uuid \<Rightarrow> conflict_resolution \<Rightarrow> datetime \<Rightarrow>
    json_disk \<Rightarrow> (conflict_review_error + conflict_review) \<times> json_disk" where
  "resolve_review c i resolution now = review_op c (resolve_review_change i resolution now)"

record review_snapshot =
  rs_file_version :: "32 word"
  rs_schema_version :: "32 word"
  rs_total :: nat
  rs_open :: nat
  rs_resolved :: nat
  rs_reviews :: "conflict_review list"

definition snapshot_from_reviews :: "conflict_review list \<Rightarrow> review_snapshot" where
  "snapshot_from_reviews rs =
     \<lparr>rs_file_version = CONFLICT_REVIEW_FILE_VERSION, rs_schema_version = CONFLICT_REVIEW_SCHEMA_VERSION,
      rs_total = length rs, rs_open = length (filter (\<lambda>r. cv_status r = ReviewOpen) rs),
      rs_resolved = length (filter (\<lambda>r. cv_status r = ReviewResolved) rs), rs_reviews = rs\<rparr>"

definition load_review_snapshot :: "review_file codec \<Rightarrow> json_disk \<Rightarrow> conflict_review_error + review_snapshot" where
  "load_review_snapshot c d = and_then (load_doc review_kind c d) (\<lambda>f. Inr (snapshot_from_reviews (cf_reviews f)))"

end
