(* ===== verification/Lan_Trust.thy ===== *)
theory Lan_Trust
  imports Offline_Queue
begin

text \<open>
  Trust between instances on a LAN (\<open>ham-core/src/sync/offline.rs\<close>): pairing tokens, trusted
  devices, replay nonces and request signatures, kept in one JSON document, and the local
  identity.
\<close>

definition LAN_TRUST_FILE_VERSION :: "32 word" where "LAN_TRUST_FILE_VERSION = 1"
definition LOCAL_SYNC_IDENTITY_FILE_VERSION :: "32 word" where "LOCAL_SYNC_IDENTITY_FILE_VERSION = 1"
definition LAN_AUTH_SIGNATURE_VERSION :: string where "LAN_AUTH_SIGNATURE_VERSION = ''hmac-sha256-v1''"
definition DEFAULT_PAIRING_TOKEN_TTL_SECONDS :: int where "DEFAULT_PAIRING_TOKEN_TTL_SECONDS = 10 * 60"
definition DEFAULT_REPLAY_NONCE_TTL_SECONDS :: int where "DEFAULT_REPLAY_NONCE_TTL_SECONDS = 10 * 60"

text \<open>The crates: SHA-256 in hexadecimal, HMAC-SHA-256 in hexadecimal, and \<open>Uuid::simple\<close>.\<close>

record trust_libs =
  tl_sha256 :: "string \<Rightarrow> string"
  tl_hmac :: "string \<Rightarrow> string \<Rightarrow> string"
  tl_simple :: "uuid \<Rightarrow> string"

datatype lan_trust_error =
    LtIo string
  | LtSerde string
  | LtUnsupportedFileVersion "32 word"
  | LtApprovalRequired
  | LtPairingTokenNotFound
  | LtPairingTokenExpired
  | LtPairingTokenConsumed
  | LtPairingTokenMismatch
  | LtDeviceNotFound uuid
  | LtDeviceRevoked uuid
  | LtWrongLogbook uuid uuid
  | LtReplayDetected uuid
  | LtCredentialUnchanged uuid

record issued_token =
  it_token_id :: uuid
  it_pairing_code :: string
  it_expires_at :: datetime

record pairing_token =
  pt_token_id :: uuid
  pt_issuer_device_id :: uuid
  pt_logbook_id :: uuid
  pt_issuer_display_name :: string
  pt_token_hash :: string
  pt_created_at :: datetime
  pt_expires_at :: datetime
  pt_consumed_at :: "datetime option"
  pt_approved_by_operator :: bool

record trusted_device =
  td_device_id :: uuid
  td_display_name :: string
  td_logbook_ids :: "uuid list"
  td_trusted_at :: datetime
  td_revoked_at :: "datetime option"
  td_pairing_token_id :: "uuid option"
  td_public_key_fingerprint :: "string option"
  td_auth_credential_id :: "uuid option"
  td_auth_rotated_at :: "datetime option"
  td_last_seen_at :: "datetime option"

record replay_nonce =
  rn_device_id :: uuid
  rn_nonce_hash :: string
  rn_seen_at :: datetime
  rn_expires_at :: datetime

record trust_file =
  tf_version :: "32 word"
  tf_pairing_tokens :: "pairing_token list"
  tf_trusted_devices :: "trusted_device list"
  tf_replay_nonces :: "replay_nonce list"

definition trust_file_default :: trust_file where
  "trust_file_default = \<lparr>tf_version = LAN_TRUST_FILE_VERSION, tf_pairing_tokens = [],
     tf_trusted_devices = [], tf_replay_nonces = []\<rparr>"

definition trust_file_validate :: "trust_file \<Rightarrow> lan_trust_error + unit" where
  "trust_file_validate f = ensure (tf_version f = LAN_TRUST_FILE_VERSION) (LtUnsupportedFileVersion (tf_version f))"

record token_summary =
  ts_token_id :: uuid
  ts_issuer_device_id :: uuid
  ts_logbook_id :: uuid
  ts_issuer_display_name :: string
  ts_created_at :: datetime
  ts_expires_at :: datetime
  ts_consumed_at :: "datetime option"
  ts_approved_by_operator :: bool

record trust_snapshot =
  tn_version :: "32 word"
  tn_pairing_tokens :: "token_summary list"
  tn_trusted_devices :: "trusted_device list"

definition token_summary_from :: "pairing_token \<Rightarrow> token_summary" where
  "token_summary_from t =
     \<lparr>ts_token_id = pt_token_id t, ts_issuer_device_id = pt_issuer_device_id t,
      ts_logbook_id = pt_logbook_id t, ts_issuer_display_name = pt_issuer_display_name t,
      ts_created_at = pt_created_at t, ts_expires_at = pt_expires_at t,
      ts_consumed_at = pt_consumed_at t, ts_approved_by_operator = pt_approved_by_operator t\<rparr>"

record pairing_acceptance =
  pa_token_id :: uuid
  pa_pairing_code :: string
  pa_peer_device_id :: uuid
  pa_peer_display_name :: string
  pa_requested_logbooks :: "uuid list"
  pa_public_key_fingerprint :: "string option"
  pa_auth_credential_id :: "uuid option"

record peer_trust_update =
  pu_peer_device_id :: uuid
  pu_peer_display_name :: string
  pu_logbook_id :: uuid
  pu_pairing_token_id :: "uuid option"
  pu_public_key_fingerprint :: "string option"
  pu_auth_credential_id :: uuid

section \<open>Hashes and signatures\<close>

definition pairing_token_hash :: "libs \<Rightarrow> trust_libs \<Rightarrow> uuid \<Rightarrow> string \<Rightarrow> string" where
  "pairing_token_hash L T i code = tl_sha256 T (lib_show_uuid L i @ '':'' @ code)"

definition replay_nonce_hash :: "libs \<Rightarrow> trust_libs \<Rightarrow> uuid \<Rightarrow> string \<Rightarrow> string" where
  "replay_nonce_hash L T device nonce = tl_sha256 T (lib_show_uuid L device @ '':'' @ nonce)"

definition lan_auth_signature :: "libs \<Rightarrow> trust_libs \<Rightarrow> string \<Rightarrow> uuid \<Rightarrow> uuid \<Rightarrow> string \<Rightarrow> string \<Rightarrow> string \<Rightarrow> string" where
  "lan_auth_signature L T secret device lb meth target nonce =
     tl_hmac T secret (LAN_AUTH_SIGNATURE_VERSION @ newline @ lib_show_uuid L device @ newline @
       lib_show_uuid L lb @ newline @ to_ascii_uppercase meth @ newline @ target @ newline @ nonce)"

unbundle bit_operations_syntax

definition byte :: "char \<Rightarrow> 8 word" where
  "byte c = of_nat (of_char c)"

definition constant_time_eq :: "string \<Rightarrow> string \<Rightarrow> bool" where
  "constant_time_eq left right =
     (if length left \<noteq> length right then False
      else fold (\<lambda>(l, r) diff. diff OR (byte l XOR byte r)) (zip left right) 0 = 0)"

definition verify_lan_auth_signature ::
    "libs \<Rightarrow> trust_libs \<Rightarrow> string \<Rightarrow> uuid \<Rightarrow> uuid \<Rightarrow> string \<Rightarrow> string \<Rightarrow> string \<Rightarrow> string \<Rightarrow> bool" where
  "verify_lan_auth_signature L T secret device lb meth target nonce signature =
     constant_time_eq (lan_auth_signature L T secret device lb meth target nonce) signature"

section \<open>Operations\<close>

definition trust_kind :: "(trust_file, lan_trust_error) doc_kind" where
  "trust_kind = \<lparr>dk_default = trust_file_default, dk_validate = trust_file_validate,
     dk_sorted = (\<lambda>f. f), dk_io = LtIo, dk_serde = LtSerde\<rparr>"

type_synonym 'a trust_change = "trust_file \<Rightarrow> lan_trust_error fault + 'a \<times> trust_file option"

definition has_device :: "uuid \<Rightarrow> trusted_device \<Rightarrow> bool" where
  "has_device i d = (td_device_id d = i)"

definition upsert_trusted_device :: "trusted_device \<Rightarrow> trust_file \<Rightarrow> trust_file" where
  "upsert_trusted_device d f =
     f\<lparr>tf_trusted_devices :=
        (if list_ex (has_device (td_device_id d)) (tf_trusted_devices f)
         then modify_first (has_device (td_device_id d)) (\<lambda>_. d) (tf_trusted_devices f)
         else tf_trusted_devices f @ [d])\<rparr>"

definition prune_expired_nonces :: "datetime \<Rightarrow> trust_file \<Rightarrow> trust_file" where
  "prune_expired_nonces now f =
     f\<lparr>tf_replay_nonces := filter (\<lambda>n. rn_expires_at n \<ge> now) (tf_replay_nonces f)\<rparr>"

text \<open>\<open>token_id\<close>, \<open>a\<close> and \<open>b\<close> are the three identifiers drawn.\<close>

definition issue_change :: "libs \<Rightarrow> trust_libs \<Rightarrow> chrono \<Rightarrow> uuid \<Rightarrow> uuid \<Rightarrow> string \<Rightarrow> bool \<Rightarrow> datetime \<Rightarrow>
    uuid \<Rightarrow> uuid \<Rightarrow> uuid \<Rightarrow> issued_token trust_change" where
  "issue_change L T C issuer lb name approved now token_id a b f =
     (let code = tl_simple T a @ tl_simple T b in
      and_then (add_delay C now (ch_seconds C DEFAULT_PAIRING_TOKEN_TTL_SECONDS)) (\<lambda>expires_at.
        Inr (\<lparr>it_token_id = token_id, it_pairing_code = code, it_expires_at = expires_at\<rparr>,
          Some (f\<lparr>tf_pairing_tokens := tf_pairing_tokens f @
            [\<lparr>pt_token_id = token_id, pt_issuer_device_id = issuer, pt_logbook_id = lb,
              pt_issuer_display_name = name, pt_token_hash = pairing_token_hash L T token_id code,
              pt_created_at = now, pt_expires_at = expires_at, pt_consumed_at = None,
              pt_approved_by_operator = approved\<rparr>]\<rparr>))))"

definition has_token :: "uuid \<Rightarrow> pairing_token \<Rightarrow> bool" where
  "has_token i t = (pt_token_id t = i)"

definition accept_change :: "libs \<Rightarrow> trust_libs \<Rightarrow> pairing_acceptance \<Rightarrow> datetime \<Rightarrow> trusted_device trust_change" where
  "accept_change L T q now f =
     (case List.find (has_token (pa_token_id q)) (tf_pairing_tokens f) of
        None \<Rightarrow> Inl (Fail LtPairingTokenNotFound)
      | Some token \<Rightarrow>
          if pt_consumed_at token \<noteq> None then Inl (Fail LtPairingTokenConsumed)
          else if pt_expires_at token < now then Inl (Fail LtPairingTokenExpired)
          else if pt_token_hash token \<noteq> pairing_token_hash L T (pa_token_id q) (pa_pairing_code q)
          then Inl (Fail LtPairingTokenMismatch)
          else if pt_logbook_id token \<notin> set (pa_requested_logbooks q)
          then Inl (Fail (LtWrongLogbook (pa_peer_device_id q) (pt_logbook_id token)))
          else
            let device = \<lparr>td_device_id = pa_peer_device_id q, td_display_name = pa_peer_display_name q,
                  td_logbook_ids = [pt_logbook_id token], td_trusted_at = now, td_revoked_at = None,
                  td_pairing_token_id = Some (pa_token_id q),
                  td_public_key_fingerprint = pa_public_key_fingerprint q,
                  td_auth_credential_id = pa_auth_credential_id q, td_auth_rotated_at = None,
                  td_last_seen_at = None\<rparr>;
                f = f\<lparr>tf_pairing_tokens := modify_first (has_token (pa_token_id q))
                  (\<lambda>t. t\<lparr>pt_consumed_at := Some now\<rparr>) (tf_pairing_tokens f)\<rparr>
            in Inr (device, Some (upsert_trusted_device device f)))"

definition trust_peer_change :: "peer_trust_update \<Rightarrow> datetime \<Rightarrow> trusted_device trust_change" where
  "trust_peer_change q now f =
     (let device = \<lparr>td_device_id = pu_peer_device_id q, td_display_name = pu_peer_display_name q,
            td_logbook_ids = [pu_logbook_id q], td_trusted_at = now, td_revoked_at = None,
            td_pairing_token_id = pu_pairing_token_id q,
            td_public_key_fingerprint = pu_public_key_fingerprint q,
            td_auth_credential_id = Some (pu_auth_credential_id q), td_auth_rotated_at = None,
            td_last_seen_at = None\<rparr>
      in Inr (device, Some (upsert_trusted_device device f)))"

text \<open>The device, if it may act on the logbook.\<close>

definition require_trusted :: "uuid \<Rightarrow> uuid \<Rightarrow> trust_file \<Rightarrow> lan_trust_error fault + trusted_device" where
  "require_trusted i lb f =
     (case List.find (has_device i) (tf_trusted_devices f) of
        None \<Rightarrow> Inl (Fail (LtDeviceNotFound i))
      | Some d \<Rightarrow>
          if td_revoked_at d \<noteq> None then Inl (Fail (LtDeviceRevoked i))
          else if lb \<notin> set (td_logbook_ids d) then Inl (Fail (LtWrongLogbook i lb))
          else Inr d)"

definition put_device :: "uuid \<Rightarrow> trusted_device \<Rightarrow> trust_file \<Rightarrow> trust_file" where
  "put_device i d f =
     f\<lparr>tf_trusted_devices := modify_first (has_device i) (\<lambda>_. d) (tf_trusted_devices f)\<rparr>"

definition rotate_change :: "uuid \<Rightarrow> uuid \<Rightarrow> uuid \<Rightarrow> datetime \<Rightarrow> (trusted_device \<times> uuid option) trust_change" where
  "rotate_change i lb credential now f =
     and_then (require_trusted i lb f) (\<lambda>d.
       if td_auth_credential_id d = Some credential then Inl (Fail (LtCredentialUnchanged i))
       else
         let d' = d\<lparr>td_auth_credential_id := Some credential, td_auth_rotated_at := Some now\<rparr>
         in Inr ((d', td_auth_credential_id d), Some (put_device i d' f)))"

definition authorize_change :: "libs \<Rightarrow> trust_libs \<Rightarrow> chrono \<Rightarrow> uuid \<Rightarrow> uuid \<Rightarrow> string \<Rightarrow> datetime \<Rightarrow>
    trusted_device trust_change" where
  "authorize_change L T C i lb nonce now f =
     (let f = prune_expired_nonces now f; hash = replay_nonce_hash L T i nonce in
      if list_ex (\<lambda>n. rn_device_id n = i \<and> rn_nonce_hash n = hash) (tf_replay_nonces f)
      then Inl (Fail (LtReplayDetected i))
      else and_then (require_trusted i lb f) (\<lambda>d.
        and_then (add_delay C now (ch_seconds C DEFAULT_REPLAY_NONCE_TTL_SECONDS)) (\<lambda>expires_at.
          let d' = d\<lparr>td_last_seen_at := Some now\<rparr>
          in Inr (d', Some ((put_device i d' f)\<lparr>tf_replay_nonces := tf_replay_nonces f @
               [\<lparr>rn_device_id = i, rn_nonce_hash = hash, rn_seen_at = now,
                 rn_expires_at = expires_at\<rparr>]\<rparr>)))))"

definition revoke_change :: "uuid \<Rightarrow> datetime \<Rightarrow> trusted_device trust_change" where
  "revoke_change i now f =
     (case List.find (has_device i) (tf_trusted_devices f) of
        None \<Rightarrow> Inl (Fail (LtDeviceNotFound i))
      | Some d \<Rightarrow>
          let d' = d\<lparr>td_revoked_at := Some now\<rparr> in Inr (d', Some (put_device i d' f)))"

section \<open>The store on disk\<close>

abbreviation trust_op :: "trust_file codec \<Rightarrow> 'a trust_change \<Rightarrow> json_disk \<Rightarrow> (lan_trust_error fault + 'a) \<times> json_disk" where
  "trust_op \<equiv> doc_op trust_kind Fail"

definition trust_snapshot_of :: "trust_file codec \<Rightarrow> json_disk \<Rightarrow> lan_trust_error + trust_snapshot" where
  "trust_snapshot_of c d = and_then (load_doc trust_kind c d) (\<lambda>f.
     Inr \<lparr>tn_version = tf_version f, tn_pairing_tokens = map token_summary_from (tf_pairing_tokens f),
          tn_trusted_devices = tf_trusted_devices f\<rparr>)"

definition issue_pairing_token :: "libs \<Rightarrow> trust_libs \<Rightarrow> chrono \<Rightarrow> trust_file codec \<Rightarrow> uuid \<Rightarrow> uuid \<Rightarrow> string \<Rightarrow>
    bool \<Rightarrow> datetime \<Rightarrow> uuid \<Rightarrow> uuid \<Rightarrow> uuid \<Rightarrow> json_disk \<Rightarrow> (lan_trust_error fault + issued_token) \<times> json_disk" where
  "issue_pairing_token L T C c issuer lb name approved now token_id a b d =
     (if \<not> approved then (Inl (Fail LtApprovalRequired), d)
      else trust_op c (issue_change L T C issuer lb name approved now token_id a b) d)"

definition accept_pairing_token :: "libs \<Rightarrow> trust_libs \<Rightarrow> trust_file codec \<Rightarrow> pairing_acceptance \<Rightarrow> datetime \<Rightarrow>
    json_disk \<Rightarrow> (lan_trust_error fault + trusted_device) \<times> json_disk" where
  "accept_pairing_token L T c q now = trust_op c (accept_change L T q now)"

definition trust_peer_with_auth_credential :: "trust_file codec \<Rightarrow> peer_trust_update \<Rightarrow> datetime \<Rightarrow> json_disk \<Rightarrow>
    (lan_trust_error fault + trusted_device) \<times> json_disk" where
  "trust_peer_with_auth_credential c q now = trust_op c (trust_peer_change q now)"

definition rotate_auth_credential :: "trust_file codec \<Rightarrow> uuid \<Rightarrow> uuid \<Rightarrow> uuid \<Rightarrow> datetime \<Rightarrow> json_disk \<Rightarrow>
    (lan_trust_error fault + trusted_device \<times> uuid option) \<times> json_disk" where
  "rotate_auth_credential c i lb credential now = trust_op c (rotate_change i lb credential now)"

definition trusted_peer :: "trust_file codec \<Rightarrow> uuid \<Rightarrow> uuid \<Rightarrow> json_disk \<Rightarrow> lan_trust_error fault + trusted_device" where
  "trusted_peer c i lb d = and_then (map_err Fail (load_doc trust_kind c d)) (require_trusted i lb)"

definition authorize_peer :: "libs \<Rightarrow> trust_libs \<Rightarrow> chrono \<Rightarrow> trust_file codec \<Rightarrow> uuid \<Rightarrow> uuid \<Rightarrow> string \<Rightarrow> datetime \<Rightarrow>
    json_disk \<Rightarrow> (lan_trust_error fault + trusted_device) \<times> json_disk" where
  "authorize_peer L T C c i lb nonce now = trust_op c (authorize_change L T C i lb nonce now)"

definition revoke_device :: "trust_file codec \<Rightarrow> uuid \<Rightarrow> datetime \<Rightarrow> json_disk \<Rightarrow>
    (lan_trust_error fault + trusted_device) \<times> json_disk" where
  "revoke_device c i now = trust_op c (revoke_change i now)"

section \<open>The local identity\<close>

datatype identity_error = LiIo string | LiNotFound string | LiSerde string | LiUnsupportedFileVersion "32 word"

record identity_file =
  if_version :: "32 word"
  if_device_id :: uuid
  if_display_name :: string
  if_user_hash :: "string option"
  if_created_at :: datetime
  if_updated_at :: datetime

definition identity_from_file :: "identity_file \<Rightarrow> 16 word option \<Rightarrow> world \<Rightarrow> local_peer_identity \<times> world" where
  "identity_from_file f port w =
     (let (i, w) = local_peer_identity_new (if_display_name f) port w
      in (i\<lparr>li_device_id := if_device_id f, li_user_hash := if_user_hash f\<rparr>, w))"

definition normalized_display_name :: "string \<Rightarrow> string" where
  "normalized_display_name name = (if trim name = [] then ''KE8YGW Logger'' else trim name)"

text \<open>\<open>load_file\<close> reads the file whether or not it exists; a missing one is \<open>NotFound\<close>.\<close>

definition load_identity :: "identity_file codec \<Rightarrow> json_disk \<Rightarrow> identity_error + identity_file" where
  "load_identity c d =
     (case jd_file d of
        None \<Rightarrow> Inl (LiNotFound ''entity not found'')
      | Some bytes \<Rightarrow> and_then (map_err LiSerde (cd_parse c bytes)) (\<lambda>f.
          and_then (ensure (if_version f = LOCAL_SYNC_IDENTITY_FILE_VERSION)
            (LiUnsupportedFileVersion (if_version f))) (\<lambda>_. Inr f)))"

definition load_or_create_identity :: "identity_file codec \<Rightarrow> string \<Rightarrow> 16 word option \<Rightarrow> datetime \<Rightarrow>
    json_disk \<Rightarrow> world \<Rightarrow> (identity_error + local_peer_identity) \<times> json_disk \<times> world" where
  "load_or_create_identity c name port now d w =
     (case load_identity c d of
        Inr f \<Rightarrow> (let (i, w) = identity_from_file f port w in (Inr i, d, w))
      | Inl (LiNotFound _) \<Rightarrow>
          (let (i, w) = local_peer_identity_new (normalized_display_name name) port w;
               (r, d) = write_json_atomically c \<lparr>if_version = LOCAL_SYNC_IDENTITY_FILE_VERSION,
                 if_device_id = li_device_id i, if_display_name = li_display_name i,
                 if_user_hash = li_user_hash i, if_created_at = now, if_updated_at = now\<rparr> d
           in (and_then (map_err LiIo r) (\<lambda>_. Inr i), d, w))
      | Inl err \<Rightarrow> (Inl err, d, w))"

end
