(* ===== verification/Lan_Facts.thy ===== *)
theory Lan_Facts
  imports Lan_Trust Offline_Facts
begin

text \<open>
  Facts about the LAN trust store: sequences of its operations over one disk, whatever the
  disk does, the permissions the store stands for, and what each operation does to them.
\<close>

section \<open>Comparing in constant time\<close>

lemma word_xor_eq_0: "(x :: 8 word) XOR y = 0 \<longleftrightarrow> x = y"
proof
  assume "x XOR y = 0"
  then have "(x XOR y) XOR y = y" by simp
  then show "x = y" by (simp add: xor.assoc)
qed simp

lemma fold_or_xor_zero:
  "fold (\<lambda>(l, r) diff. diff OR (byte l XOR byte r)) ps a = 0 \<longleftrightarrow> a = 0 \<and> (\<forall>(l, r)\<in>set ps. byte l = byte r)"
  by (induction ps arbitrary: a) (auto simp: or_eq_0_iff word_xor_eq_0)

lemma byte_inject: "byte l = byte r \<longleftrightarrow> l = r"
proof
  assume "byte l = byte r"
  then have "unat (byte l) = unat (byte r)" by simp
  then show "l = r" by (simp add: byte_def unat_of_nat take_bit_nat_eq_self_iff)
qed simp

lemma constant_time_eq_iff: "constant_time_eq l r \<longleftrightarrow> l = r"
  by (auto simp: constant_time_eq_def fold_or_xor_zero byte_inject list_eq_iff_zip_eq split_beta)

section \<open>Sequences of operations\<close>

interpretation trust_file: document trust_kind
  by standard (simp_all add: trust_kind_def trust_file_validate_def trust_file_default_def)

datatype trust_action =
    IssueToken uuid uuid string bool datetime uuid uuid uuid
  | AcceptToken pairing_acceptance datetime
  | TrustPeer peer_trust_update datetime
  | RotateCredential uuid uuid uuid datetime
  | AuthorizePeer uuid uuid string datetime
  | RevokeDevice uuid datetime

text \<open>An action on the disk, of whose result only the success is kept, and a sequence of them.\<close>

definition unit_result :: "('e + 'a) \<times> 'd \<Rightarrow> ('e + unit) \<times> 'd" where
  "unit_result = (\<lambda>(r, d). (and_then r (\<lambda>_. Inr ()), d))"

fun trust_act :: "libs \<Rightarrow> trust_libs \<Rightarrow> chrono \<Rightarrow> trust_file codec \<Rightarrow> trust_action \<Rightarrow> json_disk \<Rightarrow>
    (lan_trust_error fault + unit) \<times> json_disk" where
  "trust_act L T C c (IssueToken issuer lb name approved now token_id a b) d =
     unit_result (issue_pairing_token L T C c issuer lb name approved now token_id a b d)"
| "trust_act L T C c (AcceptToken q now) d = unit_result (accept_pairing_token L T c q now d)"
| "trust_act L T C c (TrustPeer q now) d = unit_result (trust_peer_with_auth_credential c q now d)"
| "trust_act L T C c (RotateCredential i lb credential now) d = unit_result (rotate_auth_credential c i lb credential now d)"
| "trust_act L T C c (AuthorizePeer i lb nonce now) d = unit_result (authorize_peer L T C c i lb nonce now d)"
| "trust_act L T C c (RevokeDevice i now) d = unit_result (revoke_device c i now d)"

fun trust_run :: "libs \<Rightarrow> trust_libs \<Rightarrow> chrono \<Rightarrow> trust_file codec \<Rightarrow> trust_action list \<Rightarrow> json_disk \<Rightarrow>
    (lan_trust_error fault + unit) list \<times> json_disk" where
  "trust_run L T C c [] d = ([], d)"
| "trust_run L T C c (a # as) d =
     (let (r, d) = trust_act L T C c a d; (rs, d) = trust_run L T C c as d in (r # rs, d))"

text \<open>What an action does to the document.\<close>

definition forget :: "('e + 'a \<times> 'f option) \<Rightarrow> 'e + unit \<times> 'f option" where
  "forget r = and_then r (\<lambda>(_, f'). Inr ((), f'))"

fun action_change :: "libs \<Rightarrow> trust_libs \<Rightarrow> chrono \<Rightarrow> trust_action \<Rightarrow> unit trust_change" where
  "action_change L T C (IssueToken issuer lb name approved now token_id a b) f =
     forget (issue_change L T C issuer lb name approved now token_id a b f)"
| "action_change L T C (AcceptToken q now) f = forget (accept_change L T q now f)"
| "action_change L T C (TrustPeer q now) f = forget (trust_peer_change q now f)"
| "action_change L T C (RotateCredential i lb credential now) f = forget (rotate_change i lb credential now f)"
| "action_change L T C (AuthorizePeer i lb nonce now) f = forget (authorize_change L T C i lb nonce now f)"
| "action_change L T C (RevokeDevice i now) f = forget (revoke_change i now f)"

lemma unit_result_doc_op: "unit_result (doc_op k lift c g d) = doc_op k lift c (\<lambda>f. forget (g f)) d"
  by (auto simp: unit_result_def doc_op_def forget_def split: sum.split prod.split option.split)

lemma action_change_as_function:
  "action_change L T C (IssueToken issuer lb name approved now i a b) =
     (\<lambda>f. forget (issue_change L T C issuer lb name approved now i a b f))"
  "action_change L T C (AcceptToken q now) = (\<lambda>f. forget (accept_change L T q now f))"
  "action_change L T C (TrustPeer u now) = (\<lambda>f. forget (trust_peer_change u now f))"
  "action_change L T C (RotateCredential i lb b now) = (\<lambda>f. forget (rotate_change i lb b now f))"
  "action_change L T C (AuthorizePeer i lb nonce now) = (\<lambda>f. forget (authorize_change L T C i lb nonce now f))"
  "action_change L T C (RevokeDevice i now) = (\<lambda>f. forget (revoke_change i now f))"
  by (auto simp del: fun_eq_iff intro!: ext)

definition approved_issue :: "trust_action \<Rightarrow> bool" where
  "approved_issue a = (case a of IssueToken _ _ _ approved _ _ _ _ \<Rightarrow> approved | _ \<Rightarrow> True)"

lemma trust_act_doc_op:
  assumes "approved_issue a"
  shows "trust_act L T C c a d = doc_op trust_kind Fail c (action_change L T C a) d"
  using assms
  by (cases a) (simp_all add: approved_issue_def issue_pairing_token_def accept_pairing_token_def
    trust_peer_with_auth_credential_def rotate_auth_credential_def authorize_peer_def revoke_device_def
    unit_result_doc_op action_change_as_function del: action_change.simps)

lemma trust_act_unapproved:
  "\<not> approved_issue a \<Longrightarrow> trust_act L T C c a d = (Inl (Fail LtApprovalRequired), d)"
  by (cases a) (simp_all add: approved_issue_def issue_pairing_token_def unit_result_def)

lemma trust_act_eq:
  "trust_act L T C c a d = doc_op trust_kind Fail c (action_change L T C a) d \<or>
   trust_act L T C c a d = (Inl (Fail LtApprovalRequired), d)"
  using trust_act_doc_op trust_act_unapproved by blast

text \<open>The documents the actions try to write.\<close>

definition doc_saves :: "('f, 'e) doc_kind \<Rightarrow> 'f codec \<Rightarrow> ('f \<Rightarrow> 'x + 'a \<times> 'f option) \<Rightarrow> json_disk \<Rightarrow> 'f list" where
  "doc_saves k c g d = (case load_doc k c d of Inl _ \<Rightarrow> [] | Inr f \<Rightarrow>
     (case g f of Inr (_, Some f') \<Rightarrow> [dk_sorted k f'] | _ \<Rightarrow> []))"

fun trust_saves :: "libs \<Rightarrow> trust_libs \<Rightarrow> chrono \<Rightarrow> trust_file codec \<Rightarrow> trust_action list \<Rightarrow> json_disk \<Rightarrow> trust_file list" where
  "trust_saves L T C c [] d = []"
| "trust_saves L T C c (a # as) d = doc_saves trust_kind c (action_change L T C a) d @
     trust_saves L T C c as (snd (trust_act L T C c a d))"

text \<open>A property of the document, if one is read, that the operations keep holds however the
  writes end, when it holds of an absent document, or no write loses the document.\<close>

definition doc_all :: "('f, 'e) doc_kind \<Rightarrow> 'f codec \<Rightarrow> ('f \<Rightarrow> bool) \<Rightarrow> json_disk \<Rightarrow> bool" where
  "doc_all k c P d = (\<forall>f. load_doc k c d = Inr f \<longrightarrow> P f)"

definition keeps_file :: "json_disk \<Rightarrow> bool" where
  "keeps_file d = list_all (\<lambda>x. case x of Some (StopRemoved, _) \<Rightarrow> False | _ \<Rightarrow> True) (jd_io d)"

context document
begin

lemma doc_all_written:
  assumes "codec_reads c f" and "dk_validate k f = Inr () \<Longrightarrow> P (dk_sorted k f)"
  shows "doc_all k c P (written (cd_print c f @ newline) d)"
  using assms by (auto simp: doc_all_def load_doc_def written_def codec_reads_def)

lemma doc_all_op:
  assumes "doc_all k c P d" and "P (dk_default k) \<or> keeps_file d"
    and "\<And>f. f \<in> set (doc_saves k c g d) \<Longrightarrow> codec_reads c f"
    and "\<And>f a f'. P f \<Longrightarrow> g f = Inr (a, Some f') \<Longrightarrow> P (dk_sorted k f')"
  shows "doc_all k c P (snd (doc_op k lift c g d))"
    "P (dk_default k) \<or> keeps_file (snd (doc_op k lift c g d))"
proof -
  have "doc_all k c P (snd (doc_op k lift c g d)) \<and> (P (dk_default k) \<or> keeps_file (snd (doc_op k lift c g d)))"
  proof (cases "load_doc k c d")
    case (Inl e)
    with assms(1,2) show ?thesis by (simp add: doc_op_def)
  next
    case f: (Inr f)
    show ?thesis
    proof (cases "\<exists>a f'. g f = Inr (a, Some f') \<and> dk_validate k (dk_sorted k f') = Inr ()")
      case False
      then have "snd (doc_op k lift c g d) = d" using f
        by (auto simp: doc_op_def save_doc_def split: sum.split option.split)
      with assms(1,2) show ?thesis by simp
    next
      case True
      then obtain a f' where g: "g f = Inr (a, Some f')" "dk_validate k (dk_sorted k f') = Inr ()" by blast
      define f1 where "f1 = dk_sorted k f'"
      have f1: "codec_reads c f1" "P f1" "dk_sorted k f1 = f1" "dk_validate k f1 = Inr ()"
        using assms(1,3,4) f g by (auto simp: f1_def doc_saves_def doc_all_def sorted_sorted)
      note w = doc_all_written [OF f1(1), of P]
      have e: "snd (doc_op k lift c g d) = snd (write_json_atomically c f1 d)"
        using f g by (auto simp: doc_op_def save_doc_def f1_def split: prod.split sum.split)
      have io: "doc_all k c P (d\<lparr>jd_io := io\<rparr>)" "doc_all k c P (d\<lparr>jd_io := io, jd_temp := t\<rparr>)"
        "doc_all k c P (d\<lparr>jd_io := io, jd_temp := t, jd_file := None\<rparr>) \<longleftrightarrow> P (dk_default k)" for io t
        using assms(1) by (simp_all add: doc_all_def load_doc_def)
      show ?thesis
        unfolding e write_json_atomically_def Let_def
        using assms(2) f1 w io by (cases "jd_io d")
          (auto simp: keeps_file_def written_def split: option.splits prod.splits write_stop.splits)
    qed
  qed
  then show "doc_all k c P (snd (doc_op k lift c g d))"
    "P (dk_default k) \<or> keeps_file (snd (doc_op k lift c g d))" by simp_all
qed

lemma doc_all_result:
  assumes "doc_all k c P d" and "fst (doc_op k lift c g d) = Inr a"
  shows "\<exists>f f'. P f \<and> load_doc k c d = Inr f \<and> g f = Inr (a, f')"
  using assms by (auto simp: doc_all_def doc_op_def split: sum.splits prod.splits option.splits)

end

lemma trust_sorted [simp]: "dk_sorted trust_kind f = f"
  by (simp add: trust_kind_def)

lemma trust_act_inv:
  assumes "doc_all trust_kind c P d" and "P trust_file_default \<or> keeps_file d"
    and "\<And>f. f \<in> set (doc_saves trust_kind c (action_change L T C a) d) \<Longrightarrow> codec_reads c f"
    and "\<And>f f'. P f \<Longrightarrow> action_change L T C a f = Inr ((), Some f') \<Longrightarrow> P f'"
  shows "doc_all trust_kind c P (snd (trust_act L T C c a d))"
    "P trust_file_default \<or> keeps_file (snd (trust_act L T C c a d))"
    "fst (trust_act L T C c a d) = Inr () \<Longrightarrow> \<exists>f f'. P f \<and> action_change L T C a f = Inr ((), f')"
proof -
  have default: "dk_default trust_kind = trust_file_default" by (simp add: trust_kind_def)
  note op = trust_file.doc_all_op [where lift = Fail and g = "action_change L T C a", OF assms(1) _ assms(3),
    unfolded default trust_sorted, OF assms(2)]
  have kept: "P f \<Longrightarrow> action_change L T C a f = Inr (u, Some f') \<Longrightarrow> P f'" for f u f' using assms(4) by simp
  show "doc_all trust_kind c P (snd (trust_act L T C c a d))"
    using trust_act_eq [of L T C c a d] op(1) [OF _ kept] assms(1) by auto
  show "P trust_file_default \<or> keeps_file (snd (trust_act L T C c a d))"
    using trust_act_eq [of L T C c a d] op(2) [OF _ kept] assms(2) by auto
  show "\<exists>f f'. P f \<and> action_change L T C a f = Inr ((), f')" if "fst (trust_act L T C c a d) = Inr ()"
    using trust_act_eq [of L T C c a d] trust_file.doc_all_result [OF assms(1), of Fail "action_change L T C a" "()"] that
    by fastforce
qed

text \<open>What holds of the document before every action of a sequence.\<close>

lemma trust_run_inv:
  assumes "doc_all trust_kind c P d" and "P trust_file_default \<or> keeps_file d"
    and "\<forall>f\<in>set (trust_saves L T C c as d). codec_reads c f"
    and "\<And>a f f'. a \<in> set as \<Longrightarrow> P f \<Longrightarrow> action_change L T C a f = Inr ((), Some f') \<Longrightarrow> P f'"
    and "(a, Inr ()) \<in> set (zip as (fst (trust_run L T C c as d)))"
  shows "\<exists>f f'. P f \<and> action_change L T C a f = Inr ((), f')"
  using assms
proof (induction as arbitrary: d)
  case (Cons b as)
  note act = trust_act_inv [where a = b and L = L and T = T and C = C, OF Cons.prems(1,2)]
  have codec: "codec_reads c f" if "f \<in> set (doc_saves trust_kind c (action_change L T C b) d)" for f
    using Cons.prems(3) that by simp
  have step: "P f \<Longrightarrow> action_change L T C b f = Inr ((), Some f') \<Longrightarrow> P f'" for f f'
    by (rule Cons.prems(4) [of b]) simp_all
  have kept: "doc_all trust_kind c P (snd (trust_act L T C c b d))"
    "P trust_file_default \<or> keeps_file (snd (trust_act L T C c b d))"
    by (rule act, erule codec, erule (1) step)+
  show ?case
  proof (cases "(a, Inr ()) \<in> set (zip as (fst (trust_run L T C c as (snd (trust_act L T C c b d)))))")
    case True
    have "\<forall>f\<in>set (trust_saves L T C c as (snd (trust_act L T C c b d))). codec_reads c f"
      using Cons.prems(3) by simp
    then show ?thesis by (rule Cons.IH [OF kept _ _ True]) (rule Cons.prems(4), simp_all)
  next
    case False
    obtain r d1 where b: "trust_act L T C c b d = (r, d1)" by fastforce
    with Cons.prems(5) False have "a = b" "r = Inr ()"
      by (cases "trust_run L T C c as d1"; auto)+
    then show ?thesis using act(3) [OF codec step] b by simp
  qed
qed simp

section \<open>What a document permits\<close>

text \<open>The devices known, with the logbooks each may act on: the contract of the store.\<close>

definition grants :: "trust_file \<Rightarrow> uuid \<Rightarrow> uuid set option" where
  "grants f i = map_option (\<lambda>d. if td_revoked_at d = None then set (td_logbook_ids d) else {})
     (List.find (has_device i) (tf_trusted_devices f))"

lemma find_modify_first:
  assumes "\<And>x. p x \<Longrightarrow> p (g x)"
  shows "List.find p (modify_first p g xs) = map_option g (List.find p xs)"
  using assms by (induction xs) auto

lemma find_modify_other:
  assumes "\<And>x. p x \<Longrightarrow> \<not> q x" and "\<And>x. p x \<Longrightarrow> \<not> q (g x)"
  shows "List.find q (modify_first p g xs) = List.find q xs"
  using assms by (induction xs) auto

lemma find_device_upsert:
  "List.find (has_device i) (tf_trusted_devices (upsert_trusted_device d f)) =
     (if td_device_id d = i then Some d else List.find (has_device i) (tf_trusted_devices f))"
proof -
  have ex: "List.find p xs = None \<longleftrightarrow> \<not> list_ex p xs" for p and xs :: "trusted_device list"
    by (auto simp: find_None_iff list_ex_iff)
  have app: "List.find p (xs @ [x]) = (case List.find p xs of Some y \<Rightarrow> Some y | None \<Rightarrow> if p x then Some x else None)"
    for p and xs :: "trusted_device list" and x by (induction xs) auto
  have "\<exists>y. List.find p xs = Some y" if "list_ex p xs" for p and xs :: "trusted_device list"
    using ex [of p xs] that by (cases "List.find p xs") auto
  moreover have "List.find p xs = None" if "\<not> list_ex p xs" for p and xs :: "trusted_device list"
    using ex that by blast
  ultimately show ?thesis
    by (cases "td_device_id d = i"; cases "list_ex (has_device (td_device_id d)) (tf_trusted_devices f)")
      (auto simp: upsert_trusted_device_def has_device_def [abs_def] find_modify_first find_modify_other app
        split: option.split)
qed

lemma find_device_put:
  assumes "td_device_id d = i"
  shows "List.find (has_device j) (tf_trusted_devices (put_device i d f)) =
    (if j = i then map_option (\<lambda>_. d) (List.find (has_device i) (tf_trusted_devices f))
     else List.find (has_device j) (tf_trusted_devices f))"
  using assms by (auto simp: put_device_def has_device_def [abs_def] find_modify_first find_modify_other)

lemma put_device_rest [simp]:
  "tf_pairing_tokens (put_device i d f) = tf_pairing_tokens f"
  "tf_replay_nonces (put_device i d f) = tf_replay_nonces f"
  "tf_pairing_tokens (upsert_trusted_device d f) = tf_pairing_tokens f"
  "tf_replay_nonces (upsert_trusted_device d f) = tf_replay_nonces f"
  "tf_trusted_devices (prune_expired_nonces now f) = tf_trusted_devices f"
  "tf_pairing_tokens (prune_expired_nonces now f) = tf_pairing_tokens f"
  by (simp_all add: put_device_def upsert_trusted_device_def prune_expired_nonces_def)

lemma require_trusted_iff:
  "require_trusted i lb f = Inr d \<longleftrightarrow>
     List.find (has_device i) (tf_trusted_devices f) = Some d \<and> td_revoked_at d = None \<and> lb \<in> set (td_logbook_ids d)"
  by (auto simp: require_trusted_def split: option.split)

lemma require_trusted_grants:
  "(\<exists>d. require_trusted i lb f = Inr d) \<longleftrightarrow> (\<exists>s. grants f i = Some s \<and> lb \<in> s)"
  by (cases "List.find (has_device i) (tf_trusted_devices f)") (auto simp: require_trusted_iff grants_def)

lemma require_trusted_device: "require_trusted i lb f = Inr d \<Longrightarrow> td_device_id d = i"
  by (auto simp: require_trusted_iff has_device_def dest: find_SomeD)

lemma forget_Inr [simp]: "forget r = Inr (u, f') \<longleftrightarrow> (\<exists>a. r = Inr (a, f'))"
  by (cases r) (auto simp: forget_def)

text \<open>What an action asks of the permissions, and what it makes of them. \<open>lb\<close> is the logbook of
  the token accepted.\<close>

fun grants_step :: "trust_action \<Rightarrow> uuid \<Rightarrow> (uuid \<Rightarrow> uuid set option) \<Rightarrow> (uuid \<Rightarrow> uuid set option) option" where
  "grants_step (IssueToken _ _ _ approved _ _ _ _) lb g = (if approved then Some g else None)"
| "grants_step (AcceptToken q _) lb g =
     (if lb \<in> set (pa_requested_logbooks q) then Some (g(pa_peer_device_id q \<mapsto> {lb})) else None)"
| "grants_step (TrustPeer u _) lb g = Some (g(pu_peer_device_id u \<mapsto> {pu_logbook_id u}))"
| "grants_step (RotateCredential i l _ _) lb g =
     (case g i of None \<Rightarrow> None | Some s \<Rightarrow> if l \<in> s then Some g else None)"
| "grants_step (AuthorizePeer i l _ _) lb g =
     (case g i of None \<Rightarrow> None | Some s \<Rightarrow> if l \<in> s then Some g else None)"
| "grants_step (RevokeDevice i _) lb g = (case g i of None \<Rightarrow> None | Some s \<Rightarrow> Some (g(i \<mapsto> {})))"

lemma grants_upsert:
  "grants (upsert_trusted_device d f) =
     (grants f)(td_device_id d \<mapsto> (if td_revoked_at d = None then set (td_logbook_ids d) else {}))"
  by (rule ext) (simp add: grants_def find_device_upsert)

lemma grants_put:
  assumes "List.find (has_device i) (tf_trusted_devices f) = Some d0" and "td_device_id d = i"
  shows "grants (put_device i d f) = (grants f)(i \<mapsto> (if td_revoked_at d = None then set (td_logbook_ids d) else {}))"
  using assms by (intro ext) (simp add: grants_def find_device_put)

lemma grants_same:
  "tf_trusted_devices f = tf_trusted_devices g \<Longrightarrow> grants f = grants g"
  by (rule ext) (simp add: grants_def)

lemma grants_kept:
  assumes "List.find (has_device i) (tf_trusted_devices f) = Some d0" and "td_device_id d = i"
    and "td_revoked_at d = td_revoked_at d0" and "td_logbook_ids d = td_logbook_ids d0"
  shows "grants (put_device i d f) = grants f"
  using assms by (intro ext) (simp add: grants_def find_device_put)

text \<open>The logbook of the token an action accepts.\<close>

definition token_logbook :: "trust_file \<Rightarrow> trust_action \<Rightarrow> uuid" where
  "token_logbook f a = (case a of
     AcceptToken q _ \<Rightarrow> (case List.find (has_token (pa_token_id q)) (tf_pairing_tokens f) of
       Some t \<Rightarrow> pt_logbook_id t | None \<Rightarrow> 0)
   | _ \<Rightarrow> 0)"

lemma action_refines:
  assumes "action_change L T C a f = Inr (u, Some f')" and "approved_issue a"
  shows "grants_step a (token_logbook f a) (grants f) = Some (grants f')"
proof (cases a)
  case (IssueToken issuer lb name approved now i x y)
  with assms show ?thesis
    by (auto simp: issue_change_def Let_def approved_issue_def intro: grants_same)
next
  case (AcceptToken q now)
  then show ?thesis using assms
    by (auto simp: accept_change_def token_logbook_def Let_def grants_upsert split: option.splits if_splits
      intro!: arg_cong [where f = "\<lambda>g. g(_ \<mapsto> _)"] grants_same)
next
  case (TrustPeer q now)
  then show ?thesis using assms by (auto simp: trust_peer_change_def Let_def grants_upsert)
next
  case (RotateCredential i lb credential now)
  with assms obtain d where d: "require_trusted i lb f = Inr d"
    and f': "f' = put_device i (d\<lparr>td_auth_credential_id := Some credential, td_auth_rotated_at := Some now\<rparr>) f"
    by (auto simp: rotate_change_def Let_def split: if_splits)
  from d require_trusted_device [OF d] have "grants f' = grants f"
    unfolding f' by (intro grants_kept [where ?d0.0 = d]) (simp_all add: require_trusted_iff)
  moreover obtain s where "grants f i = Some s" "lb \<in> s" using d require_trusted_grants by blast
  ultimately show ?thesis by (simp add: RotateCredential)
next
  case (AuthorizePeer i lb nonce now)
  with assms obtain d ns where d: "require_trusted i lb (prune_expired_nonces now f) = Inr d"
    and f': "f' = (put_device i (d\<lparr>td_last_seen_at := Some now\<rparr>) (prune_expired_nonces now f))\<lparr>tf_replay_nonces := ns\<rparr>"
    by (auto simp: authorize_change_def Let_def split: if_splits)
  have same: "grants (prune_expired_nonces now f) = grants f" by (rule grants_same) simp
  have "grants f' = grants (put_device i (d\<lparr>td_last_seen_at := Some now\<rparr>) (prune_expired_nonces now f))"
    unfolding f' by (rule grants_same) simp
  also have "\<dots> = grants (prune_expired_nonces now f)"
    by (rule grants_kept [where ?d0.0 = d])
      (use d require_trusted_device [OF d] in \<open>simp_all add: require_trusted_iff\<close>)
  finally have "grants f' = grants f" by (simp add: same)
  moreover obtain s where "grants f i = Some s" "lb \<in> s" using d require_trusted_grants same by metis
  ultimately show ?thesis by (simp add: AuthorizePeer)
next
  case (RevokeDevice i now)
  with assms obtain d where d: "List.find (has_device i) (tf_trusted_devices f) = Some d"
    and f': "f' = put_device i (d\<lparr>td_revoked_at := Some now\<rparr>) f"
    by (auto simp: revoke_change_def Let_def split: option.splits)
  have "td_device_id d = i" using find_SomeD [OF d] by (simp add: has_device_def)
  with grants_put [OF d, of "d\<lparr>td_revoked_at := Some now\<rparr>"] d show ?thesis
    by (auto simp: RevokeDevice f' grants_def)
qed

text \<open>Every action that succeeds writes a document.\<close>

lemma action_writes:
  assumes "action_change L T C a f = Inr (u, x)"
  shows "\<exists>f'. x = Some f'"
proof (cases a)
  case (AcceptToken q now)
  with assms show ?thesis by (auto simp: accept_change_def Let_def split: option.splits if_splits)
qed (use assms in \<open>auto simp: issue_change_def trust_peer_change_def rotate_change_def authorize_change_def
  revoke_change_def Let_def split: option.splits if_splits\<close>)

section \<open>Tokens, revocations and nonces over time\<close>

definition token_spent :: "uuid \<Rightarrow> trust_file \<Rightarrow> bool" where
  "token_spent i f = (case List.find (has_token i) (tf_pairing_tokens f) of
     None \<Rightarrow> True | Some t \<Rightarrow> pt_consumed_at t \<noteq> None)"

definition issues_token :: "uuid \<Rightarrow> trust_action \<Rightarrow> bool" where
  "issues_token i a = (case a of IssueToken _ _ _ _ _ j _ _ \<Rightarrow> j = i | _ \<Rightarrow> False)"

lemma find_append: "List.find p (xs @ ys) = (case List.find p xs of None \<Rightarrow> List.find p ys | Some x \<Rightarrow> Some x)"
  by (induction xs) auto

lemma find_token_consume:
  "List.find (has_token i) (modify_first (has_token j) (\<lambda>t. t\<lparr>pt_consumed_at := Some now\<rparr>) ts) =
     (if i = j then map_option (\<lambda>t. t\<lparr>pt_consumed_at := Some now\<rparr>) (List.find (has_token i) ts)
      else List.find (has_token i) ts)"
  by (auto simp: has_token_def [abs_def] find_modify_first find_modify_other)

lemma tokens_kept:
  assumes "action_change L T C a f = Inr (u, Some f')"
  shows "tf_pairing_tokens f' = (case a of
      IssueToken issuer lb name approved now i x y \<Rightarrow> tf_pairing_tokens f'
    | AcceptToken q now \<Rightarrow> modify_first (has_token (pa_token_id q)) (\<lambda>t. t\<lparr>pt_consumed_at := Some now\<rparr>) (tf_pairing_tokens f)
    | _ \<Rightarrow> tf_pairing_tokens f)"
  using assms
proof (cases a)
  case (AcceptToken q now)
  with assms show ?thesis by (auto simp: accept_change_def Let_def split: option.splits if_splits)
qed (auto simp: trust_peer_change_def rotate_change_def authorize_change_def
  revoke_change_def Let_def split: option.splits if_splits)

lemma token_spent_kept:
  assumes "token_spent i f" and "action_change L T C a f = Inr (u, Some f')" and "\<not> issues_token i a"
  shows "token_spent i f'"
proof (cases a)
  case (IssueToken issuer lb name approved now j x y)
  with assms show ?thesis
    by (auto simp: issue_change_def Let_def token_spent_def issues_token_def find_append has_token_def split: option.splits)
next
  case (AcceptToken q now)
  with assms(1) tokens_kept [OF assms(2)] show ?thesis
    by (auto simp: token_spent_def find_token_consume split: option.splits)
qed (use assms(1) tokens_kept [OF assms(2)] in \<open>simp_all add: token_spent_def\<close>)

lemma accept_spends:
  assumes "action_change L T C (AcceptToken q now) f = Inr (u, Some f')"
  shows "token_spent (pa_token_id q) f'" "\<not> token_spent (pa_token_id q) f"
proof -
  from assms obtain t where "List.find (has_token (pa_token_id q)) (tf_pairing_tokens f) = Some t" "pt_consumed_at t = None"
    by (auto simp: accept_change_def Let_def split: option.splits if_splits)
  with tokens_kept [OF assms] show "token_spent (pa_token_id q) f'" "\<not> token_spent (pa_token_id q) f"
    by (simp_all add: token_spent_def find_token_consume)
qed

text \<open>A device that may act on nothing: revoked, or unknown.\<close>

definition barred :: "uuid \<Rightarrow> trust_file \<Rightarrow> bool" where
  "barred i f = (grants f i \<in> {None, Some {}})"

definition admits :: "uuid \<Rightarrow> trust_action \<Rightarrow> bool" where
  "admits i a = (case a of AcceptToken q _ \<Rightarrow> pa_peer_device_id q = i
     | TrustPeer u _ \<Rightarrow> pu_peer_device_id u = i | _ \<Rightarrow> False)"

definition acts_as :: "uuid \<Rightarrow> trust_action \<Rightarrow> bool" where
  "acts_as i a = (case a of AuthorizePeer j _ _ _ \<Rightarrow> j = i | RotateCredential j _ _ _ \<Rightarrow> j = i | _ \<Rightarrow> False)"

lemma issue_kept: "action_change L T C (IssueToken issuer lb name approved now i x y) f = Inr (u, Some f') \<Longrightarrow> grants f' = grants f"
  by (auto simp: issue_change_def Let_def intro: grants_same)

lemma barred_kept:
  assumes "barred i f" and "action_change L T C a f = Inr (u, Some f')" and "\<not> admits i a"
  shows "barred i f'"
proof (cases "approved_issue a")
  case True
  from action_refines [OF assms(2) this] assms(1,3) show ?thesis
    by (cases a) (auto simp: barred_def admits_def split: if_splits option.splits dest!: sym [of _ "grants f'"])
next
  case False
  with assms(1,2) show ?thesis by (cases a) (auto simp: approved_issue_def barred_def dest: issue_kept simp del: action_change.simps)
qed

lemma barred_refused:
  assumes "barred i f" and "acts_as i a"
  shows "action_change L T C a f \<noteq> Inr (u, x)"
proof
  assume s: "action_change L T C a f = Inr (u, x)"
  from action_writes [OF s] obtain f' where f': "x = Some f'" by blast
  have "approved_issue a" using assms(2) by (cases a) (simp_all add: acts_as_def approved_issue_def)
  from action_refines [OF s [unfolded f'] this] assms show False
    by (cases a) (auto simp: barred_def acts_as_def)
qed

lemma revoke_bars:
  assumes "action_change L T C (RevokeDevice i now) f = Inr (u, Some f')"
  shows "barred i f'"
  using action_refines [OF assms] by (auto simp: barred_def approved_issue_def split: option.splits dest!: sym [of _ "grants f'"])

text \<open>A nonce remembered until \<open>t\<close>.\<close>

definition nonce_until :: "uuid \<Rightarrow> string \<Rightarrow> datetime \<Rightarrow> trust_file \<Rightarrow> bool" where
  "nonce_until i h t f = list_ex (\<lambda>n. rn_device_id n = i \<and> rn_nonce_hash n = h \<and> t \<le> rn_expires_at n) (tf_replay_nonces f)"

definition authorizes_by :: "datetime \<Rightarrow> trust_action \<Rightarrow> bool" where
  "authorizes_by t a = (case a of AuthorizePeer _ _ _ now \<Rightarrow> now \<le> t | _ \<Rightarrow> True)"

lemma nonce_kept:
  assumes "nonce_until i h t f" and "action_change L T C a f = Inr (u, Some f')" and "authorizes_by t a"
  shows "nonce_until i h t f'"
proof (cases a)
  case (AuthorizePeer j lb nonce now)
  with assms(2) obtain n where "tf_replay_nonces f' = tf_replay_nonces (prune_expired_nonces now f) @ [n]"
    by (auto simp: authorize_change_def Let_def split: if_splits)
  with assms(1,3) AuthorizePeer show ?thesis
    by (fastforce simp: nonce_until_def authorizes_by_def prune_expired_nonces_def list_ex_iff)
next
  case (AcceptToken q now)
  with assms(1,2) show ?thesis
    by (auto simp: accept_change_def Let_def nonce_until_def split: option.splits if_splits)
qed (use assms(1,2) in \<open>auto simp: issue_change_def trust_peer_change_def rotate_change_def
  revoke_change_def Let_def nonce_until_def split: option.splits if_splits\<close>)

lemma nonce_refused:
  assumes "nonce_until i (replay_nonce_hash L T i nonce) t f" and "now \<le> t"
  shows "action_change L T C (AuthorizePeer i lb nonce now) f \<noteq> Inr (u, x)"
proof -
  from assms have "list_ex (\<lambda>n. rn_device_id n = i \<and> rn_nonce_hash n = replay_nonce_hash L T i nonce)
      (tf_replay_nonces (prune_expired_nonces now f))"
    by (fastforce simp: nonce_until_def prune_expired_nonces_def list_ex_iff)
  then show ?thesis by (simp add: authorize_change_def Let_def forget_def)
qed

lemma nonce_lifetime:
  assumes "chrono_ok C" and "\<bar>now\<bar> \<le> 10 ^ 24"
  shows "add_delay C now (ch_seconds C DEFAULT_REPLAY_NONCE_TTL_SECONDS) = Inr (now + 600 * 1000000000)"
  using assms by (simp add: add_delay_def chrono_ok_def DEFAULT_REPLAY_NONCE_TTL_SECONDS_def)

lemma authorize_remembers:
  assumes "chrono_ok C" and "\<bar>now\<bar> \<le> 10 ^ 24"
    and "action_change L T C (AuthorizePeer i lb nonce now) f = Inr (u, Some f')"
  shows "nonce_until i (replay_nonce_hash L T i nonce) (now + 600 * 1000000000) f'"
  using assms(3)
  by (auto simp: nonce_lifetime [OF assms(1,2)] authorize_change_def Let_def nonce_until_def split: if_splits)

end
