(* ===== verification/Conflict_Facts.thy ===== *)
theory Conflict_Facts
  imports Conflict_Review Lan_Facts
begin

text \<open>
  Facts about conflict reports and reviews: when a report names no conflict, and what every
  stored review satisfies.
\<close>

section \<open>Reports\<close>

lemma push_new_set: "set (push_new is acc) = set is \<union> set acc"
  by (induction "is" arbitrary: acc) (auto simp: push_new_def)

lemma push_new_distinct: "distinct acc \<Longrightarrow> distinct (push_new is acc)"
  by (induction "is" arbitrary: acc) (auto simp: push_new_def)

lemma push_new_Nil: "push_new is acc = [] \<longleftrightarrow> is = [] \<and> acc = []"
  using push_new_set [of "is" acc] by (metis Un_empty set_empty)

definition touches :: "libs \<Rightarrow> (string \<Rightarrow> bool) \<Rightarrow> event_metadata \<Rightarrow> offline_mutation \<Rightarrow> bool" where
  "touches L kind e m = (em_entity_id e \<noteq> None \<and> mutation_entity_id L m = em_entity_id e \<and> kind (om_operation_type m))"

lemma related_operations_set:
  "em_entity_id e = Some i \<Longrightarrow> set (related_operations L kind pending i) = om_operation_id ` {m \<in> set pending. touches L kind e m}"
  by (auto simp: related_operations_def touches_def)

lemma entity_loop_spec:
  "fst (entity_loop L kind pending es (a, b)) = a @ filter (\<lambda>e. \<exists>m\<in>set pending. touches L kind e m) es"
  "set (snd (entity_loop L kind pending es (a, b))) =
     set b \<union> om_operation_id ` {m \<in> set pending. \<exists>e\<in>set es. touches L kind e m}"
proof (induction es arbitrary: a b)
  case (Cons e es)
  {
    case 1
    show ?case
    proof (cases "em_entity_id e")
      case None
      with Cons show ?thesis by (simp add: touches_def)
    next
      case (Some i)
      from related_operations_set [OF Some, of L kind pending] Cons Some show ?thesis
        by (auto split: list.split)
    qed
  next
    case 2
    show ?case
    proof (cases "em_entity_id e")
      case None
      with Cons show ?thesis by (auto simp: touches_def)
    next
      case (Some i)
      from related_operations_set [OF Some, of L kind pending] Cons Some show ?thesis
        by (auto simp: push_new_set split: list.split)
    qed
  }
qed auto

lemma entity_conflict_Nil:
  assumes "entity_loop L kind pending es ([], []) = (events, operations)"
  shows "entity_conflict k message events operations options = [] \<longleftrightarrow>
    (\<forall>e\<in>set es. \<forall>m\<in>set pending. \<not> touches L kind e m)"
proof -
  have e: "events = filter (\<lambda>e. \<exists>m\<in>set pending. touches L kind e m) es"
    "set operations = om_operation_id ` {m \<in> set pending. \<exists>e\<in>set es. touches L kind e m}"
    using entity_loop_spec [of L kind pending es "[]" "[]"] assms by simp_all
  have "operations = [] \<longleftrightarrow> {m \<in> set pending. \<exists>e\<in>set es. touches L kind e m} = {}"
    unfolding image_is_empty [of om_operation_id, symmetric] e(2) [symmetric] by simp
  then have "operations = [] \<longleftrightarrow> (\<forall>e\<in>set es. \<forall>m\<in>set pending. \<not> touches L kind e m)" by blast
  moreover have "events = [] \<longleftrightarrow> (\<forall>e\<in>set es. \<forall>m\<in>set pending. \<not> touches L kind e m)"
    unfolding e(1) filter_empty_conv by blast
  ultimately show ?thesis unfolding entity_conflict_def by simp
qed

lemma unsatisfied_unresolved:
  assumes "\<not> dependency_satisfied {} {} d" and "d \<in> set (om_dependencies m)"
  shows "d \<in> set (unresolved_dependencies m)"
  using assms by (cases "dep_minimum_schema_version d"; cases "dep_operation_id d"; cases "dep_event_hash d")
    (simp_all add: unresolved_dependencies_def dependency_satisfied_def)

lemma dependency_conflict_Nil:
  "dependency_conflict L m = [] \<longleftrightarrow> dependencies_satisfied {} {} m"
proof -
  have "unresolved_dependencies m \<noteq> []" if "\<not> dependencies_satisfied {} {} m"
    using that unsatisfied_unresolved [of _ m] by (auto simp: dependencies_satisfied_def list_all_iff)
  then show ?thesis by (auto simp: dependency_conflict_def Let_def)
qed

text \<open>What an unambiguous preview is: the log did not diverge, its events are readable, no pending
  operation works on a QSO they correct, delete or restore, and none depends on anything.\<close>

definition nothing_at_odds :: "libs \<Rightarrow> preview_response \<Rightarrow> offline_mutation list \<Rightarrow> bool" where
  "nothing_at_odds L p pending =
     (vr_status p \<noteq> Diverged \<and>
      list_all (\<lambda>e. em_schema_version e = 1) (vr_events p) \<and>
      list_all (\<lambda>e. list_all (\<lambda>m.
         (em_event_type e = OFFICIAL_LOG_QSO_CORRECTED \<longrightarrow> \<not> touches L is_qso_correction_operation e m) \<and>
         (em_event_type e \<in> {OFFICIAL_LOG_QSO_DELETED, OFFICIAL_LOG_QSO_RESTORED} \<longrightarrow>
            \<not> touches L is_qso_entity_operation e m)) pending) (vr_events p) \<and>
      list_all (dependencies_satisfied {} {}) pending)"

lemma report_conflicts_Nil: "report_conflicts L p pending = [] \<longleftrightarrow> nothing_at_odds L p pending"
proof -
  obtain es1 is1 where l1: "entity_loop L is_qso_correction_operation pending
      (filter (\<lambda>e. em_event_type e = OFFICIAL_LOG_QSO_CORRECTED) (vr_events p)) ([], []) = (es1, is1)" by fastforce
  obtain es2 is2 where l2: "entity_loop L is_qso_entity_operation pending
      (filter (\<lambda>e. em_event_type e \<in> {OFFICIAL_LOG_QSO_DELETED, OFFICIAL_LOG_QSO_RESTORED}) (vr_events p)) ([], []) = (es2, is2)"
    by fastforce
  have s: "schema_conflict es = [] \<longleftrightarrow> es = []" for es by (simp add: schema_conflict_def)
  show ?thesis
    unfolding report_conflicts_def l1 l2 prod.case append_is_Nil_conv entity_conflict_Nil [OF l1] entity_conflict_Nil [OF l2] s
      concat_eq_Nil_conv filter_empty_conv nothing_at_odds_def SUPPORTED_OFFICIAL_EVENT_SCHEMA_VERSION_def
    by (auto simp: list_all_iff dependency_conflict_Nil)
qed

lemma conflicts_need_an_operator:
  "c \<in> set (report_conflicts L p pending) \<Longrightarrow> \<not> sc_safe_auto_merge c \<and> sc_requires_user_action c"
  by (auto simp: report_conflicts_def schema_conflict_def entity_conflict_def dependency_conflict_def Let_def
    split: if_splits prod.splits)

section \<open>Reviews\<close>

interpretation review_file: document review_kind
proof
  show "dk_validate review_kind (dk_sorted review_kind f) = Inr () \<longleftrightarrow> dk_validate review_kind f = Inr ()" for f
    by (simp add: review_kind_def review_file_validate_def review_file_sorted_def)
  show "dk_sorted review_kind (dk_sorted review_kind f) = dk_sorted review_kind f" for f
    by (simp add: review_kind_def review_file_sorted_def sort_key_id_if_sorted)
qed (simp_all add: review_kind_def review_file_validate_def review_file_default_def review_file_sorted_def)

definition review_sound :: "conflict_review \<Rightarrow> bool" where
  "review_sound r = (case cv_selected_resolution r of
     None \<Rightarrow> cv_status r = ReviewOpen \<and> cv_resolved_at r = None
   | Some res \<Rightarrow> cv_status r = ReviewResolved \<and> cv_resolved_at r \<noteq> None \<and>
       validate_resolution_for_report (cv_report r) res = Inr ())"

text \<open>What two open reviews of one logbook must differ in.\<close>

definition review_subject :: "conflict_review \<Rightarrow> uuid \<times> string" where
  "review_subject r = (cr_logbook_id (cv_report r), cv_report_fingerprint r)"

definition open_reviews :: "review_file \<Rightarrow> conflict_review list" where
  "open_reviews f = filter (\<lambda>r. cv_status r = ReviewOpen) (cf_reviews f)"

definition reviews_sound :: "review_file \<Rightarrow> bool" where
  "reviews_sound f = (list_all review_sound (cf_reviews f) \<and> distinct (map review_subject (open_reviews f)))"

lemma reviews_sound_sorted: "reviews_sound (review_file_sorted f) \<longleftrightarrow> reviews_sound f"
  by (simp add: reviews_sound_def review_file_sorted_def open_reviews_def list_all_iff filter_sort distinct_map_sort)

lemma create_review_sound:
  assumes "reviews_sound f" and "create_review_change digest report now fresh f = Inr (r, Some f')"
  shows "reviews_sound f'"
  using assms
  by (auto simp: create_review_change_def Let_def reviews_sound_def open_reviews_def review_sound_def
    review_subject_def find_None_iff split: option.splits)

lemma set_modify_first: "set (modify_first p g xs) \<subseteq> insert (case List.find p xs of None \<Rightarrow> undefined | Some x \<Rightarrow> g x) (set xs)"
  by (induction xs) auto

lemma subseq_distinct: "subseq xs ys \<Longrightarrow> distinct ys \<Longrightarrow> distinct xs"
  by (induction rule: list_emb.induct) (auto dest: subseq_set)

lemma filter_modify_first:
  assumes "\<not> q y"
  shows "subseq (filter q (modify_first p (\<lambda>_. y) xs)) (filter q xs)"
  using assms by (induction xs) auto

lemma resolve_review_sound:
  assumes "reviews_sound f" and "resolve_review_change i resolution now f = Inr (r, Some f')"
  shows "reviews_sound f'"
proof -
  from assms(2) obtain r0 where r0: "List.find (has_review i) (cf_reviews f) = Some r0"
    and v: "validate_resolution_for_report (cv_report r0) resolution = Inr ()"
    and r: "r = r0\<lparr>cv_status := ReviewResolved, cv_selected_resolution := Some resolution,
      cv_resolved_at := Some now, cv_updated_at := now\<rparr>"
    and f': "f' = f\<lparr>cf_reviews := modify_first (has_review i) (\<lambda>_. r) (cf_reviews f)\<rparr>"
    by (auto simp: resolve_review_change_def Let_def split: option.splits)
  have sound: "review_sound r" using v by (simp add: r review_sound_def)
  have closed: "cv_status r \<noteq> ReviewOpen" by (simp add: r)
  have "subseq (open_reviews f') (open_reviews f)"
    unfolding open_reviews_def f' by (simp add: filter_modify_first closed)
  then have "subseq (map review_subject (open_reviews f')) (map review_subject (open_reviews f))"
    by (rule subseq_map)
  moreover have "set (cf_reviews f') \<subseteq> insert r (set (cf_reviews f))"
    using set_modify_first [of "has_review i" "\<lambda>_. r" "cf_reviews f"] r0 by (simp add: f')
  ultimately show ?thesis
    using assms(1) sound subseq_distinct by (auto simp: reviews_sound_def list_all_iff)
qed

lemma default_reviews_sound: "reviews_sound review_file_default"
  by (simp add: reviews_sound_def review_file_default_def open_reviews_def)

lemma review_op_sound:
  assumes "doc_all review_kind c reviews_sound d"
    and "\<And>f. f \<in> set (doc_saves review_kind c g d) \<Longrightarrow> codec_reads c f"
    and "\<And>f r f'. reviews_sound f \<Longrightarrow> g f = Inr (r, Some f') \<Longrightarrow> reviews_sound f'"
  shows "doc_all review_kind c reviews_sound (snd (doc_op review_kind lift c g d))"
proof (rule review_file.doc_all_op [OF assms(1)])
  show "reviews_sound (dk_default review_kind) \<or> keeps_file d"
    by (simp add: review_kind_def default_reviews_sound)
  show "reviews_sound (dk_sorted review_kind f')" if "reviews_sound f" "g f = Inr (a, Some f')" for f a f'
    using assms(3) [OF that] by (simp add: review_kind_def reviews_sound_sorted)
qed (rule assms(2))

end
