(* ===== verification/Trust_Claims.thy ===== *)
theory Trust_Claims
  imports Conflict_Facts Queue_Claims
begin

text \<open>
  Properties of trust on a LAN and of conflict reviews: the trust store implements a map from
  devices to logbooks, a token admits one device, a revoked device stays out, a request is
  not accepted twice while its nonce is kept, and what an operator may decide on a conflict.
\<close>

section \<open>The store implements its contract\<close>

lemma trust_act_approved: "trust_act L T C c a d = (Inr (), d') \<Longrightarrow> approved_issue a"
  using trust_act_unapproved by force

lemma trust_act_success:
  assumes "load_doc trust_kind c d = Inr f" and "trust_act L T C c a d = (Inr (), d')"
    and "\<And>g. g \<in> set (doc_saves trust_kind c (action_change L T C a) d) \<Longrightarrow> codec_reads c g"
  shows "\<exists>f'. action_change L T C a f = Inr ((), Some f') \<and> load_doc trust_kind c d' = Inr f'"
proof -
  from trust_act_eq [of L T C c a d] assms(2) have e: "doc_op trust_kind Fail c (action_change L T C a) d = (Inr (), d')" by auto
  have h: "doc_holds trust_kind c f d" using assms(1) by (simp add: doc_holds_def)
  have reads: "codec_reads c (dk_sorted trust_kind g)" if "action_change L T C a f = Inr (u, Some g)" for u g
    using assms(3) [of g] assms(1) that by (simp add: doc_saves_def)
  have "\<exists>x. action_change L T C a f = Inr ((), x) \<and>
    (case x of None \<Rightarrow> d' = d | Some g \<Rightarrow> dk_validate trust_kind g = Inr () \<and> doc_holds trust_kind c (dk_sorted trust_kind g) d')"
    by (rule trust_file.op_success [OF h e]) (rule reads)
  then obtain x where x: "action_change L T C a f = Inr ((), x)"
    "case x of None \<Rightarrow> d' = d | Some g \<Rightarrow> dk_validate trust_kind g = Inr () \<and> doc_holds trust_kind c (dk_sorted trust_kind g) d'" by blast
  from action_writes [OF x(1)] x show ?thesis by (auto simp: doc_holds_def)
qed

text \<open>
  C21. The trust store implements a map from devices to the logbooks they may act on: an action
  that succeeds is one the map admits (only approved tokens are issued, a device is admitted to
  exactly the one logbook of its token and only if it asked for it, rotation and authorisation
  need the device trusted for the logbook, revocation needs the device known), and the document
  then on disk stands for the map as the action changes it.
\<close>

theorem trust_store_refines_grants:
  assumes "load_doc trust_kind c d = Inr f" and "trust_act L T C c a d = (Inr (), d')"
    and "\<And>g. g \<in> set (doc_saves trust_kind c (action_change L T C a) d) \<Longrightarrow> codec_reads c g"
  shows "\<exists>f'. load_doc trust_kind c d' = Inr f' \<and>
    grants_step a (token_logbook f a) (grants f) = Some (grants f')"
  using trust_act_success [OF assms] action_refines [OF _ trust_act_approved [OF assms(2)]] by blast

definition sample_trust_libs :: trust_libs where
  "sample_trust_libs = \<lparr>tl_sha256 = (\<lambda>s. s), tl_hmac = (\<lambda>k s. k @ s), tl_simple = (\<lambda>u. unary (CHR ''s'') (unat u))\<rparr>"

definition sample_peer :: peer_trust_update where
  "sample_peer = \<lparr>pu_peer_device_id = 3, pu_peer_display_name = ''laptop'', pu_logbook_id = 7,
     pu_pairing_token_id = None, pu_public_key_fingerprint = None, pu_auth_credential_id = 9\<rparr>"

definition sample_device :: trusted_device where
  "sample_device = \<lparr>td_device_id = 3, td_display_name = ''laptop'', td_logbook_ids = [7], td_trusted_at = 0,
     td_revoked_at = None, td_pairing_token_id = None, td_public_key_fingerprint = None,
     td_auth_credential_id = Some 9, td_auth_rotated_at = None, td_last_seen_at = None\<rparr>"

definition trusting :: trust_file where
  "trusting = trust_file_default\<lparr>tf_trusted_devices := [sample_device]\<rparr>"

lemma sample_trusted: "trust_peer_change sample_peer 0 trust_file_default = Inr (sample_device, Some trusting)"
  by (simp add: trust_peer_change_def Let_def sample_peer_def sample_device_def trusting_def upsert_trusted_device_def trust_file_default_def)

lemma trust_kind_valid: "dk_validate trust_kind f = Inr () \<longleftrightarrow> tf_version f = LAN_TRUST_FILE_VERSION"
  by (simp add: trust_kind_def trust_file_validate_def)

lemma trusting_fields:
  "tf_version trusting = LAN_TRUST_FILE_VERSION" "tf_trusted_devices trusting = [sample_device]"
  "tf_replay_nonces trusting = []" "tf_pairing_tokens trusting = []"
  "td_device_id sample_device = 3" "td_revoked_at sample_device = None" "td_logbook_ids sample_device = [7]"
  by (simp_all add: trusting_def trust_file_default_def sample_device_def)

text \<open>A disk with a given document.\<close>

definition disk_with :: "'f codec \<Rightarrow> 'f \<Rightarrow> json_disk" where
  "disk_with c f = written (cd_print c f @ newline) empty_disk"

lemma disk_with_io [simp]: "jd_io (disk_with c f) = []"
  by (simp add: disk_with_def)

lemma load_trust_with:
  assumes "codec_reads c f" and "tf_version f = LAN_TRUST_FILE_VERSION"
  shows "load_doc trust_kind c (disk_with c f) = Inr f"
  using load_doc_written [OF assms(1), of trust_kind empty_disk] assms(2) by (simp add: disk_with_def trust_kind_valid)

lemma written_again: "written b (disk_with c f) = written b empty_disk"
  by (simp add: disk_with_def written_def)

lemma trust_op_writes:
  assumes "codec_reads c f" and "tf_version f = LAN_TRUST_FILE_VERSION"
    and "g f = Inr (a, Some f')" and "tf_version f' = LAN_TRUST_FILE_VERSION"
  shows "trust_op c g (disk_with c f) = (Inr a, disk_with c f')"
  using doc_op_writes [of trust_kind c "disk_with c f" f g a f' Fail] assms load_trust_with [OF assms(1,2)]
  by (simp add: trust_kind_valid written_again) (simp add: disk_with_def)

theorem trust_store_refines_grants_witness:
  "\<exists>f'. load_doc trust_kind (sample_codec [trust_file_default, trusting])
      (snd (trust_act (sample_libs []) sample_trust_libs sample_chrono (sample_codec [trust_file_default, trusting])
        (TrustPeer sample_peer 0) (disk_with (sample_codec [trust_file_default, trusting]) trust_file_default))) = Inr f' \<and>
     grants f' = [3 \<mapsto> {7}]"
proof -
  let ?c = "sample_codec [trust_file_default, trusting]"
  let ?d = "disk_with ?c trust_file_default"
  have v: "tf_version trust_file_default = LAN_TRUST_FILE_VERSION" by (simp add: trust_file_default_def)
  have r: "codec_reads ?c f" if "f \<in> {trust_file_default, trusting}" for f using that by (intro sample_codec_reads) auto
  have l: "load_doc trust_kind ?c ?d = Inr trust_file_default" by (rule load_trust_with [OF r v]) simp
  have t: "trust_act (sample_libs []) sample_trust_libs sample_chrono ?c (TrustPeer sample_peer 0) ?d = (Inr (), disk_with ?c trusting)"
    using trust_op_writes [OF r v, of "trust_peer_change sample_peer 0" sample_device trusting]
    by (simp add: sample_trusted trusting_fields trust_peer_with_auth_credential_def unit_result_def)
  have s: "g \<in> set (doc_saves trust_kind ?c (action_change (sample_libs []) sample_trust_libs sample_chrono (TrustPeer sample_peer 0)) ?d) \<Longrightarrow> codec_reads ?c g" for g
    using l sample_trusted by (simp add: doc_saves_def forget_def r)
  have "grants trust_file_default = Map.empty" by (rule ext) (simp add: grants_def trust_file_default_def)
  moreover from trust_store_refines_grants [OF l t s] obtain f' where
    "load_doc trust_kind ?c (disk_with ?c trusting) = Inr f'" "(grants trust_file_default)(3 \<mapsto> {7}) = grants f'"
    by (auto simp: sample_peer_def)
  ultimately show ?thesis by (simp add: t del: trust_act.simps)
qed

section \<open>Tokens, revocation and replay\<close>

lemma zip_results:
  assumes "\<And>a. (a, Inr ()) \<in> set (zip as rs) \<Longrightarrow> P a \<Longrightarrow> False"
  shows "list_all (\<lambda>(a, r). P a \<longrightarrow> r \<noteq> Inr ()) (zip as rs)"
  using assms unfolding list_all_iff by blast

lemma doc_saves_success:
  assumes "\<forall>g\<in>set (trust_saves L T C c (a # as) d). codec_reads c g" and "trust_act L T C c a d = (Inr (), d1)"
  shows "g \<in> set (doc_saves trust_kind c (action_change L T C a) d) \<Longrightarrow> codec_reads c g"
    "\<forall>g\<in>set (trust_saves L T C c as d1). codec_reads c g"
  using assms by simp_all

text \<open>After an action that succeeded and makes a property hold that every later action keeps, no
  action of the sequence that the property excludes succeeds.\<close>

lemma after_success:
  assumes "trust_act L T C c a d = (Inr (), d1)" and "\<forall>g\<in>set (trust_saves L T C c (a # as) d). codec_reads c g"
    and "\<And>f f'. action_change L T C a f = Inr ((), Some f') \<Longrightarrow> P f'" and "P trust_file_default \<or> keeps_file d1"
    and "\<And>b f f'. b \<in> set as \<Longrightarrow> P f \<Longrightarrow> action_change L T C b f = Inr ((), Some f') \<Longrightarrow> P f'"
    and "\<And>b f x. b \<in> set as \<Longrightarrow> Q b \<Longrightarrow> P f \<Longrightarrow> action_change L T C b f \<noteq> Inr ((), x)"
  shows "list_all (\<lambda>(b, r). Q b \<longrightarrow> r \<noteq> Inr ()) (zip as (fst (trust_run L T C c as d1)))"
proof (rule zip_results)
  fix b assume b: "(b, Inr ()) \<in> set (zip as (fst (trust_run L T C c as d1)))" "Q b"
  from trust_act_eq [of L T C c a d] assms(1) have "doc_op trust_kind Fail c (action_change L T C a) d = (Inr (), d1)" by auto
  then obtain f where f: "load_doc trust_kind c d = Inr f" by (auto simp: doc_op_def split: sum.splits)
  from trust_act_success [OF f assms(1) doc_saves_success(1) [OF assms(2,1)]] obtain f' where
    "action_change L T C a f = Inr ((), Some f')" "load_doc trust_kind c d1 = Inr f'" by blast
  then have "doc_all trust_kind c P d1" using assms(3) by (simp add: doc_all_def)
  note run = trust_run_inv [where P = P, OF this assms(4) doc_saves_success(2) [OF assms(2,1)] _ b(1)]
  have "\<exists>g x. P g \<and> action_change L T C b g = Inr ((), x)"
    by (rule run, erule (2) assms(5))
  then obtain g x where "P g" "action_change L T C b g = Inr ((), x)" by blast
  moreover have "b \<in> set as" using b(1) by (rule set_zip_leftD)
  ultimately show False using assms(6) b(2) by blast
qed

definition accepts_token :: "uuid \<Rightarrow> trust_action \<Rightarrow> bool" where
  "accepts_token i a = (case a of AcceptToken q _ \<Rightarrow> pa_token_id q = i | _ \<Rightarrow> False)"

text \<open>
  A pairing token admits one device: once it has been accepted, no later acceptance of it
  succeeds, whatever actions follow, whatever writes fail, and even if a failing write loses
  the document, as long as its identifier is not drawn again.
\<close>

theorem token_accepted_once:
  assumes "trust_act L T C c (AcceptToken q now) d = (Inr (), d1)"
    and "\<forall>g\<in>set (trust_saves L T C c (AcceptToken q now # as) d). codec_reads c g"
    and "list_all (\<lambda>a. \<not> issues_token (pa_token_id q) a) as"
  shows "list_all (\<lambda>(a, r). accepts_token (pa_token_id q) a \<longrightarrow> r \<noteq> Inr ()) (zip as (fst (trust_run L T C c as d1)))"
proof (rule after_success [OF assms(1,2), where P = "token_spent (pa_token_id q)"])
  fix b f x assume b: "accepts_token (pa_token_id q) b" "token_spent (pa_token_id q) f"
  then obtain q' t where q': "b = AcceptToken q' t" "pa_token_id q' = pa_token_id q"
    by (auto simp: accepts_token_def split: trust_action.splits)
  show "action_change L T C b f \<noteq> Inr ((), x)"
  proof
    assume s: "action_change L T C b f = Inr ((), x)"
    from action_writes [OF s] obtain f' where "x = Some f'" by blast
    with accept_spends(2) [of L T C q' t f "()" f'] s b q' show False by simp
  qed
next
  show "token_spent (pa_token_id q) f'" if "action_change L T C (AcceptToken q now) f = Inr ((), Some f')" for f f'
    by (rule accept_spends(1) [OF that])
  show "token_spent (pa_token_id q) f'" if "b \<in> set as" "token_spent (pa_token_id q) f" "action_change L T C b f = Inr ((), Some f')" for b f f'
    using token_spent_kept [OF that(2,3)] that(1) assms(3) by (simp add: list_all_iff)
qed (simp add: token_spent_def trust_file_default_def)

text \<open>Runs of one action, for the concrete cases.\<close>

lemma trust_act_writes:
  assumes "codec_reads c f" and "tf_version f = LAN_TRUST_FILE_VERSION" and "approved_issue a"
    and "action_change L T C a f = Inr ((), Some f')" and "tf_version f' = LAN_TRUST_FILE_VERSION"
  shows "trust_act L T C c a (disk_with c f) = (Inr (), disk_with c f')"
    "doc_saves trust_kind c (action_change L T C a) (disk_with c f) = [f']"
proof -
  show "trust_act L T C c a (disk_with c f) = (Inr (), disk_with c f')"
    using trust_op_writes [where g = "action_change L T C a", OF assms(1,2,4,5)] trust_act_doc_op [OF assms(3)] by simp
  show "doc_saves trust_kind c (action_change L T C a) (disk_with c f) = [f']"
    using load_trust_with [OF assms(1,2)] assms(4) by (simp add: doc_saves_def)
qed

lemma trust_saves_none:
  assumes "codec_reads c f" and "tf_version f = LAN_TRUST_FILE_VERSION" and "action_change L T C a f = Inl e"
  shows "trust_saves L T C c [a] (disk_with c f) = []"
  using load_trust_with [OF assms(1,2)] assms(3) by (simp add: doc_saves_def)

definition sample_token :: pairing_token where
  "sample_token = \<lparr>pt_token_id = 1, pt_issuer_device_id = 5, pt_logbook_id = 7, pt_issuer_display_name = ''desk'',
     pt_token_hash = pairing_token_hash (sample_libs []) sample_trust_libs 1 ''code'', pt_created_at = 0,
     pt_expires_at = 100, pt_consumed_at = None, pt_approved_by_operator = True\<rparr>"

definition sample_acceptance :: pairing_acceptance where
  "sample_acceptance = \<lparr>pa_token_id = 1, pa_pairing_code = ''code'', pa_peer_device_id = 3,
     pa_peer_display_name = ''laptop'', pa_requested_logbooks = [7], pa_public_key_fingerprint = None,
     pa_auth_credential_id = None\<rparr>"

definition offering :: trust_file where
  "offering = trust_file_default\<lparr>tf_pairing_tokens := [sample_token]\<rparr>"

definition paired :: trust_file where
  "paired = offering\<lparr>tf_pairing_tokens := [sample_token\<lparr>pt_consumed_at := Some 50\<rparr>],
     tf_trusted_devices := [sample_device\<lparr>td_trusted_at := 50, td_pairing_token_id := Some 1, td_auth_credential_id := None\<rparr>]\<rparr>"

lemma sample_versions:
  "tf_version offering = LAN_TRUST_FILE_VERSION" "tf_version paired = LAN_TRUST_FILE_VERSION"
  by (simp_all add: offering_def paired_def trust_file_default_def)

lemma sample_accept:
  "action_change L' sample_trust_libs C (AcceptToken sample_acceptance t) paired = Inl (Fail LtPairingTokenConsumed)"
  "accept_change (sample_libs []) sample_trust_libs sample_acceptance 50 offering =
     Inr (sample_device\<lparr>td_trusted_at := 50, td_pairing_token_id := Some 1, td_auth_credential_id := None\<rparr>, Some paired)"
  by (simp_all add: accept_change_def sample_acceptance_def paired_def offering_def sample_token_def has_token_def
    Let_def sample_device_def upsert_trusted_device_def trust_file_default_def forget_def)

theorem token_accepted_once_witness:
  "\<exists>c d1. trust_act (sample_libs []) sample_trust_libs sample_chrono c (AcceptToken sample_acceptance 50) (disk_with c offering) = (Inr (), d1) \<and>
     list_all (\<lambda>(a, r). accepts_token 1 a \<longrightarrow> r \<noteq> Inr ())
       (zip [AcceptToken sample_acceptance 60] (fst (trust_run (sample_libs []) sample_trust_libs sample_chrono c
          [AcceptToken sample_acceptance 60] d1)))"
proof -
  let ?c = "sample_codec [offering, paired]"
  have r: "codec_reads ?c offering" "codec_reads ?c paired" by (simp_all add: sample_codec_reads)
  have a: "action_change (sample_libs []) sample_trust_libs sample_chrono (AcceptToken sample_acceptance 50) offering = Inr ((), Some paired)"
    by (simp add: sample_accept(2))
  note w = trust_act_writes [OF r(1) sample_versions(1) _ a sample_versions(2)]
  have t: "trust_act (sample_libs []) sample_trust_libs sample_chrono ?c (AcceptToken sample_acceptance 50) (disk_with ?c offering) =
      (Inr (), disk_with ?c paired)" by (rule w(1)) (simp add: approved_issue_def)
  have s: "\<forall>g\<in>set (trust_saves (sample_libs []) sample_trust_libs sample_chrono ?c
      [AcceptToken sample_acceptance 50, AcceptToken sample_acceptance 60] (disk_with ?c offering)). codec_reads ?c g"
    using trust_saves_none [OF r(2) sample_versions(2) sample_accept(1)] w(2) t r(2)
    by (simp add: approved_issue_def del: action_change.simps trust_act.simps)
  from token_accepted_once [OF t s] t show ?thesis
    by (intro exI [of _ ?c] exI [of _ "disk_with ?c paired"])
      (simp add: issues_token_def sample_acceptance_def del: trust_act.simps trust_run.simps)
qed

text \<open>
  C22. A revoked device stays out: once its revocation succeeded, it is neither authorised nor
  given a new credential, whatever actions follow and whatever writes fail, until it is paired
  again.
\<close>

theorem revoked_stays_out:
  assumes "trust_act L T C c (RevokeDevice i now) d = (Inr (), d1)"
    and "\<forall>g\<in>set (trust_saves L T C c (RevokeDevice i now # as) d). codec_reads c g"
    and "list_all (\<lambda>a. \<not> admits i a) as"
  shows "list_all (\<lambda>(a, r). acts_as i a \<longrightarrow> r \<noteq> Inr ()) (zip as (fst (trust_run L T C c as d1)))"
proof (rule after_success [OF assms(1,2), where P = "barred i"])
  show "barred i trust_file_default \<or> keeps_file d1" by (simp add: barred_def grants_def trust_file_default_def)
  show "barred i f'" if "action_change L T C (RevokeDevice i now) f = Inr ((), Some f')" for f f'
    by (rule revoke_bars [OF that])
  show "barred i f'" if "b \<in> set as" "barred i f" "action_change L T C b f = Inr ((), Some f')" for b f f'
    using barred_kept [OF that(2,3)] that(1) assms(3) by (simp add: list_all_iff)
  show "action_change L T C b f \<noteq> Inr ((), x)" if "b \<in> set as" "acts_as i b" "barred i f" for b f x
    by (rule barred_refused [OF that(3,2)])
qed

definition revoking :: trust_file where
  "revoking = trusting\<lparr>tf_trusted_devices := [sample_device\<lparr>td_revoked_at := Some 50\<rparr>]\<rparr>"

lemma revoking_version: "tf_version revoking = LAN_TRUST_FILE_VERSION"
  by (simp add: revoking_def trusting_fields)

theorem revoked_stays_out_witness:
  "\<exists>c d1. trust_act (sample_libs []) sample_trust_libs sample_chrono c (RevokeDevice 3 50) (disk_with c trusting) = (Inr (), d1) \<and>
     list_all (\<lambda>(a, r). acts_as 3 a \<longrightarrow> r \<noteq> Inr ())
       (zip [AuthorizePeer 3 7 ''n'' 60] (fst (trust_run (sample_libs []) sample_trust_libs sample_chrono c
          [AuthorizePeer 3 7 ''n'' 60] d1)))"
proof -
  let ?c = "sample_codec [trusting, revoking]"
  have r: "codec_reads ?c trusting" "codec_reads ?c revoking" by (simp_all add: sample_codec_reads)
  have a: "action_change (sample_libs []) sample_trust_libs sample_chrono (RevokeDevice 3 50) trusting = Inr ((), Some revoking)"
    by (simp add: revoke_change_def trusting_fields has_device_def Let_def put_device_def revoking_def)
  have b: "action_change (sample_libs []) sample_trust_libs sample_chrono (AuthorizePeer 3 7 ''n'' 60) revoking = Inl (Fail (LtDeviceRevoked 3))"
    by (simp add: authorize_change_def prune_expired_nonces_def revoking_def trusting_fields Let_def require_trusted_def has_device_def forget_def)
  note w = trust_act_writes [OF r(1) trusting_fields(1) _ a revoking_version]
  have t: "trust_act (sample_libs []) sample_trust_libs sample_chrono ?c (RevokeDevice 3 50) (disk_with ?c trusting) =
      (Inr (), disk_with ?c revoking)" by (rule w(1)) (simp add: approved_issue_def)
  have s: "\<forall>g\<in>set (trust_saves (sample_libs []) sample_trust_libs sample_chrono ?c
      [RevokeDevice 3 50, AuthorizePeer 3 7 ''n'' 60] (disk_with ?c trusting)). codec_reads ?c g"
    using trust_saves_none [OF r(2) revoking_version b] w(2) t r(2)
    by (simp add: approved_issue_def del: action_change.simps trust_act.simps)
  from revoked_stays_out [OF t s] t show ?thesis
    by (intro exI [of _ ?c] exI [of _ "disk_with ?c revoking"])
      (simp add: admits_def del: trust_act.simps trust_run.simps)
qed

definition repeats :: "uuid \<Rightarrow> string \<Rightarrow> trust_action \<Rightarrow> bool" where
  "repeats i nonce a = (case a of AuthorizePeer j _ nonce' _ \<Rightarrow> j = i \<and> nonce' = nonce | _ \<Rightarrow> False)"

lemma authorize_again:
  assumes "authorize_change L T C i lb nonce now f = Inr (a, Some f')" and "chrono_ok C"
    and "\<bar>now\<bar> \<le> 10 ^ 24" and "now + 600 * 1000000000 < now'" and "\<bar>now'\<bar> \<le> 10 ^ 24"
  shows "\<exists>a' f''. authorize_change L T C i lb nonce now' f' = Inr (a', Some f'') \<and> tf_version f'' = tf_version f'"
proof -
  define h where "h = replay_nonce_hash L T i nonce"
  define f0 where "f0 = prune_expired_nonces now f"
  define n where "n = \<lparr>rn_device_id = i, rn_nonce_hash = h, rn_seen_at = now, rn_expires_at = now + 600 * 1000000000\<rparr>"
  from assms(1) obtain d where d: "require_trusted i lb f0 = Inr d"
    and new: "\<not> list_ex (\<lambda>n. rn_device_id n = i \<and> rn_nonce_hash n = h) (tf_replay_nonces f0)"
    and f': "f' = (put_device i (d\<lparr>td_last_seen_at := Some now\<rparr>) f0)\<lparr>tf_replay_nonces := tf_replay_nonces f0 @ [n]\<rparr>"
    by (auto simp: authorize_change_def Let_def h_def f0_def n_def nonce_lifetime [OF assms(2,3)] split: if_splits)
  have "\<not> list_ex (\<lambda>n. rn_device_id n = i \<and> rn_nonce_hash n = h) (tf_replay_nonces (prune_expired_nonces now' f'))"
    using new assms(4) by (auto simp: f' n_def prune_expired_nonces_def list_ex_iff)
  moreover have "\<exists>d'. require_trusted i lb (prune_expired_nonces now' f') = Inr d'"
  proof -
    have "List.find (has_device i) (tf_trusted_devices f') = Some (d\<lparr>td_last_seen_at := Some now\<rparr>)"
      using d find_device_put [of "d\<lparr>td_last_seen_at := Some now\<rparr>" i i f0] require_trusted_device [OF d]
      by (simp add: f' require_trusted_iff)
    with d show ?thesis by (simp add: require_trusted_iff)
  qed
  ultimately show ?thesis
    by (auto simp: authorize_change_def Let_def nonce_lifetime [OF assms(2,5)] put_device_def prune_expired_nonces_def simp flip: h_def)
qed


definition seen :: trust_file where
  "seen = trusting\<lparr>tf_trusted_devices := [sample_device\<lparr>td_last_seen_at := Some 0\<rparr>],
     tf_replay_nonces := [\<lparr>rn_device_id = 3, rn_nonce_hash = replay_nonce_hash (sample_libs []) sample_trust_libs 3 ''n'',
       rn_seen_at = 0, rn_expires_at = 600000000000\<rparr>]\<rparr>"

lemma seen_version: "tf_version seen = LAN_TRUST_FILE_VERSION"
  by (simp add: seen_def trusting_fields)


section \<open>Conflicts\<close>


text \<open>
  Reviews stay sound: if whatever review document is on disk has every review open without a
  resolution or resolved with one that was admitted for its report, and at most one open review
  of a logbook and report, it is so after opening and after resolving a review, however the
  write ends.
\<close>

theorem reviews_stay_sound:
  assumes "doc_all review_kind c reviews_sound d"
    and "\<And>f. f \<in> set (doc_saves review_kind c (create_review_change digest report now fresh) d) \<Longrightarrow> codec_reads c f"
    and "\<And>f. f \<in> set (doc_saves review_kind c (resolve_review_change i resolution now) d) \<Longrightarrow> codec_reads c f"
  shows "doc_all review_kind c reviews_sound (snd (create_review c digest report now fresh d)) \<and>
    doc_all review_kind c reviews_sound (snd (resolve_review c i resolution now d))"
proof
  show "doc_all review_kind c reviews_sound (snd (create_review c digest report now fresh d))"
    unfolding create_review_def using assms(1,2) create_review_sound by (rule review_op_sound)
  show "doc_all review_kind c reviews_sound (snd (resolve_review c i resolution now d))"
    unfolding resolve_review_def using assms(1,3) resolve_review_sound by (rule review_op_sound)
qed

definition sample_report :: conflict_report where
  "sample_report = \<lparr>cr_schema_version = 1, cr_created_at = 0, cr_logbook_id = 7, cr_peer_id = ''peer'', cr_status = Diverged,
     cr_local_head_hash = None, cr_remote_head_hash = None, cr_missing_event_count = 0,
     cr_pending_operation_count = 0, cr_conflicts = [], cr_recommended_action = []\<rparr>"

definition sample_review :: conflict_review where
  "sample_review = \<lparr>cv_schema_version = CONFLICT_REVIEW_SCHEMA_VERSION, cv_review_id = 1,
     cv_report_fingerprint = ''fp'', cv_report = sample_report, cv_status = ReviewOpen,
     cv_selected_resolution = None, cv_created_at = 0, cv_updated_at = 0, cv_resolved_at = None\<rparr>"

theorem reviews_stay_sound_witness:
  "\<exists>c. doc_all review_kind c reviews_sound (snd (create_review c (\<lambda>_. ''fp'') sample_report 0 1 empty_disk)) \<and>
     doc_all review_kind c reviews_sound (snd (resolve_review c 1 (resolution_new KeepLocalHistory) 0 empty_disk))"
proof -
  let ?f = "review_file_default\<lparr>cf_reviews := [sample_review]\<rparr>"
  let ?c = "sample_codec [?f]"
  have l: "load_doc review_kind ?c empty_disk = Inr review_file_default" by (simp add: load_doc_absent review_kind_def)
  have "doc_all review_kind ?c reviews_sound empty_disk" by (simp add: doc_all_def l default_reviews_sound)
  moreover have "create_review_change (\<lambda>_. ''fp'') sample_report 0 1 review_file_default = Inr (sample_review, Some ?f)"
    by (simp add: create_review_change_def review_file_default_def conflict_report_fingerprint_def sample_review_def Let_def)
  then have "codec_reads ?c f" if "f \<in> set (doc_saves review_kind ?c (create_review_change (\<lambda>_. ''fp'') sample_report 0 1) empty_disk)" for f
    using that by (simp add: doc_saves_def l) (simp add: review_kind_def review_file_sorted_def sample_codec_reads)
  moreover have "resolve_review_change 1 (resolution_new KeepLocalHistory) 0 review_file_default = Inl (CrReviewNotFound 1)"
    by (simp add: resolve_review_change_def review_file_default_def)
  then have "codec_reads ?c f" if "f \<in> set (doc_saves review_kind ?c (resolve_review_change 1 (resolution_new KeepLocalHistory) 0) empty_disk)" for f
    using that by (simp add: doc_saves_def l)
  ultimately show ?thesis by (intro exI [of _ ?c]) (rule reviews_stay_sound)
qed

end
