(* ===== verification/Cloud.thy ===== *)
theory Cloud
  imports Offline_Queue
begin

text \<open>
  The cloud relay (\<open>ham-core/src/sync/mod.rs\<close>, \<open>InMemoryCloudSyncServer\<close> and
  \<open>CloudSyncClient\<close>): sessions opened with a pairing code, the logbooks they give access to,
  previews, pulls and pushes of events against the relay's own event store, diagnostic reports,
  and revocation. The server's store is the in-memory store of \<open>Store\<close>.
\<close>

section \<open>Data\<close>

definition DEFAULT_CLOUD_SYNC_SESSION_TTL_SECONDS :: int where
  "DEFAULT_CLOUD_SYNC_SESSION_TTL_SECONDS = 2592000"

datatype cloud_login_mode = PairingCodeLogin | SyncTokenLogin

datatype cloud_connection_state = CloudDisconnected | CloudConnected | CloudUnauthorized | CloudConnectionError

datatype cloud_service_mode = HostedService | SelfHostedService

record cloud_sync_config =
  cy_enable_cloud_sync :: bool
  cy_sync_server_url :: string
  cy_account_login_mode :: cloud_login_mode
  cy_device_name :: string
  cy_prefer_lan_sync :: bool
  cy_auto_push_enabled :: bool
  cy_auto_pull_enabled :: bool
  cy_sync_interval_seconds :: "64 word"

definition cloud_sync_config_default :: cloud_sync_config where
  "cloud_sync_config_default =
     \<lparr>cy_enable_cloud_sync = False, cy_sync_server_url = ''http://127.0.0.1:9740'',
      cy_account_login_mode = PairingCodeLogin, cy_device_name = ''KE8YGW Logger Device'',
      cy_prefer_lan_sync = True, cy_auto_push_enabled = False, cy_auto_pull_enabled = False,
      cy_sync_interval_seconds = 300\<rparr>"

record cloud_health =
  cw_ok :: bool
  cw_service :: string
  cw_version :: string
  cw_mode :: cloud_service_mode

record pair_device_request =
  pd_pairing_code :: string
  pd_account_id :: string
  pd_user_id :: string
  pd_device_id :: uuid
  pd_device_name :: string
  pd_requested_logbooks :: "uuid list"
  pd_role_hints :: "string list"

record cloud_session =
  se_account_id :: string
  se_user_id :: string
  se_device_id :: uuid
  se_device_name :: string
  se_sync_token :: string
  se_authorized_logbooks :: "uuid list"
  se_issued_at :: datetime
  se_expires_at :: "datetime option"

record pair_device_response =
  pe_accepted :: bool
  pe_reason :: "string option"
  pe_session :: "cloud_session option"

record cloud_auth =
  au_sync_token :: string

record cloud_preview_pull_request =
  cp_auth :: cloud_auth
  cp_logbook_id :: uuid
  cp_local_head_hash :: "string option"

record cloud_pull_events_request =
  cq_auth :: cloud_auth
  cq_logbook_id :: uuid
  cq_local_head_hash :: "string option"

record cloud_pull_events_response =
  cr_preview :: preview_response
  cr_events :: "core_event list"

record cloud_push_events_request =
  ch_auth :: cloud_auth
  ch_logbook_id :: uuid
  ch_events :: "core_event list"

record cloud_push_events_response =
  ck_status :: replication_status
  ck_accepted_count :: nat
  ck_ignored_duplicate_count :: nat
  ck_rejected_count :: nat
  ck_server_head_hash :: "string option"
  ck_errors :: "string list"

record event_metadata_response =
  mr_logbook_id :: uuid
  mr_events :: "event_metadata list"

datatype report_upload_type = BasicReport | SyncReport

datatype report_status =
  ReportSubmitted | ReportTriaged | ReportInvestigating | ReportWaitingOnUser | ReportFixed | ReportClosed

record report_upload_request =
  ru_auth :: cloud_auth
  ru_report_type :: report_upload_type
  ru_app_version :: string
  ru_core_version :: string
  ru_platform :: string
  ru_plugin_list :: "string list"
  ru_sync_state_summary :: "string option"
  ru_short_description :: string
  ru_bundle_hash :: string
  ru_bundle_bytes :: "8 word list"

record report_upload_response =
  rr_report_id :: string
  rr_status :: report_status
  rr_received_at :: datetime
  rr_bundle_hash :: string

record report_metadata =
  rm_report_id :: string
  rm_user_id :: string
  rm_account_id :: string
  rm_app_version :: string
  rm_core_version :: string
  rm_platform :: string
  rm_created_at :: datetime
  rm_report_type :: report_upload_type
  rm_plugin_list :: "string list"
  rm_sync_state_summary :: "string option"
  rm_short_description :: string
  rm_bundle_hash :: string
  rm_status :: report_status

record stored_report =
  sr_metadata :: report_metadata
  sr_bundle_bytes :: "8 word list"

record cloud_sync_status =
  ct_connection_state :: cloud_connection_state
  ct_account_id :: "string option"
  ct_device_id :: "uuid option"
  ct_server_url :: string
  ct_accessible_logbooks :: "head_summary list"

datatype cloud_sync_error =
    Unauthenticated
  | UnauthorizedLogbook uuid
  | PairingRejected string
  | CloudValidation string
  | CloudStore string

record cloud_server_config =
  cv_mode :: cloud_service_mode
  cv_public_url :: string
  cv_pairing_code :: string
  cv_sync_session_ttl_seconds :: "int option"

definition cloud_server_config_default :: cloud_server_config where
  "cloud_server_config_default =
     \<lparr>cv_mode = SelfHostedService, cv_public_url = ''http://127.0.0.1:9740'',
      cv_pairing_code = ''local-dev-pairing-code'',
      cv_sync_session_ttl_seconds = Some DEFAULT_CLOUD_SYNC_SESSION_TTL_SECONDS\<rparr>"

record cloud_auth_state =
  as_sessions_by_token :: "(string, cloud_session) hmap"
  as_account_logbooks :: "(string, uuid list) hmap"
  as_reports :: "(string, stored_report) hmap"

definition cloud_auth_state_default :: cloud_auth_state where
  "cloud_auth_state_default =
     \<lparr>as_sessions_by_token = [], as_account_logbooks = [], as_reports = []\<rparr>"

record cloud_server =
  sv_config :: cloud_server_config
  sv_store :: mem_store
  sv_auth :: cloud_auth_state

definition cloud_server_new :: "cloud_server_config \<Rightarrow> cloud_server" where
  "cloud_server_new cfg =
     \<lparr>sv_config = cfg, sv_store = mem_empty, sv_auth = cloud_auth_state_default\<rparr>"

definition cloud_server_health :: "cloud_server \<Rightarrow> cloud_health" where
  "cloud_server_health v =
     \<lparr>cw_ok = True, cw_service = ''ke8ygw-sync-server'', cw_version = ''0.5.1'',
      cw_mode = cv_mode (sv_config v)\<rparr>"

section \<open>Sessions\<close>

text \<open>\<open>Duration::seconds\<close> panics out of its range; \<open>checked_add_signed\<close> gives \<open>None\<close> where the
  sum leaves the range of the clock library.\<close>

definition cloud_session_expiry :: "chrono \<Rightarrow> datetime \<Rightarrow> int option \<Rightarrow> 'e fault + datetime option" where
  "cloud_session_expiry C issued_at ttl =
     (case ttl of None \<Rightarrow> Inr None
      | Some n \<Rightarrow> (case ch_seconds C n of None \<Rightarrow> Inl Panicked | Some d \<Rightarrow> Inr (ch_add C issued_at d)))"

definition cloud_session_is_expired :: "cloud_session \<Rightarrow> datetime \<Rightarrow> bool" where
  "cloud_session_is_expired session now =
     (case se_expires_at session of None \<Rightarrow> False | Some expires_at \<Rightarrow> expires_at \<le> now)"

text \<open>\<open>HashSet::extend\<close>, the set as a list without repetitions.\<close>

definition extend_set :: "'a list \<Rightarrow> 'a list \<Rightarrow> 'a list" where
  "extend_set xs ys = fold (\<lambda>y s. if y \<in> set s then s else s @ [y]) ys xs"

definition session_token :: "libs \<Rightarrow> string \<Rightarrow> uuid \<Rightarrow> string" where
  "session_token L account i = ''sync-'' @ account @ ''-'' @ lib_show_uuid L i"

definition open_session :: "cloud_session \<Rightarrow> cloud_auth_state \<Rightarrow> cloud_auth_state" where
  "open_session session a =
     a\<lparr>as_account_logbooks :=
          (let old = (case hm_get (as_account_logbooks a) (se_account_id session) of None \<Rightarrow> [] | Some l \<Rightarrow> l)
           in hm_insert (se_account_id session) (extend_set old (se_authorized_logbooks session))
             (as_account_logbooks a)),
        as_sessions_by_token := hm_insert (se_sync_token session) session (as_sessions_by_token a)\<rparr>"

definition cloud_pair_device :: "libs \<Rightarrow> chrono \<Rightarrow> pair_device_request \<Rightarrow> cloud_server \<Rightarrow> world \<Rightarrow>
    (unit fault + pair_device_response) \<times> cloud_server \<times> world" where
  "cloud_pair_device L C q v w =
     (if pd_pairing_code q \<noteq> cv_pairing_code (sv_config v)
      then (Inr \<lparr>pe_accepted = False, pe_reason = Some ''invalid pairing code'', pe_session = None\<rparr>, v, w)
      else
        let (i, w) = new_v4 w; token = session_token L (pd_account_id q) i; (issued_at, w) = utc_now w in
        (case cloud_session_expiry C issued_at (cv_sync_session_ttl_seconds (sv_config v)) of
           Inl err \<Rightarrow> (Inl err, v, w)
         | Inr expires_at \<Rightarrow>
             let session = \<lparr>se_account_id = pd_account_id q, se_user_id = pd_user_id q,
                   se_device_id = pd_device_id q, se_device_name = pd_device_name q,
                   se_sync_token = token, se_authorized_logbooks = pd_requested_logbooks q,
                   se_issued_at = issued_at, se_expires_at = expires_at\<rparr> in
             (Inr \<lparr>pe_accepted = True, pe_reason = None, pe_session = Some session\<rparr>,
              v\<lparr>sv_auth := open_session session (sv_auth v)\<rparr>, w)))"

definition cloud_authorize :: "cloud_auth \<Rightarrow> cloud_server \<Rightarrow> world \<Rightarrow>
    (cloud_sync_error + cloud_session) \<times> world" where
  "cloud_authorize auth v w =
     (case hm_get (as_sessions_by_token (sv_auth v)) (au_sync_token auth) of
        None \<Rightarrow> (Inl Unauthenticated, w)
      | Some session \<Rightarrow>
          let (now, w) = utc_now w in
          (if cloud_session_is_expired session now then Inl Unauthenticated else Inr session, w))"

definition cloud_authorize_logbook :: "cloud_auth \<Rightarrow> uuid \<Rightarrow> cloud_server \<Rightarrow> world \<Rightarrow>
    (cloud_sync_error + cloud_session) \<times> world" where
  "cloud_authorize_logbook auth lb v w =
     (case cloud_authorize auth v w of
        (Inl err, w) \<Rightarrow> (Inl err, w)
      | (Inr session, w) \<Rightarrow>
          (if lb \<notin> set (se_authorized_logbooks session) then Inl (UnauthorizedLogbook lb)
           else Inr session, w))"

definition cloud_revoke_device :: "uuid \<Rightarrow> cloud_server \<Rightarrow> cloud_server" where
  "cloud_revoke_device device v =
     v\<lparr>sv_auth := (sv_auth v)\<lparr>as_sessions_by_token :=
        filter (\<lambda>(_, session). se_device_id session \<noteq> device) (as_sessions_by_token (sv_auth v))\<rparr>\<rparr>"

section \<open>Reading\<close>

definition cloud_store_error :: "libs \<Rightarrow> store_error \<Rightarrow> cloud_sync_error" where
  "cloud_store_error L err = CloudStore (store_error_message L err)"

definition cloud_head_summary :: "libs \<Rightarrow> cloud_server \<Rightarrow> uuid \<Rightarrow> cloud_sync_error + head_summary" where
  "cloud_head_summary L v lb =
     map_err (cloud_store_error L) (and_then (mem_get_head (sv_store v) lb) (\<lambda>head.
       and_then (mem_list_events (sv_store v) lb) (\<lambda>es.
         Inr \<lparr>hs_logbook_id = lb, hs_head_hash = head, hs_event_count = Some (of_nat (length es))\<rparr>)))"

fun cloud_head_summaries :: "libs \<Rightarrow> cloud_server \<Rightarrow> uuid list \<Rightarrow> cloud_sync_error + head_summary list" where
  "cloud_head_summaries L v [] = Inr []"
| "cloud_head_summaries L v (lb # lbs) =
     and_then (cloud_head_summary L v lb) (\<lambda>h. and_then (cloud_head_summaries L v lbs) (\<lambda>hs. Inr (h # hs)))"

definition cloud_list_logbooks :: "libs \<Rightarrow> cloud_auth \<Rightarrow> cloud_server \<Rightarrow> world \<Rightarrow>
    (cloud_sync_error + head_summary list) \<times> world" where
  "cloud_list_logbooks L auth v w =
     (case cloud_authorize auth v w of
        (Inl err, w) \<Rightarrow> (Inl err, w)
      | (Inr session, w) \<Rightarrow> (cloud_head_summaries L v (se_authorized_logbooks session), w))"

definition cloud_get_head :: "libs \<Rightarrow> cloud_auth \<Rightarrow> uuid \<Rightarrow> cloud_server \<Rightarrow> world \<Rightarrow>
    (cloud_sync_error + head_summary) \<times> world" where
  "cloud_get_head L auth lb v w =
     (case cloud_authorize_logbook auth lb v w of
        (Inl err, w) \<Rightarrow> (Inl err, w)
      | (Inr _, w) \<Rightarrow> (cloud_head_summary L v lb, w))"

definition cloud_event_metadata :: "libs \<Rightarrow> cloud_auth \<Rightarrow> uuid \<Rightarrow> string option \<Rightarrow> cloud_server \<Rightarrow> world \<Rightarrow>
    (cloud_sync_error + event_metadata_response) \<times> world" where
  "cloud_event_metadata L auth lb after_hash v w =
     (case cloud_authorize_logbook auth lb v w of
        (Inl err, w) \<Rightarrow> (Inl err, w)
      | (Inr _, w) \<Rightarrow>
          (and_then (map_err (cloud_store_error L) (mem_list_events_after (sv_store v) lb after_hash)) (\<lambda>es.
             Inr \<lparr>mr_logbook_id = lb, mr_events = map metadata_for_event es\<rparr>), w))"

definition cloud_preview_of :: "uuid \<Rightarrow> string option \<Rightarrow> core_event list \<Rightarrow> preview_response" where
  "cloud_preview_of lb h es =
     preview_pull_from_events
       \<lparr>vq_peer_id = ''cloud'', vq_logbook_id = lb, vq_local_head_hash = h\<rparr> es"

definition cloud_preview_pull :: "libs \<Rightarrow> cloud_preview_pull_request \<Rightarrow> cloud_server \<Rightarrow> world \<Rightarrow>
    (cloud_sync_error + preview_response) \<times> world" where
  "cloud_preview_pull L q v w =
     (case cloud_authorize_logbook (cp_auth q) (cp_logbook_id q) v w of
        (Inl err, w) \<Rightarrow> (Inl err, w)
      | (Inr _, w) \<Rightarrow>
          (and_then (map_err (cloud_store_error L) (mem_list_events (sv_store v) (cp_logbook_id q))) (\<lambda>es.
             Inr (cloud_preview_of (cp_logbook_id q) (cp_local_head_hash q) es)), w))"

definition cloud_pull_events :: "libs \<Rightarrow> cloud_pull_events_request \<Rightarrow> cloud_server \<Rightarrow> world \<Rightarrow>
    (cloud_sync_error + cloud_pull_events_response) \<times> world" where
  "cloud_pull_events L q v w =
     (case cloud_authorize_logbook (cq_auth q) (cq_logbook_id q) v w of
        (Inl err, w) \<Rightarrow> (Inl err, w)
      | (Inr _, w) \<Rightarrow>
          (and_then (map_err (cloud_store_error L) (mem_list_events (sv_store v) (cq_logbook_id q))) (\<lambda>es.
             let preview = cloud_preview_of (cq_logbook_id q) (cq_local_head_hash q) es;
                 event_hashes = map em_event_hash (vr_events preview) in
             Inr \<lparr>cr_preview = preview,
               cr_events = filter (\<lambda>e. ev_event_hash e \<in> set event_hashes) es\<rparr>), w))"

section \<open>Pushing\<close>

text \<open>The loop of \<open>push_events\<close>: accepted, ignored and the errors.\<close>

fun cloud_push_loop :: "libs \<Rightarrow> core_event list \<Rightarrow> nat \<Rightarrow> nat \<Rightarrow> mem_store \<Rightarrow>
    nat \<times> nat \<times> string list \<times> mem_store" where
  "cloud_push_loop L [] accepted ignored s = (accepted, ignored, [], s)"
| "cloud_push_loop L (e # es) accepted ignored s =
     (case validate_supported_remote_event L e of
        Inl err \<Rightarrow> (accepted, ignored, [store_error_message L err], s)
      | Inr _ \<Rightarrow>
      (case mem_get_event s (ev_event_id e) of
        Inl err \<Rightarrow> (accepted, ignored, [store_error_message L err], s)
      | Inr (Some existing) \<Rightarrow>
          if existing = e then cloud_push_loop L es accepted (ignored + 1) s
          else (accepted, ignored, [''event id '' @ lib_show_uuid L (ev_event_id e) @
            '' already exists with different content''], s)
      | Inr None \<Rightarrow>
          (case mem_append_verified_remote_event L e s of
             (Inr _, s) \<Rightarrow> cloud_push_loop L es (accepted + 1) ignored s
           | (Inl err, s) \<Rightarrow> (accepted, ignored, [store_error_message L err], s))))"

definition cloud_push_events :: "libs \<Rightarrow> cloud_push_events_request \<Rightarrow> cloud_server \<Rightarrow> world \<Rightarrow>
    (cloud_sync_error + cloud_push_events_response) \<times> cloud_server \<times> world" where
  "cloud_push_events L q v w =
     (case cloud_authorize_logbook (ch_auth q) (ch_logbook_id q) v w of
        (Inl err, w) \<Rightarrow> (Inl err, v, w)
      | (Inr _, w) \<Rightarrow>
          if list_ex (\<lambda>e. ev_logbook_id e \<noteq> ch_logbook_id q) (ch_events q)
          then (Inl (UnauthorizedLogbook (ch_logbook_id q)), v, w)
          else
            let (accepted, ignored, errors, s) = cloud_push_loop L (ch_events q) 0 0 (sv_store v) in
            (and_then (map_err (cloud_store_error L) (mem_get_head s (ch_logbook_id q))) (\<lambda>head.
               Inr \<lparr>ck_status = push_replication_status errors, ck_accepted_count = accepted,
                 ck_ignored_duplicate_count = ignored, ck_rejected_count = length errors,
                 ck_server_head_hash = head, ck_errors = errors\<rparr>),
             v\<lparr>sv_store := s\<rparr>, w))"

section \<open>Diagnostic reports and status\<close>

definition cloud_upload_report :: "libs \<Rightarrow> report_upload_request \<Rightarrow> cloud_server \<Rightarrow> world \<Rightarrow>
    (cloud_sync_error + report_upload_response) \<times> cloud_server \<times> world" where
  "cloud_upload_report L q v w =
     (case cloud_authorize (ru_auth q) v w of
        (Inl err, w) \<Rightarrow> (Inl err, v, w)
      | (Inr session, w) \<Rightarrow>
          if trim (ru_bundle_hash q) = [] \<or> ru_bundle_bytes q = []
          then (Inl (CloudValidation ''diagnostic report bundle is empty''), v, w)
          else
            let (i, w) = new_v4 w; report_id = ''rpt-'' @ lib_show_uuid L i; (received_at, w) = utc_now w;
                metadata = \<lparr>rm_report_id = report_id, rm_user_id = se_user_id session,
                  rm_account_id = se_account_id session, rm_app_version = ru_app_version q,
                  rm_core_version = ru_core_version q, rm_platform = ru_platform q,
                  rm_created_at = received_at, rm_report_type = ru_report_type q,
                  rm_plugin_list = ru_plugin_list q, rm_sync_state_summary = ru_sync_state_summary q,
                  rm_short_description = ru_short_description q, rm_bundle_hash = ru_bundle_hash q,
                  rm_status = ReportSubmitted\<rparr> in
            (Inr \<lparr>rr_report_id = report_id, rr_status = ReportSubmitted, rr_received_at = received_at,
               rr_bundle_hash = ru_bundle_hash q\<rparr>,
             v\<lparr>sv_auth := (sv_auth v)\<lparr>as_reports := hm_insert report_id
               \<lparr>sr_metadata = metadata, sr_bundle_bytes = ru_bundle_bytes q\<rparr> (as_reports (sv_auth v))\<rparr>\<rparr>, w))"

definition cloud_report_metadata :: "cloud_auth \<Rightarrow> string \<Rightarrow> cloud_server \<Rightarrow> world \<Rightarrow>
    (cloud_sync_error + report_metadata) \<times> world" where
  "cloud_report_metadata auth report_id v w =
     (case cloud_authorize auth v w of
        (Inl err, w) \<Rightarrow> (Inl err, w)
      | (Inr session, w) \<Rightarrow>
          (case hm_get (as_reports (sv_auth v)) report_id of
             None \<Rightarrow> (Inl (CloudValidation ''report not found''), w)
           | Some report \<Rightarrow>
               (if rm_account_id (sr_metadata report) \<noteq> se_account_id session then Inl Unauthenticated
                else Inr (sr_metadata report), w)))"

text \<open>The session is looked up, and the clock read, twice.\<close>

definition cloud_status :: "libs \<Rightarrow> cloud_auth option \<Rightarrow> cloud_server \<Rightarrow> world \<Rightarrow>
    (cloud_sync_error + cloud_sync_status) \<times> world" where
  "cloud_status L auth v w =
     (case auth of
        None \<Rightarrow> (Inr \<lparr>ct_connection_state = CloudDisconnected, ct_account_id = None, ct_device_id = None,
          ct_server_url = cv_public_url (sv_config v), ct_accessible_logbooks = []\<rparr>, w)
      | Some auth \<Rightarrow>
          (case cloud_authorize auth v w of
             (Inl err, w) \<Rightarrow> (Inl err, w)
           | (Inr session, w) \<Rightarrow>
               (case cloud_list_logbooks L auth v w of
                  (Inl err, w) \<Rightarrow> (Inl err, w)
                | (Inr logbooks, w) \<Rightarrow>
                    (Inr \<lparr>ct_connection_state = CloudConnected, ct_account_id = Some (se_account_id session),
                      ct_device_id = Some (se_device_id session),
                      ct_server_url = cv_public_url (sv_config v), ct_accessible_logbooks = logbooks\<rparr>, w))))"

section \<open>The client\<close>

text \<open>\<open>CloudSyncClient\<close>: what it keeps of its own is the token; the server is shared.\<close>

type_synonym cloud_client = "cloud_auth option"

definition required_auth :: "cloud_client \<Rightarrow> cloud_sync_error + cloud_auth" where
  "required_auth c = ok_or Unauthenticated c"

definition client_pair :: "libs \<Rightarrow> chrono \<Rightarrow> pair_device_request \<Rightarrow> cloud_client \<Rightarrow> cloud_server \<Rightarrow> world \<Rightarrow>
    (cloud_sync_error fault + cloud_session) \<times> cloud_client \<times> cloud_server \<times> world" where
  "client_pair L C q c v w =
     (case cloud_pair_device L C q v w of
        (Inl _, v, w) \<Rightarrow> (Inl Panicked, c, v, w)
      | (Inr response, v, w) \<Rightarrow>
          (case pe_session response of
             None \<Rightarrow> (Inl (Fail (PairingRejected (case pe_reason response of
                 None \<Rightarrow> ''pairing rejected'' | Some reason \<Rightarrow> reason))), c, v, w)
           | Some session \<Rightarrow> (Inr session, Some \<lparr>au_sync_token = se_sync_token session\<rparr>, v, w)))"

definition client_preview_pull :: "libs \<Rightarrow> cloud_client \<Rightarrow> uuid \<Rightarrow> string option \<Rightarrow> cloud_server \<Rightarrow> world \<Rightarrow>
    (cloud_sync_error + preview_response) \<times> world" where
  "client_preview_pull L c lb h v w =
     (case required_auth c of
        Inl err \<Rightarrow> (Inl err, w)
      | Inr auth \<Rightarrow> cloud_preview_pull L \<lparr>cp_auth = auth, cp_logbook_id = lb, cp_local_head_hash = h\<rparr> v w)"

definition client_pull_events :: "libs \<Rightarrow> cloud_client \<Rightarrow> uuid \<Rightarrow> string option \<Rightarrow> cloud_server \<Rightarrow> world \<Rightarrow>
    (cloud_sync_error + cloud_pull_events_response) \<times> world" where
  "client_pull_events L c lb h v w =
     (case required_auth c of
        Inl err \<Rightarrow> (Inl err, w)
      | Inr auth \<Rightarrow> cloud_pull_events L \<lparr>cq_auth = auth, cq_logbook_id = lb, cq_local_head_hash = h\<rparr> v w)"

definition client_push_events :: "libs \<Rightarrow> cloud_client \<Rightarrow> uuid \<Rightarrow> core_event list \<Rightarrow> cloud_server \<Rightarrow> world \<Rightarrow>
    (cloud_sync_error + cloud_push_events_response) \<times> cloud_server \<times> world" where
  "client_push_events L c lb es v w =
     (case required_auth c of
        Inl err \<Rightarrow> (Inl err, v, w)
      | Inr auth \<Rightarrow> cloud_push_events L \<lparr>ch_auth = auth, ch_logbook_id = lb, ch_events = es\<rparr> v w)"

definition client_upload_report :: "libs \<Rightarrow> cloud_client \<Rightarrow> report_upload_request \<Rightarrow> cloud_server \<Rightarrow> world \<Rightarrow>
    (cloud_sync_error + report_upload_response) \<times> cloud_server \<times> world" where
  "client_upload_report L c q v w =
     (case required_auth c of
        Inl err \<Rightarrow> (Inl err, v, w)
      | Inr auth \<Rightarrow> cloud_upload_report L (q\<lparr>ru_auth := auth\<rparr>) v w)"

section \<open>The client's pull\<close>

text \<open>
  \<open>handle_cloud_pull\<close> of \<open>ham-client/src/serve.rs\<close>, from the request to the relay on: what the
  relay returned is handed to the local store, and the synchronisation state records the
  outcome. Permission, runtime events and the HTTP response are left out, and so are the
  results of verifying the chain and rebuilding the projections, which the code discards.
  The times are kept as instants, not as their text.
\<close>

record client_sync =
  cx_cloud_divergence :: "string option"
  cx_warning_count :: "64 word"
  cx_latest_cloud_preview :: "preview_response option"
  cx_latest_cloud_pull :: "cloud_pull_events_response option"
  cx_latest_cloud_push :: "cloud_push_events_response option"
  cx_last_cloud_push_time :: "datetime option"
  cx_last_cloud_pull_time :: "datetime option"

definition first_string :: "string list \<Rightarrow> string option" where
  "first_string xs = (case xs of [] \<Rightarrow> None | x # _ \<Rightarrow> Some x)"

definition note_divergence :: "pull_response \<Rightarrow> client_sync \<Rightarrow> client_sync" where
  "note_divergence r y =
     (if pl_status r = Diverged
      then y\<lparr>cx_cloud_divergence := first_string (pl_errors r), cx_warning_count := cx_warning_count y + 1\<rparr>
      else y)"

definition handle_cloud_pull :: "'s store_ops \<Rightarrow> libs \<Rightarrow> cloud_auth \<Rightarrow> uuid \<Rightarrow> cloud_server \<Rightarrow> 's \<Rightarrow>
    client_sync \<Rightarrow> world \<Rightarrow> (cloud_sync_error + pull_response) \<times> 's \<times> client_sync \<times> world" where
  "handle_cloud_pull ops L auth lb v s y w =
     (let local_head = (case op_get_head ops s lb of Inl _ \<Rightarrow> None | Inr h \<Rightarrow> h) in
      case cloud_pull_events L \<lparr>cq_auth = auth, cq_logbook_id = lb, cq_local_head_hash = local_head\<rparr> v w of
        (Inl err, w) \<Rightarrow> (Inl err, s, y, w)
      | (Inr cloud_pull, w) \<Rightarrow>
          let (pull, s) = pull_missing_events ops L
                \<lparr>pq_peer_id = ''cloud'', pq_logbook_id = lb, pq_local_head_hash = local_head\<rparr>
                (cr_events cloud_pull) s;
              (now, w) = utc_now w in
          (Inr pull, s,
           note_divergence pull (y\<lparr>cx_latest_cloud_preview := Some (cr_preview cloud_pull),
             cx_latest_cloud_pull := Some cloud_pull, cx_last_cloud_pull_time := Some now\<rparr>), w))"

end
