(* ===== verification/Cloud_Push.thy ===== *)
theory Cloud_Push
  imports Cloud
begin

text \<open>
  The client's push (\<open>run_cloud_push\<close> of \<open>ham-client/src/serve.rs\<close>): the ready part of the
  offline queue, or the whole local history when none is ready, is pushed to the relay, and
  the queue is marked by the outcome. Permissions, runtime events and the JSON of the response
  are left out; the branch taken is the value returned. Results of queue operations are
  discarded, as in the code.
\<close>

datatype cloud_push_mode = ManualPush | AutoDrainQueueOnly

definition queue_only :: "cloud_push_mode \<Rightarrow> bool" where
  "queue_only mode = (mode = AutoDrainQueueOnly)"

datatype push_outcome =
    PushNotConnected
  | PushQueueUnreadable offline_queue_error
  | PushSkipped push_batch
  | PushNeedsReview push_batch
  | PushFinished cloud_push_events_response push_batch
  | PushFailed cloud_sync_error

text \<open>\<open>for operation_id in ids { let _ = mark(operation_id, Utc::now()); }\<close>.\<close>

fun mark_each :: "(uuid \<Rightarrow> datetime \<Rightarrow> json_disk \<Rightarrow> 'r \<times> json_disk) \<Rightarrow> uuid list \<Rightarrow> json_disk \<Rightarrow> world \<Rightarrow>
    json_disk \<times> world" where
  "mark_each mark [] d w = (d, w)"
| "mark_each mark (i # is) d w =
     (let (now, w) = utc_now w; (_, d) = mark i now d in mark_each mark is d w)"

text \<open>\<open>push.errors.first().cloned().unwrap_or_else(default)\<close>.\<close>

definition first_error :: "string \<Rightarrow> string list \<Rightarrow> string" where
  "first_error dflt errors = (case first_string errors of None \<Rightarrow> dflt | Some e \<Rightarrow> e)"

definition settle_batch :: "offline_file codec \<Rightarrow> push_batch \<Rightarrow> cloud_push_events_response \<Rightarrow> json_disk \<Rightarrow> world \<Rightarrow>
    json_disk \<times> world" where
  "settle_batch c batch push d w =
     (if ck_errors push = [] then
        let (now, w) = utc_now w in
        (snd (mark_accepted_by_event_hashes c (ev_event_hash ` set (pb_events batch)) now d), w)
      else if ck_status push = Diverged then
        mark_each (\<lambda>i. mark_blocked c i (first_error ''cloud divergence detected'' (ck_errors push)))
          (pb_operation_ids batch) d w
      else
        mark_each (\<lambda>i. mark_user_action_required c i (first_error ''cloud push rejected'' (ck_errors push))
            (Some ''cloud_push_rejected''))
          (pb_operation_ids batch) d w)"

definition note_push :: "cloud_push_events_response \<Rightarrow> datetime \<Rightarrow> client_sync \<Rightarrow> client_sync" where
  "note_push push now y =
     (let y = y\<lparr>cx_latest_cloud_push := Some push, cx_last_cloud_push_time := Some now\<rparr> in
      if ck_status push = Diverged
      then y\<lparr>cx_cloud_divergence := first_string (ck_errors push), cx_warning_count := cx_warning_count y + 1\<rparr>
      else y)"

definition cloud_error_message :: "libs \<Rightarrow> cloud_sync_error \<Rightarrow> string" where
  "cloud_error_message L err =
     (case err of
        Unauthenticated \<Rightarrow> ''unauthenticated request''
      | UnauthorizedLogbook lb \<Rightarrow> ''unauthorized logbook access: '' @ lib_show_uuid L lb
      | PairingRejected m \<Rightarrow> ''pairing rejected: '' @ m
      | CloudValidation m \<Rightarrow> ''cloud event validation failed: '' @ m
      | CloudStore m \<Rightarrow> ''cloud store error: '' @ m)"

text \<open>The part from \<open>mark_sending\<close> on.\<close>

definition push_batch_to_cloud :: "libs \<Rightarrow> chrono \<Rightarrow> offline_file codec \<Rightarrow> cloud_auth \<Rightarrow> uuid \<Rightarrow>
    core_event list \<Rightarrow> push_batch \<Rightarrow> cloud_server \<Rightarrow> json_disk \<Rightarrow> client_sync \<Rightarrow> world \<Rightarrow>
    push_outcome \<times> cloud_server \<times> json_disk \<times> client_sync \<times> world" where
  "push_batch_to_cloud L C c auth lb all_events batch v d y w =
     (let (d, w) = mark_each (mark_sending c) (pb_operation_ids batch) d w;
          events = (if pb_events batch = [] then all_events else pb_events batch) in
      case cloud_push_events L \<lparr>ch_auth = auth, ch_logbook_id = lb, ch_events = events\<rparr> v w of
        (Inl err, v, w) \<Rightarrow>
          let (d, w) = mark_each (\<lambda>i. record_transient_failure C c i (cloud_error_message L err)
                (Some ''cloud_push_failed'')) (pb_operation_ids batch) d w in
          (PushFailed err, v, d, y, w)
      | (Inr push, v, w) \<Rightarrow>
          let (now, w) = utc_now w; y = note_push push now y;
              (d, w) = settle_batch c batch push d w in
          (PushFinished push batch, v, d, y, w))"

definition run_cloud_push :: "'s store_ops \<Rightarrow> libs \<Rightarrow> chrono \<Rightarrow> offline_file codec \<Rightarrow> cloud_push_mode \<Rightarrow>
    cloud_auth option \<Rightarrow> uuid \<Rightarrow> 's \<Rightarrow> cloud_server \<Rightarrow> json_disk \<Rightarrow> client_sync \<Rightarrow> world \<Rightarrow>
    push_outcome \<times> cloud_server \<times> json_disk \<times> client_sync \<times> world" where
  "run_cloud_push ops L C c mode auth lb s v d y w =
     (case auth of
        None \<Rightarrow> (PushNotConnected, v, d, y, w)
      | Some auth \<Rightarrow>
          let all_events = (case op_list_events ops s lb of Inl _ \<Rightarrow> [] | Inr es \<Rightarrow> es);
              (now, w) = utc_now w in
          (case ready_event_batch c lb all_events now d of
             Inl err \<Rightarrow> (PushQueueUnreadable err, v, d, y, w)
           | Inr batch \<Rightarrow>
               let (d, w) = mark_each (\<lambda>i. mark_user_action_required c i
                     ''offline mutation has no matching local official event''
                     (Some ''missing_local_official_event'')) (pb_missing batch) d w in
               if queue_only mode \<and> pb_events batch = [] \<and> pb_missing batch = []
               then (PushSkipped batch, v, d, y, w)
               else if queue_only mode \<and> pb_events batch = []
               then (PushNeedsReview batch, v, d, y, w)
               else push_batch_to_cloud L C c auth lb all_events batch v d y w))"

end
