(* ===== verification/Cloud_Facts.thy ===== *)
theory Cloud_Facts
  imports Cloud_Push Offline_Facts
begin

text \<open>
  Facts about the cloud relay: who reaches which logbook, what a push does to the relay's
  store, that revocation lasts, and what a client's pull from the relay gives.
\<close>

section \<open>Sessions\<close>

text \<open>The token opens the logbook at the instant the relay reads.\<close>

definition opens :: "cloud_server \<Rightarrow> cloud_auth \<Rightarrow> uuid \<Rightarrow> world \<Rightarrow> bool" where
  "opens v auth lb w = (\<exists>s. hm_get (as_sessions_by_token (sv_auth v)) (au_sync_token auth) = Some s \<and>
     \<not> cloud_session_is_expired s (fst (utc_now w)) \<and> lb \<in> set (se_authorized_logbooks s))"

lemma authorize_Inr:
  "cloud_authorize auth v w = (Inr s, w') \<longleftrightarrow>
     hm_get (as_sessions_by_token (sv_auth v)) (au_sync_token auth) = Some s \<and>
     \<not> cloud_session_is_expired s (fst (utc_now w)) \<and> w' = snd (utc_now w)"
  by (auto simp: cloud_authorize_def Let_def split: option.splits prod.splits)

lemma authorize_logbook_Inr:
  "cloud_authorize_logbook auth lb v w = (Inr s, w') \<longleftrightarrow>
     cloud_authorize auth v w = (Inr s, w') \<and> lb \<in> set (se_authorized_logbooks s)"
  by (cases "cloud_authorize auth v w" rule: prod.exhaust)
    (auto simp: cloud_authorize_logbook_def split: sum.splits)

lemma authorize_logbook_opens:
  "cloud_authorize_logbook auth lb v w = (Inr s, w') \<Longrightarrow> opens v auth lb w"
  by (auto simp: authorize_logbook_Inr authorize_Inr opens_def)

lemma opens_authorizes:
  assumes "opens v auth lb w"
  obtains s where "cloud_authorize_logbook auth lb v w = (Inr s, snd (utc_now w))"
  using assms by (auto simp: opens_def authorize_logbook_Inr authorize_Inr)

section \<open>Pushing\<close>

text \<open>The loop is the pull loop on the events before the first one that is not valid.\<close>

abbreviation is_valid :: "libs \<Rightarrow> core_event \<Rightarrow> bool" where
  "is_valid L e \<equiv> validate_supported_remote_event L e = Inr ()"

lemma push_loop_pull_loop:
  "cloud_push_loop L es a i s = (case pull_loop (mem_ops L) L (takeWhile (is_valid L) es) a i s of
     (a', i', errs, s') \<Rightarrow> (a', i', if errs = [] then
        (case dropWhile (is_valid L) es of [] \<Rightarrow> []
         | e # _ \<Rightarrow> [case validate_supported_remote_event L e of Inl err \<Rightarrow> store_error_message L err | Inr _ \<Rightarrow> []])
        else errs, s'))"
proof (induction es arbitrary: a i s)
  case (Cons e es)
  show ?case
    by (cases "validate_supported_remote_event L e")
      (auto simp: Cons.IH mem_ops_def mem_get_event_def split: option.splits sum.splits prod.splits)
qed simp

lemma push_loop_spec:
  assumes "mem_ok L s" and "cloud_push_loop L es a i s = (a', i', errs, s')" and "\<forall>e\<in>set es. ev_logbook_id e = lb"
  shows "\<exists>xs. mem_ok L s' \<and> mem_log s' = (mem_log s)(lb := mem_log s lb @ xs) \<and> subseq xs es \<and>
    a' = a + length xs \<and> (errs = [] \<longrightarrow> set es \<subseteq> set (mem_log s' lb)) \<and>
    (errs = [] \<longrightarrow> set es \<inter> set (mem_log s lb) = {} \<longrightarrow> distinct es \<longrightarrow> xs = es)"
proof -
  let ?es = "takeWhile (is_valid L) es"
  obtain errs' where l: "pull_loop (mem_ops L) L ?es a i s = (a', i', errs', s')"
    and errs: "errs = [] \<Longrightarrow> errs' = [] \<and> dropWhile (is_valid L) es = []"
    using assms(2) unfolding push_loop_pull_loop by (auto split: prod.splits list.splits if_splits)
  have lb: "\<forall>e\<in>set ?es. ev_logbook_id e = lb" using assms(3) by (auto dest: set_takeWhileD)
  from mem.pull_loop_spec [OF assms(1) l lb] obtain xs where xs: "mem_ok L s'"
    "mem_log s' = (mem_log s)(lb := mem_log s lb @ xs)" "subseq xs ?es" "a' = a + length xs"
    "errs' = [] \<longrightarrow> set ?es \<subseteq> set (mem_log s' lb)"
    "errs' = [] \<longrightarrow> set ?es \<inter> set (mem_log s lb) = {} \<longrightarrow> distinct ?es \<longrightarrow> xs = ?es"
    by (elim exE conjE) (rule that)
  have "subseq ?es es" by (metis takeWhile_dropWhile_id subseq_rev_drop_many list_emb_append2 subseq_order.refl prefix_imp_subseq prefixI)
  then have "subseq xs es" using xs(3) by (rule subseq_order.trans [rotated])
  moreover have "errs' = [] \<and> ?es = es" if "errs = []"
    using errs [OF that] takeWhile_dropWhile_id [of "is_valid L" es] by simp
  ultimately show ?thesis using xs by (intro exI [of _ xs]) metis
qed

text \<open>Valid events that continue the relay's history are all accepted.\<close>

lemma push_loop_all:
  assumes "mem_ok L s" and "\<forall>e\<in>set es. is_valid L e \<and> ev_logbook_id e = lb \<and> mem_known s (ev_event_id e) = None"
    and "chain L (end_hash None (mem_log s lb)) es" and "distinct (map ev_event_id es)"
  shows "\<exists>s'. cloud_push_loop L es a i s = (a + length es, i, [], s')"
proof -
  from mem.pull_loop_all [OF assms] obtain s' where
    "pull_loop (mem_ops L) L es a i s = (a + length es, i, [], s')" by blast
  moreover have all: "takeWhile (is_valid L) es = es" "dropWhile (is_valid L) es = []"
    using assms(2) by (simp_all add: takeWhile_eq_all_conv dropWhile_eq_Nil_conv)
  ultimately show ?thesis unfolding push_loop_pull_loop all by simp
qed

lemma push_result:
  assumes "cloud_push_events L q v w = (Inr r, v', w')"
  shows "opens v (ch_auth q) (ch_logbook_id q) w \<and> (\<forall>e\<in>set (ch_events q). ev_logbook_id e = ch_logbook_id q) \<and>
    (\<exists>s. cloud_push_loop L (ch_events q) 0 0 (sv_store v) =
        (ck_accepted_count r, ck_ignored_duplicate_count r, ck_errors r, s) \<and>
      v' = v\<lparr>sv_store := s\<rparr> \<and> mem_get_head s (ch_logbook_id q) = Inr (ck_server_head_hash r) \<and>
      ck_status r = push_replication_status (ck_errors r))"
proof -
  obtain x u where a: "cloud_authorize_logbook (ch_auth q) (ch_logbook_id q) v w = (x, u)" by fastforce
  with assms obtain s where x: "x = Inr s" by (cases x) (auto simp: cloud_push_events_def)
  have same: "\<forall>e\<in>set (ch_events q). ev_logbook_id e = ch_logbook_id q"
    using assms by (auto simp: cloud_push_events_def a x list_ex_iff split: if_splits)
  obtain b i errs t where l: "cloud_push_loop L (ch_events q) 0 0 (sv_store v) = (b, i, errs, t)"
    by (metis prod_cases4)
  have "list_ex (\<lambda>e. ev_logbook_id e \<noteq> ch_logbook_id q) (ch_events q) = False"
    using same by (auto simp: list_ex_iff)
  with assms have r: "r = \<lparr>ck_status = push_replication_status errs, ck_accepted_count = b,
      ck_ignored_duplicate_count = i, ck_rejected_count = length errs,
      ck_server_head_hash = hm_get (ms_heads t) (ch_logbook_id q), ck_errors = errs\<rparr>" "v' = v\<lparr>sv_store := t\<rparr>"
    by (auto simp: cloud_push_events_def a x l Let_def mem_get_head_def)
  with authorize_logbook_opens [OF a [unfolded x]] same l show ?thesis
    by (simp add: mem_get_head_def)
qed

lemma push_refused: "cloud_push_events L q v w = (Inl err, v', w') \<Longrightarrow> v' = v"
  by (auto simp: cloud_push_events_def Let_def mem_get_head_def split: sum.splits prod.splits if_splits)

lemma push_outcome:
  assumes "mem_ok L (sv_store v)" and "cloud_push_events L q v w = (r, v', w')"
  shows "mem_ok L (sv_store v') \<and> sv_auth v' = sv_auth v \<and> sv_config v' = sv_config v \<and>
    (\<exists>xs. mem_log (sv_store v') = (mem_log (sv_store v))(ch_logbook_id q := mem_log (sv_store v) (ch_logbook_id q) @ xs) \<and>
      subseq xs (ch_events q) \<and> (xs \<noteq> [] \<longrightarrow> opens v (ch_auth q) (ch_logbook_id q) w) \<and>
      (\<forall>p. r = Inr p \<longrightarrow> ck_accepted_count p = length xs \<and>
        ck_server_head_hash p = end_hash None (mem_log (sv_store v') (ch_logbook_id q)) \<and>
        (ck_errors p = [] \<longrightarrow> set (ch_events q) \<subseteq> set (mem_log (sv_store v') (ch_logbook_id q)))))"
proof (cases r)
  case (Inl err)
  from push_refused [OF assms(2) [unfolded Inl]] assms(1) Inl show ?thesis
    by (intro conjI exI [of _ "[]"]) simp_all
next
  case (Inr p)
  from push_result [OF assms(2) [unfolded Inr]] obtain s where o: "opens v (ch_auth q) (ch_logbook_id q) w"
    and lb: "\<forall>e\<in>set (ch_events q). ev_logbook_id e = ch_logbook_id q"
    and l: "cloud_push_loop L (ch_events q) 0 0 (sv_store v) =
      (ck_accepted_count p, ck_ignored_duplicate_count p, ck_errors p, s)"
    and v': "v' = v\<lparr>sv_store := s\<rparr>" and head: "mem_get_head s (ch_logbook_id q) = Inr (ck_server_head_hash p)"
    by blast
  from push_loop_spec [OF assms(1) l lb] obtain xs where xs: "mem_ok L s"
    "mem_log s = (mem_log (sv_store v))(ch_logbook_id q := mem_log (sv_store v) (ch_logbook_id q) @ xs)"
    "subseq xs (ch_events q)" "ck_accepted_count p = 0 + length xs"
    "ck_errors p = [] \<longrightarrow> set (ch_events q) \<subseteq> set (mem_log s (ch_logbook_id q))"
    by (elim exE conjE) (rule that)
  have "ck_server_head_hash p = end_hash None (mem_log s (ch_logbook_id q))"
    using mem.get_head [OF xs(1), of "ch_logbook_id q"] head by (simp add: mem_ops_def)
  with xs o v' Inr show ?thesis by (intro conjI exI [of _ xs]) simp_all
qed

section \<open>Pulling\<close>

lemma filter_suffix_by_hash:
  assumes "distinct (map ev_event_hash (xs @ ys))"
  shows "filter (\<lambda>e. ev_event_hash e \<in> ev_event_hash ` set ys) (xs @ ys) = ys"
proof -
  have "filter (\<lambda>e. ev_event_hash e \<in> ev_event_hash ` set ys) xs = []"
    using assms by (auto simp: filter_empty_conv)
  moreover have "filter (\<lambda>e. ev_event_hash e \<in> ev_event_hash ` set ys) ys = ys"
    by (simp add: filter_id_conv)
  ultimately show ?thesis by simp
qed

lemma log_own_logbook: "mem_ok L s \<Longrightarrow> events_for_logbook (mem_log s lb) lb = mem_log s lb"
  using mem.log_known [of L s _ lb] by (auto simp: events_for_logbook_def filter_id_conv)

text \<open>What the relay sends: the part of its history after the client's.\<close>

lemma relay_sends_suffix:
  assumes "mem_ok L (sv_store v)" and "cloud_pull_events L q v w = (Inr r, w')"
    and "mem_log (sv_store v) (cq_logbook_id q) = mine @ missing" and "cq_local_head_hash q = end_hash None mine"
    and "inj_on (lib_digest L) (canonical_of ` set (mine @ missing))"
  shows "opens v (cq_auth q) (cq_logbook_id q) w \<and> cr_events r = missing \<and>
    vr_status (cr_preview r) = (if missing = [] then InSync else RemoteAhead) \<and>
    vr_events (cr_preview r) = map metadata_for_event missing"
proof -
  define lb where "lb = cq_logbook_id q"
  have log: "mem_log (sv_store v) lb = mine @ missing" using assms(3) by (simp add: lb_def)
  obtain x u where a: "cloud_authorize_logbook (cq_auth q) lb v w = (x, u)" by fastforce
  with assms(2) obtain s where x: "x = Inr s" by (cases x) (auto simp: cloud_pull_events_def lb_def)
  have dist: "distinct (map ev_event_hash (mine @ missing))"
    by (rule chain_distinct [OF _ assms(5)]) (use mem.log_chain [OF assms(1), of lb] log in simp)
  have es: "events_for_logbook (mine @ missing) lb = mine @ missing"
    using log_own_logbook [OF assms(1), of lb] log by simp
  have r: "r = \<lparr>cr_preview = cloud_preview_of lb (end_hash None mine) (mine @ missing),
      cr_events = filter (\<lambda>e. ev_event_hash e \<in> set (map em_event_hash
        (vr_events (cloud_preview_of lb (end_hash None mine) (mine @ missing))))) (mine @ missing)\<rparr>"
    using assms(2) a x mem_list_events_log [of "sv_store v" lb] assms(4)
    by (simp add: cloud_pull_events_def lb_def [symmetric] log Let_def)
  have hash: "em_event_hash \<circ> metadata_for_event = ev_event_hash"
    by (simp add: fun_eq_iff metadata_for_event_def)
  have head: "end_hash None mine = last_hash (mine @ missing) \<longleftrightarrow> missing = []"
  proof
    assume h: "end_hash None mine = last_hash (mine @ missing)"
    have "mine = mine @ missing"
    proof (rule chain_head_unique [of L])
      show "chain L None mine" "chain L None (mine @ missing)"
        using mem.log_chain [OF assms(1), of lb] log by simp_all
      show "inj_on (lib_digest L) (canonical_of ` (set mine \<union> set (mine @ missing)))"
        by (rule inj_on_subset [OF assms(5)]) auto
    qed (use h in \<open>simp add: last_hash_end\<close>)
    then show "missing = []" by simp
  qed (simp add: last_hash_end)
  have p: "vr_status (cloud_preview_of lb (end_hash None mine) (mine @ missing)) =
      (if missing = [] then InSync else RemoteAhead)"
    "vr_events (cloud_preview_of lb (end_hash None mine) (mine @ missing)) = map metadata_for_event missing"
    using head missing_after_prefix [OF dist]
    by (simp_all add: cloud_preview_of_def preview_pull_from_events_def es Let_def)
  have "cr_events r = missing"
    using filter_suffix_by_hash [OF dist] by (simp add: r p hash)
  with p authorize_logbook_opens [OF a [unfolded x]] r show ?thesis by (simp add: lb_def)
qed

context event_store begin

lemma pull_verified_all:
  assumes "inv s" and "pull_verified ops L q h rh ms s = (r, s')" and "lb = pq_logbook_id q"
    and "h = end_hash None (log s lb)" and c: "chain L None (log s lb @ ms)"
    and ok: "\<forall>e\<in>set ms. validate_supported_remote_event L e = Inr () \<and> ev_logbook_id e = lb \<and>
      known s (ev_event_id e) = None"
    and ids: "distinct (map ev_event_id ms)"
    and inj: "inj_on (lib_digest L) (canonical_of ` set (log s lb @ ms))"
  shows "pl_status r = Pulled \<and> pl_accepted_count r = length ms \<and> log s' = (log s)(lb := log s lb @ ms) \<and> inv s'"
proof -
  have dist: "distinct (map ev_event_hash (log s lb @ ms))" by (rule chain_distinct [OF c inj])
  have c': "chain L h ms" using c by (simp add: assms(4))
  from ok c' have v: "verify_incoming_chain L lb h ms = Inr ()" by (simp add: verify_incoming_iff)
  obtain t where l: "pull_loop ops L ms 0 0 s = (0 + length ms, 0, [], t)"
    using pull_loop_all [OF assms(1) ok c' [unfolded assms(4)] ids] by blast
  with assms(2,3) v have st: "pl_status r = Pulled" "pl_accepted_count r = length ms"
    by (auto simp: pull_verified_def pull_response_of_def)
  have "set ms \<inter> set (log s lb) = {}" "distinct ms" using dist by (auto simp: distinct_map)
  with pull_verified_outcome [OF assms(1) assms(2) [unfolded assms(4)] assms(3)] st show ?thesis by fastforce
qed

text \<open>A store that is sent only what it lacks appends it.\<close>

lemma pull_tail:
  assumes "inv s" and "pull_missing_events ops L q ms s = (r, s')" and "lb = pq_logbook_id q" and "ms \<noteq> []"
    and c: "chain L None (log s lb @ ms)"
    and ok: "\<forall>e\<in>set ms. validate_supported_remote_event L e = Inr () \<and> ev_logbook_id e = lb \<and>
      known s (ev_event_id e) = None"
    and ids: "distinct (map ev_event_id ms)"
    and inj: "inj_on (lib_digest L) (canonical_of ` set (log s lb @ ms))"
  shows "pl_status r = Pulled \<and> pl_accepted_count r = length ms \<and> log s' = (log s)(lb := log s lb @ ms) \<and> inv s'"
proof -
  define h where "h = end_hash None (log s lb)"
  have rs: "ms = events_for_logbook ms lb" using ok by (auto simp: events_for_logbook_def filter_id_conv)
  note eq = pull_cases [OF assms(1,3) rs h_def]
  have dist: "distinct (map ev_event_hash (log s lb @ ms))" by (rule chain_distinct [OF c inj])
  have sent: "h \<noteq> last_hash ms \<and> (missing_events_after ms h = MissingEvents ms \<or>
      missing_events_after ms h = MissingDiverged \<and> remote_events_are_missing_tail ms h)"
  proof (cases "log s lb" rule: rev_cases)
    case Nil
    then show ?thesis using \<open>ms \<noteq> []\<close> by (simp add: h_def missing_events_after_def last_hash_def)
  next
    case (snoc xs x)
    then have h: "h = Some (ev_event_hash x)" by (simp add: h_def)
    have not_in: "ev_event_hash x \<notin> ev_event_hash ` set ms" using dist snoc by auto
    then have "position (\<lambda>e. ev_event_hash e = ev_event_hash x) ms = None"
      by (auto simp: position_None_iff list_all_iff image_iff)
    moreover have "ev_event_hash x \<noteq> ev_event_hash (last ms)" using not_in \<open>ms \<noteq> []\<close>
      by (metis image_eqI last_in_set)
    moreover have "ev_previous_hash (hd ms) = h" using c \<open>ms \<noteq> []\<close> by (cases ms) (auto simp: h_def)
    ultimately show ?thesis using \<open>ms \<noteq> []\<close> h
      by (cases ms) (auto simp: missing_events_after_def last_hash_def remote_events_are_missing_tail_def)
  qed
  then have "pull_verified ops L q h (last_hash ms) ms s = (r, s')" using assms(2) by (auto simp: eq)
  from pull_verified_all [OF assms(1) this assms(3) h_def c ok ids inj] show ?thesis .
qed

text \<open>A store that is sent nothing, because it lacks nothing, calls that divergence.\<close>

lemma pull_nothing:
  assumes "inv s" and "pull_missing_events ops L q [] s = (r, s')" and "log s (pq_logbook_id q) \<noteq> []"
  shows "pl_status r = Diverged \<and> pl_errors r = [''remote chain does not contain the local head''] \<and> s' = s"
proof -
  obtain h where h: "end_hash None (log s (pq_logbook_id q)) = Some h"
    using assms(3) end_hash_None_iff by (cases "end_hash None (log s (pq_logbook_id q))") auto
  from pull_cases [OF assms(1) refl refl h [symmetric], where es = "[]"] assms(2) h show ?thesis
    by (auto simp: events_for_logbook_def last_hash_def missing_events_after_def
      remote_events_are_missing_tail_def pull_response_of_def)
qed

lemma client_pull:
  assumes "inv s" and "mem_ok L (sv_store v)" and "opens v auth lb w"
    and "handle_cloud_pull ops L auth lb v s y w = (r, s', y', w')"
    and relay: "mem_log (sv_store v) lb = log s lb @ missing"
    and inj: "inj_on (lib_digest L) (canonical_of ` set (log s lb @ missing))"
  shows "\<exists>p. r = Inr p \<and> pull_missing_events ops L
      \<lparr>pq_peer_id = ''cloud'', pq_logbook_id = lb, pq_local_head_hash = end_hash None (log s lb)\<rparr> missing s = (p, s') \<and>
    cx_warning_count y' = (if pl_status p = Diverged then cx_warning_count y + 1 else cx_warning_count y)"
proof -
  from opens_authorizes [OF assms(3)] obtain t where
    a: "cloud_authorize_logbook auth lb v w = (Inr t, snd (utc_now w))" .
  let ?q = "\<lparr>cq_auth = auth, cq_logbook_id = lb, cq_local_head_hash = end_hash None (log s lb)\<rparr>"
  obtain c where c: "cloud_pull_events L ?q v w = (Inr c, snd (utc_now w))"
    using a mem_list_events_log [of "sv_store v" lb] by (simp add: cloud_pull_events_def Let_def)
  have "cr_events c = missing"
    using relay_sends_suffix [OF assms(2) c _ _ inj] relay by simp
  with assms(4) c show ?thesis
    by (auto simp: handle_cloud_pull_def get_head [OF assms(1)] note_divergence_def split: prod.splits)
qed

end

section \<open>Sequences of requests\<close>

text \<open>The requests that change the relay, each in a world of its own.\<close>

datatype cloud_request =
    CloudPair pair_device_request
  | CloudPush cloud_push_events_request
  | CloudReport report_upload_request
  | CloudRevoke uuid

fun cloud_step :: "libs \<Rightarrow> chrono \<Rightarrow> cloud_request \<times> world \<Rightarrow> cloud_server \<Rightarrow> cloud_server" where
  "cloud_step L C (CloudPair q, w) v = fst (snd (cloud_pair_device L C q v w))"
| "cloud_step L C (CloudPush q, w) v = fst (snd (cloud_push_events L q v w))"
| "cloud_step L C (CloudReport q, w) v = fst (snd (cloud_upload_report L q v w))"
| "cloud_step L C (CloudRevoke d, w) v = cloud_revoke_device d v"

definition cloud_run :: "libs \<Rightarrow> chrono \<Rightarrow> (cloud_request \<times> world) list \<Rightarrow> cloud_server \<Rightarrow> cloud_server" where
  "cloud_run L C rs v = fold (cloud_step L C) rs v"

text \<open>What pairing and reporting do.\<close>

lemma pair_cases:
  obtains (refused) r u where "cloud_pair_device L C q v w = (r, v, u)"
      "\<And>x. r = Inr x \<Longrightarrow> pe_session x = None"
  | (paired) s x u where "cloud_pair_device L C q v w = (Inr x, v\<lparr>sv_auth := open_session s (sv_auth v)\<rparr>, u)"
      "pd_pairing_code q = cv_pairing_code (sv_config v)" "pe_session x = Some s"
      "se_account_id s = pd_account_id q" "se_device_id s = pd_device_id q"
      "se_authorized_logbooks s = pd_requested_logbooks q"
      "se_sync_token s = session_token L (pd_account_id q) (fst (new_v4 w))"
proof (cases "pd_pairing_code q = cv_pairing_code (sv_config v)")
  case False
  show thesis by (rule refused) (auto simp: cloud_pair_device_def False)
next
  case True
  obtain i w1 where i: "new_v4 w = (i, w1)" by fastforce
  obtain t w2 where t: "utc_now w1 = (t, w2)" by fastforce
  show thesis
  proof (cases "cloud_session_expiry C t (cv_sync_session_ttl_seconds (sv_config v)) :: unit fault + datetime option")
    case (Inl err)
    show thesis by (rule refused) (auto simp: cloud_pair_device_def True i t Inl)
  next
    case (Inr x)
    show thesis
      by (rule paired [OF _ True], simp add: cloud_pair_device_def True i t Inr Let_def) (simp_all add: i)
  qed
qed

lemma upload_report_frame:
  "sv_store (fst (snd (cloud_upload_report L q v w))) = sv_store v"
  "sv_config (fst (snd (cloud_upload_report L q v w))) = sv_config v"
  "as_sessions_by_token (sv_auth (fst (snd (cloud_upload_report L q v w)))) = as_sessions_by_token (sv_auth v)"
  "as_account_logbooks (sv_auth (fst (snd (cloud_upload_report L q v w)))) = as_account_logbooks (sv_auth v)"
  by (auto simp: cloud_upload_report_def Let_def split: sum.splits prod.splits)

lemma pair_frame:
  "sv_store (fst (snd (cloud_pair_device L C q v w))) = sv_store v"
  "sv_config (fst (snd (cloud_pair_device L C q v w))) = sv_config v"
  by (rule pair_cases [of L C q v w]; simp)+

lemma step_log:
  assumes "mem_ok L (sv_store v)"
  shows "mem_ok L (sv_store (cloud_step L C (r, w) v)) \<and>
    (\<forall>lb. mem_log (sv_store (cloud_step L C (r, w) v)) lb \<noteq> mem_log (sv_store v) lb \<longrightarrow>
      (\<exists>q xs. r = CloudPush q \<and> ch_logbook_id q = lb \<and> opens v (ch_auth q) lb w \<and> subseq xs (ch_events q) \<and>
        mem_log (sv_store (cloud_step L C (r, w) v)) lb = mem_log (sv_store v) lb @ xs))"
proof (cases r)
  case (CloudPush q)
  obtain x v' u where p: "cloud_push_events L q v w = (x, v', u)" by (metis prod_cases3)
  from push_outcome [OF assms p] obtain xs where xs: "mem_ok L (sv_store v')"
    "mem_log (sv_store v') = (mem_log (sv_store v))(ch_logbook_id q := mem_log (sv_store v) (ch_logbook_id q) @ xs)"
    "subseq xs (ch_events q)" "xs \<noteq> [] \<longrightarrow> opens v (ch_auth q) (ch_logbook_id q) w"
    by (elim exE conjE) (rule that)
  then show ?thesis by (auto simp: CloudPush p)
qed (use assms in \<open>simp_all add: pair_frame upload_report_frame cloud_revoke_device_def\<close>)

lemma run_log:
  assumes "mem_ok L (sv_store v)"
  shows "mem_ok L (sv_store (cloud_run L C rs v)) \<and>
    (\<forall>lb. prefix (mem_log (sv_store v) lb) (mem_log (sv_store (cloud_run L C rs v)) lb))"
  using assms
proof (induction rs arbitrary: v)
  case (Cons r rs)
  obtain q w where r: "r = (q, w)" by (cases r)
  note s = step_log [OF Cons.prems, of C q w]
  then have "prefix (mem_log (sv_store v) lb) (mem_log (sv_store (cloud_step L C r v)) lb)" for lb
    unfolding r by (metis prefix_order.refl prefixI)
  moreover have "mem_ok L (sv_store (cloud_step L C r v))" using s by (simp add: r)
  ultimately show ?case using Cons.IH [of "cloud_step L C r v"]
    by (auto simp: cloud_run_def intro: prefix_order.trans)
qed (simp add: cloud_run_def)

section \<open>Sessions through a run\<close>

text \<open>Every session is filed under its own token, and its account has its logbooks.\<close>

definition sessions_ok :: "cloud_auth_state \<Rightarrow> bool" where
  "sessions_ok a = map_ok (\<lambda>t s. se_sync_token s = t \<and>
     (\<exists>l. hm_get (as_account_logbooks a) (se_account_id s) = Some l \<and> set (se_authorized_logbooks s) \<subseteq> set l))
     (as_sessions_by_token a)"

lemma extend_set_set: "set (extend_set xs ys) = set xs \<union> set ys"
  unfolding extend_set_def by (induction ys arbitrary: xs) auto

lemma open_session_ok:
  assumes "sessions_ok a"
  shows "sessions_ok (open_session s a)"
  unfolding sessions_ok_def open_session_def
  using assms
  by (fastforce simp: sessions_ok_def map_ok_def hm_get_insert hm_wf_insert extend_set_set split: option.splits)

lemma revoke_sessions:
  assumes "hm_wf (as_sessions_by_token (sv_auth v))"
  shows "hm_get (as_sessions_by_token (sv_auth (cloud_revoke_device d v))) t =
      (case hm_get (as_sessions_by_token (sv_auth v)) t of None \<Rightarrow> None
       | Some s \<Rightarrow> if se_device_id s = d then None else Some s)"
    and "hm_wf (as_sessions_by_token (sv_auth (cloud_revoke_device d v)))"
proof -
  have "map_of (filter (\<lambda>(_, s). se_device_id s \<noteq> d) m) t =
      (case map_of m t of None \<Rightarrow> None | Some s \<Rightarrow> if se_device_id s = d then None else Some s)"
    if "distinct (map fst m)" for m :: "(string \<times> cloud_session) list"
    using that by (induction m) (auto split: option.splits dest: map_of_SomeD simp: rev_image_eqI)
  with assms show "hm_get (as_sessions_by_token (sv_auth (cloud_revoke_device d v))) t =
      (case hm_get (as_sessions_by_token (sv_auth v)) t of None \<Rightarrow> None
       | Some s \<Rightarrow> if se_device_id s = d then None else Some s)"
    "hm_wf (as_sessions_by_token (sv_auth (cloud_revoke_device d v)))"
    by (simp_all add: cloud_revoke_device_def hm_wf_def distinct_map_filter)
qed

lemma step_sessions_ok:
  assumes "sessions_ok (sv_auth v)"
  shows "sessions_ok (sv_auth (cloud_step L C (r, w) v))"
proof (cases r)
  case (CloudPair q)
  show ?thesis
    by (cases rule: pair_cases [of L C q v w]) (simp_all add: CloudPair assms open_session_ok)
next
  case (CloudPush q)
  obtain x v' u where p: "cloud_push_events L q v w = (x, v', u)" by (metis prod_cases3)
  then have "sv_auth v' = sv_auth v" by (cases x) (use push_refused push_result in fastforce)+
  with assms show ?thesis by (simp add: CloudPush p)
next
  case (CloudReport q)
  with assms show ?thesis by (simp add: sessions_ok_def upload_report_frame)
next
  case (CloudRevoke d)
  have "as_account_logbooks (sv_auth (cloud_revoke_device d v)) = as_account_logbooks (sv_auth v)"
    by (simp add: cloud_revoke_device_def)
  moreover have "hm_wf (as_sessions_by_token (sv_auth v))" using assms by (simp add: sessions_ok_def map_ok_def)
  ultimately show ?thesis using assms
    by (auto simp: CloudRevoke sessions_ok_def map_ok_def revoke_sessions split: option.splits if_splits)
qed

lemma run_sessions_ok: "sessions_ok (sv_auth v) \<Longrightarrow> sessions_ok (sv_auth (cloud_run L C rs v))"
proof (induction rs arbitrary: v)
  case (Cons r rs)
  then show ?case using step_sessions_ok [of v L C "fst r" "snd r"] by (simp add: cloud_run_def)
qed (simp add: cloud_run_def)

lemma new_sessions_ok [simp]: "sessions_ok (sv_auth (cloud_server_new cfg))"
  by (simp add: cloud_server_new_def cloud_auth_state_default_def sessions_ok_def)

text \<open>No session of a device.\<close>

definition shut_out :: "uuid \<Rightarrow> cloud_server \<Rightarrow> bool" where
  "shut_out d v = (hm_wf (as_sessions_by_token (sv_auth v)) \<and>
     (\<forall>t s. hm_get (as_sessions_by_token (sv_auth v)) t = Some s \<longrightarrow> se_device_id s \<noteq> d))"

lemma shut_out_step:
  assumes "shut_out d v" and "\<And>q. r = CloudPair q \<Longrightarrow> pd_device_id q \<noteq> d"
  shows "shut_out d (cloud_step L C (r, w) v)"
proof (cases r)
  case (CloudPair q)
  note other = assms(2) [OF CloudPair]
  show ?thesis
  proof (cases rule: pair_cases [of L C q v w])
    case (paired s x u)
    with assms(1) other show ?thesis
      by (auto simp: CloudPair shut_out_def open_session_def hm_get_insert hm_wf_insert)
  qed (use assms(1) CloudPair in simp)
next
  case (CloudPush q)
  obtain x v' u where p: "cloud_push_events L q v w = (x, v', u)" by (metis prod_cases3)
  then have "sv_auth v' = sv_auth v" by (cases x) (use push_refused push_result in fastforce)+
  with assms(1) show ?thesis by (simp add: CloudPush p shut_out_def)
next
  case (CloudReport q)
  with assms(1) show ?thesis by (simp add: shut_out_def upload_report_frame)
next
  case (CloudRevoke e)
  with assms(1) show ?thesis by (auto simp: shut_out_def revoke_sessions split: option.splits if_splits)
qed

lemma shut_out_run:
  assumes "shut_out d v" and "\<forall>(r, w)\<in>set rs. \<forall>q. r = CloudPair q \<longrightarrow> pd_device_id q \<noteq> d"
  shows "shut_out d (cloud_run L C rs v)"
  using assms
proof (induction rs arbitrary: v)
  case (Cons r rs)
  obtain q w where r: "r = (q, w)" by (cases r)
  have "shut_out d (cloud_step L C r v)"
    unfolding r by (rule shut_out_step [OF Cons.prems(1)]) (use Cons.prems(2) r in auto)
  with Cons.IH [OF this] Cons.prems(2) show ?case by (simp add: cloud_run_def)
qed (simp add: cloud_run_def)

end
