(* ===== verification/Push_Facts.thy ===== *)
theory Push_Facts
  imports Cloud_Facts Lan_Facts
begin

text \<open>
  Facts about the client's push: what its marks do to the queue on disk, whatever the writes
  do, and when they work.
\<close>

section \<open>Operations on a document that is read back\<close>

context document
begin

lemma op_working:
  assumes "load_doc k c d = Inr f" and "io_works d" and "\<And>f. codec_reads c f" and "doc_op k lift c g d = (r, d')"
  shows "io_works d' \<and> (load_doc k c d' = Inr f \<or>
    (\<exists>a f'. g f = Inr (a, Some f') \<and> load_doc k c d' = Inr (dk_sorted k f')))"
proof (cases "\<exists>a f'. g f = Inr (a, Some f') \<and> dk_validate k f' = Inr ()")
  case True
  then obtain a f' where g: "g f = Inr (a, Some f')" "dk_validate k f' = Inr ()" by blast
  have h: "doc_holds k c f d" using assms(1) by (simp add: doc_holds_def)
  from op_runs [where lift = lift and c = c and f = f and g = g and a = a and f' = f', OF h g assms(2)] assms(4) have r: "r = Inr a" "io_works d'" by auto
  from op_success [OF h assms(4) [unfolded r(1)] assms(3)] g r(2) show ?thesis
    by (auto simp: doc_holds_def)
next
  case False
  then have "d' = d" using assms(1,4) validate_sorted
    by (auto simp: doc_op_def save_doc_def split: sum.splits option.splits)
  with assms(1,2) show ?thesis by simp
qed

lemma doc_all_changed:
  assumes "doc_all k c P d" and "P (dk_default k)" and "\<And>f. codec_reads c f"
    and "\<And>f a f'. P f \<Longrightarrow> g f = Inr (a, Some f') \<Longrightarrow> P (dk_sorted k f')"
  shows "doc_all k c P (snd (doc_op k lift c g d))"
  using doc_all_op(1) [of c P d g lift] assms by blast

end

section \<open>The marks\<close>

text \<open>An update of one mutation that does not accept it and keeps its names.\<close>

definition mild :: "(offline_mutation \<Rightarrow> offline_queue_error fault + offline_mutation) \<Rightarrow> bool" where
  "mild u = (\<forall>m m'. u m = Inr m' \<longrightarrow> om_status m' \<noteq> OmAccepted \<and> om_operation_id m' = om_operation_id m \<and>
     om_local_event_hash m' = om_local_event_hash m)"

lemma mild_marks:
  "mild (\<lambda>m. Inr ((mark_sending_update m)\<lparr>om_updated_at := now\<rparr>))"
  "st \<noteq> OmAccepted \<Longrightarrow> mild (\<lambda>m. Inr ((stop_update st reason m)\<lparr>om_updated_at := now\<rparr>))"
  "st \<noteq> OmAccepted \<Longrightarrow> mild (\<lambda>m. Inr ((stop_update st reason m)\<lparr>om_last_error_code := code, om_updated_at := now\<rparr>))"
  "mild (transient_failure C reason code now)"
  by (auto simp: mild_def mark_sending_update_def stop_update_def transient_failure_def split: if_splits)

text \<open>A mark: an operation that changes one mutation mildly.\<close>

definition mild_mark :: "offline_file codec \<Rightarrow> (uuid \<Rightarrow> datetime \<Rightarrow> json_disk \<Rightarrow>
    (offline_queue_error fault + offline_mutation) \<times> json_disk) \<Rightarrow> bool" where
  "mild_mark c mark = (\<forall>i now. \<exists>u. mild u \<and> mark i now = doc_op offline_kind Fail c (change_mutation i u))"

lemma mild_mark_operations:
  "mild_mark c (mark_sending c)"
  "mild_mark c (\<lambda>i. mark_user_action_required c i reason code)"
  "mild_mark c (\<lambda>i. mark_blocked c i reason)"
  "mild_mark c (\<lambda>i. record_transient_failure C c i reason code)"
proof -
  have mark: "mild_mark c mark" if "\<And>i now. mild (u now)" "\<And>i now. mark i now = queue_op c (change_mutation i (u now))" for mark u
    using that unfolding mild_mark_def by blast
  show "mild_mark c (mark_sending c)"
    by (rule mark [of "\<lambda>now m. Inr ((mark_sending_update m)\<lparr>om_updated_at := now\<rparr>)"])
      (simp_all add: mild_marks fun_eq_iff mark_sending_def update_change_def)
  show "mild_mark c (\<lambda>i. mark_user_action_required c i reason code)"
    by (rule mark [of "\<lambda>now m. Inr ((stop_update OmUserActionRequired reason m)\<lparr>om_last_error_code := code, om_updated_at := now\<rparr>)"])
      (simp_all add: mild_marks fun_eq_iff mark_user_action_required_def update_change_def)
  show "mild_mark c (\<lambda>i. mark_blocked c i reason)"
    by (rule mark [of "\<lambda>now m. Inr ((stop_update OmBlocked reason m)\<lparr>om_updated_at := now\<rparr>)"])
      (simp_all add: mild_marks fun_eq_iff mark_blocked_def update_change_def)
  show "mild_mark c (\<lambda>i. record_transient_failure C c i reason code)"
    by (rule mark [of "transient_failure C reason code"])
      (simp_all add: mild_marks fun_eq_iff record_transient_failure_def)
qed

text \<open>Accepted mutations are of \<open>A\<close> or have an event whose hash is in \<open>H\<close>.\<close>

definition honest :: "uuid set \<Rightarrow> string set \<Rightarrow> offline_file \<Rightarrow> bool" where
  "honest A H f = (\<forall>m\<in>set (oq_mutations f). om_status m = OmAccepted \<longrightarrow>
     om_operation_id m \<in> A \<or> (\<exists>h\<in>H. om_local_event_hash m = Some h))"

text \<open>What the queue knows of its mutations, apart from their state.\<close>

definition names :: "offline_file \<Rightarrow> (uuid \<times> string option) set" where
  "names f = (\<lambda>m. (om_operation_id m, om_local_event_hash m)) ` set (oq_mutations f)"

lemma sorted_simps [simp]:
  "honest A H (dk_sorted offline_kind f) = honest A H f" "names (dk_sorted offline_kind f) = names f"
  by (simp_all add: honest_def names_def offline_kind_def set_sorted_mutations)

lemma honest_default: "honest A H (dk_default offline_kind)"
  by (simp add: honest_def offline_kind_def offline_file_default_def)

lemma changed_or_old:
  "set (modify_first p g xs) \<subseteq> set xs \<union> (\<lambda>x. g x) ` {x \<in> set xs. p x}"
  by (induction xs) auto

lemma image_modify_first:
  assumes "\<And>x. List.find p xs = Some x \<Longrightarrow> h (g x) = h x"
  shows "h ` set (modify_first p g xs) = h ` set xs"
  using assms by (induction xs) auto

lemma change_honest:
  assumes "honest A H f" and "mild u" and "change_mutation i u f = Inr (a, Some f')"
  shows "honest A H f'"
proof -
  from assms(3) obtain m where m: "u m = Inr a" "f' = f\<lparr>oq_mutations :=
      modify_first (has_operation i) (\<lambda>_. a) (oq_mutations f)\<rparr>"
    by (auto simp: change_mutation_def split: option.splits)
  from m(1) assms(2) have "om_status a \<noteq> OmAccepted" by (simp add: mild_def)
  then show ?thesis using assms(1) changed_or_old [of "has_operation i" "\<lambda>_. a" "oq_mutations f"]
    by (fastforce simp: honest_def m(2))
qed

lemma change_names:
  assumes "mild u" and "change_mutation i u f = Inr (a, Some f')"
  shows "names f' = names f"
proof -
  from assms(2) obtain m where m: "List.find (has_operation i) (oq_mutations f) = Some m" "u m = Inr a"
    "f' = f\<lparr>oq_mutations := modify_first (has_operation i) (\<lambda>_. a) (oq_mutations f)\<rparr>"
    by (auto simp: change_mutation_def split: option.splits)
  from m(2) assms(1) have "om_operation_id a = om_operation_id m" "om_local_event_hash a = om_local_event_hash m"
    by (simp_all add: mild_def)
  with m(1) show ?thesis unfolding names_def m(3)
    by (simp del: image_cong_simp) (intro image_modify_first, simp)
qed

lemma mark_each_honest:
  assumes "\<And>f. codec_reads c f" and "mild_mark c mark" and "doc_all offline_kind c (honest A H) d"
  shows "doc_all offline_kind c (honest A H) (fst (mark_each mark is d w))"
  using assms(3)
proof (induction "is" arbitrary: d w)
  case (Cons i "is")
  obtain now w1 where t: "utc_now w = (now, w1)" by fastforce
  from assms(2) obtain u where u: "mild u" "mark i now = doc_op offline_kind Fail c (change_mutation i u)"
    unfolding mild_mark_def by blast
  have "doc_all offline_kind c (honest A H) (snd (mark i now d))"
    unfolding u(2)
    by (rule queue_file.doc_all_changed [OF Cons.prems honest_default assms(1)]) (use change_honest [OF _ u(1)] in simp)
  then have "doc_all offline_kind c (honest A H) (fst (mark_each mark is (snd (mark i now d)) w1))" by (rule Cons.IH)
  then show ?case by (simp add: t split_beta)
qed simp

lemma mark_each_names:
  assumes "\<And>f. codec_reads c f" and "mild_mark c mark" and "load_queue c d = Inr f" and "io_works d"
  shows "\<exists>f'. load_queue c (fst (mark_each mark is d w)) = Inr f' \<and> names f' = names f \<and>
    io_works (fst (mark_each mark is d w))"
  using assms(3,4)
proof (induction "is" arbitrary: d w f)
  case (Cons i "is")
  obtain now w1 where t: "utc_now w = (now, w1)" by fastforce
  from assms(2) obtain u where u: "mild u" "mark i now = doc_op offline_kind Fail c (change_mutation i u)"
    unfolding mild_mark_def by blast
  obtain r d1 where d1: "doc_op offline_kind Fail c (change_mutation i u) d = (r, d1)" by fastforce
  from queue_file.op_working [OF Cons.prems(1) [unfolded load_queue_def] Cons.prems(2) assms(1) d1]
  obtain f1 where f1: "load_queue c d1 = Inr f1" "io_works d1" "names f1 = names f"
    using change_names [OF u(1)] by (auto simp: load_queue_def)
  from Cons.IH [OF f1(1,2), of w1] f1(3) show ?case by (simp add: t u(2) d1)
qed simp

section \<open>The push\<close>

lemma accepted_by_hashes_honest:
  assumes "honest A H f" and "hashes \<subseteq> H" and "accepted_by_hashes_change hashes now f = Inr (n, Some f')"
  shows "honest A H f'"
  using assms by (fastforce simp: honest_def accepted_by_hashes_change_def accepted_by_hash_def accepted_update_def
    split: if_splits option.splits)

lemma batch_events:
  assumes "ready_event_batch c lb es now d = Inr batch"
  shows "length (pb_operation_ids batch) = length (pb_events batch)"
    "\<And>f. load_queue c d = Inr f \<Longrightarrow> (i, e) \<in> set (zip (pb_operation_ids batch) (pb_events batch)) \<Longrightarrow>
      (i, Some (ev_event_hash e)) \<in> names f"
proof -
  obtain f0 where l: "load_queue c d = Inr f0" using assms by (auto simp: ready_event_batch_def)
  obtain sent missing where b: "batch_loop (events_by_hash es) (ready_mutations (oq_mutations f0) lb now) = (sent, missing)"
    and batch: "batch = \<lparr>pb_logbook_id = lb, pb_operation_ids = map fst sent, pb_events = map snd sent, pb_missing = missing\<rparr>"
    using assms l by (cases "batch_loop (events_by_hash es) (ready_mutations (oq_mutations f0) lb now)")
      (auto simp: ready_event_batch_def)
  show "length (pb_operation_ids batch) = length (pb_events batch)" by (simp add: batch)
  from batch_loop_spec [OF b] obtain ready rest where r: "ready_mutations (oq_mutations f0) lb now = ready @ rest"
    "map fst sent = map om_operation_id ready"
    "list_all2 (\<lambda>m e. e \<in> set es \<and> om_local_event_hash m = Some (ev_event_hash e)) ready (map snd sent)" by blast
  have "distinct (map sequence_key (oq_mutations f0))"
    using load_queue_valid(1) [OF l] by (simp add: offline_file_validate_iff)
  note ready = ready_mutations_spec(2) [OF this]
  have sent: "(i, Some (ev_event_hash e)) \<in> names f0" if ie: "(i, e) \<in> set sent" for i e
  proof -
    from ie obtain n where n: "n < length sent" "sent ! n = (i, e)" by (auto simp: in_set_conv_nth)
    have len: "length sent = length ready" using r(2) by (metis length_map)
    from n len have x: "ready ! n \<in> set (ready_mutations (oq_mutations f0) lb now)" unfolding r(1) by simp
    have "om_operation_id (ready ! n) = i" using r(2) n len by (metis nth_map fst_conv)
    moreover have "om_local_event_hash (ready ! n) = Some (ev_event_hash e)"
      using list_all2_nthD [OF r(3), of n] n len by simp
    ultimately show ?thesis using ready [OF x] by (force simp: names_def)
  qed
  show "(i, Some (ev_event_hash e)) \<in> names f"
    if "load_queue c d = Inr f" "(i, e) \<in> set (zip (pb_operation_ids batch) (pb_events batch))" for f i e
    using that l sent by (simp add: batch zip_map_fst_snd)
qed

text \<open>After the request: what the marks leave, and the relay.\<close>

lemma settle_honest:
  assumes "\<And>f. codec_reads c f" and "doc_all offline_kind c (honest A H) d"
    and "ck_errors push = [] \<Longrightarrow> ev_event_hash ` set (pb_events batch) \<subseteq> H"
  shows "doc_all offline_kind c (honest A H) (fst (settle_batch c batch push d w))"
proof (cases "ck_errors push = []")
  case True
  obtain now w1 where t: "utc_now w = (now, w1)" by fastforce
  have "doc_all offline_kind c (honest A H)
      (snd (mark_accepted_by_event_hashes c (ev_event_hash ` set (pb_events batch)) now d))"
    unfolding mark_accepted_by_event_hashes_def
    by (rule queue_file.doc_all_changed [OF assms(2) honest_default assms(1)])
      (use accepted_by_hashes_honest assms(3) [OF True] in simp)
  with True show ?thesis by (simp add: settle_batch_def t)
next
  case False
  then show ?thesis
    by (simp add: settle_batch_def mark_each_honest [OF assms(1) _ assms(2)] mild_mark_operations)
qed

lemma push_batch_outcome:
  assumes "mem_ok L (sv_store v)"
    and "push_batch_to_cloud L C c auth lb es batch v d y w = (out, v', d', y', w')"
  obtains (failed) err w2 d1 where "out = PushFailed err" "v' = v"
      "d1 = fst (mark_each (mark_sending c) (pb_operation_ids batch) d w)"
      "d' = fst (mark_each (\<lambda>i. record_transient_failure C c i (cloud_error_message L err)
         (Some ''cloud_push_failed'')) (pb_operation_ids batch) d1 w2)"
  | (finished) push d1 w1 where "out = PushFinished push batch"
      "d1 = fst (mark_each (mark_sending c) (pb_operation_ids batch) d w)"
      "d' = fst (settle_batch c batch push d1 w1)"
      "mem_ok L (sv_store v')" "prefix (mem_log (sv_store v) lb) (mem_log (sv_store v') lb)"
      "ck_errors push = [] \<Longrightarrow> set (pb_events batch) \<subseteq> set (mem_log (sv_store v') lb)"
proof -
  obtain d1 u where d1: "mark_each (mark_sending c) (pb_operation_ids batch) d w = (d1, u)" by fastforce
  define q where "q = \<lparr>ch_auth = auth, ch_logbook_id = lb,
    ch_events = (if pb_events batch = [] then es else pb_events batch)\<rparr>"
  obtain r v1 u1 where p: "cloud_push_events L q v u = (r, v1, u1)" by (metis prod_cases3)
  show thesis
  proof (cases r)
    case (Inl err)
    have "v1 = v" using push_refused p Inl by blast
    obtain d2 u2 where d2: "mark_each (\<lambda>i. record_transient_failure C c i (cloud_error_message L err)
         (Some ''cloud_push_failed'')) (pb_operation_ids batch) d1 u1 = (d2, u2)" by fastforce
    from assms(2) d1 p Inl d2 have "out = PushFailed err" "v' = v1" "d' = d2"
      by (simp_all add: push_batch_to_cloud_def q_def [symmetric] Let_def)
    with \<open>v1 = v\<close> d1 d2 show thesis by (intro failed [of err d1 u1]) simp_all
  next
    case (Inr push)
    from push_outcome [OF assms(1) p] Inr obtain xs where xs: "mem_ok L (sv_store v1)"
      "mem_log (sv_store v1) = (mem_log (sv_store v))(ch_logbook_id q := mem_log (sv_store v) (ch_logbook_id q) @ xs)"
      "ck_errors push = [] \<longrightarrow> set (ch_events q) \<subseteq> set (mem_log (sv_store v1) (ch_logbook_id q))"
      by blast
    then have "ck_errors push = [] \<Longrightarrow> set (pb_events batch) \<subseteq> set (mem_log (sv_store v1) lb)"
      "prefix (mem_log (sv_store v) lb) (mem_log (sv_store v1) lb)"
      by (auto simp: q_def split: if_splits)
    moreover obtain now u2 where t: "utc_now u1 = (now, u2)" by fastforce
    moreover obtain d2 u3 where d2: "settle_batch c batch push d1 u2 = (d2, u3)" by fastforce
    moreover from assms(2) d1 p Inr t d2 have "out = PushFinished push batch" "v' = v1" "d' = d2"
      by (simp_all add: push_batch_to_cloud_def q_def [symmetric] Let_def)
    ultimately show thesis using d1 xs(1) by (intro finished [of push d1 u2]) simp_all
  qed
qed

lemma push_batch_honest:
  assumes "\<And>f. codec_reads c f" and "mem_ok L (sv_store v)" and "doc_all offline_kind c (honest A H) d"
    and "push_batch_to_cloud L C c auth lb es batch v d y w = (out, v', d', y', w')"
    and "ev_event_hash ` set (mem_log (sv_store v') lb) \<subseteq> H"
  shows "doc_all offline_kind c (honest A H) d'"
  using assms(2,4)
proof (cases rule: push_batch_outcome)
  case (failed err w2 d1)
  then show ?thesis
    by (simp add: mark_each_honest [OF assms(1)] mild_mark_operations assms(3))
next
  case (finished push d1 w1)
  have "doc_all offline_kind c (honest A H) d1"
    by (simp add: finished(2) mark_each_honest [OF assms(1)] mild_mark_operations assms(3))
  then show ?thesis unfolding finished(3)
    by (rule settle_honest [OF assms(1)]) (use finished(6) assms(5) in blast)
qed

text \<open>The marks on mutations whose event is missing, and the ways a push ends.\<close>

abbreviation mark_missing :: "offline_file codec \<Rightarrow> push_batch \<Rightarrow> json_disk \<Rightarrow> world \<Rightarrow> json_disk \<times> world" where
  "mark_missing c batch \<equiv> mark_each (\<lambda>i. mark_user_action_required c i
     ''offline mutation has no matching local official event'' (Some ''missing_local_official_event'')) (pb_missing batch)"

lemma run_push_cases:
  assumes "run_cloud_push ops L C c mode auth lb s v d y w = (out, v', d', y', w')"
  obtains (stopped) "v' = v" "d' = d \<or> (\<exists>batch w1. d' = fst (mark_missing c batch d w1))"
      "\<And>push batch. out \<noteq> PushFinished push batch"
  | (sent) a now es batch w1 w2 where "auth = Some a" "ready_event_batch c lb es now d = Inr batch"
      "push_batch_to_cloud L C c a lb es batch v (fst (mark_missing c batch d w1)) y w2 = (out, v', d', y', w')"
proof (cases auth)
  case None
  with assms show thesis by (intro stopped) (simp_all add: run_cloud_push_def)
next
  case (Some a)
  define es where "es = (case op_list_events ops s lb of Inl _ \<Rightarrow> [] | Inr es \<Rightarrow> es)"
  obtain now w1 where t: "utc_now w = (now, w1)" by fastforce
  show thesis
  proof (cases "ready_event_batch c lb es now d")
    case (Inl err)
    with assms Some t show thesis by (intro stopped) (auto simp: run_cloud_push_def es_def [symmetric])
  next
    case (Inr batch)
    obtain d1 w2 where m: "mark_missing c batch d w1 = (d1, w2)" by fastforce
    note run = assms [unfolded run_cloud_push_def Some option.case Let_def es_def [symmetric] t prod.case Inr sum.case m]
    show thesis
    proof (cases "queue_only mode \<and> pb_events batch = []")
      case True
      have "d' = d1" "v' = v" "out \<noteq> PushFinished push x" for push x
        using run True by (auto split: if_splits)
      with m show thesis by (intro stopped) (auto intro!: exI [of _ batch] exI [of _ w1])
    next
      case False
      with run have "push_batch_to_cloud L C c a lb es batch v d1 y w2 = (out, v', d', y', w')" by auto
      then show thesis by (intro sent [OF Some Inr, of w1 w2]) (simp add: m)
    qed
  qed
qed

lemma run_push_honest:
  assumes "\<And>f. codec_reads c f" and "mem_ok L (sv_store v)" and "doc_all offline_kind c (honest A H) d"
    and "run_cloud_push ops L C c mode auth lb s v d y w = (out, v', d', y', w')"
    and "ev_event_hash ` set (mem_log (sv_store v') lb) \<subseteq> H"
  shows "doc_all offline_kind c (honest A H) d'"
  using assms(4)
proof (cases rule: run_push_cases)
  case stopped
  then show ?thesis using assms(3) mark_each_honest [OF assms(1) mild_mark_operations(2) assms(3)] by auto
next
  case (sent a now es batch w1 w2)
  show ?thesis
    by (rule push_batch_honest [OF assms(1,2) _ sent(3) assms(5)])
      (rule mark_each_honest [OF assms(1) mild_mark_operations(2) assms(3)])
qed

text \<open>When the writes work, a push without errors accepts all it sent.\<close>

lemma settle_accepts:
  assumes "\<And>f. codec_reads c f" and "load_queue c d = Inr f" and "io_works d" and "ck_errors push = []"
  shows "\<exists>f'. load_queue c (fst (settle_batch c batch push d w)) = Inr f' \<and> names f' = names f \<and>
    (\<forall>m\<in>set (oq_mutations f'). \<forall>e\<in>set (pb_events batch).
      om_local_event_hash m = Some (ev_event_hash e) \<longrightarrow> om_status m = OmAccepted)"
proof -
  let ?hs = "ev_event_hash ` set (pb_events batch)"
  obtain now w1 where t: "utc_now w = (now, w1)" by fastforce
  define f1 where "f1 = f\<lparr>oq_mutations := map (\<lambda>m. if accepted_by_hash ?hs m
         then (accepted_update now m)\<lparr>om_updated_at := now\<rparr> else m) (oq_mutations f)\<rparr>"
  have g: "accepted_by_hashes_change ?hs now f = Inr (length (filter (accepted_by_hash ?hs) (oq_mutations f)), Some f1)"
    by (simp add: accepted_by_hashes_change_def f1_def)
  have u: "mutation_validate ((accepted_update now m)\<lparr>om_updated_at := now\<rparr>) = mutation_validate m"
    "sequence_key ((accepted_update now m)\<lparr>om_updated_at := now\<rparr>) = sequence_key m" for m
    by (simp_all add: mutation_validate_def accepted_update_def sequence_key_def split: option.split)
  have "mutation_validate m' = Inr ()" if "m' \<in> set (oq_mutations f1)" for m'
    using that load_queue_valid(1) [OF assms(2)] by (auto simp: f1_def offline_file_validate_iff u split: if_splits)
  moreover have "map sequence_key (oq_mutations f1) = map sequence_key (oq_mutations f)"
    by (simp add: f1_def u)
  ultimately have "offline_file_validate f1 = Inr ()"
    using load_queue_valid(1) [OF assms(2)] by (simp add: offline_file_validate_iff) (simp add: f1_def)
  then have valid: "dk_validate offline_kind f1 = Inr ()" by (simp add: offline_kind_def)
  have h: "doc_holds offline_kind c f d" using assms(2) by (simp add: doc_holds_def load_queue_def)
  from queue_file.op_runs [where g = "accepted_by_hashes_change ?hs now" and lift = Fail and f = f, OF h g valid assms(3)] obtain d1 where
    d1: "mark_accepted_by_event_hashes c ?hs now d = (Inr (length (filter (accepted_by_hash ?hs) (oq_mutations f))), d1)"
    unfolding mark_accepted_by_event_hashes_def by blast
  from queue_file.op_success [OF h d1 [unfolded mark_accepted_by_event_hashes_def] assms(1)] g
  have "load_queue c d1 = Inr (dk_sorted offline_kind f1)" by (simp add: doc_holds_def load_queue_def)
  moreover have "names f1 = names f"
  proof -
    have "oq_mutations f1 = map (\<lambda>m. if accepted_by_hash ?hs m
         then (accepted_update now m)\<lparr>om_updated_at := now\<rparr> else m) (oq_mutations f)" by (simp add: f1_def)
    then show ?thesis unfolding names_def by (simp only: set_map image_image) (rule image_cong, auto simp: accepted_update_def)
  qed
  moreover have "\<forall>m\<in>set (oq_mutations f1). \<forall>e\<in>set (pb_events batch).
      om_local_event_hash m = Some (ev_event_hash e) \<longrightarrow> om_status m = OmAccepted"
    by (auto simp: f1_def accepted_by_hash_def accepted_update_def)
  moreover have "set (oq_mutations (dk_sorted offline_kind f1)) = set (oq_mutations f1)"
    by (simp add: offline_kind_def set_sorted_mutations)
  ultimately show ?thesis using assms(4) by (simp add: settle_batch_def t d1)
qed

lemma run_push_settles:
  assumes "\<And>f. codec_reads c f" and "mem_ok L (sv_store v)" and "load_queue c d = Inr f" and "io_works d"
    and "run_cloud_push ops L C c mode auth lb s v d y w = (PushFinished push batch, v', d', y', w')"
    and "ck_errors push = []"
  shows "set (pb_events batch) \<subseteq> set (mem_log (sv_store v') lb) \<and>
    (\<exists>f'. load_queue c d' = Inr f' \<and> names f' = names f \<and>
      (\<forall>i\<in>set (pb_operation_ids batch). \<exists>m\<in>set (oq_mutations f'). om_operation_id m = i \<and> om_status m = OmAccepted))"
  using assms(5)
proof (cases rule: run_push_cases)
  case stopped
  then show ?thesis by blast
next
  case (sent a now es b w1 w2)
  obtain f1 where f1: "load_queue c (fst (mark_missing c b d w1)) = Inr f1" "names f1 = names f"
    "io_works (fst (mark_missing c b d w1))"
    using mark_each_names [OF assms(1) mild_mark_operations(2) assms(3,4)] by blast
  from assms(2) sent(3) show ?thesis
  proof (cases rule: push_batch_outcome)
    case (finished p d1 w3)
    then have b: "b = batch" "p = push" by simp_all
    obtain f2 where f2: "load_queue c d1 = Inr f2" "names f2 = names f" "io_works d1"
      using mark_each_names [OF assms(1) mild_mark_operations(1) f1(1,3)] f1(2) finished(2) by metis
    from settle_accepts [OF assms(1) f2(1,3) assms(6), of batch w3] obtain f' where
      f': "load_queue c d' = Inr f'" "names f' = names f2"
        "\<forall>m\<in>set (oq_mutations f'). \<forall>e\<in>set (pb_events batch).
          om_local_event_hash m = Some (ev_event_hash e) \<longrightarrow> om_status m = OmAccepted"
      using finished(3) b by auto
    note batch = batch_events [OF sent(2) [unfolded b]]
    have "\<exists>m\<in>set (oq_mutations f'). om_operation_id m = i \<and> om_status m = OmAccepted"
      if "i \<in> set (pb_operation_ids batch)" for i
    proof -
      from that batch(1) obtain e where ie: "(i, e) \<in> set (zip (pb_operation_ids batch) (pb_events batch))"
        by (metis in_set_impl_in_set_zip1)
      then have "e \<in> set (pb_events batch)" by (rule set_zip_rightD)
      moreover have "(i, Some (ev_event_hash e)) \<in> names f'" using batch(2) [OF assms(3) ie] f'(2) f2(2) by simp
      then obtain m where "m \<in> set (oq_mutations f')" "om_operation_id m = i"
        "om_local_event_hash m = Some (ev_event_hash e)" by (auto simp: names_def)
      ultimately show ?thesis using f'(3) by blast
    qed
    with f' f2(2) finished(6) b assms(6) show ?thesis by auto
  qed simp
qed

end
