(* ===== verification/Cloud_Claims.thy ===== *)
theory Cloud_Claims
  imports Push_Facts Sync_Claims Queue_Claims
begin

text \<open>
  Properties of the cloud relay and of the clients that work through it.
\<close>

section \<open>Access\<close>

lemma run_snoc: "cloud_run L C (rs @ [(r, w)]) v = cloud_step L C (r, w) (cloud_run L C rs v)"
  by (simp add: cloud_run_def)

lemma step_config: "sv_config (cloud_step L C (r, w) v) = sv_config v"
proof (cases r)
  case (CloudPush q)
  obtain x v' u where p: "cloud_push_events L q v w = (x, v', u)" by (metis prod_cases3)
  then have "sv_config v' = sv_config v" by (cases x) (use push_refused push_result in fastforce)+
  then show ?thesis by (simp add: CloudPush p)
qed (simp_all add: pair_frame upload_report_frame cloud_revoke_device_def)

lemma run_config: "sv_config (cloud_run L C rs v) = sv_config v"
proof (induction rs rule: rev_induct)
  case (snoc r rs)
  then show ?case using step_config by (cases r) (simp add: run_snoc)
qed (simp add: cloud_run_def)

lemma mono_split: "rs = as @ x # bs \<Longrightarrow> rs @ [y] = as @ x # (bs @ [y])"
  by simp

text \<open>Every session was opened by a pairing that gave the code.\<close>

lemma session_paired:
  assumes "hm_get (as_sessions_by_token (sv_auth (cloud_run L C rs (cloud_server_new cfg)))) t = Some s"
  shows "\<exists>as p w bs. rs = as @ (CloudPair p, w) # bs \<and> pd_pairing_code p = cv_pairing_code cfg \<and>
    pd_device_id p = se_device_id s \<and> se_authorized_logbooks s = pd_requested_logbooks p"
  using assms
proof (induction rs rule: rev_induct)
  case Nil
  then show ?case by (simp add: cloud_run_def cloud_server_new_def cloud_auth_state_default_def)
next
  case (snoc x rs)
  obtain r w where x: "x = (r, w)" by (cases x)
  define v where "v = cloud_run L C rs (cloud_server_new cfg)"
  have cfg: "sv_config v = cfg" by (simp add: v_def run_config) (simp add: cloud_server_new_def)
  note ok = run_sessions_ok [OF new_sessions_ok, of L C rs cfg, folded v_def]
  have old: ?case if "hm_get (as_sessions_by_token (sv_auth v)) t = Some s"
  proof -
    from snoc.IH [OF that [unfolded v_def]] obtain as p u bs where h: "rs = as @ (CloudPair p, u) # bs"
      "pd_pairing_code p = cv_pairing_code cfg" "pd_device_id p = se_device_id s"
      "se_authorized_logbooks s = pd_requested_logbooks p"
      by (elim exE conjE) (rule that)
    from mono_split [OF h(1)] h(2-4) show ?thesis by (intro exI conjI)
  qed
  show ?case
  proof (cases r)
    case (CloudPair q)
    show ?thesis
    proof (cases rule: pair_cases [of L C q v w])
      case (refused y u)
      then show ?thesis using snoc.prems old by (simp add: x run_snoc CloudPair flip: v_def)
    next
      case (paired s' y u)
      show ?thesis
      proof (cases "t = se_sync_token s'")
        case True
        then have "s = s'" using snoc.prems paired(1)
          by (simp add: x run_snoc CloudPair open_session_def hm_get_insert flip: v_def)
        then have "rs @ [x] = rs @ (CloudPair q, w) # []" "pd_pairing_code q = cv_pairing_code cfg"
          "pd_device_id q = se_device_id s" "se_authorized_logbooks s = pd_requested_logbooks q"
          using paired cfg by (simp_all add: x CloudPair)
        then show ?thesis by blast
      next
        case False
        then show ?thesis using snoc.prems old paired(1)
          by (simp add: x run_snoc CloudPair open_session_def hm_get_insert flip: v_def)
      qed
    qed
  next
    case (CloudPush q)
    obtain y v' u where p: "cloud_push_events L q v w = (y, v', u)" by (metis prod_cases3)
    then have "sv_auth v' = sv_auth v" by (cases y) (use push_refused push_result in fastforce)+
    then show ?thesis using snoc.prems old by (simp add: x run_snoc CloudPush p flip: v_def)
  next
    case (CloudReport q)
    then show ?thesis using snoc.prems old by (simp add: x run_snoc upload_report_frame flip: v_def)
  next
    case (CloudRevoke d)
    have "hm_wf (as_sessions_by_token (sv_auth v))" using ok by (simp add: sessions_ok_def map_ok_def)
    then show ?thesis using snoc.prems old
      by (auto simp: x run_snoc CloudRevoke revoke_sessions simp flip: v_def split: option.splits if_splits)
  qed
qed

text \<open>Every event of the relay was pushed by a device with access at that time.\<close>

lemma event_pushed:
  assumes "e \<in> set (mem_log (sv_store (cloud_run L C rs (cloud_server_new cfg))) lb)"
  shows "\<exists>as q w bs. rs = as @ (CloudPush q, w) # bs \<and> ch_logbook_id q = lb \<and> e \<in> set (ch_events q) \<and>
    opens (cloud_run L C as (cloud_server_new cfg)) (ch_auth q) lb w"
  using assms
proof (induction rs rule: rev_induct)
  case Nil
  then show ?case by (simp add: cloud_run_def cloud_server_new_def)
next
  case (snoc x rs)
  obtain r w where x: "x = (r, w)" by (cases x)
  define v where "v = cloud_run L C rs (cloud_server_new cfg)"
  have "mem_ok L (sv_store v)"
    using run_log [of L "cloud_server_new cfg" C rs] by (simp add: v_def cloud_server_new_def)
  note s = step_log [OF this, of C r w]
  show ?case
  proof (cases "e \<in> set (mem_log (sv_store v) lb)")
    case True
    from snoc.IH [OF True [unfolded v_def]] obtain as q u bs where h: "rs = as @ (CloudPush q, u) # bs"
      "ch_logbook_id q = lb" "e \<in> set (ch_events q)" "opens (cloud_run L C as (cloud_server_new cfg)) (ch_auth q) lb u"
      by (elim exE conjE) (rule that)
    from mono_split [OF h(1)] h(2-4) show ?thesis by (intro exI conjI)
  next
    case False
    with snoc.prems s obtain q xs where q: "r = CloudPush q" "ch_logbook_id q = lb" "opens v (ch_auth q) lb w"
      "subseq xs (ch_events q)" "mem_log (sv_store (cloud_step L C (r, w) v)) lb = mem_log (sv_store v) lb @ xs"
      unfolding x run_snoc v_def by (metis (no_types, lifting))
    then have "e \<in> set (ch_events q)"
      using snoc.prems False subseq_set [OF q(4)] by (auto simp: x run_snoc simp flip: v_def)
    with q x show ?thesis unfolding v_def by blast
  qed
qed


definition sample_config :: cloud_server_config where
  "sample_config = cloud_server_config_default\<lparr>cv_sync_session_ttl_seconds := None\<rparr>"

definition sample_pairing :: "uuid \<Rightarrow> pair_device_request" where
  "sample_pairing d = \<lparr>pd_pairing_code = ''local-dev-pairing-code'', pd_account_id = ''a'', pd_user_id = ''u'',
     pd_device_id = d, pd_device_name = ''radio'', pd_requested_logbooks = [7], pd_role_hints = []\<rparr>"

definition sample_auth :: cloud_auth where
  "sample_auth = \<lparr>au_sync_token = session_token (sample_libs []) ''a'' 10\<rparr>"

definition sample_session :: "uuid \<Rightarrow> cloud_session" where
  "sample_session d = \<lparr>se_account_id = ''a'', se_user_id = ''u'', se_device_id = d, se_device_name = ''radio'',
     se_sync_token = session_token (sample_libs []) ''a'' 10, se_authorized_logbooks = [7],
     se_issued_at = 0, se_expires_at = None\<rparr>"

definition sample_relay :: cloud_server where
  "sample_relay = \<lparr>sv_config = sample_config, sv_store = mem_empty,
     sv_auth = open_session (sample_session 5) cloud_auth_state_default\<rparr>"

lemma sample_paired:
  "cloud_run (sample_libs []) C [(CloudPair (sample_pairing 5), sample_world)] (cloud_server_new sample_config) = sample_relay"
proof -
  have w: "new_v4 sample_world = (10, sample_world\<lparr>uuid_pos := 11\<rparr>)"
    "utc_now (sample_world\<lparr>uuid_pos := 11\<rparr>) = (0, sample_world\<lparr>uuid_pos := 11, clock_pos := 1\<rparr>)"
    by (simp_all add: new_v4_def utc_now_def sample_world_def)
  have c: "cv_pairing_code sample_config = ''local-dev-pairing-code''" "cv_sync_session_ttl_seconds sample_config = None"
    by (simp_all add: sample_config_def cloud_server_config_default_def)
  have "cloud_pair_device (sample_libs []) C (sample_pairing 5) (cloud_server_new sample_config) sample_world =
      (Inr \<lparr>pe_accepted = True, pe_reason = None, pe_session = Some (sample_session 5)\<rparr>, sample_relay,
       sample_world\<lparr>uuid_pos := 11, clock_pos := 1\<rparr>)"
    by (simp add: cloud_pair_device_def w cloud_server_new_def c sample_pairing_def cloud_session_expiry_def
      sample_session_def sample_relay_def Let_def)
  then show ?thesis by (simp add: cloud_run_def)
qed

lemma sample_session_found: "hm_get (as_sessions_by_token (sv_auth sample_relay)) (au_sync_token sample_auth) = Some (sample_session 5)"
proof -
  have t: "se_sync_token (sample_session 5) = au_sync_token sample_auth" by (simp add: sample_session_def sample_auth_def)
  show ?thesis unfolding sample_relay_def open_session_def by (simp add: hm_get_insert t)
qed

lemma sample_session_simps: "se_authorized_logbooks (sample_session d) = [7]" "se_device_id (sample_session d) = d"
  "\<not> cloud_session_is_expired (sample_session d) now"
  by (simp_all add: sample_session_def cloud_session_is_expired_def)

lemma sample_opens [simp]: "opens (sample_relay\<lparr>sv_store := s\<rparr>) sample_auth 7 w" "opens sample_relay sample_auth 7 w"
  unfolding opens_def by (simp_all add: sample_session_found sample_session_simps)

definition sample_push :: "core_event list \<Rightarrow> cloud_push_events_request" where
  "sample_push es = \<lparr>ch_auth = sample_auth, ch_logbook_id = 7, ch_events = es\<rparr>"

lemma relay_store [simp]: "sv_store sample_relay = mem_empty"
  by (simp add: sample_relay_def)

lemma sample_pushed:
  "\<exists>r w'. cloud_push_events (sample_libs []) (sample_push [logged, deleted]) sample_relay w =
     (Inr r, sample_relay\<lparr>sv_store := store_2\<rparr>, w') \<and> ck_errors r = []"
proof -
  obtain s where a: "cloud_authorize_logbook sample_auth 7 sample_relay w = (Inr s, snd (utc_now w))"
    by (rule opens_authorizes [OF sample_opens(2)])
  have "mem_append_verified_remote_event (sample_libs []) logged mem_empty = (Inr logged, store_1)"
    by (simp add: mem_append_verified_remote_event_def store_1_def) (simp add: mem_empty_def)
  moreover have "mem_append_verified_remote_event (sample_libs []) deleted store_1 = (Inr deleted, store_2)"
  proof -
    have "mem_known store_1 2 = None" by simp
    then have "hm_get (ms_events_by_id store_1) 2 = None" by (simp only: mem_known_def)
    moreover have "hm_get (ms_heads store_1) 7 = Some (ev_event_hash logged)"
      by (simp add: store_1_def hm_get_insert mem_insert_def Let_def)
    ultimately show ?thesis by (simp add: mem_append_verified_remote_event_def store_2_def)
  qed
  moreover have "mem_known mem_empty 1 = None" "mem_known store_1 2 = None" by simp_all
  then have "mem_get_event mem_empty 1 = Inr None" "mem_get_event store_1 2 = Inr None"
    by (simp_all only: mem_get_event_def mem_known_def)
  ultimately have "cloud_push_loop (sample_libs []) [logged, deleted] 0 0 mem_empty = (2, 0, [], store_2)"
    by (simp add: numeral_2_eq_2)
  then show ?thesis using a by (simp add: cloud_push_events_def sample_push_def mem_get_head_def)
qed


text \<open>
  Revocation lasts: \<open>revoke_device\<close> ends exactly the sessions of the device, leaving every
  other session as it was; and after it, through any requests that do not pair that device
  again, no token whatever is authorised as that device.
\<close>

theorem cloud_revocation_lasts:
  assumes "v = cloud_run L C before (cloud_server_new cfg)" and "u = cloud_revoke_device d v"
    and "\<forall>(r, w)\<in>set rs. \<forall>q. r = CloudPair q \<longrightarrow> pd_device_id q \<noteq> d"
  shows "(\<forall>t. hm_get (as_sessions_by_token (sv_auth u)) t =
      (case hm_get (as_sessions_by_token (sv_auth v)) t of None \<Rightarrow> None
       | Some s \<Rightarrow> if se_device_id s = d then None else Some s)) \<and>
    (\<forall>auth w s w'. cloud_authorize auth (cloud_run L C rs u) w = (Inr s, w') \<longrightarrow> se_device_id s \<noteq> d)"
proof -
  have wf: "hm_wf (as_sessions_by_token (sv_auth v))"
    using run_sessions_ok [OF new_sessions_ok, of L C before cfg] by (simp add: assms(1) sessions_ok_def map_ok_def)
  note revoked = revoke_sessions [OF wf, of d, folded assms(2)]
  have "shut_out d u" using revoked by (auto simp: shut_out_def split: option.splits if_splits)
  from shut_out_run [OF this assms(3), of L C] revoked(1) show ?thesis
    by (auto simp: shut_out_def authorize_Inr)
qed

theorem cloud_revocation_lasts_witness:
  "\<exists>v. hm_get (as_sessions_by_token (sv_auth v)) (au_sync_token sample_auth) = Some (sample_session 5) \<and>
     \<not> (\<exists>s w'. cloud_authorize sample_auth (cloud_run (sample_libs []) sample_chrono
       [(CloudPush (sample_push [logged]), sample_world)] (cloud_revoke_device 5 v)) sample_world = (Inr s, w') \<and> se_device_id s = 5)"
  using cloud_revocation_lasts [OF sample_paired [of sample_chrono, symmetric] refl, of
      "[(CloudPush (sample_push [logged]), sample_world)]" 5] sample_session_found
  by (intro exI [of _ sample_relay]) (simp, blast)

section \<open>Two devices\<close>

lemma log_distinct_ids:
  assumes "jsonl_ok L s" and "inj_on (lib_digest L) (canonical_of ` set (mem_log (js_memory s) lb))"
  shows "distinct (map ev_event_id (mem_log (js_memory s) lb))"
proof -
  let ?es = "mem_log (js_memory s) lb"
  have "distinct ?es" using chain_distinct [OF jsonl.log_chain [OF assms(1)] assms(2)] distinct_map by blast
  moreover have "inj_on ev_event_id (set ?es)"
    using jsonl.log_known [OF assms(1)] by (intro inj_onI) (metis option.inject)
  ultimately show ?thesis by (simp add: distinct_map)
qed


definition disk_0 :: jsonl_store where
  "disk_0 = \<lparr>js_memory = mem_empty, js_file = None, js_disk = []\<rparr>"

definition disk_2 :: jsonl_store where
  "disk_2 = \<lparr>js_memory = store_2, js_file = None, js_disk = []\<rparr>"

lemma sample_disks [simp]: "jsonl_ok (sample_libs es) disk_0" "jsonl_ok (sample_libs es) disk_2"
  "js_memory disk_0 = mem_empty" "js_memory disk_2 = store_2"
  by (simp_all add: disk_0_def disk_2_def jsonl_ok_def jsonl_healthy_def)

definition sample_sync :: client_sync where
  "sample_sync = \<lparr>cx_cloud_divergence = None, cx_warning_count = 0, cx_latest_cloud_preview = None,
     cx_latest_cloud_pull = None, cx_latest_cloud_push = None, cx_last_cloud_push_time = None, cx_last_cloud_pull_time = None\<rparr>"


text \<open>A device that already has everything and pulls is told that the chains diverged: the
  relay answers with no events, and no events are not a history that contains the local head.\<close>

theorem up_to_date_pull_reports_divergence:
  assumes "jsonl_ok L b" and "mem_ok L (sv_store v)" and "opens v auth lb w"
    and "mem_log (sv_store v) lb = mem_log (js_memory b) lb" and "mem_log (js_memory b) lb \<noteq> []"
    and "inj_on (lib_digest L) (canonical_of ` set (mem_log (js_memory b) lb))"
    and "handle_cloud_pull (jsonl_ops L) L auth lb v b y w = (r, b', y', w')"
  shows "(\<exists>pull. r = Inr pull \<and> pl_status pull = Diverged) \<and> b' = b \<and> cx_warning_count y' = cx_warning_count y + 1"
proof -
  from jsonl.client_pull [OF assms(1,2,3,7), of "[]"] assms(4,6) obtain pull where
    pull: "r = Inr pull" "pull_missing_events (jsonl_ops L) L \<lparr>pq_peer_id = ''cloud'', pq_logbook_id = lb,
      pq_local_head_hash = end_hash None (mem_log (js_memory b) lb)\<rparr> [] b = (pull, b')"
    "cx_warning_count y' = (if pl_status pull = Diverged then cx_warning_count y + 1 else cx_warning_count y)" by auto
  from jsonl.pull_nothing [OF assms(1) pull(2)] assms(5) pull(1,3) show ?thesis by simp
qed

section \<open>The offline queue and the relay\<close>


text \<open>
  A complete push settles the queue: when the writes work and the relay reports no error,
  every event of the batch is in the relay's logbook, the queue can be read, it knows the same
  changes with the same events as before, and each one of the batch is accepted.
\<close>

theorem push_settles_the_batch:
  assumes "\<And>f. codec_reads c f" and "mem_ok L (sv_store v)" and "load_queue c d = Inr f" and "io_works d"
    and "run_cloud_push ops L C c mode auth lb s v d y w = (PushFinished push batch, v', d', y', w')"
    and "ck_errors push = []"
  shows "set (pb_events batch) \<subseteq> set (mem_log (sv_store v') lb) \<and>
    (\<exists>f'. load_queue c d' = Inr f' \<and> names f' = names f \<and>
      (\<forall>i\<in>set (pb_operation_ids batch). \<exists>m\<in>set (oq_mutations f'). om_operation_id m = i \<and> om_status m = OmAccepted))"
  by (rule run_push_settles [OF assms])

instance offline_status :: countable by countable_datatype

instance mutation_dependency_ext :: (countable) countable
  by (rule countable_classI [of "\<lambda>d. to_nat (dep_operation_id d, dep_event_hash d, dep_minimum_schema_version d, mutation_dependency.more d)"])
    (simp add: mutation_dependency.equality)

instance offline_mutation_ext :: (countable) countable
  by (rule countable_classI [of "\<lambda>m. to_nat ((om_schema_version m, om_operation_id m, om_correlation_id m, om_client_id m,
      om_device_id m, om_logbook_id m, om_entity_id m, om_sequence m, om_operation_type m, om_idempotency_key m,
      om_dependencies m, om_payload m, om_status m), om_attempts m, om_max_attempts m, om_backoff_seconds m, om_max_backoff_seconds m,
      om_next_attempt_at m, om_created_at m, om_updated_at m, om_official_event_id m, om_local_event_hash m, om_accepted_at m,
      om_failure_reason m, om_last_error_code m, offline_mutation.more m)"])
    (simp add: offline_mutation.equality)

instance offline_file_ext :: (countable) countable
  by (rule countable_classI [of "\<lambda>f. to_nat (oq_version f, oq_next_sequence f, oq_mutations f, offline_file.more f)"])
    (simp add: offline_file.equality)

definition queued :: offline_mutation where
  "queued = sample_mutation\<lparr>om_local_event_hash := Some (ev_event_hash logged)\<rparr>"

definition waiting_queue :: offline_file where
  "waiting_queue = sample_queue\<lparr>oq_mutations := [queued]\<rparr>"

definition waiting_disk :: json_disk where
  "waiting_disk = written (cd_print total_codec waiting_queue @ newline) empty_disk"

lemma queued_fields: "om_operation_id queued = 11" "om_logbook_id queued = 7" "om_status queued = OmPending"
  "om_next_attempt_at queued = None" "om_dependencies queued = []" "om_local_event_hash queued = Some (ev_event_hash logged)"
  by (simp_all add: queued_def sample_mutation_fields)

lemma waiting_loaded: "load_queue total_codec waiting_disk = Inr waiting_queue"
proof -
  have "mutation_validate queued = Inr ()" using sample_mutation_valid
    by (simp add: queued_def mutation_validate_def sample_mutation_fields sample_trim OFFLINE_MUTATION_SCHEMA_VERSION_def)
  then have "offline_file_validate waiting_queue = Inr ()"
    by (simp add: offline_file_validate_iff waiting_queue_def sample_queue_mutations)
  moreover have "offline_file_sorted waiting_queue = waiting_queue"
    by (simp add: offline_file_sorted_def waiting_queue_def)
  ultimately show ?thesis
    using load_doc_written [OF total_codec_reads, of offline_kind waiting_queue empty_disk]
    by (simp add: load_queue_def waiting_disk_def offline_kind_def)
qed

lemma waiting_works: "io_works waiting_disk"
  by (simp add: waiting_disk_def io_works_def)

lemma waiting_batch: "ready_event_batch total_codec 7 [logged] now waiting_disk =
    Inr \<lparr>pb_logbook_id = 7, pb_operation_ids = [11], pb_events = [logged], pb_missing = []\<rparr>"
proof -
  have "ready_mutations (oq_mutations waiting_queue) 7 now = [queued]"
    by (simp add: ready_mutations_def waiting_queue_def send_order_def queued_fields is_ready_at_def om_is_draining_def
      dependencies_satisfied_def)
  then show ?thesis
    by (simp add: ready_event_batch_def waiting_loaded events_by_hash_def queued_fields)
qed

lemma sample_pushed_one:
  "\<exists>r w'. cloud_push_events (sample_libs []) (sample_push [logged]) sample_relay w =
     (Inr r, sample_relay\<lparr>sv_store := store_1\<rparr>, w') \<and> ck_errors r = []"
proof -
  obtain s where a: "cloud_authorize_logbook sample_auth 7 sample_relay w = (Inr s, snd (utc_now w))"
    by (rule opens_authorizes [OF sample_opens(2)])
  have "mem_append_verified_remote_event (sample_libs []) logged mem_empty = (Inr logged, store_1)"
    by (simp add: mem_append_verified_remote_event_def store_1_def) (simp add: mem_empty_def)
  moreover have "mem_known mem_empty 1 = None" by simp
  then have "mem_get_event mem_empty 1 = Inr None" by (simp only: mem_get_event_def mem_known_def)
  ultimately have "cloud_push_loop (sample_libs []) [logged] 0 0 mem_empty = (1, 0, [], store_1)" by simp
  then show ?thesis using a by (simp add: cloud_push_events_def sample_push_def mem_get_head_def)
qed

lemma sample_push_run:
  "\<exists>push batch d' y' w'. run_cloud_push (jsonl_ops (sample_libs [])) (sample_libs []) sample_chrono total_codec ManualPush
      (Some sample_auth) 7 disk_1 sample_relay waiting_disk sample_sync sample_world =
      (PushFinished push batch, sample_relay\<lparr>sv_store := store_1\<rparr>, d', y', w') \<and>
    ck_errors push = [] \<and> pb_operation_ids batch = [11]"
proof -
  obtain now w1 where t: "utc_now sample_world = (now, w1)" by fastforce
  define batch where "batch = \<lparr>pb_logbook_id = 7, pb_operation_ids = [11], pb_events = [logged], pb_missing = []\<rparr>"
  have b: "ready_event_batch total_codec 7 [logged] now waiting_disk = Inr batch" by (simp add: waiting_batch batch_def)
  have es: "op_list_events (jsonl_ops (sample_libs [])) disk_1 7 = Inr [logged]"
    using jsonl.list_events [OF disk_1_ok [of "[]"], of 7] by simp
  have bf: "pb_operation_ids batch = [11]" "pb_events batch = [logged]" "pb_missing batch = []" by (simp_all add: batch_def)
  obtain d1 w2 where m: "mark_each (mark_sending total_codec) [11] waiting_disk w1 = (d1, w2)" by fastforce
  obtain push w3 where p: "cloud_push_events (sample_libs []) \<lparr>ch_auth = sample_auth, ch_logbook_id = 7, ch_events = [logged]\<rparr>
      sample_relay w2 = (Inr push, sample_relay\<lparr>sv_store := store_1\<rparr>, w3)" "ck_errors push = []"
    using sample_pushed_one [of w2] by (auto simp: sample_push_def)
  obtain now' w4 where t': "utc_now w3 = (now', w4)" by fastforce
  obtain d' w' where e: "settle_batch total_codec batch push d1 w4 = (d', w')" by fastforce
  have "run_cloud_push (jsonl_ops (sample_libs [])) (sample_libs []) sample_chrono total_codec ManualPush
      (Some sample_auth) 7 disk_1 sample_relay waiting_disk sample_sync sample_world =
      (PushFinished push batch, sample_relay\<lparr>sv_store := store_1\<rparr>, d', note_push push now' sample_sync, w')"
    by (simp add: run_cloud_push_def es t b bf push_batch_to_cloud_def m p(1) t' e queue_only_def del: mark_each.simps(2))
  with p(2) bf(1) show ?thesis by blast
qed

theorem push_settles_the_batch_witness:
  "\<exists>c d f v d'. load_queue c d = Inr f \<and> om_status queued = OmPending \<and> oq_mutations f = [queued] \<and>
     (\<exists>out y' w'. run_cloud_push (jsonl_ops (sample_libs [])) (sample_libs []) sample_chrono c ManualPush
       (Some sample_auth) 7 disk_1 sample_relay d sample_sync sample_world = (out, v, d', y', w')) \<and>
     (\<exists>f' m. load_queue c d' = Inr f' \<and> m \<in> set (oq_mutations f') \<and> om_operation_id m = 11 \<and> om_status m = OmAccepted)"
proof -
  from sample_push_run obtain push batch d' y' w' where r:
    "run_cloud_push (jsonl_ops (sample_libs [])) (sample_libs []) sample_chrono total_codec ManualPush
      (Some sample_auth) 7 disk_1 sample_relay waiting_disk sample_sync sample_world =
      (PushFinished push batch, sample_relay\<lparr>sv_store := store_1\<rparr>, d', y', w')"
    "ck_errors push = []" "pb_operation_ids batch = [11]" by blast
  have ok: "mem_ok (sample_libs []) (sv_store sample_relay)" by simp
  from push_settles_the_batch [OF total_codec_reads ok waiting_loaded waiting_works r(1,2)] r(3)
  have "\<exists>f' m. load_queue total_codec d' = Inr f' \<and> m \<in> set (oq_mutations f') \<and> om_operation_id m = 11 \<and> om_status m = OmAccepted"
    by auto
  moreover have "oq_mutations waiting_queue = [queued]" by (simp add: waiting_queue_def)
  ultimately show ?thesis using r(1) waiting_loaded queued_fields(3) by blast
qed


end
