(* ===== verification/Float64.thy ===== *)
theory Float64
  imports Complex_Main Decimal
begin

text \<open>
  The double-precision arithmetic the program uses: rounding to nearest with ties to even, its
  decimal reader and its printer with a fixed number of decimals. A finite value is the
  rational number it stands for; the two zeros are not distinguished, and no sign of an
  invalid result is kept.
\<close>

datatype f64 = F64Nan | F64Inf bool | F64 rat

fun bit_length :: "nat \<Rightarrow> nat" where
  "bit_length n = (if n = 0 then 0 else Suc (bit_length (n div 2)))"

declare bit_length.simps [simp del]

definition pow2 :: "int \<Rightarrow> rat" where
  "pow2 k = (if k \<ge> 0 then 2 ^ nat k else 1 / 2 ^ nat (- k))"

definition floor_log2 :: "rat \<Rightarrow> int" where
  "floor_log2 x =
     (let (p, q) = quotient_of x; k = int (bit_length (nat p)) - int (bit_length (nat q)) in
      if pow2 k \<le> x then k else k - 1)"

definition round_half_even :: "rat \<Rightarrow> int" where
  "round_half_even x =
     (let f = \<lfloor>x\<rfloor>; d = x - of_int f in
      if d < 1 / 2 then f else if d > 1 / 2 then f + 1 else if even f then f else f + 1)"

text \<open>53 bits of precision, exponents from -1074, and infinity above.\<close>

definition round_f64 :: "rat \<Rightarrow> f64" where
  "round_f64 x =
     (if x = 0 then F64 0
      else
        let e = max (floor_log2 \<bar>x\<bar> - 52) (- 1074);
            v = of_int (round_half_even (\<bar>x\<bar> / pow2 e)) * pow2 e in
        if v \<ge> pow2 1024 then F64Inf (x < 0) else F64 (if x < 0 then - v else v))"

definition f64_of_nat :: "nat \<Rightarrow> f64" where
  "f64_of_nat n = round_f64 (of_nat n)"

text \<open>Products and quotients by a positive constant.\<close>

definition f64_times :: "f64 \<Rightarrow> rat \<Rightarrow> f64" where
  "f64_times a c = (case a of F64 r \<Rightarrow> round_f64 (r * c) | F64Inf s \<Rightarrow> F64Inf s | F64Nan \<Rightarrow> F64Nan)"

definition f64_over :: "f64 \<Rightarrow> rat \<Rightarrow> f64" where
  "f64_over a c = (case a of F64 r \<Rightarrow> round_f64 (r / c) | F64Inf s \<Rightarrow> F64Inf s | F64Nan \<Rightarrow> F64Nan)"

text \<open>\<open>f64::round\<close> (halves away from zero) followed by \<open>as u64\<close> (which saturates).\<close>

definition f64_round_as_u64 :: "f64 \<Rightarrow> 64 word" where
  "f64_round_as_u64 a =
     (case a of
        F64Nan \<Rightarrow> 0
      | F64Inf s \<Rightarrow> if s then 0 else - 1
      | F64 r \<Rightarrow> if r < 1 / 2 then 0
          else let n = \<lfloor>r + 1 / 2\<rfloor> in if n \<ge> 2 ^ 64 then - 1 else of_int n)"

text \<open>\<open>f64::from_str\<close>.\<close>

definition parse_exponent :: "string \<Rightarrow> int option" where
  "parse_exponent s =
     (case s of
        [] \<Rightarrow> Some 0
      | c # r \<Rightarrow>
          if c \<noteq> CHR ''e'' \<and> c \<noteq> CHR ''E'' then None
          else
            let (neg, ds) = (case r of x # xs \<Rightarrow>
                  if x = CHR ''-'' then (True, xs) else if x = CHR ''+'' then (False, xs) else (False, r)
                | [] \<Rightarrow> (False, [])) in
            if ds \<noteq> [] \<and> list_all is_ascii_digit ds
            then Some (if neg then - int (digits_value ds) else int (digits_value ds)) else None)"

definition pow10 :: "int \<Rightarrow> rat" where
  "pow10 k = (if k \<ge> 0 then 10 ^ nat k else 1 / 10 ^ nat (- k))"

definition parse_decimal :: "string \<Rightarrow> rat option" where
  "parse_decimal s =
     (let ip = takeWhile is_ascii_digit s; r = dropWhile is_ascii_digit s;
          (fp, r) = (case r of c # cs \<Rightarrow>
               if c = CHR ''.'' then (takeWhile is_ascii_digit cs, dropWhile is_ascii_digit cs) else ([], r)
             | [] \<Rightarrow> ([], [])) in
      if ip = [] \<and> fp = [] then None
      else (case parse_exponent r of None \<Rightarrow> None
         | Some x \<Rightarrow> Some (of_nat (digits_value (ip @ fp)) * pow10 (x - int (length fp)))))"

definition parse_f64 :: "string \<Rightarrow> f64 option" where
  "parse_f64 s =
     (let (neg, t) = (case s of c # cs \<Rightarrow>
            if c = CHR ''-'' then (True, cs) else if c = CHR ''+'' then (False, cs) else (False, s)
          | [] \<Rightarrow> (False, [])); l = to_ascii_lowercase t in
      if l = ''inf'' \<or> l = ''infinity'' then Some (F64Inf neg)
      else if l = ''nan'' then Some F64Nan
      else map_option (\<lambda>x. round_f64 (if neg then - x else x)) (parse_decimal t))"

text \<open>\<open>{:.6}\<close> of a value that is not negative.\<close>

definition zero_padded :: "nat \<Rightarrow> nat \<Rightarrow> string" where
  "zero_padded w n = replicate (w - length (show_nat n)) CHR ''0'' @ show_nat n"

definition show_decimals_6 :: "f64 \<Rightarrow> string" where
  "show_decimals_6 a =
     (case a of
        F64Nan \<Rightarrow> ''NaN''
      | F64Inf s \<Rightarrow> if s then ''-inf'' else ''inf''
      | F64 r \<Rightarrow> let n = nat (round_half_even (r * 1000000)) in
          show_nat (n div 1000000) @ ''.'' @ zero_padded 6 (n mod 1000000))"

text \<open>What the ADIF exporter writes for a frequency, and what the importer reads (\<open>adif.rs\<close>).\<close>

definition hz_to_mhz_text :: "nat \<Rightarrow> string" where
  "hz_to_mhz_text hz = show_decimals_6 (f64_over (f64_of_nat hz) 1000000)"

definition mhz_text_to_hz :: "string \<Rightarrow> 64 word option" where
  "mhz_text_to_hz s = map_option (\<lambda>f. f64_round_as_u64 (f64_times f 1000000)) (parse_f64 s)"

end
