(* ===== verification/Text.thy ===== *)
theory Text
  imports Decimal
begin

text \<open>
  More of the text API: characters of a byte string, character classes, signed numerals,
  \<open>split_whitespace\<close>, and what \<open>trim\<close> returns.
\<close>

section \<open>Characters\<close>

definition continuation_byte :: "char \<Rightarrow> bool" where
  "continuation_byte c = (128 \<le> (of_char c :: nat) \<and> (of_char c :: nat) < 192)"

text \<open>\<open>chars().count()\<close>.\<close>

definition char_count :: "string \<Rightarrow> nat" where
  "char_count s = length (filter (\<lambda>c. \<not> continuation_byte c) s)"

definition is_ascii_alphabetic :: "char \<Rightarrow> bool" where
  "is_ascii_alphabetic c = (let n = of_char c :: nat in 65 \<le> n \<and> n \<le> 90 \<or> 97 \<le> n \<and> n \<le> 122)"

definition is_ascii_alphanumeric :: "char \<Rightarrow> bool" where
  "is_ascii_alphanumeric c = (is_ascii_alphabetic c \<or> is_ascii_digit c)"

text \<open>\<open>chars().any(char::is_whitespace)\<close> and \<open>chars().any(char::is_control)\<close>: the control
  characters are those below 32, 127, and the two-byte ones from 128 to 159.\<close>

definition has_whitespace :: "string \<Rightarrow> bool" where
  "has_whitespace s = list_ex (contains_str s) white_space"

definition ascii_control :: "char \<Rightarrow> bool" where
  "ascii_control c = (let n = of_char c :: nat in n < 32 \<or> n = 127)"

fun has_control :: "string \<Rightarrow> bool" where
  "has_control [] = False"
| "has_control [c] = ascii_control c"
| "has_control (c # d # s) =
     (ascii_control c \<or> of_char c = (194 :: nat) \<and> of_char d \<in> {128..159 :: nat} \<or> has_control (d # s))"

text \<open>\<open>split_whitespace\<close>: the maximal pieces without white space.\<close>

function split_white :: "string \<Rightarrow> string \<Rightarrow> string list" where
  "split_white word s =
     (case strip_one white_space s of
        Some t \<Rightarrow> (if word = [] then split_white [] t else word # split_white [] t)
      | None \<Rightarrow> (case s of [] \<Rightarrow> (if word = [] then [] else [word]) | c # t \<Rightarrow> split_white (word @ [c]) t))"
  by pat_completeness auto
termination
  by (relation "measure (\<lambda>(word, s). length s)") (auto dest: strip_one_shorter)

declare split_white.simps [simp del]

definition split_whitespace :: "string \<Rightarrow> string list" where
  "split_whitespace s = split_white [] s"

text \<open>\<open>split_once(p)\<close>: the parts before and after the first \<open>p\<close>.\<close>

fun split_once :: "string \<Rightarrow> string \<Rightarrow> (string \<times> string) option" where
  "split_once p [] = (if p = [] then Some ([], []) else None)"
| "split_once p (c # s) =
     (if prefix p (c # s) then Some ([], drop (length p) (c # s))
      else map_option (\<lambda>(a, b). (c # a, b)) (split_once p s))"

text \<open>\<open>split(c)\<close> on a character: one piece more than separators.\<close>

fun split_on :: "char \<Rightarrow> string \<Rightarrow> string list" where
  "split_on c [] = [[]]"
| "split_on c (x # s) =
     (if x = c then [] # split_on c s
      else (case split_on c s of [] \<Rightarrow> [[x]] | w # ws \<Rightarrow> (x # w) # ws))"

section \<open>Signed numerals\<close>

definition show_int :: "int \<Rightarrow> string" where
  "show_int i = (if i < 0 then hyphen # show_nat (nat (- i)) else show_nat (nat i))"

text \<open>\<open>str::parse::<i64>\<close>: an optional sign, at least one digit, no overflow.\<close>

definition parse_i64 :: "string \<Rightarrow> int option" where
  "parse_i64 s =
     (let (neg, ds) = (case s of [] \<Rightarrow> (False, [])
            | c # cs \<Rightarrow> if c = hyphen then (True, cs) else if c = CHR 0x2B then (False, cs) else (False, s));
          v = (if neg then - int (digits_value ds) else int (digits_value ds))
      in if ds \<noteq> [] \<and> list_all is_ascii_digit ds \<and> - (2 ^ 63) \<le> v \<and> v < 2 ^ 63 then Some v else None)"

lemma signs_no_digits: "\<not> is_ascii_digit hyphen" "\<not> is_ascii_digit (CHR 0x2B)"
  by (simp_all add: is_ascii_digit_def hyphen_def)

lemma parse_show_int:
  assumes "- (2 ^ 63) \<le> i" and "i < 2 ^ 63"
  shows "parse_i64 (show_int i) = Some i"
proof (cases "i < 0")
  case True
  with assms show ?thesis
    by (simp add: show_int_def parse_i64_def show_nat_digits show_nat_value Let_def)
next
  case False
  obtain c cs where c: "show_nat (nat i) = c # cs" by (cases "show_nat (nat i)") auto
  with show_nat_digits [of "nat i"] have "is_ascii_digit c" by simp
  with signs_no_digits have "c \<noteq> hyphen" "c \<noteq> CHR 0x2B" by auto
  with False assms c show ?thesis
    using show_nat_digits [of "nat i"] show_nat_value [of "nat i"]
    by (simp add: show_int_def parse_i64_def Let_def)
qed

lemma parse_i64_range: "parse_i64 s = Some i \<Longrightarrow> - (2 ^ 63) \<le> i \<and> i < 2 ^ 63"
  by (auto simp: parse_i64_def Let_def split: prod.splits if_splits)

lemma parse_u32_range: "parse_u32 s = Some n \<Longrightarrow> n < 2 ^ 32"
  by (auto simp: parse_u32_def Let_def split: if_splits)

lemma parse_u32_show: "n < 2 ^ 32 \<Longrightarrow> parse_u32 (show_nat n) = Some n"
  using parse_u32_digits [of "show_nat n"] by (simp add: show_nat_digits show_nat_value)

section \<open>Trimming\<close>

lemma trim_start_by_fix: "strip_one ws (trim_start_by ws s) = None"
proof (induction ws s rule: trim_start_by.induct)
  case (1 ws s)
  then show ?case by (subst trim_start_by.simps) (simp split: option.split)
qed

lemma trim_start_by_suffix: "suffix (trim_start_by ws s) s"
proof (induction ws s rule: trim_start_by.induct)
  case (1 ws s)
  show ?case
  proof (cases "strip_one ws s")
    case None
    then show ?thesis by (subst trim_start_by.simps) simp
  next
    case (Some t)
    then have "suffix t s" by (auto simp: strip_one_def suffix_drop split: option.splits)
    with 1 [OF Some] Some show ?thesis by (subst trim_start_by.simps) (auto intro: suffix_order.trans)
  qed
qed

lemma trim_start_by_id: "strip_one ws s = None \<Longrightarrow> trim_start_by ws s = s"
  by (subst trim_start_by.simps) simp

lemma strip_one_prefix: "strip_one ws s = None \<Longrightarrow> prefix t s \<Longrightarrow> strip_one ws t = None"
  by (auto simp: strip_one_def find_None_iff intro: prefix_order.trans split: option.splits)

lemma trim_end_prefix: "prefix (trim_end s) s"
  using trim_start_by_suffix [of "map rev white_space" "rev s"]
  by (simp add: trim_end_def suffix_to_prefix)

lemma trim_sublist: "sublist (trim s) s"
proof -
  have "sublist (trim_start s) s" unfolding trim_start_def by (rule suffix_imp_sublist [OF trim_start_by_suffix])
  moreover have "sublist (trim s) (trim_start s)"
    unfolding trim_def by (rule prefix_imp_sublist [OF trim_end_prefix])
  ultimately show ?thesis by (rule sublist_order.order_trans [rotated])
qed

lemma trim_idem [simp]: "trim (trim s) = trim s"
proof -
  have "strip_one white_space (trim_start s) = None" by (simp add: trim_start_def trim_start_by_fix)
  then have "strip_one white_space (trim s) = None"
    unfolding trim_def by (rule strip_one_prefix) (rule trim_end_prefix)
  then have "trim_start (trim s) = trim s" by (simp add: trim_start_def trim_start_by_id)
  moreover have "strip_one (map rev white_space) (rev (trim s)) = None"
    by (simp add: trim_def trim_end_def trim_start_by_fix)
  then have "trim_end (trim s) = trim s" by (simp add: trim_end_def trim_start_by_id)
  ultimately show ?thesis by (simp add: trim_def)
qed

lemma trim_length: "length (trim s) \<le> length s"
  by (rule sublist_length_le [OF trim_sublist])

lemma trim_in_set: "c \<in> set (trim s) \<Longrightarrow> c \<in> set s"
  using set_mono_sublist [OF trim_sublist] by blast

text \<open>Without white space there is nothing to trim.\<close>

lemma trim_no_white:
  assumes "\<not> has_whitespace s"
  shows "trim s = s"
proof -
  have w: "\<not> sublist w s" if "w \<in> set white_space" for w
    using assms that by (auto simp: has_whitespace_def list_ex_iff contains_str_def)
  then have "strip_one white_space s = None"
    by (auto simp: strip_one_def find_None_iff dest: prefix_imp_sublist split: option.splits)
  moreover have "strip_one (map rev white_space) (rev s) = None"
    using w by (auto simp: strip_one_def find_None_iff dest!: prefix_imp_sublist split: option.splits)
  ultimately show ?thesis by (simp add: trim_def trim_start_def trim_end_def trim_start_by_id)
qed

lemma trim_all_plain: "s \<noteq> [] \<Longrightarrow> list_all plain s \<Longrightarrow> trim s = s"
  by (rule trim_plain) (auto simp: list_all_iff)

end
