(* ===== verification/Adif.thy ===== *)
theory Adif
  imports Proposal Float64 Text
begin

text \<open>
  Exchange of contacts in the ADIF format (\<open>ham-core/src/adif.rs\<close>): the parser of tagged,
  length-prefixed fields, the export of a projection, and the import, which submits a proposal
  for each record that is not a duplicate.
\<close>

datatype duplicate_policy = SkipDuplicates | ImportAnyway

record adif_import_options =
  ao_duplicate_window_minutes :: int
  ao_duplicate_policy :: duplicate_policy
  ao_station_callsign :: string
  ao_operator_callsign :: "string option"
  ao_source_plugin_id :: string
  ao_author_device_id :: uuid

definition adif_mvp_default :: "string \<Rightarrow> string \<Rightarrow> uuid \<Rightarrow> adif_import_options" where
  "adif_mvp_default station plugin device =
     \<lparr>ao_duplicate_window_minutes = 10, ao_duplicate_policy = SkipDuplicates, ao_station_callsign = station,
      ao_operator_callsign = None, ao_source_plugin_id = plugin, ao_author_device_id = device\<rparr>"

record adif_summary =
  ai_imported_count :: nat
  ai_skipped_count :: nat
  ai_duplicate_count :: nat
  ai_rejected_count :: nat
  ai_errors :: "string list"

definition adif_summary_default :: adif_summary where
  "adif_summary_default = \<lparr>ai_imported_count = 0, ai_skipped_count = 0, ai_duplicate_count = 0,
     ai_rejected_count = 0, ai_errors = []\<rparr>"

type_synonym adif_record = "(string, string) hmap"

text \<open>
  The clock library as the format uses it: \<open>%Y%m%d\<close> and \<open>%H%M%S\<close> of an instant, the reading of
  a date and a time of day in these formats as an instant, and RFC 3339. (The reader of RFC 3339
  is \<open>lib_parse_rfc3339\<close>.)
\<close>

record adif_libs =
  al_date :: "datetime \<Rightarrow> string"
  al_time :: "datetime \<Rightarrow> string"
  al_parse_date :: "string \<Rightarrow> int option"
  al_parse_time :: "string \<Rightarrow> int option"
  al_rfc3339 :: "datetime \<Rightarrow> string"

section \<open>Reading\<close>

text \<open>A slice of a \<open>str\<close> panics when an end of it is not at a character boundary, that is when
  the byte there continues a character.\<close>

definition at_boundary :: "string \<Rightarrow> bool" where
  "at_boundary rest = (case rest of [] \<Rightarrow> True | c # _ \<Rightarrow> \<not> continuation_byte c)"

definition split_at :: "char \<Rightarrow> string \<Rightarrow> (string \<times> string) option" where
  "split_at c s = (if c \<in> set s then Some (takeWhile (\<lambda>x. x \<noteq> c) s, tl (dropWhile (\<lambda>x. x \<noteq> c) s)) else None)"

text \<open>\<open>parse::<usize>\<close>, and the length after the first colon of a tag.\<close>

definition parse_usize :: "string \<Rightarrow> nat option" where
  "parse_usize s =
     (let ds = (case s of c # cs \<Rightarrow> if c = CHR 0x2B then cs else s | [] \<Rightarrow> [])
      in if ds \<noteq> [] \<and> list_all is_ascii_digit ds \<and> digits_value ds < 2 ^ 64
         then Some (digits_value ds) else None)"

definition field_length :: "string \<Rightarrow> nat" where
  "field_length part =
     (case parse_usize (takeWhile (\<lambda>x. x \<noteq> CHR '':'') part) of None \<Rightarrow> 0 | Some n \<Rightarrow> n)"

definition push_record :: "adif_record \<Rightarrow> adif_record list \<Rightarrow> adif_record list" where
  "push_record r rs = (if r = [] then rs else rs @ [r])"

lemma split_at_shorter: "split_at c s = Some (a, b) \<Longrightarrow> length b < length s \<and> length a + length b < length s"
proof -
  assume a: "split_at c s = Some (a, b)"
  then have c: "c \<in> set s" "a = takeWhile (\<lambda>x. x \<noteq> c) s" "b = tl (dropWhile (\<lambda>x. x \<noteq> c) s)"
    by (auto simp: split_at_def split: if_splits)
  then have "dropWhile (\<lambda>x. x \<noteq> c) s \<noteq> []" by simp
  moreover have "length a + length (dropWhile (\<lambda>x. x \<noteq> c) s) = length s"
    unfolding c(2) by (metis length_append takeWhile_dropWhile_id)
  ultimately show ?thesis unfolding c(3) by (cases "dropWhile (\<lambda>x. x \<noteq> c) s") auto
qed

text \<open>\<open>rest\<close> is the input from \<open>index\<close> on; \<open>index + length\<close> overflows at \<open>2 ^ 64\<close>, which panics
  (in a build without overflow checks the slice that follows does).\<close>

function parse_adif_loop :: "nat \<Rightarrow> string \<Rightarrow> adif_record list \<Rightarrow> adif_record \<Rightarrow> unit fault + adif_record list" where
  "parse_adif_loop index rest records current =
     (case rest of
        [] \<Rightarrow> Inr (push_record current records)
      | c # cs \<Rightarrow>
          if c \<noteq> CHR ''<'' then parse_adif_loop (index + 1) cs records current
          else (case split_at (CHR ''>'') cs of
              None \<Rightarrow> Inr (push_record current records)
            | Some (tag, after) \<Rightarrow>
                let index = index + length tag + 2; tag_lower = to_ascii_lowercase tag in
                if tag_lower = ''eoh'' then parse_adif_loop index after records current
                else if tag_lower = ''eor''
                then parse_adif_loop index after (push_record current records) []
                else (case split_at (CHR '':'') tag of
                    None \<Rightarrow> parse_adif_loop index after records current
                  | Some (field, length_part) \<Rightarrow>
                      let n = field_length length_part in
                      if index + n \<ge> 2 ^ 64 then Inl Panicked
                      else if n > length after then Inr (push_record current records)
                      else if \<not> at_boundary after \<or> \<not> at_boundary (drop n after) then Inl Panicked
                      else parse_adif_loop (index + n) (drop n after) records
                        (hm_insert (to_ascii_uppercase field) (take n after) current))))"
  by pat_completeness auto

termination
  by (relation "measure (\<lambda>(index, rest, records, current). length rest)")
    (auto dest!: split_at_shorter)

declare parse_adif_loop.simps [simp del]

definition parse_adif :: "string \<Rightarrow> unit fault + adif_record list" where
  "parse_adif input = parse_adif_loop 0 input [] []"

section \<open>Writing\<close>

definition adif_tag :: "string \<Rightarrow> string \<Rightarrow> string" where
  "adif_tag name v = ''<'' @ name @ '':'' @ show_nat (length v) @ ''>'' @ v"

definition append_field :: "string \<Rightarrow> json option \<Rightarrow> string \<Rightarrow> string" where
  "append_field name value output =
     (case Option.bind value as_str of
        None \<Rightarrow> output
      | Some v \<Rightarrow> if v = [] then output else output @ adif_tag name v)"

definition append_field_or_str :: "string \<Rightarrow> json option \<Rightarrow> string option \<Rightarrow> string \<Rightarrow> string" where
  "append_field_or_str name value fallback output =
     (if Option.bind value as_str \<noteq> None then append_field name value output
      else (case fallback of
          None \<Rightarrow> output
        | Some v \<Rightarrow> if v = [] then output else output @ adif_tag name v))"

definition activation_reference :: "activation_record \<Rightarrow> string option" where
  "activation_reference a =
     Option.bind (case value_get (ar_payload a) ''park_id'' of
         Some v \<Rightarrow> Some v | None \<Rightarrow> value_get (ar_payload a) ''summit_id'') as_str"

definition append_frequency :: "json option \<Rightarrow> string \<Rightarrow> string" where
  "append_frequency value output =
     (case Option.bind value as_u64 of
        None \<Rightarrow> output
      | Some hz \<Rightarrow> output @ adif_tag ''FREQ'' (hz_to_mhz_text (unat hz)))"

definition payload_instant :: "libs \<Rightarrow> json \<Rightarrow> string \<Rightarrow> datetime option" where
  "payload_instant L payload key = Option.bind (value_str payload key) (lib_parse_rfc3339 L)"

definition append_date_time :: "libs \<Rightarrow> adif_libs \<Rightarrow> json \<Rightarrow> string \<Rightarrow> string" where
  "append_date_time L A payload output =
     (case payload_instant L payload ''started_at'' of
        None \<Rightarrow> output
      | Some t \<Rightarrow>
          let output = output @ ''<QSO_DATE:8>'' @ al_date A t @ ''<TIME_ON:6>'' @ al_time A t in
          (case payload_instant L payload ''ended_at'' of
             None \<Rightarrow> output
           | Some u \<Rightarrow> output @ ''<TIME_OFF:6>'' @ al_time A u))"

text \<open>The activation of a contact: the one its payload names, or else the first that links it.\<close>

definition export_activation :: "libs \<Rightarrow> activation_projection option \<Rightarrow> qso_record \<Rightarrow> activation_record option" where
  "export_activation L activations r =
     Option.bind activations (\<lambda>as.
       case Option.bind (Option.bind (value_str (qr_payload r) ''activation_id'') (lib_parse_uuid L)) (activation_get as) of
         Some a \<Rightarrow> Some a
       | None \<Rightarrow> List.find (\<lambda>a. qr_qso_id r \<in> set (ar_linked_qsos a)) (activation_list as True))"

definition append_payload_field :: "json \<Rightarrow> string \<times> string \<Rightarrow> string \<Rightarrow> string" where
  "append_payload_field payload = (\<lambda>(name, key) output. append_field name (value_get payload key) output)"

definition append_payload_fields :: "json \<Rightarrow> (string \<times> string) list \<Rightarrow> string \<Rightarrow> string" where
  "append_payload_fields payload names output = fold (append_payload_field payload) names output"

definition append_record :: "libs \<Rightarrow> adif_libs \<Rightarrow> activation_projection option \<Rightarrow> qso_record \<Rightarrow> string \<Rightarrow> string" where
  "append_record L A activations r output =
     (let payload = qr_payload r; activation = export_activation L activations r;
          output = append_payload_fields payload [(''CALL'', ''contacted_callsign''),
            (''STATION_CALLSIGN'', ''station_callsign''), (''OPERATOR'', ''operator_callsign'')] output;
          output = append_date_time L A payload output;
          output = append_payload_fields payload [(''BAND'', ''band'')] output;
          output = append_frequency (value_get payload ''frequency_hz'') output;
          output = append_payload_fields payload [(''MODE'', ''mode''), (''SUBMODE'', ''submode''),
            (''RST_SENT'', ''rst_sent''), (''RST_RCVD'', ''rst_received''), (''GRIDSQUARE'', ''grid''),
            (''NAME'', ''name''), (''QTH'', ''qth''), (''COMMENT'', ''notes'')] output;
          output = append_field_or_str ''MY_SIG'' (value_get payload ''my_sig'')
            (Option.bind activation (\<lambda>a. map_option to_ascii_uppercase (value_str (ar_payload a) ''activation_type''))) output;
          output = append_field_or_str ''MY_SIG_INFO'' (value_get payload ''my_sig_info'')
            (Option.bind activation activation_reference) output;
          output = append_payload_fields payload [(''SIG'', ''contacted_sig''), (''SIG_INFO'', ''contacted_sig_info'')] output
      in output @ ''<EOR>'' @ newline)"

definition adif_header :: string where
  "adif_header = ''Generated by KE8YGW Logger 0.5.1'' @ newline @ ''<ADIF_VER:5>3.1.4'' @ newline @ ''<EOH>'' @ newline"

definition export_adif_with_activations ::
    "libs \<Rightarrow> adif_libs \<Rightarrow> qso_projection \<Rightarrow> activation_projection option \<Rightarrow> bool \<Rightarrow> string" where
  "export_adif_with_activations L A p activations include_deleted =
     fold (append_record L A activations) (qso_list p include_deleted) adif_header"

definition export_adif :: "libs \<Rightarrow> adif_libs \<Rightarrow> qso_projection \<Rightarrow> bool \<Rightarrow> string" where
  "export_adif L A p include_deleted = export_adif_with_activations L A p None include_deleted"

section \<open>Importing\<close>

definition adif_required :: "adif_record \<Rightarrow> string \<Rightarrow> string + string" where
  "adif_required r field =
     (case hm_get r field of
        None \<Rightarrow> Inl (''ADIF record missing required field '' @ field)
      | Some v \<Rightarrow> if trim v = [] then Inl (''ADIF record missing required field '' @ field) else Inr v)"

text \<open>\<open>{time:0<6}\<close> counts characters.\<close>

definition padded_time :: "string \<Rightarrow> string" where
  "padded_time t = t @ replicate (6 - char_count t) CHR ''0''"

definition adif_datetime :: "adif_libs \<Rightarrow> adif_record \<Rightarrow> string \<Rightarrow> string \<Rightarrow> string fault + datetime" where
  "adif_datetime A r date_field time_field =
     and_then (map_err Fail (adif_required r date_field)) (\<lambda>date.
       let time = (case hm_get r time_field of None \<Rightarrow> ''000000'' | Some t \<Rightarrow> t) in
       and_then (ok_or (Fail (''invalid ADIF date '' @ date)) (al_parse_date A date)) (\<lambda>d.
         let padded = padded_time time in
         if \<not> at_boundary (drop 6 padded) then Inl Panicked
         else and_then (ok_or (Fail (''invalid ADIF time '' @ padded)) (al_parse_time A (take 6 padded))) (\<lambda>t.
           Inr (d + t))))"

text \<open>\<open>payload[key] = json!(value)\<close> on the object built before.\<close>

definition set_member :: "string \<Rightarrow> json \<Rightarrow> json_map \<Rightarrow> json_map" where
  "set_member k v m = bt_insert k v m"

definition adif_copy :: "adif_record \<Rightarrow> string \<times> string \<Rightarrow> json_map \<Rightarrow> json_map" where
  "adif_copy r = (\<lambda>(field, key) payload.
     (case hm_get r field of
        None \<Rightarrow> payload
      | Some v \<Rightarrow> if trim v = [] then payload else set_member key (JString v) payload))"

definition copied_fields :: "(string \<times> string) list" where
  "copied_fields = [(''BAND'', ''band''), (''SUBMODE'', ''submode''), (''RST_SENT'', ''rst_sent''),
     (''RST_RCVD'', ''rst_received''), (''GRIDSQUARE'', ''grid''), (''NAME'', ''name''), (''QTH'', ''qth''),
     (''COMMENT'', ''notes''), (''NOTES'', ''notes''), (''MY_SIG'', ''my_sig''), (''MY_SIG_INFO'', ''my_sig_info''),
     (''SIG'', ''contacted_sig''), (''SIG_INFO'', ''contacted_sig_info'')]"

definition raw_adif :: "adif_record \<Rightarrow> json" where
  "raw_adif r = json_object (map (\<lambda>(k, v). (k, JString v)) r)"

definition first_some :: "'a option \<Rightarrow> 'a \<Rightarrow> 'a" where
  "first_some x d = (case x of None \<Rightarrow> d | Some y \<Rightarrow> y)"

definition adif_record_to_qso_payload :: "adif_libs \<Rightarrow> adif_record \<Rightarrow> adif_import_options \<Rightarrow> string fault + json" where
  "adif_record_to_qso_payload A r options =
     and_then (map_err Fail (adif_required r ''CALL'')) (\<lambda>call.
     and_then (map_err Fail (adif_required r ''MODE'')) (\<lambda>mode.
     and_then (adif_datetime A r ''QSO_DATE'' ''TIME_ON'') (\<lambda>started_at.
       let payload = fold (\<lambda>(k, v) m. set_member k v m)
             [(''station_callsign'', JString (first_some (hm_get r ''STATION_CALLSIGN'') (ao_station_callsign options))),
              (''operator_callsign'', JString (case hm_get r ''OPERATOR'' of Some o' \<Rightarrow> o'
                 | None \<Rightarrow> first_some (ao_operator_callsign options) (ao_station_callsign options))),
              (''contacted_callsign'', JString (to_ascii_uppercase call)),
              (''started_at'', JString (al_rfc3339 A started_at)),
              (''mode'', JString (to_ascii_uppercase mode)),
              (''source'', JString ''imported/adif''),
              (''import_metadata'', JObject [(''raw_adif'', raw_adif r)])] [];
           payload = fold (adif_copy r) copied_fields payload in
       and_then (case hm_get r ''TIME_OFF'' of
           None \<Rightarrow> Inr payload
         | Some _ \<Rightarrow> (case adif_datetime A r ''QSO_DATE'' ''TIME_OFF'' of
               Inl Panicked \<Rightarrow> Inl Panicked
             | Inl (Fail _) \<Rightarrow> Inr payload
             | Inr ended_at \<Rightarrow> Inr (set_member ''ended_at'' (JString (al_rfc3339 A ended_at)) payload))) (\<lambda>payload.
       Inr (JObject (case Option.bind (hm_get r ''FREQ'') mhz_text_to_hz of
           None \<Rightarrow> payload
         | Some hz \<Rightarrow> set_member ''frequency_hz'' (JNumber (PosInt hz)) payload))))))"

text \<open>\<open>num_minutes\<close> truncates towards zero; \<open>abs\<close> comes after it.\<close>

definition minutes_apart :: "datetime \<Rightarrow> datetime \<Rightarrow> int" where
  "minutes_apart a b = \<bar>a - b\<bar> div 60000000000"

definition field_equals :: "json \<Rightarrow> string \<Rightarrow> string \<Rightarrow> bool" where
  "field_equals payload key wanted =
     (case value_str payload key of None \<Rightarrow> False | Some v \<Rightarrow> eq_ignore_ascii_case v wanted)"

definition same_contact :: "libs \<Rightarrow> json \<Rightarrow> datetime \<Rightarrow> int \<Rightarrow> json \<Rightarrow> bool" where
  "same_contact L payload started_at window existing =
     (field_equals existing ''contacted_callsign'' (str_or payload ''contacted_callsign'' []) \<and>
      field_equals existing ''mode'' (str_or payload ''mode'' []) \<and>
      (case value_str payload ''band'' of None \<Rightarrow> True | Some band \<Rightarrow> field_equals existing ''band'' band) \<and>
      (case payload_instant L existing ''started_at'' of
         None \<Rightarrow> False | Some t \<Rightarrow> minutes_apart t started_at \<le> window))"

definition is_duplicate :: "libs \<Rightarrow> qso_projection \<Rightarrow> json \<Rightarrow> int \<Rightarrow> bool" where
  "is_duplicate L p payload window =
     (case payload_instant L payload ''started_at'' of
        None \<Rightarrow> False
      | Some started_at \<Rightarrow> list_ex (\<lambda>r. same_contact L payload started_at window (qr_payload r)) (qso_list p False))"

text \<open>\<open>rebuild_projections(..).unwrap_or_else(new)\<close>: an error gives the empty projection, a panic
  unwinds.\<close>

definition rebuilt_or_new :: "'s store_ops \<Rightarrow> 's \<Rightarrow> uuid \<Rightarrow> unit fault + qso_projection" where
  "rebuilt_or_new ops s lb =
     (case op_rebuild_projections ops s lb of
        Inr p \<Rightarrow> Inr p | Inl (Fail _) \<Rightarrow> Inr qso_projection_new | Inl Panicked \<Rightarrow> Inl Panicked)"

definition note_rejected :: "string \<Rightarrow> adif_summary \<Rightarrow> adif_summary" where
  "note_rejected err m = m\<lparr>ai_rejected_count := ai_rejected_count m + 1, ai_errors := ai_errors m @ [err]\<rparr>"

fun import_loop :: "'s store_ops \<Rightarrow> libs \<Rightarrow> adif_libs \<Rightarrow> proposal_context \<Rightarrow> uuid \<Rightarrow> adif_import_options \<Rightarrow>
    adif_record list \<Rightarrow> qso_projection \<Rightarrow> adif_summary \<Rightarrow> 's \<Rightarrow> event_bus \<Rightarrow> world \<Rightarrow>
    (unit fault + adif_summary) \<times> 's \<times> event_bus \<times> world" where
  "import_loop ops L A ctx lb options [] p m s b w = (Inr m, s, b, w)"
| "import_loop ops L A ctx lb options (r # rs) p m s b w =
     (case adif_record_to_qso_payload A r options of
        Inl Panicked \<Rightarrow> (Inl Panicked, s, b, w)
      | Inl (Fail err) \<Rightarrow> import_loop ops L A ctx lb options rs p (note_rejected err m) s b w
      | Inr payload \<Rightarrow>
          if ao_duplicate_policy options = SkipDuplicates \<and>
            is_duplicate L p payload (ao_duplicate_window_minutes options)
          then import_loop ops L A ctx lb options rs p
            (m\<lparr>ai_duplicate_count := ai_duplicate_count m + 1, ai_skipped_count := ai_skipped_count m + 1\<rparr>) s b w
          else
            let (proposal, w) = proposal_new PROPOSAL_QSO_CREATE lb None None (ao_author_device_id options)
                  (ao_source_plugin_id options) 1 payload w in
            (case submit_proposal ops L ctx proposal s b w of
               (Inr _, s, b, w) \<Rightarrow>
                 (case rebuilt_or_new ops s lb of
                    Inl err \<Rightarrow> (Inl err, s, b, w)
                  | Inr p \<Rightarrow> import_loop ops L A ctx lb options rs p
                      (m\<lparr>ai_imported_count := ai_imported_count m + 1\<rparr>) s b w)
             | (Inl (Fail err), s, b, w) \<Rightarrow>
                 import_loop ops L A ctx lb options rs p (note_rejected (proposal_error_message L err) m) s b w
             | (Inl Panicked, s, b, w) \<Rightarrow> (Inl Panicked, s, b, w)))"

definition import_adif :: "'s store_ops \<Rightarrow> libs \<Rightarrow> adif_libs \<Rightarrow> proposal_context \<Rightarrow> uuid \<Rightarrow> string \<Rightarrow>
    adif_import_options \<Rightarrow> 's \<Rightarrow> event_bus \<Rightarrow> world \<Rightarrow> (unit fault + adif_summary) \<times> 's \<times> event_bus \<times> world" where
  "import_adif ops L A ctx lb input options s b w =
     (case parse_adif input of
        Inl err \<Rightarrow> (Inl err, s, b, w)
      | Inr records \<Rightarrow>
          (case rebuilt_or_new ops s lb of
             Inl err \<Rightarrow> (Inl err, s, b, w)
           | Inr p \<Rightarrow> import_loop ops L A ctx lb options records p adif_summary_default s b w))"

end
