(* ===== verification/Float_Facts.thy ===== *)
theory Float_Facts
  imports Float64
begin

text \<open>
  The error of one rounding, and that a frequency in hertz survives being written in megahertz
  with six decimals and read back.
\<close>

section \<open>Powers of two\<close>

lemma pow2_powi: "pow2 k = 2 powi k"
  by (simp add: pow2_def power_int_def field_simps)

lemma pow2_pos [simp]: "pow2 k > 0"
  by (simp add: pow2_powi)

lemma pow2_add: "pow2 (a + b) = pow2 a * pow2 b"
  by (simp add: pow2_powi power_int_add)

lemma pow2_diff: "pow2 (a - b) = pow2 a / pow2 b"
  by (simp add: pow2_powi power_int_diff)

lemma pow2_of_nat: "pow2 (int k) = 2 ^ k"
  by (simp add: pow2_def)

lemma pow2_mono: "a \<le> b \<Longrightarrow> pow2 a \<le> pow2 b"
  by (simp add: pow2_powi power_int_increasing)

lemma pow2_less_cancel: "pow2 a < pow2 b \<Longrightarrow> a < b"
  using pow2_mono by (meson linorder_not_le)

lemma bit_length_bounds: "n > 0 \<Longrightarrow> 2 ^ (bit_length n - 1) \<le> n \<and> n < 2 ^ bit_length n \<and> bit_length n > 0"
proof (induction n rule: bit_length.induct)
  case (1 n)
  have b: "bit_length n = Suc (bit_length (n div 2))" using "1.prems" by (subst bit_length.simps) simp
  show ?case
  proof (cases "n div 2 = 0")
    case True
    then have "bit_length n = 1" using b by (simp add: bit_length.simps [of 0])
    moreover have "n = 1" using True "1.prems" by linarith
    ultimately show ?thesis by simp
  next
    case False
    with "1.IH" "1.prems" have ih: "2 ^ (bit_length (n div 2) - 1) \<le> n div 2" "n div 2 < 2 ^ bit_length (n div 2)"
      "bit_length (n div 2) > 0" by auto
    have "2 * 2 ^ (bit_length (n div 2) - 1) = (2 :: nat) ^ bit_length (n div 2)"
      using ih(3) by (cases "bit_length (n div 2)") auto
    then have "2 ^ bit_length (n div 2) \<le> n" using ih(1) by linarith
    moreover have "n < 2 * 2 ^ bit_length (n div 2)" using ih(2) by linarith
    ultimately show ?thesis by (simp add: b)
  qed
qed

lemma bit_length_pow2:
  assumes "n > 0"
  shows "pow2 (int (bit_length n) - 1) \<le> of_nat n" "of_nat n < pow2 (int (bit_length n))"
proof -
  note b = bit_length_bounds [OF assms]
  have e: "int (bit_length n) - 1 = int (bit_length n - 1)" using b by linarith
  have "pow2 (int (bit_length n) - 1) = of_nat (2 ^ (bit_length n - 1))"
    unfolding e pow2_of_nat of_nat_power of_nat_numeral ..
  also have "\<dots> \<le> of_nat n" using b by (intro of_nat_mono) simp
  finally show "pow2 (int (bit_length n) - 1) \<le> of_nat n" .
  have "of_nat n < (of_nat (2 ^ bit_length n) :: rat)" using b by (simp only: of_nat_less_iff)
  then show "of_nat n < pow2 (int (bit_length n))" unfolding pow2_of_nat of_nat_power of_nat_numeral .
qed

lemma floor_log2_bounds:
  assumes "x > 0"
  shows "pow2 (floor_log2 x) \<le> x" "x < pow2 (floor_log2 x + 1)"
proof -
  obtain p q where pq: "quotient_of x = (p, q)" by fastforce
  have q: "q > 0" using quotient_of_denom_pos [OF pq] .
  have x: "x = of_int p / of_int q" using quotient_of_div [OF pq] .
  then have p: "p > 0" using assms q by (simp add: zero_less_divide_iff)
  define a b where "a = int (bit_length (nat p))" and "b = int (bit_length (nat q))"
  have P: "pow2 (a - 1) \<le> of_int p" "of_int p < pow2 a"
    using bit_length_pow2 [of "nat p"] p by (simp_all add: a_def)
  have Q: "pow2 (b - 1) \<le> of_int q" "of_int q < pow2 b"
    using bit_length_pow2 [of "nat q"] q by (simp_all add: b_def)
  have pos: "(of_int q :: rat) > 0" using q by simp
  have "x < pow2 a / pow2 (b - 1)" unfolding x
    by (rule frac_less) (use P Q pos p in \<open>auto simp: less_imp_le\<close>)
  also have "\<dots> = pow2 (a - b + 1)" unfolding pow2_diff [symmetric] by (simp add: algebra_simps)
  finally have up: "x < pow2 (a - b + 1)" .
  have "pow2 (a - b - 1) = pow2 (a - 1) / pow2 b" unfolding pow2_diff [symmetric] by (simp add: algebra_simps)
  also have "\<dots> \<le> x" unfolding x by (rule frac_le) (use P Q pos p in auto)
  finally have low: "pow2 (a - b - 1) \<le> x" .
  have fl: "floor_log2 x = (if pow2 (a - b) \<le> x then a - b else a - b - 1)"
    by (simp add: floor_log2_def pq a_def b_def Let_def)
  show "pow2 (floor_log2 x) \<le> x" "x < pow2 (floor_log2 x + 1)"
    using up low by (auto simp: fl)
qed

section \<open>Rounding\<close>

lemma round_half_even_error: "\<bar>of_int (round_half_even x) - x\<bar> \<le> 1 / 2"
proof -
  have "of_int \<lfloor>x\<rfloor> \<le> x" "x < of_int \<lfloor>x\<rfloor> + 1" by linarith+
  then show ?thesis by (auto simp: round_half_even_def Let_def abs_le_iff)
qed

lemma round_half_even_int: "round_half_even (of_int n) = n"
  by (simp add: round_half_even_def)

lemma round_half_even_close: "\<bar>x - of_int n\<bar> < 1 / 2 \<Longrightarrow> round_half_even x = n"
proof -
  assume "\<bar>x - of_int n\<bar> < 1 / 2"
  moreover note round_half_even_error [of x]
  ultimately have "\<bar>of_int (round_half_even x) - (of_int n :: rat)\<bar> < 1" by linarith
  then have "\<bar>of_int (round_half_even x - n) :: rat\<bar> < 1" by simp
  then have "\<bar>round_half_even x - n\<bar> < 1" by (metis of_int_abs of_int_less_1_iff)
  then show ?thesis by simp
qed

lemma round_f64_close:
  assumes "pow2 (- 1000) \<le> x" and "x \<le> pow2 1000"
  shows "\<exists>v. round_f64 x = F64 v \<and> \<bar>v - x\<bar> \<le> x / 2 ^ 53"
proof -
  have x: "x > 0" using assms(1) pow2_pos [of "- 1000"] by linarith
  note fl = floor_log2_bounds [OF x]
  have "pow2 (- 1000) < pow2 (floor_log2 x + 1)" using assms(1) fl(2) by linarith
  then have low: "- 1000 < floor_log2 x + 1" by (rule pow2_less_cancel)
  define e where "e = floor_log2 x - 52"
  define v where "v = of_int (round_half_even (x / pow2 e)) * pow2 e"
  have "\<bar>of_int (round_half_even (x / pow2 e)) - x / pow2 e\<bar> * pow2 e \<le> 1 / 2 * pow2 e"
    by (intro mult_right_mono round_half_even_error) (simp add: less_imp_le)
  moreover have "\<bar>of_int (round_half_even (x / pow2 e)) - x / pow2 e\<bar> * pow2 e = \<bar>v - x\<bar>"
  proof -
    have "v - x = (of_int (round_half_even (x / pow2 e)) - x / pow2 e) * pow2 e"
      using pow2_pos [of e] by (simp add: v_def left_diff_distrib less_imp_neq [symmetric])
    then show ?thesis by (simp add: abs_mult abs_of_pos)
  qed
  ultimately have "\<bar>v - x\<bar> \<le> 1 / 2 * pow2 e" by simp
  also have "\<dots> = pow2 (floor_log2 x) / 2 ^ 53"
  proof -
    have "pow2 (floor_log2 x) = pow2 e * 2 ^ 52" using pow2_add [of e 52] by (simp add: e_def pow2_def)
    then show ?thesis by (simp add: field_simps)
  qed
  also have "\<dots> \<le> x / 2 ^ 53" using fl(1) by (simp add: divide_right_mono)
  finally have err: "\<bar>v - x\<bar> \<le> x / 2 ^ 53" .
  have "x / 2 ^ 53 \<le> x" using x by simp
  then have "v \<le> 2 * x" using err by linarith
  also have "\<dots> \<le> pow2 1001" using assms(2) pow2_add [of 1 1000] by (simp add: pow2_def [of 1])
  also have "pow2 1001 < pow2 1024" by (simp add: pow2_powi power_int_strict_increasing)
  finally have "v < pow2 1024" .
  moreover have "max e (- 1074) = e" using low by (simp add: e_def)
  ultimately have "round_f64 x = F64 v" using x by (simp add: round_f64_def v_def [symmetric] e_def [symmetric])
  with err show ?thesis by blast
qed

lemma f64_of_nat_exact:
  assumes "n < 2 ^ 53"
  shows "f64_of_nat n = F64 (of_nat n)"
proof (cases "n = 0")
  case False
  define x :: rat where "x = of_nat n"
  have x: "x > 0" using False by (simp add: x_def)
  have "x < of_nat (2 ^ 53)" unfolding x_def using assms by (simp only: of_nat_less_iff)
  then have up: "x < pow2 53" by (simp add: pow2_def)
  note fl = floor_log2_bounds [OF x]
  have f52: "floor_log2 x \<le> 52" using pow2_less_cancel [of "floor_log2 x" 53] fl(1) up by linarith
  have "1 \<le> x" using False by (simp add: x_def)
  then have "pow2 0 < pow2 (floor_log2 x + 1)" using fl(2) by (simp add: pow2_def [of 0])
  then have f0: "0 \<le> floor_log2 x" using pow2_less_cancel by fastforce
  define k where "k = nat (52 - floor_log2 x)"
  define e where "e = floor_log2 x - 52"
  have e: "pow2 e = 1 / 2 ^ k"
  proof (cases "e = 0")
    case True
    then show ?thesis by (simp add: pow2_def k_def e_def)
  next
    case False
    then show ?thesis using f52 by (simp add: pow2_def k_def e_def)
  qed
  have "x / pow2 e = of_int (int n * 2 ^ k)" by (simp add: e x_def)
  then have r: "round_half_even (x / pow2 e) = int n * 2 ^ k" by (simp only: round_half_even_int)
  have "of_int (int n * 2 ^ k) * pow2 e = x" by (simp add: e x_def)
  moreover have "x < pow2 1024" using up pow2_mono [of 53 1024] by simp
  moreover have "max e (- 1074) = e" using f0 by (simp add: e_def)
  ultimately have "round_f64 x = F64 x"
    using x r by (simp add: round_f64_def e_def [symmetric])
  then show ?thesis by (simp add: f64_of_nat_def x_def)
qed (simp add: f64_of_nat_def round_f64_def)

section \<open>Frequencies\<close>

lemma mhz_rounded:
  assumes "0 < hz" and "hz < 2 ^ 50"
  shows "\<exists>q. f64_over (f64_of_nat hz) 1000000 = F64 q \<and> round_f64 (of_nat hz / 1000000) = F64 q \<and>
    \<bar>q - of_nat hz / 1000000\<bar> \<le> of_nat hz / 1000000 / 2 ^ 53"
proof -
  have hz: "(of_nat hz :: rat) \<ge> 1" "(of_nat hz :: rat) < 2 ^ 50"
    using assms of_nat_less_iff [of hz "2 ^ 50", where 'a = rat] by (simp_all del: of_nat_less_iff)
  have "pow2 (- 1000) \<le> of_nat hz / 1000000"
  proof -
    have "pow2 (- 1000) \<le> pow2 (- 20)" by (rule pow2_mono) simp
    also have "\<dots> \<le> 1 / 1000000" by (simp add: pow2_def)
    also have "\<dots> \<le> of_nat hz / 1000000" using hz(1) by simp
    finally show ?thesis .
  qed
  moreover have "of_nat hz / 1000000 \<le> pow2 1000"
  proof -
    have "of_nat hz / 1000000 \<le> (2 ^ 50 :: rat)" using hz by simp
    also have "\<dots> = pow2 50" by (simp add: pow2_def)
    also have "\<dots> \<le> pow2 1000" by (rule pow2_mono) simp
    finally show ?thesis .
  qed
  ultimately obtain q where "round_f64 (of_nat hz / 1000000) = F64 q"
    "\<bar>q - of_nat hz / 1000000\<bar> \<le> of_nat hz / 1000000 / 2 ^ 53"
    using round_f64_close by blast
  moreover have "f64_of_nat hz = F64 (of_nat hz)" using assms by (intro f64_of_nat_exact) simp
  ultimately show ?thesis by (auto simp: f64_over_def)
qed

lemma mhz_times:
  assumes "0 < hz" and "hz < 2 ^ 50" and "\<bar>q - of_nat hz / 1000000\<bar> \<le> of_nat hz / 1000000 / 2 ^ 53"
  shows "\<bar>q * 1000000 - of_nat hz\<bar> \<le> 1 / 8"
    "\<exists>v. round_f64 (q * 1000000) = F64 v \<and> \<bar>v - of_nat hz\<bar> < 1 / 2"
proof -
  define h :: rat where "h = of_nat hz"
  have hz: "h \<ge> 1" "h < 2 ^ 50"
    using assms(1,2) of_nat_less_iff [of hz "2 ^ 50", where 'a = rat] by (simp_all add: h_def del: of_nat_less_iff)
  have "\<bar>q * 1000000 - h\<bar> = \<bar>q - h / 1000000\<bar> * 1000000"
    by (simp add: abs_if field_simps)
  also have "\<dots> \<le> h / 2 ^ 53" using assms(3) by (simp add: h_def)
  finally have near: "\<bar>q * 1000000 - h\<bar> \<le> h / 2 ^ 53" .
  also have "\<dots> \<le> 1 / 8" using hz by simp
  finally show close: "\<bar>q * 1000000 - of_nat hz\<bar> \<le> 1 / 8" by (simp add: h_def)
  have q: "1 / 2 \<le> q * 1000000" "q * 1000000 \<le> 2 ^ 51"
  proof -
    have "(2 :: rat) ^ 50 + 1 \<le> 2 ^ 51" by simp
    then show "1 / 2 \<le> q * 1000000" "q * 1000000 \<le> 2 ^ 51" using close hz unfolding h_def by linarith+
  qed
  have "pow2 (- 1000) \<le> q * 1000000"
  proof -
    have "pow2 (- 1000) \<le> pow2 (- 1)" by (rule pow2_mono) simp
    then show ?thesis using q(1) by (simp add: pow2_def [of "- 1"])
  qed
  moreover have "q * 1000000 \<le> pow2 1000"
  proof -
    have "pow2 51 \<le> pow2 1000" by (rule pow2_mono) simp
    then show ?thesis using q(2) by (simp add: pow2_def [of 51])
  qed
  ultimately obtain v where v: "round_f64 (q * 1000000) = F64 v" "\<bar>v - q * 1000000\<bar> \<le> q * 1000000 / 2 ^ 53"
    using round_f64_close by blast
  have "q * 1000000 / 2 ^ 53 \<le> 1 / 4" using q(2) by simp
  with v(2) close have "\<bar>v - of_nat hz\<bar> < 1 / 2" by linarith
  with v(1) show "\<exists>v. round_f64 (q * 1000000) = F64 v \<and> \<bar>v - of_nat hz\<bar> < 1 / 2" by blast
qed

lemma f64_round_near:
  assumes "\<bar>v - of_nat n\<bar> < 1 / 2" and "0 < n" and "n < 2 ^ 64"
  shows "f64_round_as_u64 (F64 v) = of_nat n"
proof -
  have f: "\<lfloor>v + 1 / 2\<rfloor> = int n"
    unfolding floor_eq_iff of_int_of_nat_eq using assms(1) by linarith
  have "(of_nat n :: rat) \<ge> 1" using assms(2) by simp
  then have "\<not> v < 1 / 2" using assms(1) by linarith
  moreover have "\<not> int n \<ge> 2 ^ 64" using assms(3) by (metis linorder_not_le of_nat_le_iff of_nat_numeral of_nat_power)
  ultimately show ?thesis by (simp add: f64_round_as_u64_def f)
qed

section \<open>The text\<close>

lemma show_nat_width: "n < 10 ^ k \<Longrightarrow> k > 0 \<Longrightarrow> length (show_nat n) \<le> k"
proof (induction n arbitrary: k rule: show_nat.induct)
  case (1 n)
  show ?case
  proof (cases "n < 10")
    case True
    with "1.prems" show ?thesis by (subst show_nat.simps) simp
  next
    case False
    with "1.prems" obtain j where k: "k = Suc j" "j > 0" by (cases k; cases "k - 1") auto
    then have "n div 10 < 10 ^ j" using "1.prems" by auto
    with "1.IH" False k show ?thesis by (subst show_nat.simps) auto
  qed
qed

lemma zero_padded_facts:
  assumes "n < 10 ^ k" and "k > 0"
  shows "length (zero_padded k n) = k" "list_all is_ascii_digit (zero_padded k n)" "digits_value (zero_padded k n) = n"
proof -
  have "is_ascii_digit CHR ''0''" by code_simp
  with show_nat_width [OF assms] show_nat_digits [of n]
  show "length (zero_padded k n) = k" "list_all is_ascii_digit (zero_padded k n)"
    by (auto simp: zero_padded_def list_all_iff)
  show "digits_value (zero_padded k n) = n"
    by (simp add: zero_padded_def digits_value_zeros show_nat_value)
qed

lemma digits_value_join:
  "digits_value (s @ t) = digits_value s * 10 ^ length t + digits_value t"
proof (induction t rule: rev_induct)
  case (snoc c t)
  have "digits_value (s @ t @ [c]) = 10 * digits_value (s @ t) + digit_value c"
    using digits_value_append [of "s @ t" c] by simp
  with snoc show ?case by (simp add: digits_value_append algebra_simps)
qed (simp add: digits_value_def)

lemma takeWhile_digits:
  "list_all is_ascii_digit s \<Longrightarrow> \<not> is_ascii_digit c \<Longrightarrow>
    takeWhile is_ascii_digit (s @ c # t) = s \<and> dropWhile is_ascii_digit (s @ c # t) = c # t"
  by (induction s) auto

lemma decimal_text:
  "parse_decimal (show_nat (n div 1000000) @ ''.'' @ zero_padded 6 (n mod 1000000)) = Some (of_nat n / 1000000)"
proof -
  define z where "z = zero_padded 6 (n mod 1000000)"
  have "n mod 1000000 < 10 ^ 6" by simp
  note z = zero_padded_facts [OF this, of, simplified, folded z_def]
  have dot: "\<not> is_ascii_digit CHR ''.''" by code_simp
  note w = takeWhile_digits [OF show_nat_digits dot, of "n div 1000000" z]
  have t: "takeWhile is_ascii_digit z = z" "dropWhile is_ascii_digit z = []"
    using z(2) by (simp_all add: takeWhile_eq_all_conv dropWhile_eq_Nil_conv list_all_iff)
  have v: "digits_value (show_nat (n div 1000000) @ z) = n"
    by (simp add: digits_value_join show_nat_value z)
  have "parse_decimal (show_nat (n div 1000000) @ CHR ''.'' # z) = Some (of_nat n * pow10 (- 6))"
    by (simp add: parse_decimal_def parse_exponent_def w t v z(1))
  then show ?thesis by (simp add: pow10_def z_def)
qed

lemma digit_head: "list_all is_ascii_digit s \<Longrightarrow> s \<noteq> [] \<Longrightarrow> is_ascii_digit (hd s)"
  by (cases s) auto

lemma parse_f64_number:
  assumes "is_ascii_digit (hd s)" and "s \<noteq> []" and "parse_decimal s = Some x"
  shows "parse_f64 s = Some (round_f64 x)"
proof -
  obtain c cs where s: "s = c # cs" using assms(2) by (cases s) auto
  with assms(1) have c: "is_ascii_digit c" by simp
  then have low: "ascii_lower_char c = c"
    by (auto simp: is_ascii_digit_def ascii_lower_char_def Let_def)
  have ne: "c \<noteq> CHR ''-''" "c \<noteq> CHR ''+''" "c \<noteq> CHR ''i''" "c \<noteq> CHR ''n''"
    using c by (auto simp: is_ascii_digit_def Let_def)
  then show ?thesis using assms(3) low
    by (auto simp: parse_f64_def s to_ascii_lowercase_def)
qed

text \<open>The frequency of a contact survives export and import.\<close>

lemma frequency_text:
  assumes "0 < hz" and "hz < 2 ^ 50"
  shows "hz_to_mhz_text hz = show_nat (hz div 1000000) @ ''.'' @ zero_padded 6 (hz mod 1000000)"
    and "mhz_text_to_hz (hz_to_mhz_text hz) = Some (of_nat hz)"
proof -
  from mhz_rounded [OF assms] obtain q where q: "f64_over (f64_of_nat hz) 1000000 = F64 q"
    "round_f64 (of_nat hz / 1000000) = F64 q" "\<bar>q - of_nat hz / 1000000\<bar> \<le> of_nat hz / 1000000 / 2 ^ 53" by blast
  note near = mhz_times [OF assms q(3)]
  have "\<bar>q * 1000000 - of_int (int hz)\<bar> < 1 / 2" using near(1) unfolding of_int_of_nat_eq by linarith
  then have "round_half_even (q * 1000000) = int hz" by (rule round_half_even_close)
  then show t: "hz_to_mhz_text hz = show_nat (hz div 1000000) @ ''.'' @ zero_padded 6 (hz mod 1000000)"
    by (simp add: hz_to_mhz_text_def q(1) show_decimals_6_def Let_def)
  have "is_ascii_digit (hd (hz_to_mhz_text hz))" "hz_to_mhz_text hz \<noteq> []"
    using digit_head [OF show_nat_digits show_nat_nonempty, of "hz div 1000000"] unfolding t by simp_all
  from parse_f64_number [OF this, unfolded t, OF decimal_text] have "parse_f64 (hz_to_mhz_text hz) = Some (F64 q)"
    using q(2) by (simp add: t)
  moreover obtain v where v: "round_f64 (q * 1000000) = F64 v" "\<bar>v - of_nat hz\<bar> < 1 / 2" using near(2) by blast
  have "f64_round_as_u64 (F64 v) = of_nat hz" by (rule f64_round_near [OF v(2) assms(1)]) (use assms(2) in simp)
  with v(1) have "f64_round_as_u64 (f64_times (F64 q) 1000000) = of_nat hz" by (simp add: f64_times_def)
  ultimately show "mhz_text_to_hz (hz_to_mhz_text hz) = Some (of_nat hz)" by (simp add: mhz_text_to_hz_def)
qed

end
