(* ===== verification/Adif_Facts.thy ===== *)
theory Adif_Facts
  imports Adif Float_Facts Submissions
begin

text \<open>
  Facts about the ADIF exchange: how the parser reads one written field, what an export parses
  to, and what an import does to the log.
\<close>

section \<open>Reading what was written\<close>

lemma show_nat_no: "c \<in> set (show_nat n) \<Longrightarrow> is_ascii_digit c"
  using show_nat_digits [of n] by (auto simp: list_all_iff)

lemma split_at_first:
  assumes "c \<notin> set a"
  shows "split_at c (a @ c # b) = Some (a, b)"
proof -
  have "takeWhile (\<lambda>x. x \<noteq> c) (a @ c # b) = a" "dropWhile (\<lambda>x. x \<noteq> c) (a @ c # b) = c # b"
    using assms by (induction a) auto
  then show ?thesis by (simp add: split_at_def)
qed

lemma field_length_show:
  assumes "n < 2 ^ 64"
  shows "field_length (show_nat n) = n"
proof -
  have c: "CHR '':'' \<notin> set (show_nat n)" using show_nat_no by (force simp: is_ascii_digit_def)
  then have t: "takeWhile (\<lambda>x. x \<noteq> CHR '':'') (show_nat n) = show_nat n"
    by (auto simp: takeWhile_eq_all_conv)
  obtain d ds where s: "show_nat n = d # ds" using show_nat_nonempty by (meson neq_Nil_conv)
  then have "is_ascii_digit d" using show_nat_no [of d n] by simp
  then have "d \<noteq> CHR 0x2B" by (auto simp: is_ascii_digit_def)
  then have "parse_usize (show_nat n) = Some n"
    using show_nat_digits [of n] show_nat_value [of n] assms by (simp add: parse_usize_def s Let_def)
  then show ?thesis by (simp add: field_length_def t)
qed

text \<open>Names of fields: no byte that ends a tag, a name or a value.\<close>

definition name_ok :: "string \<Rightarrow> bool" where
  "name_ok n = (CHR '':'' \<notin> set n \<and> CHR ''>'' \<notin> set n)"

lemma lower_colon: "CHR '':'' \<in> set t \<Longrightarrow> CHR '':'' \<in> set (to_ascii_lowercase t)"
proof -
  assume "CHR '':'' \<in> set t"
  then have "ascii_lower_char CHR '':'' \<in> set (to_ascii_lowercase t)" by (simp add: to_ascii_lowercase_def)
  then show ?thesis by (simp add: ascii_lower_char_def)
qed

lemma parse_field:
  assumes "name_ok n" and "at_boundary v" and "at_boundary rest"
    and "index + length (adif_tag n v) < 2 ^ 64"
  shows "parse_adif_loop index (adif_tag n v @ rest) records current =
    parse_adif_loop (index + length (adif_tag n v)) rest records (hm_insert (to_ascii_uppercase n) v current)"
proof -
  define tag where "tag = n @ CHR '':'' # show_nat (length v)"
  have s: "adif_tag n v @ rest = CHR ''<'' # tag @ CHR ''>'' # v @ rest" by (simp add: adif_tag_def tag_def)
  have "CHR ''>'' \<notin> set tag"
    using assms(1) show_nat_no by (force simp: tag_def name_ok_def is_ascii_digit_def)
  then have a: "split_at (CHR ''>'') (tag @ CHR ''>'' # v @ rest) = Some (tag, v @ rest)"
    by (rule split_at_first)
  have b: "split_at (CHR '':'') tag = Some (n, show_nat (length v))"
    unfolding tag_def by (rule split_at_first) (use assms(1) in \<open>simp add: name_ok_def\<close>)
  have "CHR '':'' \<in> set (to_ascii_lowercase tag)" by (rule lower_colon) (simp add: tag_def)
  then have eo: "to_ascii_lowercase tag \<noteq> ''eoh''" "to_ascii_lowercase tag \<noteq> ''eor''" by auto
  have len: "length (adif_tag n v) = length tag + 2 + length v" by (simp add: adif_tag_def tag_def)
  have fl: "field_length (show_nat (length v)) = length v" by (rule field_length_show) (use assms(4) len in simp)
  have bd: "at_boundary (v @ rest)" using assms(2,3) by (cases v) (simp_all add: at_boundary_def)
  have ix: "\<not> index + length tag + 2 + length v \<ge> 2 ^ 64" using assms(4) len by simp
  show ?thesis unfolding s
    apply (subst parse_adif_loop.simps)
    using a b eo fl bd ix assms(3) len
    by (simp add: Let_def add.assoc)
qed

lemma parse_skip:
  assumes "CHR ''<'' \<notin> set t"
  shows "parse_adif_loop index (t @ rest) records current = parse_adif_loop (index + length t) rest records current"
  using assms
proof (induction t arbitrary: index)
  case (Cons c t)
  have "c \<noteq> CHR ''<''" using Cons.prems by auto
  then have "parse_adif_loop index ((c # t) @ rest) records current = parse_adif_loop (index + 1) (t @ rest) records current"
    by (simp add: parse_adif_loop.simps [of index "c # t @ rest"])
  with Cons.IH [of "index + 1"] Cons.prems show ?case by simp
qed simp

lemma parse_end_of_record:
  "parse_adif_loop index (''<EOR>'' @ rest) records current =
   parse_adif_loop (index + 5) rest (push_record current records) []"
proof -
  have low: "to_ascii_lowercase ''EOR'' = ''eor''" by code_simp
  have sp: "split_at (CHR ''>'') (''EOR>'' @ rest) = Some (''EOR'', rest)"
    using split_at_first [of "CHR ''>''" "''EOR''" rest] by simp
  show ?thesis
    by (subst parse_adif_loop.simps) (use sp low in \<open>simp add: Let_def eval_nat_numeral\<close>)
qed

lemma parse_end_of_header:
  "parse_adif_loop index (''<EOH>'' @ rest) records current = parse_adif_loop (index + 5) rest records current"
proof -
  have low: "to_ascii_lowercase ''EOH'' = ''eoh''" by code_simp
  have sp: "split_at (CHR ''>'') (''EOH>'' @ rest) = Some (''EOH'', rest)"
    using split_at_first [of "CHR ''>''" "''EOH''" rest] by simp
  show ?thesis
    by (subst parse_adif_loop.simps) (use sp low in \<open>simp add: Let_def eval_nat_numeral\<close>)
qed

lemma parse_end: "parse_adif_loop index [] records current = Inr (push_record current records)"
  by (subst parse_adif_loop.simps) simp

section \<open>The fields of an exported contact\<close>

definition non_empty_field :: "string \<Rightarrow> string option \<Rightarrow> (string \<times> string) list" where
  "non_empty_field name v = (case v of None \<Rightarrow> [] | Some v \<Rightarrow> if v = [] then [] else [(name, v)])"

definition payload_fields :: "json \<Rightarrow> (string \<times> string) list \<Rightarrow> (string \<times> string) list" where
  "payload_fields payload names = concat (map (\<lambda>(name, key). non_empty_field name (value_str payload key)) names)"

definition date_time_fields :: "libs \<Rightarrow> adif_libs \<Rightarrow> json \<Rightarrow> (string \<times> string) list" where
  "date_time_fields L A payload =
     (case payload_instant L payload ''started_at'' of
        None \<Rightarrow> []
      | Some t \<Rightarrow> [(''QSO_DATE'', al_date A t), (''TIME_ON'', al_time A t)] @
          (case payload_instant L payload ''ended_at'' of None \<Rightarrow> [] | Some u \<Rightarrow> [(''TIME_OFF'', al_time A u)]))"

definition frequency_fields :: "json \<Rightarrow> (string \<times> string) list" where
  "frequency_fields payload =
     (case Option.bind (value_get payload ''frequency_hz'') as_u64 of
        None \<Rightarrow> [] | Some hz \<Rightarrow> [(''FREQ'', hz_to_mhz_text (unat hz))])"

definition or_str_fields :: "string \<Rightarrow> string option \<Rightarrow> string option \<Rightarrow> (string \<times> string) list" where
  "or_str_fields name v fallback = non_empty_field name (if v = None then fallback else v)"

definition exported_fields :: "libs \<Rightarrow> adif_libs \<Rightarrow> activation_projection option \<Rightarrow> qso_record \<Rightarrow> (string \<times> string) list" where
  "exported_fields L A activations r =
     (let payload = qr_payload r; activation = export_activation L activations r in
      payload_fields payload [(''CALL'', ''contacted_callsign''),
        (''STATION_CALLSIGN'', ''station_callsign''), (''OPERATOR'', ''operator_callsign'')] @
      date_time_fields L A payload @ payload_fields payload [(''BAND'', ''band'')] @ frequency_fields payload @
      payload_fields payload [(''MODE'', ''mode''), (''SUBMODE'', ''submode''),
        (''RST_SENT'', ''rst_sent''), (''RST_RCVD'', ''rst_received''), (''GRIDSQUARE'', ''grid''),
        (''NAME'', ''name''), (''QTH'', ''qth''), (''COMMENT'', ''notes'')] @
      or_str_fields ''MY_SIG'' (value_str payload ''my_sig'')
        (Option.bind activation (\<lambda>a. map_option to_ascii_uppercase (value_str (ar_payload a) ''activation_type''))) @
      or_str_fields ''MY_SIG_INFO'' (value_str payload ''my_sig_info'') (Option.bind activation activation_reference) @
      payload_fields payload [(''SIG'', ''contacted_sig''), (''SIG_INFO'', ''contacted_sig_info'')])"

definition tags :: "(string \<times> string) list \<Rightarrow> string" where
  "tags fs = concat (map (\<lambda>(n, v). adif_tag n v) fs)"

lemma tags_append [simp]: "tags (xs @ ys) = tags xs @ tags ys"
  by (simp add: tags_def)

lemma tags_simps [simp]: "tags [] = []" "tags ((n, v) # fs) = adif_tag n v @ tags fs"
  by (simp_all add: tags_def)

lemma append_field_tags:
  "append_field name (value_get payload key) out = out @ tags (non_empty_field name (value_str payload key))"
  by (simp add: append_field_def non_empty_field_def value_str_def split: option.split)

lemma append_payload_fields_tags:
  "append_payload_fields payload names out = out @ tags (payload_fields payload names)"
  unfolding append_payload_fields_def
  by (induction names arbitrary: out)
    (simp_all add: payload_fields_def append_payload_field_def append_field_tags split: prod.split)

lemma append_field_or_str_tags:
  "append_field_or_str name (value_get payload key) fallback out =
     out @ tags (or_str_fields name (value_str payload key) fallback)"
  by (auto simp: append_field_or_str_def or_str_fields_def append_field_tags non_empty_field_def value_str_def
    split: option.split)

lemma append_frequency_tags:
  "append_frequency (value_get payload ''frequency_hz'') out = out @ tags (frequency_fields payload)"
  by (simp add: append_frequency_def frequency_fields_def split: option.split)

text \<open>The lengths of dates and times are written as constants; they are right in the years 0 to 9999.\<close>

definition dates_fit :: "libs \<Rightarrow> adif_libs \<Rightarrow> qso_record \<Rightarrow> bool" where
  "dates_fit L A r =
     (\<forall>k\<in>{''started_at'', ''ended_at''}. \<forall>t. payload_instant L (qr_payload r) k = Some t \<longrightarrow>
       length (al_date A t) = 8 \<and> list_all is_ascii_digit (al_date A t) \<and>
       length (al_time A t) = 6 \<and> list_all is_ascii_digit (al_time A t))"

lemma append_date_time_tags:
  assumes "dates_fit L A r"
  shows "append_date_time L A (qr_payload r) out = out @ tags (date_time_fields L A (qr_payload r))"
proof -
  have n: "show_nat 8 = ''8''" "show_nat 6 = ''6''" by code_simp+
  show ?thesis
    using assms
    by (auto simp: append_date_time_def date_time_fields_def dates_fit_def adif_tag_def n split: option.split)
qed

lemma append_record_tags:
  assumes "dates_fit L A r"
  shows "append_record L A activations r out = out @ tags (exported_fields L A activations r) @ ''<EOR>'' @ newline"
  by (simp add: append_record_def exported_fields_def Let_def append_payload_fields_tags append_field_or_str_tags
    append_frequency_tags append_date_time_tags [OF assms])

text \<open>Strings of the language are UTF-8: none begins inside a character.\<close>

definition fields_ok :: "(string \<times> string) list \<Rightarrow> bool" where
  "fields_ok fs = list_all (\<lambda>(n, v). name_ok n \<and> to_ascii_uppercase n = n \<and> at_boundary v) fs"

definition record_of :: "(string \<times> string) list \<Rightarrow> adif_record \<Rightarrow> adif_record" where
  "record_of fs m = fold (\<lambda>(n, v) m. hm_insert n v m) fs m"

lemma tags_boundary: "at_boundary rest \<Longrightarrow> at_boundary (tags fs @ rest)"
  by (cases fs) (auto simp: tags_def adif_tag_def at_boundary_def continuation_byte_def)

lemma parse_tags:
  assumes "fields_ok fs" and "at_boundary rest" and "index + length (tags fs) < 2 ^ 64"
  shows "parse_adif_loop index (tags fs @ rest) records current =
    parse_adif_loop (index + length (tags fs)) rest records (record_of fs current)"
  using assms
proof (induction fs arbitrary: index current)
  case (Cons f fs)
  obtain n v where f: "f = (n, v)" by (cases f)
  have ok: "name_ok n" "to_ascii_uppercase n = n" "at_boundary v" "fields_ok fs"
    using Cons.prems(1) by (simp_all add: fields_ok_def f)
  have len: "index + length (adif_tag n v) < 2 ^ 64" "index + length (adif_tag n v) + length (tags fs) < 2 ^ 64"
    using Cons.prems(3) by (simp_all add: f)
  have "parse_adif_loop index (tags (f # fs) @ rest) records current =
      parse_adif_loop (index + length (adif_tag n v)) (tags fs @ rest) records (hm_insert n v current)"
    using parse_field [OF ok(1,3) tags_boundary [OF Cons.prems(2)] len(1), of fs records current] ok(2) by (simp add: f)
  with Cons.IH [OF ok(4) Cons.prems(2) len(2)] show ?case by (simp add: f record_of_def add.assoc)
qed (simp add: record_of_def)

section \<open>What an export parses to\<close>

text \<open>The fields of the contacts that are exported, in order.\<close>

definition export_fields :: "libs \<Rightarrow> adif_libs \<Rightarrow> qso_projection \<Rightarrow> activation_projection option \<Rightarrow> bool \<Rightarrow> (string \<times> string) list list" where
  "export_fields L A p activations inc = map (exported_fields L A activations) (qso_list p inc)"

definition record_line :: "(string \<times> string) list \<Rightarrow> string" where
  "record_line fs = tags fs @ ''<EOR>'' @ newline"

lemma export_is_lines:
  assumes "list_all (dates_fit L A) (qso_list p inc)"
  shows "export_adif_with_activations L A p activations inc =
    adif_header @ concat (map record_line (export_fields L A p activations inc))"
proof -
  have "list_all (dates_fit L A) rs \<Longrightarrow> fold (append_record L A activations) rs out =
      out @ concat (map record_line (map (exported_fields L A activations) rs))" for rs out
    by (induction rs arbitrary: out) (simp_all add: append_record_tags record_line_def)
  then show ?thesis using assms by (simp add: export_adif_with_activations_def export_fields_def)
qed

definition records_after :: "adif_record list \<Rightarrow> adif_record \<Rightarrow> (string \<times> string) list list \<Rightarrow> adif_record list" where
  "records_after records current lines =
     (case lines of
        [] \<Rightarrow> push_record current records
      | fs # rest \<Rightarrow> fold push_record (record_of fs current # map (\<lambda>fs. record_of fs []) rest) records)"

lemma records_after_nil [simp]: "records_after records [] lines = fold push_record (map (\<lambda>fs. record_of fs []) lines) records"
  by (cases lines) (simp_all add: records_after_def push_record_def)

lemma newline_plain: "CHR ''<'' \<notin> set newline" "length newline = 1"
  by (simp_all add: newline_def)

lemma parse_lines:
  assumes "list_all fields_ok lines" and "index + length (concat (map record_line lines)) < 2 ^ 64"
  shows "parse_adif_loop index (concat (map record_line lines)) records current =
    Inr (records_after records current lines)"
  using assms
proof (induction lines arbitrary: index records current)
  case (Cons fs lines)
  let ?rest = "concat (map record_line lines)"
  have b: "at_boundary (''<EOR>'' @ newline @ ?rest)" by (simp add: at_boundary_def continuation_byte_def)
  have "parse_adif_loop index (tags fs @ ''<EOR>'' @ newline @ ?rest) records current =
      parse_adif_loop (index + length (tags fs) + 5) (newline @ ?rest) (push_record (record_of fs current) records) []"
    using parse_tags [OF _ b, of fs index records current] Cons.prems
    by (simp add: record_line_def parse_end_of_record del: append.simps)
  also have "\<dots> = parse_adif_loop (index + length (tags fs) + 5 + 1) ?rest (push_record (record_of fs current) records) []"
    using newline_plain by (simp add: parse_skip)
  also have "\<dots> = Inr (records_after (push_record (record_of fs current) records) [] lines)"
    by (rule Cons.IH) (use Cons.prems newline_plain in \<open>simp_all add: record_line_def\<close>)
  finally have "parse_adif_loop index (tags fs @ ''<EOR>'' @ newline @ ?rest) records current =
      Inr (records_after (push_record (record_of fs current) records) [] lines)" .
  moreover have "concat (map record_line (fs # lines)) = tags fs @ ''<EOR>'' @ newline @ ?rest"
    by (simp add: record_line_def)
  moreover have "records_after (push_record (record_of fs current) records) [] lines = records_after records current (fs # lines)"
    by (cases lines) (simp_all add: records_after_def push_record_def)
  ultimately show ?case by (simp only:)
qed (simp add: parse_end records_after_def)

definition version_record :: adif_record where
  "version_record = [(''ADIF_VER'', ''3.1.4'')]"

lemma parse_header:
  assumes "at_boundary rest"
  shows "parse_adif_loop 0 (adif_header @ rest) records [] = parse_adif_loop (length adif_header) rest records version_record"
proof -
  define g where "g = ''Generated by KE8YGW Logger 0.5.1'' @ newline"
  define v where "v = adif_tag ''ADIF_VER'' ''3.1.4''"
  have t: "''<ADIF_VER:5>3.1.4'' = v" unfolding v_def by code_simp
  have h: "adif_header = g @ v @ newline @ ''<EOH>'' @ newline"
    unfolding adif_header_def t g_def by simp
  have g: "CHR ''<'' \<notin> set g" by (simp add: newline_def g_def)
  have b: "at_boundary (newline @ ''<EOH>'' @ newline @ rest)"
    by (simp add: newline_def at_boundary_def continuation_byte_def)
  have f: "name_ok ''ADIF_VER''" "at_boundary ''3.1.4''"
    "hm_insert (to_ascii_uppercase ''ADIF_VER'') ''3.1.4'' [] = version_record"
    by code_simp+
  have l: "length v = 17" "length g = 33" unfolding v_def g_def by code_simp+
  have "parse_adif_loop 0 (g @ v @ newline @ ''<EOH>'' @ newline @ rest) records [] =
      parse_adif_loop 33 (v @ newline @ ''<EOH>'' @ newline @ rest) records []"
    by (subst parse_skip [OF g]) (simp add: l)
  also have "\<dots> = parse_adif_loop 50 (newline @ ''<EOH>'' @ newline @ rest) records version_record"
    using parse_field [OF f(1,2) b, of 33 records "[]"] unfolding v_def [symmetric] l f(3) by simp
  also have "\<dots> = parse_adif_loop 51 (''<EOH>'' @ newline @ rest) records version_record"
    by (subst parse_skip) (simp_all add: newline_plain del: append.simps)
  also have "\<dots> = parse_adif_loop 57 rest records version_record"
    unfolding parse_end_of_header by (subst parse_skip) (simp_all add: newline_plain)
  finally show ?thesis by (simp add: h l newline_plain)
qed

text \<open>The texts of the fields begin at a character, as every \<open>str\<close> does.\<close>

definition field_names :: "string list" where
  "field_names = [''CALL'', ''STATION_CALLSIGN'', ''OPERATOR'', ''QSO_DATE'', ''TIME_ON'', ''TIME_OFF'', ''BAND'', ''FREQ'',
     ''MODE'', ''SUBMODE'', ''RST_SENT'', ''RST_RCVD'', ''GRIDSQUARE'', ''NAME'', ''QTH'', ''COMMENT'', ''MY_SIG'',
     ''MY_SIG_INFO'', ''SIG'', ''SIG_INFO'']"

lemma field_names_ok: "list_all (\<lambda>n. name_ok n \<and> to_ascii_uppercase n = n) field_names"
  by code_simp

lemma non_empty_field_names: "fst ` set (non_empty_field n v) \<subseteq> {n}"
  by (auto simp: non_empty_field_def split: option.splits if_splits)

lemma payload_fields_names: "fst ` set (payload_fields payload names) \<subseteq> fst ` set names"
proof (induction names)
  case (Cons x names)
  obtain n k where x: "x = (n, k)" by (cases x)
  have "payload_fields payload (x # names) = non_empty_field n (value_str payload k) @ payload_fields payload names"
    by (simp add: payload_fields_def x)
  with Cons non_empty_field_names [of n "value_str payload k"] show ?case by (auto simp: x)
qed (simp add: payload_fields_def)

lemma exported_names: "fst ` set (exported_fields L A activations r) \<subseteq> set field_names"
proof -
  have "fst ` set (date_time_fields L A (qr_payload r)) \<subseteq> {''QSO_DATE'', ''TIME_ON'', ''TIME_OFF''}"
    by (auto simp: date_time_fields_def split: option.splits)
  moreover have "fst ` set (frequency_fields (qr_payload r)) \<subseteq> {''FREQ''}"
    by (auto simp: frequency_fields_def split: option.splits)
  moreover have "fst ` set (or_str_fields n v f) \<subseteq> {n}" for n v f
    by (simp add: or_str_fields_def non_empty_field_names)
  moreover have
    "fst ` set (payload_fields (qr_payload r) [(''CALL'', ''contacted_callsign''),
        (''STATION_CALLSIGN'', ''station_callsign''), (''OPERATOR'', ''operator_callsign'')]) \<subseteq> set field_names"
    "fst ` set (payload_fields (qr_payload r) [(''BAND'', ''band'')]) \<subseteq> set field_names"
    "fst ` set (payload_fields (qr_payload r) [(''MODE'', ''mode''), (''SUBMODE'', ''submode''),
        (''RST_SENT'', ''rst_sent''), (''RST_RCVD'', ''rst_received''), (''GRIDSQUARE'', ''grid''),
        (''NAME'', ''name''), (''QTH'', ''qth''), (''COMMENT'', ''notes'')]) \<subseteq> set field_names"
    "fst ` set (payload_fields (qr_payload r) [(''SIG'', ''contacted_sig''), (''SIG_INFO'', ''contacted_sig_info'')])
        \<subseteq> set field_names"
    by (rule order_trans [OF payload_fields_names], code_simp)+
  moreover have "{''QSO_DATE'', ''TIME_ON'', ''TIME_OFF''} \<subseteq> set field_names" "{''FREQ''} \<subseteq> set field_names"
    "{''MY_SIG''} \<subseteq> set field_names" "{''MY_SIG_INFO''} \<subseteq> set field_names"
    by code_simp+
  ultimately show ?thesis
    unfolding exported_fields_def Let_def set_append image_Un Un_subset_iff by (meson order_trans)
qed

lemma exported_fields_ok:
  "list_all (\<lambda>(n, v). at_boundary v) (exported_fields L A activations r) \<Longrightarrow> fields_ok (exported_fields L A activations r)"
  using exported_names [of L A activations r] field_names_ok by (force simp: fields_ok_def list_all_iff)

section \<open>A contact that comes back\<close>

definition has_text :: "string option \<Rightarrow> bool" where
  "has_text v = (v \<noteq> None \<and> v \<noteq> Some [])"

lemma record_of_append [simp]: "record_of (xs @ ys) m = record_of ys (record_of xs m)"
  by (simp add: record_of_def)

lemma record_of_simps [simp]: "record_of [] m = m" "record_of ((n, v) # fs) m = record_of fs (hm_insert n v m)"
  by (simp_all add: record_of_def)

lemma get_non_empty_field:
  "hm_get (record_of (non_empty_field n v) m) k = (if k = n \<and> has_text v then v else hm_get m k)"
  by (simp add: non_empty_field_def has_text_def hm_get_insert split: option.split)

lemma get_or_str_fields:
  "hm_get (record_of (or_str_fields n v f) m) k =
    (if k = n \<and> has_text (if v = None then f else v) then (if v = None then f else v) else hm_get m k)"
  by (simp add: or_str_fields_def get_non_empty_field)

lemma record_of_payload_fields:
  "record_of (payload_fields p []) m = m"
  "record_of (payload_fields p ((n, k) # ns)) m = record_of (payload_fields p ns) (record_of (non_empty_field n (value_str p k)) m)"
  by (simp_all add: payload_fields_def)

lemma get_date_time_fields:
  "hm_get (record_of (date_time_fields L A p) m) k =
    (case payload_instant L p ''started_at'' of
       None \<Rightarrow> hm_get m k
     | Some t \<Rightarrow>
         (case payload_instant L p ''ended_at'' of
            None \<Rightarrow> ((hm_get m)(''QSO_DATE'' \<mapsto> al_date A t, ''TIME_ON'' \<mapsto> al_time A t)) k
          | Some u \<Rightarrow> ((hm_get m)(''QSO_DATE'' \<mapsto> al_date A t, ''TIME_ON'' \<mapsto> al_time A t, ''TIME_OFF'' \<mapsto> al_time A u)) k))"
  by (auto simp: date_time_fields_def hm_get_insert split: option.split)

lemma get_frequency_fields:
  "hm_get (record_of (frequency_fields p) m) k =
    (case Option.bind (value_get p ''frequency_hz'') as_u64 of
       None \<Rightarrow> hm_get m k | Some hz \<Rightarrow> ((hm_get m)(''FREQ'' \<mapsto> hz_to_mhz_text (unat hz))) k)"
  by (auto simp: frequency_fields_def hm_get_insert split: option.split)

lemmas get_fields = get_non_empty_field get_or_str_fields record_of_payload_fields get_date_time_fields get_frequency_fields

text \<open>Nothing in the record so far but the header's version.\<close>

definition fresh_record :: "adif_record \<Rightarrow> bool" where
  "fresh_record m = list_all (\<lambda>n. hm_get m n = None) (''NOTES'' # field_names)"

definition kept_texts :: "(string \<times> string) list" where
  "kept_texts = [(''CALL'', ''contacted_callsign''), (''STATION_CALLSIGN'', ''station_callsign''),
     (''OPERATOR'', ''operator_callsign''), (''BAND'', ''band''), (''MODE'', ''mode''), (''SUBMODE'', ''submode''),
     (''RST_SENT'', ''rst_sent''), (''RST_RCVD'', ''rst_received''), (''GRIDSQUARE'', ''grid''), (''NAME'', ''name''),
     (''QTH'', ''qth''), (''COMMENT'', ''notes''), (''MY_SIG'', ''my_sig''), (''MY_SIG_INFO'', ''my_sig_info''),
     (''SIG'', ''contacted_sig''), (''SIG_INFO'', ''contacted_sig_info'')]"

lemma exported_texts:
  assumes "fresh_record m"
  shows "list_all (\<lambda>(n, k). \<forall>v. value_str (qr_payload r) k = Some v \<longrightarrow> v \<noteq> [] \<longrightarrow>
      hm_get (record_of (exported_fields L A activations r) m) n = Some v) kept_texts"
  using assms
  by (simp add: kept_texts_def exported_fields_def Let_def get_fields fresh_record_def field_names_def has_text_def
    split: option.split)

lemma exported_times:
  assumes "fresh_record m" and "payload_instant L (qr_payload r) ''started_at'' = Some t"
    and "e = record_of (exported_fields L A activations r) m"
  shows "hm_get e ''QSO_DATE'' = Some (al_date A t)" "hm_get e ''TIME_ON'' = Some (al_time A t)"
    "hm_get e ''TIME_OFF'' = map_option (al_time A) (payload_instant L (qr_payload r) ''ended_at'')"
    "hm_get e ''FREQ'' = map_option (\<lambda>hz. hz_to_mhz_text (unat hz)) (Option.bind (value_get (qr_payload r) ''frequency_hz'') as_u64)"
    "hm_get e ''NOTES'' = None"
    "hm_get e ''BAND'' = (if has_text (value_str (qr_payload r) ''band'') then value_str (qr_payload r) ''band'' else None)"
  using assms(1,2) unfolding assms(3)
  by (simp_all add: exported_fields_def Let_def get_fields fresh_record_def field_names_def split: option.split)

text \<open>The members of the payload that an import builds.\<close>

definition copied_text :: "adif_record \<Rightarrow> string \<Rightarrow> json option \<Rightarrow> json option" where
  "copied_text r field old = (case hm_get r field of None \<Rightarrow> old | Some v \<Rightarrow> if trim v = [] then old else Some (JString v))"

lemma get_adif_copy:
  "map_get (adif_copy r (f, k) m) k' = (if k' = k then copied_text r f (map_get m k) else map_get m k')"
  by (simp add: adif_copy_def copied_text_def set_member_def bt_get_insert split: option.split)

lemma get_not_copied:
  "k \<notin> snd ` set fs \<Longrightarrow> map_get (fold (adif_copy r) fs m) k = map_get m k"
  by (induction fs arbitrary: m) (auto simp: get_adif_copy)

lemma get_copied:
  assumes "(f, k) \<in> set fs" and "distinct (map snd fs)" and "hm_get r f = Some v" and "trim v \<noteq> []"
  shows "map_get (fold (adif_copy r) fs m) k = Some (JString v)"
  using assms
proof (induction fs arbitrary: m)
  case (Cons x fs)
  show ?case
  proof (cases "x = (f, k)")
    case True
    then have "k \<notin> snd ` set fs" using Cons.prems(2) by simp
    with True Cons.prems show ?thesis by (simp add: get_not_copied get_adif_copy copied_text_def)
  next
    case False
    with Cons show ?thesis by simp
  qed
qed simp

lemma copies_without_notes:
  assumes "hm_get r ''NOTES'' = None"
  shows "fold (adif_copy r) copied_fields m = fold (adif_copy r) (filter (\<lambda>x. fst x \<noteq> ''NOTES'') copied_fields) m"
  using assms by (simp add: copied_fields_def adif_copy_def)

lemma copied_keys:
  "distinct (map snd (filter (\<lambda>x. fst x \<noteq> ''NOTES'') copied_fields))"
  "list_all (\<lambda>x. snd x \<noteq> ''ended_at'' \<and> snd x \<noteq> ''frequency_hz'') copied_fields"
  by code_simp+

lemma imported_payload:
  assumes "adif_required r ''CALL'' = Inr c" and "adif_required r ''MODE'' = Inr md"
    and "adif_datetime A r ''QSO_DATE'' ''TIME_ON'' = Inr st"
    and "hm_get r ''TIME_OFF'' \<noteq> None \<Longrightarrow> adif_datetime A r ''QSO_DATE'' ''TIME_OFF'' \<noteq> Inl Panicked"
  obtains p where "adif_record_to_qso_payload A r options = Inr (JObject p)"
    and "map_get p ''contacted_callsign'' = Some (JString (to_ascii_uppercase c))"
    and "map_get p ''mode'' = Some (JString (to_ascii_uppercase md))"
    and "map_get p ''started_at'' = Some (JString (al_rfc3339 A st))"
    and "map_get p ''station_callsign'' = Some (JString (first_some (hm_get r ''STATION_CALLSIGN'') (ao_station_callsign options)))"
    and "\<And>v. hm_get r ''OPERATOR'' = Some v \<Longrightarrow> map_get p ''operator_callsign'' = Some (JString v)"
    and "\<And>f k v. (f, k) \<in> set copied_fields \<Longrightarrow> hm_get r ''NOTES'' = None \<Longrightarrow> hm_get r f = Some v \<Longrightarrow> trim v \<noteq> [] \<Longrightarrow>
      map_get p k = Some (JString v)"
    and "map_get p ''ended_at'' = (case hm_get r ''TIME_OFF'' of None \<Rightarrow> None
      | Some _ \<Rightarrow> (case adif_datetime A r ''QSO_DATE'' ''TIME_OFF'' of Inl _ \<Rightarrow> None | Inr en \<Rightarrow> Some (JString (al_rfc3339 A en))))"
    and "map_get p ''frequency_hz'' = map_option (\<lambda>hz. JNumber (PosInt hz)) (Option.bind (hm_get r ''FREQ'') mhz_text_to_hz)"
    and "map_get p ''band'' = copied_text r ''BAND'' None"
proof -
  define p0 where "p0 = fold (\<lambda>(k, v) m. set_member k v m)
       [(''station_callsign'', JString (first_some (hm_get r ''STATION_CALLSIGN'') (ao_station_callsign options))),
        (''operator_callsign'', JString (case hm_get r ''OPERATOR'' of Some o' \<Rightarrow> o'
           | None \<Rightarrow> first_some (ao_operator_callsign options) (ao_station_callsign options))),
        (''contacted_callsign'', JString (to_ascii_uppercase c)),
        (''started_at'', JString (al_rfc3339 A st)),
        (''mode'', JString (to_ascii_uppercase md)),
        (''source'', JString ''imported/adif''),
        (''import_metadata'', JObject [(''raw_adif'', raw_adif r)])] []"
  define p1 where "p1 = fold (adif_copy r) copied_fields p0"
  define p2 where "p2 = (case hm_get r ''TIME_OFF'' of None \<Rightarrow> p1
      | Some _ \<Rightarrow> (case adif_datetime A r ''QSO_DATE'' ''TIME_OFF'' of Inl _ \<Rightarrow> p1
         | Inr en \<Rightarrow> set_member ''ended_at'' (JString (al_rfc3339 A en)) p1))"
  define p3 where "p3 = (case Option.bind (hm_get r ''FREQ'') mhz_text_to_hz of None \<Rightarrow> p2
      | Some hz \<Rightarrow> set_member ''frequency_hz'' (JNumber (PosInt hz)) p2)"
  have run: "adif_record_to_qso_payload A r options = Inr (JObject p3)"
    using assms by (cases "hm_get r ''TIME_OFF''"; cases "adif_datetime A r ''QSO_DATE'' ''TIME_OFF''")
      (auto simp: adif_record_to_qso_payload_def Let_def p0_def p1_def p2_def p3_def
        split: fault.splits option.splits)
  have g0: "map_get p0 k = map_of (rev
       [(''station_callsign'', JString (first_some (hm_get r ''STATION_CALLSIGN'') (ao_station_callsign options))),
        (''operator_callsign'', JString (case hm_get r ''OPERATOR'' of Some o' \<Rightarrow> o'
           | None \<Rightarrow> first_some (ao_operator_callsign options) (ao_station_callsign options))),
        (''contacted_callsign'', JString (to_ascii_uppercase c)),
        (''started_at'', JString (al_rfc3339 A st)),
        (''mode'', JString (to_ascii_uppercase md)),
        (''source'', JString ''imported/adif''),
        (''import_metadata'', JObject [(''raw_adif'', raw_adif r)])]) k" for k
    unfolding p0_def set_member_def bt.get_fold_put by simp
  have g1: "map_get p1 k = map_get p0 k" if "k \<notin> snd ` set copied_fields" for k
    using that by (simp add: p1_def get_not_copied)
  have c1: "map_get p1 k = Some (JString v)"
    if "(f, k) \<in> set copied_fields" "hm_get r ''NOTES'' = None" "hm_get r f = Some v" "trim v \<noteq> []" for f k v
    unfolding p1_def copies_without_notes [OF that(2)]
    by (rule get_copied [OF _ copied_keys(1) that(3,4)]) (use that(1-3) in auto)
  have b1: "map_get p1 ''band'' = copied_text r ''BAND'' None"
    by (simp add: p1_def copied_fields_def get_adif_copy g0)
  have g2: "map_get p2 k = map_get p1 k" if "k \<noteq> ''ended_at''" for k
    using that by (simp add: p2_def set_member_def bt_get_insert split: option.split sum.split)
  have g3: "map_get p3 k = map_get p2 k" if "k \<noteq> ''frequency_hz''" for k
    using that by (simp add: p3_def set_member_def bt_get_insert split: option.split)
  show thesis
  proof (rule that [OF run])
    show "map_get p3 k = Some (JString v)"
      if "(f, k) \<in> set copied_fields" "hm_get r ''NOTES'' = None" "hm_get r f = Some v" "trim v \<noteq> []" for f k v
    proof -
      have "k \<noteq> ''ended_at'' \<and> k \<noteq> ''frequency_hz''" using that(1) copied_keys(2) by (auto simp: list_all_iff)
      then show ?thesis using c1 [OF that] by (simp add: g2 g3)
    qed
    show "map_get p3 ''band'' = copied_text r ''BAND'' None" using b1 by (simp add: g2 g3)
  qed (simp_all add: g0 g1 g2 g3 copied_fields_def, simp_all add: p2_def p3_def set_member_def bt_get_insert g0 g1 copied_fields_def split: option.split sum.split)
qed

section \<open>Contacts that can be exchanged\<close>

text \<open>The format has no fractions of a second.\<close>

definition whole_second :: "datetime \<Rightarrow> datetime" where
  "whole_second t = t - t mod 1000000000"

text \<open>What the clock library does with an instant of the years 0 to 9999.\<close>

definition clock_keeps :: "libs \<Rightarrow> adif_libs \<Rightarrow> datetime \<Rightarrow> bool" where
  "clock_keeps L A t =
     (length (al_date A t) = 8 \<and> list_all is_ascii_digit (al_date A t) \<and>
      length (al_time A t) = 6 \<and> list_all is_ascii_digit (al_time A t) \<and>
      (case (al_parse_date A (al_date A t), al_parse_time A (al_time A t)) of
         (Some d, Some s) \<Rightarrow> d + s = whole_second t | _ \<Rightarrow> False) \<and>
      lib_parse_rfc3339 L (al_rfc3339 A (whole_second t)) = Some (whole_second t))"

definition exchangeable :: "libs \<Rightarrow> adif_libs \<Rightarrow> activation_projection option \<Rightarrow> qso_record \<Rightarrow> bool" where
  "exchangeable L A activations r =
     (let payload = qr_payload r in
      list_all (\<lambda>k. case value_str payload k of None \<Rightarrow> False | Some v \<Rightarrow> trim v \<noteq> []) [''contacted_callsign'', ''mode''] \<and>
      (case payload_instant L payload ''started_at'' of None \<Rightarrow> False | Some t \<Rightarrow> clock_keeps L A t) \<and>
      (case payload_instant L payload ''ended_at'' of None \<Rightarrow> True | Some t \<Rightarrow> clock_keeps L A t) \<and>
      (case Option.bind (value_get payload ''frequency_hz'') as_u64 of None \<Rightarrow> True | Some hz \<Rightarrow> 0 < unat hz \<and> unat hz < 2 ^ 50) \<and>
      list_all (\<lambda>(n, v). at_boundary v) (exported_fields L A activations r))"

lemma exchangeable_cases:
  assumes "exchangeable L A activations r"
  obtains c md t where "value_str (qr_payload r) ''contacted_callsign'' = Some c" "trim c \<noteq> []"
    "value_str (qr_payload r) ''mode'' = Some md" "trim md \<noteq> []"
    "payload_instant L (qr_payload r) ''started_at'' = Some t" "clock_keeps L A t"
    "\<And>u. payload_instant L (qr_payload r) ''ended_at'' = Some u \<Longrightarrow> clock_keeps L A u"
    "\<And>hz. Option.bind (value_get (qr_payload r) ''frequency_hz'') as_u64 = Some hz \<Longrightarrow> 0 < unat hz \<and> unat hz < 2 ^ 50"
    "list_all (\<lambda>(n, v). at_boundary v) (exported_fields L A activations r)"
  using assms by (auto simp: exchangeable_def Let_def split: option.splits)

lemma exchangeable_dates: "exchangeable L A activations r \<Longrightarrow> dates_fit L A r"
  by (erule exchangeable_cases) (auto simp: dates_fit_def clock_keeps_def)

lemma exchangeable_fields: "exchangeable L A activations r \<Longrightarrow> fields_ok (exported_fields L A activations r)"
  by (erule exchangeable_cases) (rule exported_fields_ok)

lemma trim_Nil [simp]: "trim [] = []"
proof -
  have "List.find (\<lambda>w. w \<noteq> [] \<and> prefix w []) ws = None" for ws :: "string list" by (simp add: find_None_iff)
  then have "trim_start_by ws [] = []" for ws by (simp add: trim_start_by.simps [of ws] strip_one_def)
  then show ?thesis by (simp add: trim_def trim_start_def trim_end_def)
qed

lemma digits_trim: "s \<noteq> [] \<Longrightarrow> list_all is_ascii_digit s \<Longrightarrow> trim s = s"
proof -
  assume a: "s \<noteq> []" "list_all is_ascii_digit s"
  then have "is_ascii_digit (hd s)" "is_ascii_digit (last s)" by (simp_all add: list_all_iff)
  with a(1) show ?thesis by (intro trim_plain) (auto simp: plain_def is_ascii_digit_def Let_def)
qed

lemma padded_digits:
  assumes "length s = 6" and "list_all is_ascii_digit s"
  shows "padded_time s = s"
proof -
  have "filter (\<lambda>c. \<not> continuation_byte c) s = s"
    using assms(2) by (auto simp: filter_id_conv list_all_iff is_ascii_digit_def continuation_byte_def Let_def)
  then show ?thesis using assms(1) by (simp add: padded_time_def char_count_def)
qed

lemma exported_date:
  assumes "clock_keeps L A t" "clock_keeps L A u" and "hm_get e ''QSO_DATE'' = Some (al_date A t)"
    and "hm_get e f = Some (al_time A u)"
  shows "\<exists>d s. al_parse_date A (al_date A t) = Some d \<and> al_parse_time A (al_time A u) = Some s \<and>
    adif_datetime A e ''QSO_DATE'' f = Inr (d + s)"
proof -
  from assms(1,2) obtain d s where p: "al_parse_date A (al_date A t) = Some d" "al_parse_time A (al_time A u) = Some s"
    by (auto simp: clock_keeps_def split: option.splits)
  have "al_date A t \<noteq> []" "trim (al_date A t) = al_date A t"
    using assms(1) by (auto simp: clock_keeps_def intro!: digits_trim)
  then have "adif_required e ''QSO_DATE'' = Inr (al_date A t)" using assms(3) by (simp add: adif_required_def)
  moreover have "padded_time (al_time A u) = al_time A u" "length (al_time A u) = 6"
    using assms(2) by (simp_all add: clock_keeps_def padded_digits)
  ultimately have "adif_datetime A e ''QSO_DATE'' f = Inr (d + s)"
    using assms(4) p by (simp add: adif_datetime_def Let_def ok_or_def at_boundary_def)
  with p show ?thesis by blast
qed

definition reads_back :: "libs \<Rightarrow> adif_libs \<Rightarrow> adif_import_options \<Rightarrow> qso_record \<Rightarrow> adif_record \<Rightarrow> bool" where
  "reads_back L A options r e =
     (case adif_record_to_qso_payload A e options of
        Inl _ \<Rightarrow> False
      | Inr p \<Rightarrow>
          list_all (\<lambda>(n, k). \<forall>v. value_str (qr_payload r) k = Some v \<longrightarrow> trim v \<noteq> [] \<longrightarrow>
            value_str p k = Some (if k = ''contacted_callsign'' \<or> k = ''mode'' then to_ascii_uppercase v else v)) kept_texts \<and>
          payload_instant L p ''started_at'' = map_option whole_second (payload_instant L (qr_payload r) ''started_at'') \<and>
          Option.bind (value_get p ''frequency_hz'') as_u64 = Option.bind (value_get (qr_payload r) ''frequency_hz'') as_u64 \<and>
          value_str p ''band'' \<in> {None, value_str (qr_payload r) ''band''})"

lemma kept_texts_copied:
  "list_all (\<lambda>(n, k). k = ''contacted_callsign'' \<or> k = ''mode'' \<or> k = ''station_callsign'' \<or> k = ''operator_callsign'' \<or>
    (n, k) \<in> set copied_fields) kept_texts"
  by code_simp

lemma exchangeable_reads_back:
  assumes x: "exchangeable L A activations r" and m: "fresh_record m"
  shows "reads_back L A options r (record_of (exported_fields L A activations r) m)"
proof -
  define e where "e = record_of (exported_fields L A activations r) m"
  from x obtain c md t where c: "value_str (qr_payload r) ''contacted_callsign'' = Some c" "trim c \<noteq> []"
    and md: "value_str (qr_payload r) ''mode'' = Some md" "trim md \<noteq> []"
    and t: "payload_instant L (qr_payload r) ''started_at'' = Some t" "clock_keeps L A t"
    and u: "\<And>u. payload_instant L (qr_payload r) ''ended_at'' = Some u \<Longrightarrow> clock_keeps L A u"
    and hz: "\<And>hz. Option.bind (value_get (qr_payload r) ''frequency_hz'') as_u64 = Some hz \<Longrightarrow> 0 < unat hz \<and> unat hz < 2 ^ 50"
    by (rule exchangeable_cases) blast
  note times = exported_times [OF m t(1) e_def]
  have texts: "hm_get e n = Some v" if "(n, k) \<in> set kept_texts" "value_str (qr_payload r) k = Some v" "v \<noteq> []" for n k v
    using exported_texts [OF m, of r L A activations] that unfolding e_def by (auto simp: list_all_iff)
  have in_kept: "(''CALL'', ''contacted_callsign'') \<in> set kept_texts" "(''MODE'', ''mode'') \<in> set kept_texts"
    "(''STATION_CALLSIGN'', ''station_callsign'') \<in> set kept_texts" "(''OPERATOR'', ''operator_callsign'') \<in> set kept_texts"
    by (simp_all add: kept_texts_def)
  have ne: "c \<noteq> []" "md \<noteq> []" using c(2) md(2) by auto
  have req: "adif_required e ''CALL'' = Inr c" "adif_required e ''MODE'' = Inr md"
    using texts [OF in_kept(1) c(1) ne(1)] texts [OF in_kept(2) md(1) ne(2)] c(2) md(2) by (simp_all add: adif_required_def)
  from exported_date [OF t(2) t(2) times(1,2)] t(2)
  have st: "adif_datetime A e ''QSO_DATE'' ''TIME_ON'' = Inr (whole_second t)" by (auto simp: clock_keeps_def)
  have off: "adif_datetime A e ''QSO_DATE'' ''TIME_OFF'' \<noteq> Inl Panicked" if "hm_get e ''TIME_OFF'' \<noteq> None"
  proof -
    from that times(3) obtain v where v: "payload_instant L (qr_payload r) ''ended_at'' = Some v" by auto
    with exported_date [OF t(2) u [OF v] times(1)] times(3) show ?thesis by fastforce
  qed
  obtain p where p: "adif_record_to_qso_payload A e options = Inr (JObject p)"
    "map_get p ''contacted_callsign'' = Some (JString (to_ascii_uppercase c))"
    "map_get p ''mode'' = Some (JString (to_ascii_uppercase md))"
    "map_get p ''started_at'' = Some (JString (al_rfc3339 A (whole_second t)))"
    "map_get p ''station_callsign'' = Some (JString (first_some (hm_get e ''STATION_CALLSIGN'') (ao_station_callsign options)))"
    "\<And>v. hm_get e ''OPERATOR'' = Some v \<Longrightarrow> map_get p ''operator_callsign'' = Some (JString v)"
    "\<And>f k v. (f, k) \<in> set copied_fields \<Longrightarrow> hm_get e ''NOTES'' = None \<Longrightarrow> hm_get e f = Some v \<Longrightarrow> trim v \<noteq> [] \<Longrightarrow>
      map_get p k = Some (JString v)"
    "map_get p ''frequency_hz'' = map_option (\<lambda>hz. JNumber (PosInt hz)) (Option.bind (hm_get e ''FREQ'') mhz_text_to_hz)"
    "map_get p ''band'' = copied_text e ''BAND'' None"
    by (rule imported_payload [OF req st off, of options], assumption) (rule that)
  have kept: "map_str p k = Some (if k = ''contacted_callsign'' \<or> k = ''mode'' then to_ascii_uppercase v else v)"
    if k: "(n, k) \<in> set kept_texts" "value_str (qr_payload r) k = Some v" "trim v \<noteq> []" for n k v
  proof -
    have v: "v \<noteq> []" using k(3) by auto
    have cases: "k = ''contacted_callsign'' \<or> k = ''mode'' \<or> k = ''station_callsign'' \<or> k = ''operator_callsign'' \<or>
        (n, k) \<in> set copied_fields"
      using bspec [OF kept_texts_copied [unfolded list_all_iff] k(1)] by (simp only: prod.case)
    show ?thesis
    proof (cases "k = ''contacted_callsign'' \<or> k = ''mode'' \<or> k = ''station_callsign'' \<or> k = ''operator_callsign''")
      case True
      then show ?thesis
      proof (elim disjE)
        assume k': "k = ''contacted_callsign''"
        with c(1) k(2) p(2) show ?thesis by (simp add: map_str_def)
      next
        assume k': "k = ''mode''"
        with md(1) k(2) p(3) show ?thesis by (simp add: map_str_def)
      next
        assume k': "k = ''station_callsign''"
        from texts [OF in_kept(3) k(2) [unfolded k'] v] p(5) show ?thesis by (simp add: k' map_str_def first_some_def)
      next
        assume k': "k = ''operator_callsign''"
        from p(6) [OF texts [OF in_kept(4) k(2) [unfolded k'] v]] show ?thesis by (simp add: k' map_str_def)
      qed
    next
      case False
      with cases p(7) [OF _ times(5) texts [OF k(1,2) v] k(3)] show ?thesis by (simp add: map_str_def)
    qed
  qed
  have "Option.bind (map_get p ''frequency_hz'') as_u64 = Option.bind (value_get (qr_payload r) ''frequency_hz'') as_u64"
  proof (cases "Option.bind (value_get (qr_payload r) ''frequency_hz'') as_u64")
    case (Some f)
    with frequency_text(2) [of "unat f"] hz [OF Some] p(8) times(4) show ?thesis by simp
  qed (use p(8) times(4) in simp)
  moreover have "value_str (JObject p) ''band'' \<in> {None, value_str (qr_payload r) ''band''}"
    using p(9) times(6) by (auto simp: value_str_JObject map_str_def copied_text_def split: option.splits if_splits)
  moreover have "payload_instant L (JObject p) ''started_at'' = Some (whole_second t)"
    using p(4) t(2) by (simp add: payload_instant_def value_str_JObject map_str_def clock_keeps_def)
  moreover have "list_all (\<lambda>(n, k). \<forall>v. value_str (qr_payload r) k = Some v \<longrightarrow> trim v \<noteq> [] \<longrightarrow>
      value_str (JObject p) k = Some (if k = ''contacted_callsign'' \<or> k = ''mode'' then to_ascii_uppercase v else v)) kept_texts"
    unfolding list_all_iff Ball_def split_paired_All prod.case value_str_JObject using kept by metis
  ultimately show ?thesis
    unfolding e_def [symmetric] by (simp only: reads_back_def p(1) sum.case t(1) option.map value_get_JObject simp_thms)
qed

section \<open>What an import does to the log\<close>

text \<open>The counts of a summary and the events an import added: every added event creates a contact
  in the logbook and bears the name of the importing plugin.\<close>

definition accounts_for :: "nat \<Rightarrow> nat \<Rightarrow> adif_summary \<Rightarrow> adif_summary \<Rightarrow> bool" where
  "accounts_for records added m m' =
     (ai_imported_count m' = ai_imported_count m + added \<and>
      ai_imported_count m' + ai_duplicate_count m' + ai_rejected_count m' =
        ai_imported_count m + ai_duplicate_count m + ai_rejected_count m + records \<and>
      ai_skipped_count m' + ai_duplicate_count m = ai_skipped_count m + ai_duplicate_count m' \<and>
      length (ai_errors m') + ai_rejected_count m = length (ai_errors m) + ai_rejected_count m')"

definition imported_event :: "uuid \<Rightarrow> adif_import_options \<Rightarrow> core_event \<Rightarrow> bool" where
  "imported_event lb options e =
     (ev_event_type e = OFFICIAL_LOG_QSO_CREATED \<and> ev_logbook_id e = lb \<and>
      ev_source_plugin_id e = Some (ao_source_plugin_id options))"

lemma new_proposal:
  assumes "proposal_new t lb None None dev plugin 1 payload w = (pr, w')"
  shows "pr_proposal_type pr = t" and "pr_logbook_id pr = lb" and "pr_source_plugin_id pr = plugin" and "world_later w w'"
  using assms by (auto simp: proposal_new_def new_v4_def utc_now_def world_later_def Let_def)

lemma new_proposal_event:
  assumes "proposal_new PROPOSAL_QSO_CREATE lb None None dev (ao_source_plugin_id options) 1 payload w = (pr, w')"
    and "event_of L pr e"
  shows "imported_event lb options e"
proof -
  note p = new_proposal [OF assms(1)]
  from assms(2) obtain v n v' where n: "to_official_event L pr v = (Inr n, v')"
    and e: "ev_event_type e = ne_event_type n" "ev_logbook_id e = pr_logbook_id pr"
      "ev_source_plugin_id e = Some (pr_source_plugin_id pr)" by (auto simp: event_of_def)
  have "map_of official_table PROPOSAL_QSO_CREATE = Some (OFFICIAL_LOG_QSO_CREATED, True)"
    by (simp add: official_table_defs)
  with n p(1) have "ne_event_type n = OFFICIAL_LOG_QSO_CREATED" by (elim to_official_event_Inr) simp
  with e p show ?thesis by (simp add: imported_event_def)
qed

text \<open>The log of one logbook with events added at its end.\<close>

definition log_with :: "uuid \<Rightarrow> core_event list \<Rightarrow> (uuid \<Rightarrow> core_event list) \<Rightarrow> uuid \<Rightarrow> core_event list" where
  "log_with lb added h = h(lb := h lb @ added)"

lemma log_with_simps [simp]: "log_with lb [] h = h" "log_with lb xs h lb = h lb @ xs"
  "log_with lb ys (log_with lb xs h) = log_with lb (xs @ ys) h"
  by (simp_all add: log_with_def fun_eq_iff)

lemma accounts_step:
  assumes "accounts_for n k m m'"
  shows "m = note_rejected err m0 \<Longrightarrow> accounts_for (Suc n) k m0 m'"
    and "m = m0\<lparr>ai_duplicate_count := ai_duplicate_count m0 + 1, ai_skipped_count := ai_skipped_count m0 + 1\<rparr> \<Longrightarrow>
      accounts_for (Suc n) k m0 m'"
    and "m = m0\<lparr>ai_imported_count := ai_imported_count m0 + 1\<rparr> \<Longrightarrow> accounts_for (Suc n) (Suc k) m0 m'"
  using assms by (auto simp: accounts_for_def note_rejected_def)

context event_store begin

lemma import_loop_later:
  "import_loop ops L A ctx lb options es p m s b w = (r, s', b', w') \<Longrightarrow> world_later w w'"
proof (induction es arbitrary: p m s b w)
  case (Cons e es)
  show ?case
  proof (cases "adif_record_to_qso_payload A e options")
    case (Inl err)
    with Cons show ?thesis by (cases err) auto
  next
    case (Inr payload)
    obtain pr w1 where pr: "proposal_new PROPOSAL_QSO_CREATE lb None None (ao_author_device_id options)
        (ao_source_plugin_id options) 1 payload w = (pr, w1)" by fastforce
    obtain r1 s1 b1 w2 where sub: "submit_proposal ops L ctx pr s b w1 = (r1, s1, b1, w2)" by (metis prod_cases4)
    note later = world_later_trans [OF new_proposal(4) [OF pr] submit_later [OF sub]]
    from Cons.prems Inr pr sub show ?thesis
      by (auto simp: later split: if_splits sum.splits fault.splits dest!: Cons.IH intro: world_later_trans [OF later])
  qed
qed simp

definition import_outcome :: "uuid \<Rightarrow> adif_import_options \<Rightarrow> nat \<Rightarrow> adif_summary \<Rightarrow> 's \<Rightarrow> unit fault + adif_summary \<Rightarrow> 's \<Rightarrow> bool" where
  "import_outcome lb options n m s r s' = (inv s' \<and>
     (\<exists>added. log s' = log_with lb added (log s) \<and> list_all (imported_event lb options) added \<and>
       (case r of Inl _ \<Rightarrow> True | Inr m' \<Rightarrow> accounts_for n (length added) m m')))"

lemma import_outcome_same: "inv s \<Longrightarrow> import_outcome lb options n m s (Inl err) s"
  by (auto simp: import_outcome_def intro: exI [of _ "[]"])

lemma import_loop_outcome:
  assumes "inv s" and "import_loop ops L A ctx lb options es p m s b w = (r, s', b', w')"
    and "fresh_draws (dom (known s)) w w'"
  shows "import_outcome lb options (length es) m s r s'"
  using assms
proof (induction es arbitrary: p m s b w)
  case Nil
  then show ?case by (auto simp: import_outcome_def accounts_for_def intro!: exI [of _ "[]"])
next
  case (Cons e es)
  have skip: "import_outcome lb options (length (e # es)) m s r s'"
    if "import_loop ops L A ctx lb options es p m1 s b1 w1 = (r, s', b', w')" "world_later w w1"
      "\<And>n k m'. accounts_for n k m1 m' \<Longrightarrow> accounts_for (Suc n) k m m'" for m1 b1 w1
  proof -
    have "import_outcome lb options (length es) m1 s r s'"
      by (rule Cons.IH [OF Cons.prems(1) that(1)], rule fresh_draws_mono, rule fresh_draws_later [OF Cons.prems(3) that(2)])
        (rule import_loop_later [OF that(1)], simp)
    with that(3) show ?thesis by (fastforce simp: import_outcome_def split: sum.splits)
  qed
  show ?case
  proof (cases "adif_record_to_qso_payload A e options")
    case (Inl err)
    show ?thesis
    proof (cases err)
      case (Fail x)
      with Cons.prems(2) Inl show ?thesis by (intro skip) (auto dest: accounts_step(1))
    next
      case Panicked
      with Cons.prems(1,2) Inl show ?thesis by (auto simp: import_outcome_same)
    qed
  next
    case payload: (Inr payload)
    show ?thesis
    proof (cases "ao_duplicate_policy options = SkipDuplicates \<and> is_duplicate L p payload (ao_duplicate_window_minutes options)")
      case True
      with Cons.prems(2) payload show ?thesis by (intro skip) (auto dest: accounts_step(2))
    next
      case False
      obtain pr w1 where pr: "proposal_new PROPOSAL_QSO_CREATE lb None None (ao_author_device_id options)
          (ao_source_plugin_id options) 1 payload w = (pr, w1)" by fastforce
      obtain r1 s1 b1 w2 where sub: "submit_proposal ops L ctx pr s b w1 = (r1, s1, b1, w2)" by (metis prod_cases4)
      have inner: "world_later w w1" "world_later w1 w2" by (rule new_proposal(4) [OF pr], rule submit_later [OF sub])
      have rest: "world_later w2 w'"
        using Cons.prems(2) payload False pr sub
        by (auto split: if_splits sum.splits fault.splits dest!: import_loop_later)
      note f1 = fresh_draws_later [OF Cons.prems(3) inner(1) world_later_trans [OF inner(2) rest]]
      have f: "fresh_draws (dom (known s)) w1 w2" "fresh_draws (dom (known s) \<union> set (draws w1 w2)) w2 w'"
        using f1 by (auto simp: fresh_draws_split [OF inner(2) rest])
      note out = submit_outcome [OF Cons.prems(1) sub f(1)]
      show ?thesis
      proof (cases r1)
        case (Inl err)
        show ?thesis
        proof (cases err)
          case (Fail x)
          from out Inl have "s1 = s" by simp
          with Cons.prems(2) payload False pr sub Inl Fail have
            "import_loop ops L A ctx lb options es p (note_rejected (proposal_error_message L x) m) s b1 w2 = (r, s', b', w')"
            by auto
          then show ?thesis by (rule skip) (auto intro: world_later_trans [OF inner] dest: accounts_step(1))
        next
          case Panicked
          with Cons.prems(1,2) payload False pr sub Inl out show ?thesis by (auto simp: import_outcome_same)
        qed
      next
        case (Inr new)
        with out have new: "event_of L pr new" "inv s1" "log s1 = (log s)(ev_logbook_id new := log s (ev_logbook_id new) @ [new])"
          by (auto simp: log_extends_def)
        from new_proposal_event [OF pr new(1)] have im: "imported_event lb options new" .
        then have l1: "log s1 = log_with lb [new] (log s)" using new(3) by (simp add: imported_event_def log_with_def)
        show ?thesis
        proof (cases "rebuilt_or_new ops s1 lb")
          case (Inl err)
          with Cons.prems(2) payload False pr sub Inr have "r = Inl err" "s' = s1" by auto
          with new(2) l1 im show ?thesis by (auto simp: import_outcome_def intro!: exI [of _ "[new]"])
        next
          case built: (Inr p')
          with Cons.prems(2) payload False pr sub Inr have loop:
            "import_loop ops L A ctx lb options es p' (m\<lparr>ai_imported_count := ai_imported_count m + 1\<rparr>) s1 b1 w2 = (r, s', b', w')"
            by auto
          have "fresh_draws (dom (known s1)) w2 w'"
            by (rule fresh_draws_mono [OF f(2) submit_known [OF Cons.prems(1) sub f(1)]])
          from Cons.IH [OF new(2) loop this] obtain added where
            added: "inv s'" "log s' = log_with lb added (log s1)" "list_all (imported_event lb options) added"
            "case r of Inl _ \<Rightarrow> True | Inr m' \<Rightarrow> accounts_for (length es) (length added) (m\<lparr>ai_imported_count := ai_imported_count m + 1\<rparr>) m'"
            unfolding import_outcome_def by blast
          then show ?thesis
            unfolding import_outcome_def l1
            by (intro conjI exI [of _ "new # added"]) (auto simp: im split: sum.splits dest: accounts_step(3))
        qed
      qed
    qed
  qed
qed

end

end
