(* ===== verification/Exchange_Claims.thy ===== *)
theory Exchange_Claims
  imports Adif_Facts Policy_Claims
begin

text \<open>
  Properties of the exchange with other loggers: what an export parses to, that importing one's
  own export changes nothing, and what an import does to the log.
\<close>

section \<open>Exports read back\<close>

lemma fresh_records [simp]: "fresh_record []" "fresh_record version_record"
  by code_simp+

lemma read_back_not_empty: "reads_back L A options r e \<Longrightarrow> e \<noteq> []"
  by (auto simp: reads_back_def adif_record_to_qso_payload_def adif_required_def split: sum.splits)

lemma push_all: "list_all (\<lambda>e. e \<noteq> []) es \<Longrightarrow> fold push_record es records = records @ es"
  by (induction es arbitrary: records) (simp_all add: push_record_def)

lemma header_boundary: "at_boundary (concat (map record_line lines))"
proof (cases lines)
  case (Cons fs rest)
  have "at_boundary (tags fs @ ''<EOR>'' @ newline @ concat (map record_line rest))"
    by (rule tags_boundary) (simp add: at_boundary_def continuation_byte_def)
  then show ?thesis by (simp add: Cons record_line_def)
qed (simp add: at_boundary_def)

lemma export_parses:
  assumes "list_all (exchangeable L A activations) (qso_list p inc)"
    and "length (export_adif_with_activations L A p activations inc) < 2 ^ 64"
  shows "parse_adif (export_adif_with_activations L A p activations inc) =
    Inr (records_after [] version_record (export_fields L A p activations inc))"
proof -
  let ?lines = "export_fields L A p activations inc"
  have "list_all (dates_fit L A) (qso_list p inc)"
    using assms(1) by (auto simp: list_all_iff intro: exchangeable_dates)
  then have x: "export_adif_with_activations L A p activations inc = adif_header @ concat (map record_line ?lines)"
    by (rule export_is_lines)
  have ok: "list_all fields_ok ?lines"
    using assms(1) by (auto simp: list_all_iff export_fields_def intro: exchangeable_fields)
  have "parse_adif_loop (length adif_header) (concat (map record_line ?lines)) [] version_record =
      Inr (records_after [] version_record ?lines)"
    by (rule parse_lines [OF ok]) (use assms(2) x in simp)
  then show ?thesis by (simp add: parse_adif_def x parse_header [OF header_boundary])
qed

lemma read_back_all:
  assumes "list_all (exchangeable L A activations) rs" and "rs \<noteq> []"
  shows "list_all2 (reads_back L A options) rs (records_after [] version_record (map (exported_fields L A activations) rs))"
proof -
  obtain r rs' where rs: "rs = r # rs'" using assms(2) by (meson neq_Nil_conv)
  define es where "es = record_of (exported_fields L A activations r) version_record #
      map (\<lambda>fs. record_of fs []) (map (exported_fields L A activations) rs')"
  have all: "list_all2 (reads_back L A options) rs es"
    using assms(1) by (auto simp: rs es_def list_all2_map2 list_all_iff list_all2_same intro: exchangeable_reads_back)
  then have "list_all (\<lambda>e. e \<noteq> []) es"
    unfolding list_all_length list_all2_conv_all_nth using read_back_not_empty by metis
  then have "records_after [] version_record (map (exported_fields L A activations) rs) = es"
    using push_all [of es "[]"] by (simp add: records_after_def rs es_def)
  with all show ?thesis by simp
qed

text \<open>
  C28. An exported log reads back: when the contacts shown by a projection have a call sign, a
  mode, times of the years 0 to 9999 and frequencies below 2^50 Hz, parsing the ADIF text
  of the export gives one record for each, in order, and the import builds from it a payload
  with the call sign and mode in upper case, every other exchanged text unchanged, the same
  start to the second and exactly the same frequency.
\<close>

theorem exported_log_reads_back:
  assumes "list_all (exchangeable L A activations) (qso_list p inc)" and "qso_list p inc \<noteq> []"
    and "length (export_adif_with_activations L A p activations inc) < 2 ^ 64"
  shows "\<exists>es. parse_adif (export_adif_with_activations L A p activations inc) = Inr es \<and>
    list_all2 (reads_back L A options) (qso_list p inc) es"
  using export_parses [OF assms(1,3)] read_back_all [OF assms(1,2)] by (auto simp: export_fields_def)

definition exchange_libs :: adif_libs where
  "exchange_libs = \<lparr>al_date = (\<lambda>_. ''20260705''), al_time = (\<lambda>t. if t < 1000000000 then ''000000'' else ''000001''),
     al_parse_date = (\<lambda>s. if s = ''20260705'' then Some 0 else None),
     al_parse_time = (\<lambda>s. if s = ''000000'' then Some 0 else None),
     al_rfc3339 = (\<lambda>t. unary (CHR ''t'') (nat t))\<rparr>"

definition exchanged_contact :: qso_record where
  "exchanged_contact = \<lparr>qr_qso_id = 100, qr_payload = JObject [(''band'', JString ''20m''),
     (''contacted_callsign'', JString ''n0call''), (''frequency_hz'', JNumber (PosInt 14074000)),
     (''mode'', JString ''SSB''), (''qso_id'', JString (unary (CHR ''u'') 100)), (''started_at'', JString ''12:00'')],
     qr_note_history = [], qr_deleted = False, qr_last_event_hash = ''hK8''\<rparr>"

definition exchanged_log :: qso_projection where
  "exchanged_log = \<lparr>qp_records = [(100, exchanged_contact)], qp_tombstones = {}\<rparr>"

lemma exchanged_list [simp]: "qso_list exchanged_log inc = [exchanged_contact]"
  by (simp add: qso_list_def exchanged_log_def hm_values_def exchanged_contact_def)

lemma exchanged_values [simp]:
  "value_str (qr_payload exchanged_contact) k =
    (if k = ''band'' then Some ''20m'' else if k = ''contacted_callsign'' then Some ''n0call''
     else if k = ''mode'' then Some ''SSB'' else if k = ''qso_id'' then Some (unary (CHR ''u'') 100)
     else if k = ''started_at'' then Some ''12:00'' else None)"
  "value_get (qr_payload exchanged_contact) ''frequency_hz'' = Some (JNumber (PosInt 14074000))"
  by (simp_all add: exchanged_contact_def value_str_JObject map_str_def)

lemma exchanged_instants [simp]:
  "payload_instant (sample_libs es) (qr_payload exchanged_contact) ''started_at'' = Some 5"
  "payload_instant (sample_libs es) (qr_payload exchanged_contact) ''ended_at'' = None"
  by (simp_all add: payload_instant_def sample_libs_def)

lemma exchanged_frequency: "hz_to_mhz_text 14074000 = ''14.074000''"
proof -
  have "hz_to_mhz_text 14074000 = show_nat (14074000 div 1000000) @ ''.'' @ zero_padded 6 (14074000 mod 1000000)"
    by (rule frequency_text) simp_all
  also have "\<dots> = ''14.074000''" by (simp add: zero_padded_def show_nat.simps char_of_def bit_0)
  finally show ?thesis .
qed

lemma exchanged_fields:
  "exported_fields (sample_libs es) exchange_libs None exchanged_contact =
    [(''CALL'', ''n0call''), (''QSO_DATE'', ''20260705''), (''TIME_ON'', ''000000''), (''BAND'', ''20m''),
     (''FREQ'', ''14.074000''), (''MODE'', ''SSB'')]"
  by (simp add: exported_fields_def payload_fields_def non_empty_field_def date_time_fields_def frequency_fields_def
    or_str_fields_def exchanged_frequency exchange_libs_def export_activation_def Let_def)

lemma exchanged_trims: "trim ''n0call'' = ''n0call''" "trim ''SSB'' = ''SSB''" "trim ''20m'' = ''20m''"
  by (rule trim_plain; simp add: plain_def)+

lemma exchanged_clock: "clock_keeps (sample_libs es) exchange_libs 5"
  by (simp add: clock_keeps_def exchange_libs_def whole_second_def sample_libs_def is_ascii_digit_def unary_def Let_def)

lemma exchanged_ok: "exchangeable (sample_libs es) exchange_libs None exchanged_contact"
  by (simp add: exchangeable_def Let_def exchanged_trims exchanged_clock exchanged_fields at_boundary_def continuation_byte_def)

lemma exchanged_length: "length (export_adif_with_activations (sample_libs es) exchange_libs exchanged_log None inc) < 2 ^ 64"
proof -
  have "length (adif_header @ record_line (exported_fields (sample_libs es) exchange_libs None exchanged_contact)) = 153"
    unfolding exchanged_fields by code_simp
  then show ?thesis
    using exchangeable_dates [OF exchanged_ok] by (subst export_is_lines) (simp_all add: export_fields_def)
qed

theorem exported_log_reads_back_witness:
  "\<exists>e. parse_adif (export_adif_with_activations (sample_libs []) exchange_libs exchanged_log None False) = Inr [e] \<and>
    reads_back (sample_libs []) exchange_libs (adif_mvp_default ''K8'' ''core.logger'' 5) exchanged_contact e"
  using exported_log_reads_back [of "sample_libs []" exchange_libs None exchanged_log False
      "adif_mvp_default ''K8'' ''core.logger'' 5"] exchanged_ok exchanged_length
  by (auto simp: list_all2_Cons1)

text \<open>What an export writes before its first record is read as part of it, and an empty export
  reads as a contact without a call sign.\<close>

theorem empty_export_reads_as_a_record:
  assumes "qso_list p inc = []"
  shows "parse_adif (export_adif_with_activations L A p activations inc) = Inr [[(''ADIF_VER'', ''3.1.4'')]] \<and>
    adif_record_to_qso_payload A [(''ADIF_VER'', ''3.1.4'')] options = Inl (Fail ''ADIF record missing required field CALL'')"
proof -
  have "length adif_header = 57" by code_simp
  then have "parse_adif (export_adif_with_activations L A p activations inc) = Inr (records_after [] version_record [])"
    using assms export_parses [of L A activations p inc]
    by (simp add: export_fields_def export_adif_with_activations_def del: records_after_nil)
  then show ?thesis
    by (simp add: records_after_def push_record_def version_record_def adif_record_to_qso_payload_def adif_required_def)
qed

section \<open>Importing one's own export\<close>

lemma lower_upper_char: "ascii_lower_char (ascii_upper_char c) = ascii_lower_char c"
proof (cases "97 \<le> (of_char c :: nat) \<and> (of_char c :: nat) \<le> 122")
  case True
  then have "(of_char c - 32 :: nat) < 256" by auto
  with True show ?thesis by (auto simp: ascii_upper_char_def ascii_lower_char_def Let_def)
next
  case False
  then show ?thesis by (auto simp: ascii_upper_char_def Let_def)
qed

lemma eq_ignore_upper [simp]: "eq_ignore_ascii_case s (to_ascii_uppercase s)"
  by (simp add: eq_ignore_ascii_case_def to_ascii_lowercase_def to_ascii_uppercase_def lower_upper_char)

lemma same_second: "minutes_apart t (whole_second t) = 0"
  by (simp add: minutes_apart_def whole_second_def)

text \<open>The record an exported contact is read as is a duplicate of the contact.\<close>

lemma read_back_is_duplicate:
  assumes "exchangeable L A activations r" and "reads_back L A options r e"
    and p: "adif_record_to_qso_payload A e options = Inr p"
    and "r \<in> set (qso_list proj False)" and "0 \<le> window"
  shows "is_duplicate L proj p window"
proof -
  from assms(1) obtain c md t where c: "value_str (qr_payload r) ''contacted_callsign'' = Some c" "trim c \<noteq> []"
    and md: "value_str (qr_payload r) ''mode'' = Some md" "trim md \<noteq> []"
    and t: "payload_instant L (qr_payload r) ''started_at'' = Some t"
    by (rule exchangeable_cases) blast
  have kept: "list_all (\<lambda>(n, k). \<forall>v. value_str (qr_payload r) k = Some v \<longrightarrow> trim v \<noteq> [] \<longrightarrow>
      value_str p k = Some (if k = ''contacted_callsign'' \<or> k = ''mode'' then to_ascii_uppercase v else v)) kept_texts"
    and t': "payload_instant L p ''started_at'' = Some (whole_second t)"
    and band: "value_str p ''band'' \<in> {None, value_str (qr_payload r) ''band''}"
    using assms(2) t by (simp_all only: reads_back_def p sum.case option.map)
  have "value_str p ''contacted_callsign'' = Some (to_ascii_uppercase c)" "value_str p ''mode'' = Some (to_ascii_uppercase md)"
    using kept c md by (simp_all add: kept_texts_def)
  then have "same_contact L p (whole_second t) window (qr_payload r)"
    using c(1) md(1) t band assms(5)
    by (auto simp: same_contact_def field_equals_def str_or_def same_second split: option.split)
  then show ?thesis using t' assms(4) by (auto simp: is_duplicate_def list_ex_iff)
qed

lemma import_all_duplicates:
  assumes "ao_duplicate_policy options = SkipDuplicates"
    and "list_all (\<lambda>e. case adif_record_to_qso_payload A e options of Inl _ \<Rightarrow> False
      | Inr payload \<Rightarrow> is_duplicate L p payload (ao_duplicate_window_minutes options)) es"
  shows "import_loop ops L A ctx lb options es p m s b w =
    (Inr (m\<lparr>ai_duplicate_count := ai_duplicate_count m + length es, ai_skipped_count := ai_skipped_count m + length es\<rparr>), s, b, w)"
  using assms(2)
  by (induction es arbitrary: m) (auto simp: assms(1) split: sum.splits)

text \<open>
  C29. Importing one's own export adds nothing: when duplicates are to be skipped and the window
  is not negative, importing what was exported from a log whose contacts can be exchanged
  finds every record to be a duplicate, and the store, the event bus and the world are left
  as they were.
\<close>

theorem reimport_adds_nothing:
  assumes "op_rebuild_projections ops s lb = Inr p"
    and "list_all (exchangeable L A None) (qso_list p False)" and "qso_list p False \<noteq> []"
    and "length (export_adif L A p False) < 2 ^ 64"
    and "ao_duplicate_policy options = SkipDuplicates" and "0 \<le> ao_duplicate_window_minutes options"
  shows "import_adif ops L A ctx lb (export_adif L A p False) options s b w =
    (Inr (adif_summary_default\<lparr>ai_duplicate_count := length (qso_list p False),
       ai_skipped_count := length (qso_list p False)\<rparr>), s, b, w)"
proof -
  define es where "es = records_after [] version_record (map (exported_fields L A None) (qso_list p False))"
  have parsed: "parse_adif (export_adif L A p False) = Inr es"
    using export_parses [OF assms(2)] assms(4) by (simp add: es_def export_fields_def export_adif_def)
  have read: "list_all2 (reads_back L A options) (qso_list p False) es"
    unfolding es_def by (rule read_back_all [OF assms(2,3)])
  have "case adif_record_to_qso_payload A e options of Inl _ \<Rightarrow> False
      | Inr payload \<Rightarrow> is_duplicate L p payload (ao_duplicate_window_minutes options)" if e: "e \<in> set es" for e
  proof -
    from e read obtain r where r: "r \<in> set (qso_list p False)" "reads_back L A options r e"
      by (metis in_set_conv_nth list_all2_conv_all_nth)
    then obtain payload where pl: "adif_record_to_qso_payload A e options = Inr payload"
      by (auto simp: reads_back_def split: sum.splits)
    have "exchangeable L A None r" using assms(2) r(1) by (simp add: list_all_iff)
    from read_back_is_duplicate [OF this r(2) pl r(1) assms(6)] show ?thesis by (simp add: pl)
  qed
  then have dups: "list_all (\<lambda>e. case adif_record_to_qso_payload A e options of Inl _ \<Rightarrow> False
      | Inr payload \<Rightarrow> is_duplicate L p payload (ao_duplicate_window_minutes options)) es" by (simp add: list_all_iff)
  show ?thesis
    using import_all_duplicates [OF assms(5) dups, of ops ctx lb adif_summary_default s b w] list_all2_lengthD [OF read]
    by (simp add: import_adif_def parsed rebuilt_or_new_def assms(1) adif_summary_default_def)
qed

definition exchange_store :: mem_store where
  "exchange_store = mem_insert (sample_event 1 OFFICIAL_LOG_QSO_CREATED None 100 (qr_payload exchanged_contact)) mem_empty"

lemma exchange_rebuild: "op_rebuild_projections (mem_ops (sample_libs [])) exchange_store 7 = Inr exchanged_log"
proof -
  have "mem_log exchange_store 7 = [sample_event 1 OFFICIAL_LOG_QSO_CREATED None 100 (qr_payload exchanged_contact)]"
    by (simp add: exchange_store_def mem_insert_log [of "sample_libs []"])
  then show ?thesis
    by (simp add: mem_ops_def mem_rebuild_log rebuild_def qso_clear_def qso_projection_new_def qso_apply_def
      exchanged_log_def exchanged_contact_def json_uuid_def unary_def OFFICIAL_LOG_QSO_CREATED_def)
qed

theorem reimport_adds_nothing_witness:
  "import_adif (mem_ops (sample_libs [])) (sample_libs []) exchange_libs sample_context 7
     (export_adif (sample_libs []) exchange_libs exchanged_log False) (adif_mvp_default ''K8'' ''core.logger'' 5)
     exchange_store (the (bus_new 1)) sample_world =
   (Inr (adif_summary_default\<lparr>ai_duplicate_count := 1, ai_skipped_count := 1\<rparr>), exchange_store, the (bus_new 1), sample_world)"
  using reimport_adds_nothing [of "mem_ops (sample_libs [])" exchange_store 7 exchanged_log "sample_libs []" exchange_libs
      "adif_mvp_default ''K8'' ''core.logger'' 5" sample_context "the (bus_new 1)" sample_world]
    exchange_rebuild exchanged_ok exchanged_length
  by (simp add: export_adif_def adif_mvp_default_def)

text \<open>The date of the end is not exchanged: a contact that ends after midnight UTC comes back with
  an end before its start, and the proposal for it is refused.\<close>

theorem overnight_contact_is_refused:
  assumes "exchangeable L A activations r" and "fresh_record m"
    and "payload_instant L (qr_payload r) ''started_at'' = Some t" and "payload_instant L (qr_payload r) ''ended_at'' = Some u"
    and "al_parse_date A (al_date A t) = Some d" and "al_parse_time A (al_time A u) = Some h"
    and "d + h \<le> whole_second t" and "lib_parse_rfc3339 L (al_rfc3339 A (d + h)) = Some (d + h)"
  shows "\<exists>p. adif_record_to_qso_payload A (record_of (exported_fields L A activations r) m) options = Inr (JObject p) \<and>
    validate_ended_after_started L p = invalid ''ended_at must be after started_at''"
proof -
  define e where "e = record_of (exported_fields L A activations r) m"
  note times = exported_times [OF assms(2,3) e_def]
  from exchangeable_reads_back [OF assms(1,2), of options] obtain p0 where
    rb: "adif_record_to_qso_payload A e options = Inr p0" "payload_instant L p0 ''started_at'' = Some (whole_second t)"
    unfolding e_def [symmetric] by (auto simp: reads_back_def assms(3) split: sum.splits)
  have clocks: "clock_keeps L A t" "clock_keeps L A u"
    using exchangeable_cases [OF assms(1)] assms(3,4) by (metis option.inject)+
  have off: "adif_datetime A e ''QSO_DATE'' ''TIME_OFF'' = Inr (d + h)"
    using exported_date [OF clocks times(1)] times(3) assms(4-6) by fastforce
  have ok: "is_ok (adif_required e ''CALL'') \<and> is_ok (adif_required e ''MODE'') \<and> is_ok (adif_datetime A e ''QSO_DATE'' ''TIME_ON'')"
    using rb(1) by (auto simp: adif_record_to_qso_payload_def split: sum.splits)
  then obtain c md st where req: "adif_required e ''CALL'' = Inr c" "adif_required e ''MODE'' = Inr md"
    "adif_datetime A e ''QSO_DATE'' ''TIME_ON'' = Inr st" by (auto simp: is_ok_iff)
  obtain p where p: "adif_record_to_qso_payload A e options = Inr (JObject p)"
    "map_get p ''ended_at'' = Some (JString (al_rfc3339 A (d + h)))"
    by (rule imported_payload [OF req, of options]) (use off times(3) assms(4) that in \<open>simp_all\<close>)
  have "timestamp_field L p ''ended_at'' = Some (d + h)" using p(2) assms(8) by (simp add: timestamp_field_def map_str_def)
  moreover have "timestamp_field L p ''started_at'' = Some (whole_second t)"
    using rb p(1) value_str_JObject [of p "''started_at''"] by (simp add: payload_instant_def timestamp_field_def)
  ultimately show ?thesis using p(1) assms(7) by (simp add: validate_ended_after_started_def e_def)
qed

section \<open>What an import does\<close>

text \<open>
  An import accounts for every record and only adds contacts: whatever the text, after an
  import into the JSON-lines store every log but the chosen one is unchanged and the chosen
  one is what it was followed by events that each create a contact on behalf of the importing
  plugin; the number of these is the imported count, imported, duplicate and rejected
  counts add up to the number of records, and each rejected record has one error.
\<close>

theorem import_accounts_for_records:
  assumes "jsonl_ok L s" and "import_adif (jsonl_ops L) L A ctx lb text options s b w = (r, s', b', w')"
    and "fresh_draws (dom (mem_known (js_memory s))) w w'"
  shows "jsonl_ok L s' \<and>
    (\<exists>added. mem_log (js_memory s') = (mem_log (js_memory s))(lb := mem_log (js_memory s) lb @ added) \<and>
      list_all (imported_event lb options) added \<and>
      (\<forall>m. r = Inr m \<longrightarrow> (\<exists>records. parse_adif text = Inr records \<and> ai_imported_count m = length added \<and>
        ai_imported_count m + ai_duplicate_count m + ai_rejected_count m = length records \<and>
        ai_skipped_count m = ai_duplicate_count m \<and> length (ai_errors m) = ai_rejected_count m)))"
proof -
  have same: ?thesis if "s' = s" "\<not> is_ok r"
    using that assms(1) by (intro conjI exI [of _ "[]"]) (auto simp: is_ok_iff)
  show ?thesis
  proof (cases "parse_adif text")
    case (Inl err)
    with assms(2) show ?thesis by (intro same) (auto simp: import_adif_def)
  next
    case records: (Inr records)
    show ?thesis
    proof (cases "rebuilt_or_new (jsonl_ops L) s lb")
      case (Inl err)
      with assms(2) records show ?thesis by (intro same) (auto simp: import_adif_def)
    next
      case (Inr p)
      with assms(2) records have
        "import_loop (jsonl_ops L) L A ctx lb options records p adif_summary_default s b w = (r, s', b', w')"
        by (simp add: import_adif_def)
      from jsonl.import_loop_outcome [OF assms(1) this assms(3), unfolded jsonl.import_outcome_def]
      obtain added where out: "jsonl_ok L s'"
        "mem_log (js_memory s') = log_with lb added (mem_log (js_memory s))" "list_all (imported_event lb options) added"
        "case r of Inl _ \<Rightarrow> True | Inr m' \<Rightarrow> accounts_for (length records) (length added) adif_summary_default m'" by blast
      show ?thesis
        by (intro conjI exI [of _ added])
          (use out records in \<open>auto simp: log_with_def accounts_for_def adif_summary_default_def\<close>)
    qed
  qed
qed

lemma import_draws:
  "import_loop (jsonl_ops L) L A ctx lb options es p m s b w = (r, s', b', w') \<Longrightarrow> uuid_pos w' \<le> uuid_pos w + 15 * length es"
proof (induction es arbitrary: p m s b w)
  case (Cons e es)
  show ?case
  proof (cases "adif_record_to_qso_payload A e options")
    case (Inl err)
    with Cons.prems show ?thesis by (cases err) (auto dest!: Cons.IH)
  next
    case (Inr payload)
    obtain pr w1 where pr: "proposal_new PROPOSAL_QSO_CREATE lb None None (ao_author_device_id options)
        (ao_source_plugin_id options) 1 payload w = (pr, w1)" by fastforce
    obtain r1 s1 b1 w2 where sub: "submit_proposal (jsonl_ops L) L ctx pr s b w1 = (r1, s1, b1, w2)" by (metis prod_cases4)
    have "uuid_pos w1 = uuid_pos w + 1" using pr by (auto simp: proposal_new_def new_v4_def utc_now_def)
    with Cons.prems Inr pr submit_draws [OF sub] show ?thesis
      by (auto simp: sub split: if_splits sum.splits fault.splits dest!: Cons.IH)
  qed
qed simp

definition import_text :: string where
  "import_text = tags [(''CALL'', ''n0call''), (''MODE'', ''SSB''), (''QSO_DATE'', ''20260705''), (''TIME_ON'', ''000000'')] @ ''<EOR>''"

lemma import_text_parses: "parse_adif import_text =
  Inr [[(''CALL'', ''n0call''), (''MODE'', ''SSB''), (''QSO_DATE'', ''20260705''), (''TIME_ON'', ''000000'')]]"
proof -
  let ?fs = "[(''CALL'', ''n0call''), (''MODE'', ''SSB''), (''QSO_DATE'', ''20260705''), (''TIME_ON'', ''000000'')]"
  have "length (tags ?fs) = 62" "fields_ok ?fs" "at_boundary ''<EOR>''" by code_simp+
  then have "parse_adif_loop 0 (tags ?fs @ ''<EOR>'') [] [] = parse_adif_loop (0 + length (tags ?fs)) ''<EOR>'' [] (record_of ?fs [])"
    by (intro parse_tags) simp_all
  also have "\<dots> = Inr [record_of ?fs []]"
    using parse_end_of_record [of "0 + length (tags ?fs)" "[]" "[]" "record_of ?fs []"] by (simp add: parse_end push_record_def)
  finally show ?thesis by (simp add: parse_adif_def import_text_def)
qed

theorem import_accounts_for_records_witness:
  "\<exists>r s' b' w'. import_adif (jsonl_ops (sample_libs [])) (sample_libs []) exchange_libs sample_context 7 import_text
     (adif_mvp_default ''K8'' ''core.logger'' 5) sample_disk (the (bus_new 1)) sample_world = (r, s', b', w') \<and>
   jsonl_ok (sample_libs []) s' \<and>
   (\<exists>added. mem_log (js_memory s') = (mem_log (js_memory sample_disk))(7 := added) \<and>
      (\<forall>m. r = Inr m \<longrightarrow> ai_imported_count m = length added \<and> ai_imported_count m + ai_duplicate_count m + ai_rejected_count m = 1))"
proof -
  obtain r s' b' w' where run: "import_adif (jsonl_ops (sample_libs [])) (sample_libs []) exchange_libs sample_context 7 import_text
      (adif_mvp_default ''K8'' ''core.logger'' 5) sample_disk (the (bus_new 1)) sample_world = (r, s', b', w')" by (metis prod_cases4)
  have built: "rebuilt_or_new (jsonl_ops (sample_libs [])) sample_disk 7 = Inr qso_projection_new"
    by (simp add: rebuilt_or_new_def jsonl_ops_def sample_disk_def mem_rebuild_log rebuild_def qso_clear_def qso_projection_new_def)
  from run have loop: "import_loop (jsonl_ops (sample_libs [])) (sample_libs []) exchange_libs sample_context 7
      (adif_mvp_default ''K8'' ''core.logger'' 5)
      [[(''CALL'', ''n0call''), (''MODE'', ''SSB''), (''QSO_DATE'', ''20260705''), (''TIME_ON'', ''000000'')]]
      qso_projection_new adif_summary_default sample_disk (the (bus_new 1)) sample_world = (r, s', b', w')"
    by (simp add: import_adif_def import_text_parses built)
  have "uuid_pos w' \<le> 1000" using import_draws [OF loop] by (simp add: sample_world_def)
  moreover have "world_later sample_world w'" by (rule jsonl.import_loop_later [OF loop])
  ultimately have "fresh_draws (dom (mem_known (js_memory sample_disk))) sample_world w'"
    by (simp add: draws_sample sample_disk_def dom_def)
  note claim = import_accounts_for_records [OF sample_disk_ok run this]
  have "mem_log (js_memory sample_disk) 7 = []" by (simp add: sample_disk_def)
  with claim show ?thesis
    by (intro exI [of _ r] exI [of _ s'] exI [of _ b'] exI [of _ w'] conjI run) (auto simp: import_text_parses)
qed

end
