(* ===== verification/Upload.thy ===== *)
theory Upload
  imports Offline_Queue Adif
begin

text \<open>
  The upload queue (\<open>ham-core/src/upload.rs\<close>): jobs that send contacts to online logbooks, the
  lease a worker takes on one, retries and outcomes, the key that makes an upload idempotent,
  and what is sent and recorded.
\<close>

datatype upload_error =
    UqTargetNotFound string
  | UqMissingProviderConfig string "string list"
  | UqJobNotFound uuid
  | UqQueueFull
  | UqAlreadyClaimed uuid
  | UqClaimTokenMismatch uuid
  | UqStore store_error

datatype upload_status = UploadQueued | UploadRunning | UploadCompleted | UploadFailed

datatype upload_queue_state =
  QsPending | QsRunning | QsRetryScheduled | QsNeedsUserAction | QsSucceeded | QsCancelled | QsDeadLetter | QsUncertain

definition is_claimable :: "upload_queue_state \<Rightarrow> bool" where
  "is_claimable s = (s \<in> {QsPending, QsRetryScheduled, QsUncertain})"

record upload_target =
  ut_target_id :: string
  ut_display_name :: string
  ut_provider_id :: string
  ut_enabled :: bool
  ut_required_config_keys :: "string list"

record upload_job_item =
  ui_qso_id :: uuid
  ui_status :: upload_status
  ui_error :: "string option"

record upload_job =
  uj_upload_job_id :: uuid
  uj_target_id :: string
  uj_provider_id :: string
  uj_account_scope :: "string option"
  uj_logbook_id :: uuid
  uj_operation_type :: string
  uj_idempotency_key :: string
  uj_qso_ids :: "uuid list"
  uj_items :: "upload_job_item list"
  uj_status :: upload_status
  uj_queue_state :: upload_queue_state
  uj_attempt_count :: "32 word"
  uj_created_at :: datetime
  uj_updated_at :: datetime
  uj_last_attempt_at :: "datetime option"
  uj_next_attempt_at :: "datetime option"
  uj_last_error :: "string option"
  uj_safe_failure_code :: "string option"
  uj_credential_reference :: "uuid option"
  uj_provider_side_identifier :: "string option"
  uj_uncertain_outcome :: bool
  uj_claim_token :: "uuid option"
  uj_lease_expires_at :: "datetime option"

record upload_result =
  ur_upload_job_id :: uuid
  ur_target_id :: string
  ur_status :: upload_status
  ur_accepted_count :: nat
  ur_failed_count :: nat
  ur_message :: "string option"

record upload_queue =
  uq_targets :: "upload_target list"
  uq_jobs :: "upload_job list"
  uq_queue_limit :: nat

definition default_queue_limit :: nat where
  "default_queue_limit = 1000"

definition upload_queue_new :: "upload_target list \<Rightarrow> upload_queue" where
  "upload_queue_new targets = \<lparr>uq_targets = targets, uq_jobs = [], uq_queue_limit = default_queue_limit\<rparr>"

section \<open>Creating jobs\<close>

fun joined :: "string \<Rightarrow> string list \<Rightarrow> string" where
  "joined sep [] = []"
| "joined sep [s] = s"
| "joined sep (s # ss) = s @ sep @ joined sep ss"

definition upload_idempotency_key :: "libs \<Rightarrow> string \<Rightarrow> uuid \<Rightarrow> uuid list \<Rightarrow> string" where
  "upload_idempotency_key L provider_id logbook_id qso_ids =
     ''upload.adif:'' @ provider_id @ '':'' @ lib_show_uuid L logbook_id @ '':'' @
       joined '','' (map (lib_show_uuid L) (sort qso_ids))"

definition has_target :: "string \<Rightarrow> upload_target \<Rightarrow> bool" where
  "has_target i t = (ut_target_id t = i)"

definition queued_item :: "uuid \<Rightarrow> upload_job_item" where
  "queued_item q = \<lparr>ui_qso_id = q, ui_status = UploadQueued, ui_error = None\<rparr>"

definition new_upload_job :: "libs \<Rightarrow> uuid \<Rightarrow> string \<Rightarrow> string \<Rightarrow> uuid \<Rightarrow> uuid list \<Rightarrow> datetime \<Rightarrow> upload_job" where
  "new_upload_job L i target_id provider_id logbook_id qso_ids now =
     \<lparr>uj_upload_job_id = i, uj_target_id = target_id, uj_provider_id = provider_id, uj_account_scope = None,
      uj_logbook_id = logbook_id, uj_operation_type = ''upload.adif'',
      uj_idempotency_key = upload_idempotency_key L provider_id logbook_id qso_ids, uj_qso_ids = qso_ids,
      uj_items = map queued_item qso_ids, uj_status = UploadQueued, uj_queue_state = QsPending,
      uj_attempt_count = 0, uj_created_at = now, uj_updated_at = now, uj_last_attempt_at = None,
      uj_next_attempt_at = None, uj_last_error = None, uj_safe_failure_code = None,
      uj_credential_reference = None, uj_provider_side_identifier = None, uj_uncertain_outcome = False,
      uj_claim_token = None, uj_lease_expires_at = None\<rparr>"

definition create_job :: "libs \<Rightarrow> string \<Rightarrow> uuid \<Rightarrow> uuid list \<Rightarrow> upload_queue \<Rightarrow> world \<Rightarrow>
    (upload_error + upload_job) \<times> upload_queue \<times> world" where
  "create_job L target_id logbook_id qso_ids q w =
     (case List.find (has_target target_id) (uq_targets q) of
        None \<Rightarrow> (Inl (UqTargetNotFound target_id), q, w)
      | Some t \<Rightarrow>
          if length (uq_jobs q) \<ge> uq_queue_limit q then (Inl UqQueueFull, q, w)
          else
            let (now, w) = utc_now w; (i, w) = new_v4 w;
                job = new_upload_job L i target_id (ut_provider_id t) logbook_id qso_ids now in
            (Inr job, q\<lparr>uq_jobs := uq_jobs q @ [job]\<rparr>, w))"

definition find_duplicate :: "string \<Rightarrow> upload_queue \<Rightarrow> upload_job option" where
  "find_duplicate key q = List.find (\<lambda>j. uj_idempotency_key j = key) (uq_jobs q)"

section \<open>Claims\<close>

definition not_after :: "datetime \<Rightarrow> datetime option \<Rightarrow> bool" where
  "not_after now t = (case t of None \<Rightarrow> True | Some t \<Rightarrow> t \<le> now)"

definition may_claim :: "datetime \<Rightarrow> upload_job \<Rightarrow> bool" where
  "may_claim now j = (is_claimable (uj_queue_state j) \<and> not_after now (uj_next_attempt_at j) \<and>
     not_after now (uj_lease_expires_at j))"

text \<open>The claim without its lease, which is set last: \<open>lease_seconds as i64\<close> wraps, and the sum
  may be out of the clock library's range. The attempt count wraps.\<close>

definition claimed_job :: "uuid \<Rightarrow> datetime \<Rightarrow> upload_job \<Rightarrow> upload_job" where
  "claimed_job token now j = j\<lparr>uj_status := UploadRunning, uj_queue_state := QsRunning,
     uj_attempt_count := uj_attempt_count j + 1, uj_last_attempt_at := Some now, uj_updated_at := now,
     uj_claim_token := Some token\<rparr>"

definition claim_next :: "chrono \<Rightarrow> datetime \<Rightarrow> 64 word \<Rightarrow> upload_queue \<Rightarrow> world \<Rightarrow>
    (unit fault + (uuid \<times> uuid) option) \<times> upload_queue \<times> world" where
  "claim_next C now lease_seconds q w =
     (case List.find (may_claim now) (uq_jobs q) of
        None \<Rightarrow> (Inr None, q, w)
      | Some j \<Rightarrow>
          let (token, w) = new_v4 w; j = claimed_job token now j in
          (case add_delay C now (ch_seconds C (sint lease_seconds)) of
             Inl err \<Rightarrow> (Inl err, q\<lparr>uq_jobs := modify_first (may_claim now) (\<lambda>_. j) (uq_jobs q)\<rparr>, w)
           | Inr expires \<Rightarrow>
               (Inr (Some (uj_upload_job_id j, token)),
                q\<lparr>uq_jobs := modify_first (may_claim now) (\<lambda>_. j\<lparr>uj_lease_expires_at := Some expires\<rparr>) (uq_jobs q)\<rparr>, w)))"

definition lease_expired :: "datetime \<Rightarrow> upload_job \<Rightarrow> bool" where
  "lease_expired now j = (uj_queue_state j = QsRunning \<and>
     (case uj_lease_expires_at j of None \<Rightarrow> False | Some expires \<Rightarrow> expires \<le> now))"

definition recovered_job :: "datetime \<Rightarrow> upload_job \<Rightarrow> upload_job" where
  "recovered_job now j = j\<lparr>uj_status := UploadFailed, uj_queue_state := QsUncertain, uj_uncertain_outcome := True,
     uj_safe_failure_code := Some ''worker_lease_expired'',
     uj_last_error := Some ''worker lease expired before completion'',
     uj_claim_token := None, uj_lease_expires_at := None, uj_updated_at := now\<rparr>"

definition recover_expired_leases :: "datetime \<Rightarrow> upload_queue \<Rightarrow> nat \<times> upload_queue" where
  "recover_expired_leases now q =
     (length (filter (lease_expired now) (uq_jobs q)),
      q\<lparr>uq_jobs := map (\<lambda>j. if lease_expired now j then recovered_job now j else j) (uq_jobs q)\<rparr>)"

definition has_job :: "uuid \<Rightarrow> upload_job \<Rightarrow> bool" where
  "has_job i j = (uj_upload_job_id j = i)"

definition job_for_claim :: "uuid \<Rightarrow> uuid \<Rightarrow> upload_queue \<Rightarrow> upload_error + upload_job" where
  "job_for_claim i claim_token q =
     (case List.find (has_job i) (uq_jobs q) of
        None \<Rightarrow> Inl (UqJobNotFound i)
      | Some j \<Rightarrow>
          (case uj_claim_token j of
             Some token \<Rightarrow> if token = claim_token then Inr j else Inl (UqClaimTokenMismatch i)
           | None \<Rightarrow> Inl (UqAlreadyClaimed i)))"

definition put_job :: "uuid \<Rightarrow> upload_job \<Rightarrow> upload_queue \<Rightarrow> upload_queue" where
  "put_job i j q = q\<lparr>uq_jobs := modify_first (has_job i) (\<lambda>_. j) (uq_jobs q)\<rparr>"

definition schedule_retry :: "uuid \<Rightarrow> uuid \<Rightarrow> datetime \<Rightarrow> string \<Rightarrow> string \<Rightarrow> upload_queue \<Rightarrow> world \<Rightarrow>
    (upload_error + unit) \<times> upload_queue \<times> world" where
  "schedule_retry i claim_token next_attempt_at code err q w =
     (case job_for_claim i claim_token q of
        Inl e \<Rightarrow> (Inl e, q, w)
      | Inr j \<Rightarrow>
          let (now, w) = utc_now w in
          (Inr (), put_job i (j\<lparr>uj_status := UploadFailed, uj_queue_state := QsRetryScheduled,
             uj_next_attempt_at := Some next_attempt_at, uj_safe_failure_code := Some code,
             uj_last_error := Some err, uj_claim_token := None, uj_lease_expires_at := None,
             uj_updated_at := now\<rparr>) q, w))"

definition mark_uncertain :: "uuid \<Rightarrow> uuid \<Rightarrow> string \<Rightarrow> upload_queue \<Rightarrow> world \<Rightarrow>
    (upload_error + unit) \<times> upload_queue \<times> world" where
  "mark_uncertain i claim_token code q w =
     (case job_for_claim i claim_token q of
        Inl e \<Rightarrow> (Inl e, q, w)
      | Inr j \<Rightarrow>
          let (now, w) = utc_now w in
          (Inr (), put_job i (j\<lparr>uj_status := UploadFailed, uj_queue_state := QsUncertain,
             uj_uncertain_outcome := True, uj_safe_failure_code := Some code, uj_claim_token := None,
             uj_lease_expires_at := None, uj_updated_at := now\<rparr>) q, w))"

definition completed_job :: "datetime \<Rightarrow> upload_job \<Rightarrow> upload_job" where
  "completed_job now j = j\<lparr>uj_status := UploadCompleted, uj_queue_state := QsSucceeded, uj_updated_at := now,
     uj_claim_token := None, uj_lease_expires_at := None, uj_next_attempt_at := None,
     uj_uncertain_outcome := False,
     uj_items := map (\<lambda>it. it\<lparr>ui_status := UploadCompleted\<rparr>) (uj_items j)\<rparr>"

definition mark_completed :: "uuid \<Rightarrow> string option \<Rightarrow> upload_queue \<Rightarrow> world \<Rightarrow>
    (upload_error + upload_result) \<times> upload_queue \<times> world" where
  "mark_completed i message q w =
     (case List.find (has_job i) (uq_jobs q) of
        None \<Rightarrow> (Inl (UqJobNotFound i), q, w)
      | Some j \<Rightarrow>
          let (now, w) = utc_now w; j = completed_job now j in
          (Inr \<lparr>ur_upload_job_id = uj_upload_job_id j, ur_target_id = uj_target_id j, ur_status = uj_status j,
             ur_accepted_count = length (uj_items j), ur_failed_count = 0, ur_message = message\<rparr>,
           put_job i j q, w))"

definition failed_job :: "string \<Rightarrow> datetime \<Rightarrow> upload_job \<Rightarrow> upload_job" where
  "failed_job err now j = j\<lparr>uj_status := UploadFailed, uj_queue_state := QsDeadLetter, uj_updated_at := now,
     uj_last_error := Some err, uj_safe_failure_code := Some ''upload_failed'',
     uj_claim_token := None, uj_lease_expires_at := None,
     uj_items := map (\<lambda>it. it\<lparr>ui_status := UploadFailed, ui_error := Some err\<rparr>) (uj_items j)\<rparr>"

definition mark_upload_failed :: "uuid \<Rightarrow> string \<Rightarrow> upload_queue \<Rightarrow> world \<Rightarrow>
    (upload_error + upload_result) \<times> upload_queue \<times> world" where
  "mark_upload_failed i err q w =
     (case List.find (has_job i) (uq_jobs q) of
        None \<Rightarrow> (Inl (UqJobNotFound i), q, w)
      | Some j \<Rightarrow>
          let (now, w) = utc_now w; j = failed_job err now j in
          (Inr \<lparr>ur_upload_job_id = uj_upload_job_id j, ur_target_id = uj_target_id j, ur_status = uj_status j,
             ur_accepted_count = 0, ur_failed_count = length (uj_items j), ur_message = Some err\<rparr>,
           put_job i j q, w))"

section \<open>What is sent and recorded\<close>

definition select_qsos_for_upload :: "qso_projection \<Rightarrow> uuid list option \<Rightarrow> qso_record list" where
  "select_qsos_for_upload p qso_ids =
     (case qso_ids of
        None \<Rightarrow> qso_list p False
      | Some ids \<Rightarrow> filter (\<lambda>r. qr_qso_id r \<in> set ids) (qso_list p False))"

definition adif_for_upload_job :: "libs \<Rightarrow> adif_libs \<Rightarrow> qso_projection \<Rightarrow> uuid list \<Rightarrow> string" where
  "adif_for_upload_job L A p qso_ids =
     export_adif L A (fold upsert_record (select_qsos_for_upload p (Some qso_ids)) qso_projection_new) False"

record log_upload_request =
  lu_job_id :: uuid
  lu_logbook_id :: uuid
  lu_provider_id :: "string option"
  lu_adif_payload :: string
  lu_incremental :: bool

definition build_log_upload_request :: "libs \<Rightarrow> adif_libs \<Rightarrow> string \<Rightarrow> uuid \<Rightarrow> qso_projection \<Rightarrow> uuid list \<Rightarrow>
    world \<Rightarrow> log_upload_request \<times> world" where
  "build_log_upload_request L A provider_id logbook_id p qso_ids w =
     (let (i, w) = new_v4 w in
      (\<lparr>lu_job_id = i, lu_logbook_id = logbook_id, lu_provider_id = Some provider_id,
        lu_adif_payload = adif_for_upload_job L A p qso_ids, lu_incremental = True\<rparr>, w))"

definition upload_status_name :: "upload_status \<Rightarrow> string" where
  "upload_status_name s = (case s of UploadQueued \<Rightarrow> ''queued'' | UploadRunning \<Rightarrow> ''running''
     | UploadCompleted \<Rightarrow> ''completed'' | UploadFailed \<Rightarrow> ''failed'')"

definition upload_event_type :: "string \<Rightarrow> string" where
  "upload_event_type t =
     (if t \<in> {OFFICIAL_LOG_UPLOAD_QUEUED, OFFICIAL_LOG_UPLOAD_COMPLETED, OFFICIAL_LOG_UPLOAD_FAILED}
      then t else OFFICIAL_LOG_UPLOAD_QUEUED)"

definition append_upload_status_event :: "'s store_ops \<Rightarrow> libs \<Rightarrow> uuid \<Rightarrow> string \<Rightarrow> upload_job \<Rightarrow> uuid \<Rightarrow>
    string option \<Rightarrow> json \<Rightarrow> 's \<Rightarrow> world \<Rightarrow> (upload_error + core_event) \<times> 's \<times> world" where
  "append_upload_status_event ops L logbook_id event_type j source_device_id source_plugin_id details s w =
     (let (correlation, w) = new_v4 w;
          (r, s, w) = op_append_event ops
            \<lparr>ne_event_type = upload_event_type event_type, ne_logbook_id = logbook_id,
             ne_entity_id = Some (uj_upload_job_id j), ne_author_operator_id = None,
             ne_station_callsign = ''SYSTEM'', ne_operator_callsign = None,
             ne_author_device_id = source_device_id, ne_source_device_id = source_device_id,
             ne_correlation_id = correlation, ne_source_plugin_id = source_plugin_id, ne_schema_version = 1,
             ne_payload = json_object
               [(''upload_job_id'', json_uuid L (uj_upload_job_id j)), (''target_id'', JString (uj_target_id j)),
                (''qso_ids'', JArray (map (json_uuid L) (uj_qso_ids j))),
                (''status'', JString (upload_status_name (uj_status j))), (''details'', details)]\<rparr> s w
      in (map_err UqStore r, s, w))"

end
