(* ===== verification/Upload_Facts.thy ===== *)
theory Upload_Facts
  imports Upload Lan_Facts Exchange_Claims
begin

text \<open>
  Facts about the upload queue: its runs as a labelled transition relation, what each operation
  does to one job, and when two uploads have the same key.
\<close>

section \<open>Runs of the queue\<close>

text \<open>What an operation did. \<open>JobClaimed i token now expires\<close> is a claim at \<open>now\<close> with its lease;
  \<open>NothingDone\<close> is a refused operation or a claim that found nothing.\<close>

datatype upload_event =
    JobCreated upload_job
  | JobClaimed uuid uuid datetime datetime
  | LeasesRecovered datetime
  | RetryPlanned uuid uuid
  | OutcomeUncertain uuid uuid
  | JobCompleted uuid
  | JobFailed uuid
  | NothingDone

type_synonym upload_state = "upload_queue \<times> world"

inductive upload_step :: "libs \<Rightarrow> chrono \<Rightarrow> upload_state \<Rightarrow> upload_event \<Rightarrow> upload_state \<Rightarrow> bool"
  for L :: libs and C :: chrono where
  created: "create_job L t lb ids q w = (Inr j, q', w') \<Longrightarrow> upload_step L C (q, w) (JobCreated j) (q', w')"
| not_created: "create_job L t lb ids q w = (Inl e, q', w') \<Longrightarrow> upload_step L C (q, w) NothingDone (q', w')"
| claimed: "claim_next C now lease q w = (Inr (Some (i, token)), q', w') \<Longrightarrow>
    add_delay C now (ch_seconds C (sint lease)) = (Inr expires :: unit fault + datetime) \<Longrightarrow>
    upload_step L C (q, w) (JobClaimed i token now expires) (q', w')"
| not_claimed: "claim_next C now lease q w = (Inr None, q', w') \<Longrightarrow> upload_step L C (q, w) NothingDone (q', w')"
| recovered: "recover_expired_leases now q = (n, q') \<Longrightarrow> upload_step L C (q, w) (LeasesRecovered now) (q', w)"
| retried: "schedule_retry i token next code err q w = (Inr (), q', w') \<Longrightarrow> upload_step L C (q, w) (RetryPlanned i token) (q', w')"
| not_retried: "schedule_retry i token next code err q w = (Inl e, q', w') \<Longrightarrow> upload_step L C (q, w) NothingDone (q', w')"
| uncertain: "mark_uncertain i token code q w = (Inr (), q', w') \<Longrightarrow> upload_step L C (q, w) (OutcomeUncertain i token) (q', w')"
| not_uncertain: "mark_uncertain i token code q w = (Inl e, q', w') \<Longrightarrow> upload_step L C (q, w) NothingDone (q', w')"
| completed: "mark_completed i message q w = (Inr r, q', w') \<Longrightarrow> upload_step L C (q, w) (JobCompleted i) (q', w')"
| not_completed: "mark_completed i message q w = (Inl e, q', w') \<Longrightarrow> upload_step L C (q, w) NothingDone (q', w')"
| failed: "mark_upload_failed i err q w = (Inr r, q', w') \<Longrightarrow> upload_step L C (q, w) (JobFailed i) (q', w')"
| not_failed: "mark_upload_failed i err q w = (Inl e, q', w') \<Longrightarrow> upload_step L C (q, w) NothingDone (q', w')"

inductive upload_trace :: "libs \<Rightarrow> chrono \<Rightarrow> upload_state \<Rightarrow> upload_event list \<Rightarrow> upload_state \<Rightarrow> bool"
  for L :: libs and C :: chrono where
  done_: "upload_trace L C s [] s"
| step: "upload_step L C s e t \<Longrightarrow> upload_trace L C t es u \<Longrightarrow> upload_trace L C s (e # es) u"

inductive_simps upload_trace_Nil [simp]: "upload_trace L C s [] u"
inductive_simps upload_trace_Cons: "upload_trace L C s (e # es) u"

lemma upload_trace_append:
  "upload_trace L C s (xs @ ys) u \<longleftrightarrow> (\<exists>t. upload_trace L C s xs t \<and> upload_trace L C t ys u)"
  by (induction xs arbitrary: s) (auto simp: upload_trace_Cons)

section \<open>What the operations do to the jobs\<close>

lemma find_has_job: "List.find (has_job i) js = Some j \<Longrightarrow> uj_upload_job_id j = i \<and> j \<in> set js"
  by (auto simp: find_Some_iff has_job_def)

lemma job_for_claim_Inr:
  "job_for_claim i token q = Inr j \<longleftrightarrow> List.find (has_job i) (uq_jobs q) = Some j \<and> uj_claim_token j = Some token"
  by (auto simp: job_for_claim_def split: option.splits if_splits)

text \<open>Every operation but the creation and the recovery changes at most one job, keeping its identity.\<close>

definition job_update :: "upload_event \<Rightarrow> upload_job \<Rightarrow> upload_job \<Rightarrow> bool" where
  "job_update e j j' =
     (uj_upload_job_id j' = uj_upload_job_id j \<and> uj_target_id j' = uj_target_id j \<and> uj_provider_id j' = uj_provider_id j \<and>
      uj_logbook_id j' = uj_logbook_id j \<and> uj_idempotency_key j' = uj_idempotency_key j \<and> uj_qso_ids j' = uj_qso_ids j \<and>
      map ui_qso_id (uj_items j') = map ui_qso_id (uj_items j) \<and>
      (case e of
         JobClaimed i token now expires \<Rightarrow> may_claim now j \<and> i = uj_upload_job_id j \<and> uj_queue_state j' = QsRunning \<and>
           uj_status j' = UploadRunning \<and> uj_claim_token j' = Some token \<and> uj_lease_expires_at j' = Some expires \<and>
           uj_items j' = uj_items j
       | LeasesRecovered now \<Rightarrow> lease_expired now j \<and> uj_queue_state j' = QsUncertain \<and> uj_status j' = UploadFailed \<and>
           uj_claim_token j' = None \<and> uj_lease_expires_at j' = None \<and> uj_items j' = uj_items j
       | RetryPlanned i token \<Rightarrow> i = uj_upload_job_id j \<and> uj_claim_token j = Some token \<and> uj_queue_state j' = QsRetryScheduled \<and>
           uj_status j' = UploadFailed \<and> uj_claim_token j' = None \<and> uj_lease_expires_at j' = None \<and> uj_items j' = uj_items j
       | OutcomeUncertain i token \<Rightarrow> i = uj_upload_job_id j \<and> uj_claim_token j = Some token \<and> uj_queue_state j' = QsUncertain \<and>
           uj_status j' = UploadFailed \<and> uj_claim_token j' = None \<and> uj_lease_expires_at j' = None \<and> uj_items j' = uj_items j
       | JobCompleted i \<Rightarrow> i = uj_upload_job_id j \<and> uj_queue_state j' = QsSucceeded \<and> uj_status j' = UploadCompleted \<and>
           uj_claim_token j' = None \<and> uj_lease_expires_at j' = None \<and>
           list_all (\<lambda>it. ui_status it = UploadCompleted) (uj_items j')
       | JobFailed i \<Rightarrow> i = uj_upload_job_id j \<and> uj_queue_state j' = QsDeadLetter \<and> uj_status j' = UploadFailed \<and>
           uj_claim_token j' = None \<and> uj_lease_expires_at j' = None \<and>
           list_all (\<lambda>it. ui_status it = UploadFailed) (uj_items j')
       | _ \<Rightarrow> False))"

text \<open>The jobs after a step: each is unchanged or updated as the event says; a claim updates the
  job it names, as the named operations do.\<close>

definition jobs_after :: "upload_event \<Rightarrow> upload_job list \<Rightarrow> upload_job list \<Rightarrow> bool" where
  "jobs_after e js js' = list_all2 (\<lambda>j j'. j' = j \<or> job_update e j j') js js'"

lemma jobs_after_refl: "jobs_after e js js"
  by (simp add: jobs_after_def list_all2_same)

lemma jobs_after_modify:
  assumes "List.find p js = Some j" and "job_update e j j'"
  shows "jobs_after e js (modify_first p (\<lambda>_. j') js)"
  using assms by (induction js) (auto simp: jobs_after_def list_all2_same split: if_splits)

lemma put_job_simps [simp]: "uq_targets (put_job i j q) = uq_targets q" "uq_queue_limit (put_job i j q) = uq_queue_limit q"
  by (simp_all add: put_job_def)

lemma put_job_after:
  "List.find (has_job i) (uq_jobs q) = Some j \<Longrightarrow> job_update e j j' \<Longrightarrow> jobs_after e (uq_jobs q) (uq_jobs (put_job i j' q))"
  by (simp add: put_job_def jobs_after_modify)

lemma step_jobs:
  assumes "upload_step L C (q, w) e (q', w')"
  shows "uq_targets q' = uq_targets q \<and> uq_queue_limit q' = uq_queue_limit q \<and> world_later w w' \<and>
    (case e of
       JobCreated j \<Rightarrow> (\<exists>t now lb ids v. t \<in> set (uq_targets q) \<and> length (uq_jobs q) < uq_queue_limit q \<and>
         j = new_upload_job L (uuid_source w (uuid_pos w)) (ut_target_id t) (ut_provider_id t) lb ids now \<and>
         uuid_pos w' = Suc (uuid_pos w) \<and> uq_jobs q' = uq_jobs q @ [j])
     | NothingDone \<Rightarrow> uq_jobs q' = uq_jobs q
     | _ \<Rightarrow> jobs_after e (uq_jobs q) (uq_jobs q'))"
  using assms
proof cases
  case (created t lb ids j)
  then obtain tt where tt: "List.find (has_target t) (uq_targets q) = Some tt"
    by (auto simp: create_job_def split: option.splits)
  then have "tt \<in> set (uq_targets q)" "ut_target_id tt = t" by (auto simp: find_Some_iff has_target_def)
  with created tt show ?thesis
    by (auto simp: create_job_def utc_now_def new_v4_def world_later_def Let_def split: if_splits) blast
next
  case (claimed now lease i token expires)
  from claimed(2) obtain j where j: "List.find (may_claim now) (uq_jobs q) = Some j" "uj_upload_job_id j = i"
    "q' = q\<lparr>uq_jobs := modify_first (may_claim now)
       (\<lambda>_. (claimed_job token now j)\<lparr>uj_lease_expires_at := Some expires\<rparr>) (uq_jobs q)\<rparr>" "world_later w w'"
    using claimed(3)
    by (auto simp: claim_next_def new_v4_def world_later_def claimed_job_def Let_def split: option.splits sum.splits)
  have "may_claim now j" using j(1) by (auto simp: find_Some_iff)
  with j(2) have "job_update e j ((claimed_job token now j)\<lparr>uj_lease_expires_at := Some expires\<rparr>)"
    by (simp add: claimed(1) job_update_def claimed_job_def)
  from jobs_after_modify [OF j(1) this] show ?thesis by (simp add: claimed(1) j(3,4))
next
  case (recovered now n)
  then show ?thesis
    by (auto simp: recover_expired_leases_def jobs_after_def list_all2_map2 list_all2_same job_update_def recovered_job_def)
next
  case (retried i token next' code err)
  then obtain j where j: "List.find (has_job i) (uq_jobs q) = Some j" "uj_claim_token j = Some token"
    by (auto simp: schedule_retry_def job_for_claim_Inr split: sum.splits)
  then have "job_for_claim i token q = Inr j" by (simp add: job_for_claim_Inr)
  with retried find_has_job [OF j(1)] j show ?thesis
    by (auto simp: schedule_retry_def utc_now_def world_later_def job_update_def Let_def intro!: put_job_after)
next
  case (uncertain i token code)
  then obtain j where j: "List.find (has_job i) (uq_jobs q) = Some j" "uj_claim_token j = Some token"
    by (auto simp: mark_uncertain_def job_for_claim_Inr split: sum.splits)
  then have "job_for_claim i token q = Inr j" by (simp add: job_for_claim_Inr)
  with uncertain find_has_job [OF j(1)] j show ?thesis
    by (auto simp: mark_uncertain_def utc_now_def world_later_def job_update_def Let_def intro!: put_job_after)
next
  case (completed i message r)
  then obtain j where j: "List.find (has_job i) (uq_jobs q) = Some j" by (auto simp: mark_completed_def split: option.splits)
  with completed find_has_job [OF j] show ?thesis
    by (auto simp: mark_completed_def completed_job_def utc_now_def world_later_def job_update_def list_all_iff comp_def Let_def
      intro!: put_job_after)
next
  case (failed i err r)
  then obtain j where j: "List.find (has_job i) (uq_jobs q) = Some j" by (auto simp: mark_upload_failed_def split: option.splits)
  with failed find_has_job [OF j] show ?thesis
    by (auto simp: mark_upload_failed_def failed_job_def utc_now_def world_later_def job_update_def list_all_iff comp_def Let_def
      intro!: put_job_after)
qed (auto simp: create_job_def claim_next_def schedule_retry_def mark_uncertain_def mark_completed_def mark_upload_failed_def
    Let_def split: option.splits sum.splits prod.splits if_splits)

section \<open>Invariants\<close>

fun status_of_state :: "upload_queue_state \<Rightarrow> upload_status option" where
  "status_of_state QsPending = Some UploadQueued"
| "status_of_state QsRunning = Some UploadRunning"
| "status_of_state QsRetryScheduled = Some UploadFailed"
| "status_of_state QsUncertain = Some UploadFailed"
| "status_of_state QsSucceeded = Some UploadCompleted"
| "status_of_state QsDeadLetter = Some UploadFailed"
| "status_of_state QsNeedsUserAction = None"
| "status_of_state QsCancelled = None"

text \<open>A well-formed job: its status is that of its state, it has a claim and a lease exactly while
  it runs, its key is that of its contacts, and its items are its contacts in order, all
  completed or all failed once it is settled.\<close>

definition job_sound :: "libs \<Rightarrow> upload_job \<Rightarrow> bool" where
  "job_sound L j =
     (status_of_state (uj_queue_state j) = Some (uj_status j) \<and>
      (uj_claim_token j \<noteq> None) = (uj_queue_state j = QsRunning) \<and>
      (uj_lease_expires_at j \<noteq> None) = (uj_queue_state j = QsRunning) \<and>
      uj_idempotency_key j = upload_idempotency_key L (uj_provider_id j) (uj_logbook_id j) (uj_qso_ids j) \<and>
      map ui_qso_id (uj_items j) = uj_qso_ids j \<and>
      (case uj_queue_state j of
         QsSucceeded \<Rightarrow> list_all (\<lambda>it. ui_status it = UploadCompleted) (uj_items j)
       | QsDeadLetter \<Rightarrow> list_all (\<lambda>it. ui_status it = UploadFailed) (uj_items j)
       | _ \<Rightarrow> list_all (\<lambda>it. ui_status it = UploadQueued) (uj_items j)))"

definition queue_sound :: "libs \<Rightarrow> upload_queue \<Rightarrow> bool" where
  "queue_sound L q = (list_all (job_sound L) (uq_jobs q) \<and> length (uq_jobs q) \<le> uq_queue_limit q)"

lemma new_job_sound: "job_sound L (new_upload_job L i t pr lb ids now)"
  by (simp add: job_sound_def new_upload_job_def queued_item_def list_all_iff comp_def)

lemma job_update_sound: "job_sound L j \<Longrightarrow> job_update e j j' \<Longrightarrow> job_sound L j'"
  by (cases e) (auto simp: job_update_def job_sound_def may_claim_def is_claimable_def lease_expired_def)

lemma jobs_after_sound: "jobs_after e js js' \<Longrightarrow> list_all (job_sound L) js \<Longrightarrow> list_all (job_sound L) js'"
  unfolding jobs_after_def by (induction rule: list_all2_induct) (auto intro: job_update_sound)

lemma jobs_after_length: "jobs_after e js js' \<Longrightarrow> length js' = length js"
  by (simp add: jobs_after_def list_all2_lengthD)

lemma jobs_after_ids: "jobs_after e js js' \<Longrightarrow> map uj_upload_job_id js' = map uj_upload_job_id js"
  unfolding jobs_after_def by (induction rule: list_all2_induct) (auto simp: job_update_def)

lemma jobs_after_origin: "jobs_after e js js' \<Longrightarrow> j' \<in> set js' \<Longrightarrow> \<exists>j\<in>set js. j' = j \<or> job_update e j j'"
  unfolding jobs_after_def by (induction rule: list_all2_induct) auto

text \<open>The three kinds of step.\<close>

lemma step_cases:
  assumes "upload_step L C (q, w) e (q', w')"
  obtains (grow) t pr lb ids now where "e = JobCreated (new_upload_job L (uuid_source w (uuid_pos w)) t pr lb ids now)"
      "length (uq_jobs q) < uq_queue_limit q" "uuid_pos w' = Suc (uuid_pos w)"
      "uq_jobs q' = uq_jobs q @ [new_upload_job L (uuid_source w (uuid_pos w)) t pr lb ids now]"
  | (same) "uq_jobs q' = uq_jobs q" "e = NothingDone"
  | (update) "jobs_after e (uq_jobs q) (uq_jobs q')" "\<And>j. e \<noteq> JobCreated j"
  using step_jobs [OF assms] by (cases e) auto

lemma step_limit: "upload_step L C (q, w) e (q', w') \<Longrightarrow> uq_queue_limit q' = uq_queue_limit q"
  using step_jobs by blast

lemma step_sound:
  assumes "upload_step L C (q, w) e (q', w')" and "queue_sound L q"
  shows "queue_sound L q'"
  using assms(1)
proof (cases rule: step_cases)
  case grow
  with assms(2) step_limit [OF assms(1)] show ?thesis by (simp add: queue_sound_def new_job_sound)
next
  case same
  with assms(2) step_limit [OF assms(1)] show ?thesis by (simp add: queue_sound_def)
next
  case update
  with assms(2) step_limit [OF assms(1)] show ?thesis
    by (simp add: queue_sound_def jobs_after_sound [OF update(1)] jobs_after_length [OF update(1)])
qed

lemma trace_sound: "upload_trace L C (q, w) es (q', w') \<Longrightarrow> queue_sound L q \<Longrightarrow> queue_sound L q'"
proof (induction "(q, w)" es "(q', w')" arbitrary: q w rule: upload_trace.induct)
  case (step e t es)
  obtain q1 w1 where t: "t = (q1, w1)" by (cases t)
  with step show ?case using step_sound by blast
qed simp

text \<open>Identifiers are new: jobs keep apart.\<close>

definition ids_apart :: "upload_state \<Rightarrow> bool" where
  "ids_apart s = distinct (map uj_upload_job_id (uq_jobs (fst s)))"

lemma step_later: "upload_step L C (q, w) e (q', w') \<Longrightarrow> world_later w w'"
  using step_jobs by blast

lemma trace_later: "upload_trace L C (q, w) es (q', w') \<Longrightarrow> world_later w w'"
proof (induction "(q, w)" es "(q', w')" arbitrary: q w rule: upload_trace.induct)
  case (step e t es)
  obtain q1 w1 where t: "t = (q1, w1)" by (cases t)
  with step show ?case using step_later world_later_trans by blast
qed simp

definition job_ids :: "upload_queue \<Rightarrow> uuid set" where
  "job_ids q = uj_upload_job_id ` set (uq_jobs q)"

lemma step_ids:
  assumes "upload_step L C (q, w) e (q', w')"
  shows "job_ids q' \<subseteq> job_ids q \<union> set (draws w w')"
    and "ids_apart (q, w) \<Longrightarrow> fresh_draws (job_ids q) w w' \<Longrightarrow> ids_apart (q', w')"
  using assms
  by (atomize (full), cases rule: step_cases)
    (auto simp: job_ids_def ids_apart_def draws_one fresh_draws_def new_upload_job_def
      dest!: jobs_after_ids simp flip: set_map)

lemma trace_ids:
  "upload_trace L C (q, w) es (q', w') \<Longrightarrow> ids_apart (q, w) \<Longrightarrow> fresh_draws (job_ids q) w w' \<Longrightarrow>
   ids_apart (q', w') \<and> job_ids q' \<subseteq> job_ids q \<union> set (draws w w')"
proof (induction "(q, w)" es "(q', w')" arbitrary: q w rule: upload_trace.induct)
  case (step e t es)
  obtain q1 w1 where t: "t = (q1, w1)" by (cases t)
  note a = step.hyps(1) [unfolded t] and b = step.hyps(2) [unfolded t]
  have f: "fresh_draws (job_ids q) w w1" "fresh_draws (job_ids q \<union> set (draws w w1)) w1 w'"
    using step.prems(2) by (simp_all add: fresh_draws_split [OF step_later [OF a] trace_later [OF b]])
  note ids = step_ids(1) [OF a] step_ids(2) [OF a step.prems(1) f(1)]
  from step.hyps(3) [OF t ids(2) fresh_draws_mono [OF f(2) ids(1)]] ids(1) draws_append [OF step_later [OF a] trace_later [OF b]]
  show ?case by auto
qed simp

section \<open>Leases\<close>

definition job_held :: "uuid \<Rightarrow> datetime \<Rightarrow> upload_job \<Rightarrow> bool" where
  "job_held token expires j = (uj_queue_state j = QsRunning \<and> uj_claim_token j = Some token \<and> uj_lease_expires_at j = Some expires)"

definition job_settled :: "upload_job \<Rightarrow> bool" where
  "job_settled j = (uj_queue_state j = QsSucceeded \<or> uj_queue_state j = QsDeadLetter)"

definition the_job :: "upload_queue \<Rightarrow> uuid \<Rightarrow> (upload_job \<Rightarrow> bool) \<Rightarrow> bool" where
  "the_job q i P = (i \<in> job_ids q \<and> (\<forall>j\<in>set (uq_jobs q). uj_upload_job_id j = i \<longrightarrow> P j))"

text \<open>What ends a claim: its holder, or a recovery after its lease.\<close>

definition releases :: "uuid \<Rightarrow> uuid \<Rightarrow> datetime \<Rightarrow> upload_event \<Rightarrow> bool" where
  "releases i token expires e =
     (case e of
        RetryPlanned i' token' \<Rightarrow> i' = i \<and> token' = token
      | OutcomeUncertain i' token' \<Rightarrow> i' = i \<and> token' = token
      | LeasesRecovered now \<Rightarrow> expires \<le> now
      | _ \<Rightarrow> False)"

lemma the_job_step:
  assumes "upload_step L C (q, w) e (q', w')" and "fresh_draws (job_ids q) w w'" and "the_job q i P"
    and "\<And>j j'. j \<in> set (uq_jobs q) \<Longrightarrow> uj_upload_job_id j = i \<Longrightarrow> P j \<Longrightarrow> job_update e j j' \<Longrightarrow> P j'"
  shows "the_job q' i P"
  using assms(1)
proof (cases rule: step_cases)
  case (grow t pr lb ids now)
  have "uuid_source w (uuid_pos w) \<noteq> i"
    using assms(2,3) by (auto simp: the_job_def fresh_draws_def draws_one [OF grow(3)])
  with assms(3) grow(4) show ?thesis by (auto simp: the_job_def job_ids_def new_upload_job_def)
next
  case same
  with assms(3) show ?thesis by (simp add: the_job_def job_ids_def)
next
  case update
  have "job_ids q' = job_ids q" using jobs_after_ids [OF update(1)] unfolding job_ids_def by (metis list.set_map)
  moreover have "P j'" if "j' \<in> set (uq_jobs q')" "uj_upload_job_id j' = i" for j'
  proof -
    from that(1) update(1) obtain j where j: "j \<in> set (uq_jobs q)" "j' = j \<or> job_update e j j'"
      using jobs_after_origin by blast
    then have i: "uj_upload_job_id j = i" using that(2) by (auto simp: job_update_def)
    with j(1) assms(3) have "P j" by (simp add: the_job_def)
    with j(2) assms(4) [OF j(1) i this] show ?thesis by blast
  qed
  ultimately show ?thesis using assms(3) by (simp add: the_job_def)
qed

lemma sound_claim: "job_sound L j \<Longrightarrow> uj_claim_token j \<noteq> None \<longrightarrow> uj_queue_state j = QsRunning"
  by (auto simp: job_sound_def)

lemma update_settled:
  assumes "job_update e j j'" and "job_settled j" and "uj_claim_token j \<noteq> None \<longrightarrow> uj_queue_state j = QsRunning"
  shows "job_settled j'"
  using assms
  by (cases e) (auto simp: job_update_def job_settled_def may_claim_def is_claimable_def lease_expired_def)

lemma update_held:
  assumes "job_update e j j'" and "job_held token expires j" and "\<not> releases (uj_upload_job_id j) token expires e"
  shows "job_held token expires j' \<or> job_settled j'"
  using assms
  by (cases e) (auto simp: job_update_def job_held_def job_settled_def releases_def may_claim_def is_claimable_def lease_expired_def)

lemma held_step:
  assumes "upload_step L C (q, w) e (q', w')" and "fresh_draws (job_ids q) w w'" and "queue_sound L q"
    and "the_job q i (\<lambda>j. job_held token expires j \<or> job_settled j)" and "\<not> releases i token expires e"
  shows "the_job q' i (\<lambda>j. job_held token expires j \<or> job_settled j)"
proof (rule the_job_step [OF assms(1,2,4)])
  fix j j'
  assume j: "j \<in> set (uq_jobs q)" "uj_upload_job_id j = i" "job_held token expires j \<or> job_settled j" "job_update e j j'"
  then have "job_sound L j" using assms(3) by (simp add: queue_sound_def list_all_iff)
  then show "job_held token expires j' \<or> job_settled j'"
    using update_settled [OF j(4) _ sound_claim] update_held [OF j(4)] j(2,3) assms(5) by blast
qed

lemma settled_step:
  assumes "upload_step L C (q, w) e (q', w')" and "fresh_draws (job_ids q) w w'" and "queue_sound L q"
    and "the_job q i job_settled"
  shows "the_job q' i job_settled"
proof (rule the_job_step [OF assms(1,2,4)])
  fix j j'
  assume j: "j \<in> set (uq_jobs q)" "uj_upload_job_id j = i" "job_settled j" "job_update e j j'"
  then have "job_sound L j" using assms(3) by (simp add: queue_sound_def list_all_iff)
  then show "job_settled j'" using update_settled [OF j(4,3) sound_claim] by blast
qed

text \<open>What a claim or an outcome does to the job it names.\<close>

lemma find_modify_here:
  assumes "List.find p xs = Some x" and "p x \<Longrightarrow> f y = f x" and "distinct (map f xs)"
    and "z \<in> set (modify_first p (\<lambda>_. y) xs)" and "f z = f x"
  shows "z = y"
  using assms
proof (induction xs)
  case (Cons a xs)
  show ?case
  proof (cases "p a")
    case True
    with Cons.prems show ?thesis by (auto simp: image_iff)
  next
    case False
    then have "List.find p xs = Some x" using Cons.prems(1) by simp
    then have "x \<in> set xs" by (auto simp: find_Some_iff)
    with False Cons show ?thesis by (auto simp: image_iff)
  qed
qed simp

lemma modify_first_ids:
  assumes "List.find p xs = Some x" and "f y = f x"
  shows "map f (modify_first p (\<lambda>_. y) xs) = map f xs"
  using assms by (induction xs) (auto split: if_splits)

lemma the_job_modified:
  assumes "List.find p (uq_jobs q) = Some j" and "uj_upload_job_id j' = uj_upload_job_id j" and "ids_apart (q, w)"
    and "uq_jobs q' = modify_first p (\<lambda>_. j') (uq_jobs q)" and "P j'"
  shows "the_job q' (uj_upload_job_id j) P"
proof -
  have "j \<in> set (uq_jobs q)" using assms(1) by (auto simp: find_Some_iff)
  then have "uj_upload_job_id j \<in> job_ids q'"
    using modify_first_ids [OF assms(1), of uj_upload_job_id j'] assms(2,4) unfolding job_ids_def by (metis image_eqI list.set_map)
  moreover have "P j''" if "j'' \<in> set (uq_jobs q')" "uj_upload_job_id j'' = uj_upload_job_id j" for j''
    using find_modify_here [OF assms(1), of uj_upload_job_id j' j''] that assms(2-5) by (auto simp: ids_apart_def)
  ultimately show ?thesis by (simp add: the_job_def)
qed

lemma claim_holds:
  assumes "upload_step L C (q, w) (JobClaimed i token now expires) (q', w')" and "ids_apart (q, w)"
  shows "the_job q' i (job_held token expires)" and "\<exists>j\<in>set (uq_jobs q). uj_upload_job_id j = i \<and> may_claim now j"
proof -
  from assms(1) obtain j where j: "List.find (may_claim now) (uq_jobs q) = Some j" "uj_upload_job_id j = i"
    "uq_jobs q' = modify_first (may_claim now)
       (\<lambda>_. (claimed_job token now j)\<lparr>uj_lease_expires_at := Some expires\<rparr>) (uq_jobs q)"
    by cases (auto simp: claim_next_def new_v4_def claimed_job_def Let_def split: option.splits sum.splits)
  show "the_job q' i (job_held token expires)"
    using the_job_modified [OF j(1) _ assms(2) j(3), of "job_held token expires"] j(2)
    by (simp add: claimed_job_def job_held_def)
  from j(1,2) show "\<exists>j\<in>set (uq_jobs q). uj_upload_job_id j = i \<and> may_claim now j" by (auto simp: find_Some_iff)
qed

lemma outcome_settles:
  assumes "upload_step L C (q, w) e (q', w')" and "e = JobCompleted i \<or> e = JobFailed i" and "ids_apart (q, w)"
  shows "the_job q' i job_settled"
proof -
  obtain j now err where j: "List.find (has_job i) (uq_jobs q) = Some j" and
    q': "q' = put_job i (completed_job now j) q \<or> q' = put_job i (failed_job err now j) q"
    using assms(1,2) by cases (auto simp: mark_completed_def mark_upload_failed_def utc_now_def Let_def split: option.splits)
  have settled: "job_settled (completed_job now j)" "job_settled (failed_job err now j)"
    "uj_upload_job_id (completed_job now j) = uj_upload_job_id j" "uj_upload_job_id (failed_job err now j) = uj_upload_job_id j"
    by (simp_all add: job_settled_def completed_job_def failed_job_def)
  from q' show ?thesis
    using the_job_modified [OF j settled(3) assms(3), of q' job_settled] the_job_modified [OF j settled(4) assms(3), of q' job_settled]
      settled(1,2) find_has_job [OF j] by (auto simp: put_job_def)
qed

lemma release_needs_claim:
  assumes "upload_step L C (q, w) e (q', w')" and "e = RetryPlanned i token \<or> e = OutcomeUncertain i token"
  shows "\<exists>j\<in>set (uq_jobs q). uj_upload_job_id j = i \<and> uj_claim_token j = Some token"
  using assms by cases (auto simp: schedule_retry_def mark_uncertain_def job_for_claim_Inr split: sum.splits dest: find_has_job)

text \<open>A property that the steps of a run keep holds after it.\<close>

definition run_ok :: "libs \<Rightarrow> upload_state \<Rightarrow> world \<Rightarrow> bool" where
  "run_ok L s w' = (queue_sound L (fst s) \<and> ids_apart s \<and> fresh_draws (job_ids (fst s)) (snd s) w')"

lemma run_ok_step:
  assumes "upload_step L C (q, w) e (q1, w1)" and "upload_trace L C (q1, w1) es (q', w')" and "run_ok L (q, w) w'"
  shows "run_ok L (q1, w1) w'" and "fresh_draws (job_ids q) w w1"
proof -
  have f: "fresh_draws (job_ids q) w w1" "fresh_draws (job_ids q \<union> set (draws w w1)) w1 w'"
    using assms(3) by (simp_all add: run_ok_def fresh_draws_split [OF step_later [OF assms(1)] trace_later [OF assms(2)]])
  with assms(3) step_sound [OF assms(1)] step_ids [OF assms(1)] show "run_ok L (q1, w1) w'" "fresh_draws (job_ids q) w w1"
    by (auto simp: run_ok_def intro: fresh_draws_mono)
qed

lemma run_ok_trace:
  "upload_trace L C (q, w) es (q1, w1) \<Longrightarrow> upload_trace L C (q1, w1) rest (q', w') \<Longrightarrow> run_ok L (q, w) w' \<Longrightarrow> run_ok L (q1, w1) w'"
proof (induction "(q, w)" es "(q1, w1)" arbitrary: q w rule: upload_trace.induct)
  case (step e t es)
  obtain q2 w2 where t: "t = (q2, w2)" by (cases t)
  have "upload_trace L C (q2, w2) (es @ rest) (q', w')" using step.hyps(2) step.prems(1) t by (auto simp: upload_trace_append)
  from run_ok_step(1) [OF step.hyps(1) [unfolded t] this step.prems(2)] step.hyps(3) [OF t] step.prems(1) show ?case by blast
qed simp

lemma trace_keeps:
  assumes "\<And>q w e q' w'. upload_step L C (q, w) e (q', w') \<Longrightarrow> fresh_draws (job_ids q) w w' \<Longrightarrow> queue_sound L q \<Longrightarrow>
      the_job q i P \<Longrightarrow> allowed e \<Longrightarrow> the_job q' i P"
  shows "upload_trace L C (q, w) es (q', w') \<Longrightarrow> run_ok L (q, w) w' \<Longrightarrow> the_job q i P \<Longrightarrow> list_all allowed es \<Longrightarrow> the_job q' i P"
proof (induction "(q, w)" es "(q', w')" arbitrary: q w rule: upload_trace.induct)
  case (step e t es)
  obtain q1 w1 where t: "t = (q1, w1)" by (cases t)
  note ok = run_ok_step [OF step.hyps(1) [unfolded t] step.hyps(2) [unfolded t] step.prems(1)]
  have "the_job q1 i P"
    by (rule assms [OF step.hyps(1) [unfolded t] ok(2)]) (use step.prems in \<open>simp_all add: run_ok_def\<close>)
  with step.hyps(3) [OF t ok(1)] step.prems(3) show ?case by simp
qed simp

lemma new_queue_ok: "fresh_draws {} w w' \<Longrightarrow> run_ok L (upload_queue_new targets, w) w'"
  by (simp add: run_ok_def queue_sound_def upload_queue_new_def ids_apart_def job_ids_def)

end
