(* ===== verification/Upload_Claims.thy ===== *)
theory Upload_Claims
  imports Upload_Facts Queue_Claims "HOL-Library.Multiset"
begin

text \<open>
  Properties of the upload queue: what a reachable queue looks like, when a job can be claimed,
  and which uploads share a key.
\<close>

section \<open>Reachable queues\<close>


definition upload_site :: upload_target where
  "upload_site = \<lparr>ut_target_id = ''lotw'', ut_display_name = ''LoTW'', ut_provider_id = ''lotw'', ut_enabled = True,
     ut_required_config_keys = []\<rparr>"

definition upload_0 :: upload_job where
  "upload_0 = new_upload_job (sample_libs []) 10 ''lotw'' ''lotw'' 7 [100] 0"

definition upload_1 :: upload_job where
  "upload_1 = (claimed_job 11 5 upload_0)\<lparr>uj_lease_expires_at := Some 60000000005\<rparr>"

definition upload_2 :: upload_job where
  "upload_2 = recovered_job 60000000005 upload_1"

definition upload_3 :: upload_job where
  "upload_3 = (claimed_job 12 60000000006 upload_2)\<lparr>uj_lease_expires_at := Some 120000000006\<rparr>"

definition upload_4 :: upload_job where
  "upload_4 = completed_job 1 upload_3"

definition upload_queue_of :: "upload_job list \<Rightarrow> upload_queue" where
  "upload_queue_of js = (upload_queue_new [upload_site])\<lparr>uq_jobs := js\<rparr>"

definition world_at :: "nat \<Rightarrow> nat \<Rightarrow> world" where
  "world_at i t = sample_world\<lparr>uuid_pos := i, clock_pos := t\<rparr>"

lemmas upload_samples = upload_0_def upload_1_def upload_2_def upload_3_def upload_4_def new_upload_job_def claimed_job_def
  recovered_job_def completed_job_def

lemma world_at_draws [simp]:
  "new_v4 (world_at i t) = (of_nat i, world_at (Suc i) t)" "utc_now (world_at i t) = (int t, world_at i (Suc t))"
  by (simp_all add: world_at_def new_v4_def utc_now_def sample_world_def)

lemma upload_claim:
  fixes lease :: "64 word"
  assumes "may_claim now j" and "ch_seconds C (sint lease) = Some d" and "ch_add C now d = Some expires"
  shows "upload_step L C (upload_queue_of [j], world_at i t) (JobClaimed (uj_upload_job_id j) (of_nat i) now expires)
    (upload_queue_of [(claimed_job (of_nat i) now j)\<lparr>uj_lease_expires_at := Some expires\<rparr>], world_at (Suc i) t)"
proof -
  have d: "add_delay C now (ch_seconds C (sint lease)) = (Inr expires :: unit fault + datetime)"
    using assms(2,3) by (simp add: add_delay_def ok_or_def)
  have "claim_next C now lease (upload_queue_of [j]) (world_at i t) = (Inr (Some (uj_upload_job_id j, of_nat i)),
      upload_queue_of [(claimed_job (of_nat i) now j)\<lparr>uj_lease_expires_at := Some expires\<rparr>], world_at (Suc i) t)"
    using assms(1) d by (simp add: claim_next_def upload_queue_of_def claimed_job_def Let_def)
  from upload_step.claimed [OF this d] show ?thesis .
qed

text \<open>A job is created, claimed, recovered after its lease, claimed again and completed.\<close>

lemma upload_sample_steps:
  "upload_step (sample_libs []) C (upload_queue_new [upload_site], world_at 10 0) (JobCreated upload_0)
     (upload_queue_of [upload_0], world_at 11 1)"
  "upload_step (sample_libs []) sample_chrono (upload_queue_of [upload_0], world_at 11 1) (JobClaimed 10 11 5 60000000005)
     (upload_queue_of [upload_1], world_at 12 1)"
  "upload_step (sample_libs []) C (upload_queue_of [upload_1], world_at 12 1) (LeasesRecovered 60000000005)
     (upload_queue_of [upload_2], world_at 12 1)"
  "upload_step (sample_libs []) sample_chrono (upload_queue_of [upload_2], world_at 12 1) (JobClaimed 10 12 60000000006 120000000006)
     (upload_queue_of [upload_3], world_at 13 1)"
  "upload_step (sample_libs []) C (upload_queue_of [upload_3], world_at 13 1) (JobCompleted 10) (upload_queue_of [upload_4], world_at 13 2)"
proof -
  show "upload_step (sample_libs []) C (upload_queue_new [upload_site], world_at 10 0) (JobCreated upload_0)
     (upload_queue_of [upload_0], world_at 11 1)"
    by (rule upload_step.created [where t = "''lotw''" and lb = 7 and ids = "[100]"])
      (simp add: create_job_def upload_queue_new_def upload_site_def has_target_def default_queue_limit_def upload_0_def
        upload_queue_of_def Let_def)
  have c: "may_claim 5 upload_0" "may_claim 60000000006 upload_2"
    by (simp_all add: may_claim_def is_claimable_def not_after_def upload_samples)
  have ids: "uj_upload_job_id upload_0 = 10" "uj_upload_job_id upload_2 = 10" by (simp_all add: upload_samples)
  show "upload_step (sample_libs []) sample_chrono (upload_queue_of [upload_0], world_at 11 1) (JobClaimed 10 11 5 60000000005)
     (upload_queue_of [upload_1], world_at 12 1)"
    using upload_claim [OF c(1), of sample_chrono 60 60000000000 60000000005 "sample_libs []" 11 1] ids
    by (simp add: sample_chrono_def upload_1_def)
  show "upload_step (sample_libs []) sample_chrono (upload_queue_of [upload_2], world_at 12 1) (JobClaimed 10 12 60000000006 120000000006)
     (upload_queue_of [upload_3], world_at 13 1)"
    using upload_claim [OF c(2), of sample_chrono 60 60000000000 120000000006 "sample_libs []" 12 1] ids
    by (simp add: sample_chrono_def upload_3_def)
  have "lease_expired 60000000005 upload_1" by (simp add: lease_expired_def upload_samples)
  then show "upload_step (sample_libs []) C (upload_queue_of [upload_1], world_at 12 1) (LeasesRecovered 60000000005)
     (upload_queue_of [upload_2], world_at 12 1)"
    by (intro upload_step.recovered [where n = 1]) (simp add: recover_expired_leases_def upload_queue_of_def upload_2_def)
  have "has_job 10 upload_3" "uj_upload_job_id upload_3 = 10" by (simp_all add: has_job_def upload_samples)
  then show "upload_step (sample_libs []) C (upload_queue_of [upload_3], world_at 13 1) (JobCompleted 10)
      (upload_queue_of [upload_4], world_at 13 2)"
    by (intro upload_step.completed [where message = None])
      (auto simp: mark_completed_def upload_queue_of_def upload_4_def put_job_def numeral_2_eq_2 Let_def)
qed

lemma upload_sample_world: "fresh_draws {} (world_at 10 0) (world_at n t)" if "n \<le> 1000"
proof -
  have "fresh_draws {} sample_world (world_at n t)"
  proof (cases "10 \<le> n")
    case True
    with that show ?thesis by (subst draws_sample) (auto simp: world_at_def world_later_def sample_world_def)
  next
    case False
    then show ?thesis by (simp add: fresh_draws_def draws_def world_at_def sample_world_def)
  qed
  then show ?thesis by (simp add: fresh_draws_def draws_def world_at_def sample_world_def)
qed


section \<open>Claims\<close>

lemma trace_middle:
  assumes "upload_trace L C (q, w) (xs @ e # ys) (q', w')"
  obtains q1 w1 q2 w2 where "upload_trace L C (q, w) xs (q1, w1)" "upload_step L C (q1, w1) e (q2, w2)"
    "upload_trace L C (q2, w2) ys (q', w')"
  using assms unfolding upload_trace_append upload_trace_Cons by (metis surj_pair)

text \<open>
  C31. A job is claimed by one worker at a time: between two claims of the same job its first
  holder has given it up, by planning a retry or reporting an uncertain outcome with its
  token, or the leases were recovered at a time when the first claim's lease had run out;
  nothing else, in particular no claim by another worker and no settled outcome, makes it
  claimable.
\<close>

theorem live_claim_is_exclusive:
  assumes "upload_trace L C (upload_queue_new targets, w)
      (before @ JobClaimed i token now expires # between @ JobClaimed i token' now' expires' # later) (q', w')"
    and "fresh_draws {} w w'"
  shows "list_ex (releases i token expires) between"
proof (rule ccontr)
  assume no: "\<not> list_ex (releases i token expires) between"
  obtain q1 w1 q2 w2 where a: "upload_trace L C (upload_queue_new targets, w) before (q1, w1)"
    "upload_step L C (q1, w1) (JobClaimed i token now expires) (q2, w2)"
    and rest: "upload_trace L C (q2, w2) (between @ JobClaimed i token' now' expires' # later) (q', w')"
    using assms(1) by (rule trace_middle)
  have ok1: "run_ok L (q1, w1) w'"
    by (rule run_ok_trace [OF a(1) upload_trace.step [OF a(2) rest] new_queue_ok [OF assms(2)]])
  have ok2: "run_ok L (q2, w2) w'" by (rule run_ok_step(1) [OF a(2) rest ok1])
  have "the_job q2 i (job_held token expires)" using claim_holds(1) [OF a(2)] ok1 by (simp add: run_ok_def ids_apart_def)
  then have held: "the_job q2 i (\<lambda>j. job_held token expires j \<or> job_settled j)" by (simp add: the_job_def)
  obtain q3 w3 q4 w4 where b: "upload_trace L C (q2, w2) between (q3, w3)"
    "upload_step L C (q3, w3) (JobClaimed i token' now' expires') (q4, w4)" and end_: "upload_trace L C (q4, w4) later (q', w')"
    using rest by (rule trace_middle)
  have later: "world_later w3 w'" using step_later [OF b(2)] trace_later [OF end_] world_later_trans by blast
  have ok3: "run_ok L (q3, w3) w'" by (rule run_ok_trace [OF b(1) upload_trace.step [OF b(2) end_] ok2])
  have "run_ok L (q2, w2) w3"
    using ok2 fresh_draws_earlier [OF _ trace_later [OF b(1)] later] by (simp add: run_ok_def)
  from trace_keeps [where P = "\<lambda>j. job_held token expires j \<or> job_settled j" and allowed = "\<lambda>e. \<not> releases i token expires e",
      OF held_step b(1) this held] no
  have "the_job q3 i (\<lambda>j. job_held token expires j \<or> job_settled j)"
    by (simp add: list_all_iff list_ex_iff)
  with claim_holds(2) [OF b(2)] ok3 show False
    by (auto simp: the_job_def run_ok_def ids_apart_def may_claim_def is_claimable_def job_held_def job_settled_def)
qed

theorem live_claim_is_exclusive_witness:
  "\<exists>before q' w'. upload_trace (sample_libs []) sample_chrono (upload_queue_new [upload_site], world_at 10 0)
     (before @ JobClaimed 10 11 5 60000000005 # [LeasesRecovered 60000000005] @ JobClaimed 10 12 60000000006 120000000006 # []) (q', w') \<and>
   releases 10 11 60000000005 (LeasesRecovered 60000000005)"
proof -
  have t: "upload_trace (sample_libs []) sample_chrono (upload_queue_new [upload_site], world_at 10 0)
     ([JobCreated upload_0] @ JobClaimed 10 11 5 60000000005 # [LeasesRecovered 60000000005] @
      JobClaimed 10 12 60000000006 120000000006 # []) (upload_queue_of [upload_3], world_at 13 1)"
    unfolding append.simps by (rule upload_trace.step, rule upload_sample_steps)+ (rule upload_trace.done_)
  have r: "releases 10 11 60000000005 (LeasesRecovered 60000000005)"
    using live_claim_is_exclusive [OF t upload_sample_world] by simp
  show ?thesis by (rule exI, rule exI, rule exI, rule conjI [OF t r])
qed

text \<open>
  A settled job is left alone: once a job is completed or failed for good, no later claim
  takes it and no retry or uncertain outcome of it is accepted, whatever is called.
\<close>

theorem settled_job_stays_settled:
  assumes "upload_trace L C (upload_queue_new targets, w) (before @ e # later) (q', w')" and "fresh_draws {} w w'"
    and "e = JobCompleted i \<or> e = JobFailed i"
  shows "list_all (\<lambda>e'. \<not> (\<exists>token now expires. e' \<in> {JobClaimed i token now expires, RetryPlanned i token, OutcomeUncertain i token})) later \<and>
    the_job q' i job_settled"
proof -
  obtain q1 w1 q2 w2 where a: "upload_trace L C (upload_queue_new targets, w) before (q1, w1)" "upload_step L C (q1, w1) e (q2, w2)"
    and rest: "upload_trace L C (q2, w2) later (q', w')"
    using assms(1) by (rule trace_middle)
  have ok1: "run_ok L (q1, w1) w'"
    by (rule run_ok_trace [OF a(1) upload_trace.step [OF a(2) rest] new_queue_ok [OF assms(2)]])
  have ok2: "run_ok L (q2, w2) w'" by (rule run_ok_step(1) [OF a(2) rest ok1])
  have "the_job q2 i job_settled" using outcome_settles [OF a(2) assms(3)] ok1 by (simp add: run_ok_def ids_apart_def)
  with rest ok2 show ?thesis
  proof (induction later arbitrary: q2 w2)
    case (Cons e' later)
    then obtain q3 w3 where s: "upload_step L C (q2, w2) e' (q3, w3)" and r: "upload_trace L C (q3, w3) later (q', w')"
      by (auto simp: upload_trace_Cons)
    note ok3 = run_ok_step [OF s r Cons.prems(2)]
    have settled: "the_job q3 i job_settled"
      by (rule settled_step [OF s ok3(2) _ Cons.prems(3)]) (use Cons.prems(2) in \<open>simp add: run_ok_def\<close>)
    have "\<not> (\<exists>token now expires. e' \<in> {JobClaimed i token now expires, RetryPlanned i token, OutcomeUncertain i token})"
    proof
      assume "\<exists>token now expires. e' \<in> {JobClaimed i token now expires, RetryPlanned i token, OutcomeUncertain i token}"
      then obtain token now expires where e': "e' = JobClaimed i token now expires \<or> e' = RetryPlanned i token \<or>
          e' = OutcomeUncertain i token" by auto
      have snd: "queue_sound L q2" "ids_apart (q2, w2)" using Cons.prems(2) by (auto simp: run_ok_def)
      have "\<exists>j\<in>set (uq_jobs q2). uj_upload_job_id j = i \<and> (is_claimable (uj_queue_state j) \<or> uj_claim_token j \<noteq> None)"
        using e' claim_holds(2) [of L C q2 w2 i token now expires] release_needs_claim [OF s, of i token] s snd(2)
        unfolding may_claim_def by blast
      then obtain j where j: "j \<in> set (uq_jobs q2)" "uj_upload_job_id j = i" "is_claimable (uj_queue_state j) \<or> uj_claim_token j \<noteq> None"
        by blast
      then have "job_settled j" "uj_claim_token j \<noteq> None \<longrightarrow> uj_queue_state j = QsRunning"
        using Cons.prems(3) snd(1) sound_claim [of L j] by (simp_all add: the_job_def queue_sound_def list_all_iff)
      with j(3) show False by (auto simp: job_settled_def is_claimable_def)
    qed
    with Cons.IH [OF r ok3(1) settled] show ?case by simp
  qed simp
qed

theorem settled_job_stays_settled_witness:
  "\<exists>before q' w'. upload_trace (sample_libs []) sample_chrono (upload_queue_new [upload_site], world_at 10 0)
     (before @ JobCompleted 10 # []) (q', w') \<and> the_job q' 10 job_settled"
proof -
  have t: "upload_trace (sample_libs []) sample_chrono (upload_queue_new [upload_site], world_at 10 0)
     ([JobCreated upload_0, JobClaimed 10 11 5 60000000005, LeasesRecovered 60000000005,
      JobClaimed 10 12 60000000006 120000000006] @ JobCompleted 10 # []) (upload_queue_of [upload_4], world_at 13 2)"
    unfolding append.simps by (rule upload_trace.step, rule upload_sample_steps)+ (rule upload_trace.done_)
  have s: "the_job (upload_queue_of [upload_4]) 10 job_settled"
    using settled_job_stays_settled [OF t upload_sample_world, of 10] by simp
  show ?thesis by (rule exI, rule exI, rule exI, rule conjI [OF t s])
qed

section \<open>Keys\<close>

text \<open>How identifiers are printed: never empty, and without the separators.\<close>

definition uuid_text_ok :: "libs \<Rightarrow> bool" where
  "uuid_text_ok L = (inj (lib_show_uuid L) \<and>
     (\<forall>u. lib_show_uuid L u \<noteq> [] \<and> CHR '','' \<notin> set (lib_show_uuid L u) \<and> CHR '':'' \<notin> set (lib_show_uuid L u)))"

lemma split_comma: "CHR '','' \<notin> set a \<Longrightarrow> split_at (CHR '','') (a @ '','' @ b) = Some (a, b)"
  using split_at_first [of "CHR '',''" a b] by simp

lemma no_comma: "CHR '','' \<notin> set a \<Longrightarrow> split_at (CHR '','') a = None"
  by (simp add: split_at_def)

lemma joined_Cons: "joined sep (s # ss) = (if ss = [] then s else s @ sep @ joined sep ss)"
  by (cases ss) simp_all

lemma joined_inj:
  assumes "list_all (\<lambda>s. s \<noteq> [] \<and> CHR '','' \<notin> set s) xs" and "list_all (\<lambda>s. s \<noteq> [] \<and> CHR '','' \<notin> set s) ys"
    and "joined '','' xs = joined '','' ys"
  shows "xs = ys"
  using assms
proof (induction xs arbitrary: ys)
  case Nil
  then show ?case by (cases ys) (auto simp: joined_Cons split: if_splits)
next
  case (Cons x xs)
  then obtain y ys' where ys: "ys = y # ys'" by (cases ys) (auto simp: joined_Cons split: if_splits)
  have c: "CHR '','' \<notin> set x" "CHR '','' \<notin> set y" using Cons.prems(1,2) by (simp_all add: ys)
  have eq: "split_at (CHR '','') (joined '','' (x # xs)) = split_at (CHR '','') (joined '','' (y # ys'))"
    using Cons.prems(3) ys by simp
  show ?case
  proof (cases "xs = [] \<or> ys' = []")
    case True
    with eq c have "xs = [] \<and> ys' = []" by (auto simp: joined_Cons split_comma no_comma simp del: append_Cons split: if_splits)
    with Cons.prems(3) show ?thesis by (simp add: ys)
  next
    case False
    with eq c have "x = y" "joined '','' xs = joined '','' ys'"
      by (simp_all add: joined_Cons split_comma del: append_Cons)
    with Cons.IH [of ys'] Cons.prems(1,2) show ?thesis by (simp add: ys)
  qed
qed

lemma last_separator:
  fixes c :: char
  assumes "a @ c # x = b @ c # y" and "c \<notin> set x" and "c \<notin> set y"
  shows "a = b \<and> x = y"
proof -
  have "split_at c (rev x @ c # rev a) = split_at c (rev y @ c # rev b)"
    using arg_cong [OF assms(1), of rev] by simp
  with assms(2,3) show ?thesis by (simp add: split_at_first)
qed

lemma joined_chars: "c \<in> set (joined sep ss) \<Longrightarrow> c \<in> set sep \<or> (\<exists>s\<in>set ss. c \<in> set s)"
  by (induction sep ss rule: joined.induct) auto

text \<open>
  The key of an upload identifies what is uploaded: two uploads have the same key exactly
  when they go to the same provider from the same logbook with the same contacts, in
  whatever order these are listed.
\<close>

theorem upload_key_identifies:
  assumes "uuid_text_ok L"
  shows "upload_idempotency_key L p lb ids = upload_idempotency_key L p' lb' ids' \<longleftrightarrow>
    p = p' \<and> lb = lb' \<and> mset ids = mset ids'"
proof
  assume eq: "upload_idempotency_key L p lb ids = upload_idempotency_key L p' lb' ids'"
  have ok: "inj (lib_show_uuid L)" "\<And>u. lib_show_uuid L u \<noteq> []" "\<And>u. CHR '','' \<notin> set (lib_show_uuid L u)"
    "\<And>u. CHR '':'' \<notin> set (lib_show_uuid L u)"
    using assms by (auto simp: uuid_text_ok_def)
  have nc: "CHR '':'' \<notin> set (joined '','' (map (lib_show_uuid L) (sort is)))" for "is"
    using joined_chars [of "CHR '':''" "'',''" "map (lib_show_uuid L) (sort is)"] ok(4) by auto
  from eq have "(p @ '':'' @ lib_show_uuid L lb) @ CHR '':'' # joined '','' (map (lib_show_uuid L) (sort ids)) =
      (p' @ '':'' @ lib_show_uuid L lb') @ CHR '':'' # joined '','' (map (lib_show_uuid L) (sort ids'))"
    by (simp add: upload_idempotency_key_def)
  from last_separator [OF this nc nc] have front: "p @ CHR '':'' # lib_show_uuid L lb = p' @ CHR '':'' # lib_show_uuid L lb'"
    and back_: "joined '','' (map (lib_show_uuid L) (sort ids)) = joined '','' (map (lib_show_uuid L) (sort ids'))" by simp_all
  from last_separator [OF front ok(4) ok(4)] ok(1) have "p = p'" "lb = lb'" by (auto dest: injD)
  moreover have "map (lib_show_uuid L) (sort ids) = map (lib_show_uuid L) (sort ids')"
    by (rule joined_inj [OF _ _ back_]) (use ok(2,3) in \<open>simp_all add: list_all_iff\<close>)
  then have "sort ids = sort ids'" using ok(1) by (simp add: inj_map_eq_map)
  then have "mset ids = mset ids'" by (metis mset_sort)
  ultimately show "p = p' \<and> lb = lb' \<and> mset ids = mset ids'" by simp
next
  assume "p = p' \<and> lb = lb' \<and> mset ids = mset ids'"
  moreover from this have "sort ids = sort ids'" by (simp add: properties_for_sort)
  ultimately show "upload_idempotency_key L p lb ids = upload_idempotency_key L p' lb' ids'"
    by (simp add: upload_idempotency_key_def)
qed

theorem upload_key_identifies_witness:
  "upload_idempotency_key ((sample_libs [])\<lparr>lib_show_uuid := (\<lambda>u. ''u'' @ unary (CHR ''1'') (unat u))\<rparr>) ''lotw'' 7 [3, 1, 2] =
   upload_idempotency_key ((sample_libs [])\<lparr>lib_show_uuid := (\<lambda>u. ''u'' @ unary (CHR ''1'') (unat u))\<rparr>) ''lotw'' 7 [1, 2, 3]"
proof -
  have "uuid_text_ok ((sample_libs [])\<lparr>lib_show_uuid := (\<lambda>u. ''u'' @ unary (CHR ''1'') (unat u))\<rparr>)"
    by (auto simp: uuid_text_ok_def inj_on_def unary_def simp flip: word_unat_eq_iff)
  from upload_key_identifies [OF this, of "''lotw''" 7 "[3, 1, 2]" "''lotw''" 7 "[1, 2, 3]"] show ?thesis by simp
qed

end
