(* ===== verification/Contest.thy ===== *)
theory Contest
  imports Lan_Trust Text
begin

text \<open>
  Contest definitions (\<open>ham-core/src/contest.rs\<close>): the rules of a contest as data, the check
  of a definition and of a pack of them, signed packs, the catalogue that keeps the highest
  rule version of each contest, and the normal form of an exchange.
\<close>

definition CONTEST_RULE_SCHEMA_VERSION :: "32 word" where "CONTEST_RULE_SCHEMA_VERSION = 1"
definition CONTEST_DEFINITION_PACK_KIND :: string where
  "CONTEST_DEFINITION_PACK_KIND = ''ke8ygw.contest.definition-pack''"

datatype contest_error =
    CeInvalidJson string
  | CeUnsupportedPackKind string string
  | CeUnsupportedSchemaVersion "32 word" "32 word"
  | CeDuplicateContestId string
  | CeInvalidDefinition string string
  | CeEmptyPack string
  | CeUnknownContest string
  | CeSignatureRequired
  | CeUnknownSigningKey string
  | CeSignatureInvalid
  | CeDigestMismatch
  | CeMissingExchangeField string
  | CeUnknownExchangeField string
  | CeInvalidExchangeField string string

section \<open>Definitions\<close>

datatype exchange_direction = ExSent | ExReceived

text \<open>The bounds of an integer field are of type \<open>i64\<close>, as are points.\<close>

datatype exchange_kind =
    FkSerial
  | FkRst
  | FkCallsign
  | FkGrid
  | FkText nat
  | FkInteger int int
  | FkChoice "string list"

record exchange_field =
  xf_key :: string
  xf_label :: string
  xf_kind :: exchange_kind
  xf_required :: bool

record contest_exchange =
  cx_sent :: "exchange_field list"
  cx_received :: "exchange_field list"

definition exchange_fields :: "contest_exchange \<Rightarrow> exchange_direction \<Rightarrow> exchange_field list" where
  "exchange_fields x d = (case d of ExSent \<Rightarrow> cx_sent x | ExReceived \<Rightarrow> cx_received x)"

definition exchange_field_of :: "contest_exchange \<Rightarrow> exchange_direction \<Rightarrow> string \<Rightarrow> exchange_field option" where
  "exchange_field_of x d k = List.find (\<lambda>f. xf_key f = k) (exchange_fields x d)"

record contest_categories =
  cc_operator :: "string list"
  cc_transmitter :: "string list"
  cc_power :: "string list"
  cc_band :: "string list"
  cc_mode :: "string list"
  cc_assisted :: "string list"
  cc_overlay :: "string list"

datatype duplicate_scope = DupPerContest | DupPerBand | DupPerMode | DupPerBandMode

record duplicate_rule =
  du_scope :: duplicate_scope
  du_repeat_after_minutes :: "32 word option"

definition upper_trim :: "string \<Rightarrow> string" where
  "upper_trim s = to_ascii_uppercase (trim s)"

definition duplicate_key :: "duplicate_rule \<Rightarrow> string \<Rightarrow> string \<Rightarrow> string \<Rightarrow> string" where
  "duplicate_key r callsign band mode =
     (let callsign = upper_trim callsign; band = upper_trim band; mode = upper_trim mode in
      case du_scope r of
        DupPerContest \<Rightarrow> callsign
      | DupPerBand \<Rightarrow> callsign @ ''|'' @ band
      | DupPerMode \<Rightarrow> callsign @ ''|'' @ mode
      | DupPerBandMode \<Rightarrow> callsign @ ''|'' @ band @ ''|'' @ mode)"

datatype serial_policy = SerialNone | SerialPerContest | SerialPerBand | SerialPerBandMode

definition serial_sequence_key :: "serial_policy \<Rightarrow> string \<Rightarrow> string \<Rightarrow> string option" where
  "serial_sequence_key p band mode =
     (let band = upper_trim band; mode = upper_trim mode in
      case p of
        SerialNone \<Rightarrow> None
      | SerialPerContest \<Rightarrow> Some ''contest''
      | SerialPerBand \<Rightarrow> Some (''band|'' @ band)
      | SerialPerBandMode \<Rightarrow> Some (''band|'' @ band @ ''|mode|'' @ mode))"

datatype multiplier_source = MsReceivedExchangeField string | MsDxccEntity | MsGridSquare nat

datatype multiplier_scope = MultPerContest | MultPerBand | MultPerMode | MultPerBandMode

record multiplier_rule =
  mu_key :: string
  mu_label :: string
  mu_source :: multiplier_source
  mu_scope :: multiplier_scope

definition matches_any :: "string list \<Rightarrow> string \<Rightarrow> bool" where
  "matches_any allowed value =
     (allowed = [] \<or> list_ex (\<lambda>candidate. eq_ignore_ascii_case candidate (trim value)) allowed)"

record point_rule =
  pr_bands :: "string list"
  pr_modes :: "string list"
  pr_points :: int

definition point_rule_matches :: "string \<Rightarrow> string \<Rightarrow> point_rule \<Rightarrow> bool" where
  "point_rule_matches band mode r = (matches_any (pr_bands r) band \<and> matches_any (pr_modes r) mode)"

record contest_scoring =
  sc_default_points :: int
  sc_rules :: "point_rule list"

definition points_for :: "contest_scoring \<Rightarrow> string \<Rightarrow> string \<Rightarrow> int" where
  "points_for s band mode =
     (case List.find (point_rule_matches band mode) (sc_rules s) of
        None \<Rightarrow> sc_default_points s | Some r \<Rightarrow> pr_points r)"

record contest_window =
  cw_starts_at :: datetime
  cw_ends_at :: datetime

definition window_contains :: "datetime \<Rightarrow> contest_window \<Rightarrow> bool" where
  "window_contains at w = (cw_starts_at w \<le> at \<and> at \<le> cw_ends_at w)"

record contest_export_profile =
  ep_cabrillo_name :: string
  ep_cabrillo_version :: string

record contest_definition =
  cd_contest_id :: string
  cd_name :: string
  cd_sponsor :: string
  cd_rule_version :: "32 word"
  cd_rule_source :: string
  cd_bands :: "string list"
  cd_modes :: "string list"
  cd_time_windows :: "contest_window list"
  cd_max_operating_minutes :: "32 word option"
  cd_exchange :: contest_exchange
  cd_categories :: contest_categories
  cd_duplicate_rule :: duplicate_rule
  cd_serial_policy :: serial_policy
  cd_multipliers :: "multiplier_rule list"
  cd_scoring :: contest_scoring
  cd_export :: contest_export_profile

definition is_active_at :: "contest_definition \<Rightarrow> datetime \<Rightarrow> bool" where
  "is_active_at d at = (cd_time_windows d = [] \<or> list_ex (window_contains at) (cd_time_windows d))"

definition supports_band :: "contest_definition \<Rightarrow> string \<Rightarrow> bool" where
  "supports_band d band = matches_any (cd_bands d) band"

definition supports_mode :: "contest_definition \<Rightarrow> string \<Rightarrow> bool" where
  "supports_mode d mode = matches_any (cd_modes d) mode"

section \<open>Exchanges\<close>

fun grid_char :: "nat \<Rightarrow> char \<Rightarrow> char option" where
  "grid_char i c =
     (if i \<in> {0, 1} then (if is_ascii_alphabetic c then Some (ascii_upper_char c) else None)
      else if i \<in> {4, 5} then (if is_ascii_alphabetic c then Some (ascii_lower_char c) else None)
      else if is_ascii_digit c then Some c else None)"

fun grid_chars :: "nat \<Rightarrow> string \<Rightarrow> string option" where
  "grid_chars i [] = Some []"
| "grid_chars i (c # s) =
     (case grid_char i c of None \<Rightarrow> None | Some c' \<Rightarrow> map_option ((#) c') (grid_chars (Suc i) s))"

definition normalize_grid :: "string \<Rightarrow> string option" where
  "normalize_grid value =
     (let trimmed = trim value in if length trimmed \<notin> {4, 6, 8} then None else grid_chars 0 trimmed)"

fun join_with :: "string \<Rightarrow> string list \<Rightarrow> string" where
  "join_with sep [] = []"
| "join_with sep [s] = s"
| "join_with sep (s # ss) = s @ sep @ join_with sep ss"

definition report_char :: "char \<Rightarrow> bool" where
  "report_char c = (is_ascii_digit c \<or> c = CHR ''A'')"

definition callsign_char :: "char \<Rightarrow> bool" where
  "callsign_char c = (is_ascii_alphanumeric c \<or> c = CHR ''/'')"

definition normalize_kind :: "exchange_kind \<Rightarrow> string \<Rightarrow> string + string" where
  "normalize_kind k value =
     (case k of
        FkSerial \<Rightarrow>
          (case parse_u32 value of
             None \<Rightarrow> Inl ''a serial must be a whole number''
           | Some n \<Rightarrow> if n = 0 then Inl ''a serial must be greater than zero'' else Inr (show_nat n))
      | FkRst \<Rightarrow>
          (let upper = to_ascii_uppercase value in
           if 2 \<le> length upper \<and> length upper \<le> 4 \<and> list_all report_char upper then Inr upper
           else Inl ''a signal report must be 2 to 4 report characters'')
      | FkCallsign \<Rightarrow>
          (let upper = to_ascii_uppercase value in
           if 3 \<le> length upper \<and> list_all callsign_char upper then Inr upper
           else Inl ''a callsign must be alphanumeric with optional `/`'')
      | FkGrid \<Rightarrow> ok_or ''a grid square must be 4, 6, or 8 characters'' (normalize_grid value)
      | FkText max_len \<Rightarrow>
          if char_count value > max_len then Inl (''text must be '' @ show_nat max_len @ '' characters or fewer'')
          else Inr value
      | FkInteger lo hi \<Rightarrow>
          (case parse_i64 value of
             None \<Rightarrow> Inl ''a whole number is required''
           | Some i \<Rightarrow>
               if i < lo \<or> i > hi then Inl (''value must be between '' @ show_int lo @ '' and '' @ show_int hi)
               else Inr (show_int i))
      | FkChoice options \<Rightarrow>
          ok_or (''value must be one of: '' @ join_with '', '' options)
            (List.find (\<lambda>candidate. eq_ignore_ascii_case candidate value) options))"

definition normalize_exchange_value :: "exchange_field \<Rightarrow> string \<Rightarrow> contest_error + string" where
  "normalize_exchange_value f value = map_err (CeInvalidExchangeField (xf_key f)) (normalize_kind (xf_kind f) value)"

type_synonym exchange_values = "(string, string) btmap"

text \<open>The loop over the declared fields, after every key has been found declared.\<close>

fun normalize_fields :: "exchange_values \<Rightarrow> exchange_field list \<Rightarrow> exchange_values \<Rightarrow> contest_error + exchange_values" where
  "normalize_fields values [] acc = Inr acc"
| "normalize_fields values (f # fs) acc =
     (case map_option trim (map_of values (xf_key f)) of
        None \<Rightarrow>
          if xf_required f then Inl (CeMissingExchangeField (xf_key f)) else normalize_fields values fs acc
      | Some value \<Rightarrow>
          if value = [] then
            (if xf_required f then Inl (CeMissingExchangeField (xf_key f)) else normalize_fields values fs acc)
          else and_then (normalize_exchange_value f value) (\<lambda>v. normalize_fields values fs (bt_insert (xf_key f) v acc)))"

definition validate_exchange ::
    "contest_definition \<Rightarrow> exchange_direction \<Rightarrow> exchange_values \<Rightarrow> contest_error + exchange_values" where
  "validate_exchange d dir values =
     (let declared = exchange_fields (cd_exchange d) dir in
      case List.find (\<lambda>k. \<not> list_ex (\<lambda>f. xf_key f = k) declared) (hm_keys values) of
        Some k \<Rightarrow> Inl (CeUnknownExchangeField k)
      | None \<Rightarrow> normalize_fields values declared [])"

section \<open>Checking a definition\<close>

definition check_kind :: "exchange_field \<Rightarrow> string + unit" where
  "check_kind f =
     (case xf_kind f of
        FkText max_len \<Rightarrow> ensure (max_len \<noteq> 0) (''text exchange field `'' @ xf_key f @ ''` needs a non-zero max_len'')
      | FkInteger lo hi \<Rightarrow> ensure (\<not> lo > hi) (''integer exchange field `'' @ xf_key f @ ''` has an inverted range'')
      | FkChoice options \<Rightarrow> ensure (options \<noteq> []) (''choice exchange field `'' @ xf_key f @ ''` needs at least one option'')
      | _ \<Rightarrow> Inr ())"

text \<open>\<open>seen\<close> holds the keys of this direction met so far: the program's set pairs them with the
  direction.\<close>

fun check_fields :: "string list \<Rightarrow> exchange_field list \<Rightarrow> string + unit" where
  "check_fields seen [] = Inr ()"
| "check_fields seen (f # fs) =
     (if trim (xf_key f) = [] then Inl ''exchange field keys must not be blank''
      else if xf_key f \<in> set seen then Inl (''exchange field `'' @ xf_key f @ ''` is declared twice'')
      else and_then (check_kind f) (\<lambda>_. check_fields (xf_key f # seen) fs))"

definition check_direction :: "exchange_field list \<Rightarrow> string + unit" where
  "check_direction fs =
     (if fs = [] then Inl ''both exchange directions require at least one field'' else check_fields [] fs)"

definition declares_serial :: "contest_exchange \<Rightarrow> bool" where
  "declares_serial x = list_ex (\<lambda>f. xf_kind f = FkSerial) (cx_sent x @ cx_received x)"

definition check_serial :: "contest_definition \<Rightarrow> string + unit" where
  "check_serial d =
     (let serial = declares_serial (cd_exchange d) in
      if cd_serial_policy d = SerialNone \<and> serial
      then Inl ''the exchange declares a serial field but the serial policy is none''
      else if \<not> serial \<and> cd_serial_policy d \<noteq> SerialNone
      then Inl ''the serial policy allocates serials but no exchange field receives them''
      else Inr ())"

definition check_source :: "contest_exchange \<Rightarrow> multiplier_rule \<Rightarrow> string + unit" where
  "check_source x m =
     (case mu_source m of
        MsReceivedExchangeField k \<Rightarrow>
          ensure (exchange_field_of x ExReceived k \<noteq> None)
            (''multiplier `'' @ mu_key m @ ''` reads received exchange field `'' @ k @ ''`, which is not declared'')
      | MsGridSquare precision \<Rightarrow>
          ensure (\<not> (precision = 0 \<or> precision mod 2 \<noteq> 0 \<or> precision > 8))
            (''multiplier `'' @ mu_key m @ ''` needs an even grid precision between 2 and 8'')
      | MsDxccEntity \<Rightarrow> Inr ())"

fun check_multipliers :: "contest_exchange \<Rightarrow> string list \<Rightarrow> multiplier_rule list \<Rightarrow> string + unit" where
  "check_multipliers x seen [] = Inr ()"
| "check_multipliers x seen (m # ms) =
     (if mu_key m \<in> set seen then Inl (''multiplier `'' @ mu_key m @ ''` is declared twice'')
      else and_then (check_source x m) (\<lambda>_. check_multipliers x (mu_key m # seen) ms))"

definition check_point_rule :: "contest_definition \<Rightarrow> point_rule \<Rightarrow> string + unit" where
  "check_point_rule d r =
     and_then (try_all (\<lambda>band. ensure (supports_band d band)
         (''a scoring rule references band `'' @ band @ ''`, which the contest does not use'')) (pr_bands r))
       (\<lambda>_. try_all (\<lambda>mode. ensure (supports_mode d mode)
         (''a scoring rule references mode `'' @ mode @ ''`, which the contest does not use'')) (pr_modes r))"

definition definition_reason :: "contest_definition \<Rightarrow> string + unit" where
  "definition_reason d =
     (if trim (cd_contest_id d) = [] then Inl ''contest_id must not be blank''
      else if trim (cd_name d) = [] then Inl ''name must not be blank''
      else if cd_rule_version d = 0 then Inl ''rule_version must be greater than zero''
      else if cd_bands d = [] then Inl ''at least one band is required''
      else if cd_modes d = [] then Inl ''at least one mode is required''
      else
        and_then (try_all (\<lambda>w. ensure (\<not> cw_ends_at w \<le> cw_starts_at w)
            ''every time window must end after it starts'') (cd_time_windows d)) (\<lambda>_.
        and_then (check_direction (cx_sent (cd_exchange d))) (\<lambda>_.
        and_then (check_direction (cx_received (cd_exchange d))) (\<lambda>_.
        and_then (check_serial d) (\<lambda>_.
        and_then (check_multipliers (cd_exchange d) [] (cd_multipliers d)) (\<lambda>_.
        and_then (try_all (check_point_rule d) (sc_rules (cd_scoring d))) (\<lambda>_.
          ensure (trim (ep_cabrillo_name (cd_export d)) \<noteq> []) ''export.cabrillo_name must not be blank'')))))))"

definition validate_self :: "contest_definition \<Rightarrow> contest_error + unit" where
  "validate_self d = map_err (CeInvalidDefinition (cd_contest_id d)) (definition_reason d)"

section \<open>Packs\<close>

record contest_pack =
  pk_kind :: string
  pk_schema_version :: "32 word"
  pk_pack_id :: string
  pk_pack_version :: "32 word"
  pk_generated_at :: datetime
  pk_definitions :: "contest_definition list"

definition pack_definition :: "contest_pack \<Rightarrow> string \<Rightarrow> contest_definition option" where
  "pack_definition p i = List.find (\<lambda>d. cd_contest_id d = i) (pk_definitions p)"

fun check_definitions :: "string list \<Rightarrow> contest_definition list \<Rightarrow> contest_error + unit" where
  "check_definitions seen [] = Inr ()"
| "check_definitions seen (d # ds) =
     (if cd_contest_id d \<in> set seen then Inl (CeDuplicateContestId (cd_contest_id d))
      else and_then (validate_self d) (\<lambda>_. check_definitions (cd_contest_id d # seen) ds))"

definition pack_validate :: "contest_pack \<Rightarrow> contest_error + unit" where
  "pack_validate p =
     (if pk_kind p \<noteq> CONTEST_DEFINITION_PACK_KIND
      then Inl (CeUnsupportedPackKind (pk_kind p) CONTEST_DEFINITION_PACK_KIND)
      else if pk_schema_version p \<noteq> CONTEST_RULE_SCHEMA_VERSION
      then Inl (CeUnsupportedSchemaVersion (pk_schema_version p) CONTEST_RULE_SCHEMA_VERSION)
      else if pk_definitions p = [] then Inl (CeEmptyPack (pk_pack_id p))
      else check_definitions [] (pk_definitions p))"

datatype pack_signature_algorithm = HmacSha256

record pack_signature =
  ps_key_id :: string
  ps_algorithm :: pack_signature_algorithm
  ps_digest :: string
  ps_signature :: string

record pack_envelope =
  pe_pack :: contest_pack
  pe_signature :: "pack_signature option"

text \<open>What is not in the repository: the JSON of a pack (\<open>serde_json\<close>, with
  \<open>deny_unknown_fields\<close>), SHA-256 and HMAC-SHA-256 as bytes.\<close>

record contest_libs =
  kl_canonical :: "contest_pack \<Rightarrow> string"
  kl_parse_pack :: "string \<Rightarrow> string + contest_pack"
  kl_parse_envelope :: "string \<Rightarrow> string + pack_envelope"
  kl_sha256 :: "string \<Rightarrow> string"
  kl_hmac :: "string \<Rightarrow> string \<Rightarrow> string"

definition hex_lower :: "string \<Rightarrow> string" where
  "hex_lower bytes = concat (map (\<lambda>c. [hex_digit (of_char c div 16), hex_digit (of_char c mod 16)]) bytes)"

definition pack_digest :: "contest_libs \<Rightarrow> contest_pack \<Rightarrow> string" where
  "pack_digest K p = hex_lower (kl_sha256 K (kl_canonical K p))"

unbundle bit_operations_syntax

definition same_bytes :: "string \<Rightarrow> string \<Rightarrow> bool" where
  "same_bytes left right =
     (if length left \<noteq> length right then False
      else fold (\<lambda>(a, b) accumulator. accumulator OR (byte a XOR byte b)) (zip left right) 0 = 0)"

record pack_trust =
  pt_keys :: "(string, string) hmap"
  pt_allow_unsigned :: bool

definition pack_trust_new :: pack_trust where
  "pack_trust_new = \<lparr>pt_keys = [], pt_allow_unsigned = False\<rparr>"

definition allowing_unsigned :: pack_trust where
  "allowing_unsigned = \<lparr>pt_keys = [], pt_allow_unsigned = True\<rparr>"

definition with_key :: "string \<Rightarrow> string \<Rightarrow> pack_trust \<Rightarrow> pack_trust" where
  "with_key key_id secret t = t\<lparr>pt_keys := hm_insert key_id secret (pt_keys t)\<rparr>"

definition sign_canonical_bytes :: "contest_libs \<Rightarrow> string \<Rightarrow> string \<Rightarrow> string" where
  "sign_canonical_bytes K secret canonical = hex_lower (kl_hmac K secret canonical)"

definition sign_definition_pack :: "contest_libs \<Rightarrow> contest_pack \<Rightarrow> string \<Rightarrow> string \<Rightarrow> pack_signature" where
  "sign_definition_pack K p key_id secret =
     (let canonical = kl_canonical K p in
      \<lparr>ps_key_id = key_id, ps_algorithm = HmacSha256, ps_digest = hex_lower (kl_sha256 K canonical),
       ps_signature = sign_canonical_bytes K secret canonical\<rparr>)"

definition trust_verify :: "contest_libs \<Rightarrow> pack_trust \<Rightarrow> contest_pack \<Rightarrow> pack_signature option \<Rightarrow> contest_error + unit" where
  "trust_verify K t p signature =
     (case signature of
        None \<Rightarrow> if pt_allow_unsigned t then Inr () else Inl CeSignatureRequired
      | Some s \<Rightarrow>
          and_then (ok_or (CeUnknownSigningKey (ps_key_id s)) (hm_get (pt_keys t) (ps_key_id s))) (\<lambda>secret.
            let canonical = kl_canonical K p in
            if \<not> same_bytes (hex_lower (kl_sha256 K canonical)) (ps_digest s) then Inl CeDigestMismatch
            else if \<not> same_bytes (sign_canonical_bytes K secret canonical) (ps_signature s) then Inl CeSignatureInvalid
            else Inr ()))"

definition load_definition_pack :: "contest_libs \<Rightarrow> string \<Rightarrow> contest_error + contest_pack" where
  "load_definition_pack K json =
     and_then (map_err CeInvalidJson (kl_parse_pack K json)) (\<lambda>p. and_then (pack_validate p) (\<lambda>_. Inr p))"

definition load_signed_definition_pack :: "contest_libs \<Rightarrow> string \<Rightarrow> pack_trust \<Rightarrow> contest_error + contest_pack" where
  "load_signed_definition_pack K json t =
     and_then (map_err CeInvalidJson (kl_parse_envelope K json)) (\<lambda>e.
       and_then (trust_verify K t (pe_pack e) (pe_signature e)) (\<lambda>_.
         and_then (pack_validate (pe_pack e)) (\<lambda>_. Inr (pe_pack e))))"

text \<open>\<open>expect\<close> panics on an error.\<close>

definition builtin_definition_pack :: "contest_libs \<Rightarrow> string \<Rightarrow> unit fault + contest_pack" where
  "builtin_definition_pack K builtin_json = map_err (\<lambda>_. Panicked) (load_definition_pack K builtin_json)"

section \<open>The catalogue\<close>

datatype contest_origin = OriginBuiltin | OriginPack string "32 word"

record catalog_entry =
  ct_definition :: contest_definition
  ct_origin :: contest_origin

type_synonym contest_catalog = "(string, catalog_entry) btmap"

text \<open>One definition of a pack; the identifiers applied are collected in order.\<close>

definition install_definition ::
    "contest_origin \<Rightarrow> contest_definition \<Rightarrow> string list \<times> contest_catalog \<Rightarrow> string list \<times> contest_catalog" where
  "install_definition origin d =
     (\<lambda>(applied, entries).
       if (case map_of entries (cd_contest_id d) of
             None \<Rightarrow> True
           | Some e \<Rightarrow> cd_rule_version d > cd_rule_version (ct_definition e))
       then (applied @ [cd_contest_id d],
             bt_insert (cd_contest_id d) \<lparr>ct_definition = d, ct_origin = origin\<rparr> entries)
       else (applied, entries))"

definition catalog_install :: "contest_origin \<Rightarrow> contest_pack \<Rightarrow> contest_catalog \<Rightarrow> string list \<times> contest_catalog" where
  "catalog_install origin p entries = fold (install_definition origin) (pk_definitions p) ([], entries)"

definition install_pack :: "contest_pack \<Rightarrow> contest_catalog \<Rightarrow> string list \<times> contest_catalog" where
  "install_pack p = catalog_install (OriginPack (pk_pack_id p) (pk_pack_version p)) p"

definition with_builtin :: "contest_libs \<Rightarrow> string \<Rightarrow> unit fault + contest_catalog" where
  "with_builtin K builtin_json =
     and_then (builtin_definition_pack K builtin_json) (\<lambda>p. Inr (snd (catalog_install OriginBuiltin p [])))"

definition catalog_get :: "contest_catalog \<Rightarrow> string \<Rightarrow> contest_error + catalog_entry" where
  "catalog_get c i = ok_or (CeUnknownContest i) (map_of c i)"

definition catalog_definition :: "contest_catalog \<Rightarrow> string \<Rightarrow> contest_error + contest_definition" where
  "catalog_definition c i = and_then (catalog_get c i) (\<lambda>e. Inr (ct_definition e))"

definition contest_ids :: "contest_catalog \<Rightarrow> string list" where
  "contest_ids c = hm_keys c"

definition active_at :: "contest_catalog \<Rightarrow> datetime \<Rightarrow> catalog_entry list" where
  "active_at c at = filter (\<lambda>e. is_active_at (ct_definition e) at) (hm_values c)"

definition json_origin :: "contest_origin \<Rightarrow> json" where
  "json_origin origin =
     (case origin of
        OriginBuiltin \<Rightarrow> JString ''builtin''
      | OriginPack i v \<Rightarrow> json_object [(''pack'',
          json_object [(''pack_id'', JString i), (''pack_version'', JNumber (PosInt (ucast v)))])])"

definition catalog_summary :: "contest_catalog \<Rightarrow> json" where
  "catalog_summary c =
     (let definitions = map (\<lambda>e. json_object
            [(''contest_id'', JString (cd_contest_id (ct_definition e))),
             (''name'', JString (cd_name (ct_definition e))),
             (''rule_version'', JNumber (PosInt (ucast (cd_rule_version (ct_definition e))))),
             (''origin'', json_origin (ct_origin e))]) (hm_values c)
      in json_object
           [(''schema_version'', JNumber (PosInt (ucast CONTEST_RULE_SCHEMA_VERSION))),
            (''definition_count'', json_nat (length definitions)),
            (''definitions'', JArray definitions)])"

section \<open>The built-in pack\<close>

definition field_of_kind :: "string \<Rightarrow> string \<Rightarrow> exchange_kind \<Rightarrow> exchange_field" where
  "field_of_kind k label kind = \<lparr>xf_key = k, xf_label = label, xf_kind = kind, xf_required = True\<rparr>"

definition generic_serial :: contest_definition where
  "generic_serial =
     \<lparr>cd_contest_id = ''generic-serial'', cd_name = ''Generic Serial Exchange'', cd_sponsor = ''KE8YGW Logger'',
      cd_rule_version = 1,
      cd_rule_source = ''Built-in template for events that exchange a signal report and a serial number.'',
      cd_bands = [''160m'', ''80m'', ''40m'', ''20m'', ''15m'', ''10m'', ''6m'', ''2m'', ''70cm''],
      cd_modes = [''CW'', ''PH'', ''DG''], cd_time_windows = [], cd_max_operating_minutes = None,
      cd_exchange = \<lparr>
        cx_sent = [field_of_kind ''rst_sent'' ''RST Sent'' FkRst, field_of_kind ''serial_sent'' ''Serial Sent'' FkSerial],
        cx_received = [field_of_kind ''rst_received'' ''RST Received'' FkRst,
          field_of_kind ''serial_received'' ''Serial Received'' FkSerial]\<rparr>,
      cd_categories = \<lparr>cc_operator = [''SINGLE-OP'', ''MULTI-OP'', ''CHECKLOG''], cc_transmitter = [],
        cc_power = [''HIGH'', ''LOW'', ''QRP''],
        cc_band = [''ALL'', ''160M'', ''80M'', ''40M'', ''20M'', ''15M'', ''10M''],
        cc_mode = [''CW'', ''SSB'', ''DIGI'', ''MIXED''], cc_assisted = [''ASSISTED'', ''NON-ASSISTED''], cc_overlay = []\<rparr>,
      cd_duplicate_rule = \<lparr>du_scope = DupPerBandMode, du_repeat_after_minutes = None\<rparr>,
      cd_serial_policy = SerialPerContest, cd_multipliers = [],
      cd_scoring = \<lparr>sc_default_points = 1, sc_rules = []\<rparr>,
      cd_export = \<lparr>ep_cabrillo_name = ''GENERIC-SERIAL'', ep_cabrillo_version = ''3.0''\<rparr>\<rparr>"

definition generic_grid :: contest_definition where
  "generic_grid =
     \<lparr>cd_contest_id = ''generic-grid'', cd_name = ''Generic Grid Exchange'', cd_sponsor = ''KE8YGW Logger'',
      cd_rule_version = 1,
      cd_rule_source = ''Built-in template for events that exchange a signal report and a grid square.'',
      cd_bands = [''6m'', ''2m'', ''1.25m'', ''70cm'', ''33cm'', ''23cm''],
      cd_modes = [''CW'', ''PH'', ''DG''], cd_time_windows = [], cd_max_operating_minutes = None,
      cd_exchange = \<lparr>
        cx_sent = [field_of_kind ''rst_sent'' ''RST Sent'' FkRst, field_of_kind ''grid_sent'' ''Grid Sent'' FkGrid],
        cx_received = [field_of_kind ''rst_received'' ''RST Received'' FkRst,
          field_of_kind ''grid_received'' ''Grid Received'' FkGrid]\<rparr>,
      cd_categories = \<lparr>cc_operator = [''SINGLE-OP'', ''MULTI-OP'', ''CHECKLOG''], cc_transmitter = [],
        cc_power = [''HIGH'', ''LOW'', ''QRP''], cc_band = [''ALL'', ''6M'', ''2M'', ''70CM''],
        cc_mode = [''CW'', ''SSB'', ''DIGI'', ''MIXED''], cc_assisted = [], cc_overlay = []\<rparr>,
      cd_duplicate_rule = \<lparr>du_scope = DupPerBandMode, du_repeat_after_minutes = None\<rparr>,
      cd_serial_policy = SerialNone,
      cd_multipliers = [\<lparr>mu_key = ''grid-square'', mu_label = ''Grid Squares'',
        mu_source = MsReceivedExchangeField ''grid_received'', mu_scope = MultPerBand\<rparr>],
      cd_scoring = \<lparr>sc_default_points = 1, sc_rules =
        [\<lparr>pr_bands = [''6m'', ''2m''], pr_modes = [], pr_points = 1\<rparr>,
         \<lparr>pr_bands = [''1.25m'', ''70cm''], pr_modes = [], pr_points = 2\<rparr>,
         \<lparr>pr_bands = [''33cm'', ''23cm''], pr_modes = [], pr_points = 4\<rparr>]\<rparr>,
      cd_export = \<lparr>ep_cabrillo_name = ''GENERIC-GRID'', ep_cabrillo_version = ''3.0''\<rparr>\<rparr>"

definition builtin_pack :: contest_pack where
  "builtin_pack =
     \<lparr>pk_kind = ''ke8ygw.contest.definition-pack'', pk_schema_version = 1, pk_pack_id = ''ke8ygw.builtin.generic'',
      pk_pack_version = 1, pk_generated_at = 1788134400000000000,
      pk_definitions = [generic_serial, generic_grid]\<rparr>"

end
