(* ===== verification/Contest_Facts.thy ===== *)
theory Contest_Facts
  imports Contest Lan_Facts
begin

text \<open>
  Facts about contest definitions: the normal form of exchange values, what a checked definition
  and pack satisfy, signatures, and the catalogue against its specification.
\<close>

section \<open>Characters of normal forms\<close>

lemma plain_alphanumeric: "is_ascii_alphanumeric c \<Longrightarrow> plain c"
  by (auto simp: is_ascii_alphanumeric_def is_ascii_alphabetic_def is_ascii_digit_def plain_def Let_def)

lemma plain_digit: "is_ascii_digit c \<Longrightarrow> plain c"
  by (simp add: plain_alphanumeric is_ascii_alphanumeric_def)

lemma plain_marks: "plain (CHR ''/'')" "plain (CHR ''A'')" "plain hyphen"
  by (simp_all add: plain_def hyphen_def)

lemma upper_alphabetic [simp]: "is_ascii_alphabetic (ascii_upper_char c) = is_ascii_alphabetic c"
  by (auto simp: is_ascii_alphabetic_def ascii_upper_char_def Let_def)

lemma lower_alphabetic [simp]: "is_ascii_alphabetic (ascii_lower_char c) = is_ascii_alphabetic c"
  by (auto simp: is_ascii_alphabetic_def ascii_lower_char_def Let_def)

lemma lower_idem [simp]: "ascii_lower_char (ascii_lower_char c) = ascii_lower_char c"
  by (auto simp: ascii_lower_char_def Let_def)

lemma lower_no_letter:
  "\<not> is_ascii_alphabetic d \<Longrightarrow> ascii_lower_char c = d \<longleftrightarrow> c = d"
  "\<not> is_ascii_alphabetic d \<Longrightarrow> d = ascii_lower_char c \<longleftrightarrow> d = c"
  by (auto simp: ascii_lower_char_def is_ascii_alphabetic_def Let_def)

lemma plain_callsign: "callsign_char c \<Longrightarrow> plain c"
  by (auto simp: callsign_char_def plain_alphanumeric plain_marks)

lemma plain_report: "report_char c \<Longrightarrow> plain c"
  by (auto simp: report_char_def plain_digit plain_marks)

text \<open>Changing the case of letters changes nothing for \<open>trim\<close>.\<close>

lemma prefix_lower:
  "list_all (\<lambda>c. \<not> is_ascii_alphabetic c) w \<Longrightarrow> prefix w (map ascii_lower_char s) \<longleftrightarrow> prefix w s"
proof (induction w arbitrary: s)
  case (Cons c w)
  then show ?case by (cases s) (auto simp: lower_no_letter)
qed simp

lemma strip_one_None: "strip_one ws s = None \<longleftrightarrow> (\<forall>w\<in>set ws. w \<noteq> [] \<longrightarrow> \<not> prefix w s)"
proof -
  have "strip_one ws s = None \<longleftrightarrow> List.find (\<lambda>w. w \<noteq> [] \<and> prefix w s) ws = None"
    by (simp add: strip_one_def split: option.split)
  then show ?thesis by (auto simp: find_None_iff)
qed

lemma strip_one_lower:
  assumes "list_all (list_all (\<lambda>c. \<not> is_ascii_alphabetic c)) ws"
  shows "strip_one ws (map ascii_lower_char s) = None \<longleftrightarrow> strip_one ws s = None"
proof -
  have "prefix w (map ascii_lower_char s) \<longleftrightarrow> prefix w s" if "w \<in> set ws" for w
    using assms that by (auto simp: list_all_iff intro!: prefix_lower)
  then show ?thesis by (simp add: strip_one_None)
qed

lemma trimmed_iff:
  "trim s = s \<longleftrightarrow> strip_one white_space s = None \<and> strip_one (map rev white_space) (rev s) = None"
proof
  assume s: "trim s = s"
  have "strip_one white_space (trim s) = None"
    unfolding trim_def by (rule strip_one_prefix [OF _ trim_end_prefix]) (simp add: trim_start_def trim_start_by_fix)
  moreover have "strip_one (map rev white_space) (rev (trim s)) = None"
    by (simp add: trim_def trim_end_def trim_start_by_fix)
  ultimately show "strip_one white_space s = None \<and> strip_one (map rev white_space) (rev s) = None"
    using s by simp
qed (simp add: trim_def trim_start_def trim_end_def trim_start_by_id)

lemma white_space_no_letters:
  "list_all (list_all (\<lambda>c. \<not> is_ascii_alphabetic c)) white_space"
  "list_all (list_all (\<lambda>c. \<not> is_ascii_alphabetic c)) (map rev white_space)"
  by (simp_all add: white_space_def is_ascii_alphabetic_def)

lemma trimmed_same_case:
  assumes "eq_ignore_ascii_case s t" and "trim t = t"
  shows "trim s = s"
proof -
  have "map ascii_lower_char s = map ascii_lower_char t"
    using assms(1) by (simp add: eq_ignore_ascii_case_def to_ascii_lowercase_def)
  then have m: "map ascii_lower_char s = map ascii_lower_char t" "map ascii_lower_char (rev s) = map ascii_lower_char (rev t)"
    by (simp_all flip: rev_map)
  have "strip_one white_space s = None" "strip_one (map rev white_space) (rev s) = None"
    using strip_one_lower [OF white_space_no_letters(1), of s] strip_one_lower [OF white_space_no_letters(1), of t]
      strip_one_lower [OF white_space_no_letters(2), of "rev s"] strip_one_lower [OF white_space_no_letters(2), of "rev t"]
      m assms(2) [unfolded trimmed_iff] by simp_all
  then show ?thesis unfolding trimmed_iff by blast
qed

lemma same_case_empty: "eq_ignore_ascii_case s t \<Longrightarrow> s = [] \<longleftrightarrow> t = []"
  by (auto simp: eq_ignore_ascii_case_def to_ascii_lowercase_def)

lemma same_case_trans: "eq_ignore_ascii_case s t \<Longrightarrow> eq_ignore_ascii_case u s \<longleftrightarrow> eq_ignore_ascii_case u t"
  by (simp add: eq_ignore_ascii_case_def)

section \<open>Exchange values\<close>

lemma grid_char_again: "grid_char i c = Some c' \<Longrightarrow> grid_char i c' = Some c' \<and> plain c'"
  by (auto simp: is_ascii_alphanumeric_def intro: plain_alphanumeric split: if_splits)

lemma grid_chars_again:
  "grid_chars i s = Some s' \<Longrightarrow> grid_chars i s' = Some s' \<and> list_all plain s' \<and> length s' = length s"
proof (induction s arbitrary: i s')
  case (Cons c s)
  then show ?case using grid_char_again
    by (auto split: option.splits simp del: grid_char.simps)
qed simp

definition normal_value :: "exchange_kind \<Rightarrow> string \<Rightarrow> bool" where
  "normal_value k v = (v \<noteq> [] \<and> trim v = v \<and> normalize_kind k v = Inr v)"

lemma normalize_kind_normal:
  assumes n: "normalize_kind k v = Inr v'" and v: "trim v = v" "v \<noteq> []"
  shows "normal_value k v'"
proof (cases k)
  case FkSerial
  with n obtain m where m: "parse_u32 v = Some m" "m \<noteq> 0" "v' = show_nat m"
    by (auto simp: normalize_kind_def split: option.splits if_splits)
  have "list_all plain v'" using show_nat_digits [of m] m(3) by (auto simp: list_all_iff plain_digit)
  with m show ?thesis using parse_u32_show [OF parse_u32_range [OF m(1)]]
    by (simp add: normal_value_def normalize_kind_def FkSerial trim_all_plain)
next
  case FkRst
  with n show ?thesis
    by (auto simp: normal_value_def normalize_kind_def Let_def list_all_iff plain_report
        intro!: trim_all_plain split: if_splits)
next
  case FkCallsign
  with n show ?thesis
    by (auto simp: normal_value_def normalize_kind_def Let_def list_all_iff plain_callsign
        intro!: trim_all_plain split: if_splits)
next
  case FkGrid
  with n have g: "length v \<in> {4, 6, 8}" "grid_chars 0 v = Some v'"
    using v by (auto simp: normalize_kind_def normalize_grid_def Let_def split: if_splits)
  from grid_chars_again [OF g(2)] g(1)
  have "grid_chars 0 v' = Some v'" "trim v' = v'" "length v' = length v" "v' \<noteq> []"
    by (auto intro!: trim_all_plain)
  with g(1) show ?thesis by (auto simp: normal_value_def normalize_kind_def normalize_grid_def FkGrid)
next
  case (FkText m)
  with n v show ?thesis by (auto simp: normal_value_def normalize_kind_def split: if_splits)
next
  case (FkInteger lo hi)
  with n obtain i where i: "parse_i64 v = Some i" "\<not> (i < lo \<or> i > hi)" "v' = show_int i"
    by (auto simp: normalize_kind_def split: option.splits if_splits)
  have "list_all plain v'" "v' \<noteq> []"
    using show_nat_digits [of "nat i"] show_nat_digits [of "nat (- i)"] i(3)
    by (auto simp: show_int_def list_all_iff plain_digit plain_marks)
  moreover have "parse_i64 v' = Some i" using parse_i64_range [OF i(1)] i(3) parse_show_int by simp
  ultimately show ?thesis using i
    by (simp add: normal_value_def normalize_kind_def FkInteger trim_all_plain)
next
  case (FkChoice options)
  with n have f: "List.find (\<lambda>c. eq_ignore_ascii_case c v) options = Some v'"
    by (simp add: normalize_kind_def)
  then have e: "eq_ignore_ascii_case v' v" by (auto simp: find_Some_iff)
  then have "(\<lambda>c. eq_ignore_ascii_case c v') = (\<lambda>c. eq_ignore_ascii_case c v)"
    by (simp add: fun_eq_iff same_case_trans)
  with f have "List.find (\<lambda>c. eq_ignore_ascii_case c v') options = Some v'" by simp
  with e v show ?thesis
    by (simp add: normal_value_def normalize_kind_def FkChoice trimmed_same_case same_case_empty)
qed

lemma normal_value_bounded:
  "normal_value k v \<Longrightarrow>
    (case k of
       FkSerial \<Rightarrow> \<exists>m. 0 < m \<and> m < 2 ^ 32 \<and> v = show_nat m
     | FkRst \<Rightarrow> 2 \<le> length v \<and> length v \<le> 4
     | FkCallsign \<Rightarrow> 3 \<le> length v \<and> to_ascii_uppercase v = v
     | FkGrid \<Rightarrow> length v \<in> {4, 6, 8}
     | FkText m \<Rightarrow> char_count v \<le> m
     | FkInteger lo hi \<Rightarrow> \<exists>i. lo \<le> i \<and> i \<le> hi \<and> v = show_int i
     | FkChoice options \<Rightarrow> v \<in> set options)"
proof (cases k)
  case FkSerial
  then show "normal_value k v \<Longrightarrow> ?thesis" using parse_u32_range [of v]
    by (auto simp: normal_value_def normalize_kind_def split: option.splits if_splits)
next
  case FkGrid
  then show "normal_value k v \<Longrightarrow> ?thesis"
    by (simp add: normal_value_def normalize_kind_def normalize_grid_def Let_def split: if_splits)
next
  case (FkInteger lo hi)
  then show "normal_value k v \<Longrightarrow> ?thesis"
    by (auto simp: normal_value_def normalize_kind_def not_less split: option.splits if_splits)
next
  case (FkChoice options)
  then show "normal_value k v \<Longrightarrow> ?thesis"
    by (auto simp: normal_value_def normalize_kind_def find_Some_iff)
qed (simp_all add: normal_value_def normalize_kind_def Let_def split: if_splits)

text \<open>What the value of a field comes to: absent when blank.\<close>

definition present :: "exchange_values \<Rightarrow> exchange_field \<Rightarrow> string option" where
  "present values f =
     (case map_option trim (map_of values (xf_key f)) of Some v \<Rightarrow> if v = [] then None else Some v | None \<Rightarrow> None)"

definition field_outcome :: "exchange_values \<Rightarrow> exchange_field \<Rightarrow> string option \<Rightarrow> bool" where
  "field_outcome values f r =
     (case present values f of
        None \<Rightarrow> r = None \<and> \<not> xf_required f
      | Some v \<Rightarrow> \<exists>v'. normalize_kind (xf_kind f) v = Inr v' \<and> r = Some v')"

lemma normalize_fields_Cons:
  "normalize_fields values (f # fs) acc =
     (case present values f of
        None \<Rightarrow> if xf_required f then Inl (CeMissingExchangeField (xf_key f)) else normalize_fields values fs acc
      | Some v \<Rightarrow> and_then (normalize_exchange_value f v) (\<lambda>v'. normalize_fields values fs (bt_insert (xf_key f) v' acc)))"
  by (auto simp: present_def split: option.splits)

declare normalize_fields.simps(2) [simp del]

lemma normalize_fields_spec:
  assumes "normalize_fields values fs acc = Inr n" and "distinct (map xf_key fs)" and "bt_wf acc"
    and "\<forall>f\<in>set fs. map_of acc (xf_key f) = None"
  shows "bt_wf n \<and> (\<forall>k. k \<notin> xf_key ` set fs \<longrightarrow> map_of n k = map_of acc k) \<and>
    (\<forall>f\<in>set fs. field_outcome values f (map_of n (xf_key f)))"
  using assms
proof (induction fs arbitrary: acc)
  case (Cons f fs)
  show ?case
  proof (cases "present values f")
    case None
    with Cons.prems have n: "normalize_fields values fs acc = Inr n" "\<not> xf_required f"
      by (auto simp: normalize_fields_Cons split: if_splits)
    from Cons.IH [OF n(1)] Cons.prems None n(2) show ?thesis
      by (auto simp: field_outcome_def)
  next
    case (Some v)
    with Cons.prems obtain v' where n: "normalize_kind (xf_kind f) v = Inr v'"
      "normalize_fields values fs (bt_insert (xf_key f) v' acc) = Inr n"
      by (auto simp: normalize_fields_Cons normalize_exchange_value_def)
    have "\<forall>g\<in>set fs. map_of (bt_insert (xf_key f) v' acc) (xf_key g) = None"
      using Cons.prems(2,4) by (simp add: bt_get_insert) (metis imageI)
    from Cons.IH [OF n(2) _ _ this] Cons.prems
    have IH: "bt_wf n" "\<And>k. k \<notin> xf_key ` set fs \<Longrightarrow> map_of n k = map_of (bt_insert (xf_key f) v' acc) k"
      "\<forall>g\<in>set fs. field_outcome values g (map_of n (xf_key g))"
      by (simp_all add: bt_wf_insert)
    from Cons.prems(2) have "xf_key f \<notin> xf_key ` set fs" by simp
    from IH(2) [OF this] n(1) Some have "field_outcome values f (map_of n (xf_key f))"
      by (simp add: bt_get_insert field_outcome_def)
    with IH show ?thesis by (auto simp: bt_get_insert)
  qed
qed simp

lemma normalize_fields_total:
  assumes "\<forall>f\<in>set fs. \<exists>r. field_outcome values f r"
  shows "\<exists>n. normalize_fields values fs acc = Inr n"
  using assms
proof (induction fs arbitrary: acc)
  case (Cons f fs)
  then show ?case
    by (auto simp: normalize_fields_Cons field_outcome_def normalize_exchange_value_def split: option.splits)
qed simp

lemma field_outcome_unique: "field_outcome values f r \<Longrightarrow> field_outcome values f r' \<Longrightarrow> r = r'"
  by (auto simp: field_outcome_def split: option.splits)

lemma present_trimmed: "present values f = Some v \<Longrightarrow> trim v = v \<and> v \<noteq> []"
  by (auto simp: present_def split: option.splits if_splits)

text \<open>A normalised value is present as it is, and normal.\<close>

lemma field_outcome_again:
  assumes "field_outcome values f (map_of n (xf_key f))"
  shows "field_outcome n f (map_of n (xf_key f))"
proof (cases "present values f")
  case None
  with assms show ?thesis by (auto simp: field_outcome_def present_def)
next
  case (Some v)
  with assms obtain v' where "normalize_kind (xf_kind f) v = Inr v'" "map_of n (xf_key f) = Some v'"
    by (auto simp: field_outcome_def)
  moreover from this present_trimmed [OF Some] have "normal_value (xf_kind f) v'"
    by (blast intro: normalize_kind_normal)
  ultimately show ?thesis by (auto simp: field_outcome_def present_def normal_value_def)
qed

lemma validate_exchange_Inr:
  "validate_exchange d dir values = Inr n \<longleftrightarrow>
    set (hm_keys values) \<subseteq> xf_key ` set (exchange_fields (cd_exchange d) dir) \<and>
    normalize_fields values (exchange_fields (cd_exchange d) dir) [] = Inr n"
proof -
  let ?fs = "exchange_fields (cd_exchange d) dir"
  have "List.find (\<lambda>k. \<not> list_ex (\<lambda>f. xf_key f = k) ?fs) (hm_keys values) = None \<longleftrightarrow>
      set (hm_keys values) \<subseteq> xf_key ` set ?fs"
    by (auto simp: find_None_iff list_ex_iff image_iff)
  then show ?thesis by (auto simp: validate_exchange_def Let_def split: option.splits)
qed

lemma field_outcome_normal: "field_outcome values f (Some v) \<Longrightarrow> normal_value (xf_kind f) v"
  by (auto simp: field_outcome_def dest!: present_trimmed intro: normalize_kind_normal split: option.splits)

text \<open>An accepted exchange against the declared fields, and its second check.\<close>

lemma exchange_outcome:
  assumes "validate_exchange d dir values = Inr n" and "distinct (map xf_key (exchange_fields (cd_exchange d) dir))"
  shows "bt_wf n" "k \<notin> xf_key ` set (exchange_fields (cd_exchange d) dir) \<Longrightarrow> map_of n k = None"
    "\<forall>f\<in>set (exchange_fields (cd_exchange d) dir). field_outcome values f (map_of n (xf_key f))"
  using normalize_fields_spec [OF _ assms(2), of "values" "[]" n] assms(1) by (auto simp: validate_exchange_Inr)

lemma exchange_value_outcome:
  assumes "validate_exchange d dir values = Inr n" and "distinct (map xf_key (exchange_fields (cd_exchange d) dir))"
    and "map_of n k = Some v"
  obtains f where "f \<in> set (exchange_fields (cd_exchange d) dir)" "xf_key f = k" "normal_value (xf_kind f) v"
proof -
  have "k \<in> xf_key ` set (exchange_fields (cd_exchange d) dir)"
    using exchange_outcome(2) [OF assms(1,2), of k] assms(3) by force
  then obtain f where f: "f \<in> set (exchange_fields (cd_exchange d) dir)" "xf_key f = k" by blast
  with exchange_outcome(3) [OF assms(1,2)] assms(3) have "field_outcome values f (Some v)" by fastforce
  with f that show ?thesis by (blast intro: field_outcome_normal)
qed

lemma exchange_again:
  assumes "validate_exchange d dir values = Inr n" and "distinct (map xf_key (exchange_fields (cd_exchange d) dir))"
  shows "validate_exchange d dir n = Inr n"
proof -
  let ?fs = "exchange_fields (cd_exchange d) dir"
  note n = exchange_outcome [OF assms]
  then have o: "\<forall>f\<in>set ?fs. field_outcome n f (map_of n (xf_key f))" by (blast intro: field_outcome_again)
  then obtain m where m: "normalize_fields n ?fs [] = Inr m" using normalize_fields_total [of ?fs n "[]"] by blast
  from normalize_fields_spec [OF m assms(2)]
  have M: "bt_wf m" "\<And>k. k \<notin> xf_key ` set ?fs \<Longrightarrow> map_of m k = None"
    "\<forall>f\<in>set ?fs. field_outcome n f (map_of m (xf_key f))" by auto
  have "map_of m k = map_of n k" for k
  proof (cases "k \<in> xf_key ` set ?fs")
    case True
    with o M(3) show ?thesis by (blast intro: field_outcome_unique)
  qed (simp add: M(2) n(2))
  then have "m = n" by (intro bt_ext M(1) n(1)) auto
  moreover have "set (hm_keys n) \<subseteq> xf_key ` set ?fs" using n(2) bt.set_keys [of n] by force
  ultimately show ?thesis using m by (simp add: validate_exchange_Inr)
qed

section \<open>Checked definitions and packs\<close>

lemma check_fields_sound:
  "check_fields seen fs = Inr () \<Longrightarrow>
    distinct (map xf_key fs) \<and> xf_key ` set fs \<inter> set seen = {} \<and>
    (\<forall>f\<in>set fs. trim (xf_key f) \<noteq> [] \<and> check_kind f = Inr ())"
  by (induction fs arbitrary: seen) (fastforce split: if_splits)+

lemma check_direction_sound:
  "check_direction fs = Inr () \<Longrightarrow>
    fs \<noteq> [] \<and> distinct (map xf_key fs) \<and> (\<forall>f\<in>set fs. trim (xf_key f) \<noteq> [] \<and> check_kind f = Inr ())"
  using check_fields_sound [of "[]" fs] by (auto simp: check_direction_def split: if_splits)

lemma check_multipliers_sound:
  "check_multipliers x seen ms = Inr () \<Longrightarrow>
    distinct (map mu_key ms) \<and> mu_key ` set ms \<inter> set seen = {} \<and> (\<forall>m\<in>set ms. check_source x m = Inr ())"
  by (induction ms arbitrary: seen) (fastforce split: if_splits)+

text \<open>What a usable definition is.\<close>

definition definition_usable :: "contest_definition \<Rightarrow> bool" where
  "definition_usable d =
     (trim (cd_contest_id d) \<noteq> [] \<and> cd_rule_version d \<noteq> 0 \<and> cd_bands d \<noteq> [] \<and> cd_modes d \<noteq> [] \<and>
      (\<forall>w\<in>set (cd_time_windows d). cw_starts_at w < cw_ends_at w) \<and>
      (\<forall>dir. exchange_fields (cd_exchange d) dir \<noteq> [] \<and> distinct (map xf_key (exchange_fields (cd_exchange d) dir))) \<and>
      (cd_serial_policy d \<noteq> SerialNone \<longleftrightarrow> declares_serial (cd_exchange d)) \<and>
      distinct (map mu_key (cd_multipliers d)) \<and>
      (\<forall>m\<in>set (cd_multipliers d). \<forall>k. mu_source m = MsReceivedExchangeField k \<longrightarrow>
         k \<in> xf_key ` set (cx_received (cd_exchange d))) \<and>
      (\<forall>r\<in>set (sc_rules (cd_scoring d)). list_all (supports_band d) (pr_bands r) \<and> list_all (supports_mode d) (pr_modes r)))"

lemma exchange_field_of_None:
  "exchange_field_of x d k = None \<longleftrightarrow> k \<notin> xf_key ` set (exchange_fields x d)"
  by (auto simp: exchange_field_of_def find_None_iff)

lemma validate_self_usable:
  assumes "validate_self d = Inr ()"
  shows "definition_usable d"
proof -
  from assms have r: "definition_reason d = Inr ()" by (simp add: validate_self_def)
  then have c: "check_direction (cx_sent (cd_exchange d)) = Inr ()" "check_direction (cx_received (cd_exchange d)) = Inr ()"
    "check_serial d = Inr ()" "check_multipliers (cd_exchange d) [] (cd_multipliers d) = Inr ()"
    "\<forall>r\<in>set (sc_rules (cd_scoring d)). check_point_rule d r = Inr ()"
    by (auto simp: definition_reason_def split: if_splits)
  from r have basic: "trim (cd_contest_id d) \<noteq> []" "cd_rule_version d \<noteq> 0" "cd_bands d \<noteq> []" "cd_modes d \<noteq> []"
    "\<forall>w\<in>set (cd_time_windows d). cw_starts_at w < cw_ends_at w"
    by (auto simp: definition_reason_def not_le split: if_splits)
  have x: "exchange_fields (cd_exchange d) dir \<noteq> [] \<and> distinct (map xf_key (exchange_fields (cd_exchange d) dir))" for dir
    using check_direction_sound [OF c(1)] check_direction_sound [OF c(2)]
    by (cases dir) (auto simp: exchange_fields_def)
  have serial: "cd_serial_policy d \<noteq> SerialNone \<longleftrightarrow> declares_serial (cd_exchange d)"
    using c(3) by (auto simp: check_serial_def Let_def split: if_splits)
  have m: "\<forall>m\<in>set (cd_multipliers d). \<forall>k. mu_source m = MsReceivedExchangeField k \<longrightarrow>
      k \<in> xf_key ` set (cx_received (cd_exchange d))"
  proof (intro ballI allI impI)
    fix m k assume "m \<in> set (cd_multipliers d)" and s: "mu_source m = MsReceivedExchangeField k"
    with check_multipliers_sound [OF c(4)] have "check_source (cd_exchange d) m = Inr ()" by blast
    with s have "exchange_field_of (cd_exchange d) ExReceived k \<noteq> None" by (simp add: check_source_def)
    then show "k \<in> xf_key ` set (cx_received (cd_exchange d))"
      unfolding exchange_field_of_None by (simp add: exchange_fields_def)
  qed
  have p: "\<forall>r\<in>set (sc_rules (cd_scoring d)). list_all (supports_band d) (pr_bands r) \<and> list_all (supports_mode d) (pr_modes r)"
    using c(5) by (auto simp: check_point_rule_def list_all_iff)
  from basic x serial m p check_multipliers_sound [OF c(4)] show ?thesis
    unfolding definition_usable_def by blast
qed

lemma check_definitions_sound:
  "check_definitions seen ds = Inr () \<Longrightarrow>
    distinct (map cd_contest_id ds) \<and> cd_contest_id ` set ds \<inter> set seen = {} \<and> (\<forall>d\<in>set ds. definition_usable d)"
proof (induction ds arbitrary: seen)
  case (Cons d ds)
  then have "validate_self d = Inr ()" "check_definitions (cd_contest_id d # seen) ds = Inr ()" "cd_contest_id d \<notin> set seen"
    by (auto split: if_splits)
  with Cons.IH [OF this(2)] validate_self_usable [OF this(1)] show ?case by auto
qed simp

definition pack_usable :: "contest_pack \<Rightarrow> bool" where
  "pack_usable p = (pk_kind p = CONTEST_DEFINITION_PACK_KIND \<and> pk_schema_version p = CONTEST_RULE_SCHEMA_VERSION \<and>
     pk_definitions p \<noteq> [] \<and> distinct (map cd_contest_id (pk_definitions p)) \<and>
     (\<forall>d\<in>set (pk_definitions p). definition_usable d))"

lemma pack_validate_usable: "pack_validate p = Inr () \<Longrightarrow> pack_usable p"
  using check_definitions_sound [of "[]" "pk_definitions p"]
  by (auto simp: pack_validate_def pack_usable_def split: if_splits)

section \<open>Signatures\<close>

lemma same_bytes_iff: "same_bytes l r \<longleftrightarrow> l = r"
proof -
  have "same_bytes l r = constant_time_eq l r"
    by (simp add: same_bytes_def constant_time_eq_def case_prod_beta)
  then show ?thesis by (simp add: constant_time_eq_iff)
qed

definition signed_by :: "contest_libs \<Rightarrow> pack_trust \<Rightarrow> contest_pack \<Rightarrow> pack_signature \<Rightarrow> bool" where
  "signed_by K t p s = (\<exists>secret. hm_get (pt_keys t) (ps_key_id s) = Some secret \<and>
     ps_digest s = pack_digest K p \<and> ps_signature s = sign_canonical_bytes K secret (kl_canonical K p))"

lemma trust_verify_iff:
  "trust_verify K t p signature = Inr () \<longleftrightarrow>
    (case signature of None \<Rightarrow> pt_allow_unsigned t | Some s \<Rightarrow> signed_by K t p s)"
  by (auto simp: trust_verify_def signed_by_def pack_digest_def same_bytes_iff Let_def ok_or_def
      split: option.splits if_splits)

section \<open>The catalogue\<close>

text \<open>The specification: the first of the definitions offered for a contest with the highest
  rule version.\<close>

definition better :: "contest_definition option \<Rightarrow> contest_definition \<Rightarrow> contest_definition option" where
  "better b d = (case b of None \<Rightarrow> Some d | Some d' \<Rightarrow> if cd_rule_version d > cd_rule_version d' then Some d else Some d')"

definition best_offer :: "string \<Rightarrow> contest_definition list \<Rightarrow> contest_definition option" where
  "best_offer i ds = foldl better None (filter (\<lambda>d. cd_contest_id d = i) ds)"

definition catalog_holds :: "contest_catalog \<Rightarrow> string \<Rightarrow> contest_definition option" where
  "catalog_holds c i = map_option ct_definition (map_of c i)"

lemma install_definition_holds:
  "catalog_holds (snd (install_definition origin d (applied, c))) i =
     (if cd_contest_id d = i then better (catalog_holds c i) d else catalog_holds c i)"
  by (auto simp: install_definition_def catalog_holds_def better_def bt_get_insert split: option.splits)

lemma install_definition_wf: "bt_wf c \<Longrightarrow> bt_wf (snd (install_definition origin d (applied, c)))"
  by (auto simp: install_definition_def intro: bt_wf_insert)

lemma install_fold:
  "catalog_holds (snd (fold (install_definition origin) ds (applied, c))) i =
     foldl better (catalog_holds c i) (filter (\<lambda>d. cd_contest_id d = i) ds)"
proof (induction ds arbitrary: applied c)
  case (Cons d ds)
  obtain a c' where i: "install_definition origin d (applied, c) = (a, c')" by fastforce
  with install_definition_holds [of origin d applied c i] show ?case by (simp add: Cons)
qed simp

lemma install_fold_wf: "bt_wf c \<Longrightarrow> bt_wf (snd (fold (install_definition origin) ds (applied, c)))"
proof (induction ds arbitrary: applied c)
  case (Cons d ds)
  obtain a c' where i: "install_definition origin d (applied, c) = (a, c')" by fastforce
  with install_definition_wf [of c origin d applied] Cons show ?case by simp
qed simp

definition install_all :: "contest_pack list \<Rightarrow> contest_catalog \<Rightarrow> contest_catalog" where
  "install_all ps c = fold (\<lambda>p c. snd (install_pack p c)) ps c"

lemma install_all_holds:
  "catalog_holds (install_all ps c) i =
     foldl better (catalog_holds c i) (filter (\<lambda>d. cd_contest_id d = i) (concat (map pk_definitions ps)))"
  unfolding install_all_def
  by (induction ps arbitrary: c) (simp_all add: install_pack_def catalog_install_def install_fold)

lemma install_all_wf: "bt_wf c \<Longrightarrow> bt_wf (install_all ps c)"
  unfolding install_all_def
  by (induction ps arbitrary: c) (simp_all add: install_pack_def catalog_install_def install_fold_wf)

text \<open>The best offer is one of the offers and no other has a higher version.\<close>

lemma better_fold:
  "foldl better b ds = Some d \<Longrightarrow>
    (b = Some d \<or> d \<in> set ds) \<and> (\<forall>x\<in>set ds. cd_rule_version x \<le> cd_rule_version d) \<and>
    (\<forall>x. b = Some x \<longrightarrow> cd_rule_version x \<le> cd_rule_version d)"
proof (induction ds arbitrary: b)
  case (Cons x ds)
  from Cons.IH [of "better b x"] Cons.prems show ?case
    by (cases b) (auto simp: better_def split: if_splits)
qed simp

lemma better_fold_None: "foldl better b ds = None \<longleftrightarrow> b = None \<and> ds = []"
proof (induction ds arbitrary: b)
  case (Cons x ds)
  have "better b x \<noteq> None" by (simp add: better_def split: option.split)
  with Cons show ?case by simp
qed simp

lemma best_offer_max:
  assumes "best_offer i ds = Some d"
  shows "d \<in> set ds \<and> cd_contest_id d = i \<and> (\<forall>x\<in>set ds. cd_contest_id x = i \<longrightarrow> cd_rule_version x \<le> cd_rule_version d)"
  using better_fold [OF assms [unfolded best_offer_def]] by auto

lemma best_offer_None: "best_offer i ds = None \<longleftrightarrow> i \<notin> cd_contest_id ` set ds"
  by (auto simp: best_offer_def better_fold_None filter_empty_conv)

text \<open>Only the version of the best offer depends on the set of offers alone.\<close>

lemma best_offer_version:
  assumes "set ds = set es"
  shows "map_option cd_rule_version (best_offer i ds) = map_option cd_rule_version (best_offer i es)"
proof (cases "best_offer i ds")
  case None
  with assms have "best_offer i es = None" by (simp add: best_offer_None)
  with None show ?thesis by simp
next
  case (Some d)
  with assms obtain e where e: "best_offer i es = Some e"
    by (metis best_offer_None not_Some_eq)
  from best_offer_max [OF Some] best_offer_max [OF e] assms
  have "cd_rule_version d = cd_rule_version e" by (auto intro: antisym)
  with Some e show ?thesis by simp
qed

text \<open>What an installation reports as applied.\<close>

lemma applied_fold:
  assumes "distinct (map cd_contest_id ds)"
  shows "fst (fold (install_definition origin) ds (applied, c)) =
    applied @ map cd_contest_id (filter (\<lambda>d. better (catalog_holds c (cd_contest_id d)) d = Some d \<and>
      catalog_holds c (cd_contest_id d) \<noteq> Some d) ds)"
  using assms
proof (induction ds arbitrary: applied c)
  case (Cons d ds)
  obtain a c' where i: "install_definition origin d (applied, c) = (a, c')" by fastforce
  have same: "catalog_holds c' (cd_contest_id x) = catalog_holds c (cd_contest_id x)" if "x \<in> set ds" for x
    using install_definition_holds [of origin d applied c "cd_contest_id x"] i Cons.prems that by auto
  have a: "a = applied @ (if better (catalog_holds c (cd_contest_id d)) d = Some d \<and>
      catalog_holds c (cd_contest_id d) \<noteq> Some d then [cd_contest_id d] else [])"
    using i by (auto simp: install_definition_def better_def catalog_holds_def split: option.splits if_splits)
  have "filter (\<lambda>d. better (catalog_holds c' (cd_contest_id d)) d = Some d \<and> catalog_holds c' (cd_contest_id d) \<noteq> Some d) ds =
      filter (\<lambda>d. better (catalog_holds c (cd_contest_id d)) d = Some d \<and> catalog_holds c (cd_contest_id d) \<noteq> Some d) ds"
    by (rule filter_cong) (simp_all add: same)
  with Cons i a show ?case by simp
qed simp

end
