(* ===== verification/Contest_Claims.thy ===== *)
theory Contest_Claims
  imports Contest_Facts
begin

text \<open>
  Properties of contest definitions: the normal form of an exchange and its bounds, the
  catalogue against its specification, and what a loaded pack guarantees.
\<close>

section \<open>Sample: the built-in pack\<close>

lemma literal_trims:
  "list_all (\<lambda>s. trim s = s) [''generic-serial'', ''generic-grid'', ''Generic Serial Exchange'', ''Generic Grid Exchange'',
     ''GENERIC-SERIAL'', ''GENERIC-GRID'', ''rst_sent'', ''rst_received'', ''serial_sent'', ''serial_received'',
     ''grid_sent'', ''grid_received'', ''6m'', ''2m'', ''1.25m'', ''70cm'', ''33cm'', ''23cm'', ''59'', ''fn31pr'']"
  by (simp add: trim_plain plain_def)

lemma generic_valid: "validate_self generic_serial = Inr ()" "validate_self generic_grid = Inr ()"
  using literal_trims
  by (simp_all add: validate_self_def definition_reason_def generic_serial_def generic_grid_def check_direction_def
      check_kind_def field_of_kind_def check_serial_def declares_serial_def check_source_def exchange_field_of_def
      exchange_fields_def check_point_rule_def supports_band_def matches_any_def)

text \<open>The definitions compiled into the program pass their check, so reading them cannot panic
  when the reader returns what is written in them.\<close>

lemma builtin_pack_valid: "pack_validate builtin_pack = Inr ()"
  using generic_valid
  by (simp add: pack_validate_def builtin_pack_def CONTEST_DEFINITION_PACK_KIND_def CONTEST_RULE_SCHEMA_VERSION_def)
    (simp add: generic_serial_def generic_grid_def)

theorem builtin_pack_loads:
  assumes "kl_parse_pack K builtin_json = Inr builtin_pack"
  shows "builtin_definition_pack K builtin_json = Inr builtin_pack"
  using assms builtin_pack_valid by (simp add: builtin_definition_pack_def load_definition_pack_def)

section \<open>Exchanges\<close>

text \<open>
  C38. An accepted exchange is in normal form: under a checked definition the returned values are
  declared fields with values normal for their kind, every required field is among them, and
  checking them again returns them unchanged.
\<close>

theorem exchange_normal_form:
  assumes "validate_self d = Inr ()" and "validate_exchange d dir values = Inr n"
  shows "validate_exchange d dir n = Inr n \<and>
    (\<forall>k v. map_of n k = Some v \<longrightarrow> (\<exists>f\<in>set (exchange_fields (cd_exchange d) dir). xf_key f = k \<and> normal_value (xf_kind f) v)) \<and>
    (\<forall>f\<in>set (exchange_fields (cd_exchange d) dir). xf_required f \<longrightarrow> map_of n (xf_key f) \<noteq> None)"
proof -
  let ?fs = "exchange_fields (cd_exchange d) dir"
  have d: "distinct (map xf_key ?fs)" using validate_self_usable [OF assms(1)] by (simp add: definition_usable_def)
  note S = exchange_outcome [OF assms(2) d]
  have "map_of n (xf_key f) \<noteq> None" if "f \<in> set ?fs" "xf_required f" for f
    using S(3) that by (fastforce simp: field_outcome_def split: option.splits)
  moreover have "\<exists>f\<in>set ?fs. xf_key f = k \<and> normal_value (xf_kind f) v" if "map_of n k = Some v" for k v
    using exchange_value_outcome [OF assms(2) d that] by blast
  ultimately show ?thesis using exchange_again [OF assms(2) d] by blast
qed

text \<open>A grid exchange is checked against the built-in definition: the square is brought into its
  standard casing, and stays so.\<close>

definition grid_exchange :: exchange_values where
  "grid_exchange = [(''grid_received'', ''FN31PR''), (''rst_received'', ''59'')]"

lemma grid_exchange_checked:
  "validate_exchange generic_grid ExReceived grid_exchange = Inr [(''grid_received'', ''FN31pr''), (''rst_received'', ''59'')]"
proof -
  have t: "trim ''FN31PR'' = ''FN31PR''" "trim ''59'' = ''59''" by (simp_all add: trim_plain plain_def)
  have "grid_chars 0 ''FN31PR'' = Some ''FN31pr''" by code_simp
  with t have "normalize_grid ''FN31PR'' = Some ''FN31pr''" by (simp add: normalize_grid_def)
  moreover have "normalize_kind FkRst ''59'' = Inr ''59''" by code_simp
  ultimately show ?thesis using t
    by (simp add: validate_exchange_def grid_exchange_def generic_grid_def exchange_fields_def field_of_kind_def hm_keys_def
        normalize_fields_Cons present_def normalize_exchange_value_def normalize_kind_def Let_def)
qed

theorem exchange_normal_form_witness:
  "validate_exchange generic_grid ExReceived [(''grid_received'', ''FN31pr''), (''rst_received'', ''59'')] =
    Inr [(''grid_received'', ''FN31pr''), (''rst_received'', ''59'')]"
  using exchange_normal_form [OF generic_valid(2) grid_exchange_checked] by blast

text \<open>
  The values of an accepted exchange are within their bounds: a serial number between 1 and
  4294967295 without sign or leading zeros, a report of two to four characters, a call sign of
  at least three, a grid square of four, six or eight, a text within its length, a whole number
  within its range, and a choice exactly as one of the options has it.
\<close>

theorem exchange_values_bounded:
  assumes "validate_self d = Inr ()" and "validate_exchange d dir values = Inr n" and "map_of n k = Some v"
  shows "\<exists>f\<in>set (exchange_fields (cd_exchange d) dir). xf_key f = k \<and>
    (case xf_kind f of
       FkSerial \<Rightarrow> \<exists>m. 0 < m \<and> m < 2 ^ 32 \<and> v = show_nat m
     | FkRst \<Rightarrow> 2 \<le> length v \<and> length v \<le> 4
     | FkCallsign \<Rightarrow> 3 \<le> length v \<and> to_ascii_uppercase v = v
     | FkGrid \<Rightarrow> length v \<in> {4, 6, 8}
     | FkText m \<Rightarrow> char_count v \<le> m
     | FkInteger lo hi \<Rightarrow> \<exists>i. lo \<le> i \<and> i \<le> hi \<and> v = show_int i
     | FkChoice options \<Rightarrow> v \<in> set options)"
proof -
  have "distinct (map xf_key (exchange_fields (cd_exchange d) dir))"
    using validate_self_usable [OF assms(1)] by (simp add: definition_usable_def)
  from exchange_value_outcome [OF assms(2) this assms(3)] obtain f
    where f: "f \<in> set (exchange_fields (cd_exchange d) dir)" "xf_key f = k" "normal_value (xf_kind f) v" .
  show ?thesis by (rule bexI, rule conjI [OF f(2) normal_value_bounded [OF f(3)]], rule f(1))
qed

theorem exchange_values_bounded_witness:
  "\<exists>f\<in>set (exchange_fields (cd_exchange generic_grid) ExReceived). xf_key f = ''rst_received'' \<and> xf_kind f = FkRst"
proof -
  have "map_of [(''grid_received'', ''FN31pr''), (''rst_received'', ''59'')] ''rst_received'' = Some ''59''" by simp
  from exchange_values_bounded [OF generic_valid(2) grid_exchange_checked this] show ?thesis
    by (auto simp: generic_grid_def exchange_fields_def field_of_kind_def)
qed

section \<open>The catalogue\<close>

text \<open>
  C39. The catalogue implements its specification: whatever packs are installed in whatever order,
  it holds for each contest the first definition offered with the highest rule version; so an
  older pack never replaces a newer definition, and the versions held depend only on which packs
  were installed, not on their order or repetition.
\<close>

theorem catalog_keeps_highest:
  assumes "set ps = set qs"
  shows "catalog_holds (install_all ps []) i = best_offer i (concat (map pk_definitions ps)) \<and>
    map_option cd_rule_version (catalog_holds (install_all ps []) i) =
      map_option cd_rule_version (catalog_holds (install_all qs []) i)"
proof -
  have h: "catalog_holds (install_all rs []) i = best_offer i (concat (map pk_definitions rs))" for rs
    by (simp add: install_all_holds best_offer_def) (simp add: catalog_holds_def)
  have "set (concat (map pk_definitions ps)) = set (concat (map pk_definitions qs))" using assms by simp
  from best_offer_version [OF this] show ?thesis unfolding h by simp
qed

definition newer_pack :: contest_pack where
  "newer_pack = builtin_pack\<lparr>pk_definitions := [generic_grid\<lparr>cd_rule_version := 2\<rparr>]\<rparr>"

theorem catalog_keeps_highest_witness:
  "map_option cd_rule_version (catalog_holds (install_all [newer_pack, builtin_pack] []) ''generic-grid'') = Some 2 \<and>
   map_option cd_rule_version (catalog_holds (install_all [builtin_pack, newer_pack] []) ''generic-grid'') = Some 2"
proof -
  have "best_offer ''generic-grid'' (concat (map pk_definitions [newer_pack, builtin_pack])) = Some (generic_grid\<lparr>cd_rule_version := 2\<rparr>)"
    by (simp add: newer_pack_def builtin_pack_def best_offer_def better_def generic_grid_def generic_serial_def)
  moreover have "set [newer_pack, builtin_pack] = set [builtin_pack, newer_pack]" by (simp add: insert_commute)
  note kept = catalog_keeps_highest [OF this, of "''generic-grid''"]
  ultimately have "map_option cd_rule_version (catalog_holds (install_all [newer_pack, builtin_pack] []) ''generic-grid'') = Some 2"
    by simp
  with conjunct2 [OF kept] show ?thesis by (simp only: simp_thms)
qed

section \<open>Loaded packs\<close>

text \<open>
  C40. A pack loaded from a distributed envelope by a store that trusts no unsigned packs is signed
  with a key the store holds, over the very content that is returned, and is usable as a whole:
  its contests are distinct and in each of them the fields of either direction are distinct and
  not none, serial numbers are exchanged exactly when they are allocated, every multiplier reads
  a received field there is, and scoring names bands and modes of the contest.
\<close>

theorem signed_pack_is_usable:
  assumes "load_signed_definition_pack K json t = Inr p" and "\<not> pt_allow_unsigned t"
  shows "pack_usable p \<and> (\<exists>e s. kl_parse_envelope K json = Inr e \<and> pe_pack e = p \<and> pe_signature e = Some s \<and> signed_by K t p s)"
proof -
  from assms(1) obtain e where e: "kl_parse_envelope K json = Inr e" "pe_pack e = p"
    "trust_verify K t p (pe_signature e) = Inr ()" "pack_validate p = Inr ()"
    by (auto simp: load_signed_definition_pack_def)
  from e(3) assms(2) obtain s where "pe_signature e = Some s" "signed_by K t p s"
    unfolding trust_verify_iff by (auto split: option.splits)
  with e pack_validate_usable [OF e(4)] show ?thesis by blast
qed

definition sample_contest_libs :: contest_libs where
  "sample_contest_libs = \<lparr>kl_canonical = pk_pack_id, kl_parse_pack = (\<lambda>_. Inr builtin_pack),
     kl_parse_envelope = (\<lambda>_. Inr \<lparr>pe_pack = builtin_pack, pe_signature = Some \<lparr>ps_key_id = ''k'',
       ps_algorithm = HmacSha256, ps_digest = hex_lower ''ke8ygw.builtin.generic'',
       ps_signature = hex_lower (''secret'' @ ''ke8ygw.builtin.generic'')\<rparr>\<rparr>),
     kl_sha256 = (\<lambda>s. s), kl_hmac = (\<lambda>k s. k @ s)\<rparr>"

lemma sample_pack_loads:
  "load_signed_definition_pack sample_contest_libs json (with_key ''k'' ''secret'' pack_trust_new) = Inr builtin_pack"
proof -
  have "trust_verify sample_contest_libs (with_key ''k'' ''secret'' pack_trust_new) builtin_pack
      (Some (sign_definition_pack sample_contest_libs builtin_pack ''k'' ''secret'')) = Inr ()"
    by (simp add: trust_verify_iff signed_by_def with_key_def pack_trust_new_def sign_definition_pack_def pack_digest_def Let_def)
  then show ?thesis using builtin_pack_valid
    by (simp add: load_signed_definition_pack_def sample_contest_libs_def sign_definition_pack_def sign_canonical_bytes_def
        Let_def) (simp add: builtin_pack_def)
qed

theorem signed_pack_is_usable_witness: "pack_usable builtin_pack"
  using signed_pack_is_usable [OF sample_pack_loads]
  by (simp add: with_key_def pack_trust_new_def)

end
