(* ===== verification/Account.thy ===== *)
theory Account
  imports Offline_Queue Text
begin

text \<open>
  The hosted account client (\<open>ham-core/src/sync/account.rs\<close>): which request an action becomes,
  what a response does to the durable account record, and the run of one action over the
  record's file, the platform's secret storage and its transport.
\<close>

section \<open>Constants and types\<close>

definition HOSTED_ACCOUNT_FILE_VERSION :: "32 word" where "HOSTED_ACCOUNT_FILE_VERSION = 1"
definition HOSTED_ACCOUNT_SESSION_CREDENTIAL_LABEL :: string where
  "HOSTED_ACCOUNT_SESSION_CREDENTIAL_LABEL = ''Hosted session token''"
definition HOSTED_ACCOUNT_REFRESH_CREDENTIAL_LABEL :: string where
  "HOSTED_ACCOUNT_REFRESH_CREDENTIAL_LABEL = ''Hosted refresh token''"
definition DEFAULT_HOSTED_ACCOUNT_BASE_URL :: string where
  "DEFAULT_HOSTED_ACCOUNT_BASE_URL = ''http://127.0.0.1:9750''"
definition DEFAULT_HOSTED_ACCOUNT_DEVICE_NAME :: string where
  "DEFAULT_HOSTED_ACCOUNT_DEVICE_NAME = ''KE8YGW Logger Device''"
definition DEFAULT_HOSTED_ACCOUNT_TIMEOUT_SECONDS :: "64 word" where "DEFAULT_HOSTED_ACCOUNT_TIMEOUT_SECONDS = 20"
definition MAX_HOSTED_ACCOUNT_RESPONSE_BYTES :: nat where "MAX_HOSTED_ACCOUNT_RESPONSE_BYTES = 512 * 1024"
definition MAX_BASE_URL_BYTES :: nat where "MAX_BASE_URL_BYTES = 2048"
definition MAX_EMAIL_BYTES :: nat where "MAX_EMAIL_BYTES = 320"
definition MAX_DISPLAY_NAME_BYTES :: nat where "MAX_DISPLAY_NAME_BYTES = 200"
definition MAX_DEVICE_NAME_BYTES :: nat where "MAX_DEVICE_NAME_BYTES = 128"
definition MAX_TOKEN_BYTES :: nat where "MAX_TOKEN_BYTES = 1024"
definition MAX_CACHED_DEVICES :: nat where "MAX_CACHED_DEVICES = 200"
definition MAX_CACHED_LOGBOOKS :: nat where "MAX_CACHED_LOGBOOKS = 200"

text \<open>\<open>HaNotFound\<close> is the I/O error of a missing file.\<close>

datatype account_error =
    HaNotFound
  | HaIo string
  | HaSerde string
  | HaUnsupportedFileVersion "32 word"
  | HaInvalidBaseUrl string
  | HaInvalidEmail
  | HaMissingField string
  | HaFieldTooLong string nat
  | HaSessionRequired
  | HaRefreshTokenRequired
  | HaSecretStorage string

record account_config =
  hc_base_url :: string
  hc_device_name :: string

datatype connection_state =
  CsSignedOut | CsPendingEmailVerification | CsSignedIn | CsSessionExpired | CsDeviceRevoked

datatype account_outcome =
    OcAccepted
  | OcAuthenticationRequired
  | OcEmailVerificationRequired
  | OcRegistrationClosed
  | OcTokenExpired
  | OcTokenReplayed
  | OcHumanVerificationFailed
  | OcRateLimited
  | OcValidationFailed
  | OcTransientFailure
  | OcPermanentFailure

definition outcome_is_retryable :: "account_outcome \<Rightarrow> bool" where
  "outcome_is_retryable x = (x \<in> {OcRateLimited, OcTransientFailure})"

definition requires_user_action :: "account_outcome \<Rightarrow> bool" where
  "requires_user_action x = (x \<in> {OcAuthenticationRequired, OcEmailVerificationRequired, OcRegistrationClosed,
     OcTokenExpired, OcTokenReplayed, OcHumanVerificationFailed, OcValidationFailed})"

record hosted_device =
  hd_device_id :: uuid
  hd_device_name :: string
  hd_trusted :: bool
  hd_revoked :: bool
  hd_registered_at :: "datetime option"
  hd_revoked_at :: "datetime option"
  hd_current :: bool

record hosted_logbook =
  hl_logbook_id :: uuid
  hl_name :: string
  hl_role :: "string option"

record account_snapshot =
  ha_schema_version :: "32 word"
  ha_base_url :: string
  ha_device_name :: string
  ha_connection_state :: connection_state
  ha_account_id :: "uuid option"
  ha_user_id :: "uuid option"
  ha_email :: "string option"
  ha_display_name :: "string option"
  ha_email_verified :: bool
  ha_session_id :: "uuid option"
  ha_session_issued_at :: "datetime option"
  ha_session_expires_at :: "datetime option"
  ha_refresh_expires_at :: "datetime option"
  ha_session_credential :: "uuid option"
  ha_refresh_credential :: "uuid option"
  ha_device_id :: "uuid option"
  ha_devices :: "hosted_device list"
  ha_logbooks :: "hosted_logbook list"
  ha_pending_email :: "string option"
  ha_pending_recovery :: "string option"
  ha_last_action :: "string option"
  ha_last_outcome :: "account_outcome option"
  ha_last_error_code :: "string option"
  ha_last_message :: "string option"
  ha_last_request_id :: "string option"
  ha_last_updated_at :: "datetime option"

definition account_snapshot_new :: "account_config \<Rightarrow> account_snapshot" where
  "account_snapshot_new c =
     \<lparr>ha_schema_version = HOSTED_ACCOUNT_FILE_VERSION, ha_base_url = hc_base_url c, ha_device_name = hc_device_name c,
      ha_connection_state = CsSignedOut, ha_account_id = None, ha_user_id = None, ha_email = None,
      ha_display_name = None, ha_email_verified = False, ha_session_id = None, ha_session_issued_at = None,
      ha_session_expires_at = None, ha_refresh_expires_at = None, ha_session_credential = None,
      ha_refresh_credential = None, ha_device_id = None, ha_devices = [], ha_logbooks = [],
      ha_pending_email = None, ha_pending_recovery = None, ha_last_action = None, ha_last_outcome = None,
      ha_last_error_code = None, ha_last_message = None, ha_last_request_id = None, ha_last_updated_at = None\<rparr>"

definition clear_identity :: "account_snapshot \<Rightarrow> account_snapshot" where
  "clear_identity s = s\<lparr>ha_account_id := None, ha_user_id := None, ha_email := None, ha_display_name := None,
     ha_email_verified := False, ha_devices := [], ha_logbooks := []\<rparr>"

definition clear_session :: "account_snapshot \<Rightarrow> account_snapshot" where
  "clear_session s = s\<lparr>ha_session_id := None, ha_session_issued_at := None, ha_session_expires_at := None,
     ha_refresh_expires_at := None, ha_session_credential := None, ha_refresh_credential := None, ha_device_id := None\<rparr>"

datatype account_action =
    ActRegister string "string option" "string option" "string option"
  | ActVerifyEmail string
  | ActRecoveryStart string
  | ActRecoveryComplete string
  | ActBootstrap string "string option"
  | ActLogin string "string option"
  | ActSession
  | ActSessionRotate
  | ActLogout
  | ActLogoutAll
  | ActAccountDelete
  | ActDeviceList
  | ActDeviceRegister string
  | ActDeviceRevoke uuid
  | ActDeviceRevokeAll

definition account_action_name :: "account_action \<Rightarrow> string" where
  "account_action_name a = (case a of
     ActRegister _ _ _ _ \<Rightarrow> ''account.register'' | ActVerifyEmail _ \<Rightarrow> ''account.verify_email''
   | ActRecoveryStart _ \<Rightarrow> ''account.recovery.start'' | ActRecoveryComplete _ \<Rightarrow> ''account.recovery.complete''
   | ActBootstrap _ _ \<Rightarrow> ''account.bootstrap'' | ActLogin _ _ \<Rightarrow> ''account.login''
   | ActSession \<Rightarrow> ''account.session'' | ActSessionRotate \<Rightarrow> ''account.session.rotate''
   | ActLogout \<Rightarrow> ''account.logout'' | ActLogoutAll \<Rightarrow> ''account.logout_all''
   | ActAccountDelete \<Rightarrow> ''account.delete'' | ActDeviceList \<Rightarrow> ''account.devices.list''
   | ActDeviceRegister _ \<Rightarrow> ''account.devices.register'' | ActDeviceRevoke _ \<Rightarrow> ''account.devices.revoke''
   | ActDeviceRevokeAll \<Rightarrow> ''account.devices.revoke_all'')"

definition action_requires_session :: "account_action \<Rightarrow> bool" where
  "action_requires_session a = (case a of
     ActSession \<Rightarrow> True | ActSessionRotate \<Rightarrow> True | ActLogout \<Rightarrow> True | ActLogoutAll \<Rightarrow> True
   | ActAccountDelete \<Rightarrow> True | ActDeviceList \<Rightarrow> True | ActDeviceRegister _ \<Rightarrow> True | ActDeviceRevoke _ \<Rightarrow> True
   | ActDeviceRevokeAll \<Rightarrow> True | _ \<Rightarrow> False)"

section \<open>Normal forms of the inputs\<close>

definition trim_end_char :: "char \<Rightarrow> string \<Rightarrow> string" where
  "trim_end_char c s = rev (dropWhile (\<lambda>x. x = c) (rev s))"

definition normalize_base_url :: "string \<Rightarrow> account_error + string" where
  "normalize_base_url base_url =
     (let trimmed = trim_end_char (CHR ''/'') (trim base_url) in
      if trimmed = [] then Inl (HaInvalidBaseUrl ''base URL is required'')
      else if length trimmed > MAX_BASE_URL_BYTES then Inl (HaInvalidBaseUrl ''base URL is too long'')
      else if \<not> starts_with trimmed ''http://'' \<and> \<not> starts_with trimmed ''https://''
      then Inl (HaInvalidBaseUrl ''base URL must start with http:// or https://'')
      else if has_whitespace trimmed \<or> has_control trimmed
      then Inl (HaInvalidBaseUrl ''base URL must not contain whitespace or control characters'')
      else
        let authority = (case split_once ''//'' trimmed of None \<Rightarrow> trimmed | Some (_, rest) \<Rightarrow> rest) in
        if authority = [] \<or> starts_with authority ''/'' then Inl (HaInvalidBaseUrl ''base URL must include a host'')
        else Inr trimmed)"

definition normalize_email :: "string \<Rightarrow> account_error + string" where
  "normalize_email email =
     (let trimmed = to_ascii_lowercase (trim email) in
      if trimmed = [] \<or> length trimmed > MAX_EMAIL_BYTES then Inl HaInvalidEmail
      else if has_whitespace trimmed \<or> has_control trimmed then Inl HaInvalidEmail
      else (case split_on (CHR ''@'') trimmed of
          [local, domain] \<Rightarrow>
            if local = [] \<or> domain = [] \<or> \<not> contains_str domain ''.'' then Inl HaInvalidEmail else Inr trimmed
        | _ \<Rightarrow> Inl HaInvalidEmail))"

definition normalize_device_name :: "string \<Rightarrow> account_error + string" where
  "normalize_device_name device_name =
     (let trimmed = trim device_name in
      if trimmed = [] then Inr DEFAULT_HOSTED_ACCOUNT_DEVICE_NAME
      else if length trimmed > MAX_DEVICE_NAME_BYTES then Inl (HaFieldTooLong ''device_name'' MAX_DEVICE_NAME_BYTES)
      else if has_control trimmed then Inl (HaFieldTooLong ''device_name'' MAX_DEVICE_NAME_BYTES)
      else Inr trimmed)"

definition config_normalized :: "account_config \<Rightarrow> account_error + account_config" where
  "config_normalized c =
     and_then (normalize_base_url (hc_base_url c)) (\<lambda>url.
     and_then (normalize_device_name (hc_device_name c)) (\<lambda>name.
       Inr \<lparr>hc_base_url = url, hc_device_name = name\<rparr>))"

definition require_token :: "string \<Rightarrow> string \<Rightarrow> account_error + string" where
  "require_token value field =
     (let trimmed = trim value in
      if trimmed = [] then Inl (HaMissingField field)
      else if length trimmed > MAX_TOKEN_BYTES then Inl (HaFieldTooLong field MAX_TOKEN_BYTES)
      else Inr trimmed)"

definition insert_optional_string :: "json \<Rightarrow> string \<Rightarrow> string option \<Rightarrow> string \<Rightarrow> nat \<Rightarrow> account_error + json" where
  "insert_optional_string body key value field bound =
     (case map_option trim value of
        None \<Rightarrow> Inr body
      | Some v \<Rightarrow>
          if v = [] then Inr body
          else if length v > bound then Inl (HaFieldTooLong field bound)
          else Inr (case body of JObject m \<Rightarrow> JObject (bt_insert key (JString v) m) | _ \<Rightarrow> body))"

section \<open>Planning a request\<close>

record request_plan =
  hp_action :: string
  hp_method :: string
  hp_path :: string
  hp_url :: string
  hp_body :: "json option"
  hp_requires_session_token :: bool
  hp_session_credential :: "uuid option"
  hp_requires_refresh_token :: bool
  hp_refresh_credential :: "uuid option"
  hp_refresh_body_field :: "string option"
  hp_request_id :: uuid
  hp_timeout_seconds :: "64 word"
  hp_max_response_bytes :: nat

definition body_with_refresh_token :: "request_plan \<Rightarrow> string \<Rightarrow> json" where
  "body_with_refresh_token p refresh_token =
     (let body = (case hp_body p of None \<Rightarrow> JObject [] | Some b \<Rightarrow> b) in
      case hp_refresh_body_field p of
        None \<Rightarrow> body
      | Some field \<Rightarrow>
          (case body of JObject m \<Rightarrow> JObject (bt_insert field (JString refresh_token) m) | _ \<Rightarrow> body))"

definition named_body :: "string \<Rightarrow> string \<Rightarrow> string option \<Rightarrow> account_error + json" where
  "named_body email device_name display_name =
     and_then (normalize_email email) (\<lambda>email.
       insert_optional_string (json_object [(''email'', JString email), (''device_name'', JString device_name)])
         ''display_name'' display_name ''display_name'' MAX_DISPLAY_NAME_BYTES)"

text \<open>Method, path and body of an action.\<close>

definition action_request :: "libs \<Rightarrow> string \<Rightarrow> account_action \<Rightarrow> account_error + string \<times> string \<times> json option" where
  "action_request L device_name a =
     (case a of
        ActRegister email display_name invitation_token turnstile_token \<Rightarrow>
          and_then (named_body email device_name display_name) (\<lambda>body.
          and_then (insert_optional_string body ''invitation_token'' invitation_token ''invitation_token'' MAX_TOKEN_BYTES) (\<lambda>body.
          and_then (insert_optional_string body ''turnstile_token'' turnstile_token ''turnstile_token'' MAX_TOKEN_BYTES) (\<lambda>body.
            Inr (''POST'', ''/api/v1/auth/register'', Some body))))
      | ActVerifyEmail token \<Rightarrow>
          and_then (require_token token ''token'') (\<lambda>t.
            Inr (''POST'', ''/api/v1/auth/verify-email'', Some (json_object [(''token'', JString t)])))
      | ActRecoveryStart email \<Rightarrow>
          and_then (normalize_email email) (\<lambda>e.
            Inr (''POST'', ''/api/v1/auth/recovery/start'', Some (json_object [(''email'', JString e)])))
      | ActRecoveryComplete token \<Rightarrow>
          and_then (require_token token ''token'') (\<lambda>t.
            Inr (''POST'', ''/api/v1/auth/recovery/complete'',
              Some (json_object [(''token'', JString t), (''device_name'', JString device_name)])))
      | ActBootstrap email display_name \<Rightarrow>
          and_then (named_body email device_name display_name) (\<lambda>body. Inr (''POST'', ''/api/v1/admin/bootstrap'', Some body))
      | ActLogin email display_name \<Rightarrow>
          and_then (named_body email device_name display_name) (\<lambda>body. Inr (''POST'', ''/api/v1/auth/login'', Some body))
      | ActSession \<Rightarrow> Inr (''GET'', ''/api/v1/auth/session'', None)
      | ActSessionRotate \<Rightarrow> Inr (''POST'', ''/api/v1/auth/session/rotate'', Some (JObject []))
      | ActLogout \<Rightarrow> Inr (''POST'', ''/api/v1/auth/logout'', Some (JObject []))
      | ActLogoutAll \<Rightarrow> Inr (''POST'', ''/api/v1/auth/logout-all'', Some (JObject []))
      | ActAccountDelete \<Rightarrow> Inr (''POST'', ''/api/v1/auth/account/delete'', Some (json_object [(''confirm'', JBool True)]))
      | ActDeviceList \<Rightarrow> Inr (''GET'', ''/api/v1/devices'', None)
      | ActDeviceRegister name \<Rightarrow>
          and_then (normalize_device_name name) (\<lambda>n.
            Inr (''POST'', ''/api/v1/devices'', Some (json_object [(''device_name'', JString n)])))
      | ActDeviceRevoke i \<Rightarrow> Inr (''POST'', ''/api/v1/devices/'' @ lib_show_uuid L i @ ''/revoke'', Some (JObject []))
      | ActDeviceRevokeAll \<Rightarrow> Inr (''POST'', ''/api/v1/devices/revoke-all'', Some (JObject [])))"

definition plan_hosted_account_request ::
    "libs \<Rightarrow> account_action \<Rightarrow> account_snapshot \<Rightarrow> world \<Rightarrow> (account_error + request_plan) \<times> world" where
  "plan_hosted_account_request L a s w =
     (let planned =
        and_then (normalize_base_url (ha_base_url s)) (\<lambda>base_url.
        and_then (normalize_device_name (ha_device_name s)) (\<lambda>device_name.
        and_then (ensure (\<not> (action_requires_session a \<and> ha_session_credential s = None)) HaSessionRequired) (\<lambda>_.
        and_then (action_request L device_name a) (\<lambda>(meth, path, body).
        and_then (ensure (\<not> (a = ActSessionRotate \<and> ha_refresh_credential s = None)) HaRefreshTokenRequired) (\<lambda>_.
          Inr (base_url, meth, path, body))))))
      in case planned of
           Inl err \<Rightarrow> (Inl err, w)
         | Inr (base_url, meth, path, body) \<Rightarrow>
             let (request_id, w) = new_v4 w; refreshes = (a = ActSessionRotate) in
             (Inr \<lparr>hp_action = account_action_name a, hp_method = meth, hp_path = path, hp_url = base_url @ path,
                hp_body = body, hp_requires_session_token = action_requires_session a,
                hp_session_credential = (if action_requires_session a then ha_session_credential s else None),
                hp_requires_refresh_token = refreshes,
                hp_refresh_credential = (if refreshes then ha_refresh_credential s else None),
                hp_refresh_body_field = (if refreshes then Some ''refresh_token'' else None),
                hp_request_id = request_id, hp_timeout_seconds = DEFAULT_HOSTED_ACCOUNT_TIMEOUT_SECONDS,
                hp_max_response_bytes = MAX_HOSTED_ACCOUNT_RESPONSE_BYTES\<rparr>, w))"

section \<open>Reading a response\<close>

record account_http_response =
  hx_status :: "16 word"
  hx_body :: "json option"

text \<open>A result carries the issued tokens beside the snapshot: they are skipped by serde.\<close>

record account_result =
  hz_action :: string
  hz_outcome :: account_outcome
  hz_status :: "16 word"
  hz_message :: string
  hz_error_code :: "string option"
  hz_request_id :: "string option"
  hz_retryable :: bool
  hz_user_action_required :: bool
  hz_snapshot :: account_snapshot
  hz_cleared :: "uuid list"
  hz_session_token :: "string option"
  hz_refresh_token :: "string option"

fun as_array :: "json \<Rightarrow> json list option" where
  "as_array (JArray vs) = Some vs"
| "as_array _ = None"

definition parse_uuid_value :: "libs \<Rightarrow> json \<Rightarrow> uuid option" where
  "parse_uuid_value L v = Option.bind (as_str v) (lib_parse_uuid L)"

definition parse_timestamp_value :: "libs \<Rightarrow> json \<Rightarrow> datetime option" where
  "parse_timestamp_value L v = Option.bind (as_str v) (lib_parse_rfc3339 L)"

definition non_empty_string :: "json option \<Rightarrow> string option" where
  "non_empty_string v =
     (case map_option trim (Option.bind v as_str) of
        None \<Rightarrow> None | Some t \<Rightarrow> if t = [] then None else Some t)"

abbreviation uuid_at :: "libs \<Rightarrow> json \<Rightarrow> string \<Rightarrow> uuid option" where
  "uuid_at L v k \<equiv> Option.bind (value_get v k) (parse_uuid_value L)"

abbreviation time_at :: "libs \<Rightarrow> json \<Rightarrow> string \<Rightarrow> datetime option" where
  "time_at L v k \<equiv> Option.bind (value_get v k) (parse_timestamp_value L)"

text \<open>\<open>if let Some(x) = new { field = Some(x) }\<close>.\<close>

definition keep_or :: "'a option \<Rightarrow> 'a option \<Rightarrow> 'a option" where
  "keep_or old x = (case x of None \<Rightarrow> old | Some _ \<Rightarrow> x)"

definition hosted_device_from_value :: "libs \<Rightarrow> json \<Rightarrow> hosted_device option" where
  "hosted_device_from_value L v =
     (case uuid_at L v ''device_id'' of
        None \<Rightarrow> None
      | Some i \<Rightarrow> Some
          \<lparr>hd_device_id = i, hd_device_name = str_or v ''device_name'' ''Device'',
           hd_trusted = (Option.bind (value_get v ''trusted'') as_bool = Some True),
           hd_revoked = (Option.bind (value_get v ''revoked'') as_bool = Some True),
           hd_registered_at = time_at L v ''registered_at'', hd_revoked_at = time_at L v ''revoked_at'',
           hd_current = False\<rparr>)"

definition upsert_device :: "hosted_device \<Rightarrow> account_snapshot \<Rightarrow> account_snapshot" where
  "upsert_device device s =
     (let device = device\<lparr>hd_current := (ha_device_id s = Some (hd_device_id device))\<rparr>;
          same = (\<lambda>d. hd_device_id d = hd_device_id device) in
      if list_ex same (ha_devices s) then s\<lparr>ha_devices := modify_first same (\<lambda>_. device) (ha_devices s)\<rparr>
      else if length (ha_devices s) < MAX_CACHED_DEVICES
      then s\<lparr>ha_devices := sort_key hd_device_id (ha_devices s @ [device])\<rparr>
      else s)"

definition mark_device_revoked :: "uuid \<Rightarrow> datetime \<Rightarrow> account_snapshot \<Rightarrow> account_snapshot" where
  "mark_device_revoked i now s = s\<lparr>ha_devices := modify_first (\<lambda>d. hd_device_id d = i)
     (\<lambda>d. d\<lparr>hd_revoked := True, hd_revoked_at := Some now\<rparr>) (ha_devices s)\<rparr>"

definition apply_devices :: "libs \<Rightarrow> json \<Rightarrow> account_snapshot \<Rightarrow> account_snapshot" where
  "apply_devices L body s =
     (case Option.bind (value_get body ''devices'') as_array of
        Some entries \<Rightarrow>
          s\<lparr>ha_devices := map (\<lambda>d. d\<lparr>hd_current := (ha_device_id s = Some (hd_device_id d))\<rparr>)
             (sort_key hd_device_id (List.map_filter (hosted_device_from_value L) (take MAX_CACHED_DEVICES entries)))\<rparr>
      | None \<Rightarrow>
          (case Option.bind (value_get body ''device'') (hosted_device_from_value L) of
             None \<Rightarrow> s | Some d \<Rightarrow> upsert_device d s))"

definition listed_logbook :: "libs \<Rightarrow> json \<Rightarrow> hosted_logbook option" where
  "listed_logbook L v = map_option (\<lambda>i. \<lparr>hl_logbook_id = i, hl_name = str_or v ''name'' ''Logbook'', hl_role = None\<rparr>)
     (uuid_at L v ''logbook_id'')"

text \<open>A membership gives its role to the listed logbook, or adds one named as the cache has it.\<close>

definition apply_membership :: "libs \<Rightarrow> hosted_logbook list \<Rightarrow> json \<Rightarrow> hosted_logbook list \<Rightarrow> hosted_logbook list" where
  "apply_membership L cached v logbooks =
     (case uuid_at L v ''logbook_id'' of
        None \<Rightarrow> logbooks
      | Some i \<Rightarrow>
          let role = value_str v ''role''; same = (\<lambda>b. hl_logbook_id b = i) in
          if list_ex same logbooks then modify_first same (\<lambda>b. b\<lparr>hl_role := role\<rparr>) logbooks
          else logbooks @ [\<lparr>hl_logbook_id = i,
            hl_name = (case List.find same cached of None \<Rightarrow> ''Logbook'' | Some b \<Rightarrow> hl_name b), hl_role = role\<rparr>])"

definition apply_logbooks :: "libs \<Rightarrow> json \<Rightarrow> account_snapshot \<Rightarrow> account_snapshot" where
  "apply_logbooks L body s =
     (let entries = (\<lambda>k. case Option.bind (value_get body k) as_array of None \<Rightarrow> [] | Some vs \<Rightarrow> take MAX_CACHED_LOGBOOKS vs);
          logbooks = fold (apply_membership L (ha_logbooks s)) (entries ''memberships'')
            (List.map_filter (listed_logbook L) (entries ''logbooks''))
      in if logbooks = [] then s else s\<lparr>ha_logbooks := sort_key hl_logbook_id logbooks\<rparr>)"

definition apply_account :: "libs \<Rightarrow> json \<Rightarrow> account_snapshot \<Rightarrow> account_snapshot" where
  "apply_account L account s =
     s\<lparr>ha_account_id := keep_or (ha_account_id s) (uuid_at L account ''account_id''),
       ha_user_id := keep_or (ha_user_id s) (uuid_at L account ''user_id''),
       ha_email := keep_or (ha_email s) (value_str account ''email''),
       ha_display_name := keep_or (ha_display_name s) (value_str account ''display_name''),
       ha_email_verified := (case value_get account ''email_verified_at'' of
          None \<Rightarrow> ha_email_verified s | Some v \<Rightarrow> v \<noteq> JNull)\<rparr>"

text \<open>A credential identifier is kept, or drawn when there is none.\<close>

definition credential_or_new :: "uuid option \<Rightarrow> world \<Rightarrow> uuid option \<times> world" where
  "credential_or_new c w = (case c of Some _ \<Rightarrow> (c, w) | None \<Rightarrow> (case new_v4 w of (i, w) \<Rightarrow> (Some i, w)))"

definition apply_session_part :: "libs \<Rightarrow> json \<Rightarrow> account_snapshot \<Rightarrow> world \<Rightarrow> string option \<times> account_snapshot \<times> world" where
  "apply_session_part L session s w =
     (let s = s\<lparr>ha_session_id := keep_or (ha_session_id s) (uuid_at L session ''session_id''),
            ha_session_issued_at := time_at L session ''issued_at'',
            ha_session_expires_at := time_at L session ''expires_at'',
            ha_refresh_expires_at := time_at L session ''refresh_expires_at'',
            ha_device_id := keep_or (ha_device_id s) (uuid_at L session ''device_id'')\<rparr>
      in case non_empty_string (value_get session ''token'') of
           None \<Rightarrow> (None, s, w)
         | Some token \<Rightarrow>
             let (c, w) = credential_or_new (ha_session_credential s) w in
             (Some token, s\<lparr>ha_session_credential := c\<rparr>, w))"

definition apply_refresh_part :: "json \<Rightarrow> account_snapshot \<Rightarrow> world \<Rightarrow> string option \<times> account_snapshot \<times> world" where
  "apply_refresh_part body s w =
     (case non_empty_string (value_get body ''refresh_token'') of
        None \<Rightarrow> (None, s, w)
      | Some token \<Rightarrow>
          let (c, w) = credential_or_new (ha_refresh_credential s) w in
          (Some token, s\<lparr>ha_refresh_credential := c\<rparr>, w))"

definition apply_device_part :: "libs \<Rightarrow> json \<Rightarrow> account_snapshot \<Rightarrow> account_snapshot" where
  "apply_device_part L device s =
     (let s = s\<lparr>ha_device_id := keep_or (ha_device_id s) (uuid_at L device ''device_id'')\<rparr> in
      case hosted_device_from_value L device of None \<Rightarrow> s | Some d \<Rightarrow> upsert_device d s)"

definition signed_in :: "account_snapshot \<Rightarrow> account_snapshot" where
  "signed_in s =
     (let s = s\<lparr>ha_connection_state := CsSignedIn, ha_email_verified := True, ha_pending_email := None\<rparr> in
      case ha_device_id s of
        None \<Rightarrow> s
      | Some i \<Rightarrow> s\<lparr>ha_devices := map (\<lambda>d. d\<lparr>hd_current := (hd_device_id d = i)\<rparr>) (ha_devices s)\<rparr>)"

definition apply_session :: "libs \<Rightarrow> json \<Rightarrow> account_snapshot \<Rightarrow> world \<Rightarrow>
    (string option \<times> string option) \<times> account_snapshot \<times> world" where
  "apply_session L body s w =
     (let s = (case value_get body ''account'' of None \<Rightarrow> s | Some account \<Rightarrow> apply_account L account s);
          (session_token, s, w) = (case value_get body ''session'' of
             None \<Rightarrow> (None, s, w) | Some session \<Rightarrow> apply_session_part L session s w);
          (refresh_token, s, w) = apply_refresh_part body s w;
          s = (case value_get body ''device'' of None \<Rightarrow> s | Some device \<Rightarrow> apply_device_part L device s)
      in ((session_token, refresh_token), signed_in (apply_logbooks L body s), w))"

definition classify_hosted_account_error :: "string option \<Rightarrow> 16 word \<Rightarrow> account_outcome" where
  "classify_hosted_account_error code status =
     (let by_status =
        (if status = 401 then OcAuthenticationRequired
         else if status = 403 \<or> status = 404 then OcPermanentFailure
         else if status = 429 then OcRateLimited
         else if 500 \<le> status \<and> status < 600 then OcTransientFailure
         else if 400 \<le> status \<and> status < 500 then OcValidationFailed
         else OcPermanentFailure)
      in case code of
        None \<Rightarrow> by_status
      | Some c \<Rightarrow>
          if c \<in> {''missing_token'', ''invalid_token'', ''session_inactive'', ''session_expired'', ''device_revoked''}
          then OcAuthenticationRequired
          else if c = ''email_unverified'' then OcEmailVerificationRequired
          else if c = ''registration_closed'' then OcRegistrationClosed
          else if c = ''token_expired'' then OcTokenExpired
          else if c = ''token_replayed'' then OcTokenReplayed
          else if c = ''turnstile_failed'' then OcHumanVerificationFailed
          else if c = ''rate_limited'' then OcRateLimited
          else if c \<in> {''bad_request'', ''validation_failed'', ''invalid_json'', ''invalid_uuid'', ''missing_field'',
            ''unsupported_media_type'', ''payload_too_large'', ''proposal_rejected''} then OcValidationFailed
          else if c \<in> {''store_unavailable'', ''internal_error''} then OcTransientFailure
          else if c \<in> {''forbidden'', ''not_found''} then OcPermanentFailure
          else by_status)"

definition finish_result :: "account_action \<Rightarrow> 16 word \<Rightarrow> account_outcome \<Rightarrow> string \<Rightarrow> string option \<Rightarrow> string option \<Rightarrow>
    account_snapshot \<Rightarrow> uuid list \<Rightarrow> string option \<Rightarrow> string option \<Rightarrow> datetime \<Rightarrow> account_result" where
  "finish_result a status outcome message error_code request_id s cleared session_token refresh_token now =
     \<lparr>hz_action = account_action_name a, hz_outcome = outcome, hz_status = status, hz_message = message,
      hz_error_code = error_code, hz_request_id = request_id, hz_retryable = outcome_is_retryable outcome,
      hz_user_action_required = requires_user_action outcome,
      hz_snapshot = s\<lparr>ha_schema_version := HOSTED_ACCOUNT_FILE_VERSION, ha_last_action := Some (account_action_name a),
        ha_last_outcome := Some outcome, ha_last_error_code := error_code, ha_last_message := Some message,
        ha_last_request_id := request_id, ha_last_updated_at := Some now\<rparr>,
      hz_cleared = cleared, hz_session_token = session_token, hz_refresh_token = refresh_token\<rparr>"

definition session_credentials :: "account_snapshot \<Rightarrow> uuid list" where
  "session_credentials s = (case ha_session_credential s of None \<Rightarrow> [] | Some i \<Rightarrow> [i]) @
     (case ha_refresh_credential s of None \<Rightarrow> [] | Some i \<Rightarrow> [i])"

definition json_count :: "json \<Rightarrow> string \<Rightarrow> 64 word" where
  "json_count body k = (case Option.bind (value_get body k) as_u64 of None \<Rightarrow> 0 | Some n \<Rightarrow> n)"

text \<open>What an accepted action makes of the snapshot: the message, the new snapshot, the
  credentials to clear and the tokens issued.\<close>

type_synonym account_change =
  "string \<times> account_snapshot \<times> uuid list \<times> (string option \<times> string option) \<times> world"

definition signed_out :: "connection_state \<Rightarrow> string \<Rightarrow> account_snapshot \<Rightarrow> world \<Rightarrow> account_change" where
  "signed_out c message s w =
     (message, (clear_session s)\<lparr>ha_connection_state := c\<rparr>, session_credentials s, (None, None), w)"

definition accept_session :: "libs \<Rightarrow> string \<Rightarrow> json \<Rightarrow> account_snapshot \<Rightarrow> world \<Rightarrow> account_change" where
  "accept_session L message body s w =
     (let (tokens, s, w) = apply_session L body s w in (message, s\<lparr>ha_pending_recovery := None\<rparr>, [], tokens, w))"

definition accepted_change :: "libs \<Rightarrow> account_action \<Rightarrow> json \<Rightarrow> account_snapshot \<Rightarrow> datetime \<Rightarrow> world \<Rightarrow> account_change" where
  "accepted_change L a body s now w =
     (case a of
        ActRegister email _ _ _ \<Rightarrow>
          let normalized = (case Option.bind (value_get body ''account'') (\<lambda>account. value_str account ''email'') of
              Some e \<Rightarrow> Some e
            | None \<Rightarrow> (case normalize_email email of Inl _ \<Rightarrow> None | Inr e \<Rightarrow> Some e))
          in (''Registration accepted. Check the account email for the verification token.'',
              s\<lparr>ha_pending_email := normalized, ha_email := normalized, ha_email_verified := False,
                ha_connection_state := CsPendingEmailVerification\<rparr>, [], (None, None), w)
      | ActVerifyEmail _ \<Rightarrow>
          let s = (case value_get body ''account'' of None \<Rightarrow> s | Some account \<Rightarrow> apply_account L account s)
          in (''Email verified. Sign in to start a hosted session.'',
              s\<lparr>ha_email_verified := True, ha_pending_email := None,
                ha_connection_state := (if ha_connection_state s = CsSignedIn then CsSignedIn else CsSignedOut)\<rparr>,
              [], (None, None), w)
      | ActRecoveryStart email \<Rightarrow>
          (''If the account exists and is verified, a recovery token was sent to its email.'',
           s\<lparr>ha_pending_recovery := (case normalize_email email of Inl _ \<Rightarrow> None | Inr e \<Rightarrow> Some e)\<rparr>,
           [], (None, None), w)
      | ActSessionRotate \<Rightarrow> accept_session L ''Hosted session rotated.'' body s w
      | ActBootstrap _ _ \<Rightarrow> accept_session L ''Claimed the server administrator bootstrap and signed in.'' body s w
      | ActRecoveryComplete _ \<Rightarrow> accept_session L ''Signed in to the hosted account.'' body s w
      | ActLogin _ _ \<Rightarrow> accept_session L ''Signed in to the hosted account.'' body s w
      | ActSession \<Rightarrow>
          let (tokens, s, w) = apply_session L body s w in (''Hosted session refreshed.'', s, [], tokens, w)
      | ActLogout \<Rightarrow> signed_out CsSignedOut ''Signed out of the hosted account.'' s w
      | ActLogoutAll \<Rightarrow>
          signed_out CsSignedOut
            (''Signed out of '' @ show_nat (unat (json_count body ''revoked_sessions'')) @ '' hosted sessions.'') s w
      | ActAccountDelete \<Rightarrow>
          (''Hosted account deletion accepted.'',
           (clear_identity (clear_session s))\<lparr>ha_pending_email := None, ha_pending_recovery := None,
             ha_connection_state := CsSignedOut\<rparr>, session_credentials s, (None, None), w)
      | ActDeviceList \<Rightarrow>
          let s = apply_devices L body s in
          (show_nat (length (ha_devices s)) @ '' hosted devices known.'', s, [], (None, None), w)
      | ActDeviceRegister _ \<Rightarrow>
          let s = apply_devices L body s in
          (show_nat (length (ha_devices s)) @ '' hosted devices known.'', s, [], (None, None), w)
      | ActDeviceRevoke i \<Rightarrow>
          let s = mark_device_revoked i now (apply_devices L body s) in
          if ha_device_id s = Some i
          then signed_out CsDeviceRevoked ''This device was revoked and the local session was cleared.'' s w
          else (''Hosted device '' @ lib_show_uuid L i @ '' revoked.'', s, [], (None, None), w)
      | ActDeviceRevokeAll \<Rightarrow>
          signed_out CsSignedOut
            (''Revoked '' @ show_nat (unat (json_count body ''revoked_devices'')) @ '' hosted devices and signed out.'')
            (s\<lparr>ha_devices := map (\<lambda>d. d\<lparr>hd_revoked := True, hd_revoked_at := Some now, hd_current := False\<rparr>)
               (ha_devices s)\<rparr>) w)"

definition or_request_id :: "libs \<Rightarrow> request_plan \<Rightarrow> string option \<Rightarrow> string option" where
  "or_request_id L p r = (case r of Some _ \<Rightarrow> r | None \<Rightarrow> Some (lib_show_uuid L (hp_request_id p)))"

definition accepted_result :: "libs \<Rightarrow> account_action \<Rightarrow> request_plan \<Rightarrow> 16 word \<Rightarrow> json \<Rightarrow> account_snapshot \<Rightarrow>
    datetime \<Rightarrow> world \<Rightarrow> account_result \<times> world" where
  "accepted_result L a p status body s now w =
     (let (message, s, cleared, (session_token, refresh_token), w) = accepted_change L a body s now w in
      (finish_result a status OcAccepted message None (or_request_id L p (value_str body ''request_id''))
         s cleared session_token refresh_token now, w))"

text \<open>What a refusal does to the snapshot, and the credentials it clears.\<close>

definition refused_change :: "account_outcome \<Rightarrow> string option \<Rightarrow> account_snapshot \<Rightarrow> account_snapshot \<times> uuid list" where
  "refused_change outcome error_code s =
     (if outcome = OcAuthenticationRequired
      then ((clear_session s)\<lparr>ha_connection_state :=
              (if error_code = Some ''device_revoked'' then CsDeviceRevoked else CsSessionExpired)\<rparr>, session_credentials s)
      else if outcome = OcEmailVerificationRequired
      then (s\<lparr>ha_email_verified := False, ha_connection_state := CsPendingEmailVerification\<rparr>, [])
      else (s, []))"

definition apply_hosted_account_response :: "libs \<Rightarrow> account_action \<Rightarrow> request_plan \<Rightarrow> account_http_response \<Rightarrow>
    account_snapshot \<Rightarrow> datetime \<Rightarrow> world \<Rightarrow> account_result \<times> world" where
  "apply_hosted_account_response L a p response s now w =
     (let body = (case hx_body response of None \<Rightarrow> JNull | Some b \<Rightarrow> b); status = hx_status response in
      if 200 \<le> status \<and> status < 300 then accepted_result L a p status body s now w
      else
        let error_code = value_str body ''code'';
            message = (case value_str body ''error'' of Some m \<Rightarrow> m
              | None \<Rightarrow> ''hosted account request failed with status '' @ show_nat (unat status));
            outcome = classify_hosted_account_error error_code status;
            (s, cleared) = refused_change outcome error_code s
        in (finish_result a status outcome message error_code (or_request_id L p (value_str body ''request_id''))
              s cleared None None now, w))"

definition hosted_account_transport_failure :: "libs \<Rightarrow> account_action \<Rightarrow> request_plan \<Rightarrow> string \<Rightarrow>
    account_snapshot \<Rightarrow> datetime \<Rightarrow> account_result" where
  "hosted_account_transport_failure L a p message s now =
     finish_result a 0 OcTransientFailure (''hosted account transport failure: '' @ message) (Some ''transport_failure'')
       (Some (lib_show_uuid L (hp_request_id p))) s [] None None now"

section \<open>The durable record\<close>

record account_file =
  hf_version :: "32 word"
  hf_snapshot :: account_snapshot

definition account_file_validate :: "account_file \<Rightarrow> account_error + unit" where
  "account_file_validate f =
     (if hf_version f \<noteq> HOSTED_ACCOUNT_FILE_VERSION then Inl (HaUnsupportedFileVersion (hf_version f))
      else if ha_schema_version (hf_snapshot f) \<noteq> HOSTED_ACCOUNT_FILE_VERSION
      then Inl (HaUnsupportedFileVersion (ha_schema_version (hf_snapshot f)))
      else and_then (normalize_base_url (ha_base_url (hf_snapshot f))) (\<lambda>_. Inr ()))"

definition account_load_file :: "account_file codec \<Rightarrow> json_disk \<Rightarrow> account_error + account_file" where
  "account_load_file c d =
     (case jd_file d of
        None \<Rightarrow> Inl HaNotFound
      | Some bytes \<Rightarrow>
          and_then (map_err HaSerde (cd_parse c bytes)) (\<lambda>f. and_then (account_file_validate f) (\<lambda>_. Inr f)))"

definition account_save :: "account_file codec \<Rightarrow> account_snapshot \<Rightarrow> json_disk \<Rightarrow> (account_error + unit) \<times> json_disk" where
  "account_save c s d =
     (case write_json_atomically c \<lparr>hf_version = HOSTED_ACCOUNT_FILE_VERSION, hf_snapshot = s\<rparr> d of
        (r, d) \<Rightarrow> (map_err HaIo r, d))"

definition account_initialize :: "account_file codec \<Rightarrow> account_config \<Rightarrow> json_disk \<Rightarrow>
    (account_error + account_snapshot) \<times> json_disk" where
  "account_initialize c config d =
     (case config_normalized config of
        Inl err \<Rightarrow> (Inl err, d)
      | Inr config \<Rightarrow>
          (case account_save c (account_snapshot_new config) d of
             (Inl err, d) \<Rightarrow> (Inl err, d)
           | (Inr _, d) \<Rightarrow> (Inr (account_snapshot_new config), d)))"

definition load_or_initialize :: "account_file codec \<Rightarrow> account_config \<Rightarrow> json_disk \<Rightarrow>
    (account_error + account_snapshot) \<times> json_disk" where
  "load_or_initialize c config d =
     (case account_load_file c d of
        Inr f \<Rightarrow> (Inr (hf_snapshot f), d)
      | Inl err \<Rightarrow> account_initialize c config (if err = HaNotFound then d else quarantine_file d))"

definition account_configure :: "account_file codec \<Rightarrow> account_config \<Rightarrow> datetime \<Rightarrow> json_disk \<Rightarrow>
    (account_error + account_snapshot) \<times> json_disk" where
  "account_configure c config now d =
     (case config_normalized config of
        Inl err \<Rightarrow> (Inl err, d)
      | Inr config \<Rightarrow>
          (case load_or_initialize c config d of
             (Inl err, d) \<Rightarrow> (Inl err, d)
           | (Inr s, d) \<Rightarrow>
               let s = s\<lparr>ha_base_url := hc_base_url config, ha_device_name := hc_device_name config,
                         ha_last_updated_at := Some now\<rparr> in
               (case account_save c s d of
                  (Inl err, d) \<Rightarrow> (Inl err, d)
                | (Inr _, d) \<Rightarrow> (Inr s, d))))"

section \<open>Running an action\<close>

text \<open>The traits of the platform: \<open>HostedAccountSecrets\<close> over a state \<open>'k\<close>, and
  \<open>HostedAccountTransport\<close>.\<close>

record 'k secret_ops =
  so_read :: "uuid \<Rightarrow> 'k \<Rightarrow> (account_error + string option) \<times> 'k"
  so_write :: "uuid \<Rightarrow> string \<Rightarrow> string \<Rightarrow> 'k \<Rightarrow> (account_error + unit) \<times> 'k"
  so_clear :: "uuid \<Rightarrow> 'k \<Rightarrow> (account_error + unit) \<times> 'k"

type_synonym account_transport =
  "request_plan \<Rightarrow> json option \<Rightarrow> string option \<Rightarrow> string + account_http_response"

definition write_issued :: "'k secret_ops \<Rightarrow> string \<Rightarrow> uuid option \<Rightarrow> string option \<Rightarrow> 'k \<Rightarrow> (account_error + unit) \<times> 'k" where
  "write_issued S label credential token k =
     (case (credential, token) of (Some i, Some t) \<Rightarrow> so_write S i label t k | _ \<Rightarrow> (Inr (), k))"

fun clear_secrets :: "'k secret_ops \<Rightarrow> uuid list \<Rightarrow> 'k \<Rightarrow> (account_error + unit) \<times> 'k" where
  "clear_secrets S [] k = (Inr (), k)"
| "clear_secrets S (i # is) k =
     (case so_clear S i k of (Inl err, k) \<Rightarrow> (Inl err, k) | (Inr _, k) \<Rightarrow> clear_secrets S is k)"

text \<open>The secrets a result asks to keep and to forget.\<close>

definition settle_secrets :: "'k secret_ops \<Rightarrow> account_result \<Rightarrow> 'k \<Rightarrow> (account_error + unit) \<times> 'k" where
  "settle_secrets S r k =
     (case write_issued S HOSTED_ACCOUNT_SESSION_CREDENTIAL_LABEL (ha_session_credential (hz_snapshot r)) (hz_session_token r) k of
        (Inl err, k) \<Rightarrow> (Inl err, k)
      | (Inr _, k) \<Rightarrow>
          (case write_issued S HOSTED_ACCOUNT_REFRESH_CREDENTIAL_LABEL (ha_refresh_credential (hz_snapshot r)) (hz_refresh_token r) k of
             (Inl err, k) \<Rightarrow> (Inl err, k)
           | (Inr _, k) \<Rightarrow> clear_secrets S (hz_cleared r) k))"

text \<open>The tokens a plan needs, read before the request is sent.\<close>

definition read_session_token :: "'k secret_ops \<Rightarrow> request_plan \<Rightarrow> 'k \<Rightarrow> (account_error + string option) \<times> 'k" where
  "read_session_token S p k =
     (case hp_session_credential p of
        None \<Rightarrow> (Inr None, k)
      | Some i \<Rightarrow>
          (case so_read S i k of
             (Inl err, k) \<Rightarrow> (Inl err, k)
           | (Inr token, k) \<Rightarrow>
               if hp_requires_session_token p \<and> token = None then (Inl HaSessionRequired, k) else (Inr token, k)))"

definition read_request_body :: "'k secret_ops \<Rightarrow> request_plan \<Rightarrow> 'k \<Rightarrow> (account_error + json option) \<times> 'k" where
  "read_request_body S p k =
     (if hp_requires_refresh_token p
      then (case hp_refresh_credential p of
          None \<Rightarrow> (Inl HaRefreshTokenRequired, k)
        | Some i \<Rightarrow>
            (case so_read S i k of
               (Inl err, k) \<Rightarrow> (Inl err, k)
             | (Inr None, k) \<Rightarrow> (Inl HaRefreshTokenRequired, k)
             | (Inr (Some t), k) \<Rightarrow> (Inr (Some (body_with_refresh_token p t)), k)))
      else (Inr (hp_body p), k))"

text \<open>\<open>take_secrets\<close> moves the tokens out of the result that is returned.\<close>

definition without_secrets :: "account_result \<Rightarrow> account_result" where
  "without_secrets r = r\<lparr>hz_session_token := None, hz_refresh_token := None\<rparr>"

definition account_execute :: "libs \<Rightarrow> account_file codec \<Rightarrow> 'k secret_ops \<Rightarrow> account_transport \<Rightarrow> account_action \<Rightarrow>
    account_config \<Rightarrow> datetime \<Rightarrow> json_disk \<times> 'k \<times> world \<Rightarrow>
    (account_error + account_result) \<times> json_disk \<times> 'k \<times> world" where
  "account_execute L c S T a config now = (\<lambda>(d, k, w).
     case load_or_initialize c config d of
       (Inl err, d) \<Rightarrow> (Inl err, d, k, w)
     | (Inr s, d) \<Rightarrow>
       (case plan_hosted_account_request L a s w of
          (Inl err, w) \<Rightarrow> (Inl err, d, k, w)
        | (Inr p, w) \<Rightarrow>
          (case read_session_token S p k of
             (Inl err, k) \<Rightarrow> (Inl err, d, k, w)
           | (Inr session_token, k) \<Rightarrow>
             (case read_request_body S p k of
                (Inl err, k) \<Rightarrow> (Inl err, d, k, w)
              | (Inr body, k) \<Rightarrow>
                let (r, w) = (case T p body session_token of
                      Inr response \<Rightarrow> apply_hosted_account_response L a p response s now w
                    | Inl err \<Rightarrow> (hosted_account_transport_failure L a p err s now, w)) in
                (case settle_secrets S r k of
                   (Inl err, k) \<Rightarrow> (Inl err, d, k, w)
                 | (Inr _, k) \<Rightarrow>
                   (case account_save c (hz_snapshot r) d of
                      (Inl err, d) \<Rightarrow> (Inl err, d, k, w)
                    | (Inr _, d) \<Rightarrow> (Inr (without_secrets r), d, k, w)))))))"

end
