(* ===== verification/Credential.thy ===== *)
theory Credential
  imports Account Proposal
begin

text \<open>
  Credentials (\<open>ham-core/src/credential.rs\<close>): their metadata, the store over the operating
  system's keychain, the development store that keeps secrets in a file, and the bridge by which
  the command line gives the account client its secret storage
  (\<open>CliHostedAccountSecrets\<close> of \<open>ham-client/src/cli.rs\<close>).
\<close>

datatype credential_status = CrActive | CrRevoked | CrMissing | CrInvalid

record credential_metadata =
  cm_credential_id :: uuid
  cm_provider_id :: string
  cm_account_id :: string
  cm_operator_id :: "uuid option"
  cm_service_type :: service_type
  cm_label :: string
  cm_created_at :: datetime
  cm_updated_at :: datetime
  cm_last_used_at :: "datetime option"
  cm_status :: credential_status
  cm_metadata :: json

definition credential_metadata_new :: "string \<Rightarrow> string \<Rightarrow> service_type \<Rightarrow> string \<Rightarrow> world \<Rightarrow> credential_metadata \<times> world" where
  "credential_metadata_new provider_id account_id service_type label w =
     (let (now, w) = utc_now w; (i, w) = new_v4 w in
      (\<lparr>cm_credential_id = i, cm_provider_id = provider_id, cm_account_id = account_id, cm_operator_id = None,
        cm_service_type = service_type, cm_label = label, cm_created_at = now, cm_updated_at = now,
        cm_last_used_at = None, cm_status = CrActive, cm_metadata = JObject []\<rparr>, w))"

definition sanitized :: "credential_metadata \<Rightarrow> credential_metadata" where
  "sanitized m = m\<lparr>cm_metadata := redact_payload (cm_metadata m)\<rparr>"

record credential_record =
  cv_metadata :: credential_metadata
  cv_secret :: string

datatype credential_error =
    CrBackendUnavailable string
  | CrNotFound uuid
  | CrPermissionDenied string
  | CrInsecureDevStoreNotAllowed
  | CrBackendCommand string
  | CrIo string
  | CrSerde string

text \<open>A plain file: what \<open>fs::write\<close> leaves when it fails is a part of the new contents, unless it
  fails before it opens the file.\<close>

datatype write_fate = FateDone | FateUntouched string | FateTorn nat string

record plain_file =
  pf_bytes :: "string option"
  pf_fates :: "write_fate list"

definition fs_write :: "string \<Rightarrow> plain_file \<Rightarrow> (credential_error + unit) \<times> plain_file" where
  "fs_write bytes f =
     (case pf_fates f of
        [] \<Rightarrow> (Inr (), f\<lparr>pf_bytes := Some bytes\<rparr>)
      | FateDone # fates \<Rightarrow> (Inr (), f\<lparr>pf_bytes := Some bytes, pf_fates := fates\<rparr>)
      | FateUntouched err # fates \<Rightarrow> (Inl (CrIo err), f\<lparr>pf_fates := fates\<rparr>)
      | FateTorn n err # fates \<Rightarrow> (Inl (CrIo err), f\<lparr>pf_bytes := Some (take n bytes), pf_fates := fates\<rparr>))"

section \<open>The trait\<close>

text \<open>As far as its users here call it: storing, retrieving, updating, deleting and
  testing, over a state \<open>'c\<close>.\<close>

record 'c credential_ops =
  co_store :: "credential_metadata \<Rightarrow> string \<Rightarrow> 'c \<times> world \<Rightarrow> (credential_error + credential_metadata) \<times> 'c \<times> world"
  co_retrieve :: "uuid \<Rightarrow> 'c \<times> world \<Rightarrow> (credential_error + string) \<times> 'c \<times> world"
  co_update :: "uuid \<Rightarrow> string \<Rightarrow> json option \<Rightarrow> 'c \<times> world \<Rightarrow> (credential_error + credential_metadata) \<times> 'c \<times> world"
  co_delete :: "uuid \<Rightarrow> 'c \<times> world \<Rightarrow> (credential_error + unit) \<times> 'c \<times> world"
  co_test :: "uuid \<Rightarrow> 'c \<Rightarrow> credential_error + bool"

section \<open>The store over the system's keychain\<close>

text \<open>The keychain is the platform's: \<open>platform_write_secret\<close>, \<open>platform_read_secret\<close> and
  \<open>platform_delete_secret\<close> run its tools. A secret is filed under a target name.\<close>

record 'k keychain =
  kc_available :: bool
  kc_message :: string
  kc_write :: "string \<Rightarrow> string \<Rightarrow> string \<Rightarrow> 'k \<Rightarrow> (credential_error + unit) \<times> 'k"
  kc_read :: "string \<Rightarrow> 'k \<Rightarrow> credential_error + string"
  kc_delete :: "string \<Rightarrow> 'k \<Rightarrow> (credential_error + unit) \<times> 'k"

text \<open>What the stores are given: the keychain, the prefix of its targets, \<open>serde_json\<close> on the
  metadata, and the printing of identifiers.\<close>

record 'k os_config =
  oc_keychain :: "'k keychain"
  oc_service_prefix :: string
  oc_codec :: "credential_metadata list codec"
  oc_libs :: libs

record 'k os_store =
  os_records :: "(uuid, credential_metadata) hmap"
  os_file :: plain_file
  os_keys :: 'k

definition target_name :: "'k os_config \<Rightarrow> uuid \<Rightarrow> string" where
  "target_name C i = oc_service_prefix C @ '':'' @ lib_show_uuid (oc_libs C) i"

definition os_open :: "'k os_config \<Rightarrow> plain_file \<Rightarrow> 'k \<Rightarrow> credential_error + 'k os_store" where
  "os_open C f keys =
     and_then (case pf_bytes f of
         None \<Rightarrow> Inr []
       | Some text \<Rightarrow> and_then (map_err CrSerde (cd_parse (oc_codec C) text)) (\<lambda>ms.
           Inr (fold (\<lambda>m. hm_insert (cm_credential_id m) (sanitized m)) ms [])))
       (\<lambda>records. Inr \<lparr>os_records = records, os_file = f, os_keys = keys\<rparr>)"

definition persist_metadata :: "'k os_config \<Rightarrow> 'k os_store \<Rightarrow> (credential_error + unit) \<times> 'k os_store" where
  "persist_metadata C s =
     (case fs_write (cd_print (oc_codec C) (sort_key cm_label (map sanitized (hm_values (os_records s))))) (os_file s) of
        (r, f) \<Rightarrow> (r, s\<lparr>os_file := f\<rparr>))"

text \<open>The end all changing operations share: the record is replaced, the metadata are persisted.\<close>

definition os_commit :: "'k os_config \<Rightarrow> uuid \<Rightarrow> credential_metadata \<Rightarrow> 'a \<Rightarrow> 'k os_store \<Rightarrow> world \<Rightarrow>
    (credential_error + 'a) \<times> 'k os_store \<times> world" where
  "os_commit C i m x s w =
     (case persist_metadata C (s\<lparr>os_records := hm_insert i m (os_records s)\<rparr>) of
        (Inl err, s) \<Rightarrow> (Inl err, s, w)
      | (Inr _, s) \<Rightarrow> (Inr x, s, w))"

definition os_store_credential :: "'k os_config \<Rightarrow> credential_metadata \<Rightarrow> string \<Rightarrow> 'k os_store \<times> world \<Rightarrow>
    (credential_error + credential_metadata) \<times> 'k os_store \<times> world" where
  "os_store_credential C m secret = (\<lambda>(s, w).
     if \<not> kc_available (oc_keychain C) then (Inl (CrBackendUnavailable (kc_message (oc_keychain C))), s, w)
     else
       let (now, w) = utc_now w; m = (sanitized m)\<lparr>cm_status := CrActive, cm_updated_at := now\<rparr> in
       (case kc_write (oc_keychain C) (target_name C (cm_credential_id m)) (cm_account_id m) secret (os_keys s) of
          (Inl err, keys) \<Rightarrow> (Inl err, s\<lparr>os_keys := keys\<rparr>, w)
        | (Inr _, keys) \<Rightarrow> os_commit C (cm_credential_id m) m m (s\<lparr>os_keys := keys\<rparr>) w))"

definition os_retrieve_secret :: "'k os_config \<Rightarrow> uuid \<Rightarrow> 'k os_store \<times> world \<Rightarrow>
    (credential_error + string) \<times> 'k os_store \<times> world" where
  "os_retrieve_secret C i = (\<lambda>(s, w).
     case hm_get (os_records s) i of
       None \<Rightarrow> (Inl (CrNotFound i), s, w)
     | Some m \<Rightarrow>
         if cm_status m \<noteq> CrActive then (Inl (CrNotFound i), s, w)
         else
           (case kc_read (oc_keychain C) (target_name C i) (os_keys s) of
              Inl err \<Rightarrow> (Inl err, s, w)
            | Inr secret \<Rightarrow>
                let (now, w) = utc_now w in os_commit C i (m\<lparr>cm_last_used_at := Some now\<rparr>) secret s w))"

definition os_update_credential :: "'k os_config \<Rightarrow> uuid \<Rightarrow> string \<Rightarrow> json option \<Rightarrow> 'k os_store \<times> world \<Rightarrow>
    (credential_error + credential_metadata) \<times> 'k os_store \<times> world" where
  "os_update_credential C i secret metadata = (\<lambda>(s, w).
     case hm_get (os_records s) i of
       None \<Rightarrow> (Inl (CrNotFound i), s, w)
     | Some m \<Rightarrow>
         (case kc_write (oc_keychain C) (target_name C i) (cm_account_id m) secret (os_keys s) of
            (Inl err, keys) \<Rightarrow> (Inl err, s\<lparr>os_keys := keys\<rparr>, w)
          | (Inr _, keys) \<Rightarrow>
              let m = (case metadata of None \<Rightarrow> m | Some j \<Rightarrow> m\<lparr>cm_metadata := redact_payload j\<rparr>);
                  (now, w) = utc_now w; m = m\<lparr>cm_status := CrActive, cm_updated_at := now\<rparr>
              in os_commit C i m m (s\<lparr>os_keys := keys\<rparr>) w))"

text \<open>The result of deleting from the keychain is ignored.\<close>

definition os_revoke_credential :: "'k os_config \<Rightarrow> uuid \<Rightarrow> 'k os_store \<times> world \<Rightarrow>
    (credential_error + credential_metadata) \<times> 'k os_store \<times> world" where
  "os_revoke_credential C i = (\<lambda>(s, w).
     case hm_get (os_records s) i of
       None \<Rightarrow> (Inl (CrNotFound i), s, w)
     | Some m \<Rightarrow>
         let keys = snd (kc_delete (oc_keychain C) (target_name C i) (os_keys s));
             (now, w) = utc_now w; m = m\<lparr>cm_status := CrRevoked, cm_updated_at := now\<rparr>
         in os_commit C i m m (s\<lparr>os_keys := keys\<rparr>) w)"

definition os_delete_credential :: "'k os_config \<Rightarrow> uuid \<Rightarrow> 'k os_store \<times> world \<Rightarrow>
    (credential_error + unit) \<times> 'k os_store \<times> world" where
  "os_delete_credential C i = (\<lambda>(s, w).
     if hm_get (os_records s) i = None then (Inl (CrNotFound i), s, w)
     else
       let keys = snd (kc_delete (oc_keychain C) (target_name C i) (os_keys s)) in
       (case persist_metadata C (s\<lparr>os_keys := keys, os_records := hm_remove i (os_records s)\<rparr>) of
          (r, s) \<Rightarrow> (r, s, w)))"

definition os_test_credential :: "'k os_config \<Rightarrow> uuid \<Rightarrow> 'k os_store \<Rightarrow> credential_error + bool" where
  "os_test_credential C i s =
     (case hm_get (os_records s) i of
        None \<Rightarrow> Inr False
      | Some m \<Rightarrow> Inr (cm_status m = CrActive \<and> is_ok (kc_read (oc_keychain C) (target_name C i) (os_keys s))))"

definition os_list_metadata :: "'k os_store \<Rightarrow> credential_metadata list" where
  "os_list_metadata s = sort_key cm_label (map sanitized (hm_values (os_records s)))"

text \<open>\<open>metadata["rotation_status"] = \<dots>\<close> panics when the metadata are no object and not \<open>null\<close>.\<close>

definition os_rotate_credential_placeholder :: "'k os_config \<Rightarrow> uuid \<Rightarrow> 'k os_store \<times> world \<Rightarrow>
    (credential_error fault + credential_metadata) \<times> 'k os_store \<times> world" where
  "os_rotate_credential_placeholder C i = (\<lambda>(s, w).
     case hm_get (os_records s) i of
       None \<Rightarrow> (Inl (Fail (CrNotFound i)), s, w)
     | Some m \<Rightarrow>
         let (now, w) = utc_now w in
         (case index_assign_or_panic ''rotation_status'' (JString ''rotation_required'') (cm_metadata m) of
            Inl err \<Rightarrow> (Inl err, s, w)
          | Inr j \<Rightarrow>
              let m = m\<lparr>cm_updated_at := now, cm_metadata := j\<rparr>;
                  (r, s, w) = os_commit C i m (sanitized m) s w
              in (map_err Fail r, s, w)))"

section \<open>The development store\<close>

record dev_store =
  dv_records :: "(uuid, credential_record) hmap"
  dv_file :: plain_file

definition dev_open :: "credential_record list codec \<Rightarrow> plain_file \<Rightarrow> bool \<Rightarrow> credential_error + dev_store" where
  "dev_open c f allow_insecure =
     (if \<not> allow_insecure then Inl CrInsecureDevStoreNotAllowed
      else and_then (case pf_bytes f of
          None \<Rightarrow> Inr []
        | Some text \<Rightarrow> and_then (map_err CrSerde (cd_parse c text)) (\<lambda>rs.
            Inr (fold (\<lambda>r. hm_insert (cm_credential_id (cv_metadata r)) r) rs [])))
        (\<lambda>records. Inr \<lparr>dv_records = records, dv_file = f\<rparr>))"

text \<open>A record is put in place and all records are persisted.\<close>

definition dev_commit :: "credential_record list codec \<Rightarrow> uuid \<Rightarrow> credential_record \<Rightarrow> 'a \<Rightarrow> dev_store \<Rightarrow> world \<Rightarrow>
    (credential_error + 'a) \<times> dev_store \<times> world" where
  "dev_commit c i r x s w =
     (let records = hm_insert i r (dv_records s);
          (res, f) = fs_write (cd_print c (sort_key (\<lambda>r. cm_label (cv_metadata r)) (hm_values records))) (dv_file s)
      in (and_then res (\<lambda>_. Inr x), s\<lparr>dv_records := records, dv_file := f\<rparr>, w))"

definition dev_store_credential :: "credential_record list codec \<Rightarrow> credential_metadata \<Rightarrow> string \<Rightarrow> dev_store \<times> world \<Rightarrow>
    (credential_error + credential_metadata) \<times> dev_store \<times> world" where
  "dev_store_credential c m secret = (\<lambda>(s, w).
     let (now, w) = utc_now w; m = (sanitized m)\<lparr>cm_updated_at := now\<rparr> in
     dev_commit c (cm_credential_id m) \<lparr>cv_metadata = m, cv_secret = secret\<rparr> m s w)"

definition dev_retrieve_secret :: "credential_record list codec \<Rightarrow> uuid \<Rightarrow> dev_store \<times> world \<Rightarrow>
    (credential_error + string) \<times> dev_store \<times> world" where
  "dev_retrieve_secret c i = (\<lambda>(s, w).
     case hm_get (dv_records s) i of
       None \<Rightarrow> (Inl (CrNotFound i), s, w)
     | Some r \<Rightarrow>
         let (now, w) = utc_now w in
         dev_commit c i (r\<lparr>cv_metadata := (cv_metadata r)\<lparr>cm_last_used_at := Some now\<rparr>\<rparr>) (cv_secret r) s w)"

definition dev_update_credential :: "credential_record list codec \<Rightarrow> uuid \<Rightarrow> string \<Rightarrow> json option \<Rightarrow> dev_store \<times> world \<Rightarrow>
    (credential_error + credential_metadata) \<times> dev_store \<times> world" where
  "dev_update_credential c i secret metadata = (\<lambda>(s, w).
     case hm_get (dv_records s) i of
       None \<Rightarrow> (Inl (CrNotFound i), s, w)
     | Some r \<Rightarrow>
         let m = cv_metadata r;
             m = (case metadata of None \<Rightarrow> m | Some j \<Rightarrow> m\<lparr>cm_metadata := redact_payload j\<rparr>);
             (now, w) = utc_now w; m = m\<lparr>cm_status := CrActive, cm_updated_at := now\<rparr>
         in dev_commit c i \<lparr>cv_metadata = m, cv_secret = secret\<rparr> m s w)"

definition dev_revoke_credential :: "credential_record list codec \<Rightarrow> uuid \<Rightarrow> dev_store \<times> world \<Rightarrow>
    (credential_error + credential_metadata) \<times> dev_store \<times> world" where
  "dev_revoke_credential c i = (\<lambda>(s, w).
     case hm_get (dv_records s) i of
       None \<Rightarrow> (Inl (CrNotFound i), s, w)
     | Some r \<Rightarrow>
         let (now, w) = utc_now w; m = (cv_metadata r)\<lparr>cm_status := CrRevoked, cm_updated_at := now\<rparr>
         in dev_commit c i (r\<lparr>cv_metadata := m\<rparr>) m s w)"

text \<open>The trait's default: deleting is revoking.\<close>

definition dev_delete_credential :: "credential_record list codec \<Rightarrow> uuid \<Rightarrow> dev_store \<times> world \<Rightarrow>
    (credential_error + unit) \<times> dev_store \<times> world" where
  "dev_delete_credential c i sw = (case dev_revoke_credential c i sw of (r, sw) \<Rightarrow> (and_then r (\<lambda>_. Inr ()), sw))"

definition dev_test_credential :: "uuid \<Rightarrow> dev_store \<Rightarrow> credential_error + bool" where
  "dev_test_credential i s =
     Inr (case hm_get (dv_records s) i of None \<Rightarrow> False | Some r \<Rightarrow> cm_status (cv_metadata r) = CrActive)"

definition dev_list_metadata :: "dev_store \<Rightarrow> credential_metadata list" where
  "dev_list_metadata s = sort_key cm_label (map (\<lambda>r. sanitized (cv_metadata r)) (hm_values (dv_records s)))"

definition dev_rotate_credential_placeholder :: "credential_record list codec \<Rightarrow> uuid \<Rightarrow> dev_store \<times> world \<Rightarrow>
    (credential_error fault + credential_metadata) \<times> dev_store \<times> world" where
  "dev_rotate_credential_placeholder c i = (\<lambda>(s, w).
     case hm_get (dv_records s) i of
       None \<Rightarrow> (Inl (Fail (CrNotFound i)), s, w)
     | Some r \<Rightarrow>
         let (now, w) = utc_now w; m = (cv_metadata r)\<lparr>cm_updated_at := now\<rparr> in
         (case index_assign_or_panic ''rotation_status'' (JString ''rotation_planned'') (cm_metadata m) of
            Inl err \<Rightarrow> (Inl err, s\<lparr>dv_records := hm_insert i (r\<lparr>cv_metadata := m\<rparr>) (dv_records s)\<rparr>, w)
          | Inr j \<Rightarrow>
              let m = m\<lparr>cm_metadata := j\<rparr>; (x, s, w) = dev_commit c i (r\<lparr>cv_metadata := m\<rparr>) m s w
              in (map_err Fail x, s, w)))"

section \<open>Without a keychain\<close>

definition unsupported_ops :: "unit credential_ops" where
  "unsupported_ops =
     \<lparr>co_store = (\<lambda>_ _ sw. (Inl (CrBackendUnavailable ''OS keychain integration is modeled but not linked in this MVP build''), sw)),
      co_retrieve = (\<lambda>i sw. (Inl (CrNotFound i), sw)), co_update = (\<lambda>i _ _ sw. (Inl (CrNotFound i), sw)),
      co_delete = (\<lambda>i sw. (Inl (CrNotFound i), sw)), co_test = (\<lambda>_ _. Inr False)\<rparr>"

datatype 'k any_store = OsStore "'k os_store" | DevStore dev_store | UnsupportedStore

definition default_credential_store :: "'k os_config \<Rightarrow> credential_record list codec \<Rightarrow> plain_file \<Rightarrow> plain_file \<Rightarrow> 'k \<Rightarrow> bool \<Rightarrow>
    'k any_store" where
  "default_credential_store C c metadata_file records_file keys allow_insecure =
     (if kc_available (oc_keychain C)
      then (case os_open C metadata_file keys of Inr s \<Rightarrow> OsStore s | Inl _ \<Rightarrow> UnsupportedStore)
      else if allow_insecure
      then (case dev_open c records_file True of Inr s \<Rightarrow> DevStore s | Inl _ \<Rightarrow> UnsupportedStore)
      else UnsupportedStore)"

section \<open>Using credentials\<close>

definition os_ops :: "'k os_config \<Rightarrow> 'k os_store credential_ops" where
  "os_ops C = \<lparr>co_store = os_store_credential C, co_retrieve = os_retrieve_secret C, co_update = os_update_credential C,
     co_delete = os_delete_credential C, co_test = os_test_credential C\<rparr>"

definition dev_ops :: "credential_record list codec \<Rightarrow> dev_store credential_ops" where
  "dev_ops c = \<lparr>co_store = dev_store_credential c, co_retrieve = dev_retrieve_secret c,
     co_update = dev_update_credential c, co_delete = dev_delete_credential c, co_test = dev_test_credential\<rparr>"

definition credential_exists :: "'c credential_ops \<Rightarrow> uuid \<Rightarrow> 'c \<Rightarrow> bool" where
  "credential_exists ops i s = (co_test ops i s = Inr True)"

definition required_credentials_satisfied :: "string list \<Rightarrow> (string, uuid) hmap \<Rightarrow> 'c credential_ops \<Rightarrow> 'c \<Rightarrow> bool" where
  "required_credentials_satisfied required configured ops s =
     list_all (\<lambda>key. case hm_get configured key of None \<Rightarrow> False | Some i \<Rightarrow> credential_exists ops i s) required"

definition credential_status_name :: "credential_status \<Rightarrow> string" where
  "credential_status_name s = (case s of CrActive \<Rightarrow> ''active'' | CrRevoked \<Rightarrow> ''revoked'' | CrMissing \<Rightarrow> ''missing''
     | CrInvalid \<Rightarrow> ''invalid'')"

definition credential_runtime_payload :: "libs \<Rightarrow> credential_metadata \<Rightarrow> json" where
  "credential_runtime_payload L m = json_object
     [(''credential_id'', json_uuid L (cm_credential_id m)), (''provider_id'', JString (cm_provider_id m)),
      (''service_type'', JString (service_type_as_str (cm_service_type m))), (''label'', JString (cm_label m)),
      (''status'', JString (credential_status_name (cm_status m)))]"

definition authorize_credential_action ::
    "plugin_manifest \<Rightarrow> grant_set \<Rightarrow> operator_role \<Rightarrow> plugin_capability \<Rightarrow> credential_error + unit" where
  "authorize_credential_action m gs role permission =
     and_then (map_err (\<lambda>err. CrPermissionDenied (permission_error_message err)) (check_plugin_permission m gs permission))
       (\<lambda>_. ensure (role = Admin)
          (CrPermissionDenied (''operator role '' @ role_debug role @ '' cannot use '' @ capability_as_str permission)))"

section \<open>The bridge to the account client\<close>

definition cli_read_secret :: "'c credential_ops \<Rightarrow> (credential_error \<Rightarrow> string) \<Rightarrow> uuid \<Rightarrow> 'c \<times> world \<Rightarrow>
    (account_error + string option) \<times> 'c \<times> world" where
  "cli_read_secret ops text i sw =
     (case co_retrieve ops i sw of
        (Inr secret, sw) \<Rightarrow> (Inr (Some secret), sw)
      | (Inl (CrNotFound _), sw) \<Rightarrow> (Inr None, sw)
      | (Inl err, sw) \<Rightarrow> (Inl (HaSecretStorage (text err)), sw))"

definition cli_write_secret :: "'c credential_ops \<Rightarrow> (credential_error \<Rightarrow> string) \<Rightarrow> uuid \<Rightarrow> string \<Rightarrow> string \<Rightarrow> 'c \<times> world \<Rightarrow>
    (account_error + unit) \<times> 'c \<times> world" where
  "cli_write_secret ops text i label secret = (\<lambda>(s, w).
     if credential_exists ops i s
     then (case co_update ops i secret None (s, w) of
         (r, sw) \<Rightarrow> (and_then (map_err (\<lambda>err. HaSecretStorage (text err)) r) (\<lambda>_. Inr ()), sw))
     else
       (let (m, w) = credential_metadata_new ''hosted-account'' ''hosted-account'' Authentication label w in
        case co_store ops (m\<lparr>cm_credential_id := i\<rparr>) secret (s, w) of
          (r, sw) \<Rightarrow> (and_then (map_err (\<lambda>err. HaSecretStorage (text err)) r) (\<lambda>_. Inr ()), sw)))"

definition cli_clear_secret :: "'c credential_ops \<Rightarrow> (credential_error \<Rightarrow> string) \<Rightarrow> uuid \<Rightarrow> 'c \<times> world \<Rightarrow>
    (account_error + unit) \<times> 'c \<times> world" where
  "cli_clear_secret ops text i sw =
     (case co_delete ops i sw of
        (Inr _, sw) \<Rightarrow> (Inr (), sw)
      | (Inl (CrNotFound _), sw) \<Rightarrow> (Inr (), sw)
      | (Inl err, sw) \<Rightarrow> (Inl (HaSecretStorage (text err)), sw))"

definition cli_secrets :: "'c credential_ops \<Rightarrow> (credential_error \<Rightarrow> string) \<Rightarrow> ('c \<times> world) secret_ops" where
  "cli_secrets ops text = \<lparr>so_read = cli_read_secret ops text, so_write = cli_write_secret ops text,
     so_clear = cli_clear_secret ops text\<rparr>"

end
