(* ===== verification/Account_Facts.thy ===== *)
theory Account_Facts
  imports Account Offline_Facts
begin

text \<open>
  Facts about the hosted account client: normal forms of its inputs, what the parts of a response
  do to devices, logbooks and credentials, the invariant of the record and its runs, and the
  interface to secret storage.
\<close>

section \<open>Normal forms\<close>

lemma trim_end_char_fix: "trim_end_char c (trim_end_char c s) = trim_end_char c s"
  by (simp add: trim_end_char_def dropWhile_idem)

lemma normalize_base_url_idem:
  assumes "normalize_base_url s = Inr t"
  shows "normalize_base_url t = Inr t"
proof -
  let ?t = "trim_end_char (CHR ''/'') (trim s)"
  have t: "t = ?t" "\<not> has_whitespace ?t" using assms by (auto simp: normalize_base_url_def Let_def split: if_splits)
  then have "trim t = t" by (simp add: trim_no_white)
  then have "trim_end_char (CHR ''/'') (trim t) = ?t" using t by (simp add: trim_end_char_fix)
  with assms t show ?thesis by (simp add: normalize_base_url_def)
qed

lemma normalize_device_name_idem:
  assumes "normalize_device_name s = Inr t"
  shows "normalize_device_name t = Inr t"
proof (cases "trim s = []")
  case True
  have "trim DEFAULT_HOSTED_ACCOUNT_DEVICE_NAME = DEFAULT_HOSTED_ACCOUNT_DEVICE_NAME"
    by (simp add: DEFAULT_HOSTED_ACCOUNT_DEVICE_NAME_def trim_plain plain_def)
  moreover have "\<not> has_control DEFAULT_HOSTED_ACCOUNT_DEVICE_NAME" "DEFAULT_HOSTED_ACCOUNT_DEVICE_NAME \<noteq> []"
    "length DEFAULT_HOSTED_ACCOUNT_DEVICE_NAME \<le> MAX_DEVICE_NAME_BYTES" by code_simp+
  ultimately show ?thesis using assms True by (simp add: normalize_device_name_def Let_def)
next
  case False
  with assms show ?thesis by (auto simp: normalize_device_name_def Let_def split: if_splits)
qed

section \<open>The record\<close>

text \<open>Devices are at most 200, ordered by identifier, and while this device is known it is the
  current one.\<close>

definition devices_ok :: "uuid option \<Rightarrow> hosted_device list \<Rightarrow> bool" where
  "devices_ok i ds = (length ds \<le> MAX_CACHED_DEVICES \<and> sorted (map hd_device_id ds) \<and>
     (\<forall>j. i = Some j \<longrightarrow> (\<forall>d\<in>set ds. hd_current d \<longleftrightarrow> hd_device_id d = j)))"

definition books_ok :: "hosted_logbook list \<Rightarrow> bool" where
  "books_ok bs = (length bs \<le> 2 * MAX_CACHED_LOGBOOKS \<and> sorted (map hl_logbook_id bs))"

text \<open>An expired or revoked session has left no credential.\<close>

definition state_ok :: "connection_state \<Rightarrow> uuid list \<Rightarrow> bool" where
  "state_ok c credentials = (c \<in> {CsSessionExpired, CsDeviceRevoked} \<longrightarrow> credentials = [])"

definition config_ok :: "string \<Rightarrow> string \<Rightarrow> bool" where
  "config_ok url name = (normalize_base_url url = Inr url \<and> normalize_device_name name = Inr name)"

definition account_ok :: "account_snapshot \<Rightarrow> bool" where
  "account_ok s = (config_ok (ha_base_url s) (ha_device_name s) \<and> devices_ok (ha_device_id s) (ha_devices s) \<and>
     books_ok (ha_logbooks s) \<and> state_ok (ha_connection_state s) (session_credentials s))"

lemma config_ok_normalized: "config_normalized c = Inr c' \<Longrightarrow> config_ok (hc_base_url c') (hc_device_name c')"
  by (auto simp: config_normalized_def config_ok_def normalize_base_url_idem normalize_device_name_idem)

lemma account_ok_new: "config_ok (hc_base_url c) (hc_device_name c) \<Longrightarrow> account_ok (account_snapshot_new c)"
  by (simp add: account_ok_def account_snapshot_new_def devices_ok_def books_ok_def state_ok_def session_credentials_def)

section \<open>Lists of devices and logbooks\<close>

lemma modify_first_keys:
  "(\<And>x. P x \<Longrightarrow> key (f x) = key x) \<Longrightarrow> map key (modify_first P f xs) = map key xs"
  by (induction xs) auto

lemma modify_first_set: "y \<in> set (modify_first P f xs) \<Longrightarrow> y \<in> set xs \<or> (\<exists>x\<in>set xs. P x \<and> y = f x)"
  by (induction xs) (auto split: if_splits)

lemma length_map_filter: "length (List.map_filter f xs) \<le> length xs"
  by (induction xs) (auto simp: map_filter_simps split: option.split)

lemma upsert_device_ok:
  assumes "devices_ok (ha_device_id s) (ha_devices s)"
  shows "devices_ok (ha_device_id s) (ha_devices (upsert_device d s))"
proof -
  let ?d = "d\<lparr>hd_current := (ha_device_id s = Some (hd_device_id d))\<rparr>"
  let ?P = "\<lambda>x. hd_device_id x = hd_device_id ?d"
  have keys: "map hd_device_id (modify_first ?P (\<lambda>_. ?d) (ha_devices s)) = map hd_device_id (ha_devices s)"
    by (rule modify_first_keys) simp
  then have len: "length (modify_first ?P (\<lambda>_. ?d) (ha_devices s)) = length (ha_devices s)"
    by (metis length_map)
  show ?thesis
    using assms keys len by (auto simp: upsert_device_def devices_ok_def Let_def dest!: modify_first_set)
qed

lemma devices_ok_None: "devices_ok i ds \<Longrightarrow> devices_ok None ds"
  by (simp add: devices_ok_def)

lemma upsert_device_list:
  assumes "devices_ok None (ha_devices s)"
  shows "devices_ok None (ha_devices (upsert_device d s))"
proof -
  let ?P = "\<lambda>x. hd_device_id x = hd_device_id d"
  have keys: "map hd_device_id (modify_first ?P (\<lambda>_. d\<lparr>hd_current := b\<rparr>) (ha_devices s)) = map hd_device_id (ha_devices s)" for b
    by (rule modify_first_keys) simp
  then have len: "length (modify_first ?P (\<lambda>_. d\<lparr>hd_current := b\<rparr>) (ha_devices s)) = length (ha_devices s)" for b
    by (metis length_map)
  show ?thesis using assms keys len by (auto simp: upsert_device_def devices_ok_def Let_def)
qed

lemma mark_device_revoked_ok:
  assumes "devices_ok (ha_device_id s) (ha_devices s)"
  shows "devices_ok (ha_device_id s) (ha_devices (mark_device_revoked i now s))"
proof -
  let ?f = "\<lambda>d. d\<lparr>hd_revoked := True, hd_revoked_at := Some now\<rparr>"
  have keys: "map hd_device_id (modify_first (\<lambda>d. hd_device_id d = i) ?f (ha_devices s)) = map hd_device_id (ha_devices s)"
    by (rule modify_first_keys) simp
  then have len: "length (modify_first (\<lambda>d. hd_device_id d = i) ?f (ha_devices s)) = length (ha_devices s)"
    by (metis length_map)
  show ?thesis
    using assms keys len by (auto simp: mark_device_revoked_def devices_ok_def dest!: modify_first_set)
qed

lemma apply_devices_ok:
  assumes "devices_ok (ha_device_id s) (ha_devices s)"
  shows "devices_ok (ha_device_id s) (ha_devices (apply_devices L body s))"
proof (cases "Option.bind (value_get body ''devices'') as_array")
  case None
  with assms show ?thesis by (auto simp: apply_devices_def intro: upsert_device_ok split: option.splits)
next
  case (Some entries)
  have "length (List.map_filter (hosted_device_from_value L) (take MAX_CACHED_DEVICES entries)) \<le> MAX_CACHED_DEVICES"
    using length_map_filter [of "hosted_device_from_value L" "take MAX_CACHED_DEVICES entries"] by simp
  with Some show ?thesis
    by (auto simp: apply_devices_def devices_ok_def comp_def)
qed

lemma apply_membership_length: "length (apply_membership L cached v bs) \<le> Suc (length bs)"
proof -
  have "length (modify_first P f xs) = length xs" for P and f :: "hosted_logbook \<Rightarrow> hosted_logbook" and xs
    by (induction xs) auto
  then show ?thesis by (auto simp: apply_membership_def Let_def split: option.split)
qed

lemma fold_membership_length: "length (fold (apply_membership L cached) vs bs) \<le> length vs + length bs"
proof (induction vs arbitrary: bs)
  case (Cons v vs)
  from Cons [of "apply_membership L cached v bs"] apply_membership_length [of L cached v bs] show ?case by simp
qed simp

lemma apply_logbooks_ok:
  assumes "books_ok (ha_logbooks s)"
  shows "books_ok (ha_logbooks (apply_logbooks L body s))"
proof -
  define entries where "entries k = (case Option.bind (value_get body k) as_array of
      None \<Rightarrow> [] | Some vs \<Rightarrow> take MAX_CACHED_LOGBOOKS vs)" for k
  define bs where "bs = fold (apply_membership L (ha_logbooks s)) (entries ''memberships'')
      (List.map_filter (listed_logbook L) (entries ''logbooks''))"
  have e: "length (entries k) \<le> MAX_CACHED_LOGBOOKS" for k by (simp add: entries_def split: option.split)
  have "length bs \<le> 2 * MAX_CACHED_LOGBOOKS"
    using fold_membership_length [of L "ha_logbooks s" "entries ''memberships''" "List.map_filter (listed_logbook L) (entries ''logbooks'')"]
      length_map_filter [of "listed_logbook L" "entries ''logbooks''"] e [of "''memberships''"] e [of "''logbooks''"]
    by (simp add: bs_def)
  moreover have "apply_logbooks L body s = (if bs = [] then s else s\<lparr>ha_logbooks := sort_key hl_logbook_id bs\<rparr>)"
    by (simp add: apply_logbooks_def Let_def bs_def entries_def)
  ultimately show ?thesis using assms by (auto simp: books_ok_def)
qed

section \<open>Responses\<close>

text \<open>What the parts leave alone.\<close>

lemma upsert_device_frame [simp]:
  "ha_base_url (upsert_device d s) = ha_base_url s" "ha_device_name (upsert_device d s) = ha_device_name s"
  "ha_device_id (upsert_device d s) = ha_device_id s" "ha_logbooks (upsert_device d s) = ha_logbooks s"
  "ha_connection_state (upsert_device d s) = ha_connection_state s"
  "ha_session_credential (upsert_device d s) = ha_session_credential s"
  "ha_refresh_credential (upsert_device d s) = ha_refresh_credential s"
  by (simp_all add: upsert_device_def Let_def)

lemma apply_devices_frame [simp]:
  "ha_base_url (apply_devices L b s) = ha_base_url s" "ha_device_name (apply_devices L b s) = ha_device_name s"
  "ha_device_id (apply_devices L b s) = ha_device_id s" "ha_logbooks (apply_devices L b s) = ha_logbooks s"
  "ha_connection_state (apply_devices L b s) = ha_connection_state s"
  "ha_session_credential (apply_devices L b s) = ha_session_credential s"
  "ha_refresh_credential (apply_devices L b s) = ha_refresh_credential s"
  by (simp_all add: apply_devices_def split: option.split)

lemma mark_device_revoked_frame [simp]:
  "ha_base_url (mark_device_revoked i t s) = ha_base_url s" "ha_device_name (mark_device_revoked i t s) = ha_device_name s"
  "ha_device_id (mark_device_revoked i t s) = ha_device_id s" "ha_logbooks (mark_device_revoked i t s) = ha_logbooks s"
  "ha_connection_state (mark_device_revoked i t s) = ha_connection_state s"
  "ha_session_credential (mark_device_revoked i t s) = ha_session_credential s"
  "ha_refresh_credential (mark_device_revoked i t s) = ha_refresh_credential s"
  by (simp_all add: mark_device_revoked_def)

lemma apply_account_frame [simp]:
  "ha_base_url (apply_account L a s) = ha_base_url s" "ha_device_name (apply_account L a s) = ha_device_name s"
  "ha_device_id (apply_account L a s) = ha_device_id s" "ha_logbooks (apply_account L a s) = ha_logbooks s"
  "ha_devices (apply_account L a s) = ha_devices s"
  "ha_connection_state (apply_account L a s) = ha_connection_state s"
  "ha_session_credential (apply_account L a s) = ha_session_credential s"
  "ha_refresh_credential (apply_account L a s) = ha_refresh_credential s"
  by (simp_all add: apply_account_def)

lemma apply_logbooks_frame [simp]:
  "ha_base_url (apply_logbooks L b s) = ha_base_url s" "ha_device_name (apply_logbooks L b s) = ha_device_name s"
  "ha_device_id (apply_logbooks L b s) = ha_device_id s" "ha_devices (apply_logbooks L b s) = ha_devices s"
  "ha_session_credential (apply_logbooks L b s) = ha_session_credential s"
  "ha_refresh_credential (apply_logbooks L b s) = ha_refresh_credential s"
  by (simp_all add: apply_logbooks_def Let_def)

lemma signed_in_frame [simp]:
  "ha_base_url (signed_in s) = ha_base_url s" "ha_device_name (signed_in s) = ha_device_name s"
  "ha_device_id (signed_in s) = ha_device_id s" "ha_logbooks (signed_in s) = ha_logbooks s"
  "ha_connection_state (signed_in s) = CsSignedIn"
  "ha_session_credential (signed_in s) = ha_session_credential s"
  "ha_refresh_credential (signed_in s) = ha_refresh_credential s"
  by (simp_all add: signed_in_def Let_def split: option.split)

lemma apply_session_part_frame:
  assumes "apply_session_part L v s w = (t, s', w')"
  shows "ha_base_url s' = ha_base_url s" "ha_device_name s' = ha_device_name s" "ha_devices s' = ha_devices s"
    "ha_logbooks s' = ha_logbooks s" "ha_refresh_credential s' = ha_refresh_credential s"
    "ha_session_credential s' = (if t = None then ha_session_credential s else fst (credential_or_new (ha_session_credential s) w))"
  using assms by (auto simp: apply_session_part_def Let_def split: option.splits prod.splits)

lemma apply_refresh_part_frame:
  assumes "apply_refresh_part b s w = (t, s', w')"
  shows "ha_base_url s' = ha_base_url s" "ha_device_name s' = ha_device_name s" "ha_devices s' = ha_devices s"
    "ha_logbooks s' = ha_logbooks s" "ha_device_id s' = ha_device_id s" "ha_session_credential s' = ha_session_credential s"
    "ha_refresh_credential s' = (if t = None then ha_refresh_credential s else fst (credential_or_new (ha_refresh_credential s) w))"
  using assms by (auto simp: apply_refresh_part_def Let_def split: option.splits prod.splits)

lemma apply_device_part_frame [simp]:
  "ha_base_url (apply_device_part L b s) = ha_base_url s" "ha_device_name (apply_device_part L b s) = ha_device_name s"
  "ha_logbooks (apply_device_part L b s) = ha_logbooks s"
  "ha_session_credential (apply_device_part L b s) = ha_session_credential s"
  "ha_refresh_credential (apply_device_part L b s) = ha_refresh_credential s"
  by (simp_all add: apply_device_part_def Let_def split: option.split)

lemma apply_device_part_list:
  "devices_ok None (ha_devices s) \<Longrightarrow> devices_ok None (ha_devices (apply_device_part L b s))"
  by (auto simp: apply_device_part_def Let_def intro!: upsert_device_list split: option.split)

lemma signed_in_devices:
  "devices_ok None (ha_devices s) \<Longrightarrow> devices_ok (ha_device_id s) (ha_devices (signed_in s))"
  by (auto simp: signed_in_def devices_ok_def Let_def comp_def split: option.split)

lemma credential_or_new_Some: "\<exists>i. fst (credential_or_new c w) = Some i"
  by (auto simp: credential_or_new_def split: option.split prod.split)

lemma credential_or_new_kept: "c = Some i \<Longrightarrow> fst (credential_or_new c w) = Some i"
  by (simp add: credential_or_new_def)

text \<open>A session that was accepted: a credential is kept, or drawn for a token that came.\<close>

lemma apply_session_spec:
  assumes "apply_session L body s w = ((t1, t2), s', w')"
  shows "ha_base_url s' = ha_base_url s" "ha_device_name s' = ha_device_name s" "ha_connection_state s' = CsSignedIn"
    "ha_session_credential s = Some i \<Longrightarrow> ha_session_credential s' = Some i"
    "ha_refresh_credential s = Some i \<Longrightarrow> ha_refresh_credential s' = Some i"
    "t1 \<noteq> None \<Longrightarrow> ha_session_credential s' \<noteq> None" "t2 \<noteq> None \<Longrightarrow> ha_refresh_credential s' \<noteq> None"
    "devices_ok (ha_device_id s) (ha_devices s) \<Longrightarrow> devices_ok (ha_device_id s') (ha_devices s')"
    "books_ok (ha_logbooks s) \<Longrightarrow> books_ok (ha_logbooks s')"
proof -
  define s1 where "s1 = (case value_get body ''account'' of None \<Rightarrow> s | Some account \<Rightarrow> apply_account L account s)"
  obtain u1 s2 w2 where p2: "(case value_get body ''session'' of
      None \<Rightarrow> (None, s1, w) | Some session \<Rightarrow> apply_session_part L session s1 w) = (u1, s2, w2)" by (metis prod_cases3)
  obtain u2 s3 w3 where p3: "apply_refresh_part body s2 w2 = (u2, s3, w3)" by (metis prod_cases3)
  define s4 where "s4 = (case value_get body ''device'' of None \<Rightarrow> s3 | Some device \<Rightarrow> apply_device_part L device s3)"
  have s': "s' = signed_in (apply_logbooks L body s4)" "t1 = u1" "t2 = u2"
    using assms [unfolded apply_session_def Let_def, folded s1_def] p2 p3 by (simp_all add: s4_def)
  have f1: "ha_base_url s1 = ha_base_url s" "ha_device_name s1 = ha_device_name s" "ha_devices s1 = ha_devices s"
    "ha_logbooks s1 = ha_logbooks s" "ha_session_credential s1 = ha_session_credential s"
    "ha_refresh_credential s1 = ha_refresh_credential s"
    by (simp_all add: s1_def split: option.split)
  have f2: "ha_base_url s2 = ha_base_url s1" "ha_device_name s2 = ha_device_name s1" "ha_devices s2 = ha_devices s1"
    "ha_logbooks s2 = ha_logbooks s1" "ha_refresh_credential s2 = ha_refresh_credential s1"
    "ha_session_credential s2 = (if u1 = None then ha_session_credential s1 else fst (credential_or_new (ha_session_credential s1) w))"
    using p2 apply_session_part_frame by (auto split: option.splits)
  note f3 = apply_refresh_part_frame [OF p3]
  have f4: "ha_base_url s4 = ha_base_url s3" "ha_device_name s4 = ha_device_name s3" "ha_logbooks s4 = ha_logbooks s3"
    "ha_session_credential s4 = ha_session_credential s3" "ha_refresh_credential s4 = ha_refresh_credential s3"
    by (simp_all add: s4_def split: option.split)
  show "ha_base_url s' = ha_base_url s" "ha_device_name s' = ha_device_name s" "ha_connection_state s' = CsSignedIn"
    by (simp_all add: s' f4 f3(1,2) f2 f1)
  show "ha_session_credential s = Some i \<Longrightarrow> ha_session_credential s' = Some i"
    "ha_refresh_credential s = Some i \<Longrightarrow> ha_refresh_credential s' = Some i"
    by (auto simp: s' f4 f3(6,7) f2 f1 credential_or_new_kept)
  show "t1 \<noteq> None \<Longrightarrow> ha_session_credential s' \<noteq> None" "t2 \<noteq> None \<Longrightarrow> ha_refresh_credential s' \<noteq> None"
    using credential_or_new_Some by (auto simp: s' f4 f3(6,7) f2 f1)
  show "books_ok (ha_logbooks s')" if "books_ok (ha_logbooks s)"
    using apply_logbooks_ok [of s4 L body] that by (simp add: s' f4 f3(4) f2 f1)
  show "devices_ok (ha_device_id s') (ha_devices s')" if "devices_ok (ha_device_id s) (ha_devices s)"
  proof -
    from that have "devices_ok None (ha_devices s3)" by (simp add: f3(3) f2 f1 devices_ok_None)
    then have "devices_ok None (ha_devices s4)" by (auto simp: s4_def apply_device_part_list split: option.split)
    then show ?thesis using signed_in_devices [of "apply_logbooks L body s4"] by (simp add: s')
  qed
qed

lemma clear_session_fields [simp]:
  "session_credentials (clear_session s) = []" "ha_base_url (clear_session s) = ha_base_url s"
  "ha_device_name (clear_session s) = ha_device_name s" "ha_device_id (clear_session s) = None"
  "ha_devices (clear_session s) = ha_devices s" "ha_logbooks (clear_session s) = ha_logbooks s"
  "ha_session_credential (clear_session s) = None" "ha_refresh_credential (clear_session s) = None"
  by (simp_all add: clear_session_def session_credentials_def)

lemma clear_identity_fields [simp]:
  "ha_base_url (clear_identity s) = ha_base_url s" "ha_device_name (clear_identity s) = ha_device_name s"
  "ha_device_id (clear_identity s) = ha_device_id s" "ha_devices (clear_identity s) = []" "ha_logbooks (clear_identity s) = []"
  "ha_session_credential (clear_identity s) = ha_session_credential s"
  "ha_refresh_credential (clear_identity s) = ha_refresh_credential s"
  by (simp_all add: clear_identity_def)

lemma session_credentials_cong:
  "ha_session_credential s = ha_session_credential t \<Longrightarrow> ha_refresh_credential s = ha_refresh_credential t \<Longrightarrow>
    session_credentials s = session_credentials t"
  by (simp add: session_credentials_def)

lemma session_credentials_set:
  "set (session_credentials s) = set_option (ha_session_credential s) \<union> set_option (ha_refresh_credential s)"
  by (auto simp: session_credentials_def split: option.splits)

lemma session_credentials_update [simp]:
  "session_credentials (s\<lparr>ha_connection_state := x\<rparr>) = session_credentials s"
  "session_credentials (s\<lparr>ha_devices := ds\<rparr>) = session_credentials s"
  "session_credentials (s\<lparr>ha_email_verified := b\<rparr>) = session_credentials s"
  "session_credentials (s\<lparr>ha_pending_email := e\<rparr>) = session_credentials s"
  "session_credentials (s\<lparr>ha_pending_recovery := e\<rparr>) = session_credentials s"
  "session_credentials (s\<lparr>ha_email := e\<rparr>) = session_credentials s"
  "session_credentials (clear_identity s) = session_credentials s"
  "session_credentials (apply_account L a s) = session_credentials s"
  "session_credentials (apply_devices L v s) = session_credentials s"
  "session_credentials (mark_device_revoked i t s) = session_credentials s"
  by (simp_all add: session_credentials_def)

text \<open>The two ways a change treats credentials: it clears them all, or it keeps them and has one
  for every token it issues.\<close>

definition keeps_track :: "account_snapshot \<Rightarrow> account_snapshot \<Rightarrow> uuid list \<Rightarrow> string option \<Rightarrow> string option \<Rightarrow> bool" where
  "keeps_track s s' cleared t1 t2 =
     (cleared = session_credentials s \<and> session_credentials s' = [] \<and> t1 = None \<and> t2 = None \<or>
      cleared = [] \<and> set (session_credentials s) \<subseteq> set (session_credentials s') \<and>
        (t1 \<noteq> None \<longrightarrow> ha_session_credential s' \<noteq> None) \<and> (t2 \<noteq> None \<longrightarrow> ha_refresh_credential s' \<noteq> None))"

lemma keeps_track_same: "session_credentials s' = session_credentials s \<Longrightarrow> keeps_track s s' [] None None"
  by (simp add: keeps_track_def)

lemma signed_out_ok:
  assumes "signed_out x m s w = (message, s', cleared, (t1, t2), w')" and "account_ok s"
  shows "account_ok s' \<and> keeps_track s s' cleared t1 t2"
  using assms by (auto simp: signed_out_def account_ok_def state_ok_def keeps_track_def intro: devices_ok_None)

lemma apply_session_ok:
  assumes "apply_session L body s w = ((t1, t2), s', w')" and "account_ok s"
  shows "account_ok s' \<and> keeps_track s s' [] t1 t2"
proof -
  note S = apply_session_spec [OF assms(1)]
  have "set (session_credentials s) \<subseteq> set (session_credentials s')"
    unfolding session_credentials_set using S(4,5) by (auto simp: elem_set)
  with S(6,7) have "keeps_track s s' [] t1 t2" by (simp add: keeps_track_def)
  moreover have "account_ok s'" using assms(2) S by (simp add: account_ok_def state_ok_def)
  ultimately show ?thesis by simp
qed

lemma accept_session_ok:
  assumes "accept_session L m body s w = (message, s', cleared, (t1, t2), w')" and "account_ok s"
  shows "account_ok s' \<and> keeps_track s s' cleared t1 t2"
proof -
  obtain u1 u2 s1 w1 where a: "apply_session L body s w = ((u1, u2), s1, w1)" by (metis prod.exhaust)
  with assms(1) have e: "s' = s1\<lparr>ha_pending_recovery := None\<rparr>" "cleared = []" "t1 = u1" "t2 = u2"
    by (auto simp: accept_session_def)
  from apply_session_ok [OF a assms(2)] show ?thesis by (simp add: e account_ok_def keeps_track_def)
qed

lemma account_ok_cong:
  assumes "account_ok s" and "ha_base_url s' = ha_base_url s" "ha_device_name s' = ha_device_name s"
    "ha_device_id s' = ha_device_id s" "devices_ok (ha_device_id s) (ha_devices s')" "books_ok (ha_logbooks s')"
    "session_credentials s' = session_credentials s"
    "ha_connection_state s' \<in> {ha_connection_state s, CsSignedIn, CsSignedOut, CsPendingEmailVerification}"
  shows "account_ok s'"
  using assms by (auto simp: account_ok_def state_ok_def)

lemma apply_devices_account_ok: "account_ok s \<Longrightarrow> account_ok (apply_devices L body s)"
  by (simp add: account_ok_def apply_devices_ok)

lemma mark_device_revoked_account_ok: "account_ok s \<Longrightarrow> account_ok (mark_device_revoked i t s)"
  by (simp add: account_ok_def mark_device_revoked_ok)

lemma accepted_change_ok:
  assumes c: "accepted_change L a body s now w = (message, s', cleared, (t1, t2), w')" and ok: "account_ok s"
  shows "account_ok s' \<and> keeps_track s s' cleared t1 t2"
proof (cases a)
  case (ActRegister email b1 b2 b3)
  with c ok show ?thesis
    by (auto simp: accepted_change_def Let_def account_ok_def state_ok_def intro!: keeps_track_same)
next
  case (ActVerifyEmail token)
  have "account_ok (apply_account L x s)" for x using ok by (simp add: account_ok_def)
  with ActVerifyEmail c ok show ?thesis
    by (auto simp: accepted_change_def Let_def account_ok_def state_ok_def intro!: keeps_track_same
        split: option.splits if_splits)
next
  case (ActRecoveryStart email)
  with c ok show ?thesis by (auto simp: accepted_change_def account_ok_def intro!: keeps_track_same)
next
  case (ActRecoveryComplete token)
  with c have "accept_session L ''Signed in to the hosted account.'' body s w = (message, s', cleared, (t1, t2), w')"
    by (simp add: accepted_change_def)
  then show ?thesis using ok by (rule accept_session_ok)
next
  case (ActBootstrap email b)
  with c have "accept_session L ''Claimed the server administrator bootstrap and signed in.'' body s w =
      (message, s', cleared, (t1, t2), w')" by (simp add: accepted_change_def)
  then show ?thesis using ok by (rule accept_session_ok)
next
  case (ActLogin email b)
  with c have "accept_session L ''Signed in to the hosted account.'' body s w = (message, s', cleared, (t1, t2), w')"
    by (simp add: accepted_change_def)
  then show ?thesis using ok by (rule accept_session_ok)
next
  case ActSession
  obtain u1 u2 s1 w1 where r: "apply_session L body s w = ((u1, u2), s1, w1)" by (metis prod.exhaust)
  with c ActSession have "s' = s1" "cleared = []" "t1 = u1" "t2 = u2" by (auto simp: accepted_change_def)
  with apply_session_ok [OF r ok] show ?thesis by simp
next
  case ActSessionRotate
  with c have "accept_session L ''Hosted session rotated.'' body s w = (message, s', cleared, (t1, t2), w')"
    by (simp add: accepted_change_def)
  then show ?thesis using ok by (rule accept_session_ok)
next
  case ActLogout
  with c have "signed_out CsSignedOut ''Signed out of the hosted account.'' s w = (message, s', cleared, (t1, t2), w')"
    by (simp add: accepted_change_def)
  then show ?thesis using ok by (rule signed_out_ok)
next
  case ActLogoutAll
  with c obtain m where "signed_out CsSignedOut m s w = (message, s', cleared, (t1, t2), w')"
    by (auto simp: accepted_change_def)
  then show ?thesis using ok by (rule signed_out_ok)
next
  case ActAccountDelete
  with c ok show ?thesis
    by (auto simp: accepted_change_def account_ok_def state_ok_def keeps_track_def devices_ok_def books_ok_def)
next
  case ActDeviceList
  with c apply_devices_account_ok [OF ok, of L body] show ?thesis
    by (auto simp: accepted_change_def Let_def intro!: keeps_track_same)
next
  case (ActDeviceRegister name)
  with c apply_devices_account_ok [OF ok, of L body] show ?thesis
    by (auto simp: accepted_change_def Let_def intro!: keeps_track_same)
next
  case (ActDeviceRevoke i)
  let ?s = "mark_device_revoked i now (apply_devices L body s)"
  have k: "account_ok ?s" by (intro mark_device_revoked_account_ok apply_devices_account_ok ok)
  have creds: "session_credentials ?s = session_credentials s" by simp
  show ?thesis
  proof (cases "ha_device_id ?s = Some i")
    case True
    with c ActDeviceRevoke obtain m where "signed_out CsDeviceRevoked m ?s w = (message, s', cleared, (t1, t2), w')"
      by (auto simp: accepted_change_def Let_def)
    from signed_out_ok [OF this k] show ?thesis by (simp add: keeps_track_def creds)
  next
    case False
    with c ActDeviceRevoke have "s' = ?s" "cleared = []" "t1 = None" "t2 = None"
      by (auto simp: accepted_change_def Let_def)
    with k show ?thesis by (auto intro!: keeps_track_same)
  qed
next
  case ActDeviceRevokeAll
  let ?s = "s\<lparr>ha_devices := map (\<lambda>d. d\<lparr>hd_revoked := True, hd_revoked_at := Some now, hd_current := False\<rparr>) (ha_devices s)\<rparr>"
  from c ActDeviceRevokeAll have e: "s' = (clear_session ?s)\<lparr>ha_connection_state := CsSignedOut\<rparr>"
    "cleared = session_credentials s" "t1 = None" "t2 = None"
    by (auto simp: accepted_change_def signed_out_def)
  from ok have "devices_ok None (ha_devices ?s)" by (simp add: account_ok_def devices_ok_def comp_def)
  with ok e show ?thesis by (simp add: account_ok_def state_ok_def keeps_track_def)
qed

end
