(* ===== verification/Account_Runs.thy ===== *)
theory Account_Runs
  imports Account_Facts
begin

text \<open>
  Runs of the hosted account client: a response and its result, the interface of secret storage
  with what the client may rely on, the record's file along a run, and what of a response may
  reach the record.
\<close>

section \<open>Results\<close>

lemma finish_result_fields [simp]:
  "hz_outcome (finish_result a st oc m ec rq s cl t1 t2 now) = oc"
  "hz_retryable (finish_result a st oc m ec rq s cl t1 t2 now) = outcome_is_retryable oc"
  "hz_user_action_required (finish_result a st oc m ec rq s cl t1 t2 now) = requires_user_action oc"
  "hz_cleared (finish_result a st oc m ec rq s cl t1 t2 now) = cl"
  "hz_session_token (finish_result a st oc m ec rq s cl t1 t2 now) = t1"
  "hz_refresh_token (finish_result a st oc m ec rq s cl t1 t2 now) = t2"
  by (simp_all add: finish_result_def)

lemma finish_result_snapshot:
  "ha_base_url (hz_snapshot (finish_result a st oc m ec rq s cl t1 t2 now)) = ha_base_url s"
  "ha_device_name (hz_snapshot (finish_result a st oc m ec rq s cl t1 t2 now)) = ha_device_name s"
  "ha_device_id (hz_snapshot (finish_result a st oc m ec rq s cl t1 t2 now)) = ha_device_id s"
  "ha_devices (hz_snapshot (finish_result a st oc m ec rq s cl t1 t2 now)) = ha_devices s"
  "ha_logbooks (hz_snapshot (finish_result a st oc m ec rq s cl t1 t2 now)) = ha_logbooks s"
  "ha_connection_state (hz_snapshot (finish_result a st oc m ec rq s cl t1 t2 now)) = ha_connection_state s"
  "ha_session_credential (hz_snapshot (finish_result a st oc m ec rq s cl t1 t2 now)) = ha_session_credential s"
  "ha_refresh_credential (hz_snapshot (finish_result a st oc m ec rq s cl t1 t2 now)) = ha_refresh_credential s"
  "session_credentials (hz_snapshot (finish_result a st oc m ec rq s cl t1 t2 now)) = session_credentials s"
  "ha_schema_version (hz_snapshot (finish_result a st oc m ec rq s cl t1 t2 now)) = HOSTED_ACCOUNT_FILE_VERSION"
  by (simp_all add: finish_result_def session_credentials_def)

definition result_ok :: "account_snapshot \<Rightarrow> account_result \<Rightarrow> bool" where
  "result_ok s r = (account_ok (hz_snapshot r) \<and>
     keeps_track s (hz_snapshot r) (hz_cleared r) (hz_session_token r) (hz_refresh_token r) \<and>
     ha_schema_version (hz_snapshot r) = HOSTED_ACCOUNT_FILE_VERSION)"

lemma result_ok_finish:
  assumes "account_ok s'" and "keeps_track s s' cl t1 t2"
  shows "result_ok s (finish_result a st oc m ec rq s' cl t1 t2 now)"
  using assms by (simp add: result_ok_def account_ok_def keeps_track_def finish_result_snapshot)

lemma refused_change_ok:
  assumes "refused_change oc ec s = (s', cl)" and "account_ok s"
  shows "account_ok s' \<and> keeps_track s s' cl None None"
  using assms
  by (auto simp: refused_change_def account_ok_def state_ok_def keeps_track_def intro: devices_ok_None split: if_splits)

lemma apply_response_ok:
  assumes "apply_hosted_account_response L a p x s now w = (r, w')" and "account_ok s"
  shows "result_ok s r"
proof -
  let ?body = "case hx_body x of None \<Rightarrow> JNull | Some b \<Rightarrow> b"
  show ?thesis
  proof (cases "200 \<le> hx_status x \<and> hx_status x < 300")
    case True
    obtain m s1 cl t1 t2 w1 where c: "accepted_change L a ?body s now w = (m, s1, cl, (t1, t2), w1)"
      by (metis prod.exhaust)
    with True assms(1) have "r = finish_result a (hx_status x) OcAccepted m None
        (or_request_id L p (value_str ?body ''request_id'')) s1 cl t1 t2 now"
      by (simp add: apply_hosted_account_response_def accepted_result_def)
    with accepted_change_ok [OF c assms(2)] show ?thesis by (simp add: result_ok_finish)
  next
    case False
    obtain s1 cl where c: "refused_change (classify_hosted_account_error (value_str ?body ''code'') (hx_status x))
        (value_str ?body ''code'') s = (s1, cl)" by fastforce
    with False assms(1) obtain oc m ec rq where "r = finish_result a (hx_status x) oc m ec rq s1 cl None None now"
      by (auto simp: apply_hosted_account_response_def Let_def)
    with refused_change_ok [OF c assms(2)] show ?thesis by (simp add: result_ok_finish)
  qed
qed

lemma transport_failure_ok: "account_ok s \<Longrightarrow> result_ok s (hosted_account_transport_failure L a p m s now)"
  unfolding hosted_account_transport_failure_def by (rule result_ok_finish) (auto intro: keeps_track_same)

section \<open>Secret storage\<close>

text \<open>What a client of secret storage relies on: reading returns what is held and changes nothing,
  writing and clearing take effect, and a failure spares the other secrets.\<close>

locale hosted_secrets =
  fixes S :: "'k secret_ops" and holds :: "'k \<Rightarrow> uuid \<Rightarrow> string option"
  assumes read_same: "so_read S i k = (r, k') \<Longrightarrow> holds k' = holds k"
    and read_value: "so_read S i k = (Inr t, k') \<Longrightarrow> t = holds k i"
    and write_held: "so_write S i label x k = (Inr u, k') \<Longrightarrow> holds k' = (holds k)(i \<mapsto> x)"
    and write_failed: "so_write S i label x k = (Inl e, k') \<Longrightarrow> j \<noteq> i \<Longrightarrow> holds k' j = holds k j"
    and clear_gone: "so_clear S i k = (Inr u, k') \<Longrightarrow> holds k' = (holds k)(i := None)"
    and clear_failed: "so_clear S i k = (Inl e, k') \<Longrightarrow> j \<noteq> i \<Longrightarrow> holds k' j = holds k j"
begin

lemma clear_secrets_gone:
  "clear_secrets S is k = (Inr u, k') \<Longrightarrow> holds k' = (\<lambda>i. if i \<in> set is then None else holds k i)"
proof (induction "is" arbitrary: k)
  case (Cons i "is")
  then obtain v k1 where c: "so_clear S i k = (Inr v, k1)" "clear_secrets S is k1 = (Inr u, k')"
    by (auto split: prod.splits sum.splits)
  with Cons.IH [OF c(2)] clear_gone [OF c(1)] show ?case by (auto simp: fun_eq_iff)
qed (auto simp: fun_eq_iff)

lemma write_issued_held:
  "write_issued S label c t k = (Inr u, k') \<Longrightarrow>
    holds k' = (case (c, t) of (Some i, Some x) \<Rightarrow> (holds k)(i \<mapsto> x) | _ \<Rightarrow> holds k)"
  by (auto simp: write_issued_def write_held split: option.splits)

lemma settle_secrets_held:
  assumes "settle_secrets S r k = (Inr u, k')"
  shows "\<exists>m. holds k' = (\<lambda>i. if i \<in> set (hz_cleared r) then None else m i) \<and>
    dom m \<subseteq> dom (holds k) \<union>
      (if hz_session_token r = None then {} else set_option (ha_session_credential (hz_snapshot r))) \<union>
      (if hz_refresh_token r = None then {} else set_option (ha_refresh_credential (hz_snapshot r)))"
proof -
  from assms obtain v1 k1 v2 k2 where
    w: "write_issued S HOSTED_ACCOUNT_SESSION_CREDENTIAL_LABEL (ha_session_credential (hz_snapshot r)) (hz_session_token r) k = (Inr v1, k1)"
      "write_issued S HOSTED_ACCOUNT_REFRESH_CREDENTIAL_LABEL (ha_refresh_credential (hz_snapshot r)) (hz_refresh_token r) k1 = (Inr v2, k2)"
    and c: "clear_secrets S (hz_cleared r) k2 = (Inr u, k')"
    by (auto simp: settle_secrets_def split: prod.splits sum.splits)
  have "dom (holds k2) \<subseteq> dom (holds k) \<union>
      (if hz_session_token r = None then {} else set_option (ha_session_credential (hz_snapshot r))) \<union>
      (if hz_refresh_token r = None then {} else set_option (ha_refresh_credential (hz_snapshot r)))"
    using write_issued_held [OF w(1)] write_issued_held [OF w(2)] by (auto split: option.splits)
  with clear_secrets_gone [OF c] show ?thesis by blast
qed

text \<open>Secrets stay within the credentials the record names.\<close>

lemma settled_secrets_named:
  assumes "settle_secrets S r k = (Inr u, k')" and "dom (holds k) \<subseteq> set (session_credentials s)"
    and "keeps_track s (hz_snapshot r) (hz_cleared r) (hz_session_token r) (hz_refresh_token r)"
  shows "dom (holds k') \<subseteq> set (session_credentials (hz_snapshot r))"
proof -
  from settle_secrets_held [OF assms(1)] obtain m where
    m: "holds k' = (\<lambda>i. if i \<in> set (hz_cleared r) then None else m i)"
    "dom m \<subseteq> dom (holds k) \<union>
      (if hz_session_token r = None then {} else set_option (ha_session_credential (hz_snapshot r))) \<union>
      (if hz_refresh_token r = None then {} else set_option (ha_refresh_credential (hz_snapshot r)))" by blast
  from assms(3) show ?thesis unfolding keeps_track_def
  proof (elim disjE conjE)
    assume "hz_cleared r = session_credentials s" "hz_session_token r = None" "hz_refresh_token r = None"
    moreover from this m(2) assms(2) have "dom m \<subseteq> set (session_credentials s)" by auto
    then have "m i = None" if "i \<notin> set (session_credentials s)" for i using that by auto
    ultimately have "holds k' = Map.empty" by (simp add: m(1) fun_eq_iff)
    then show ?thesis by simp
  next
    assume c: "hz_cleared r = []" "set (session_credentials s) \<subseteq> set (session_credentials (hz_snapshot r))"
    have "dom m \<subseteq> dom (holds k) \<union> set (session_credentials (hz_snapshot r))"
      using m(2) unfolding session_credentials_set by (rule subset_trans) auto
    moreover have "holds k' = m" using m(1) c(1) by simp
    ultimately show ?thesis using c(2) assms(2) by blast
  qed
qed

lemma read_session_token_same: "read_session_token S p k = (r, k') \<Longrightarrow> holds k' = holds k"
  by (auto simp: read_session_token_def dest: read_same split: option.splits prod.splits sum.splits if_splits)

lemma read_request_body_same: "read_request_body S p k = (r, k') \<Longrightarrow> holds k' = holds k"
  by (auto simp: read_request_body_def dest: read_same split: option.splits prod.splits sum.splits if_splits)

end

section \<open>The record's file along a run\<close>

text \<open>What is read from a printed record is that record.\<close>

definition codec_sound :: "'f codec \<Rightarrow> bool" where
  "codec_sound c = (\<forall>f g. cd_parse c (cd_print c f @ newline) = Inr g \<longrightarrow> g = f)"

definition file_ok :: "account_file codec \<Rightarrow> json_disk \<Rightarrow> bool" where
  "file_ok c d = (\<forall>f. account_load_file c d = Inr f \<longrightarrow> account_ok (hf_snapshot f))"

lemma file_ok_None: "jd_file d = None \<Longrightarrow> file_ok c d"
  by (simp add: file_ok_def account_load_file_def)

lemma file_ok_same: "jd_file d' = jd_file d \<Longrightarrow> file_ok c d' = file_ok c d"
  by (simp add: file_ok_def account_load_file_def)

lemma save_cases:
  assumes "account_save c s d = (r, d')"
  obtains (kept) "jd_file d' = jd_file d" "\<exists>e. r = Inl e"
    | (gone) "jd_file d' = None" "\<exists>e. r = Inl e"
    | (saved) "jd_file d' = Some (cd_print c \<lparr>hf_version = HOSTED_ACCOUNT_FILE_VERSION, hf_snapshot = s\<rparr> @ newline)" "r = Inr ()"
proof -
  let ?f = "\<lparr>hf_version = HOSTED_ACCOUNT_FILE_VERSION, hf_snapshot = s\<rparr>"
  show ?thesis
  proof (cases "jd_io d")
    case Nil
    with assms saved show ?thesis by (auto simp: account_save_def write_json_atomically_def written_def)
  next
    case (Cons x io)
    show ?thesis
    proof (cases x)
      case None
      with Cons assms saved show ?thesis by (auto simp: account_save_def write_json_atomically_def written_def)
    next
      case (Some y)
      obtain stop err where y: "y = (stop, err)" by (cases y)
      with Cons Some assms have e: "d' = stopped (cd_print c ?f @ newline) stop (d\<lparr>jd_io := io\<rparr>)" "r = Inl (HaIo err)"
        by (auto simp: account_save_def write_json_atomically_def)
      show ?thesis using e kept gone by (cases stop) auto
    qed
  qed
qed

lemma save_file_ok:
  assumes "codec_sound c" and "account_ok s" and "file_ok c d" and "account_save c s d = (r, d')"
  shows "file_ok c d'"
  using assms(4)
proof (cases rule: save_cases)
  case kept
  with assms(3) show ?thesis using file_ok_same [of d' d c] by simp
next
  case saved
  show ?thesis unfolding file_ok_def
  proof (intro allI impI)
    fix f assume "account_load_file c d' = Inr f"
    then have "cd_parse c (cd_print c \<lparr>hf_version = HOSTED_ACCOUNT_FILE_VERSION, hf_snapshot = s\<rparr> @ newline) = Inr f"
      by (simp add: account_load_file_def saved(1))
    with assms(1) have "f = \<lparr>hf_version = HOSTED_ACCOUNT_FILE_VERSION, hf_snapshot = s\<rparr>"
      unfolding codec_sound_def by blast
    with assms(2) show "account_ok (hf_snapshot f)" by simp
  qed
qed (simp add: file_ok_None)

lemma quarantined_gone: "jd_file (quarantine_file d) = None"
  by (simp add: quarantine_file_def split: option.split)

lemma account_initialize_ok:
  assumes "codec_sound c" and "file_ok c d" and "account_initialize c config d = (r, d')"
  shows "file_ok c d' \<and> (\<forall>s. r = Inr s \<longrightarrow> account_ok s)"
proof (cases "config_normalized config")
  case (Inr config')
  obtain r1 d1 where save: "account_save c (account_snapshot_new config') d = (r1, d1)" by fastforce
  have ok: "account_ok (account_snapshot_new config')" by (rule account_ok_new [OF config_ok_normalized [OF Inr]])
  from save_file_ok [OF assms(1) ok assms(2) save] assms(3) Inr save ok show ?thesis
    by (cases r1) (auto simp: account_initialize_def)
qed (use assms in \<open>auto simp: account_initialize_def\<close>)

lemma load_or_initialize_ok:
  assumes "codec_sound c" and "file_ok c d" and "load_or_initialize c config d = (r, d')"
  shows "file_ok c d' \<and> (\<forall>s. r = Inr s \<longrightarrow> account_ok s)"
proof (cases "account_load_file c d")
  case (Inl err)
  have "file_ok c (if err = HaNotFound then d else quarantine_file d)"
    using assms(2) quarantined_gone by (auto intro: file_ok_None)
  with account_initialize_ok [OF assms(1) this] Inl assms(3) show ?thesis by (simp add: load_or_initialize_def)
next
  case (Inr f)
  with assms(2,3) show ?thesis by (auto simp: load_or_initialize_def file_ok_def)
qed

lemma configure_ok:
  assumes "codec_sound c" and "file_ok c d" and "account_configure c config now d = (r, d')"
  shows "file_ok c d'"
proof (cases "config_normalized config")
  case (Inr config')
  obtain r1 d1 where l: "load_or_initialize c config' d = (r1, d1)" by fastforce
  note L = load_or_initialize_ok [OF assms(1,2) l]
  show ?thesis
  proof (cases r1)
    case (Inr s)
    let ?s = "s\<lparr>ha_base_url := hc_base_url config', ha_device_name := hc_device_name config', ha_last_updated_at := Some now\<rparr>"
    obtain r2 d2 where save: "account_save c ?s d1 = (r2, d2)" by fastforce
    have "account_ok ?s"
      using L Inr config_ok_normalized [OF \<open>config_normalized config = Inr config'\<close>]
      by (simp add: account_ok_def session_credentials_def)
    from save_file_ok [OF assms(1) this conjunct1 [OF L] save] save show ?thesis
      using assms(3) l Inr \<open>config_normalized config = Inr config'\<close>
      by (cases r2) (auto simp: account_configure_def)
  qed (use assms(3) l L Inr in \<open>simp add: account_configure_def\<close>)
qed (use assms in \<open>auto simp: account_configure_def\<close>)

text \<open>An action, taken apart: it stops before its result is saved, or saves it.\<close>

lemma execute_cases:
  assumes "account_execute L c S T a config now (d, k, w) = (r, d', k', w')"
  obtains (early) x e where "load_or_initialize c config d = (x, d')" "r = Inl e"
    | (settled) s d1 p k1 k2 tok body q w1 u v where "load_or_initialize c config d = (Inr s, d1)"
        "plan_hosted_account_request L a s w = (Inr p, w1)"
        "read_session_token S p k = (Inr tok, k1)" "read_request_body S p k1 = (Inr body, k2)"
        "(case T p body tok of Inr x \<Rightarrow> apply_hosted_account_response L a p x s now w1
           | Inl err \<Rightarrow> (hosted_account_transport_failure L a p err s now, w1)) = (q, w')"
        "settle_secrets S q k2 = (Inr u, k')" "account_save c (hz_snapshot q) d1 = (v, d')"
        "r = (case v of Inl err \<Rightarrow> Inl err | Inr _ \<Rightarrow> Inr (without_secrets q))"
proof -
  note E = assms [unfolded account_execute_def prod.case]
  obtain x d1 where l: "load_or_initialize c config d = (x, d1)" by fastforce
  show ?thesis
  proof (cases x)
    case (Inl err)
    with E l have "d' = d1" "\<exists>e. r = Inl e" by auto
    with l early show ?thesis by blast
  next
    case x: (Inr s)
    obtain y w1 where p: "plan_hosted_account_request L a s w = (y, w1)" by fastforce
    show ?thesis
    proof (cases y)
      case (Inl err)
      with E l x p have "d' = d1" "\<exists>e. r = Inl e" by auto
      with l early show ?thesis by blast
    next
      case y: (Inr plan)
      obtain z k1 where t: "read_session_token S plan k = (z, k1)" by fastforce
      show ?thesis
      proof (cases z)
        case (Inl err)
        with E l x p y t have "d' = d1" "\<exists>e. r = Inl e" by auto
        with l early show ?thesis by blast
      next
        case z: (Inr tok)
        obtain b k2 where b: "read_request_body S plan k1 = (b, k2)" by fastforce
        show ?thesis
        proof (cases b)
          case (Inl err)
          with E l x p y t z b have "d' = d1" "\<exists>e. r = Inl e" by auto
          with l early show ?thesis by blast
        next
          case b': (Inr body)
          obtain q w2 where q: "(case T plan body tok of Inr x \<Rightarrow> apply_hosted_account_response L a plan x s now w1
             | Inl err \<Rightarrow> (hosted_account_transport_failure L a plan err s now, w1)) = (q, w2)" by fastforce
          obtain g k3 where g: "settle_secrets S q k2 = (g, k3)" by fastforce
          note E' = E [unfolded l prod.case x sum.case p y t z b b' q Let_def g]
          show ?thesis
          proof (cases g)
            case (Inl err)
            with E' have "d' = d1" "\<exists>e. r = Inl e" by auto
            with l early show ?thesis by blast
          next
            case g': (Inr u)
            obtain v d2 where v: "account_save c (hz_snapshot q) d1 = (v, d2)" by fastforce
            have "r = (case v of Inl err \<Rightarrow> Inl err | Inr _ \<Rightarrow> Inr (without_secrets q))" "d' = d2" "k' = k3" "w' = w2"
              using E' g' v by (auto split: sum.splits)
            with l x p y t z b b' q g g' v settled show ?thesis by blast
          qed
        qed
      qed
    qed
  qed
qed

lemma saved_record_loads:
  assumes "account_save c s d = (Inr u, d')" and "codec_reads c \<lparr>hf_version = HOSTED_ACCOUNT_FILE_VERSION, hf_snapshot = s\<rparr>"
    and "ha_schema_version s = HOSTED_ACCOUNT_FILE_VERSION" and "normalize_base_url (ha_base_url s) = Inr url"
  shows "account_load_file c d' = Inr \<lparr>hf_version = HOSTED_ACCOUNT_FILE_VERSION, hf_snapshot = s\<rparr>"
  using assms(1)
proof (cases rule: save_cases)
  case saved
  with assms(2-4) show ?thesis by (simp add: account_load_file_def codec_reads_def account_file_validate_def)
qed simp_all

text \<open>Runs: any sequence of actions and configurations, with whatever responses, results and
  failing writes.\<close>

inductive account_run :: "libs \<Rightarrow> account_file codec \<Rightarrow> 'k secret_ops \<Rightarrow>
    json_disk \<times> 'k \<times> world \<Rightarrow> json_disk \<times> 'k \<times> world \<Rightarrow> bool" for L c S where
  start: "account_run L c S x x"
| executed: "account_run L c S x (d, k, w) \<Longrightarrow> account_execute L c S T a config now (d, k, w) = (r, y) \<Longrightarrow> account_run L c S x y"
| configured: "account_run L c S x (d, k, w) \<Longrightarrow> account_configure c config now d = (r, d') \<Longrightarrow> account_run L c S x (d', k, w)"

lemma execute_file_ok:
  assumes "codec_sound c" and "file_ok c d" and "account_execute L c S T a config now (d, k, w) = (r, d', k', w')"
  shows "file_ok c d'"
  using assms(3)
proof (cases rule: execute_cases)
  case (early x e)
  with load_or_initialize_ok [OF assms(1,2)] show ?thesis by blast
next
  case (settled s d1 p k1 k2 tok body q w1 u v)
  note ok = load_or_initialize_ok [OF assms(1,2) settled(1)]
  have "result_ok s q" using settled(5) ok apply_response_ok transport_failure_ok
    by (fastforce split: sum.splits)
  with ok settled(7) show ?thesis by (auto simp: result_ok_def intro: save_file_ok [OF assms(1)])
qed

lemma run_file_ok:
  assumes "account_run L c S x y" and "codec_sound c" and "file_ok c (fst x)"
  shows "file_ok c (fst y)"
  using assms
proof (induction rule: account_run.induct)
  case (executed x d k w T a config now r y)
  obtain d' k' w' where y: "y = (d', k', w')" by (cases y)
  from executed show ?case unfolding y by (auto dest: execute_file_ok)
next
  case (configured x d k w config now r d')
  then show ?case by (auto dest: configure_ok)
qed simp

section \<open>Accepted and refused\<close>

lemma classify_not_accepted: "classify_hosted_account_error code status \<noteq> OcAccepted"
  by (simp add: classify_hosted_account_error_def Let_def split: option.split)

definition ends_session :: "account_action \<Rightarrow> bool" where
  "ends_session a = (a \<in> {ActLogout, ActLogoutAll, ActAccountDelete, ActDeviceRevokeAll})"

lemma ended_session:
  assumes "apply_hosted_account_response L a p x s now w = (r, w')" and "ends_session a" and "hz_outcome r = OcAccepted"
  shows "session_credentials (hz_snapshot r) = []"
proof -
  let ?body = "case hx_body x of None \<Rightarrow> JNull | Some b \<Rightarrow> b"
  have st: "200 \<le> hx_status x \<and> hx_status x < 300"
  proof (rule ccontr)
    assume "\<not> (200 \<le> hx_status x \<and> hx_status x < 300)"
    with assms(1) have "hz_outcome r = classify_hosted_account_error (value_str ?body ''code'') (hx_status x)"
      by (auto simp: apply_hosted_account_response_def Let_def split: prod.splits)
    with assms(3) classify_not_accepted show False by simp
  qed
  obtain m s1 cl t1 t2 w1 where c: "accepted_change L a ?body s now w = (m, s1, cl, (t1, t2), w1)"
    by (metis prod.exhaust)
  with st assms(1) have "session_credentials (hz_snapshot r) = session_credentials s1"
    by (auto simp: apply_hosted_account_response_def accepted_result_def finish_result_snapshot)
  with c assms(2) show ?thesis by (auto simp: accepted_change_def signed_out_def ends_session_def)
qed

text \<open>What a result's snapshot may change beside the note of the call.\<close>

definition same_account :: "account_snapshot \<Rightarrow> account_snapshot \<Rightarrow> bool" where
  "same_account s s' = (s' = s\<lparr>ha_schema_version := ha_schema_version s', ha_last_action := ha_last_action s',
     ha_last_outcome := ha_last_outcome s', ha_last_error_code := ha_last_error_code s',
     ha_last_message := ha_last_message s', ha_last_request_id := ha_last_request_id s',
     ha_last_updated_at := ha_last_updated_at s'\<rparr>)"

lemma same_account_finish: "same_account s (hz_snapshot (finish_result a st oc m ec rq s cl t1 t2 now))"
  by (simp add: same_account_def finish_result_def)

section \<open>Tokens in a response\<close>

text \<open>A response that carries the given tokens.\<close>

definition with_tokens :: "string \<Rightarrow> string \<Rightarrow> json \<Rightarrow> json" where
  "with_tokens session refresh body =
     (case body of
        JObject m \<Rightarrow> JObject (bt_insert ''refresh_token'' (JString refresh)
          (case map_of m ''session'' of
             Some (JObject sm) \<Rightarrow> bt_insert ''session'' (JObject (bt_insert ''token'' (JString session) sm)) m
           | _ \<Rightarrow> m))
      | _ \<Rightarrow> body)"

lemma value_get_with_tokens:
  "k \<noteq> ''session'' \<Longrightarrow> k \<noteq> ''refresh_token'' \<Longrightarrow> value_get (with_tokens t u b) k = value_get b k"
  by (auto simp: with_tokens_def value_get_def bt_get_insert split: json.splits option.splits)

lemma session_with_tokens:
  "value_get (with_tokens t u b) ''session'' =
     (case value_get b ''session'' of
        Some (JObject sm) \<Rightarrow> Some (JObject (bt_insert ''token'' (JString t) sm)) | x \<Rightarrow> x)"
  by (auto simp: with_tokens_def value_get_def bt_get_insert split: json.splits option.splits)

lemma refresh_with_tokens:
  "value_get (with_tokens t u b) ''refresh_token'' = (if is_object b then Some (JString u) else None)"
  by (cases b) (auto simp: with_tokens_def value_get_def bt_get_insert is_object_def)

lemma apply_session_part_tokens:
  assumes "trim t \<noteq> []" and "trim u \<noteq> []"
  shows "snd (apply_session_part L (JObject (bt_insert ''token'' (JString t) m)) s w) =
    snd (apply_session_part L (JObject (bt_insert ''token'' (JString u) m)) s w)"
  using assms by (simp add: apply_session_part_def bt_get_insert non_empty_string_def Let_def split: prod.split)

lemma apply_refresh_part_tokens:
  assumes "trim t \<noteq> []" and "trim u \<noteq> []" and "is_object b"
  shows "snd (apply_refresh_part (with_tokens x t b) s w) = snd (apply_refresh_part (with_tokens y u b) s w)"
  using assms by (simp add: apply_refresh_part_def refresh_with_tokens non_empty_string_def Let_def split: prod.split)

lemma apply_logbooks_tokens: "apply_logbooks L (with_tokens t u b) s = apply_logbooks L b s"
  by (simp add: apply_logbooks_def value_get_with_tokens)

lemma apply_devices_tokens: "apply_devices L (with_tokens t u b) s = apply_devices L b s"
  by (simp add: apply_devices_def value_get_with_tokens cong: option.case_cong)

lemma apply_session_tokens:
  assumes "trim t1 \<noteq> []" "trim t2 \<noteq> []" "trim u1 \<noteq> []" "trim u2 \<noteq> []"
  shows "snd (apply_session L (with_tokens t1 t2 b) s w) = snd (apply_session L (with_tokens u1 u2 b) s w)"
proof -
  let ?s = "case value_get b ''account'' of None \<Rightarrow> s | Some account \<Rightarrow> apply_account L account s"
  define part where "part t u = (case value_get (with_tokens t u b) ''session'' of
      None \<Rightarrow> (None, ?s, w) | Some session \<Rightarrow> apply_session_part L session ?s w)" for t u
  have p: "snd (part t1 t2) = snd (part u1 u2)"
    using apply_session_part_tokens [OF assms(1,3)]
    by (auto simp: part_def session_with_tokens split: option.split json.split)
  have r: "snd (apply_refresh_part (with_tokens t1 t2 b) s' w') = snd (apply_refresh_part (with_tokens u1 u2 b) s' w')" for s' w'
  proof (cases "is_object b")
    case True
    with apply_refresh_part_tokens [OF assms(2,4)] show ?thesis by blast
  next
    case False
    then show ?thesis by (simp add: apply_refresh_part_def refresh_with_tokens)
  qed
  have shape: "snd (apply_session L (with_tokens t u b) s w) =
      (let (s, w) = snd (apply_refresh_part (with_tokens t u b) (fst (snd (part t u))) (snd (snd (part t u))));
           s = (case value_get b ''device'' of None \<Rightarrow> s | Some device \<Rightarrow> apply_device_part L device s)
       in (signed_in (apply_logbooks L b s), w))" for t u
    by (simp add: apply_session_def part_def [symmetric] value_get_with_tokens apply_logbooks_tokens case_prod_beta Let_def
        cong: option.case_cong)
  show ?thesis unfolding shape p r ..
qed

lemma take_secrets_snapshot [simp]:
  "hz_snapshot (without_secrets r) = hz_snapshot r" "hz_outcome (without_secrets r) = hz_outcome r"
  by (simp_all add: without_secrets_def)

lemma finish_without_secrets:
  "without_secrets (finish_result a st oc m ec rq s cl t1 t2 now) = finish_result a st oc m ec rq s cl None None now"
  by (simp add: without_secrets_def finish_result_def)

text \<open>All of a change but the tokens it issues.\<close>

definition but_tokens :: "account_change \<Rightarrow> string \<times> account_snapshot \<times> uuid list \<times> world" where
  "but_tokens = (\<lambda>(m, s, cl, _, w). (m, s, cl, w))"

lemma accepted_change_tokens:
  assumes "trim t1 \<noteq> []" "trim t2 \<noteq> []" "trim u1 \<noteq> []" "trim u2 \<noteq> []"
  shows "but_tokens (accepted_change L a (with_tokens t1 t2 b) s now w) =
    but_tokens (accepted_change L a (with_tokens u1 u2 b) s now w)"
proof -
  have session: "but_tokens (case apply_session L (with_tokens t1 t2 b) s w of (tokens, s, w) \<Rightarrow> (m, g s, [], tokens, w)) =
      but_tokens (case apply_session L (with_tokens u1 u2 b) s w of (tokens, s, w) \<Rightarrow> (m, g s, [], tokens, w))" for m g
    using apply_session_tokens [OF assms, of L b s w] by (simp add: but_tokens_def case_prod_beta)
  show ?thesis
    using session [of _ "\<lambda>s. s\<lparr>ha_pending_recovery := None\<rparr>"] session [of _ "\<lambda>s. s"]
    by (cases a) (simp_all add: accepted_change_def accept_session_def value_get_with_tokens apply_devices_tokens
        json_count_def cong: option.case_cong)
qed

lemma value_str_with_tokens:
  "k \<noteq> ''session'' \<Longrightarrow> k \<noteq> ''refresh_token'' \<Longrightarrow> value_str (with_tokens t u b) k = value_str b k"
  by (simp add: value_str_def value_get_with_tokens)

text \<open>The result without its tokens does not depend on which tokens came.\<close>

lemma apply_response_tokens:
  assumes "trim t1 \<noteq> []" "trim t2 \<noteq> []" "trim u1 \<noteq> []" "trim u2 \<noteq> []"
    and "apply_hosted_account_response L a p \<lparr>hx_status = st, hx_body = Some (with_tokens t1 t2 b)\<rparr> s now w = (r, w1)"
    and "apply_hosted_account_response L a p \<lparr>hx_status = st, hx_body = Some (with_tokens u1 u2 b)\<rparr> s now w = (q, w2)"
  shows "without_secrets q = without_secrets r \<and> w2 = w1"
proof (cases "200 \<le> st \<and> st < 300")
  case True
  obtain m s1 cl a1 a2 v where c: "accepted_change L a (with_tokens t1 t2 b) s now w = (m, s1, cl, (a1, a2), v)"
    by (metis prod.exhaust)
  obtain m' s1' cl' a1' a2' v' where c': "accepted_change L a (with_tokens u1 u2 b) s now w = (m', s1', cl', (a1', a2'), v')"
    by (metis prod.exhaust)
  from accepted_change_tokens [OF assms(1-4), of L a b s now w] c c' have e: "m' = m" "s1' = s1" "cl' = cl" "v' = v"
    by (simp_all add: but_tokens_def)
  have "value_str (with_tokens t1 t2 b) ''request_id'' = value_str (with_tokens u1 u2 b) ''request_id''"
    by (simp add: value_str_with_tokens)
  with True assms(5,6) c c' show ?thesis
    unfolding e by (auto simp: apply_hosted_account_response_def accepted_result_def finish_without_secrets)
next
  case False
  then show ?thesis using assms(5,6)
    by (auto simp: apply_hosted_account_response_def value_str_with_tokens Let_def split: prod.splits)
qed

end
