(* ===== verification/Credential_Facts.thy ===== *)
theory Credential_Facts
  imports Credential Account_Runs
begin

text \<open>
  Facts about credential stores: the interface of a store that forgets what it is told to, the
  store over the keychain as a provider of it, the bridge that makes secret storage for the
  account client of any such store, and what the files of the stores hold.
\<close>

section \<open>The interface\<close>

text \<open>\<open>secret_of\<close> is the secret a store would return. Storing and updating set it, deleting removes
  it, a failure spares the other credentials.\<close>

locale credential_store =
  fixes ops :: "'c credential_ops" and secret_of :: "'c \<Rightarrow> uuid \<Rightarrow> string option"
  assumes retrieve_same: "co_retrieve ops i (s, w) = (r, s', w') \<Longrightarrow> secret_of s' = secret_of s"
    and retrieve_value: "co_retrieve ops i (s, w) = (Inr x, s', w') \<Longrightarrow> secret_of s i = Some x"
    and retrieve_missing: "co_retrieve ops i (s, w) = (Inl (CrNotFound j), s', w') \<Longrightarrow> secret_of s i = None"
    and store_held: "co_store ops m x (s, w) = (Inr m', s', w') \<Longrightarrow> secret_of s' = (secret_of s)(cm_credential_id m \<mapsto> x)"
    and store_failed: "co_store ops m x (s, w) = (Inl e, s', w') \<Longrightarrow> j \<noteq> cm_credential_id m \<Longrightarrow> secret_of s' j = secret_of s j"
    and update_held: "co_update ops i x meta (s, w) = (Inr m', s', w') \<Longrightarrow> secret_of s' = (secret_of s)(i \<mapsto> x)"
    and update_failed: "co_update ops i x meta (s, w) = (Inl e, s', w') \<Longrightarrow> j \<noteq> i \<Longrightarrow> secret_of s' j = secret_of s j"
    and delete_gone: "co_delete ops i (s, w) = (Inr u, s', w') \<Longrightarrow> secret_of s' = (secret_of s)(i := None)"
    and delete_missing: "co_delete ops i (s, w) = (Inl (CrNotFound j), s', w') \<Longrightarrow> secret_of s i = None \<and> secret_of s' = secret_of s"
    and delete_failed: "co_delete ops i (s, w) = (Inl e, s', w') \<Longrightarrow> j \<noteq> i \<Longrightarrow> secret_of s' j = secret_of s j"
begin

lemma cli_read:
  assumes "cli_read_secret ops text i (s, w) = (r, s', w')"
  shows "secret_of s' = secret_of s" "r = Inr t \<Longrightarrow> t = secret_of s i"
  using assms retrieve_same [of i s w] retrieve_value [of i s w] retrieve_missing [of i s w]
  by (auto simp: cli_read_secret_def split: prod.splits sum.splits credential_error.splits)

lemma cli_write:
  assumes "cli_write_secret ops text i label x (s, w) = (r, s', w')"
  shows "r = Inr u \<Longrightarrow> secret_of s' = (secret_of s)(i \<mapsto> x)" "r = Inl e \<Longrightarrow> j \<noteq> i \<Longrightarrow> secret_of s' j = secret_of s j"
proof -
  show "r = Inr u \<Longrightarrow> secret_of s' = (secret_of s)(i \<mapsto> x)"
    using assms by (auto simp: cli_write_secret_def dest!: store_held update_held split: prod.splits if_splits)
  show "r = Inl e \<Longrightarrow> j \<noteq> i \<Longrightarrow> secret_of s' j = secret_of s j"
    using assms by (auto simp: cli_write_secret_def and_then_Inl_iff map_err_Inl_iff
      dest: store_failed update_failed split: prod.splits if_splits)
qed

lemma cli_clear:
  assumes "cli_clear_secret ops text i (s, w) = (r, s', w')"
  shows "r = Inr u \<Longrightarrow> secret_of s' = (secret_of s)(i := None)" "r = Inl e \<Longrightarrow> j \<noteq> i \<Longrightarrow> secret_of s' j = secret_of s j"
proof -
  obtain q s1 w1 where d: "co_delete ops i (s, w) = (q, s1, w1)" by (metis prod.exhaust)
  show "r = Inr u \<Longrightarrow> secret_of s' = (secret_of s)(i := None)"
    using assms d delete_gone [of i s w] delete_missing [of i s w]
    by (auto simp: cli_clear_secret_def fun_upd_idem split: sum.splits credential_error.splits)
  show "r = Inl e \<Longrightarrow> j \<noteq> i \<Longrightarrow> secret_of s' j = secret_of s j"
    using assms d delete_failed [of i s w]
    by (auto simp: cli_clear_secret_def split: sum.splits credential_error.splits)
qed

end

text \<open>Any such store gives the account client its secret storage.\<close>

sublocale credential_store \<subseteq> bridge: hosted_secrets "cli_secrets ops text" "\<lambda>sw. secret_of (fst sw)"
proof unfold_locales
  fix i label x and k k' :: "'c \<times> world" and r :: "account_error + string option" and q :: "account_error + unit"
    and t u e j
  obtain s w where k: "k = (s, w)" by (cases k)
  obtain s' w' where k': "k' = (s', w')" by (cases k')
  show "so_read (cli_secrets ops text) i k = (r, k') \<Longrightarrow> secret_of (fst k') = secret_of (fst k)"
    by (simp add: cli_secrets_def k k' cli_read(1))
  show "so_read (cli_secrets ops text) i k = (Inr t, k') \<Longrightarrow> t = secret_of (fst k) i"
    by (simp add: cli_secrets_def k k' cli_read(2))
  show "so_write (cli_secrets ops text) i label x k = (Inr u, k') \<Longrightarrow> secret_of (fst k') = (secret_of (fst k))(i \<mapsto> x)"
    by (simp add: cli_secrets_def k k' cli_write(1))
  show "so_write (cli_secrets ops text) i label x k = (Inl e, k') \<Longrightarrow> j \<noteq> i \<Longrightarrow> secret_of (fst k') j = secret_of (fst k) j"
    by (simp add: cli_secrets_def k k' cli_write(2))
  show "so_clear (cli_secrets ops text) i k = (Inr u, k') \<Longrightarrow> secret_of (fst k') = (secret_of (fst k))(i := None)"
    by (simp add: cli_secrets_def k k' cli_clear(1))
  show "so_clear (cli_secrets ops text) i k = (Inl e, k') \<Longrightarrow> j \<noteq> i \<Longrightarrow> secret_of (fst k') j = secret_of (fst k) j"
    by (simp add: cli_secrets_def k k' cli_clear(2))
qed

section \<open>The store over the keychain\<close>

text \<open>What is relied on of the keychain: a secret written is read back, and writing or deleting
  under one target touches no other.\<close>

definition keychain_ok :: "'k keychain \<Rightarrow> bool" where
  "keychain_ok K =
     ((\<forall>t a x k k'. kc_write K t a x k = (Inr (), k') \<longrightarrow> kc_read K t k' = Inr x) \<and>
      (\<forall>t a x k r k' t'. kc_write K t a x k = (r, k') \<longrightarrow> t' \<noteq> t \<longrightarrow> kc_read K t' k' = kc_read K t' k) \<and>
      (\<forall>t k r k' t'. kc_delete K t k = (r, k') \<longrightarrow> t' \<noteq> t \<longrightarrow> kc_read K t' k' = kc_read K t' k))"

definition os_secret :: "'k os_config \<Rightarrow> 'k os_store \<Rightarrow> uuid \<Rightarrow> string option" where
  "os_secret C s i =
     (case hm_get (os_records s) i of
        None \<Rightarrow> None
      | Some m \<Rightarrow>
          if cm_status m = CrActive
          then (case kc_read (oc_keychain C) (target_name C i) (os_keys s) of Inr x \<Rightarrow> Some x | Inl _ \<Rightarrow> None)
          else None)"

lemma target_name_inj: "inj (lib_show_uuid (oc_libs C)) \<Longrightarrow> target_name C i = target_name C j \<longleftrightarrow> i = j"
  by (auto simp: target_name_def dest: injD)

lemma persist_frame:
  "persist_metadata C s = (r, s') \<Longrightarrow> os_records s' = os_records s \<and> os_keys s' = os_keys s"
  by (auto simp: persist_metadata_def split: prod.splits)

lemma os_commit_frame:
  assumes "os_commit C i m x s w = (r, s', w')"
  shows "os_records s' = hm_insert i m (os_records s)" "os_keys s' = os_keys s" "r = Inr y \<Longrightarrow> y = x"
  using assms persist_frame [of C "s\<lparr>os_records := hm_insert i m (os_records s)\<rparr>"]
  by (auto simp: os_commit_def split: prod.splits sum.splits)

text \<open>The secret of a credential is its record and what is filed under its target.\<close>

lemma os_secret_cong:
  "hm_get (os_records s') i = hm_get (os_records s) i \<Longrightarrow>
    kc_read (oc_keychain C) (target_name C i) (os_keys s') = kc_read (oc_keychain C) (target_name C i) (os_keys s) \<Longrightarrow>
    os_secret C s' i = os_secret C s i"
  by (simp add: os_secret_def split: option.split)

lemma os_commit_secret:
  assumes "os_commit C i m x s w = (r, s', w')"
  shows "os_secret C s' i = (if cm_status m = CrActive
      then (case kc_read (oc_keychain C) (target_name C i) (os_keys s) of Inr x \<Rightarrow> Some x | Inl _ \<Rightarrow> None) else None)"
    "j \<noteq> i \<Longrightarrow> os_secret C s' j = os_secret C s j"
  using os_commit_frame [OF assms] by (simp add: os_secret_def hm_get_insert)
    (rule os_secret_cong, simp_all add: os_commit_frame [OF assms] hm_get_insert)

lemma keychain_write_read: "keychain_ok K \<Longrightarrow> kc_write K t a x k = (Inr u, k') \<Longrightarrow> kc_read K t k' = Inr x"
  by (simp add: keychain_ok_def)

lemma keychain_write_other: "keychain_ok K \<Longrightarrow> kc_write K t a x k = (r, k') \<Longrightarrow> t' \<noteq> t \<Longrightarrow> kc_read K t' k' = kc_read K t' k"
  unfolding keychain_ok_def by blast

lemma keychain_delete_other: "keychain_ok K \<Longrightarrow> t' \<noteq> t \<Longrightarrow> kc_read K t' (snd (kc_delete K t k)) = kc_read K t' k"
  unfolding keychain_ok_def by (metis surjective_pairing)

text \<open>A write to the keychain followed by a commit of the record.\<close>

lemma os_written:
  assumes K: "keychain_ok (oc_keychain C)" "inj (lib_show_uuid (oc_libs C))"
    and w: "kc_write (oc_keychain C) (target_name C i) a x (os_keys s) = (q, keys)" and j: "j \<noteq> i"
  shows "os_secret C (s\<lparr>os_keys := keys\<rparr>) j = os_secret C s j"
  using keychain_write_other [OF K(1) w] target_name_inj [OF K(2)] j
  by (intro os_secret_cong) auto

lemma os_write_commit:
  assumes K: "keychain_ok (oc_keychain C)" "inj (lib_show_uuid (oc_libs C))"
    and w: "kc_write (oc_keychain C) (target_name C i) a x (os_keys s) = (Inr u, keys)"
    and c: "os_commit C i m y (s\<lparr>os_keys := keys\<rparr>) v = (r, s', v')" and m: "cm_status m = CrActive"
  shows "os_secret C s' = (os_secret C s)(i \<mapsto> x)"
proof
  fix j
  show "os_secret C s' j = ((os_secret C s)(i \<mapsto> x)) j"
  proof (cases "j = i")
    case True
    with os_commit_secret(1) [OF c] m keychain_write_read [OF K(1) w] show ?thesis by simp
  next
    case False
    with os_commit_secret(2) [OF c False] os_written [OF K w False] show ?thesis by simp
  qed
qed

lemma os_store_outcome:
  assumes K: "keychain_ok (oc_keychain C)" "inj (lib_show_uuid (oc_libs C))"
    and s: "os_store_credential C m x (s, w) = (r, s', w')"
  shows "r = Inr m' \<Longrightarrow> os_secret C s' = (os_secret C s)(cm_credential_id m \<mapsto> x)"
    and "j \<noteq> cm_credential_id m \<Longrightarrow> os_secret C s' j = os_secret C s j"
proof -
  obtain now w1 where n: "utc_now w = (now, w1)" by fastforce
  let ?m = "(sanitized m)\<lparr>cm_status := CrActive, cm_updated_at := now\<rparr>"
  have i: "cm_credential_id ?m = cm_credential_id m" "cm_status ?m = CrActive" by (simp_all add: sanitized_def)
  obtain q keys where k: "kc_write (oc_keychain C) (target_name C (cm_credential_id m)) (cm_account_id m) x (os_keys s) = (q, keys)"
    by fastforce
  have a: "cm_account_id ?m = cm_account_id m" by (simp add: sanitized_def)
  have cases: "s' = s \<and> (\<exists>e. r = Inl e) \<or> s' = s\<lparr>os_keys := keys\<rparr> \<and> (\<exists>e. r = Inl e) \<or>
      (\<exists>u. q = Inr u \<and> os_commit C (cm_credential_id m) ?m ?m (s\<lparr>os_keys := keys\<rparr>) w1 = (r, s', w'))"
    using s n k i a by (cases q) (auto simp: os_store_credential_def Let_def split: if_splits)
  show "os_secret C s' = (os_secret C s)(cm_credential_id m \<mapsto> x)" if "r = Inr m'"
  proof -
    from cases that obtain u where q: "q = Inr u"
      and c: "os_commit C (cm_credential_id m) ?m ?m (s\<lparr>os_keys := keys\<rparr>) w1 = (r, s', w')" by auto
    show ?thesis by (rule os_write_commit [OF K k [unfolded q] c i(2)])
  qed
  show "os_secret C s' j = os_secret C s j" if j: "j \<noteq> cm_credential_id m"
    using cases
  proof (elim disjE conjE exE)
    fix u assume c: "os_commit C (cm_credential_id m) ?m ?m (s\<lparr>os_keys := keys\<rparr>) w1 = (r, s', w')"
    show ?thesis using os_commit_secret(2) [OF c j] os_written [OF K k j] by simp
  qed (simp_all add: os_written [OF K k j])
qed

lemma os_update_outcome:
  assumes K: "keychain_ok (oc_keychain C)" "inj (lib_show_uuid (oc_libs C))"
    and s: "os_update_credential C i x meta (s, w) = (r, s', w')"
  shows "r = Inr m' \<Longrightarrow> os_secret C s' = (os_secret C s)(i \<mapsto> x)"
    and "j \<noteq> i \<Longrightarrow> os_secret C s' j = os_secret C s j"
proof -
  have cases: "s' = s \<and> (\<exists>e. r = Inl e) \<or>
      (\<exists>a q keys. kc_write (oc_keychain C) (target_name C i) a x (os_keys s) = (q, keys) \<and>
        (s' = s\<lparr>os_keys := keys\<rparr> \<and> (\<exists>e. r = Inl e) \<or>
         (\<exists>u m y v. q = Inr u \<and> cm_status m = CrActive \<and> os_commit C i m y (s\<lparr>os_keys := keys\<rparr>) v = (r, s', w'))))"
  proof (cases "hm_get (os_records s) i")
    case (Some m)
    obtain q keys where k: "kc_write (oc_keychain C) (target_name C i) (cm_account_id m) x (os_keys s) = (q, keys)"
      by fastforce
    obtain now w1 where "utc_now w = (now, w1)" by fastforce
    with s Some k show ?thesis
      by (cases q) (fastforce simp: os_update_credential_def Let_def)+
  qed (use s in \<open>auto simp: os_update_credential_def\<close>)
  show "os_secret C s' = (os_secret C s)(i \<mapsto> x)" if "r = Inr m'"
  proof -
    from cases that obtain a keys u m y v where
      k: "kc_write (oc_keychain C) (target_name C i) a x (os_keys s) = (Inr u, keys)" and m: "cm_status m = CrActive"
      and c: "os_commit C i m y (s\<lparr>os_keys := keys\<rparr>) v = (r, s', w')" by auto
    show ?thesis by (rule os_write_commit [OF K k c m])
  qed
  show "os_secret C s' j = os_secret C s j" if j: "j \<noteq> i"
    using cases
  proof (elim disjE conjE exE)
    fix a q keys u m y v
    assume k: "kc_write (oc_keychain C) (target_name C i) a x (os_keys s) = (q, keys)"
      and c: "os_commit C i m y (s\<lparr>os_keys := keys\<rparr>) v = (r, s', w')"
    show ?thesis using os_commit_secret(2) [OF c j] os_written [OF K k j] by simp
  qed (simp_all add: os_written [OF K _ j])
qed

lemma os_retrieve_outcome:
  assumes "os_retrieve_secret C i (s, w) = (r, s', w')"
  shows "os_secret C s' = os_secret C s" "r = Inr x \<Longrightarrow> os_secret C s i = Some x"
proof -
  have cases: "s' = s \<and> (\<exists>e. r = Inl e) \<or>
      (\<exists>m x m' w1. hm_get (os_records s) i = Some m \<and> cm_status m = CrActive \<and> cm_status m' = CrActive \<and>
        kc_read (oc_keychain C) (target_name C i) (os_keys s) = Inr x \<and> os_commit C i m' x s w1 = (r, s', w'))"
    using assms
    by (auto simp: os_retrieve_secret_def Let_def split: option.splits if_splits sum.splits prod.splits)
      (metis (no_types, lifting) credential_metadata.select_convs(10) credential_metadata.surjective
        credential_metadata.update_convs(9))
  then show "os_secret C s' = os_secret C s"
  proof (elim disjE exE conjE)
    fix m y m' w1
    assume m: "hm_get (os_records s) i = Some m" "cm_status m = CrActive" "cm_status m' = CrActive"
      "kc_read (oc_keychain C) (target_name C i) (os_keys s) = Inr y" and c: "os_commit C i m' y s w1 = (r, s', w')"
    have "os_secret C s' j = os_secret C s j" for j
      using os_commit_secret [OF c] m by (cases "j = i") (simp_all add: os_secret_def)
    then show ?thesis by auto
  qed simp
  show "r = Inr x \<Longrightarrow> os_secret C s i = Some x"
    using cases os_commit_frame(3) by (fastforce simp: os_secret_def)
qed

lemma os_commit_error: "os_commit C i m x s w = (Inl e, s', w') \<Longrightarrow> \<exists>t. e = CrIo t"
  by (auto simp: os_commit_def persist_metadata_def fs_write_def split: prod.splits sum.splits list.splits write_fate.splits)

lemma os_retrieve_missing:
  assumes "os_retrieve_secret C i (s, w) = (Inl (CrNotFound j), s', w')"
  shows "os_secret C s i = None"
  using assms os_commit_error
  by (fastforce simp: os_retrieve_secret_def os_secret_def Let_def split: option.splits if_splits sum.splits prod.splits)

lemma os_delete_outcome:
  assumes K: "keychain_ok (oc_keychain C)" "inj (lib_show_uuid (oc_libs C))"
    and d: "os_delete_credential C i (s, w) = (r, s', w')"
  shows "r = Inr u \<Longrightarrow> os_secret C s' = (os_secret C s)(i := None)"
    and "r = Inl (CrNotFound j) \<Longrightarrow> os_secret C s i = None \<and> os_secret C s' = os_secret C s"
    and "j' \<noteq> i \<Longrightarrow> os_secret C s' j' = os_secret C s j'"
proof -
  let ?keys = "snd (kc_delete (oc_keychain C) (target_name C i) (os_keys s))"
  let ?s = "s\<lparr>os_keys := ?keys, os_records := hm_remove i (os_records s)\<rparr>"
  have cases: "hm_get (os_records s) i = None \<and> s' = s \<and> r = Inl (CrNotFound i) \<or> persist_metadata C ?s = (r, s')"
    using d by (auto simp: os_delete_credential_def Let_def split: if_splits prod.splits)
  have gone: "os_secret C s' = (os_secret C s)(i := None)" if p: "persist_metadata C ?s = (r, s')"
  proof
    fix j
    have "os_secret C s' j = os_secret C ?s j"
      using persist_frame [OF p] by (intro os_secret_cong) simp_all
    also have "\<dots> = ((os_secret C s)(i := None)) j"
    proof (cases "j = i")
      case True
      then show ?thesis by (simp add: os_secret_def hm_get_remove)
    next
      case False
      then have "kc_read (oc_keychain C) (target_name C j) ?keys = kc_read (oc_keychain C) (target_name C j) (os_keys s)"
        using keychain_delete_other [OF K(1)] target_name_inj [OF K(2)] by simp
      with False show ?thesis by (simp add: os_secret_def hm_get_remove split: option.split)
    qed
    finally show "os_secret C s' j = ((os_secret C s)(i := None)) j" .
  qed
  have io: "\<exists>t. e = CrIo t" if "persist_metadata C ?s = (Inl e, s')" for e
    using that by (auto simp: persist_metadata_def fs_write_def split: prod.splits list.splits write_fate.splits)
  show "r = Inr u \<Longrightarrow> os_secret C s' = (os_secret C s)(i := None)" using cases gone by auto
  show "r = Inl (CrNotFound j) \<Longrightarrow> os_secret C s i = None \<and> os_secret C s' = os_secret C s"
    using cases io by (auto simp: os_secret_def)
  show "j' \<noteq> i \<Longrightarrow> os_secret C s' j' = os_secret C s j'" using cases gone by auto
qed

text \<open>The store over a sound keychain keeps the contract.\<close>

lemma os_store_contract:
  assumes K: "keychain_ok (oc_keychain C)" "inj (lib_show_uuid (oc_libs C))"
  shows "credential_store (os_ops C) (os_secret C)"
proof unfold_locales
  fix i j s s' w w' x m m' meta u e and r :: "credential_error + string"
  show "co_retrieve (os_ops C) i (s, w) = (r, s', w') \<Longrightarrow> os_secret C s' = os_secret C s"
    by (simp add: os_ops_def os_retrieve_outcome(1))
  show "co_retrieve (os_ops C) i (s, w) = (Inr x, s', w') \<Longrightarrow> os_secret C s i = Some x"
    by (simp add: os_ops_def os_retrieve_outcome(2))
  show "co_retrieve (os_ops C) i (s, w) = (Inl (CrNotFound j), s', w') \<Longrightarrow> os_secret C s i = None"
    by (simp add: os_ops_def os_retrieve_missing)
  show "co_store (os_ops C) m x (s, w) = (Inr m', s', w') \<Longrightarrow> os_secret C s' = (os_secret C s)(cm_credential_id m \<mapsto> x)"
    by (simp add: os_ops_def os_store_outcome(1) [OF K])
  show "co_store (os_ops C) m x (s, w) = (Inl e, s', w') \<Longrightarrow> j \<noteq> cm_credential_id m \<Longrightarrow> os_secret C s' j = os_secret C s j"
    by (simp add: os_ops_def os_store_outcome(2) [OF K])
  show "co_update (os_ops C) i x meta (s, w) = (Inr m', s', w') \<Longrightarrow> os_secret C s' = (os_secret C s)(i \<mapsto> x)"
    by (simp add: os_ops_def os_update_outcome(1) [OF K])
  show "co_update (os_ops C) i x meta (s, w) = (Inl e, s', w') \<Longrightarrow> j \<noteq> i \<Longrightarrow> os_secret C s' j = os_secret C s j"
    by (simp add: os_ops_def os_update_outcome(2) [OF K])
  show "co_delete (os_ops C) i (s, w) = (Inr u, s', w') \<Longrightarrow> os_secret C s' = (os_secret C s)(i := None)"
    by (simp add: os_ops_def os_delete_outcome(1) [OF K])
  show "co_delete (os_ops C) i (s, w) = (Inl (CrNotFound j), s', w') \<Longrightarrow> os_secret C s i = None \<and> os_secret C s' = os_secret C s"
    by (simp add: os_ops_def os_delete_outcome(2) [OF K])
  show "co_delete (os_ops C) i (s, w) = (Inl e, s', w') \<Longrightarrow> j \<noteq> i \<Longrightarrow> os_secret C s' j = os_secret C s j"
    by (simp add: os_ops_def os_delete_outcome(3) [OF K])
qed

section \<open>What the files hold\<close>

text \<open>Everything but the keychain.\<close>

definition outside_keychain :: "'k os_store \<Rightarrow> (uuid, credential_metadata) hmap \<times> plain_file" where
  "outside_keychain s = (os_records s, os_file s)"

lemma os_commit_outside:
  assumes "os_records s = os_records t" and "os_file s = os_file t"
    and "os_commit C i m x s w = (r, s', w1)" and "os_commit C i m y t w = (q, t', w2)"
  shows "outside_keychain s' = outside_keychain t' \<and> w1 = w2"
  using assms by (auto simp: os_commit_def persist_metadata_def outside_keychain_def split: prod.splits sum.splits)

text \<open>Calls of the store, what they are without their secrets, and runs in which each succeeds.\<close>

datatype os_call =
    CallStore credential_metadata string
  | CallRetrieve uuid
  | CallUpdate uuid string "json option"
  | CallRevoke uuid
  | CallDelete uuid

fun without_secret :: "os_call \<Rightarrow> os_call" where
  "without_secret (CallStore m _) = CallStore m []"
| "without_secret (CallUpdate i _ j) = CallUpdate i [] j"
| "without_secret c = c"

fun os_call_step :: "'k os_config \<Rightarrow> os_call \<Rightarrow> 'k os_store \<times> world \<Rightarrow> ('k os_store \<times> world) option" where
  "os_call_step C (CallStore m x) sw = (case os_store_credential C m x sw of (Inr _, sw) \<Rightarrow> Some sw | _ \<Rightarrow> None)"
| "os_call_step C (CallRetrieve i) sw = (case os_retrieve_secret C i sw of (Inr _, sw) \<Rightarrow> Some sw | _ \<Rightarrow> None)"
| "os_call_step C (CallUpdate i x j) sw = (case os_update_credential C i x j sw of (Inr _, sw) \<Rightarrow> Some sw | _ \<Rightarrow> None)"
| "os_call_step C (CallRevoke i) sw = (case os_revoke_credential C i sw of (Inr _, sw) \<Rightarrow> Some sw | _ \<Rightarrow> None)"
| "os_call_step C (CallDelete i) sw = (case os_delete_credential C i sw of (Inr _, sw) \<Rightarrow> Some sw | _ \<Rightarrow> None)"

fun os_calls :: "'k os_config \<Rightarrow> os_call list \<Rightarrow> 'k os_store \<times> world \<Rightarrow> ('k os_store \<times> world) option" where
  "os_calls C [] sw = Some sw"
| "os_calls C (c # cs) sw = (case os_call_step C c sw of None \<Rightarrow> None | Some sw \<Rightarrow> os_calls C cs sw)"

lemma same_outside: "outside_keychain s = outside_keychain t \<longleftrightarrow> os_records s = os_records t \<and> os_file s = os_file t"
  by (simp add: outside_keychain_def)

text \<open>A call that succeeds ends in a commit, or in the file written without the record.\<close>

lemma persist_outside:
  assumes "os_records s = os_records t" and "os_file s = os_file t"
    and "persist_metadata C s = (r, s')" and "persist_metadata C t = (q, t')"
  shows "outside_keychain s' = outside_keychain t'"
  using assms by (auto simp: persist_metadata_def outside_keychain_def split: prod.splits)

lemma call_outside:
  assumes "without_secret c = without_secret d" and "outside_keychain s = outside_keychain t"
    and "os_call_step C c (s, w) = Some (s', w1)" and "os_call_step C d (t, w) = Some (t', w2)"
  shows "outside_keychain s' = outside_keychain t' \<and> w1 = w2"
proof -
  have o: "os_records s = os_records t" "os_file s = os_file t" using assms(2) by (simp_all add: same_outside)
  note K = os_commit_outside [of "s\<lparr>os_keys := _\<rparr>" "t\<lparr>os_keys := _\<rparr>", simplified, OF o]
  show ?thesis
  proof (cases c)
    case (CallStore m x)
    with assms(1) obtain y where d: "d = CallStore m y" by (cases d) auto
    show ?thesis using assms(3,4) CallStore d
      by (auto simp: os_store_credential_def Let_def split: if_splits prod.splits sum.splits dest: K)
  next
    case (CallRetrieve i)
    with assms(1) have d: "d = CallRetrieve i" by (cases d) auto
    show ?thesis using assms(3,4) CallRetrieve d o
      by (auto simp: os_retrieve_secret_def Let_def split: if_splits prod.splits sum.splits option.splits)
        (metis os_commit_outside)+
  next
    case (CallUpdate i x j)
    with assms(1) obtain y where d: "d = CallUpdate i y j" by (cases d) auto
    show ?thesis using assms(3,4) CallUpdate d o
      by (auto simp: os_update_credential_def Let_def split: prod.splits sum.splits option.splits dest: K)
  next
    case (CallRevoke i)
    with assms(1) have d: "d = CallRevoke i" by (cases d) auto
    show ?thesis using assms(3,4) CallRevoke d o
      by (auto simp: os_revoke_credential_def Let_def split: prod.splits sum.splits option.splits dest: K)
  next
    case (CallDelete i)
    with assms(1) have d: "d = CallDelete i" by (cases d) auto
    show ?thesis using assms(3,4) CallDelete d o
      by (auto simp: os_delete_credential_def Let_def split: if_splits prod.splits sum.splits dest: persist_outside [rotated 2])
  qed
qed

text \<open>Runs of calls.\<close>

lemma os_calls_outside:
  "map without_secret cs = map without_secret ds \<Longrightarrow> outside_keychain s = outside_keychain t \<Longrightarrow>
    os_calls C cs (s, w) = Some (s', w1) \<Longrightarrow> os_calls C ds (t, w) = Some (t', w2) \<Longrightarrow>
    outside_keychain s' = outside_keychain t' \<and> w1 = w2"
proof (induction cs arbitrary: ds s t w)
  case (Cons c cs)
  then obtain d es where d: "ds = d # es" "without_secret c = without_secret d" by (cases ds) auto
  from Cons.prems d obtain s1 v1 t1 v2 where one: "os_call_step C c (s, w) = Some (s1, v1)" "os_calls C cs (s1, v1) = Some (s', w1)"
    and two: "os_call_step C d (t, w) = Some (t1, v2)" "os_calls C es (t1, v2) = Some (t', w2)"
    by (auto split: option.splits)
  from call_outside [OF d(2) Cons.prems(2) one(1) two(1)] Cons.IH [of es s1 t1 v1] Cons.prems(1) d one two
  show ?case by simp
qed simp

text \<open>The map of secrets a store promises.\<close>

fun call_map :: "os_call \<Rightarrow> (uuid \<Rightarrow> string option) \<Rightarrow> (uuid \<Rightarrow> string option)" where
  "call_map (CallStore m x) M = M(cm_credential_id m \<mapsto> x)"
| "call_map (CallRetrieve i) M = M"
| "call_map (CallUpdate i x j) M = M(i \<mapsto> x)"
| "call_map (CallRevoke i) M = M(i := None)"
| "call_map (CallDelete i) M = M(i := None)"

lemma os_revoke_outcome:
  assumes K: "keychain_ok (oc_keychain C)" "inj (lib_show_uuid (oc_libs C))"
    and r: "os_revoke_credential C i (s, w) = (Inr m, s', w')"
  shows "os_secret C s' = (os_secret C s)(i := None)"
proof -
  let ?keys = "snd (kc_delete (oc_keychain C) (target_name C i) (os_keys s))"
  from r obtain n y v where n: "cm_status n = CrRevoked" and c: "os_commit C i n y (s\<lparr>os_keys := ?keys\<rparr>) v = (Inr m, s', w')"
    by (auto simp: os_revoke_credential_def Let_def split: option.splits prod.splits intro: that [rotated])
  have "os_secret C s' j = ((os_secret C s)(i := None)) j" for j
  proof (cases "j = i")
    case True
    with os_commit_secret(1) [OF c] n show ?thesis by simp
  next
    case False
    have "os_secret C (s\<lparr>os_keys := ?keys\<rparr>) j = os_secret C s j"
      using keychain_delete_other [OF K(1)] target_name_inj [OF K(2)] False by (intro os_secret_cong) auto
    with os_commit_secret(2) [OF c False] False show ?thesis by simp
  qed
  then show ?thesis by blast
qed

lemma os_calls_map:
  assumes K: "keychain_ok (oc_keychain C)" "inj (lib_show_uuid (oc_libs C))"
  shows "os_calls C cs (s, w) = Some (s', w') \<Longrightarrow> os_secret C s' = fold call_map cs (os_secret C s)"
proof (induction cs arbitrary: s w)
  case (Cons c cs)
  then obtain t v where c: "os_call_step C c (s, w) = Some (t, v)" and "os_calls C cs (t, v) = Some (s', w')"
    by (auto split: option.splits)
  moreover have "os_secret C t = call_map c (os_secret C s)"
    using c os_store_outcome(1) [OF K] os_retrieve_outcome(1) os_update_outcome(1) [OF K] os_revoke_outcome [OF K]
      os_delete_outcome(1) [OF K]
    by (cases c) (auto split: prod.splits sum.splits)
  ultimately show ?case using Cons.IH by simp
qed simp

end
