(* ===== verification/Account_Claims.thy ===== *)
theory Account_Claims
  imports Credential_Facts Doc_Samples Samples
begin

text \<open>
  Properties of the hosted account client: the record it keeps, the secrets it leaves behind,
  where the tokens of a response may go, and what a refusal does.
\<close>

section \<open>Samples\<close>

lemma takeWhile_all: "f \<notin> set fs \<Longrightarrow> takeWhile (\<lambda>h. h \<noteq> f) fs = fs"
  by (rule takeWhile_eq_all_conv [THEN iffD2]) blast

lemma sample_codec_sound: "codec_sound (sample_codec fs)"
  unfolding codec_sound_def
proof (intro allI impI)
  fix f g assume g: "cd_parse (sample_codec fs) (cd_print (sample_codec fs) f @ newline) = Inr g"
  show "g = f"
  proof (cases "f \<in> set fs")
    case True
    with sample_codec_reads [OF True] g show ?thesis by (simp add: codec_reads_def)
  next
    case False
    have whole: "takeWhile (\<lambda>h. h \<noteq> f) fs = fs" by (rule takeWhile_all [OF False])
    have "cd_print (sample_codec fs) f = replicate (length fs) CHR ''x'' @ ''.''" by (simp only: sample_codec_def codec.simps whole)
    with g show ?thesis by (simp add: sample_codec_def takeWhile_replicate_other Let_def)
  qed
qed

definition account_config_sample :: account_config where
  "account_config_sample = \<lparr>hc_base_url = DEFAULT_HOSTED_ACCOUNT_BASE_URL, hc_device_name = DEFAULT_HOSTED_ACCOUNT_DEVICE_NAME\<rparr>"

lemma default_url: "normalize_base_url DEFAULT_HOSTED_ACCOUNT_BASE_URL = Inr DEFAULT_HOSTED_ACCOUNT_BASE_URL"
proof -
  have "trim ''http://127.0.0.1:9750'' = ''http://127.0.0.1:9750''" by (simp add: trim_plain plain_def)
  moreover have "trim_end_char (CHR ''/'') ''http://127.0.0.1:9750'' = ''http://127.0.0.1:9750''"
    "\<not> has_whitespace ''http://127.0.0.1:9750''" "\<not> has_control ''http://127.0.0.1:9750''"
    "starts_with ''http://127.0.0.1:9750'' ''http://''"
    "split_once ''//'' ''http://127.0.0.1:9750'' = Some (''http:'', ''127.0.0.1:9750'')"
    "\<not> starts_with ''127.0.0.1:9750'' ''/''" by code_simp+
  ultimately show ?thesis
    by (simp add: normalize_base_url_def DEFAULT_HOSTED_ACCOUNT_BASE_URL_def MAX_BASE_URL_BYTES_def)
qed

lemma default_name: "normalize_device_name DEFAULT_HOSTED_ACCOUNT_DEVICE_NAME = Inr DEFAULT_HOSTED_ACCOUNT_DEVICE_NAME"
proof -
  have "trim [] = []" by (rule trim_no_white) code_simp
  then have "normalize_device_name [] = Inr DEFAULT_HOSTED_ACCOUNT_DEVICE_NAME" by (simp add: normalize_device_name_def)
  then show ?thesis by (rule normalize_device_name_idem)
qed

lemma sample_config_normal: "config_normalized account_config_sample = Inr account_config_sample"
  by (simp add: config_normalized_def account_config_sample_def default_url default_name)

text \<open>Secrets in memory.\<close>

definition memory_secrets :: "(uuid \<rightharpoonup> string) secret_ops" where
  "memory_secrets = \<lparr>so_read = (\<lambda>i k. (Inr (k i), k)), so_write = (\<lambda>i label t k. (Inr (), k(i \<mapsto> t))),
     so_clear = (\<lambda>i k. (Inr (), k(i := None)))\<rparr>"

text \<open>The record once configured, and the record after a sign-in answered with two tokens; \<open>p\<close> is
  the plan of that request.\<close>

definition record_new :: account_snapshot where
  "record_new = (account_snapshot_new account_config_sample)\<lparr>ha_last_updated_at := Some 3\<rparr>"

definition sign_in :: account_action where
  "sign_in = ActLogin ''op@ham.net'' None"

definition record_in :: account_snapshot where
  "record_in = record_new\<lparr>ha_connection_state := CsSignedIn, ha_email_verified := True, ha_session_credential := Some 11,
     ha_refresh_credential := Some 12, ha_last_action := Some ''account.login'', ha_last_outcome := Some OcAccepted,
     ha_last_message := Some ''Signed in to the hosted account.'', ha_last_request_id := Some (unary (CHR ''u'') 10),
     ha_last_updated_at := Some 4\<rparr>"

definition record_out :: account_snapshot where
  "record_out = record_in\<lparr>ha_connection_state := CsSignedOut, ha_session_credential := None, ha_refresh_credential := None,
     ha_last_action := Some ''account.logout'', ha_last_message := Some ''Signed out of the hosted account.'',
     ha_last_updated_at := Some 5\<rparr>"

definition file_of :: "account_snapshot \<Rightarrow> account_file" where
  "file_of s = \<lparr>hf_version = HOSTED_ACCOUNT_FILE_VERSION, hf_snapshot = s\<rparr>"

definition record_codec :: "account_file codec" where
  "record_codec = sample_codec [file_of (account_snapshot_new account_config_sample), file_of record_new, file_of record_in,
     file_of record_out]"

lemma record_codec_reads:
  "codec_reads record_codec (file_of (account_snapshot_new account_config_sample))"
  "codec_reads record_codec (file_of record_new)" "codec_reads record_codec (file_of record_in)"
  "codec_reads record_codec (file_of record_out)"
  by (simp_all add: record_codec_def sample_codec_reads)

definition record_disk :: "account_snapshot \<Rightarrow> json_disk" where
  "record_disk s = written (cd_print record_codec (file_of s) @ newline) empty_disk"

lemma record_loads:
  assumes "codec_reads record_codec (file_of s)" and "ha_schema_version s = HOSTED_ACCOUNT_FILE_VERSION"
    and "ha_base_url s = DEFAULT_HOSTED_ACCOUNT_BASE_URL"
  shows "account_load_file record_codec (record_disk s) = Inr (file_of s)"
  using assms
  by (simp add: account_load_file_def record_disk_def written_def codec_reads_def account_file_validate_def file_of_def default_url)

lemma save_record: "account_save record_codec s (record_disk t) = (Inr (), record_disk s)"
  "account_save record_codec s empty_disk = (Inr (), record_disk s)"
  by (simp_all add: account_save_def write_json_atomically_def record_disk_def written_def empty_disk_def file_of_def)

lemma record_new_loads: "account_load_file record_codec (record_disk record_new) = Inr (file_of record_new)"
  "account_load_file record_codec (record_disk record_in) = Inr (file_of record_in)"
  by (rule record_loads [OF record_codec_reads(2)]; simp add: record_new_def account_snapshot_new_def account_config_sample_def)
    (rule record_loads [OF record_codec_reads(3)]; simp add: record_in_def record_new_def account_snapshot_new_def account_config_sample_def)

lemma configured_sample: "account_configure record_codec account_config_sample 3 empty_disk = (Inr record_new, record_disk record_new)"
proof -
  have "load_or_initialize record_codec account_config_sample empty_disk =
      (Inr (account_snapshot_new account_config_sample), record_disk (account_snapshot_new account_config_sample))"
    by (simp add: load_or_initialize_def account_load_file_def account_initialize_def sample_config_normal save_record)
  then show ?thesis
    by (simp add: account_configure_def sample_config_normal save_record Let_def)
      (simp add: record_new_def account_snapshot_new_def)
qed

lemma sign_in_email: "normalize_email ''op@ham.net'' = Inr ''op@ham.net''"
proof -
  have "trim ''op@ham.net'' = ''op@ham.net''" by (simp add: trim_plain plain_def)
  moreover have "to_ascii_lowercase ''op@ham.net'' = ''op@ham.net''" "\<not> has_whitespace ''op@ham.net''"
    "\<not> has_control ''op@ham.net''" "split_on (CHR ''@'') ''op@ham.net'' = [''op'', ''ham.net'']"
    "contains_str ''ham.net'' ''.''" by code_simp+
  ultimately show ?thesis by (simp add: normalize_email_def MAX_EMAIL_BYTES_def)
qed

definition token_answer :: "string \<Rightarrow> string \<Rightarrow> account_transport" where
  "token_answer t u = (\<lambda>_ _ _. Inr \<lparr>hx_status = 200, hx_body = Some (with_tokens t u (JObject [(''session'', JObject [])]))\<rparr>)"

definition sign_in_result :: account_result where
  "sign_in_result = \<lparr>hz_action = ''account.login'', hz_outcome = OcAccepted, hz_status = 200,
     hz_message = ''Signed in to the hosted account.'', hz_error_code = None,
     hz_request_id = Some (unary (CHR ''u'') 10), hz_retryable = False, hz_user_action_required = False,
     hz_snapshot = record_in, hz_cleared = [], hz_session_token = None, hz_refresh_token = None\<rparr>"

definition sign_in_plan :: request_plan where
  "sign_in_plan = \<lparr>hp_action = ''account.login'', hp_method = ''POST'', hp_path = ''/api/v1/auth/login'',
     hp_url = DEFAULT_HOSTED_ACCOUNT_BASE_URL @ ''/api/v1/auth/login'',
     hp_body = Some (json_object [(''email'', JString ''op@ham.net''), (''device_name'', JString DEFAULT_HOSTED_ACCOUNT_DEVICE_NAME)]),
     hp_requires_session_token = False, hp_session_credential = None, hp_requires_refresh_token = False,
     hp_refresh_credential = None, hp_refresh_body_field = None, hp_request_id = 10,
     hp_timeout_seconds = DEFAULT_HOSTED_ACCOUNT_TIMEOUT_SECONDS,
     hp_max_response_bytes = MAX_HOSTED_ACCOUNT_RESPONSE_BYTES\<rparr>"

lemma record_new_fields:
  "ha_base_url record_new = DEFAULT_HOSTED_ACCOUNT_BASE_URL" "ha_device_name record_new = DEFAULT_HOSTED_ACCOUNT_DEVICE_NAME"
  "ha_session_credential record_new = None" "ha_refresh_credential record_new = None" "ha_device_id record_new = None"
  "ha_devices record_new = []" "ha_logbooks record_new = []" "ha_schema_version record_new = HOSTED_ACCOUNT_FILE_VERSION"
  by (simp_all add: record_new_def account_snapshot_new_def account_config_sample_def)

lemma sign_in_planned:
  "plan_hosted_account_request (sample_libs []) sign_in record_new sample_world =
    (Inr sign_in_plan, sample_world\<lparr>uuid_pos := 11\<rparr>)"
  by (simp add: plan_hosted_account_request_def record_new_fields default_url default_name sign_in_def action_requires_session_def
      action_request_def named_body_def sign_in_email insert_optional_string_def Let_def new_v4_def sample_world_def
      sign_in_plan_def account_action_name_def)

lemma answer_body:
  "with_tokens t u (JObject [(''session'', JObject [])]) =
    JObject [(''refresh_token'', JString u), (''session'', JObject [(''token'', JString t)])]"
proof -
  have "''refresh_token'' < ''session''" by code_simp
  then show ?thesis by (simp add: with_tokens_def)
qed

lemma sign_in_applied:
  assumes "trim t = t" "t \<noteq> []" "trim u = u" "u \<noteq> []"
  shows "apply_session L (JObject [(''refresh_token'', JString u), (''session'', JObject [(''token'', JString t)])]) record_new
      (sample_world\<lparr>uuid_pos := 11\<rparr>) =
    ((Some t, Some u), record_new\<lparr>ha_connection_state := CsSignedIn, ha_email_verified := True,
       ha_session_credential := Some 11, ha_refresh_credential := Some 12\<rparr>, sample_world\<lparr>uuid_pos := 13\<rparr>)"
  using assms
  by (simp add: apply_session_def apply_session_part_def apply_refresh_part_def non_empty_string_def credential_or_new_def
      record_new_fields new_v4_def sample_world_def Let_def keep_or_def apply_logbooks_def value_get_def signed_in_def)
    (simp add: record_new_def account_snapshot_new_def)

lemma signed_in_sample:
  assumes "trim t = t" "t \<noteq> []" "trim u = u" "u \<noteq> []"
  shows "account_execute (sample_libs []) record_codec memory_secrets (token_answer t u) sign_in account_config_sample 4
      (record_disk record_new, Map.empty, sample_world) =
    (Inr sign_in_result, record_disk record_in, [11 \<mapsto> t, 12 \<mapsto> u], sample_world\<lparr>uuid_pos := 13\<rparr>)"
proof -
  let ?r = "sign_in_result\<lparr>hz_session_token := Some t, hz_refresh_token := Some u\<rparr>"
  have "apply_hosted_account_response (sample_libs []) sign_in sign_in_plan
      \<lparr>hx_status = 200, hx_body = Some (with_tokens t u (JObject [(''session'', JObject [])]))\<rparr> record_new 4
      (sample_world\<lparr>uuid_pos := 11\<rparr>) = (?r, sample_world\<lparr>uuid_pos := 13\<rparr>)"
    by (simp add: apply_hosted_account_response_def accepted_result_def accepted_change_def sign_in_def accept_session_def
        answer_body sign_in_applied [OF assms] or_request_id_def value_str_def sign_in_plan_def finish_result_def
        sign_in_result_def record_in_def account_action_name_def outcome_is_retryable_def requires_user_action_def)
      (simp add: record_new_def account_snapshot_new_def)
  moreover have "settle_secrets memory_secrets ?r Map.empty = (Inr (), [11 \<mapsto> t, 12 \<mapsto> u])"
    by (simp add: settle_secrets_def write_issued_def sign_in_result_def record_in_def memory_secrets_def)
  moreover have "load_or_initialize record_codec account_config_sample (record_disk record_new) = (Inr record_new, record_disk record_new)"
    by (simp add: load_or_initialize_def record_new_loads file_of_def)
  ultimately show ?thesis
    by (simp add: account_execute_def sign_in_planned token_answer_def read_session_token_def read_request_body_def
        sign_in_plan_def [THEN arg_cong, of hp_session_credential] sign_in_plan_def [THEN arg_cong, of hp_requires_refresh_token]
        save_record without_secrets_def)
      (simp add: sign_in_result_def save_record)
qed

section \<open>The record\<close>



lemma record_in_fields:
  "ha_base_url record_in = DEFAULT_HOSTED_ACCOUNT_BASE_URL" "ha_device_name record_in = DEFAULT_HOSTED_ACCOUNT_DEVICE_NAME"
  "ha_session_credential record_in = Some 11" "ha_refresh_credential record_in = Some 12"
  "session_credentials record_in = [11, 12]"
  by (simp_all add: record_in_def record_new_fields session_credentials_def)

lemma reachable_record_in: "account_ok record_in"
  by (simp add: account_ok_def config_ok_def record_in_fields default_url default_name)
    (simp add: record_in_def record_new_fields devices_ok_def books_ok_def state_ok_def)

section \<open>Secrets\<close>


text \<open>A sign-out with the secrets in a keychain, reached through the bridge of the command line.\<close>

definition sample_keychain :: "(string, string) hmap keychain" where
  "sample_keychain = \<lparr>kc_available = True, kc_message = [],
     kc_write = (\<lambda>t a x k. (Inr (), hm_insert t x k)),
     kc_read = (\<lambda>t k. ok_or (CrBackendUnavailable ''missing'') (hm_get k t)),
     kc_delete = (\<lambda>t k. (Inr (), hm_remove t k))\<rparr>"

definition sample_os :: "(string, string) hmap os_config" where
  "sample_os = \<lparr>oc_keychain = sample_keychain, oc_service_prefix = ''p'', oc_codec = sample_codec [],
     oc_libs = sample_libs []\<rparr>"

lemma sample_keychain_ok: "keychain_ok (oc_keychain sample_os)"
  by (auto simp: keychain_ok_def sample_os_def sample_keychain_def hm_get_insert hm_get_remove ok_or_def)

lemma sample_os_ids: "inj (lib_show_uuid (oc_libs sample_os))"
  by (auto intro!: injI simp: sample_os_def word_unat_eq_iff)

interpretation sample_store: credential_store "os_ops sample_os" "os_secret sample_os"
  by (rule os_store_contract [OF sample_keychain_ok sample_os_ids])

definition token_metadata :: "uuid \<Rightarrow> credential_metadata" where
  "token_metadata i = \<lparr>cm_credential_id = i, cm_provider_id = ''hosted-account'', cm_account_id = ''hosted-account'',
     cm_operator_id = None, cm_service_type = Authentication, cm_label = ''Hosted session token'', cm_created_at = 0,
     cm_updated_at = 0, cm_last_used_at = None, cm_status = CrActive, cm_metadata = JObject []\<rparr>"

definition os_before :: "(string, string) hmap os_store" where
  "os_before = \<lparr>os_records = [(11, token_metadata 11), (12, token_metadata 12)],
     os_file = \<lparr>pf_bytes = None, pf_fates = []\<rparr>,
     os_keys = [(target_name sample_os 11, ''s''), (target_name sample_os 12, ''r'')]\<rparr>"

definition os_read :: "(string, string) hmap os_store" where
  "os_read = os_before\<lparr>os_records := [(11, (token_metadata 11)\<lparr>cm_last_used_at := Some 0\<rparr>), (12, token_metadata 12)],
     os_file := \<lparr>pf_bytes = Some ''.'', pf_fates = []\<rparr>\<rparr>"

definition os_after :: "(string, string) hmap os_store" where
  "os_after = \<lparr>os_records = [], os_file = \<lparr>pf_bytes = Some ''.'', pf_fates = []\<rparr>, os_keys = []\<rparr>"

lemma targets_apart: "target_name sample_os 11 \<noteq> target_name sample_os 12"
  by (simp add: target_name_inj [OF sample_os_ids])

abbreviation token_secrets :: "((string, string) hmap os_store \<times> world) secret_ops" where
  "token_secrets \<equiv> cli_secrets (os_ops sample_os) (\<lambda>_. [])"

lemma session_read:
  "so_read token_secrets 11 (os_before, sample_world) = (Inr (Some ''s''), os_read, sample_world\<lparr>clock_pos := 1\<rparr>)"
  by (simp add: cli_secrets_def cli_read_secret_def os_ops_def os_retrieve_secret_def os_before_def os_read_def
      token_metadata_def sample_os_def [THEN arg_cong, of oc_keychain] sample_keychain_def utc_now_def sample_world_def
      os_commit_def persist_metadata_def fs_write_def sample_os_def [THEN arg_cong, of oc_codec] sample_codec_def Let_def)

lemma tokens_cleared:
  "clear_secrets token_secrets [11, 12] (os_read, w) = (Inr (), os_after, w)"
  using targets_apart
  by (simp add: cli_secrets_def cli_clear_secret_def os_ops_def os_delete_credential_def os_before_def os_read_def os_after_def
      sample_os_def [THEN arg_cong, of oc_keychain] sample_keychain_def hm_remove_def persist_metadata_def fs_write_def
      sample_os_def [THEN arg_cong, of oc_codec] sample_codec_def Let_def)

definition logout_answer :: account_transport where
  "logout_answer = (\<lambda>_ _ _. Inr \<lparr>hx_status = 200, hx_body = None\<rparr>)"

definition logout_result :: account_result where
  "logout_result = \<lparr>hz_action = ''account.logout'', hz_outcome = OcAccepted, hz_status = 200,
     hz_message = ''Signed out of the hosted account.'', hz_error_code = None,
     hz_request_id = Some (unary (CHR ''u'') 10), hz_retryable = False, hz_user_action_required = False,
     hz_snapshot = record_out, hz_cleared = [11, 12], hz_session_token = None, hz_refresh_token = None\<rparr>"

lemma logout_issues:
  "write_issued token_secrets l c (hz_session_token logout_result) k = (Inr (), k)"
  "write_issued token_secrets l c (hz_refresh_token logout_result) k = (Inr (), k)"
  "hz_cleared logout_result = [11, 12]"
  by (simp_all add: write_issued_def logout_result_def split: option.split)

lemma logout_settles: "settle_secrets token_secrets logout_result (os_read, w) = (Inr (), os_after, w)"
  by (simp add: settle_secrets_def logout_issues tokens_cleared del: clear_secrets.simps)

lemma signed_out_sample:
  "account_execute (sample_libs []) record_codec token_secrets logout_answer ActLogout account_config_sample 5
      (record_disk record_in, (os_before, sample_world), sample_world) =
    (Inr logout_result, record_disk record_out, (os_after, sample_world\<lparr>clock_pos := 1\<rparr>), sample_world\<lparr>uuid_pos := 11\<rparr>)"
proof -
  have load: "load_or_initialize record_codec account_config_sample (record_disk record_in) = (Inr record_in, record_disk record_in)"
    by (simp add: load_or_initialize_def record_new_loads file_of_def)
  obtain p where plan: "plan_hosted_account_request (sample_libs []) ActLogout record_in sample_world =
      (Inr p, sample_world\<lparr>uuid_pos := 11\<rparr>)" and p: "hp_session_credential p = Some 11" "\<not> hp_requires_refresh_token p"
      "hp_request_id p = 10"
    by (simp add: plan_hosted_account_request_def record_in_fields default_url default_name action_requires_session_def
        action_request_def Let_def new_v4_def sample_world_def)
  have "apply_hosted_account_response (sample_libs []) ActLogout p \<lparr>hx_status = 200, hx_body = None\<rparr> record_in 5 w =
      (logout_result, w)" for w
    by (simp add: apply_hosted_account_response_def accepted_result_def accepted_change_def signed_out_def record_in_fields
        or_request_id_def value_str_def value_get_def p finish_result_def logout_result_def account_action_name_def
        outcome_is_retryable_def requires_user_action_def)
      (simp add: record_out_def clear_session_def record_in_def record_new_def account_snapshot_new_def)
  moreover have "settle_secrets token_secrets logout_result (os_read, w) = (Inr (), os_after, w)" for w
    by (rule logout_settles)
  moreover have "without_secrets logout_result = logout_result" "hz_snapshot logout_result = record_out"
    by (simp_all add: without_secrets_def logout_result_def)
  ultimately show ?thesis
    by (simp add: account_execute_def load plan logout_answer_def read_session_token_def read_request_body_def p session_read
        save_record)
qed


text \<open>
  C34. The tokens of a response reach nothing but secret storage: two runs of the same action whose
  responses differ only in the session and refresh tokens they carry return the same result,
  write the same record and draw the same identifiers.
\<close>

theorem record_ignores_tokens:
  assumes "trim t1 \<noteq> []" "trim t2 \<noteq> []" "trim u1 \<noteq> []" "trim u2 \<noteq> []"
    and "account_execute L c S (\<lambda>_ _ _. Inr \<lparr>hx_status = st, hx_body = Some (with_tokens t1 t2 b)\<rparr>) a config now (d, k, w) =
      (Inr r, d1, k1, w1)"
    and "account_execute L c S (\<lambda>_ _ _. Inr \<lparr>hx_status = st, hx_body = Some (with_tokens u1 u2 b)\<rparr>) a config now (d, k, w) =
      (Inr q, d2, k2, w2)"
  shows "q = r \<and> d2 = d1 \<and> w2 = w1"
  using assms(5)
proof (cases rule: execute_cases)
  case one: (settled s e p j1 j2 tok body x v1 y z)
  from assms(6) show ?thesis
  proof (cases rule: execute_cases)
    case two: (settled s' e' p' j1' j2' tok' body' x' v1' y' z')
    from one two have eq: "s' = s" "e' = e" "p' = p" "v1' = v1" by auto
    from apply_response_tokens [OF assms(1-4), of L a p st b s now v1 x w1 x' w2] one(5) two(5)
    have x: "without_secrets x' = without_secrets x" "w2 = w1" by (simp_all add: eq)
    then have "hz_snapshot x' = hz_snapshot x" by (metis take_secrets_snapshot(1))
    with one(7,8) two(7,8) x show ?thesis by (auto simp: eq split: sum.splits)
  qed simp
qed simp

theorem record_ignores_tokens_witness:
  "fst (snd (account_execute (sample_libs []) record_codec memory_secrets (token_answer ''s'' ''r'') sign_in account_config_sample 4
      (record_disk record_new, Map.empty, sample_world))) =
   fst (snd (account_execute (sample_libs []) record_codec memory_secrets (token_answer ''secret'' ''other'') sign_in account_config_sample 4
      (record_disk record_new, Map.empty, sample_world)))"
proof -
  have t: "trim ''s'' = ''s''" "trim ''r'' = ''r''" "trim ''secret'' = ''secret''" "trim ''other'' = ''other''"
    by (simp_all add: trim_plain plain_def)
  note one = signed_in_sample [OF t(1) _ t(2)] and two = signed_in_sample [OF t(3) _ t(4)]
  from record_ignores_tokens [OF _ _ _ _ one [unfolded token_answer_def] two [unfolded token_answer_def]] t
  show ?thesis using one two by simp
qed

section \<open>The credential store\<close>


definition empty_os :: "(string, string) hmap os_store" where
  "empty_os = \<lparr>os_records = [], os_file = \<lparr>pf_bytes = None, pf_fates = []\<rparr>, os_keys = []\<rparr>"

definition os_stored :: "string \<Rightarrow> (string, string) hmap os_store" where
  "os_stored x = \<lparr>os_records = [(11, (sanitized (token_metadata 11))\<lparr>cm_status := CrActive, cm_updated_at := 0\<rparr>)],
     os_file = \<lparr>pf_bytes = Some ''.'', pf_fates = []\<rparr>, os_keys = [(target_name sample_os 11, x)]\<rparr>"

lemma os_stores:
  "os_store_credential sample_os (token_metadata 11) x (empty_os, sample_world) =
    (Inr ((sanitized (token_metadata 11))\<lparr>cm_status := CrActive, cm_updated_at := 0\<rparr>), os_stored x, sample_world\<lparr>clock_pos := 1\<rparr>)"
  by (simp add: os_store_credential_def empty_os_def os_stored_def sample_os_def [THEN arg_cong, of oc_keychain]
      sample_keychain_def utc_now_def sample_world_def os_commit_def persist_metadata_def fs_write_def
      sample_os_def [THEN arg_cong, of oc_codec] sample_codec_def Let_def token_metadata_def sanitized_def)

lemma os_stores_only:
  "os_calls sample_os [CallStore (token_metadata 11) x] (empty_os, sample_world) = Some (os_stored x, sample_world\<lparr>clock_pos := 1\<rparr>)"
  by (simp add: os_stores)


text \<open>
  C37. No secret leaves the keychain: two runs of successful calls that differ only in the secrets
  given, whatever the keychains hold, end with the same records, the same bytes in the metadata
  file and the same list of metadata.
\<close>

theorem secrets_stay_in_keychain:
  assumes "map without_secret cs = map without_secret ds" and "outside_keychain s = outside_keychain t"
    and "os_calls C cs (s, w) = Some (s1, w1)" and "os_calls C ds (t, w) = Some (t1, w2)"
  shows "os_records s1 = os_records t1 \<and> os_file s1 = os_file t1 \<and> os_list_metadata s1 = os_list_metadata t1 \<and> w1 = w2"
  using os_calls_outside [OF assms] by (simp add: same_outside os_list_metadata_def)

theorem secrets_stay_in_keychain_witness: "os_file (os_stored ''one'') = os_file (os_stored ''two'')"
  using secrets_stay_in_keychain [OF _ refl os_stores_only [of "''one''"] os_stores_only [of "''two''"]] by simp

section \<open>Refusals\<close>

text \<open>
  C35. A response outside 200 to 299 is never counted as accepted, issues no token and draws nothing.
  Unless the server rejects the session or asks for e-mail verification, the record is unchanged
  but for the note of the call; a rejected session is forgotten with all its credentials, which
  are the ones to clear; and what may be retried unattended is nothing that needs the user.
\<close>

theorem refused_call_is_harmless:
  assumes "apply_hosted_account_response L a p x s now w = (r, w')" and "\<not> (200 \<le> hx_status x \<and> hx_status x < 300)"
  shows "hz_outcome r \<noteq> OcAccepted \<and> hz_session_token r = None \<and> hz_refresh_token r = None \<and> w' = w \<and>
    (hz_outcome r \<notin> {OcAuthenticationRequired, OcEmailVerificationRequired} \<longrightarrow>
       same_account s (hz_snapshot r) \<and> hz_cleared r = []) \<and>
    (hz_outcome r = OcAuthenticationRequired \<longrightarrow>
       session_credentials (hz_snapshot r) = [] \<and> hz_cleared r = session_credentials s) \<and>
    \<not> (hz_retryable r \<and> hz_user_action_required r)"
proof -
  let ?body = "case hx_body x of None \<Rightarrow> JNull | Some b \<Rightarrow> b"
  let ?code = "value_str ?body ''code''"
  let ?out = "classify_hosted_account_error ?code (hx_status x)"
  obtain s1 cl where c: "refused_change ?out ?code s = (s1, cl)" by fastforce
  with assms obtain m rq where r: "r = finish_result a (hx_status x) ?out m ?code rq s1 cl None None now" "w' = w"
    by (auto simp: apply_hosted_account_response_def Let_def)
  have "\<not> (outcome_is_retryable ?out \<and> requires_user_action ?out)"
    by (auto simp: outcome_is_retryable_def requires_user_action_def)
  moreover have "?out \<notin> {OcAuthenticationRequired, OcEmailVerificationRequired} \<Longrightarrow> s1 = s \<and> cl = []"
    "?out = OcAuthenticationRequired \<Longrightarrow> session_credentials s1 = [] \<and> cl = session_credentials s"
    using c by (auto simp: refused_change_def)
  ultimately show ?thesis using classify_not_accepted [of ?code "hx_status x"]
    by (auto simp: r finish_result_snapshot same_account_finish)
qed

definition expired_response :: account_http_response where
  "expired_response = \<lparr>hx_status = 401, hx_body = None\<rparr>"

theorem refused_call_is_harmless_witness:
  "session_credentials (hz_snapshot (fst (apply_hosted_account_response (sample_libs []) ActSession sign_in_plan expired_response
     record_in 6 sample_world))) = []"
proof -
  obtain q w' where q: "apply_hosted_account_response (sample_libs []) ActSession sign_in_plan expired_response record_in 6 sample_world = (q, w')"
    by fastforce
  then have "hz_outcome q = OcAuthenticationRequired"
    by (auto simp: apply_hosted_account_response_def expired_response_def value_str_def value_get_def
        classify_hosted_account_error_def Let_def split: prod.splits)
  moreover have "\<not> (200 \<le> hx_status expired_response \<and> hx_status expired_response < 300)"
    by (simp add: expired_response_def)
  ultimately show ?thesis using refused_call_is_harmless [OF q] by (simp add: q)
qed

section \<open>Two ways the state misleads\<close>

text \<open>Verifying an e-mail address while the record waits for it labels it signed out, but keeps the
  session and its credentials.\<close>

theorem verified_email_keeps_session:
  assumes "ha_connection_state s \<noteq> CsSignedIn" and "200 \<le> hx_status x \<and> hx_status x < 300"
    and "apply_hosted_account_response L (ActVerifyEmail token) p x s now w = (r, w')"
  shows "ha_connection_state (hz_snapshot r) = CsSignedOut \<and>
    session_credentials (hz_snapshot r) = session_credentials s \<and> hz_cleared r = []"
  using assms
  by (auto simp: apply_hosted_account_response_def accepted_result_def accepted_change_def Let_def finish_result_snapshot
      split: option.splits)

text \<open>A sign-in that is answered without a session leaves the record signed in with no credential.\<close>

theorem login_without_token:
  assumes "session_credentials s = []"
    and "apply_hosted_account_response L (ActLogin email name) p \<lparr>hx_status = 200, hx_body = None\<rparr> s now w = (r, w')"
  shows "ha_connection_state (hz_snapshot r) = CsSignedIn \<and> session_credentials (hz_snapshot r) = []"
proof -
  have "apply_session L JNull s w = ((None, None), signed_in s, w)"
    by (simp add: apply_session_def apply_refresh_part_def apply_logbooks_def value_get_def non_empty_string_def)
  with assms show ?thesis
    by (auto simp: apply_hosted_account_response_def accepted_result_def accepted_change_def accept_session_def
        finish_result_snapshot session_credentials_def split: option.splits)
qed

text \<open>Deleting from the development store is revoking, and retrieving does not look at the status:
  the deleted secret is returned.\<close>

theorem deleted_secret_still_read:
  assumes "hm_get (dv_records s) i = Some r" and "dev_delete_credential c i (s, w) = (Inr u, s1, w1)"
    and "dev_retrieve_secret c i (s1, w1) = (q, s2, w2)" and "pf_fates (dv_file s1) = []"
  shows "q = Inr (cv_secret r)"
  using assms
  by (auto simp: dev_delete_credential_def dev_revoke_credential_def dev_retrieve_secret_def dev_commit_def fs_write_def
      hm_get_insert Let_def split: prod.splits)

end
