(* ===== verification/Hosted_State.thy ===== *)
theory Hosted_State
  imports Offline_Queue Text Proposal
begin

text \<open>
  The hosted server (\<open>ham-server/src/lib.rs\<close>), first part: what it keeps of accounts, sessions,
  devices, logbooks and tokens, the tables they are saved in, and the steps its handlers are
  made of. Third-party code is in \<open>hosted_libs\<close>: SHA-256 in lowercase hexadecimal, the clock
  library, printing and parsing of identifiers. API tokens, which are never issued, and the
  station, equipment, provider, upload, map and backup records are left out; no handler modelled
  here reads or writes them.
\<close>

section \<open>Data\<close>

record user_account =
  hu_account_id :: uuid
  hu_user_id :: uuid
  hu_email :: string
  hu_display_name :: string
  hu_created_at :: datetime
  hu_email_verified_at :: "datetime option"
  hu_deleted_at :: "datetime option"

record login_session =
  hn_session_id :: uuid
  hn_account_id :: uuid
  hn_user_id :: uuid
  hn_device_id :: uuid
  hn_token :: string
  hn_token_hash :: string
  hn_refresh_token :: string
  hn_refresh_token_hash :: string
  hn_issued_at :: datetime
  hn_expires_at :: "datetime option"
  hn_refresh_expires_at :: "datetime option"
  hn_rotated_at :: "datetime option"
  hn_active :: bool

record device_identity =
  dy_device_id :: uuid
  dy_account_id :: uuid
  dy_user_id :: uuid
  dy_device_name :: string
  dy_fingerprint :: string
  dy_trusted :: bool
  dy_revoked :: bool
  dy_registered_at :: datetime
  dy_revoked_at :: "datetime option"

record api_logbook =
  hk_logbook_id :: uuid
  hk_account_id :: uuid
  hk_name :: string
  hk_description :: "string option"
  hk_station_callsign :: "string option"
  hk_created_at :: datetime
  hk_updated_at :: datetime

datatype logbook_role = OwnerRole | AdminRole | OperatorRole | ViewerRole

definition role_can_read :: "logbook_role \<Rightarrow> bool" where
  "role_can_read r = (r \<in> {OwnerRole, AdminRole, OperatorRole, ViewerRole})"

definition role_can_log_qso :: "logbook_role \<Rightarrow> bool" where
  "role_can_log_qso r = (r \<in> {OwnerRole, AdminRole, OperatorRole})"

definition role_can_administer :: "logbook_role \<Rightarrow> bool" where
  "role_can_administer r = (r \<in> {OwnerRole, AdminRole})"

definition role_can_manage_owner_resources :: "logbook_role \<Rightarrow> bool" where
  "role_can_manage_owner_resources r = (r = OwnerRole)"

definition proposal_role :: "logbook_role \<Rightarrow> operator_role" where
  "proposal_role r = (case r of OwnerRole \<Rightarrow> Admin | AdminRole \<Rightarrow> Admin | OperatorRole \<Rightarrow> LoggerRole | ViewerRole \<Rightarrow> ReadOnly)"

record logbook_membership =
  mb_account_id :: uuid
  mb_logbook_id :: uuid
  mb_user_id :: uuid
  mb_role :: logbook_role
  mb_created_at :: datetime

record server_invite =
  vi_invite_id :: uuid
  vi_account_id :: uuid
  vi_logbook_id :: uuid
  vi_invited_email :: string
  vi_role :: logbook_role
  vi_token_hash :: string
  vi_legacy_token :: string
  vi_created_by_user_id :: "uuid option"
  vi_created_at :: "datetime option"
  vi_expires_at :: datetime
  vi_accepted_at :: "datetime option"
  vi_revoked_at :: "datetime option"
  vi_last_sent_at :: "datetime option"
  vi_resend_count :: "32 word"

datatype operation_mode = PersonalHosted | PublicHosted | SelfHosted
datatype registration_mode = InviteOnly | OpenRegistration | RegistrationDisabled
datatype email_mode = EmailTest | EmailWebhook | EmailDisabled

record email_config =
  ec_mode :: email_mode
  ec_from_address :: string
  ec_verification_base_url :: string
  ec_recovery_base_url :: string
  ec_webhook_url :: "string option"
  ec_credential_id :: "string option"

record turnstile_config =
  tc_enabled_for_open_registration :: bool
  tc_site_key :: "string option"
  tc_secret_key :: "string option"
  tc_siteverify_url :: string
  tc_timeout_seconds :: "64 word"

record limit_config =
  gl_window_seconds :: int
  gl_registrations_per_window :: "32 word"
  gl_logins_per_window :: "32 word"
  gl_verifications_per_window :: "32 word"
  gl_recovery_per_window :: "32 word"
  gl_invitations_per_window :: "32 word"
  gl_provider_ops_per_window :: "32 word"
  gl_sync_ops_per_window :: "32 word"

record hosting_config =
  hg_operation_mode :: operation_mode
  hg_registration_mode :: registration_mode
  hg_bootstrap_admin_completed :: bool
  hg_session_ttl_seconds :: int
  hg_refresh_ttl_seconds :: int
  hg_invitation_ttl_seconds :: int
  hg_verification_ttl_seconds :: int
  hg_recovery_ttl_seconds :: int
  hg_limits :: limit_config
  hg_email :: email_config
  hg_turnstile :: turnstile_config
  hg_updated_at :: datetime

definition email_config_default :: email_config where
  "email_config_default = \<lparr>ec_mode = EmailTest, ec_from_address = ''noreply@example.test'',
     ec_verification_base_url = ''http://127.0.0.1:9750/verify-email'',
     ec_recovery_base_url = ''http://127.0.0.1:9750/recover-account'', ec_webhook_url = None, ec_credential_id = None\<rparr>"

definition turnstile_config_default :: turnstile_config where
  "turnstile_config_default = \<lparr>tc_enabled_for_open_registration = True, tc_site_key = None, tc_secret_key = None,
     tc_siteverify_url = ''https://challenges.cloudflare.com/turnstile/v0/siteverify'', tc_timeout_seconds = 5\<rparr>"

definition limit_config_default :: limit_config where
  "limit_config_default = \<lparr>gl_window_seconds = 900, gl_registrations_per_window = 10, gl_logins_per_window = 30,
     gl_verifications_per_window = 20, gl_recovery_per_window = 10, gl_invitations_per_window = 25,
     gl_provider_ops_per_window = 120, gl_sync_ops_per_window = 240\<rparr>"

definition hosting_config_default :: "datetime \<Rightarrow> hosting_config" where
  "hosting_config_default now = \<lparr>hg_operation_mode = PersonalHosted, hg_registration_mode = InviteOnly,
     hg_bootstrap_admin_completed = False, hg_session_ttl_seconds = 60 * 60 * 24 * 30,
     hg_refresh_ttl_seconds = 60 * 60 * 24 * 90, hg_invitation_ttl_seconds = 60 * 60 * 24 * 7,
     hg_verification_ttl_seconds = 60 * 60 * 24, hg_recovery_ttl_seconds = 60 * 60, hg_limits = limit_config_default,
     hg_email = email_config_default, hg_turnstile = turnstile_config_default, hg_updated_at = now\<rparr>"

text \<open>\<open>EmailVerificationRecord\<close> and \<open>RecoveryTokenRecord\<close> have the same fields.\<close>

record one_time_token =
  tk_id :: uuid
  tk_account_id :: uuid
  tk_user_id :: uuid
  tk_email :: string
  tk_token_hash :: string
  tk_created_at :: datetime
  tk_expires_at :: datetime
  tk_used_at :: "datetime option"

record rate_record =
  rt_key :: string
  rt_window_started_at :: datetime
  rt_count :: "32 word"

record audit_record =
  ad_audit_id :: uuid
  ad_occurred_at :: datetime
  ad_request_id :: string
  ad_actor_account_id :: "uuid option"
  ad_actor_user_id :: "uuid option"
  ad_action :: string
  ad_outcome :: string
  ad_target :: "string option"
  ad_details :: "(string, json) btmap"

record test_email =
  te_to :: string
  te_purpose :: string
  te_token :: string
  te_token_hash :: string
  te_sent_at :: datetime

text \<open>The sets of administrators and of spent human-verification tokens are lists without
  repetitions.\<close>

record server_state =
  ss_config :: hosting_config
  ss_admins :: "uuid list"
  ss_users_by_email :: "(string, uuid) hmap"
  ss_accounts :: "(uuid, user_account) hmap"
  ss_logbooks :: "(uuid, api_logbook) hmap"
  ss_memberships :: "logbook_membership list"
  ss_sessions :: "(string, login_session) hmap"
  ss_devices :: "(uuid, device_identity) hmap"
  ss_invites :: "(uuid, server_invite) hmap"
  ss_verifications :: "(uuid, one_time_token) hmap"
  ss_recoveries :: "(uuid, one_time_token) hmap"
  ss_rate_limits :: "(string, rate_record) hmap"
  ss_turnstile :: "string list"
  ss_audit :: "audit_record list"

definition server_state_default :: "hosting_config \<Rightarrow> server_state" where
  "server_state_default config = \<lparr>ss_config = config, ss_admins = [], ss_users_by_email = [], ss_accounts = [],
     ss_logbooks = [], ss_memberships = [], ss_sessions = [], ss_devices = [], ss_invites = [], ss_verifications = [],
     ss_recoveries = [], ss_rate_limits = [], ss_turnstile = [], ss_audit = []\<rparr>"

datatype api_error =
    ApUnauthenticated | ApInactiveSession | ApSessionExpired | ApRevokedDevice | ApEmailUnverified
  | ApRegistrationClosed | ApTokenExpired | ApTokenReplayed | ApTurnstileFailed | ApRateLimited
  | ApForbidden | ApNotFound | ApInvalidUuid string | ApBadRequest string | ApProposal string | ApStore string

text \<open>\<open>HostingConfig::from_env\<close>, the environment as a function.\<close>

definition hosting_config_from_env :: "(string \<Rightarrow> string option) \<Rightarrow> datetime \<Rightarrow> hosting_config" where
  "hosting_config_from_env env now =
     (let c = hosting_config_default now;
          c = (case env ''HAM_SERVER_OPERATION_MODE'' of None \<Rightarrow> c | Some v \<Rightarrow> c\<lparr>hg_operation_mode :=
                 (if v = ''public_hosted'' then PublicHosted else if v = ''self_hosted'' then SelfHosted else PersonalHosted)\<rparr>);
          c = (case env ''HAM_SERVER_REGISTRATION_MODE'' of None \<Rightarrow> c | Some v \<Rightarrow> c\<lparr>hg_registration_mode :=
                 (if v = ''open'' then OpenRegistration else if v = ''disabled'' then RegistrationDisabled else InviteOnly)\<rparr>);
          e = hg_email c;
          e = (case env ''HAM_SERVER_EMAIL_MODE'' of None \<Rightarrow> e | Some v \<Rightarrow> e\<lparr>ec_mode :=
                 (if v = ''webhook'' then EmailWebhook else if v = ''disabled'' then EmailDisabled else EmailTest)\<rparr>);
          e = (case env ''HAM_SERVER_EMAIL_FROM'' of None \<Rightarrow> e | Some v \<Rightarrow> e\<lparr>ec_from_address := v\<rparr>);
          e = (case env ''HAM_SERVER_EMAIL_VERIFICATION_BASE_URL'' of None \<Rightarrow> e | Some v \<Rightarrow> e\<lparr>ec_verification_base_url := v\<rparr>);
          e = (case env ''HAM_SERVER_EMAIL_RECOVERY_BASE_URL'' of None \<Rightarrow> e | Some v \<Rightarrow> e\<lparr>ec_recovery_base_url := v\<rparr>);
          e = e\<lparr>ec_webhook_url := env ''HAM_SERVER_EMAIL_WEBHOOK_URL'', ec_credential_id := env ''HAM_SERVER_EMAIL_CREDENTIAL_ID''\<rparr>;
          t = (hg_turnstile c)\<lparr>tc_site_key := env ''HAM_SERVER_TURNSTILE_SITE_KEY'',
                 tc_secret_key := env ''HAM_SERVER_TURNSTILE_SECRET_KEY''\<rparr>;
          t = (case env ''HAM_SERVER_TURNSTILE_SITEVERIFY_URL'' of None \<Rightarrow> t | Some v \<Rightarrow> t\<lparr>tc_siteverify_url := v\<rparr>);
          c = c\<lparr>hg_email := e, hg_turnstile := t\<rparr>
      in case Option.bind (env ''HAM_SERVER_SESSION_TTL_SECONDS'') parse_i64 of
           None \<Rightarrow> c
         | Some n \<Rightarrow> c\<lparr>hg_session_ttl_seconds := n\<rparr>)"

section \<open>The tables of the metadata store\<close>

text \<open>A table maps the identifier of a record to its payload; the identifier printed for a
  membership is that of its logbook and user. \<open>upsert\<close> replaces a record.\<close>

record server_tables =
  tb_config :: "hosting_config option"
  tb_admins :: "(uuid, uuid) hmap"
  tb_users :: "(uuid, user_account) hmap"
  tb_sessions :: "(string, login_session) hmap"
  tb_devices :: "(uuid, device_identity) hmap"
  tb_logbooks :: "(uuid, api_logbook) hmap"
  tb_memberships :: "(uuid \<times> uuid, logbook_membership) hmap"
  tb_invites :: "(uuid, server_invite) hmap"
  tb_verifications :: "(uuid, one_time_token) hmap"
  tb_recoveries :: "(uuid, one_time_token) hmap"
  tb_rate_limits :: "(string, rate_record) hmap"
  tb_turnstile :: "(string, string) hmap"
  tb_audit :: "(uuid, audit_record) hmap"

definition server_tables_empty :: server_tables where
  "server_tables_empty = \<lparr>tb_config = None, tb_admins = [], tb_users = [], tb_sessions = [], tb_devices = [],
     tb_logbooks = [], tb_memberships = [], tb_invites = [], tb_verifications = [], tb_recoveries = [],
     tb_rate_limits = [], tb_turnstile = [], tb_audit = []\<rparr>"

type_synonym table_step = "server_tables \<Rightarrow> server_tables"

text \<open>Saving is a sequence of requests to the database: every table is deleted, then every record
  is created, in this order.\<close>

definition delete_steps :: "table_step list" where
  "delete_steps =
     [tb_config_update (\<lambda>_. None), tb_admins_update (\<lambda>_. []), tb_users_update (\<lambda>_. []), tb_sessions_update (\<lambda>_. []),
      tb_devices_update (\<lambda>_. []), tb_logbooks_update (\<lambda>_. []), tb_memberships_update (\<lambda>_. []),
      tb_invites_update (\<lambda>_. []), tb_verifications_update (\<lambda>_. []), tb_recoveries_update (\<lambda>_. []),
      tb_rate_limits_update (\<lambda>_. []), tb_turnstile_update (\<lambda>_. []), tb_audit_update (\<lambda>_. [])]"

definition saved_session :: "login_session \<Rightarrow> login_session" where
  "saved_session n = n\<lparr>hn_token := [], hn_refresh_token := []\<rparr>"

definition saved_invite :: "server_invite \<Rightarrow> server_invite" where
  "saved_invite v = v\<lparr>vi_legacy_token := []\<rparr>"

definition create_steps :: "server_state \<Rightarrow> table_step list" where
  "create_steps s =
     [tb_config_update (\<lambda>_. Some (ss_config s))] @
     map (\<lambda>u. tb_admins_update (hm_insert u u)) (ss_admins s) @
     map (\<lambda>a. tb_users_update (hm_insert (hu_account_id a) a)) (hm_values (ss_accounts s)) @
     map (\<lambda>n. tb_sessions_update (hm_insert (hn_token_hash n) (saved_session n))) (hm_values (ss_sessions s)) @
     map (\<lambda>d. tb_devices_update (hm_insert (dy_device_id d) d)) (hm_values (ss_devices s)) @
     map (\<lambda>l. tb_logbooks_update (hm_insert (hk_logbook_id l) l)) (hm_values (ss_logbooks s)) @
     map (\<lambda>m. tb_memberships_update (hm_insert (mb_logbook_id m, mb_user_id m) m)) (ss_memberships s) @
     map (\<lambda>v. tb_invites_update (hm_insert (vi_invite_id v) (saved_invite v))) (hm_values (ss_invites s)) @
     map (\<lambda>r. tb_verifications_update (hm_insert (tk_id r) r)) (hm_values (ss_verifications s)) @
     map (\<lambda>r. tb_recoveries_update (hm_insert (tk_id r) r)) (hm_values (ss_recoveries s)) @
     map (\<lambda>r. tb_rate_limits_update (hm_insert (rt_key r) r)) (hm_values (ss_rate_limits s)) @
     map (\<lambda>t. tb_turnstile_update (hm_insert t t)) (ss_turnstile s) @
     map (\<lambda>r. tb_audit_update (hm_insert (ad_audit_id r) r)) (ss_audit s)"

definition save_steps :: "server_state \<Rightarrow> table_step list" where
  "save_steps s = delete_steps @ create_steps s"

definition run_steps :: "table_step list \<Rightarrow> server_tables \<Rightarrow> server_tables" where
  "run_steps fs t = fold (\<lambda>f t. f t) fs t"

text \<open>Loading starts from the configuration of the environment and inserts every record; the
  hash of a token stored before hashes were kept is computed from it.\<close>

definition loaded_session :: "(string \<Rightarrow> string) \<Rightarrow> login_session \<Rightarrow> login_session" where
  "loaded_session hash n =
     (let n = (if hn_token_hash n = [] \<and> hn_token n \<noteq> [] then n\<lparr>hn_token_hash := hash (hn_token n)\<rparr> else n);
          n = (if hn_refresh_token_hash n = [] \<and> hn_refresh_token n \<noteq> []
               then n\<lparr>hn_refresh_token_hash := hash (hn_refresh_token n)\<rparr> else n)
      in n\<lparr>hn_token := [], hn_refresh_token := []\<rparr>)"

definition loaded_invite :: "(string \<Rightarrow> string) \<Rightarrow> server_invite \<Rightarrow> server_invite" where
  "loaded_invite hash v =
     (let v = (if vi_token_hash v = [] \<and> vi_legacy_token v \<noteq> [] then v\<lparr>vi_token_hash := hash (vi_legacy_token v)\<rparr> else v)
      in v\<lparr>vi_legacy_token := []\<rparr>)"

definition load_tables :: "(string \<Rightarrow> string) \<Rightarrow> hosting_config \<Rightarrow> server_tables \<Rightarrow> server_state" where
  "load_tables hash config t =
     \<lparr>ss_config = (case tb_config t of None \<Rightarrow> config | Some c \<Rightarrow> c),
      ss_admins = fold List.insert (hm_values (tb_admins t)) [],
      ss_users_by_email = fold (\<lambda>a. hm_insert (hu_email a) (hu_account_id a)) (hm_values (tb_users t)) [],
      ss_accounts = fold (\<lambda>a. hm_insert (hu_account_id a) a) (hm_values (tb_users t)) [],
      ss_logbooks = fold (\<lambda>l. hm_insert (hk_logbook_id l) l) (hm_values (tb_logbooks t)) [],
      ss_memberships = hm_values (tb_memberships t),
      ss_sessions = fold (\<lambda>n. hm_insert (hn_token_hash (loaded_session hash n)) (loaded_session hash n)) (hm_values (tb_sessions t)) [],
      ss_devices = fold (\<lambda>d. hm_insert (dy_device_id d) d) (hm_values (tb_devices t)) [],
      ss_invites = fold (\<lambda>v. hm_insert (vi_invite_id v) (loaded_invite hash v)) (hm_values (tb_invites t)) [],
      ss_verifications = fold (\<lambda>r. hm_insert (tk_id r) r) (hm_values (tb_verifications t)) [],
      ss_recoveries = fold (\<lambda>r. hm_insert (tk_id r) r) (hm_values (tb_recoveries t)) [],
      ss_rate_limits = fold (\<lambda>r. hm_insert (rt_key r) r) (hm_values (tb_rate_limits t)) [],
      ss_turnstile = fold List.insert (hm_values (tb_turnstile t)) [],
      ss_audit = hm_values (tb_audit t)\<rparr>"

section \<open>The server and its actions\<close>

record hosted_libs =
  hl_libs :: libs
  hl_chrono :: chrono
  hl_hash :: "string \<Rightarrow> string"

text \<open>Next to the state in memory: the saved tables, with how many requests each coming save makes
  before it fails (none left: saves succeed), the messages of the test outbox, the messages
  posted to the webhook with the outcomes of the coming posts (none left: delivered), and the
  coming answers of the human-verification service (none: the call fails).\<close>

record hosted_server =
  nd_state :: server_state
  nd_tables :: server_tables
  nd_save_fates :: "(nat \<times> string) option list"
  nd_outbox :: "test_email list"
  nd_posted :: "(string \<times> string \<times> string \<times> string) list"
  nd_post_fates :: "bool list"
  nd_siteverify :: "bool option list"

type_synonym 'a action = "hosted_server \<times> world \<Rightarrow> (api_error fault + 'a) \<times> hosted_server \<times> world"

definition act_return :: "'a \<Rightarrow> 'a action" where
  "act_return x s = (Inr x, s)"

definition act_fail :: "api_error \<Rightarrow> 'a action" where
  "act_fail e s = (Inl (Fail e), s)"

definition act_then :: "'a action \<Rightarrow> ('a \<Rightarrow> 'b action) \<Rightarrow> 'b action" where
  "act_then m f s = (case m s of (Inl e, s') \<Rightarrow> (Inl e, s') | (Inr x, s') \<Rightarrow> f x s')"

definition act_lift :: "api_error + 'a \<Rightarrow> 'a action" where
  "act_lift r s = (map_err Fail r, s)"

definition act_lift_fault :: "api_error fault + 'a \<Rightarrow> 'a action" where
  "act_lift_fault r s = (r, s)"

definition act_state :: "server_state action" where
  "act_state = (\<lambda>(h, w). (Inr (nd_state h), h, w))"

definition act_change :: "(server_state \<Rightarrow> server_state) \<Rightarrow> unit action" where
  "act_change f = (\<lambda>(h, w). (Inr (), h\<lparr>nd_state := f (nd_state h)\<rparr>, w))"

definition act_now :: "datetime action" where
  "act_now = (\<lambda>(h, w). let (t, w) = utc_now w in (Inr t, h, w))"

definition act_uuid :: "uuid action" where
  "act_uuid = (\<lambda>(h, w). let (i, w) = new_v4 w in (Inr i, h, w))"

text \<open>\<open>persist_metadata\<close>.\<close>

definition persist_state :: "unit action" where
  "persist_state = (\<lambda>(h, w).
     let steps = save_steps (nd_state h) in
     case nd_save_fates h of
       Some (n, err) # fates \<Rightarrow>
         (Inl (Fail (ApStore err)), h\<lparr>nd_tables := run_steps (take n steps) (nd_tables h), nd_save_fates := fates\<rparr>, w)
     | fates \<Rightarrow> (Inr (), h\<lparr>nd_tables := run_steps steps (nd_tables h), nd_save_fates := tl fates\<rparr>, w))"

text \<open>A new process over the saved tables, \<open>with_surreal_paths\<close>.\<close>

definition restart_server :: "hosted_libs \<Rightarrow> hosting_config \<Rightarrow> hosted_server \<Rightarrow> hosted_server" where
  "restart_server H config h = h\<lparr>nd_state := load_tables (hl_hash H) config (nd_tables h)\<rparr>"

end
