(* ===== verification/Hosted.thy ===== *)
theory Hosted
  imports Hosted_State
begin

text \<open>
  The hosted server (\<open>ham-server/src/lib.rs\<close>), second part: the handlers that change accounts,
  sessions, devices, logbooks and invitations, and the checks every other handler begins with.
  A handler is an \<open>action\<close>: it threads the server and the outside world, stops at the first
  error, and keeps what it changed before the error. A request carries its headers; the body is
  given decoded, or as the message of the decoder.
\<close>

section \<open>Requests\<close>

type_synonym request_headers = "(string, string) hmap"

definition first_header :: "request_headers \<Rightarrow> string list \<Rightarrow> string option" where
  "first_header hs names = (case List.find (\<lambda>n. hm_get hs n \<noteq> None) names of None \<Rightarrow> None | Some n \<Rightarrow> hm_get hs n)"

definition strip_prefix :: "string \<Rightarrow> string \<Rightarrow> string option" where
  "strip_prefix p s = (if prefix p s then Some (drop (length p) s) else None)"

definition bearer_token :: "request_headers \<Rightarrow> string option" where
  "bearer_token hs = Option.bind (first_header hs [''authorization'', ''Authorization'']) (strip_prefix ''Bearer '')"

definition client_identity :: "request_headers \<Rightarrow> string" where
  "client_identity hs =
     (case first_header hs [''x-forwarded-for'', ''X-Forwarded-For'', ''x-real-ip'', ''X-Real-IP''] of
        None \<Rightarrow> ''local''
      | Some v \<Rightarrow> let c = trim (hd (split_on (CHR '','') v)) in if c = [] then ''local'' else c)"

definition request_id :: "hosted_libs \<Rightarrow> request_headers \<Rightarrow> string action" where
  "request_id H hs =
     (case first_header hs [''x-request-id'', ''X-Request-ID''] of
        Some v \<Rightarrow> if trim v \<noteq> [] then act_return v else act_then act_uuid (\<lambda>i. act_return (lib_show_uuid (hl_libs H) i))
      | None \<Rightarrow> act_then act_uuid (\<lambda>i. act_return (lib_show_uuid (hl_libs H) i)))"

definition decoded :: "string + 'a \<Rightarrow> 'a action" where
  "decoded body = act_lift (map_err ApBadRequest body)"

definition path_uuid :: "hosted_libs \<Rightarrow> string \<Rightarrow> uuid action" where
  "path_uuid H s = act_lift (ok_or (ApInvalidUuid s) (lib_parse_uuid (hl_libs H) s))"

definition hosted_email :: "string \<Rightarrow> api_error + string" where
  "hosted_email email =
     (let email = to_ascii_lowercase (trim email) in
      if email = [] \<or> CHR ''@'' \<notin> set email \<or> has_whitespace email
      then Inl (ApBadRequest ''valid email is required'') else Inr email)"

definition positive_seconds :: "int \<Rightarrow> string \<Rightarrow> api_error + int" where
  "positive_seconds n field = (if n \<le> 0 then Inl (ApBadRequest (field @ '' must be positive'')) else Inr n)"

section \<open>The parts of handlers\<close>

definition opaque_text :: "hosted_libs \<Rightarrow> string \<Rightarrow> uuid \<Rightarrow> uuid \<Rightarrow> string" where
  "opaque_text H kind subject i =
     ''ke8ygw-'' @ kind @ ''-'' @ lib_show_uuid (hl_libs H) subject @ ''-'' @ lib_show_uuid (hl_libs H) i"

definition opaque_token :: "hosted_libs \<Rightarrow> string \<Rightarrow> uuid \<Rightarrow> string action" where
  "opaque_token H kind subject = act_then act_uuid (\<lambda>i. act_return (opaque_text H kind subject i))"

definition later_by :: "hosted_libs \<Rightarrow> datetime \<Rightarrow> int \<Rightarrow> datetime action" where
  "later_by H now seconds = act_lift_fault (add_delay (hl_chrono H) now (ch_seconds (hl_chrono H) seconds))"

text \<open>\<open>num_seconds\<close> truncates towards zero.\<close>

definition whole_seconds :: "int \<Rightarrow> int" where
  "whole_seconds d = (if d < 0 then - ((- d) div 1000000000) else d div 1000000000)"

definition rate_key :: "hosted_libs \<Rightarrow> string \<Rightarrow> string" where
  "rate_key H key = hd (split_on (CHR '':'') key) @ '':'' @ hl_hash H key"

definition rate_window :: "int \<Rightarrow> datetime \<Rightarrow> rate_record \<Rightarrow> rate_record" where
  "rate_window window now r =
     (if whole_seconds (now - rt_window_started_at r) \<ge> window then r\<lparr>rt_window_started_at := now, rt_count := 0\<rparr> else r)"

text \<open>The record as the check finds it: the one there is or a new one, in its window.\<close>

definition rate_found :: "int \<Rightarrow> datetime \<Rightarrow> string \<Rightarrow> (string, rate_record) hmap \<Rightarrow> rate_record" where
  "rate_found window now k m = rate_window window now
     (case hm_get m k of Some r \<Rightarrow> r | None \<Rightarrow> \<lparr>rt_key = k, rt_window_started_at = now, rt_count = 0\<rparr>)"

definition enforce_rate_limit :: "hosted_libs \<Rightarrow> string \<Rightarrow> 32 word \<Rightarrow> unit action" where
  "enforce_rate_limit H key limit =
     (if limit = 0 then act_fail ApRateLimited
      else act_then act_now (\<lambda>now.
        act_then act_state (\<lambda>s.
        let k = rate_key H key; r = rate_found (max 1 (gl_window_seconds (hg_limits (ss_config s)))) now k (ss_rate_limits s) in
        if rt_count r \<ge> limit
        then act_then (act_change (\<lambda>s. s\<lparr>ss_rate_limits := hm_insert k r (ss_rate_limits s)\<rparr>)) (\<lambda>_. act_fail ApRateLimited)
        else act_change (\<lambda>s. s\<lparr>ss_rate_limits := hm_insert k (r\<lparr>rt_count := rt_count r + 1\<rparr>) (ss_rate_limits s)\<rparr>))))"

definition create_account_only :: "string \<Rightarrow> string option \<Rightarrow> datetime option \<Rightarrow> datetime \<Rightarrow> user_account action" where
  "create_account_only email display_name verified_at now =
     act_then act_state (\<lambda>s.
     if hm_get (ss_users_by_email s) email \<noteq> None then act_fail (ApBadRequest ''account already exists'')
     else
       act_then act_uuid (\<lambda>account. act_then act_uuid (\<lambda>user.
       let a = \<lparr>hu_account_id = account, hu_user_id = user, hu_email = email,
                hu_display_name = (case display_name of None \<Rightarrow> email | Some n \<Rightarrow> n), hu_created_at = now,
                hu_email_verified_at = verified_at, hu_deleted_at = None\<rparr> in
       act_then (act_change (\<lambda>s. s\<lparr>ss_users_by_email := hm_insert email account (ss_users_by_email s),
         ss_accounts := hm_insert account a (ss_accounts s)\<rparr>)) (\<lambda>_. act_return a))))"

text \<open>A logbook is inserted together with the ownership of its creator.\<close>

definition add_logbook :: "user_account \<Rightarrow> string \<Rightarrow> string option \<Rightarrow> string option \<Rightarrow> datetime \<Rightarrow> api_logbook action" where
  "add_logbook a name description station now =
     act_then act_uuid (\<lambda>i.
     let l = \<lparr>hk_logbook_id = i, hk_account_id = hu_account_id a, hk_name = name, hk_description = description,
              hk_station_callsign = station, hk_created_at = now, hk_updated_at = now\<rparr>;
         m = \<lparr>mb_account_id = hu_account_id a, mb_logbook_id = i, mb_user_id = hu_user_id a, mb_role = OwnerRole,
              mb_created_at = now\<rparr> in
     act_then (act_change (\<lambda>s. s\<lparr>ss_logbooks := hm_insert i l (ss_logbooks s), ss_memberships := ss_memberships s @ [m]\<rparr>))
       (\<lambda>_. act_return l))"

definition create_default_logbook_for_account :: "user_account \<Rightarrow> datetime \<Rightarrow> api_logbook action" where
  "create_default_logbook_for_account a now =
     add_logbook a (hu_display_name a @ '' Logbook'') (Some ''Hosted v1 default logbook'') None now"

text \<open>A verification or recovery token: the record, and the token its hash is of.\<close>

definition new_one_time_token :: "hosted_libs \<Rightarrow> string \<Rightarrow> user_account \<Rightarrow> int \<Rightarrow> datetime \<Rightarrow> (one_time_token \<times> string) action" where
  "new_one_time_token H kind a ttl now =
     act_then (opaque_token H kind (hu_account_id a)) (\<lambda>token.
     act_then act_uuid (\<lambda>i.
     act_then (later_by H now ttl) (\<lambda>expires.
     act_return (\<lparr>tk_id = i, tk_account_id = hu_account_id a, tk_user_id = hu_user_id a, tk_email = hu_email a,
       tk_token_hash = hl_hash H token, tk_created_at = now, tk_expires_at = expires, tk_used_at = None\<rparr>, token))))"

definition create_email_verification :: "hosted_libs \<Rightarrow> user_account \<Rightarrow> datetime \<Rightarrow> string action" where
  "create_email_verification H a now =
     act_then act_state (\<lambda>s.
     act_then (new_one_time_token H ''verify'' a (hg_verification_ttl_seconds (ss_config s)) now) (\<lambda>(r, token).
     act_then (act_change (\<lambda>s. s\<lparr>ss_verifications := hm_insert (tk_id r) r (ss_verifications s)\<rparr>)) (\<lambda>_. act_return token)))"

definition create_recovery_token :: "hosted_libs \<Rightarrow> user_account \<Rightarrow> datetime \<Rightarrow> string action" where
  "create_recovery_token H a now =
     act_then act_state (\<lambda>s.
     act_then (new_one_time_token H ''recovery'' a (hg_recovery_ttl_seconds (ss_config s)) now) (\<lambda>(r, token).
     act_then (act_change (\<lambda>s. s\<lparr>ss_recoveries := hm_insert (tk_id r) r (ss_recoveries s)\<rparr>)) (\<lambda>_. act_return token)))"

text \<open>Using a token: found by its hash, not used, not expired.\<close>

definition use_token :: "string \<Rightarrow> datetime \<Rightarrow> (uuid, one_time_token) hmap \<Rightarrow> api_error + uuid \<times> uuid" where
  "use_token hash now m =
     and_then (ok_or ApTokenExpired (List.find (\<lambda>(i, r). tk_token_hash r = hash) m)) (\<lambda>(i, _).
     and_then (ok_or ApTokenExpired (hm_get m i)) (\<lambda>r.
     if tk_used_at r \<noteq> None then Inl ApTokenReplayed
     else if tk_expires_at r \<le> now then Inl ApTokenExpired
     else Inr (i, tk_account_id r)))"

definition mark_used :: "datetime \<Rightarrow> uuid \<Rightarrow> (uuid, one_time_token) hmap \<Rightarrow> (uuid, one_time_token) hmap" where
  "mark_used now i m = hm_modify i (\<lambda>r. r\<lparr>tk_used_at := Some now\<rparr>) m"

definition visible_logbooks :: "server_state \<Rightarrow> uuid \<Rightarrow> api_logbook list" where
  "visible_logbooks s user =
     sort_key hk_name (List.map_filter (\<lambda>m. hm_get (ss_logbooks s) (mb_logbook_id m))
       (filter (\<lambda>m. mb_user_id m = user \<and> role_can_read (mb_role m)) (ss_memberships s)))"

definition session_cookie_header :: "string \<Rightarrow> bool \<Rightarrow> string" where
  "session_cookie_header token expire =
     (if expire then ''ke8ygw_session=; HttpOnly; Secure; SameSite=Lax; Path=/; Max-Age=0''
      else ''ke8ygw_session='' @ token @ ''; HttpOnly; Secure; SameSite=Lax; Path=/'')"

record login_response =
  ly_account :: user_account
  ly_session :: login_session
  ly_device :: device_identity
  ly_logbooks :: "api_logbook list"
  ly_refresh_token :: string
  ly_session_cookie :: string

definition session_device :: "hosted_libs \<Rightarrow> user_account \<Rightarrow> string option \<Rightarrow> uuid option \<Rightarrow> datetime \<Rightarrow> device_identity action" where
  "session_device H a device_name reuse now =
     (case reuse of
        Some d \<Rightarrow> act_then act_state (\<lambda>s. act_lift (ok_or ApRevokedDevice
          (case hm_get (ss_devices s) d of None \<Rightarrow> None
           | Some x \<Rightarrow> if dy_account_id x = hu_account_id a \<and> \<not> dy_revoked x then Some x else None)))
      | None \<Rightarrow> act_then act_uuid (\<lambda>d. act_then act_uuid (\<lambda>f.
          let x = \<lparr>dy_device_id = d, dy_account_id = hu_account_id a, dy_user_id = hu_user_id a,
                dy_device_name = (case device_name of None \<Rightarrow> ''Hosted web session'' | Some n \<Rightarrow> n),
                dy_fingerprint = ''dev-'' @ lib_show_uuid (hl_libs H) f, dy_trusted = True, dy_revoked = False,
                dy_registered_at = now, dy_revoked_at = None\<rparr> in
          act_then (act_change (\<lambda>s. s\<lparr>ss_devices := hm_insert d x (ss_devices s)\<rparr>)) (\<lambda>_. act_return x))))"

definition issue_session_response :: "hosted_libs \<Rightarrow> user_account \<Rightarrow> string option \<Rightarrow> uuid option \<Rightarrow> datetime \<Rightarrow> login_response action" where
  "issue_session_response H a device_name reuse now =
     act_then (session_device H a device_name reuse now) (\<lambda>d.
     act_then (opaque_token H ''session'' (hu_account_id a)) (\<lambda>token.
     act_then (opaque_token H ''refresh'' (hu_account_id a)) (\<lambda>refresh.
     act_then act_uuid (\<lambda>i.
     act_then act_state (\<lambda>s.
     act_then (later_by H now (hg_session_ttl_seconds (ss_config s))) (\<lambda>expires.
     act_then (later_by H now (hg_refresh_ttl_seconds (ss_config s))) (\<lambda>refresh_expires.
     let n = \<lparr>hn_session_id = i, hn_account_id = hu_account_id a, hn_user_id = hu_user_id a, hn_device_id = dy_device_id d,
              hn_token = token, hn_token_hash = hl_hash H token, hn_refresh_token = refresh,
              hn_refresh_token_hash = hl_hash H refresh, hn_issued_at = now, hn_expires_at = Some expires,
              hn_refresh_expires_at = Some refresh_expires, hn_rotated_at = None, hn_active = True\<rparr> in
     act_then (act_change (\<lambda>s. s\<lparr>ss_sessions := hm_insert (hn_token_hash n) (saved_session n) (ss_sessions s)\<rparr>)) (\<lambda>_.
     act_then act_state (\<lambda>s.
     act_return \<lparr>ly_account = a, ly_session = n, ly_device = d, ly_logbooks = visible_logbooks s (hu_user_id a),
       ly_refresh_token = refresh, ly_session_cookie = session_cookie_header token False\<rparr>)))))))))"

definition push_audit :: "hosted_libs \<Rightarrow> request_headers \<Rightarrow> login_session option \<Rightarrow> string \<Rightarrow> string \<Rightarrow> string option \<Rightarrow>
    (string, json) btmap \<Rightarrow> unit action" where
  "push_audit H hs actor name outcome target details =
     act_then (request_id H hs) (\<lambda>rid. act_then act_uuid (\<lambda>i. act_then act_now (\<lambda>now.
     act_change (\<lambda>s. s\<lparr>ss_audit := ss_audit s @ [\<lparr>ad_audit_id = i, ad_occurred_at = now, ad_request_id = rid,
       ad_actor_account_id = map_option hn_account_id actor, ad_actor_user_id = map_option hn_user_id actor,
       ad_action = name, ad_outcome = outcome, ad_target = target, ad_details = details\<rparr>]\<rparr>))))"

definition send_account_email :: "hosted_libs \<Rightarrow> email_config \<Rightarrow> string \<Rightarrow> string \<Rightarrow> string \<Rightarrow> unit action" where
  "send_account_email H config email purpose token =
     (case ec_mode config of
        EmailTest \<Rightarrow> act_then act_now (\<lambda>now. (\<lambda>(h, w). (Inr (), h\<lparr>nd_outbox := nd_outbox h @
          [\<lparr>te_to = email, te_purpose = purpose, te_token = token, te_token_hash = hl_hash H token, te_sent_at = now\<rparr>]\<rparr>, w)))
      | EmailWebhook \<Rightarrow> act_then (act_lift (ok_or (ApBadRequest ''email webhook URL is required'') (ec_webhook_url config)))
          (\<lambda>url (h, w).
             let h' = h\<lparr>nd_posted := nd_posted h @ [(email, ec_from_address config, purpose, token)], nd_post_fates := tl (nd_post_fates h)\<rparr> in
             case nd_post_fates h of False # _ \<Rightarrow> (Inl (Fail (ApStore ''email delivery failed'')), h', w) | _ \<Rightarrow> (Inr (), h', w))
      | EmailDisabled \<Rightarrow> act_fail (ApBadRequest ''email delivery is disabled''))"

section \<open>Who is calling\<close>

definition authorize :: "hosted_libs \<Rightarrow> request_headers \<Rightarrow> login_session action" where
  "authorize H hs =
     act_then (act_lift (ok_or ApUnauthenticated (bearer_token hs))) (\<lambda>token.
     act_then act_state (\<lambda>s.
     act_then (act_lift (ok_or ApUnauthenticated (hm_get (ss_sessions s) (hl_hash H token)))) (\<lambda>n.
     if \<not> hn_active n then act_fail ApInactiveSession
     else
       act_then (case hn_expires_at n of None \<Rightarrow> act_return False | Some t \<Rightarrow> act_then act_now (\<lambda>now. act_return (t \<le> now))) (\<lambda>expired.
       if expired then act_fail ApSessionExpired
       else
         act_then (act_lift (ok_or ApUnauthenticated (hm_get (ss_devices s) (hn_device_id n)))) (\<lambda>d.
         if dy_revoked d then act_fail ApRevokedDevice
         else
           act_then (act_lift (ok_or ApUnauthenticated (hm_get (ss_accounts s) (hn_account_id n)))) (\<lambda>a.
           if hu_deleted_at a \<noteq> None then act_fail ApUnauthenticated
           else if hu_email_verified_at a = None then act_fail ApEmailUnverified
           else act_return n))))))"

definition require_instance_admin :: "hosted_libs \<Rightarrow> request_headers \<Rightarrow> login_session action" where
  "require_instance_admin H hs =
     act_then (authorize H hs) (\<lambda>n. act_then act_state (\<lambda>s.
     if hn_user_id n \<in> set (ss_admins s) then act_return n else act_fail ApForbidden))"

datatype logbook_access = AccessRead | AccessLogQso | AccessAdmin

definition access_allowed :: "logbook_access \<Rightarrow> logbook_role \<Rightarrow> bool" where
  "access_allowed c r = (case c of AccessRead \<Rightarrow> role_can_read r | AccessLogQso \<Rightarrow> role_can_log_qso r | AccessAdmin \<Rightarrow> role_can_administer r)"

definition require_logbook_role :: "hosted_libs \<Rightarrow> request_headers \<Rightarrow> uuid \<Rightarrow> logbook_access \<Rightarrow> (login_session \<times> logbook_role) action" where
  "require_logbook_role H hs lb access =
     act_then (authorize H hs) (\<lambda>n. act_then act_state (\<lambda>s.
     act_then (act_lift (ok_or ApForbidden
       (List.find (\<lambda>m. mb_user_id m = hn_user_id n \<and> mb_logbook_id m = lb) (ss_memberships s)))) (\<lambda>m.
     if access_allowed access (mb_role m) then act_return (n, mb_role m) else act_fail ApForbidden)))"

definition enforce_operation_limit :: "(limit_config \<Rightarrow> 32 word) \<Rightarrow> string \<Rightarrow> hosted_libs \<Rightarrow> request_headers \<Rightarrow> login_session \<Rightarrow> unit action" where
  "enforce_operation_limit limit name H hs n =
     act_then act_state (\<lambda>s.
     act_then (enforce_rate_limit H (name @ '':'' @ lib_show_uuid (hl_libs H) (hn_account_id n) @ '':'' @ client_identity hs)
       (limit (hg_limits (ss_config s)))) (\<lambda>_. persist_state))"

definition enforce_provider_operation_limit :: "hosted_libs \<Rightarrow> request_headers \<Rightarrow> login_session \<Rightarrow> unit action" where
  "enforce_provider_operation_limit = enforce_operation_limit gl_provider_ops_per_window ''provider''"

definition enforce_sync_operation_limit :: "hosted_libs \<Rightarrow> request_headers \<Rightarrow> login_session \<Rightarrow> unit action" where
  "enforce_sync_operation_limit = enforce_operation_limit gl_sync_ops_per_window ''sync''"

section \<open>Administration\<close>

record bootstrap_request =
  xb_email :: string
  xb_display_name :: "string option"
  xb_device_name :: "string option"

definition bootstrap_admin :: "hosted_libs \<Rightarrow> request_headers \<Rightarrow> string + bootstrap_request \<Rightarrow> login_response action" where
  "bootstrap_admin H hs body =
     act_then (decoded body) (\<lambda>input.
     act_then (act_lift (hosted_email (xb_email input))) (\<lambda>email.
     act_then act_state (\<lambda>s.
     if hg_bootstrap_admin_completed (ss_config s) \<or> ss_admins s \<noteq> [] \<or> ss_accounts s \<noteq> []
     then
       act_then (push_audit H hs None ''admin.bootstrap'' ''denied'' None []) (\<lambda>_.
       act_then persist_state (\<lambda>_. act_fail ApForbidden))
     else
       act_then act_now (\<lambda>now.
       act_then (create_account_only email (xb_display_name input) (Some now) now) (\<lambda>a.
       act_then (create_default_logbook_for_account a now) (\<lambda>_.
       act_then (act_change (\<lambda>s. s\<lparr>ss_admins := List.insert (hu_user_id a) (ss_admins s),
         ss_config := (ss_config s)\<lparr>hg_bootstrap_admin_completed := True, hg_updated_at := now\<rparr>\<rparr>)) (\<lambda>_.
       act_then (issue_session_response H a (xb_device_name input) None now) (\<lambda>response.
       act_then (push_audit H hs (Some (ly_session response)) ''admin.bootstrap'' ''succeeded''
         (Some (lib_show_uuid (hl_libs H) (hu_account_id a))) []) (\<lambda>_.
       act_then persist_state (\<lambda>_. act_return response))))))))))"

record hosting_patch =
  xh_operation_mode :: "operation_mode option"
  xh_registration_mode :: "registration_mode option"
  xh_session_ttl_seconds :: "int option"
  xh_refresh_ttl_seconds :: "int option"
  xh_invitation_ttl_seconds :: "int option"
  xh_verification_ttl_seconds :: "int option"
  xh_recovery_ttl_seconds :: "int option"
  xh_limits :: "limit_config option"
  xh_email :: "email_config option"
  xh_turnstile :: "turnstile_config option"

definition change_config :: "(hosting_config \<Rightarrow> hosting_config) \<Rightarrow> unit action" where
  "change_config f = act_change (\<lambda>s. s\<lparr>ss_config := f (ss_config s)\<rparr>)"

text \<open>One field of a patch: checked, then put in place.\<close>

definition patch_field :: "'a option \<Rightarrow> ('a \<Rightarrow> api_error + 'b) \<Rightarrow> ('b \<Rightarrow> hosting_config \<Rightarrow> hosting_config) \<Rightarrow> unit action" where
  "patch_field v check put =
     (case v of None \<Rightarrow> act_return () | Some x \<Rightarrow> act_then (act_lift (check x)) (\<lambda>y. change_config (put y)))"

definition operation_mode_name :: "operation_mode \<Rightarrow> string" where
  "operation_mode_name m = (case m of PersonalHosted \<Rightarrow> ''personal_hosted'' | PublicHosted \<Rightarrow> ''public_hosted'' | SelfHosted \<Rightarrow> ''self_hosted'')"

definition registration_mode_name :: "registration_mode \<Rightarrow> string" where
  "registration_mode_name m = (case m of InviteOnly \<Rightarrow> ''invite_only'' | OpenRegistration \<Rightarrow> ''open'' | RegistrationDisabled \<Rightarrow> ''disabled'')"

definition patch_hosting_config :: "hosted_libs \<Rightarrow> request_headers \<Rightarrow> string + hosting_patch \<Rightarrow> hosting_config action" where
  "patch_hosting_config H hs body =
     act_then (require_instance_admin H hs) (\<lambda>n.
     act_then (decoded body) (\<lambda>input.
     act_then (patch_field (xh_operation_mode input) Inr (\<lambda>x c. c\<lparr>hg_operation_mode := x\<rparr>)) (\<lambda>_.
     act_then (patch_field (xh_registration_mode input) Inr (\<lambda>x c. c\<lparr>hg_registration_mode := x\<rparr>)) (\<lambda>_.
     act_then (patch_field (xh_session_ttl_seconds input) (\<lambda>x. positive_seconds x ''session_ttl_seconds'')
       (\<lambda>x c. c\<lparr>hg_session_ttl_seconds := x\<rparr>)) (\<lambda>_.
     act_then (patch_field (xh_refresh_ttl_seconds input) (\<lambda>x. positive_seconds x ''refresh_ttl_seconds'')
       (\<lambda>x c. c\<lparr>hg_refresh_ttl_seconds := x\<rparr>)) (\<lambda>_.
     act_then (patch_field (xh_invitation_ttl_seconds input) (\<lambda>x. positive_seconds x ''invitation_ttl_seconds'')
       (\<lambda>x c. c\<lparr>hg_invitation_ttl_seconds := x\<rparr>)) (\<lambda>_.
     act_then (patch_field (xh_verification_ttl_seconds input) (\<lambda>x. positive_seconds x ''verification_ttl_seconds'')
       (\<lambda>x c. c\<lparr>hg_verification_ttl_seconds := x\<rparr>)) (\<lambda>_.
     act_then (patch_field (xh_recovery_ttl_seconds input) (\<lambda>x. positive_seconds x ''recovery_ttl_seconds'')
       (\<lambda>x c. c\<lparr>hg_recovery_ttl_seconds := x\<rparr>)) (\<lambda>_.
     act_then (patch_field (xh_limits input)
       (\<lambda>x. if gl_window_seconds x \<le> 0 then Inl (ApBadRequest ''limits.window_seconds must be positive'') else Inr x)
       (\<lambda>x c. c\<lparr>hg_limits := x\<rparr>)) (\<lambda>_.
     act_then (patch_field (xh_email input) Inr (\<lambda>x c. c\<lparr>hg_email := x\<rparr>)) (\<lambda>_.
     act_then (patch_field (xh_turnstile input) Inr (\<lambda>x c. c\<lparr>hg_turnstile := x\<rparr>)) (\<lambda>_.
     act_then act_now (\<lambda>now.
     act_then (change_config (\<lambda>c. c\<lparr>hg_updated_at := now\<rparr>)) (\<lambda>_.
     act_then act_state (\<lambda>s.
     act_then (push_audit H hs (Some n) ''admin.hosting.update'' ''succeeded'' None
       (bt_insert ''registration_mode'' (JString (registration_mode_name (hg_registration_mode (ss_config s))))
         [(''operation_mode'', JString (operation_mode_name (hg_operation_mode (ss_config s))))])) (\<lambda>_.
     act_then persist_state (\<lambda>_. act_return (ss_config s))))))))))))))))))"

section \<open>Invitations\<close>

record invitation_request =
  xi_logbook_id :: uuid
  xi_email :: string
  xi_role :: logbook_role
  xi_expires_at :: "datetime option"

definition limit_invitations :: "hosted_libs \<Rightarrow> request_headers \<Rightarrow> login_session \<Rightarrow> unit action" where
  "limit_invitations H hs n =
     act_then act_state (\<lambda>s.
     enforce_rate_limit H (''invitation:'' @ lib_show_uuid (hl_libs H) (hn_account_id n) @ '':'' @ client_identity hs)
       (gl_invitations_per_window (hg_limits (ss_config s))))"

text \<open>The answer is the invitation, which is printed without its hash, and the token.\<close>

definition create_invitation :: "hosted_libs \<Rightarrow> request_headers \<Rightarrow> string + invitation_request \<Rightarrow> (server_invite \<times> string) action" where
  "create_invitation H hs body =
     act_then (require_instance_admin H hs) (\<lambda>n.
     act_then (decoded body) (\<lambda>input.
     act_then (act_lift (hosted_email (xi_email input))) (\<lambda>email.
     act_then (limit_invitations H hs n) (\<lambda>_.
     act_then act_state (\<lambda>s.
     act_then (act_lift (ok_or ApNotFound (hm_get (ss_logbooks s) (xi_logbook_id input)))) (\<lambda>l.
     act_then act_now (\<lambda>now.
     act_then (opaque_token H ''invite'' (hk_logbook_id l)) (\<lambda>token.
     act_then act_uuid (\<lambda>i.
     act_then (case xi_expires_at input of Some t \<Rightarrow> act_return t
       | None \<Rightarrow> later_by H now (hg_invitation_ttl_seconds (ss_config s))) (\<lambda>expires.
     let v = \<lparr>vi_invite_id = i, vi_account_id = hk_account_id l, vi_logbook_id = hk_logbook_id l, vi_invited_email = email,
              vi_role = xi_role input, vi_token_hash = hl_hash H token, vi_legacy_token = [],
              vi_created_by_user_id = Some (hn_user_id n), vi_created_at = Some now, vi_expires_at = expires,
              vi_accepted_at = None, vi_revoked_at = None, vi_last_sent_at = Some now, vi_resend_count = 0\<rparr> in
     act_then (send_account_email H (hg_email (ss_config s)) email ''invitation'' token) (\<lambda>_.
     act_then (act_change (\<lambda>s. s\<lparr>ss_invites := hm_insert i v (ss_invites s)\<rparr>)) (\<lambda>_.
     act_then (push_audit H hs (Some n) ''admin.invitation.create'' ''succeeded'' (Some (lib_show_uuid (hl_libs H) i)) []) (\<lambda>_.
     act_then persist_state (\<lambda>_. act_return (v, token)))))))))))))))"

definition resend_invitation :: "hosted_libs \<Rightarrow> request_headers \<Rightarrow> string \<Rightarrow> (server_invite \<times> string) action" where
  "resend_invitation H hs path =
     act_then (require_instance_admin H hs) (\<lambda>n.
     act_then (path_uuid H path) (\<lambda>i.
     act_then act_state (\<lambda>s0.
     act_then (limit_invitations H hs n) (\<lambda>_.
     act_then act_now (\<lambda>now.
     act_then (opaque_token H ''invite'' i) (\<lambda>token.
     act_then act_state (\<lambda>s.
     act_then (act_lift (ok_or ApNotFound (hm_get (ss_invites s) i))) (\<lambda>v.
     if vi_accepted_at v \<noteq> None \<or> vi_revoked_at v \<noteq> None then act_fail ApTokenExpired
     else
       act_then (act_change (\<lambda>s. s\<lparr>ss_invites := hm_modify i (\<lambda>v. v\<lparr>vi_token_hash := hl_hash H token\<rparr>) (ss_invites s)\<rparr>)) (\<lambda>_.
       act_then (later_by H now (hg_invitation_ttl_seconds (ss_config s0))) (\<lambda>expires.
       let v' = v\<lparr>vi_token_hash := hl_hash H token, vi_expires_at := expires, vi_last_sent_at := Some now,
                  vi_resend_count := (if vi_resend_count v = - 1 then - 1 else vi_resend_count v + 1)\<rparr> in
       act_then (act_change (\<lambda>s. s\<lparr>ss_invites := hm_modify i (\<lambda>_. v') (ss_invites s)\<rparr>)) (\<lambda>_.
       act_then (send_account_email H (hg_email (ss_config s)) (vi_invited_email v) ''invitation'' token) (\<lambda>_.
       act_then (push_audit H hs (Some n) ''admin.invitation.resend'' ''succeeded'' (Some (lib_show_uuid (hl_libs H) i)) []) (\<lambda>_.
       act_then persist_state (\<lambda>_. act_return (v', token)))))))))))))))"

text \<open>Expiring and revoking change one invitation. A body that does not decode counts as empty.\<close>

definition change_invitation :: "hosted_libs \<Rightarrow> request_headers \<Rightarrow> string \<Rightarrow> string \<Rightarrow> (login_session \<Rightarrow> (server_invite \<Rightarrow> server_invite) action) \<Rightarrow> server_invite action" where
  "change_invitation H hs path name change =
     act_then (require_instance_admin H hs) (\<lambda>n.
     act_then (path_uuid H path) (\<lambda>i.
     act_then act_state (\<lambda>s.
     act_then (act_lift (ok_or ApNotFound (hm_get (ss_invites s) i))) (\<lambda>v.
     act_then (change n) (\<lambda>f.
     act_then (act_change (\<lambda>s. s\<lparr>ss_invites := hm_modify i f (ss_invites s)\<rparr>)) (\<lambda>_.
     act_then (push_audit H hs (Some n) name ''succeeded'' (Some (lib_show_uuid (hl_libs H) i)) []) (\<lambda>_.
     act_then persist_state (\<lambda>_. act_return (f v)))))))))"

definition expire_invitation :: "hosted_libs \<Rightarrow> request_headers \<Rightarrow> string \<Rightarrow> string + datetime option \<Rightarrow> server_invite action" where
  "expire_invitation H hs path body =
     change_invitation H hs path ''admin.invitation.expire'' (\<lambda>_.
       case body of
         Inr (Some t) \<Rightarrow> act_return (\<lambda>v. v\<lparr>vi_expires_at := t\<rparr>)
       | _ \<Rightarrow> act_then act_now (\<lambda>now. act_return (\<lambda>v. v\<lparr>vi_expires_at := now\<rparr>)))"

definition revoke_invitation :: "hosted_libs \<Rightarrow> request_headers \<Rightarrow> string \<Rightarrow> server_invite action" where
  "revoke_invitation H hs path =
     change_invitation H hs path ''admin.invitation.revoke'' (\<lambda>_.
       act_then act_now (\<lambda>now. act_return (\<lambda>v. v\<lparr>vi_revoked_at := Some now\<rparr>)))"

end
