(* ===== verification/Spec2Isabelle.thy ===== *)
theory Spec2Isabelle
  imports Log_Claims State_Claims Policy_Claims Sync_Claims Queue_Claims Trust_Claims Cloud_Claims
    Exchange_Claims Upload_Claims Contest_Claims Account_Claims
    Hosted
begin

text \<open>
  A model of the core of KE8YGW-logger, an amateur-radio logbook (\<open>src/crates/ham-core\<close>), and
  its properties.

  The program. Every change of a logbook is an official event, kept in an append-only store in
  which each event carries the hash of the one before it in its logbook. A plugin does not
  write events: it submits a proposal, which the core checks against the plugin's manifest and
  permissions, the operator's role and the schema of the proposal, and turns into an official
  event. What the user sees (contacts, activations, nets, EmComm incidents) are projections
  rebuilt from the events. Runtime events report what happens and never change the log.
  Instances on a LAN find each other, compare heads and pull missing events; what is done
  offline waits in a durable queue; devices are trusted by pairing; when logs diverge an
  operator reviews the conflict. A cloud relay carries logbooks between paired devices; contacts
  are exchanged with other loggers as ADIF and uploaded to online logbooks through a queue.
  Contests are described by versioned, signed definition packs. A hosted account signs the
  installation in; the tokens it is given live in the credential store of the operating system.

  The theories and the code they model.
  \<^item> \<open>Prelude\<close>, \<open>Maps\<close>, \<open>World\<close>: results as sums, strings, decimal numerals, \<open>trim\<close>, the
    standard maps as lists (\<open>BTreeMap\<close> sorted, \<open>HashMap\<close> in any order) behind the locale
    \<open>keyed_store\<close>, and the identifiers and instants a run draws. \<open>Json\<close>: \<open>serde_json::Value\<close>.
  \<^item> \<open>Plugin_Sdk\<close> (\<open>plugin_sdk.rs\<close>): names of proposals and events, capabilities, manifests.
  \<^item> \<open>Event\<close> (\<open>event.rs\<close>): the official event and its hash.
  \<^item> \<open>Store\<close> (\<open>store.rs\<close>): \<open>mem_store\<close> for \<open>InMemoryEventStore\<close>, \<open>jsonl_store\<close> for
    \<open>JsonlEventStore\<close> with its file and the outcome of each write; the locale \<open>event_store\<close>
    is the trait, interpreted by both.
  \<^item> \<open>Projection\<close>, \<open>Net\<close>, \<open>Emcomm\<close> (\<open>projection.rs\<close>, \<open>net.rs\<close>, \<open>emcomm.rs\<close>): the four
    projections; the locale \<open>projection\<close> is what a rebuild shares.
  \<^item> \<open>Bus\<close> (\<open>bus.rs\<close>), \<open>Permissions\<close> (\<open>permissions.rs\<close>), \<open>Proposal\<close> (\<open>proposal.rs\<close>,
    \<open>submit_proposal\<close> with its runtime events), \<open>Submissions\<close> (sequences of submissions).
  \<^item> \<open>Sync\<close> (\<open>sync/mod.rs\<close>): discovery, peers, scan targets, heads, preview and pull.
  \<^item> \<open>Json_File\<close>: a JSON document in a file (\<open>write_json_atomically\<close>, \<open>load_file\<close>, \<open>save_file\<close>,
    \<open>quarantine_file\<close> of \<open>sync/offline.rs\<close>), a disk on which any write may stop at any point,
    and the locale \<open>document\<close> of what all such documents rely on, interpreted by the queue, the
    trust store and the review store.
  \<^item> \<open>Offline_Queue\<close>, \<open>Conflict_Review\<close>, \<open>Lan_Trust\<close> (\<open>sync/offline.rs\<close>): the offline queue with
    its migration and recovery, conflict reports and reviews, trusted devices and the local
    identity. An operation is a change of the document (\<open>_change\<close>), run by \<open>doc_op\<close> between a
    load and a save.
  \<^item> \<open>Cloud\<close> (\<open>sync/mod.rs\<close>, \<open>handle_cloud_pull\<close> of \<open>ham-client/src/serve.rs\<close>): the relay with its
    sessions, what it sends and takes, and the client operations; \<open>Cloud_Push\<close>
    (\<open>run_cloud_push\<close> of \<open>serve.rs\<close>): how a push marks what was queued offline.
  \<^item> \<open>Decimal\<close>, \<open>Float64\<close>: decimal numerals, and \<open>f64\<close> as a rational rounded to binary64, as far as
    frequencies need it. \<open>Adif\<close> (\<open>adif.rs\<close>): parser, export and import.
  \<^item> \<open>Upload\<close> (\<open>upload.rs\<close>): the upload queue; its runs are the labelled transition relation
    \<open>upload_step\<close> of \<open>Upload_Facts\<close>.

  \<^item> \<open>Text\<close>: splitting, character classes, signed numerals. \<open>Contest\<close> (\<open>contest.rs\<close>): definitions
    and their check, exchanges, packs and their signatures, the catalogue, the built-in pack.
  \<^item> \<open>Account\<close> (\<open>sync/account.rs\<close>): the account client. \<open>plan_hosted_account_request\<close> makes the
    request of an action, \<open>apply_hosted_account_response\<close> the new record and the tokens issued,
    and \<open>account_execute\<close> runs both over the durable record, a transport and a secret storage,
    which are parameters. \<open>Account_Runs\<close> has its runs and the locale \<open>hosted_secrets\<close>.
  \<^item> \<open>Credential\<close> (\<open>credential.rs\<close>, the bridge in \<open>ham-client/src/cli.rs\<close>): the store over the
    system keychain, a parameter, and the development store. The locale \<open>credential_store\<close> of
    \<open>Credential_Facts\<close> is the trait; a \<open>sublocale\<close> makes any such store a secret storage for the
    account client, and the keychain store interprets it.

  \<^item> \<open>Hosted_State\<close>, \<open>Hosted\<close> (\<open>ham-server/src/lib.rs\<close>): accounts, sessions, devices, tokens and
    invitations of the hosted server, the tables they are saved in and how, and the handlers as
    \<open>action\<close>s that thread the server and stop at the first error.

  State is passed explicitly; an operation returns its result, a sum whose left side is the
  error, and the new state. Panics are the value \<open>Panicked\<close> of \<open>fault\<close>. Machine integers are
  words where the code wraps, saturates or compares them. Locks and threads are not modelled:
  every call is one step. Third-party code is a parameter: SHA-256 and HMAC, the printing and
  parsing of identifiers, instants and events (the records \<open>libs\<close>, \<open>trust_libs\<close>, \<open>queue_libs\<close>,
  \<open>codec\<close>), the range of the clock library (\<open>chrono\<close>). What a theorem needs of it is a named
  hypothesis: \<open>codec_reads\<close> (a printed document is read back and no proper prefix of it is), \<open>chrono_ok\<close>
  (sums within its range are exact), \<open>exchangeable\<close> (a contact has a call sign and mode, and its
  times, of the years 0 to 9999, are read back by the clock library), \<open>uuid_text_ok\<close>,
  \<open>codec_sound\<close> (a printed document is never read as another), \<open>keychain_ok\<close> (a secret written is
  read back and other targets are untouched), \<open>hosted_secrets\<close> (the same of secret storage),
  absence of digest collisions among the events involved.

  The properties.
  \<^item> \<open>Log_Claims\<close>: the log is append-only whatever is called, tampering is detected, equal heads
    mean equal histories, what a remote event must be, and reopening the file gives the store back.
  \<^item> \<open>State_Claims\<close>: projections depend on a contact's own events, deletion hides without
    losing, rebuilding is incremental, counters are right, message histories and numbers.
  \<^item> \<open>Policy_Claims\<close>: exactly which proposals are accepted and with what event, that
    submissions keep the projections rebuildable, permissions and their defaults, redaction.
  \<^item> \<open>Sync_Claims\<close>: a pull only appends what was sent, catches up, and agrees only when equal;
    peers, their expiry, the scan; what a failed write does to the file.
  \<^item> \<open>Queue_Claims\<close> (lemmas in \<open>Offline_Facts\<close>): nothing is queued twice, sending is in order,
    retries end, a crash during a write loses nothing saved.
  \<^item> \<open>Trust_Claims\<close> (lemmas in \<open>Lan_Facts\<close> and \<open>Conflict_Facts\<close>): the trust store refines a map
    from devices to logbooks, and over any sequence of actions with any failing writes a token
    admits one device and a revoked one stays out; the exact window of replay protection; what
    an operator may decide on a conflict.
  \<^item> \<open>Cloud_Claims\<close> (lemmas in \<open>Cloud_Facts\<close> and \<open>Push_Facts\<close>): only paired devices write to the
    relay, revocation lasts, what one device pushes another one gets, and a push tells the offline
    queue only what is true.
  \<^item> \<open>Exchange_Claims\<close> (lemmas in \<open>Float_Facts\<close> and \<open>Adif_Facts\<close>): an exported log reads back, importing
    it again adds nothing, an import accounts for every record.
  \<^item> \<open>Upload_Claims\<close>: reachable upload queues are well formed, a job has one holder at a time, a settled
    job stays settled, and the key of an upload identifies what is uploaded.
  \<^item> \<open>Contest_Claims\<close> (lemmas in \<open>Contest_Facts\<close>): an accepted exchange is in normal form, the
    catalogue holds the highest rule version whatever the order of packs, a loaded pack is signed
    and usable.
  \<^item> \<open>Account_Claims\<close> (lemmas in \<open>Account_Facts\<close>, \<open>Account_Runs\<close>, \<open>Credential_Facts\<close>): the record
    stays well formed, no secret is orphaned, tokens reach only secret storage, a refusal changes
    what it should, the keychain store is a map and no secret leaves the keychain.
  \<open>Samples\<close> and \<open>Doc_Samples\<close> hold the concrete data of the witnesses.

  Bounds. No definition uses fuel: all recursion is structural or has its measure. The clock
  hypothesis covers instants within 10 to the 24 nanoseconds of the epoch and durations up to a
  billion seconds, more than the default delays (15 minutes and 10 minutes) need.

  Not modelled. Sockets, HTTP and the asynchronous runtime; serde derives (the round trip of a
  value is a hypothesis); the broadcast channel of the bus; two processes writing one file at
  the same time; administration (\<open>sync/admin.rs\<close>), awards, search, lookups and online services,
  which read what is modelled here or talk to a provider; the other routes of the server, the clients, the FFI and
  the user interface, which are surfaces over this core; maps, which compute in floating point.
\<close>

end
